(* ===== verification/Prelude.thy ===== *)
theory Prelude
  imports Main "HOL-Library.Monad_Syntax" "HOL-Library.Multiset"
begin

text \<open>
  What the components share: Rust's strings, integers and slices as HOL values.

  A Rust \<open>String\<close> is a vector of bytes that holds valid UTF-8, and it is modelled as such:
  a HOL \<open>string\<close> whose characters are the bytes.  The byte-level operations of the
  standard library (\<open>starts_with\<close>, \<open>split_once\<close>, \<open>contains\<close>, indexing) are then list
  operations, and the character-level ones (\<open>chars\<close>, \<open>is_control\<close>, \<open>trim\<close>) go through
  \<open>uchars\<close>, which cuts a byte string into the encodings of its characters: a leading
  byte followed by its continuation bytes.  A panic of the source (an index off a
  character boundary, \<open>Vec::remove\<close> out of range) is the value \<open>None\<close>.

  \<open>str::to_lowercase\<close> needs the Unicode case tables; the definitions that use it take it
  as a parameter \<open>lc\<close>.
\<close>

named_theorems rust_str \<open>unfolding rules of the string operations\<close>

named_theorems state_simps \<open>how an operation changes the fields of its state\<close>

section \<open>Lists\<close>

text \<open>\<open>iter_mut().find(p)\<close> followed by an assignment: the first match is rewritten.\<close>

fun update_first :: "('a \<Rightarrow> bool) \<Rightarrow> ('a \<Rightarrow> 'a) \<Rightarrow> 'a list \<Rightarrow> 'a list" where
  "update_first p f [] = []"
| "update_first p f (x # xs) = (if p x then f x # xs else x # update_first p f xs)"

lemma length_update_first [simp]: "length (update_first p f xs) = length xs"
  by (induction xs) auto

lemma update_first_map_inv:
  "(\<And>x. p x \<Longrightarrow> g (f x) = g x) \<Longrightarrow> map g (update_first p f xs) = map g xs"
  by (induction xs) auto

lemma update_first_id: "(\<And>x. x \<in> set xs \<Longrightarrow> \<not> p x) \<Longrightarrow> update_first p f xs = xs"
  by (induction xs) auto

lemma set_update_first:
  "set (update_first p f xs) \<subseteq> set xs \<union> f ` {x \<in> set xs. p x}"
  by (induction xs) auto

lemma list_all_update_first:
  "list_all P xs \<Longrightarrow> (\<And>x. P x \<Longrightarrow> p x \<Longrightarrow> P (f x)) \<Longrightarrow> list_all P (update_first p f xs)"
  by (induction xs) auto

lemma find_update_first:
  "(\<And>x. p x \<Longrightarrow> p (f x)) \<Longrightarrow> find p (update_first p f xs) = map_option f (find p xs)"
  by (induction xs) auto

lemma find_Some_set: "find p xs = Some x \<Longrightarrow> x \<in> set xs \<and> p x"
  by (auto simp: find_Some_iff)

lemma find_map_other:
  "(\<And>x. q x \<Longrightarrow> \<not> p x) \<Longrightarrow> (\<And>x. p x \<Longrightarrow> q (f x) = False) \<Longrightarrow>
   find q (update_first p f xs) = find q xs"
  by (induction xs) auto

lemma map_filter_cong:
  "(\<And>x. x \<in> set xs \<Longrightarrow> f x = g x) \<Longrightarrow> List.map_filter f xs = List.map_filter g xs"
  by (induction xs) (simp_all add: List.map_filter_simps split: option.split)

text \<open>\<open>iter().position(p)\<close>.\<close>

fun position :: "('a \<Rightarrow> bool) \<Rightarrow> 'a list \<Rightarrow> nat option" where
  "position p [] = None"
| "position p (x # xs) = (if p x then Some 0 else map_option Suc (position p xs))"

lemma position_Some:
  "position p xs = Some i \<Longrightarrow> i < length xs \<and> p (xs ! i) \<and> (\<forall>j<i. \<not> p (xs ! j))"
  by (induction xs arbitrary: i) (auto split: if_splits simp: nth_Cons less_Suc_eq_0_disj split: nat.splits)

lemma position_None: "position p xs = None \<longleftrightarrow> (\<forall>x\<in>set xs. \<not> p x)"
  by (induction xs) auto

text \<open>\<open>slice.get(i)\<close>, \<open>slice.swap(i, j)\<close> with both indices in range, and \<open>Vec::remove\<close>,
  which panics out of range.\<close>

definition get_at :: "'a list \<Rightarrow> nat \<Rightarrow> 'a option" where
  "get_at xs i = (if i < length xs then Some (xs ! i) else None)"

definition swap_at :: "nat \<Rightarrow> nat \<Rightarrow> 'a list \<Rightarrow> 'a list" where
  "swap_at i j xs = xs[i := xs ! j, j := xs ! i]"

definition vec_remove :: "nat \<Rightarrow> 'a list \<Rightarrow> 'a list option" where
  "vec_remove i xs = (if i < length xs then Some (take i xs @ drop (Suc i) xs) else None)"

lemma length_swap_at [simp]: "length (swap_at i j xs) = length xs"
  by (simp add: swap_at_def)

lemma mset_swap_at:
  "i < length xs \<Longrightarrow> j < length xs \<Longrightarrow> mset (swap_at i j xs) = mset xs"
  unfolding swap_at_def by (rule mset_swap)

lemma set_swap_at [simp]: "i < length xs \<Longrightarrow> j < length xs \<Longrightarrow> set (swap_at i j xs) = set xs"
  by (metis mset_swap_at set_mset_mset)

lemma map_swap_at: "i < length xs \<Longrightarrow> j < length xs \<Longrightarrow> map f (swap_at i j xs) = swap_at i j (map f xs)"
  by (simp add: swap_at_def map_update)

lemma swap_at_invol:
  "i < length xs \<Longrightarrow> j < length xs \<Longrightarrow> swap_at i j (swap_at j i xs) = xs"
  by (rule nth_equalityI) (auto simp: swap_at_def nth_list_update)

lemma get_at_Some_iff: "get_at xs i = Some x \<longleftrightarrow> i < length xs \<and> x = xs ! i"
  by (auto simp: get_at_def)

lemma vec_remove_Some:
  "vec_remove i xs = Some ys \<longleftrightarrow> i < length xs \<and> ys = take i xs @ drop (Suc i) xs"
  by (auto simp: vec_remove_def)

section \<open>Strings as UTF-8 bytes\<close>

text \<open>A continuation byte has the top bits 10.\<close>

definition is_cont :: "char \<Rightarrow> bool" where
  "is_cont b \<longleftrightarrow> digit7 b \<and> \<not> digit6 b"

definition uchar :: "string \<Rightarrow> bool" where
  "uchar c \<longleftrightarrow> (case c of [] \<Rightarrow> False | b # bs \<Rightarrow> \<not> is_cont b \<and> list_all is_cont bs)"

definition str_ok :: "string \<Rightarrow> bool" where
  "str_ok s \<longleftrightarrow> (case s of [] \<Rightarrow> True | b # _ \<Rightarrow> \<not> is_cont b)"

lemma uchar_simps [simp]:
  "\<not> uchar []" "uchar (b # bs) \<longleftrightarrow> \<not> is_cont b \<and> list_all is_cont bs"
  by (simp_all add: uchar_def)

lemma str_ok_simps [simp]: "str_ok []" "str_ok (b # bs) \<longleftrightarrow> \<not> is_cont b"
  by (simp_all add: str_ok_def)

function uchars :: "string \<Rightarrow> string list" where
  "uchars [] = []"
| "uchars (b # bs) = (b # takeWhile is_cont bs) # uchars (dropWhile is_cont bs)"
  by pat_completeness auto
termination
  by (relation "measure length") (auto simp: le_imp_less_Suc length_dropWhile_le)

lemma concat_uchars [simp]: "concat (uchars s) = s"
  by (induction s rule: uchars.induct) auto

lemma str_ok_dropWhile: "str_ok (dropWhile is_cont bs)"
  by (induction bs) (auto simp: str_ok_def)

lemma uchars_ok: "str_ok s \<Longrightarrow> list_all uchar (uchars s)"
proof (induction s rule: uchars.induct)
  case (2 b bs)
  have "list_all is_cont (takeWhile is_cont bs)"
    by (auto simp: list_all_iff dest: set_takeWhileD)
  moreover have "list_all uchar (uchars (dropWhile is_cont bs))"
    by (rule "2.IH") (rule str_ok_dropWhile)
  ultimately show ?case
    using "2.prems" by simp
qed simp

lemma takeWhile_concat_uchar:
  "list_all uchar cs \<Longrightarrow> takeWhile is_cont (concat cs) = []
   \<and> dropWhile is_cont (concat cs) = concat cs"
  by (cases cs) (auto simp: uchar_def split: list.splits)

lemma uchars_concat [simp]: "list_all uchar cs \<Longrightarrow> uchars (concat cs) = cs"
proof (induction cs)
  case (Cons c cs)
  then obtain b bs where c: "c = b # bs" "\<not> is_cont b" "list_all is_cont bs"
    by (auto simp: uchar_def split: list.splits)
  have tw: "takeWhile is_cont (bs @ concat cs) = bs"
    "dropWhile is_cont (bs @ concat cs) = concat cs"
    using c(3) Cons.prems takeWhile_concat_uchar [of cs]
    by (simp_all add: list_all_iff)
  show ?case using Cons c tw by simp
qed simp

lemma str_ok_concat [simp]: "list_all uchar cs \<Longrightarrow> str_ok (concat cs)"
  by (cases cs) (auto simp: uchar_def str_ok_def split: list.splits)

lemma str_ok_iff_uchars: "str_ok s \<longleftrightarrow> list_all uchar (uchars s)"
  using uchars_ok str_ok_concat concat_uchars by metis

text \<open>\<open>s.chars().count()\<close>.\<close>

definition char_count :: "string \<Rightarrow> nat" where
  "char_count s = length (uchars s)"

lemma uchars_ascii: "list_all (\<lambda>b. \<not> digit7 b) s \<Longrightarrow> uchars s = map (\<lambda>b. [b]) s"
proof (induction s)
  case (Cons b s)
  then have "takeWhile is_cont s = []" "dropWhile is_cont s = s"
    by (cases s; simp add: is_cont_def)+
  with Cons show ?case by simp
qed simp

text \<open>\<open>char::is_control\<close> (category Cc: U+0000-U+001F and U+007F-U+009F), and
  \<open>char::is_whitespace\<close> (the White\_Space property), on the encoding of one character.\<close>

definition is_control :: "string \<Rightarrow> bool" where
  "is_control c \<longleftrightarrow>
     (case c of
        [b] \<Rightarrow> of_char b < (32::nat) \<or> of_char b = (127::nat)
      | [b1, b2] \<Rightarrow> of_char b1 = (194::nat) \<and> of_char b2 < (160::nat)
      | _ \<Rightarrow> False)"

definition is_whitespace :: "string \<Rightarrow> bool" where
  "is_whitespace c \<longleftrightarrow>
     (case map of_char c of
        [b] \<Rightarrow> (9::nat) \<le> b \<and> b \<le> 13 \<or> b = 32
      | [b1, b2] \<Rightarrow> b1 = 194 \<and> (b2 = 133 \<or> b2 = 160)
      | [b1, b2, b3] \<Rightarrow>
          b1 = 225 \<and> b2 = 154 \<and> b3 = 128
          \<or> b1 = 226 \<and> b2 = 128 \<and> (b3 \<le> 138 \<or> b3 = 168 \<or> b3 = 169 \<or> b3 = 175)
          \<or> b1 = 226 \<and> b2 = 129 \<and> b3 = 159
          \<or> b1 = 227 \<and> b2 = 128 \<and> b3 = 128
      | _ \<Rightarrow> False)"

definition trim :: "string \<Rightarrow> string" where
  "trim s = concat (rev (dropWhile is_whitespace (rev (dropWhile is_whitespace (uchars s)))))"

lemma trim_ascii:
  assumes "list_all (\<lambda>b. \<not> digit7 b) s" and "s \<noteq> []"
    and "\<not> is_whitespace [hd s]" and "\<not> is_whitespace [last s]"
  shows "trim s = s"
proof -
  have dw: "dropWhile P xs = xs" if "xs \<noteq> []" "\<not> P (hd xs)" for P and xs :: "string list"
    using that by (cases xs) auto
  have "dropWhile is_whitespace (uchars s) = map (\<lambda>b. [b]) s"
    using assms by (simp add: uchars_ascii dw hd_map)
  moreover have "dropWhile is_whitespace (rev (map (\<lambda>b. [b]) s)) = rev (map (\<lambda>b. [b]) s)"
    using assms by (intro dw) (simp_all add: hd_rev last_map)
  ultimately show ?thesis by (simp add: trim_def)
qed

section \<open>Byte-level searching\<close>

definition starts_with :: "string \<Rightarrow> string \<Rightarrow> bool" where
  "starts_with p s \<longleftrightarrow> take (length p) s = p"

definition strip_prefix :: "string \<Rightarrow> string \<Rightarrow> string option" where
  "strip_prefix p s = (if starts_with p s then Some (drop (length p) s) else None)"

text \<open>\<open>s.find(p)\<close> for a non-empty pattern, \<open>s.contains(p)\<close>, and the splits at a byte.\<close>

fun str_find :: "string \<Rightarrow> string \<Rightarrow> nat option" where
  "str_find p [] = (if p = [] then Some 0 else None)"
| "str_find p (b # s) =
     (if starts_with p (b # s) then Some 0 else map_option Suc (str_find p s))"

definition str_contains :: "string \<Rightarrow> string \<Rightarrow> bool" where
  "str_contains p s \<longleftrightarrow> str_find p s \<noteq> None"

fun split_once :: "char \<Rightarrow> string \<Rightarrow> (string \<times> string) option" where
  "split_once c [] = None"
| "split_once c (x # s) =
     (if x = c then Some ([], s) else map_option (\<lambda>(a, b). (x # a, b)) (split_once c s))"

definition rsplit_once :: "char \<Rightarrow> string \<Rightarrow> (string \<times> string) option" where
  "rsplit_once c s = map_option (\<lambda>(r, l). (rev l, rev r)) (split_once c (rev s))"

fun split_on :: "(char \<Rightarrow> bool) \<Rightarrow> string \<Rightarrow> string list" where
  "split_on p [] = [[]]"
| "split_on p (b # s) =
     (if p b then [] # split_on p s
      else case split_on p s of [] \<Rightarrow> [[b]] | w # ws \<Rightarrow> (b # w) # ws)"

lemma split_on_nonempty [simp]: "split_on p s \<noteq> []"
  by (cases s) (auto split: list.splits)

lemma hd_split_on: "hd (split_on p s) = takeWhile (\<lambda>b. \<not> p b) s"
  by (induction s) (auto split: list.splits)

lemma split_once_Some:
  "split_once c s = Some (a, b) \<longleftrightarrow> s = a @ c # b \<and> c \<notin> set a"
proof (induction s arbitrary: a)
  case (Cons x s)
  show ?case by (cases a) (use Cons in \<open>auto split: option.splits\<close>)
qed simp

lemma split_once_None: "split_once c s = None \<longleftrightarrow> c \<notin> set s"
  by (induction s) auto

lemma rsplit_once_Some: "rsplit_once c s = Some (a, b) \<longleftrightarrow> s = a @ c # b \<and> c \<notin> set b"
proof -
  have "rsplit_once c s = Some (a, b) \<longleftrightarrow> split_once c (rev s) = Some (rev b, rev a)"
    by (auto simp: rsplit_once_def)
  also have "\<dots> \<longleftrightarrow> rev s = rev b @ c # rev a \<and> c \<notin> set b"
    by (simp add: split_once_Some)
  also have "rev s = rev b @ c # rev a \<longleftrightarrow> s = a @ c # b"
    by (metis append.assoc append_Cons append_Nil rev.simps(2) rev_append rev_rev_ident)
  finally show ?thesis .
qed

lemma rsplit_once_None: "rsplit_once c s = None \<longleftrightarrow> c \<notin> set s"
  by (simp add: rsplit_once_def split_once_None)

lemma starts_with_iff: "starts_with p s \<longleftrightarrow> (\<exists>r. s = p @ r)"
  unfolding starts_with_def by (metis append_eq_conv_conj append_take_drop_id)

lemma starts_with_simps:
  "starts_with [] s" "\<not> starts_with (a # p) []"
  "starts_with (a # p) (b # s) \<longleftrightarrow> a = b \<and> starts_with p s"
  by (auto simp: starts_with_def)

lemma strip_prefix_Some: "strip_prefix p s = Some r \<longleftrightarrow> s = p @ r"
  by (auto simp: strip_prefix_def starts_with_iff)

text \<open>\<open>str::eq_ignore_ascii_case\<close> and ASCII lower-casing, byte by byte.\<close>

definition ascii_lower :: "char \<Rightarrow> char" where
  "ascii_lower b =
     (if (65::nat) \<le> of_char b \<and> of_char b \<le> (90::nat)
      then Char (digit0 b) (digit1 b) (digit2 b) (digit3 b) (digit4 b) True (digit6 b) (digit7 b)
      else b)"

definition eq_ignore_ascii_case :: "string \<Rightarrow> string \<Rightarrow> bool" where
  "eq_ignore_ascii_case a b \<longleftrightarrow> map ascii_lower a = map ascii_lower b"

section \<open>Integers\<close>

definition is_digit :: "char \<Rightarrow> bool" where
  "is_digit b \<longleftrightarrow> (48::nat) \<le> of_char b \<and> of_char b \<le> (57::nat)"

definition digits_value :: "string \<Rightarrow> nat" where
  "digits_value s = foldl (\<lambda>n b. 10 * n + (of_char b - 48)) 0 s"

text \<open>\<open>str::parse\<close> for the unsigned and signed integer types: an optional sign (only
  \<open>+\<close> for unsigned types), at least one digit, and no overflow of the type.\<close>

definition parse_nat :: "string \<Rightarrow> nat option" where
  "parse_nat s = (if s \<noteq> [] \<and> list_all is_digit s then Some (digits_value s) else None)"

definition parse_unsigned :: "nat \<Rightarrow> string \<Rightarrow> nat option" where
  "parse_unsigned bits s =
     (case parse_nat (case s of [] \<Rightarrow> [] | b # r \<Rightarrow> if b = CHR ''+'' then r else b # r) of
        None \<Rightarrow> None
      | Some n \<Rightarrow> if n < 2 ^ bits then Some n else None)"

definition parse_i32 :: "string \<Rightarrow> int option" where
  "parse_i32 s =
     (case s of
        [] \<Rightarrow> None
      | b # r \<Rightarrow>
          (case parse_nat (if b = CHR ''+'' \<or> b = CHR ''-'' then r else s) of
             None \<Rightarrow> None
           | Some n \<Rightarrow>
               (let v = (if b = CHR ''-'' then - int n else int n)
                in if - (2 ^ 31) \<le> v \<and> v < 2 ^ 31 then Some v else None)))"

definition parse_i64 :: "string \<Rightarrow> int option" where
  "parse_i64 s =
     (case s of
        [] \<Rightarrow> None
      | b # r \<Rightarrow>
          (case parse_nat (if b = CHR ''+'' \<or> b = CHR ''-'' then r else s) of
             None \<Rightarrow> None
           | Some n \<Rightarrow>
               (let v = (if b = CHR ''-'' then - int n else int n)
                in if - (2 ^ 63) \<le> v \<and> v < 2 ^ 63 then Some v else None)))"

text \<open>\<open>Display\<close> for integers.\<close>

function show_nat :: "nat \<Rightarrow> string" where
  "show_nat n = (if n < 10 then [char_of (48 + n)] else show_nat (n div 10) @ [char_of (48 + n mod 10)])"
  by pat_completeness auto
termination
  by (relation "measure id") auto

declare show_nat.simps [simp del]

definition show_int :: "int \<Rightarrow> string" where
  "show_int i = (if i < 0 then CHR ''-'' # show_nat (nat (- i)) else show_nat (nat i))"

end
