(* ===== verification/LogFmt.thy ===== *)
theory LogFmt
  imports Prelude
begin

text \<open>
  \<open>src/logfmt.rs\<close>: the log line format shared by the core and the TUI, and the line that
  \<open>FileLogger::write_locked\<close> of \<open>src/logger.rs\<close> writes in it.
\<close>

section \<open>Levels\<close>

datatype Level = Error | Warn | Info | Debug | Trace

text \<open>The discriminants; \<open>Level\<close> derives its order from them.\<close>

fun level_rank :: "Level \<Rightarrow> nat" where
  "level_rank Error = 0"
| "level_rank Warn = 1"
| "level_rank Info = 2"
| "level_rank Debug = 3"
| "level_rank Trace = 4"

lemma level_rank_inj: "level_rank a = level_rank b \<Longrightarrow> a = b"
  by (cases a; cases b) simp_all

instantiation Level :: linorder
begin

definition less_eq_Level :: "Level \<Rightarrow> Level \<Rightarrow> bool" where
  "less_eq_Level a b \<longleftrightarrow> level_rank a \<le> level_rank b"

definition less_Level :: "Level \<Rightarrow> Level \<Rightarrow> bool" where
  "less_Level a b \<longleftrightarrow> level_rank a < level_rank b"

instance
  by standard (auto simp: less_eq_Level_def less_Level_def intro: level_rank_inj)

end

fun level_tag :: "Level \<Rightarrow> string" where
  "level_tag Error = ''ERRO''"
| "level_tag Warn = ''WARN''"
| "level_tag Info = ''INFO''"
| "level_tag Debug = ''DEBU''"
| "level_tag Trace = ''TRAC''"

definition from_tag :: "string \<Rightarrow> Level option" where
  "from_tag tag =
     (let t = map ascii_lower tag in
      if t = ''erro'' \<or> t = ''error'' \<or> t = ''fata'' \<or> t = ''fatal'' then Some Error
      else if t = ''warn'' \<or> t = ''warning'' then Some Warn
      else if t = ''info'' then Some Info
      else if t = ''debu'' \<or> t = ''debug'' then Some Debug
      else if t = ''trac'' \<or> t = ''trace'' then Some Trace
      else None)"

section \<open>Parsing\<close>

record LogLine =
  ll_timestamp :: "string option"
  ll_time :: string
  ll_level :: "Level option"
  ll_tag :: "string option"
  ll_message :: string

definition trim_start :: "string \<Rightarrow> string" where
  "trim_start s = concat (dropWhile is_whitespace (uchars s))"

text \<open>\<open>rest.splitn(2, char::is\_whitespace)\<close>: the first word, and what follows the first
  whitespace character.\<close>

definition first_word :: "string \<Rightarrow> string" where
  "first_word s = concat (takeWhile (\<lambda>c. \<not> is_whitespace c) (uchars s))"

definition after_word :: "string \<Rightarrow> string" where
  "after_word s = concat (tl (dropWhile (\<lambda>c. \<not> is_whitespace c) (uchars s)))"

definition split_level :: "string \<Rightarrow> Level option \<times> string option \<times> string" where
  "split_level rest0 =
     (let rest = trim_start rest0;
          bracketed = do {
            stripped \<leftarrow> strip_prefix ''['' rest;
            (tag, tail) \<leftarrow> split_once (CHR '']'') stripped;
            level \<leftarrow> from_tag tag;
            Some (Some level, Some tag, trim_start tail) }
      in case bracketed of
           Some r \<Rightarrow> r
         | None \<Rightarrow>
             (case from_tag (first_word rest) of
                Some level \<Rightarrow> (Some level, Some (first_word rest), trim_start (after_word rest))
              | None \<Rightarrow> (None, None, rest)))"

text \<open>The format strings \<open>dddd/dd/dd dd:dd:dd\<close> and \<open>dd:dd:dd\<close>, checked byte by byte.\<close>

definition matches_format :: "string \<Rightarrow> string \<Rightarrow> bool" where
  "matches_format pat s \<longleftrightarrow>
     list_all2 (\<lambda>p b. if p = CHR ''d'' then is_digit b else b = p) pat s"

definition looks_like_timestamp :: "string \<Rightarrow> bool" where
  "looks_like_timestamp s \<longleftrightarrow> matches_format ''dddd/dd/dd dd:dd:dd'' s"

definition looks_like_time :: "string \<Rightarrow> bool" where
  "looks_like_time s \<longleftrightarrow> matches_format ''dd:dd:dd'' s"

text \<open>
  \<open>line.get(0..n)\<close> is \<open>None\<close> when the line is shorter or \<open>n\<close> is not a character boundary;
  both reads below also require the byte at \<open>n\<close> to be a space, which is a boundary.
\<close>

definition get_prefix :: "nat \<Rightarrow> string \<Rightarrow> string option" where
  "get_prefix n s =
     (if n = length s \<or> n < length s \<and> \<not> is_cont (s ! n) then Some (take n s) else None)"

definition parse_undated :: "string \<Rightarrow> LogLine" where
  "parse_undated line =
     (let timed = (case get_prefix 8 line of
            Some ts \<Rightarrow> looks_like_time ts \<and> get_at line 8 = Some (CHR '' '')
          | None \<Rightarrow> False);
          (level, tag, message) = split_level (if timed then trim_start (drop 9 line) else line)
      in \<lparr>ll_timestamp = None, ll_time = (if timed then take 8 line else []), ll_level = level,
          ll_tag = tag, ll_message = message\<rparr>)"

definition parse :: "string \<Rightarrow> LogLine" where
  "parse line =
     (case get_prefix 19 line of
        Some ts \<Rightarrow>
          if looks_like_timestamp ts \<and> get_at line 19 = Some (CHR '' '')
          then (let (level, tag, message) = split_level (trim_start (drop 19 line))
                in \<lparr>ll_timestamp = Some ts, ll_time = drop 11 ts, ll_level = level,
                    ll_tag = tag, ll_message = message\<rparr>)
          else parse_undated line
      | None \<Rightarrow> parse_undated line)"

text \<open>The line \<open>write\_locked\<close> appends, without its newline.\<close>

definition format_line :: "string \<Rightarrow> Level \<Rightarrow> string \<Rightarrow> string" where
  "format_line ts level args = ts @ '' ['' @ level_tag level @ ''] '' @ args"

section \<open>Reading back what was written\<close>

lemma from_tag_level_tag [simp]: "from_tag (level_tag l) = Some l"
  by (cases l) (simp_all add: from_tag_def ascii_lower_def Let_def)

lemma trim_start_ascii:
  assumes "str_ok s" and "\<not> digit7 b"
  shows "trim_start (b # s) = (if is_whitespace [b] then trim_start s else b # s)"
proof -
  have "takeWhile is_cont s = []" "dropWhile is_cont s = s"
    using takeWhile_concat_uchar [OF uchars_ok [OF assms(1)]] by simp_all
  then have "uchars (b # s) = [b] # uchars s" by simp
  then show ?thesis by (simp add: trim_start_def)
qed

lemma split_once_append:
  "c \<notin> set a \<Longrightarrow> split_once c (a @ c # b) = Some (a, b)"
  by (simp add: split_once_Some)

lemma bracket_notin_tag: "CHR '']'' \<notin> set (level_tag l)"
  by (cases l) simp_all

lemma split_level_bracketed:
  assumes "str_ok msg" and "trim_start msg = msg"
  shows "split_level (''['' @ level_tag l @ ''] '' @ msg) = (Some l, Some (level_tag l), msg)"
proof -
  let ?r = "''['' @ level_tag l @ ''] '' @ msg"
  have ok: "str_ok (level_tag l @ ''] '' @ msg)"
    by (cases l) (simp_all add: is_cont_def)
  have rest: "trim_start ?r = ?r"
    using trim_start_ascii [OF ok, of "CHR ''[''"] by (simp add: is_whitespace_def)
  have tail: "trim_start ('' '' @ msg) = msg"
    using trim_start_ascii [OF assms(1), of "CHR '' ''"] assms(2) by (simp add: is_whitespace_def)
  have so: "split_once (CHR '']'') (level_tag l @ ''] '' @ msg) = Some (level_tag l, '' '' @ msg)"
    using split_once_append [OF bracket_notin_tag, of l "'' '' @ msg"] by simp
  have sp: "strip_prefix ''['' ?r = Some (level_tag l @ ''] '' @ msg)"
    by (simp add: strip_prefix_Some)
  show ?thesis
    unfolding split_level_def Let_def rest sp using so tail by simp
qed

lemma length_timestamp: "looks_like_timestamp ts \<Longrightarrow> length ts = 19"
  unfolding looks_like_timestamp_def matches_format_def
  by (drule list_all2_lengthD) simp

text \<open>A line the logger writes is read back with its timestamp, time, level, tag and message.\<close>

theorem parse_format_line:
  assumes "looks_like_timestamp ts" and "str_ok msg" and "trim_start msg = msg"
  shows "parse (format_line ts l msg)
    = \<lparr>ll_timestamp = Some ts, ll_time = drop 11 ts, ll_level = Some l,
       ll_tag = Some (level_tag l), ll_message = msg\<rparr>"
proof -
  let ?line = "format_line ts l msg"
  have len: "length ts = 19" by (rule length_timestamp) fact
  have pre: "get_prefix 19 ?line = Some ts"
    using len by (simp add: get_prefix_def format_line_def nth_append is_cont_def)
  have sp: "get_at ?line 19 = Some (CHR '' '')"
    using len by (simp add: get_at_def format_line_def nth_append)
  have ok: "str_ok (''['' @ level_tag l @ ''] '' @ msg)" by (simp add: is_cont_def)
  have okt: "str_ok (level_tag l @ ''] '' @ msg)"
    by (cases l) (simp_all add: is_cont_def)
  have rest: "trim_start (drop 19 ?line) = ''['' @ level_tag l @ ''] '' @ msg"
    using len trim_start_ascii [OF ok, of "CHR '' ''"] trim_start_ascii [OF okt, of "CHR ''[''"]
    by (simp add: format_line_def is_whitespace_def)
  show ?thesis
    unfolding parse_def pre using assms(1) sp rest split_level_bracketed [OF assms(2,3), of l]
    by simp
qed

theorem parse_format_line_witness:
  "parse (format_line ''2026/10/31 13:37:11'' Warn ''xray stopped'')
    = \<lparr>ll_timestamp = Some ''2026/10/31 13:37:11'', ll_time = ''13:37:11'', ll_level = Some Warn,
       ll_tag = Some ''WARN'', ll_message = ''xray stopped''\<rparr>"
proof -
  have "looks_like_timestamp ''2026/10/31 13:37:11''"
    by (simp add: looks_like_timestamp_def matches_format_def is_digit_def)
  moreover have "str_ok ''xray stopped''" by (simp add: is_cont_def)
  moreover have "trim_start ''xray stopped'' = ''xray stopped''"
    by (simp add: trim_start_def is_cont_def is_whitespace_def)
  ultimately show ?thesis
    using parse_format_line [of "''2026/10/31 13:37:11''" "''xray stopped''" Warn] by simp
qed

end
