(* ===== verification/UrlDecode.thy ===== *)
theory UrlDecode
  imports Prelude
begin

text \<open>
  Percent decoding, which the source has twice with the same body:
  \<open>src/deeplink/parse.rs:url\_decode\<close> and \<open>src/ui/uri.rs:urlencoding\<close>.  The loop produces
  bytes (\<open>url\_decode\_bytes\<close>), which \<open>String::from\_utf8\_lossy\<close> turns into a string: every
  maximal ill-formed piece becomes U+FFFD.
\<close>

section \<open>Two hexadecimal digits\<close>

definition hex_digit :: "char \<Rightarrow> nat option" where
  "hex_digit b =
     (let n = of_char b in
      if (48::nat) \<le> n \<and> n \<le> 57 then Some (n - 48)
      else if 97 \<le> n \<and> n \<le> 102 then Some (n - 87)
      else if 65 \<le> n \<and> n \<le> 70 then Some (n - 55)
      else None)"

text \<open>
  \<open>u8::from\_str\_radix(s, 16)\<close> on two bytes.  A leading \<open>+\<close> is a sign for \<open>from\_str\_radix\<close>,
  so \<open>+5\<close> is read as 5.
\<close>

definition radix16_2 :: "char \<Rightarrow> char \<Rightarrow> char option" where
  "radix16_2 a b =
     (if a = CHR ''+'' then map_option char_of (hex_digit b)
      else do { x \<leftarrow> hex_digit a; y \<leftarrow> hex_digit b; Some (char_of (16 * x + y)) })"

section \<open>The loop\<close>

function url_decode_bytes :: "string \<Rightarrow> string" where
  "url_decode_bytes [] = []"
| "url_decode_bytes (b # r) =
     (case (if b = CHR 0x25 \<and> 2 \<le> length r then radix16_2 (r ! 0) (r ! 1) else None) of
        Some d \<Rightarrow> d # url_decode_bytes (drop 2 r)
      | None \<Rightarrow> (if b = CHR ''+'' then CHR '' '' else b) # url_decode_bytes r)"
  by pat_completeness auto
termination
  by (relation "measure length") auto

declare url_decode_bytes.simps(2) [simp del]

section \<open>Lossy UTF-8\<close>

text \<open>The length of the well-formed character at the head, or of the ill-formed piece
  (with \<open>False\<close>).\<close>

definition in_seg :: "nat \<Rightarrow> nat \<Rightarrow> char option \<Rightarrow> bool" where
  "in_seg lo hi c = (case c of None \<Rightarrow> False | Some b \<Rightarrow> lo \<le> of_char b \<and> of_char b \<le> hi)"

definition utf8_head :: "string \<Rightarrow> bool \<times> nat" where
  "utf8_head s =
     (let b = (of_char (hd s) :: nat);
          two = (\<lambda>lo hi. in_seg lo hi (get_at s 1));
          cont = (\<lambda>i. in_seg 128 191 (get_at s i))
      in if b < 128 then (True, 1)
         else if 194 \<le> b \<and> b \<le> 223 then (if cont 1 then (True, 2) else (False, 1))
         else if 224 \<le> b \<and> b \<le> 239 then
           (let lo = (if b = 224 then 160 else 128); hi = (if b = 237 then 159 else 191)
            in if two lo hi then (if cont 2 then (True, 3) else (False, 2)) else (False, 1))
         else if 240 \<le> b \<and> b \<le> 244 then
           (let lo = (if b = 240 then 144 else 128); hi = (if b = 244 then 143 else 191)
            in if two lo hi
               then (if cont 2 then (if cont 3 then (True, 4) else (False, 3)) else (False, 2))
               else (False, 1))
         else (False, 1))"

definition replacement :: string where
  "replacement = [CHR 0xEF, CHR 0xBF, CHR 0xBD]"

function from_utf8_lossy :: "string \<Rightarrow> string" where
  "from_utf8_lossy [] = []"
| "from_utf8_lossy (b # r) =
     (case utf8_head (b # r) of
        (True, n) \<Rightarrow> take n (b # r) @ from_utf8_lossy (drop (n - 1) r)
      | (False, n) \<Rightarrow> replacement @ from_utf8_lossy (drop (n - 1) r))"
  by pat_completeness auto
termination
  by (relation "measure length") auto

declare from_utf8_lossy.simps(2) [simp del]

text \<open>Well-formed UTF-8: no head is ill-formed.\<close>

function utf8_valid :: "string \<Rightarrow> bool" where
  "utf8_valid [] = True"
| "utf8_valid (b # r) =
     (fst (utf8_head (b # r)) \<and> utf8_valid (drop (snd (utf8_head (b # r)) - 1) r))"
  by pat_completeness auto
termination
  by (relation "measure length") auto

declare utf8_valid.simps(2) [simp del]

lemma utf8_head_pos: "0 < snd (utf8_head s)"
  by (simp add: utf8_head_def Let_def)

lemma from_utf8_lossy_valid [simp]: "utf8_valid s \<Longrightarrow> from_utf8_lossy s = s"
proof (induction s rule: utf8_valid.induct)
  case (2 b r)
  obtain ok n where h: "utf8_head (b # r) = (ok, n)" by (cases "utf8_head (b # r)")
  have "0 < n" using utf8_head_pos [of "b # r"] h by simp
  moreover have "ok" and "utf8_valid (drop (n - 1) r)"
    using "2.prems" h by (simp_all add: utf8_valid.simps(2))
  ultimately show ?case
    using "2.IH" h by (cases n) (simp_all add: from_utf8_lossy.simps(2))
qed simp

lemma lossy_ascii:
  assumes "\<not> digit7 b"
  shows "from_utf8_lossy (b # s) = b # from_utf8_lossy s"
proof -
  have "(of_char b :: nat) < 128"
    using assms by (cases b) (simp add: of_char_def)
  then show ?thesis by (simp add: from_utf8_lossy.simps(2) utf8_head_def)
qed

lemma utf8_valid_ascii: "list_all (\<lambda>b. \<not> digit7 b) s \<Longrightarrow> utf8_valid s"
proof (induction s)
  case (Cons b s)
  have "(of_char b :: nat) < 128"
    using Cons.prems by (cases b) (simp add: of_char_def)
  with Cons show ?case by (simp add: utf8_valid.simps(2) utf8_head_def)
qed simp

definition url_decode :: "string \<Rightarrow> string" where
  "url_decode s = from_utf8_lossy (url_decode_bytes s)"

section \<open>Decoding what was encoded\<close>

text \<open>Upper-case percent encoding of every byte, the most conservative encoder.\<close>

definition hex_char :: "nat \<Rightarrow> char" where
  "hex_char n = (if n < 10 then char_of (48 + n) else char_of (55 + n))"

definition percent_encode :: "string \<Rightarrow> string" where
  "percent_encode s =
     concat (map (\<lambda>b. [CHR 0x25, hex_char (of_char b div 16), hex_char (of_char b mod 16)]) s)"

lemma of_char_hex_char: "n < 16 \<Longrightarrow> (of_char (hex_char n) :: nat) = (if n < 10 then 48 + n else 55 + n)"
  by (simp add: hex_char_def)

lemma hex_char_set: "n < 16 \<Longrightarrow> hex_char n \<in> set ''0123456789ABCDEF''"
proof -
  have "\<forall>n \<in> set [0..<16]. hex_char n \<in> set ''0123456789ABCDEF''" by code_simp
  then show "n < 16 \<Longrightarrow> hex_char n \<in> set ''0123456789ABCDEF''" by simp
qed

lemma set_percent_encode: "b \<in> set (percent_encode s) \<Longrightarrow> b \<in> set ''%0123456789ABCDEF''"
proof -
  assume "b \<in> set (percent_encode s)"
  then obtain c :: char where "b = CHR 0x25 \<or> b = hex_char (of_char c div 16) \<or> b = hex_char (of_char c mod 16)"
    by (auto simp: percent_encode_def split: if_splits)
  moreover have "(of_char c :: nat) div 16 < 16"
    by (rule less_mult_imp_div_less) simp
  ultimately show ?thesis
    using hex_char_set [of "of_char c div 16"] hex_char_set [of "of_char c mod 16"] by auto
qed

lemma percent_encode_ascii: "list_all (\<lambda>b. \<not> digit7 b) (percent_encode s)"
  unfolding list_all_iff
proof
  fix b assume "b \<in> set (percent_encode s)"
  then have "b \<in> set ''%0123456789ABCDEF''" by (rule set_percent_encode)
  then show "\<not> digit7 b" by auto
qed

lemma hex_digit_hex_char: "n < 16 \<Longrightarrow> hex_digit (hex_char n) = Some n"
  by (auto simp: hex_digit_def Let_def of_char_hex_char)

lemma hex_char_not_plus: "n < 16 \<Longrightarrow> hex_char n \<noteq> CHR ''+''"
proof
  assume n: "n < 16" and h: "hex_char n = CHR ''+''"
  from h have "(of_char (hex_char n) :: nat) = of_char (CHR ''+'')" by simp
  then show False using n by (simp add: of_char_hex_char split: if_splits)
qed

lemma radix16_2_hex_char:
  "radix16_2 (hex_char (of_char b div 16)) (hex_char (of_char b mod 16)) = Some b"
proof -
  have lt: "(of_char b :: nat) < 256" by (rule nat_of_char_less_256)
  have "(of_char b :: nat) div 16 < 16"
    by (rule less_mult_imp_div_less) (use lt in simp)
  then show ?thesis
    by (simp add: radix16_2_def hex_char_not_plus hex_digit_hex_char)
qed

lemma url_decode_bytes_encode:
  "url_decode_bytes (percent_encode s @ t) = s @ url_decode_bytes t"
proof (induction s)
  case (Cons b s)
  let ?h = "hex_char (of_char b div 16)" and ?l = "hex_char (of_char b mod 16)"
  have "url_decode_bytes (percent_encode (b # s) @ t)
      = url_decode_bytes (CHR 0x25 # ?h # ?l # (percent_encode s @ t))"
    by (simp add: percent_encode_def)
  also have "\<dots> = b # url_decode_bytes (percent_encode s @ t)"
    by (simp add: url_decode_bytes.simps(2) radix16_2_hex_char)
  finally show ?case using Cons by simp
qed (simp add: percent_encode_def)

text \<open>percent decoding inverts percent encoding on every byte string, so a well-formed
  UTF-8 text comes back unchanged from a link.\<close>

theorem url_decode_roundtrip:
  "url_decode_bytes (percent_encode s) = s \<and> url_decode (percent_encode s) = from_utf8_lossy s"
  using url_decode_bytes_encode [of s "[]"] by (simp add: url_decode_def)

lemma url_decode_encode_valid: "utf8_valid s \<Longrightarrow> url_decode (percent_encode s) = s"
  using url_decode_bytes_encode [of s "[]"] by (simp add: url_decode_def)

text \<open>A byte that is neither \<open>%\<close> nor \<open>+\<close> is copied.\<close>

lemma url_decode_bytes_plain:
  "list_all (\<lambda>b. b \<noteq> CHR 0x25 \<and> b \<noteq> CHR ''+'') s \<Longrightarrow> url_decode_bytes (s @ t) = s @ url_decode_bytes t"
  by (induction s) (simp_all add: url_decode_bytes.simps(2))

text \<open>The length never grows: the buffer allocated with the input's length suffices.\<close>

lemma length_url_decode_bytes: "length (url_decode_bytes s) \<le> length s"
proof (induction s rule: url_decode_bytes.induct)
  case (2 b r)
  then show ?case
    by (auto simp: url_decode_bytes.simps(2) split: option.splits)
qed simp

end
