(* ===== verification/Json.thy ===== *)
theory Json
  imports Prelude
begin

text \<open>
  JSON values (\<open>serde_json::Value\<close>) and the rules by which serde's derived decoders read a
  struct from an object: a field is looked up by its (renamed) key, unknown keys are
  ignored, a missing field takes its \<open>default\<close> if the struct declares one, is \<open>None\<close> for
  an \<open>Option\<close>, and is an error otherwise; a present field must have the right shape, and
  an integer must fit its type.  Encoding writes the fields in order, leaving out those
  whose \<open>skip\_serializing\_if\<close> condition holds.

  A decoder returns \<open>None\<close> for an error; the texts of serde's error messages are only
  logged by the source and are not modelled.  Decoding a struct positionally from a JSON
  array, which the derived decoders accept as well, is not modelled: the core sends objects.
\<close>

datatype json =
    JNull
  | JBool bool
  | JInt int
  | JFloat string
  | JStr string
  | JArr "json list"
  | JObj "(string \<times> json) list"

type_synonym fields = "(string \<times> json) list"

section \<open>Scalars\<close>

fun dec_bool :: "json \<Rightarrow> bool option" where
  "dec_bool (JBool b) = Some b"
| "dec_bool _ = None"

fun dec_str :: "json \<Rightarrow> string option" where
  "dec_str (JStr s) = Some s"
| "dec_str _ = None"

text \<open>An integer in the half-open range \<open>[lo, hi)\<close>.\<close>

fun dec_int :: "int \<Rightarrow> int \<Rightarrow> json \<Rightarrow> int option" where
  "dec_int lo hi (JInt n) = (if lo \<le> n \<and> n < hi then Some n else None)"
| "dec_int lo hi _ = None"

definition in_i32 :: "int \<Rightarrow> bool" where
  "in_i32 n \<longleftrightarrow> - (2 ^ 31) \<le> n \<and> n < 2 ^ 31"

definition in_i64 :: "int \<Rightarrow> bool" where
  "in_i64 n \<longleftrightarrow> - (2 ^ 63) \<le> n \<and> n < 2 ^ 63"

definition in_u32 :: "int \<Rightarrow> bool" where
  "in_u32 n \<longleftrightarrow> 0 \<le> n \<and> n < 2 ^ 32"

definition dec_i32 :: "json \<Rightarrow> int option" where
  "dec_i32 = dec_int (- (2 ^ 31)) (2 ^ 31)"

definition dec_i64 :: "json \<Rightarrow> int option" where
  "dec_i64 = dec_int (- (2 ^ 63)) (2 ^ 63)"

definition dec_u32 :: "json \<Rightarrow> int option" where
  "dec_u32 = dec_int 0 (2 ^ 32)"

definition dec_usize :: "json \<Rightarrow> nat option" where
  "dec_usize j = map_option nat (dec_int 0 (2 ^ 64) j)"

section \<open>Lists, options, fields\<close>

fun dec_all :: "(json \<Rightarrow> 'a option) \<Rightarrow> json list \<Rightarrow> 'a list option" where
  "dec_all d [] = Some []"
| "dec_all d (j # js) = do { x \<leftarrow> d j; xs \<leftarrow> dec_all d js; Some (x # xs) }"

fun dec_list :: "(json \<Rightarrow> 'a option) \<Rightarrow> json \<Rightarrow> 'a list option" where
  "dec_list d (JArr js) = dec_all d js"
| "dec_list d _ = None"

fun dec_option :: "(json \<Rightarrow> 'a option) \<Rightarrow> json \<Rightarrow> 'a option option" where
  "dec_option d JNull = Some None"
| "dec_option d j = map_option Some (d j)"

fun dec_obj :: "json \<Rightarrow> fields option" where
  "dec_obj (JObj fs) = Some fs"
| "dec_obj _ = None"

fun enc_option :: "('a \<Rightarrow> json) \<Rightarrow> 'a option \<Rightarrow> json" where
  "enc_option e None = JNull"
| "enc_option e (Some x) = e x"

definition req :: "(json \<Rightarrow> 'a option) \<Rightarrow> string \<Rightarrow> fields \<Rightarrow> 'a option" where
  "req d k fs = (case map_of fs k of None \<Rightarrow> None | Some j \<Rightarrow> d j)"

definition dflt :: "'a \<Rightarrow> (json \<Rightarrow> 'a option) \<Rightarrow> string \<Rightarrow> fields \<Rightarrow> 'a option" where
  "dflt x d k fs = (case map_of fs k of None \<Rightarrow> Some x | Some j \<Rightarrow> d j)"

abbreviation (input) str_field :: "string \<Rightarrow> fields \<Rightarrow> string option" where
  "str_field \<equiv> dflt [] dec_str"

abbreviation (input) bool_field :: "string \<Rightarrow> fields \<Rightarrow> bool option" where
  "bool_field \<equiv> dflt False dec_bool"

abbreviation (input) i32_field :: "string \<Rightarrow> fields \<Rightarrow> int option" where
  "i32_field \<equiv> dflt 0 dec_i32"

abbreviation (input) i64_field :: "string \<Rightarrow> fields \<Rightarrow> int option" where
  "i64_field \<equiv> dflt 0 dec_i64"

section \<open>Codecs\<close>

text \<open>
  What a message type owes its users: on the values the type can hold, decoding an
  encoding gives the value back, and an encoding is never \<open>null\<close>.  Lists and options of a
  codec are codecs again, which is how the nested records are composed.
\<close>

locale codec =
  fixes enc :: "'a \<Rightarrow> json"
    and dec :: "json \<Rightarrow> 'a option"
    and ok :: "'a \<Rightarrow> bool"
  assumes dec_enc: "ok x \<Longrightarrow> dec (enc x) = Some x"
    and enc_not_null: "enc x \<noteq> JNull"
begin

lemma dec_all_enc: "list_all ok xs \<Longrightarrow> dec_all dec (map enc xs) = Some xs"
  by (induction xs) (simp_all add: dec_enc)

lemma dec_list_enc: "list_all ok xs \<Longrightarrow> dec_list dec (JArr (map enc xs)) = Some xs"
  by (simp add: dec_all_enc)

lemma dec_option_enc: "pred_option ok v \<Longrightarrow> dec_option dec (enc_option enc v) = Some v"
proof (cases v)
  case (Some x)
  assume "pred_option ok v"
  then have "dec (enc x) = Some x" using Some by (simp add: dec_enc)
  with Some enc_not_null [of x] show ?thesis by (cases "enc x") auto
qed simp

lemma enc_inj: "ok x \<Longrightarrow> ok y \<Longrightarrow> enc x = enc y \<Longrightarrow> x = y"
  by (metis dec_enc option.inject)

end

interpretation str_codec: codec JStr dec_str "\<lambda>_. True"
  by unfold_locales auto

interpretation bool_codec: codec JBool dec_bool "\<lambda>_. True"
  by unfold_locales auto

interpretation i32_codec: codec JInt dec_i32 in_i32
  by unfold_locales (auto simp: dec_i32_def in_i32_def)

interpretation i64_codec: codec JInt dec_i64 in_i64
  by unfold_locales (auto simp: dec_i64_def in_i64_def)

interpretation u32_codec: codec JInt dec_u32 in_u32
  by unfold_locales (auto simp: dec_u32_def in_u32_def)

interpretation usize_codec: codec "\<lambda>n. JInt (int n)" dec_usize "\<lambda>n. n < 2 ^ 64"
proof unfold_locales
  fix n :: nat
  assume "n < 2 ^ 64"
  then have "int n < 2 ^ 64" by (metis of_nat_less_iff of_nat_numeral of_nat_power)
  then show "dec_usize (JInt (int n)) = Some n" by (simp add: dec_usize_def)
qed simp

lemma json_any_dec_option: "j \<noteq> JNull \<Longrightarrow> dec_option d j = map_option Some (d j)"
  by (cases j) auto

end
