(* ===== verification/LogFile.thy ===== *)
theory LogFile
  imports LogFmt UrlDecode Json "HOL-Library.List_Lexorder" "HOL-Library.Char_ord"
begin

text \<open>
  \<open>src/logfile.rs\<close>: the end of a log file, and clearing the log files with their backups.  The file
  system is a list of files with their inode and content; \<open>dk\_fail\<close> says which calls fail, and how.
\<close>

section \<open>Files\<close>

datatype FileOp = OpenRead | OpenWrite | SetLen | Stat | Unlink

record LogFileData =
  fi_inode :: nat
  fi_content :: string

record Disk =
  dk_files :: "(string \<times> LogFileData) list"
  dk_fail :: "FileOp \<Rightarrow> string \<Rightarrow> string option"

definition lookup_file :: "Disk \<Rightarrow> string \<Rightarrow> LogFileData option" where
  "lookup_file d path = map_of (dk_files d) path"

definition set_content :: "string \<Rightarrow> string \<Rightarrow> Disk \<Rightarrow> Disk" where
  "set_content path c d =
     d\<lparr>dk_files := map (\<lambda>(p, f). if p = path then (p, f\<lparr>fi_content := c\<rparr>) else (p, f)) (dk_files d)\<rparr>"

definition unlink :: "string \<Rightarrow> Disk \<Rightarrow> Disk" where
  "unlink path d = d\<lparr>dk_files := filter (\<lambda>f. fst f \<noteq> path) (dk_files d)\<rparr>"

lemma lookup_set_content [simp]:
  "lookup_file (set_content path c d) q =
     (if q = path then map_option (\<lambda>f. f\<lparr>fi_content := c\<rparr>) (lookup_file d q) else lookup_file d q)"
proof -
  have "map_of (map (\<lambda>(p, f). if p = path then (p, f\<lparr>fi_content := c\<rparr>) else (p, f)) fs) q =
     (if q = path then map_option (\<lambda>f. f\<lparr>fi_content := c\<rparr>) (map_of fs q) else map_of fs q)" for fs
    by (induction fs) auto
  from this [of "dk_files d"] show ?thesis by (auto simp: lookup_file_def set_content_def)
qed

lemma lookup_unlink [simp]:
  "lookup_file (unlink path d) q = (if q = path then None else lookup_file d q)"
proof -
  have "map_of (filter (\<lambda>f. fst f \<noteq> path) fs) q = (if q = path then None else map_of fs q)" for fs
    by (induction fs) auto
  from this [of "dk_files d"] show ?thesis by (auto simp: lookup_file_def unlink_def)
qed

lemma dk_fail_kept [simp]: "dk_fail (set_content path c d) = dk_fail d" "dk_fail (unlink path d) = dk_fail d"
  by (simp_all add: set_content_def unlink_def)

section \<open>The end of a file\<close>

text \<open>\<open>str::lines\<close>: without the line ends, and without a last line that is empty.\<close>

definition chomp_cr :: "string \<Rightarrow> string" where
  "chomp_cr l = (if l \<noteq> [] \<and> last l = CHR 0x0D then butlast l else l)"

definition str_lines :: "string \<Rightarrow> string list" where
  "str_lines t =
     (let parts = split_on (\<lambda>b. b = CHR 0x0A) t
      in map chomp_cr (butlast parts) @ (if last parts = [] then [] else [last parts]))"

definition read_tail :: "string \<Rightarrow> nat \<Rightarrow> string list \<times> nat" where
  "read_tail content max_bytes =
     (let start = length content - max_bytes;
          ls = str_lines (from_utf8_lossy (drop start content))
      in (if start > 0 then tl ls else ls, length content))"

section \<open>Clearing\<close>

datatype ClearAction = Truncated | Removed | Missing | Failed

record Cleared =
  cd_path :: string
  cd_action :: ClearAction
  cd_bytes :: nat
  cd_error :: "string option"

definition cleared :: "string \<Rightarrow> ClearAction \<Rightarrow> nat \<Rightarrow> Cleared" where
  "cleared path act n = \<lparr>cd_path = path, cd_action = act, cd_bytes = n, cd_error = None\<rparr>"

definition cleared_error :: "string \<Rightarrow> string \<Rightarrow> Cleared" where
  "cleared_error path e = \<lparr>cd_path = path, cd_action = Failed, cd_bytes = 0, cd_error = Some e\<rparr>"

definition truncate_file :: "string \<Rightarrow> Disk \<Rightarrow> Cleared \<times> Disk" where
  "truncate_file path d =
     (case dk_fail d OpenWrite path of
        Some e \<Rightarrow> (cleared_error path e, d)
      | None \<Rightarrow>
          (case lookup_file d path of
             None \<Rightarrow> (cleared path Missing 0, d)
           | Some f \<Rightarrow>
               (case dk_fail d SetLen path of
                  Some e \<Rightarrow> (cleared_error path e, d)
                | None \<Rightarrow> (cleared path Truncated (length (fi_content f)), set_content path [] d))))"

definition remove_if_exists :: "string \<Rightarrow> Disk \<Rightarrow> Cleared \<times> Disk" where
  "remove_if_exists path d =
     (case dk_fail d Stat path of
        Some e \<Rightarrow> (cleared_error path e, d)
      | None \<Rightarrow>
          (case lookup_file d path of
             None \<Rightarrow> (cleared path Missing 0, d)
           | Some f \<Rightarrow>
               (case dk_fail d Unlink path of
                  Some e \<Rightarrow> (cleared_error path e, d)
                | None \<Rightarrow> (cleared path Removed (length (fi_content f)), unlink path d))))"

definition backup_path :: "string \<Rightarrow> string" where
  "backup_path path = path @ ''.1''"

definition is_lumberjack_backup :: "string \<Rightarrow> bool" where
  "is_lumberjack_backup name \<longleftrightarrow>
     length name = 32 \<and> starts_with ''core-'' name \<and> drop 28 name = ''.log'' \<and>
     list_all (\<lambda>i. if i \<in> {9, 12, 18, 21} then name ! i = CHR ''-''
                   else if i = 15 then name ! i = CHR ''T''
                   else if i = 24 then name ! i = CHR ''.''
                   else is_digit (name ! i)) [5..<28]"

text \<open>The names in a directory: the files whose path is the directory's with one more component.\<close>

definition dir_names :: "string \<Rightarrow> Disk \<Rightarrow> string list" where
  "dir_names dir d =
     List.map_filter (\<lambda>f. case rsplit_once (CHR ''/'') (fst f) of
        Some (p, name) \<Rightarrow> if p = dir then Some name else None | None \<Rightarrow> None) (dk_files d)"

definition rotated_backups :: "string \<Rightarrow> Disk \<Rightarrow> string list" where
  "rotated_backups path d =
     (case rsplit_once (CHR ''/'') path of
        None \<Rightarrow> []
      | Some (dir, _) \<Rightarrow>
          sort (map (\<lambda>name. dir @ CHR ''/'' # name)
            (filter (\<lambda>name. is_lumberjack_backup (from_utf8_lossy name)) (dir_names dir d))))"

type_synonym clearing = "Cleared list \<times> Disk"

definition also_clear :: "(string \<Rightarrow> Disk \<Rightarrow> Cleared \<times> Disk) \<Rightarrow> string \<Rightarrow> clearing \<Rightarrow> clearing" where
  "also_clear f path c = (case f path (snd c) of (r, d) \<Rightarrow> (fst c @ [r], d))"

definition clear_tui_one :: "string \<Rightarrow> clearing \<Rightarrow> clearing" where
  "clear_tui_one path c = also_clear remove_if_exists (backup_path path) (also_clear truncate_file path c)"

definition clear_core_one :: "string \<Rightarrow> clearing \<Rightarrow> clearing" where
  "clear_core_one path c =
     (let c = clear_tui_one path c
      in fold (also_clear remove_if_exists) (rotated_backups path (snd c)) c)"

definition clear_tui :: "string list \<Rightarrow> clearing \<Rightarrow> clearing" where
  "clear_tui paths c = fold clear_tui_one paths c"

definition clear_core :: "string list \<Rightarrow> clearing \<Rightarrow> clearing" where
  "clear_core paths c = fold clear_core_one paths c"

definition clear_crash :: "string \<Rightarrow> clearing \<Rightarrow> clearing" where
  "clear_crash dir c = clear_tui_one (dir @ ''/core-crash.log'') c"

section \<open>What clearing spares\<close>

text \<open>\<open>touches T c c'\<close>: every file that differs afterwards is one of \<open>T\<close>, and the reports that were
  added are about files of \<open>T\<close>.\<close>

definition touches :: "string set \<Rightarrow> clearing \<Rightarrow> clearing \<Rightarrow> bool" where
  "touches T c c' \<longleftrightarrow>
     (\<forall>q. q \<notin> T \<longrightarrow> lookup_file (snd c') q = lookup_file (snd c) q) \<and>
     dk_fail (snd c') = dk_fail (snd c) \<and>
     (\<exists>rs. fst c' = fst c @ rs \<and> list_all (\<lambda>r. cd_path r \<in> T) rs)"

lemma touches_refl: "touches T c c"
  by (simp add: touches_def)

lemma touches_trans: "touches T a b \<Longrightarrow> touches T b c \<Longrightarrow> touches T a c"
  by (fastforce simp: touches_def)

lemma touches_truncate: "path \<in> T \<Longrightarrow> touches T c (also_clear truncate_file path c)"
  by (auto simp: touches_def also_clear_def truncate_file_def cleared_def cleared_error_def
      split: option.splits)

lemma touches_remove: "path \<in> T \<Longrightarrow> touches T c (also_clear remove_if_exists path c)"
  by (auto simp: touches_def also_clear_def remove_if_exists_def cleared_def cleared_error_def
      split: option.splits)

lemma touches_fold:
  assumes "\<And>x c. x \<in> set xs \<Longrightarrow> touches T c (f x c)"
  shows "touches T c (fold f xs c)"
  using assms
proof (induction xs arbitrary: c)
  case Nil
  show ?case by (simp add: touches_refl)
next
  case (Cons x xs)
  have "touches T c (f x c)" "touches T (f x c) (fold f xs (f x c))"
    using Cons.prems Cons.IH by simp_all
  then show ?case by (simp add: touches_trans)
qed

text \<open>The files that belong to a log: itself, its backup, the rotated backups beside it.\<close>

definition log_family :: "string \<Rightarrow> string set" where
  "log_family path = {path, backup_path path} \<union>
     {q. \<exists>dir base name. rsplit_once (CHR ''/'') path = Some (dir, base) \<and> q = dir @ CHR ''/'' # name \<and>
        is_lumberjack_backup (from_utf8_lossy name)}"

lemma touches_tui_one: "{path, backup_path path} \<subseteq> T \<Longrightarrow> touches T c (clear_tui_one path c)"
  unfolding clear_tui_one_def by (rule touches_trans [OF touches_truncate touches_remove]) auto

lemma rotated_in_family: "set (rotated_backups path d) \<subseteq> log_family path"
  by (auto simp: log_family_def rotated_backups_def dest: sym split: option.splits prod.splits)

lemma family_self: "{path, backup_path path} \<subseteq> log_family path"
  by (simp add: log_family_def)

lemma touches_core_one:
  assumes "log_family path \<subseteq> T"
  shows "touches T c (clear_core_one path c)"
  unfolding clear_core_one_def Let_def
proof (rule touches_trans [OF touches_tui_one touches_fold [OF touches_remove]])
  show "{path, backup_path path} \<subseteq> T" using assms family_self by blast
next
  show "x \<in> T" if "x \<in> set (rotated_backups path (snd (clear_tui_one path c)))" for x
    using that assms rotated_in_family by blast
qed

lemma touches_core: "touches (\<Union>p \<in> set paths. log_family p) c (clear_core paths c)"
  unfolding clear_core_def by (rule touches_fold, rule touches_core_one) auto

lemma touches_tui: "touches (\<Union>p \<in> set paths. {p, backup_path p}) c (clear_tui paths c)"
  unfolding clear_tui_def by (rule touches_fold, rule touches_tui_one) auto

lemma lumberjack_examples:
  "is_lumberjack_backup ''core-2026-10-31T13-37-11.000.log''"
  "\<not> is_lumberjack_backup ''core-notes.log''"
  "\<not> is_lumberjack_backup ''core-2026-10-31T13-37-11.00.log''"
  by code_simp+


definition sample_disk :: Disk where
  "sample_disk =
     \<lparr>dk_files = [(''/l/core.log'', \<lparr>fi_inode = 1, fi_content = ''old''\<rparr>),
        (''/l/core-notes.log'', \<lparr>fi_inode = 2, fi_content = ''keep''\<rparr>),
        (''/l/core-2026-10-31T13-37-11.000.log'', \<lparr>fi_inode = 3, fi_content = ''x''\<rparr>)],
      dk_fail = (\<lambda>_ _. None)\<rparr>"

lemma notes_unrelated: "''/l/core-notes.log'' \<notin> log_family ''/l/core.log''"
proof -
  have split: "rsplit_once (CHR ''/'') ''/l/core.log'' = Some (''/l'', ''core.log'')"
    by (simp add: rsplit_once_def)
  have "\<not> is_lumberjack_backup (from_utf8_lossy ''core-notes.log'')" by code_simp
  then show ?thesis by (auto simp: log_family_def split backup_path_def)
qed


lemma clearing_example:
  "map (\<lambda>r. (cd_path r, cd_action r)) (fst (clear_core [''/l/core.log''] ([], sample_disk))) =
     [(''/l/core.log'', Truncated), (''/l/core.log.1'', Missing),
      (''/l/core-2026-10-31T13-37-11.000.log'', Removed)]"
  by code_simp

end
