(* ===== verification/Decimal.thy ===== *)
theory Decimal
  imports Prelude "HOL-Library.Word"
begin

text \<open>
  Byte counts as the size labels show them: \<open>as f64\<close> of a 64-bit number, and \<open>{:.1}\<close> and \<open>{:.2}\<close> of its
  quotient by a power of two.  Such a quotient is exact, and formatting rounds its value to the decimals
  asked for, ties to even.  A double that holds a number of at least 2^53 is a whole number, so a double is
  a \<open>nat\<close> here.
\<close>

text \<open>A sum of two \<open>i64\<close>, which wraps in a release build.\<close>

definition i64_add :: "int \<Rightarrow> int \<Rightarrow> int" where
  "i64_add a b = sint (word_of_int (a + b) :: 64 word)"

definition round_half_even :: "nat \<Rightarrow> nat \<Rightarrow> nat" where
  "round_half_even n d =
     (let q = n div d; r = 2 * (n mod d) in if r < d \<or> r = d \<and> even q then q else q + 1)"

definition one_decimal :: "nat \<Rightarrow> nat \<Rightarrow> string" where
  "one_decimal num den =
     (let t = round_half_even (10 * num) den in show_nat (t div 10) @ ''.'' @ show_nat (t mod 10))"

definition two_decimals :: "nat \<Rightarrow> nat \<Rightarrow> string" where
  "two_decimals num den =
     (let t = round_half_even (100 * num) den
      in show_nat (t div 100) @ ''.'' @ show_nat (t mod 100 div 10) @ show_nat (t mod 10))"

text \<open>The nearest double: 53 significant bits, ties to even.  \<open>excess\<close> counts the bits that are dropped.\<close>

fun excess :: "nat \<Rightarrow> nat" where
  "excess n = (if n < 2 ^ 53 then 0 else Suc (excess (n div 2)))"

declare excess.simps [simp del]

definition as_f64 :: "nat \<Rightarrow> nat" where
  "as_f64 n = round_half_even n (2 ^ excess n) * 2 ^ excess n"

lemma as_f64_exact [simp]: "n < 2 ^ 53 \<Longrightarrow> as_f64 n = n"
  by (simp add: as_f64_def excess.simps [of n] round_half_even_def Let_def)

text \<open>The error of rounding is at most half of the divisor.\<close>

lemma round_half_even_bounds:
  assumes "0 < d"
  shows "2 * (round_half_even n d * d) \<le> 2 * n + d \<and> 2 * n \<le> 2 * (round_half_even n d * d) + d"
proof -
  define q r where "q = n div d" and "r = n mod d"
  have n: "n = q * d + r" and r: "r < d" using assms by (simp_all add: q_def r_def)
  have "round_half_even n d = q \<and> 2 * r \<le> d \<or> round_half_even n d = q + 1 \<and> d \<le> 2 * r"
    by (auto simp: round_half_even_def Let_def q_def r_def)
  then show ?thesis using n r by (auto simp: algebra_simps)
qed

end
