(* ===== verification/DoctorReport.thy ===== *)
theory DoctorReport
  imports LogFile Json Decimal
begin

text \<open>
  \<open>src/doctor/types.rs\<close> and \<open>src/doctor/checks/util.rs\<close>: the report of \<open>whoisthat doctor\<close>, its JSON and
  its text, and the helpers of the checks.
\<close>

section \<open>The report\<close>

datatype CheckStatus = Pass | WarnStatus | Fail | Info

record CheckItem =
  ci_name :: string
  ci_status :: CheckStatus
  ci_message :: string
  ci_fix_hint :: "string option"

definition item_pass :: "string \<Rightarrow> string \<Rightarrow> CheckItem" where
  "item_pass name text = \<lparr>ci_name = name, ci_status = Pass, ci_message = text, ci_fix_hint = None\<rparr>"

definition item_warn :: "string \<Rightarrow> string \<Rightarrow> string option \<Rightarrow> CheckItem" where
  "item_warn name text fix_hint = \<lparr>ci_name = name, ci_status = WarnStatus, ci_message = text, ci_fix_hint = fix_hint\<rparr>"

definition item_fail :: "string \<Rightarrow> string \<Rightarrow> string option \<Rightarrow> CheckItem" where
  "item_fail name text fix_hint = \<lparr>ci_name = name, ci_status = Fail, ci_message = text, ci_fix_hint = fix_hint\<rparr>"

definition item_info :: "string \<Rightarrow> string \<Rightarrow> CheckItem" where
  "item_info name text = \<lparr>ci_name = name, ci_status = Info, ci_message = text, ci_fix_hint = None\<rparr>"

lemma ci_status_simps [simp]:
  "ci_status (item_pass n t) = Pass" "ci_status (item_warn n t f) = WarnStatus"
  "ci_status (item_fail n t f) = Fail" "ci_status (item_info n t) = Info"
  by (simp_all add: item_pass_def item_warn_def item_fail_def item_info_def)

lemma ci_name_simps [simp]:
  "ci_name (item_pass n t) = n" "ci_name (item_warn n t f) = n"
  "ci_name (item_fail n t f) = n" "ci_name (item_info n t) = n"
  by (simp_all add: item_pass_def item_warn_def item_fail_def item_info_def)

record CheckCategory =
  cc_title :: string
  cc_items :: "CheckItem list"

definition category :: "string \<Rightarrow> CheckItem list \<Rightarrow> CheckCategory" where
  "category title items = \<lparr>cc_title = title, cc_items = items\<rparr>"

record DoctorSummary =
  ds_passed :: nat
  ds_warnings :: nat
  ds_failed :: nat
  ds_info :: nat
  ds_is_healthy :: bool

record DoctorReport =
  dr_version :: string
  dr_core_version :: "string option"
  dr_core_protocol_version :: "int option"
  dr_categories :: "CheckCategory list"
  dr_summary :: DoctorSummary

fun count_item :: "CheckItem \<Rightarrow> nat \<times> nat \<times> nat \<times> nat \<Rightarrow> nat \<times> nat \<times> nat \<times> nat" where
  "count_item item (passed, warnings, failed, info) =
     (case ci_status item of
        Pass \<Rightarrow> (passed + 1, warnings, failed, info)
      | WarnStatus \<Rightarrow> (passed, warnings + 1, failed, info)
      | Fail \<Rightarrow> (passed, warnings, failed + 1, info)
      | Info \<Rightarrow> (passed, warnings, failed, info + 1))"

definition report_new :: "string \<Rightarrow> CheckCategory list \<Rightarrow> DoctorReport" where
  "report_new version categories =
     (let (passed, warnings, failed, info) =
        fold (\<lambda>cat. fold count_item (cc_items cat)) categories (0, 0, 0, 0)
      in \<lparr>dr_version = version, dr_core_version = None, dr_core_protocol_version = None,
          dr_categories = categories,
          dr_summary = \<lparr>ds_passed = passed, ds_warnings = warnings, ds_failed = failed, ds_info = info,
                        ds_is_healthy = (failed = 0)\<rparr>\<rparr>)"

section \<open>JSON\<close>

definition enc_check_status :: "CheckStatus \<Rightarrow> json" where
  "enc_check_status s =
     JStr (case s of Pass \<Rightarrow> ''pass'' | WarnStatus \<Rightarrow> ''warn'' | Fail \<Rightarrow> ''fail'' | Info \<Rightarrow> ''info'')"

definition opt_field :: "string \<Rightarrow> ('a \<Rightarrow> json) \<Rightarrow> 'a option \<Rightarrow> fields" where
  "opt_field name enc v = (case v of None \<Rightarrow> [] | Some x \<Rightarrow> [(name, enc x)])"

definition enc_check_item :: "CheckItem \<Rightarrow> json" where
  "enc_check_item i =
     JObj ([(''name'', JStr (ci_name i)), (''status'', enc_check_status (ci_status i)), (''message'', JStr (ci_message i))]
       @ opt_field ''fix_hint'' JStr (ci_fix_hint i))"

definition enc_category :: "CheckCategory \<Rightarrow> json" where
  "enc_category c =
     JObj [(''title'', JStr (cc_title c)), (''items'', JArr (map enc_check_item (cc_items c)))]"

definition enc_summary :: "DoctorSummary \<Rightarrow> json" where
  "enc_summary s =
     JObj [(''passed'', JInt (int (ds_passed s))), (''warnings'', JInt (int (ds_warnings s))),
       (''failed'', JInt (int (ds_failed s))), (''info'', JInt (int (ds_info s))),
       (''is_healthy'', JBool (ds_is_healthy s))]"

definition enc_report :: "DoctorReport \<Rightarrow> json" where
  "enc_report r =
     JObj ([(''version'', JStr (dr_version r))] @ opt_field ''core_version'' JStr (dr_core_version r)
       @ opt_field ''core_protocol_version'' JInt (dr_core_protocol_version r)
       @ [(''categories'', JArr (map enc_category (dr_categories r))), (''summary'', enc_summary (dr_summary r))])"

section \<open>Text\<close>

definition sgr :: "bool \<Rightarrow> string \<Rightarrow> string" where
  "sgr color code = (if color then CHR 0x1B # ''['' @ code @ ''m'' else [])"

definition dash :: string where "dash = [CHR 0xE2, CHR 0x80, CHR 0x94]"

definition status_mark :: "bool \<Rightarrow> CheckStatus \<Rightarrow> string" where
  "status_mark color s =
     (case s of
        Pass \<Rightarrow> sgr color ''32'' @ [CHR 0xE2, CHR 0x9C, CHR 0x93]
      | WarnStatus \<Rightarrow> sgr color ''33'' @ [CHR 0xE2, CHR 0x9A, CHR 0xA0]
      | Fail \<Rightarrow> sgr color ''31'' @ [CHR 0xE2, CHR 0x9C, CHR 0x97]
      | Info \<Rightarrow> sgr color ''36'' @ [CHR 0xE2, CHR 0x84, CHR 0xB9]) @ sgr color ''0''"

definition item_lines :: "bool \<Rightarrow> CheckItem \<Rightarrow> string list" where
  "item_lines color i =
     (''  '' @ status_mark color (ci_status i) @ '' '' @ sgr color ''1'' @ ci_name i @ '':'' @ sgr color ''0'' @ '' ''
        @ ci_message i)
     # (case ci_fix_hint i of
          None \<Rightarrow> []
        | Some fix_hint \<Rightarrow>
            [''    '' @ sgr color ''33'' @ [CHR 0xE2, CHR 0x86, CHR 0x92] @ '' Fix:'' @ sgr color ''0'' @ '' ''
               @ sgr color ''2'' @ fix_hint @ sgr color ''0''])"

definition category_lines :: "bool \<Rightarrow> CheckCategory \<Rightarrow> string list" where
  "category_lines color c =
     (sgr color ''1'' @ ''[+] '' @ cc_title c @ sgr color ''0'') # concat (map (item_lines color) (cc_items c)) @ [[]]"

definition report_versions :: "DoctorReport \<Rightarrow> string" where
  "report_versions r =
     (case (dr_core_version r, dr_core_protocol_version r) of
        (Some cv, Some p) \<Rightarrow> dr_version r @ '' / core v'' @ cv @ '' (protocol '' @ show_int p @ '')''
      | (Some cv, None) \<Rightarrow> dr_version r @ '' / core v'' @ cv
      | _ \<Rightarrow> dr_version r)"

definition verdict :: "DoctorSummary \<Rightarrow> string \<times> string" where
  "verdict s =
     (if ds_failed s > 0 then (''31'', ''Some checks failed. See fix suggestions above.'')
      else if ds_warnings s > 0 then (''33'', ''System is usable with warnings.'')
      else (''32'', ''All systems operational!''))"

definition report_lines :: "bool \<Rightarrow> DoctorReport \<Rightarrow> string list" where
  "report_lines color r =
     [sgr color ''1'' @ ''WhoisThat Doctor v'' @ report_versions r @ '' '' @ dash @ '' System Diagnostics'' @ sgr color ''0'',
      []]
     @ concat (map (category_lines color) (dr_categories r))
     @ [(let s = dr_summary r
         in sgr color ''1'' @ ''Result:'' @ sgr color ''0'' @ '' '' @ show_nat (ds_passed s) @ '' passed, ''
            @ show_nat (ds_warnings s) @ '' warnings, '' @ show_nat (ds_failed s) @ '' failed, ''
            @ show_nat (ds_info s) @ '' info. '' @ sgr color (fst (verdict s)) @ sgr color ''1'' @ snd (verdict s)
            @ sgr color ''0'')]"

section \<open>Helpers\<close>

definition permission_denied :: "(string \<Rightarrow> string) \<Rightarrow> string \<Rightarrow> bool" where
  "permission_denied lc stderr \<longleftrightarrow>
     (let text = lc (from_utf8_lossy stderr)
      in str_contains ''operation not permitted'' text \<or> str_contains ''permission denied'' text \<or>
         str_contains ''must be root'' text)"

definition truncate_text :: "string \<Rightarrow> nat \<Rightarrow> string" where
  "truncate_text line m =
     (if char_count line \<le> m then line else concat (take (m - 3) (uchars line)) @ ''...'')"

text \<open>\<open>{:.1}\<close> of \<open>num / den\<close>, where the quotient is exact in a double (\<open>den\<close> is a power of two and \<open>num\<close> is
  below \<open>2 ^ 53\<close>): the tenths, a tie to the even one.\<close>

definition human_bytes :: "nat \<Rightarrow> string" where
  "human_bytes bytes =
     (if bytes \<ge> 1048576 then one_decimal bytes 1048576 @ '' MiB''
      else if bytes \<ge> 1024 then one_decimal bytes 1024 @ '' KiB''
      else show_nat bytes @ '' B'')"

definition age_label :: "nat option \<Rightarrow> string" where
  "age_label age =
     (case age of
        None \<Rightarrow> ''unknown''
      | Some secs \<Rightarrow>
          if secs \<ge> 86400 then show_nat (secs div 86400) @ ''d ago''
          else if secs \<ge> 3600 then show_nat (secs div 3600) @ ''h ago''
          else show_nat (secs div 60) @ ''m ago'')"

text \<open>\<open>{:o}\<close> and \<open>{:04o}\<close>.\<close>

function show_octal :: "nat \<Rightarrow> string" where
  "show_octal n = (if n < 8 then [char_of (48 + n)] else show_octal (n div 8) @ [char_of (48 + n mod 8)])"
  by pat_completeness auto
termination by (relation "measure id") auto

declare show_octal.simps [simp del]

definition octal4 :: "nat \<Rightarrow> string" where
  "octal4 n = (let s = show_octal n in replicate (4 - length s) (CHR ''0'') @ s)"

section \<open>The verdict\<close>

definition count_status :: "CheckStatus \<Rightarrow> CheckCategory list \<Rightarrow> nat" where
  "count_status st cats = length (filter (\<lambda>i. ci_status i = st) (concat (map cc_items cats)))"

lemma fold_count_item:
  "fold count_item items (a, b, c, d) =
     (a + length (filter (\<lambda>i. ci_status i = Pass) items), b + length (filter (\<lambda>i. ci_status i = WarnStatus) items),
      c + length (filter (\<lambda>i. ci_status i = Fail) items), d + length (filter (\<lambda>i. ci_status i = Info) items))"
  by (induction items arbitrary: a b c d) (auto split: CheckStatus.split)

lemma report_counts:
  "dr_summary (report_new v cats) =
     \<lparr>ds_passed = count_status Pass cats, ds_warnings = count_status WarnStatus cats,
      ds_failed = count_status Fail cats, ds_info = count_status Info cats,
      ds_is_healthy = (count_status Fail cats = 0)\<rparr>"
proof -
  have "fold (\<lambda>cat. fold count_item (cc_items cat)) cats (a, b, c, d) =
     (a + count_status Pass cats, b + count_status WarnStatus cats, c + count_status Fail cats,
      d + count_status Info cats)" for a b c d
    by (induction cats arbitrary: a b c d) (simp_all add: count_status_def fold_count_item)
  from this [of 0 0 0 0] show ?thesis by (simp add: report_new_def)
qed

lemma healthy_iff:
  "ds_is_healthy (dr_summary (report_new v cats)) \<longleftrightarrow>
     list_all (\<lambda>c. list_all (\<lambda>i. ci_status i \<noteq> Fail) (cc_items c)) cats"
  by (auto simp: report_counts count_status_def list_all_iff filter_empty_conv)

lemma report_new_simps [simp]:
  "dr_categories (report_new v cats) = cats" "dr_version (report_new v cats) = v"
  by (simp_all add: report_new_def split: prod.split)

lemma truncate_text_bound: "m \<ge> 3 \<Longrightarrow> str_ok line \<Longrightarrow> char_count (truncate_text line m) \<le> m"
proof (cases "char_count line \<le> m")
  case False
  assume m: "m \<ge> 3" and ok: "str_ok line"
  have a: "list_all uchar (take (m - 3) (uchars line) @ [''.'', ''.'', ''.''])"
    using ok by (auto simp: str_ok_iff_uchars list_all_iff uchar_simps is_cont_def dest: in_set_takeD)
  have "truncate_text line m = concat (take (m - 3) (uchars line) @ [''.'', ''.'', ''.''])"
    using False by (simp add: truncate_text_def)
  then have "uchars (truncate_text line m) = take (m - 3) (uchars line) @ [''.'', ''.'', ''.'']"
    using uchars_concat [OF a] by simp
  then show ?thesis using m by (simp add: char_count_def)
qed (simp add: truncate_text_def)

end
