(* ===== verification/UpdateCheck.thy ===== *)
theory UpdateCheck
  imports UrlDecode
begin

text \<open>
  \<open>src/update_check.rs\<close>: is a newer release out, and which command installs it.  What the
  machine answers (environment variables, the package managers' output, the redirect GitHub
  sends) is the record \<open>UpdateEnv\<close>; paths are byte strings.
\<close>

definition LATEST_URL :: string where
  "LATEST_URL = ''https://github.com/kvunoff/whoisthat/releases/latest''"

definition RELEASES_URL :: string where
  "RELEASES_URL = ''https://github.com/kvunoff/whoisthat/releases''"

definition INSTALL_URL :: string where
  "INSTALL_URL = ''https://raw.githubusercontent.com/kvunoff/whoisthat/main/install.sh''"

definition CHECK_INTERVAL_SECS :: int where
  "CHECK_INTERVAL_SECS = 86400"

datatype InstallSource =
    DevBuild | Pacman string | Dpkg string | Rpm string | InstallScript | Manual | Other

record UpdateInfo =
  ui_current :: string
  ui_latest :: string
  ui_source :: InstallSource
  ui_command :: "string option"
  ui_release_url :: string

fun install_label :: "InstallSource \<Rightarrow> string" where
  "install_label DevBuild = ''development build''"
| "install_label (Pacman package) = ''pacman ('' @ package @ '')''"
| "install_label (Dpkg package) = ''dpkg ('' @ package @ '')''"
| "install_label (Rpm package) = ''rpm ('' @ package @ '')''"
| "install_label InstallScript = ''install.sh''"
| "install_label Manual = ''manual install''"
| "install_label Other = ''unknown''"

datatype PkgManager = PmPacman | PmDpkg | PmRpm

record Tools =
  t_paru :: bool
  t_yay :: bool
  t_dnf :: bool
  t_zypper :: bool
  t_rpm :: bool

section \<open>Versions\<close>

type_synonym version = "nat \<times> nat \<times> nat"

definition parse_version :: "string \<Rightarrow> version option" where
  "parse_version value0 =
     (let value = (case strip_prefix ''v'' value0 of Some r \<Rightarrow> r | None \<Rightarrow> value0)
      in case split_on (\<lambda>b. b = CHR ''.'') value of
           [a, b, c] \<Rightarrow>
             do { major \<leftarrow> parse_unsigned 64 a;
                  minor \<leftarrow> parse_unsigned 64 b;
                  patch \<leftarrow> parse_unsigned 64 c;
                  Some (major, minor, patch) }
         | _ \<Rightarrow> None)"

definition parse_release_tag :: "string \<Rightarrow> string option" where
  "parse_release_tag url0 =
     (let first = hd (split_on (\<lambda>b. b = CHR ''?'' \<or> b = CHR 0x23) url0);
          url = rev (dropWhile (\<lambda>b. b = CHR ''/'') (rev first))
      in do { tag \<leftarrow> strip_prefix ''https://github.com/kvunoff/whoisthat/releases/tag/'' url;
              if CHR ''/'' \<in> set tag then None
              else do { version \<leftarrow> strip_prefix ''v'' tag;
                        _ \<leftarrow> parse_version version;
                        Some version } })"

definition version_less :: "version \<Rightarrow> version \<Rightarrow> bool" where
  "version_less = (\<lambda>(a, b, c) (a', b', c'). a < a' \<or> a = a' \<and> (b < b' \<or> b = b' \<and> c < c'))"

definition is_newer :: "string \<Rightarrow> string \<Rightarrow> bool" where
  "is_newer latest current =
     (case (parse_version latest, parse_version current) of
        (Some l, Some c) \<Rightarrow> version_less c l
      | _ \<Rightarrow> False)"

section \<open>When to check and to prompt\<close>

text \<open>\<open>i64::saturating_sub\<close>.\<close>

definition sat_sub_i64 :: "int \<Rightarrow> int \<Rightarrow> int" where
  "sat_sub_i64 a b = min (2 ^ 63 - 1) (max (- (2 ^ 63)) (a - b))"

definition should_check_cheap :: "bool \<Rightarrow> int \<Rightarrow> int \<Rightarrow> bool \<Rightarrow> bool \<Rightarrow> bool" where
  "should_check_cheap enabled now last_check no_update_check_env test_mode_env =
     (if \<not> enabled \<or> no_update_check_env \<or> test_mode_env then False
      else last_check = 0 \<or> now < last_check \<or> CHECK_INTERVAL_SECS \<le> sat_sub_i64 now last_check)"

definition should_prompt :: "string \<Rightarrow> string \<Rightarrow> string \<Rightarrow> bool" where
  "should_prompt latest current skipped \<longleftrightarrow> is_newer latest current \<and> latest \<noteq> skipped"

section \<open>How the program was installed\<close>

record UpdateEnv =
  ue_exe :: string
  ue_canonical :: "string option"
  ue_cargo_home :: "string option"
  ue_home :: "string option"
  ue_pacman :: "string \<Rightarrow> string option"
  ue_dpkg :: "string \<Rightarrow> string option"
  ue_rpm :: "string \<Rightarrow> string option"
  ue_path :: "string option"
  ue_is_file :: "string \<Rightarrow> bool"
  ue_arch :: string
  ue_final_url :: "string option"
  ue_version :: string

text \<open>\<open>Path\<close> compares and prefixes by components: repeated and trailing slashes and \<open>.\<close>
  components do not count (except a leading \<open>.\<close>).\<close>

definition components :: "string \<Rightarrow> bool \<times> string list" where
  "components p =
     (let parts = split_on (\<lambda>b. b = CHR ''/'') p;
          abs = (starts_with ''/'' p)
      in (abs, (if \<not> abs \<and> hd parts = ''.'' then [''.''] else [])
               @ filter (\<lambda>c. c \<noteq> [] \<and> c \<noteq> ''.'') parts))"

definition path_eq :: "string \<Rightarrow> string \<Rightarrow> bool" where
  "path_eq p q \<longleftrightarrow> components p = components q"

definition path_starts_with :: "string \<Rightarrow> string \<Rightarrow> bool" where
  "path_starts_with p q \<longleftrightarrow>
     (let (pa, ps) = components p; (qa, qs) = components q in pa = qa \<and> take (length qs) ps = qs)"

definition path_join :: "string \<Rightarrow> string \<Rightarrow> string" where
  "path_join p q = (if p = [] \<or> last p = CHR ''/'' then p @ q else p @ ''/'' @ q)"

definition is_dev_build :: "UpdateEnv \<Rightarrow> string \<Rightarrow> bool" where
  "is_dev_build env exe =
     (let path = from_utf8_lossy exe
      in if str_contains ''/target/debug/'' path \<or> str_contains ''/target/release/'' path then True
         else case (case ue_cargo_home env of
                      Some h \<Rightarrow> Some h
                    | None \<Rightarrow> map_option (\<lambda>h. path_join h ''.cargo'') (ue_home env)) of
                Some home \<Rightarrow> path_starts_with exe (path_join home ''bin'')
              | None \<Rightarrow> False)"

text \<open>Which of the package tools are on the search path.\<close>

definition command_exists :: "UpdateEnv \<Rightarrow> string \<Rightarrow> bool" where
  "command_exists env name =
     (case ue_path env of
        Some paths \<Rightarrow> list_ex (\<lambda>dir. ue_is_file env (path_join dir name)) (split_on (\<lambda>b. b = CHR '':'') paths)
      | None \<Rightarrow> False)"

definition detect_tools :: "UpdateEnv \<Rightarrow> Tools" where
  "detect_tools env =
     \<lparr>t_paru = command_exists env ''paru'', t_yay = command_exists env ''yay'', t_dnf = command_exists env ''dnf'',
      t_zypper = command_exists env ''zypper'', t_rpm = command_exists env ''rpm''\<rparr>"

text \<open>The clock in seconds; a clock before 1970 counts as 0.\<close>

definition now_unix :: "int \<Rightarrow> int" where
  "now_unix clock = max 0 clock"

text \<open>The output of a successful command, trimmed; empty output counts as none.\<close>

definition run_owned :: "string option \<Rightarrow> string option" where
  "run_owned out =
     (case out of
        None \<Rightarrow> None
      | Some stdout \<Rightarrow>
          (let text = trim (from_utf8_lossy stdout) in if text = [] then None else Some text))"

definition first_line :: "string \<Rightarrow> string" where
  "first_line text = hd (split_on (\<lambda>b. b = CHR 0x0A) text)"

definition package_owner :: "UpdateEnv \<Rightarrow> string \<Rightarrow> (PkgManager \<times> string) option" where
  "package_owner env path0 =
     (let path = from_utf8_lossy path0
      in case run_owned (ue_pacman env path) of
           Some text \<Rightarrow> Some (PmPacman, trim (first_line text))
         | None \<Rightarrow>
        (case run_owned (ue_dpkg env path) of
           Some text \<Rightarrow> Some (PmDpkg, trim (hd (split_on (\<lambda>b. b = CHR '':'') text)))
         | None \<Rightarrow>
        (case run_owned (ue_rpm env path) of
           Some text \<Rightarrow> Some (PmRpm, trim (first_line text))
         | None \<Rightarrow> None)))"

definition classify :: "string \<Rightarrow> (PkgManager \<times> string) option \<Rightarrow> InstallSource" where
  "classify path owner =
     (case owner of
        Some (PmPacman, package) \<Rightarrow> Pacman package
      | Some (PmDpkg, package) \<Rightarrow> Dpkg package
      | Some (PmRpm, package) \<Rightarrow> Rpm package
      | None \<Rightarrow>
          (let path_text = from_utf8_lossy path
           in if starts_with ''/nix/store/'' path_text \<or> starts_with ''/app/'' path_text
                 \<or> starts_with ''/snap/'' path_text then Other
              else if path_eq path ''/usr/bin/whoisthat'' then InstallScript
              else Manual))"

definition detect_install_source :: "UpdateEnv \<Rightarrow> InstallSource" where
  "detect_install_source env =
     (let exe = ue_exe env;
          canonical = (case ue_canonical env of Some c \<Rightarrow> c | None \<Rightarrow> exe)
      in if is_dev_build env canonical then DevBuild
         else case package_owner env exe of
           Some owner \<Rightarrow> classify exe (Some owner)
         | None \<Rightarrow>
        (case package_owner env canonical of
           Some owner \<Rightarrow> classify canonical (Some owner)
         | None \<Rightarrow> classify canonical None))"

section \<open>The command to show\<close>

definition release_url :: "string \<Rightarrow> string" where
  "release_url latest = RELEASES_URL @ ''/tag/v'' @ latest"

definition download_command :: "string \<Rightarrow> string \<Rightarrow> string \<Rightarrow> string" where
  "download_command base asset install =
     ''curl -fsSLO '' @ base @ ''/SHA256SUMS && curl -fsSLO '' @ base @ ''/'' @ asset
     @ '' && sha256sum -c --ignore-missing SHA256SUMS && '' @ install"

definition update_command ::
  "InstallSource \<Rightarrow> string \<Rightarrow> string \<Rightarrow> Tools \<Rightarrow> string option" where
  "update_command source latest arch tools =
     do { deb_arch \<leftarrow> (if arch = ''x86_64'' then Some ''amd64''
                       else if arch = ''aarch64'' then Some ''arm64'' else None);
          rpm_arch \<leftarrow> (if arch = ''x86_64'' \<or> arch = ''aarch64'' then Some arch else None);
          let base = RELEASES_URL @ ''/download/v'' @ latest;
          (case source of
             Pacman package \<Rightarrow>
               (if t_paru tools then Some (''paru -S '' @ package)
                else if t_yay tools then Some (''yay -S '' @ package) else None)
           | Dpkg _ \<Rightarrow>
               (let asset = ''whoisthat_'' @ latest @ ''-1_'' @ deb_arch @ ''.deb''
                in Some (download_command base asset (''sudo apt install ./'' @ asset)))
           | Rpm _ \<Rightarrow>
               (let asset = ''whoisthat-'' @ latest @ ''-1.'' @ rpm_arch @ ''.rpm''
                in map_option (download_command base asset)
                     (if t_dnf tools then Some (''sudo dnf install ./'' @ asset)
                      else if t_zypper tools then Some (''sudo zypper --non-interactive install ./'' @ asset)
                      else if t_rpm tools then Some (''sudo rpm -Uvh ./'' @ asset) else None))
           | InstallScript \<Rightarrow> Some (''curl -fsSL '' @ INSTALL_URL @ '' | bash'')
           | Manual \<Rightarrow> Some (''curl -fsSL '' @ INSTALL_URL @ '' | bash'')
           | DevBuild \<Rightarrow> None
           | Other \<Rightarrow> None) }"

definition valid_cached :: "string \<Rightarrow> string option" where
  "valid_cached v = map_option (\<lambda>_. v) (parse_version v)"

definition fetch_latest_tag :: "UpdateEnv \<Rightarrow> string option" where
  "fetch_latest_tag env = do { url \<leftarrow> ue_final_url env; parse_release_tag url }"

text \<open>The background task of \<open>spawn\<close>; a result is sent to the event loop.\<close>

definition check_update :: "UpdateEnv \<Rightarrow> bool \<Rightarrow> string \<Rightarrow> string \<Rightarrow> UpdateInfo option" where
  "check_update env fetch cached_latest skipped =
     (let source = detect_install_source env
      in if source = DevBuild then None
         else do {
           latest \<leftarrow> (if fetch
             then (case fetch_latest_tag env of
                     Some t \<Rightarrow> Some t | None \<Rightarrow> valid_cached cached_latest)
             else valid_cached cached_latest);
           let current = ue_version env;
           (if \<not> should_prompt latest current skipped then None
            else Some \<lparr>ui_current = current, ui_latest = latest, ui_source = source,
                       ui_command = update_command source latest (ue_arch env) (detect_tools env),
                       ui_release_url = release_url latest\<rparr>) })"

section \<open>Properties\<close>

text \<open>What a version text is made of.\<close>

definition version_char :: "char \<Rightarrow> bool" where
  "version_char b \<longleftrightarrow> is_digit b \<or> b = CHR ''.'' \<or> b = CHR ''+'' \<or> b = CHR ''v''"

lemma concat_split_on:
  "b \<in> set s \<Longrightarrow> p b \<or> (\<exists>w \<in> set (split_on p s). b \<in> set w)"
  by (induction s) (auto split: list.splits if_splits)

lemma parse_unsigned_chars:
  "parse_unsigned n s = Some k \<Longrightarrow> b \<in> set s \<Longrightarrow> is_digit b \<or> b = CHR ''+''"
  by (cases s)
    (auto simp: parse_unsigned_def parse_nat_def list_all_iff split: if_splits option.splits)

lemma parse_version_chars:
  assumes "parse_version s = Some v" and "b \<in> set s"
  shows "version_char b"
proof -
  define t where "t = (case strip_prefix ''v'' s of Some r \<Rightarrow> r | None \<Rightarrow> s)"
  obtain x y z a c d where parts: "split_on (\<lambda>b. b = CHR ''.'') t = [x, y, z]"
    and nums: "parse_unsigned 64 x = Some a" "parse_unsigned 64 y = Some c" "parse_unsigned 64 z = Some d"
    using assms(1) unfolding parse_version_def t_def [symmetric] Let_def
    by (auto split: list.splits bind_splits)
  have "b = CHR ''v'' \<or> b \<in> set t"
    using assms(2) by (auto simp: t_def strip_prefix_Some split: option.splits)
  then show ?thesis
    using concat_split_on [of b t "\<lambda>b. b = CHR ''.''"] nums
    by (auto simp: version_char_def parts dest: parse_unsigned_chars)
qed

lemma parse_release_tag_version:
  "parse_release_tag url = Some v \<Longrightarrow> parse_version v \<noteq> None"
  by (auto simp: parse_release_tag_def Let_def split: if_splits bind_splits)


lemmas version_eval = parse_version_def strip_prefix_def starts_with_simps parse_unsigned_def
  parse_nat_def is_digit_def digits_value_def

definition sample_env :: UpdateEnv where
  "sample_env = \<lparr>ue_exe = ''/usr/bin/whoisthat'', ue_canonical = None, ue_cargo_home = None,
     ue_home = None, ue_pacman = (\<lambda>_. None), ue_dpkg = (\<lambda>_. None), ue_rpm = (\<lambda>_. None),
     ue_path = Some ''/bin:/usr/bin'', ue_is_file = (\<lambda>_. False),
     ue_arch = ''x86_64'', ue_final_url = Some (LATEST_URL @ ''x''), ue_version = ''0.18.1''\<rparr>"

definition sample_info :: UpdateInfo where
  "sample_info = \<lparr>ui_current = ''0.18.1'', ui_latest = ''0.19.0'', ui_source = InstallScript,
     ui_command = update_command InstallScript ''0.19.0'' ''x86_64'' (detect_tools sample_env),
     ui_release_url = release_url ''0.19.0''\<rparr>"


lemma version_less_total: "version_less a b \<or> a = b \<or> version_less b a"
  by (auto simp: version_less_def split: prod.splits)

lemma is_newer_iff:
  "is_newer a b \<longleftrightarrow> (\<exists>x y. parse_version a = Some x \<and> parse_version b = Some y \<and> version_less y x)"
  by (auto simp: is_newer_def split: option.splits)

text \<open>the page shown for a release leads back to it: the tag read from the release address of
  a valid version is that version.\<close>

theorem parse_release_tag_release_url:
  assumes "parse_version v \<noteq> None"
  shows "parse_release_tag (release_url v) = Some v"
proof -
  have chars: "list_all version_char v"
    using assms parse_version_chars by (auto simp: list_all_iff)
  then have no: "CHR ''?'' \<notin> set v" "CHR 0x23 \<notin> set v" "CHR ''/'' \<notin> set v"
    by (auto simp: list_all_iff version_char_def is_digit_def)
  have ne: "v \<noteq> []" using assms by (auto simp: parse_version_def strip_prefix_def starts_with_simps)
  have all: "list_all (\<lambda>b. \<not> (b = CHR ''?'' \<or> b = CHR 0x23)) (release_url v)"
    using no by (auto simp: release_url_def RELEASES_URL_def list_all_iff)
  have first: "hd (split_on (\<lambda>b. b = CHR ''?'' \<or> b = CHR 0x23) (release_url v)) = release_url v"
    using all by (simp add: hd_split_on takeWhile_eq_all_conv list_all_iff)
  have trim_last: "last (release_url v) \<noteq> CHR ''/''"
    using ne no(3) by (simp add: release_url_def) (metis last_in_set)
  then have "dropWhile (\<lambda>b. b = CHR ''/'') (rev (release_url v)) = rev (release_url v)"
    by (simp add: dropWhile_eq_self_iff hd_rev)
  then have trim: "rev (dropWhile (\<lambda>b. b = CHR ''/'') (rev (release_url v))) = release_url v"
    by simp
  have "strip_prefix ''https://github.com/kvunoff/whoisthat/releases/tag/'' (release_url v) = Some (CHR ''v'' # v)"
    by (simp add: strip_prefix_Some release_url_def RELEASES_URL_def)
  moreover have "strip_prefix ''v'' (CHR ''v'' # v) = Some v" by (simp add: strip_prefix_Some)
  ultimately show ?thesis
    using assms no(3) unfolding parse_release_tag_def Let_def first trim by auto
qed

theorem parse_release_tag_release_url_witness:
  "parse_release_tag (release_url ''0.18.1'') = Some ''0.18.1''"
  by (rule parse_release_tag_release_url) (simp add: version_eval)

text \<open>checks are a day apart: once a check is recorded (at a positive time) none is due
  within 24 hours, one is due after, and a clock set back makes one due again.\<close>

lemma check_interval:
  assumes "0 < last_check" and "last_check < 2 ^ 63" and "0 \<le> now" and "now < 2 ^ 63"
  shows "should_check_cheap True now last_check False False \<longleftrightarrow> now < last_check \<or> last_check + 86400 \<le> now"
  using assms by (auto simp: should_check_cheap_def sat_sub_i64_def CHECK_INTERVAL_SECS_def)

end
