(* ===== verification/Host.thy ===== *)
theory Host
  imports UpdateCheck LogFmt
begin

text \<open>
  The desktop around the program: \<open>src/terminal.rs\<close> (which terminal to open), \<open>src/core\_spawn.rs\<close>
  (where the core is and its capabilities), \<open>src/systemd.rs\<close> (the user service),
  \<open>src/deeplink/desktop.rs\<close> (the desktop entries) and \<open>which\<close> of \<open>src/launcher.rs\<close>.  Commands and files
  that are read are an environment; what a command answers may depend on the commands before it.
  Files written and commands run are in the state.
\<close>

section \<open>Commands and files\<close>

record CmdOut =
  co_ok :: bool
  co_stdout :: string
  co_stderr :: string

datatype CmdErr = MissingCmd | OtherErr string

type_synonym Cmd = "string \<times> string list"

record HostEnv =
  he_var :: "string \<Rightarrow> string option"
  he_is_file :: "string \<Rightarrow> bool"
  he_exists :: "string \<Rightarrow> bool"
  he_run :: "Cmd list \<Rightarrow> Cmd \<Rightarrow> CmdErr + CmdOut"
  he_current_exe :: "string option"
  he_absolute :: "string \<Rightarrow> string + string"
  he_canonical :: "string \<Rightarrow> string option"
  he_answer :: "string option"
  he_write :: "string \<Rightarrow> string option"
  he_mkdir :: "string \<Rightarrow> string option"

record HostState =
  hs_files :: "string \<Rightarrow> string option"
  hs_cmds :: "Cmd list"
  hs_lines :: "string list"

definition run_cmd :: "HostEnv \<Rightarrow> string \<Rightarrow> string list \<Rightarrow> HostState \<Rightarrow> (CmdErr + CmdOut) \<times> HostState" where
  "run_cmd env prog args h = (he_run env (hs_cmds h) (prog, args), h\<lparr>hs_cmds := hs_cmds h @ [(prog, args)]\<rparr>)"

text \<open>The ways the code reads an outcome: whether it ran and succeeded, and what it printed.\<close>

definition succeeded :: "(CmdErr + CmdOut) \<Rightarrow> bool" where
  "succeeded r = (case r of Inr out \<Rightarrow> co_ok out | Inl _ \<Rightarrow> False)"

definition printed :: "(CmdErr + CmdOut) \<Rightarrow> string" where
  "printed r = (case r of Inr out \<Rightarrow> from_utf8_lossy (co_stdout out) | Inl _ \<Rightarrow> [])"

definition cmd_err :: "CmdErr \<Rightarrow> string" where
  "cmd_err e = (case e of MissingCmd \<Rightarrow> ''No such file or directory (os error 2)'' | OtherErr m \<Rightarrow> m)"

definition eprint :: "string \<Rightarrow> HostState \<Rightarrow> HostState" where
  "eprint l h = h\<lparr>hs_lines := hs_lines h @ [l]\<rparr>"

definition path_var :: "HostEnv \<Rightarrow> string list" where
  "path_var env = (case he_var env ''PATH'' of None \<Rightarrow> [] | Some p \<Rightarrow> split_on (\<lambda>c. c = CHR '':'') p)"

definition which :: "HostEnv \<Rightarrow> string \<Rightarrow> string option" where
  "which env bin =
     map_option from_utf8_lossy (find (he_is_file env) (map (\<lambda>dir. path_join dir bin) (path_var env)))"

section \<open>The terminal\<close>

definition TERMINALS :: "(string \<times> string list) list" where
  "TERMINALS =
     [(''alacritty'', [''-e'']), (''ghostty'', [''-e'']), (''kitty'', []), (''foot'', [''-e'']),
      (''wezterm'', [''start'', ''--'']), (''konsole'', [''-e'']), (''xfce4-terminal'', [''-x'']),
      (''gnome-terminal'', [''--'']), (''kgx'', [''-e'']), (''tilix'', [''-x'']), (''mate-terminal'', [''-x'']),
      (''terminator'', [''-x'']), (''lxterminal'', [''-e'']), (''qterminal'', [''-e'']), (''terminology'', [''-e'']),
      (''termite'', [''-e'']), (''rio'', [''-e'']), (''urxvt'', [''-e'']), (''rxvt'', [''-e'']), (''st'', [''-e'']),
      (''xterm'', [''-e''])]"

definition LAUNCHERS :: "(string \<times> string list) list" where
  "LAUNCHERS =
     [(''xdg-terminal-exec'', []), (''x-terminal-emulator'', [''-e'']), (''sensible-terminal'', [''-e'']),
      (''i3-sensible-terminal'', [''-e''])]"

text \<open>\<open>str::split\_whitespace\<close>, and \<open>Path::file\_name\<close> of a path without trailing separators or dots.\<close>

definition nonempty_words :: "string list list \<Rightarrow> string list" where
  "nonempty_words ws = map concat (filter (\<lambda>w. w \<noteq> []) ws)"

fun split_chars :: "(string \<Rightarrow> bool) \<Rightarrow> string list \<Rightarrow> string list list" where
  "split_chars p [] = [[]]"
| "split_chars p (c # cs) =
     (if p c then [] # split_chars p cs
      else (case split_chars p cs of w # ws \<Rightarrow> (c # w) # ws | [] \<Rightarrow> [[c]]))"

definition split_whitespace :: "string \<Rightarrow> string list" where
  "split_whitespace s = nonempty_words (split_chars is_whitespace (uchars s))"

definition file_name :: "string \<Rightarrow> string option" where
  "file_name path =
     (let parts = filter (\<lambda>p. p \<noteq> [] \<and> p \<noteq> ''.'') (split_on (\<lambda>c. c = CHR ''/'') path)
      in if parts = [] \<or> last parts = ''..'' then None else Some (last parts))"

definition known_args :: "string \<Rightarrow> string list option" where
  "known_args program =
     (case file_name program of
        None \<Rightarrow> None
      | Some name \<Rightarrow> map_of (TERMINALS @ LAUNCHERS) name)"

definition parse_terminal :: "string \<Rightarrow> (string \<times> string list) option" where
  "parse_terminal v =
     (case split_whitespace v of
        [] \<Rightarrow> None
      | [program] \<Rightarrow> Some (program, case known_args program of Some args \<Rightarrow> args | None \<Rightarrow> [''-e''])
      | program # args \<Rightarrow> Some (program, args))"

definition resolve_terminal :: "HostEnv \<Rightarrow> string \<Rightarrow> (string \<times> string list) option" where
  "resolve_terminal env configured =
     (case parse_terminal configured of
        Some t \<Rightarrow> Some t
      | None \<Rightarrow>
          (case Option.bind (he_var env ''TERMINAL'') parse_terminal of
             Some t \<Rightarrow> Some t
           | None \<Rightarrow>
               (case find (\<lambda>t. which env (fst t) \<noteq> None) (TERMINALS @ LAUNCHERS) of
                  Some t \<Rightarrow> parse_terminal (fst t)
                | None \<Rightarrow> None)))"

definition current_exe_string :: "HostEnv \<Rightarrow> string" where
  "current_exe_string env =
     (case he_current_exe env of Some p \<Rightarrow> from_utf8_lossy p | None \<Rightarrow> ''whoisthat'')"

text \<open>\<open>relaunch\<close> replaces the process by the command, or fails with status 1.\<close>

definition relaunch :: "HostEnv \<Rightarrow> string \<Rightarrow> Cmd option" where
  "relaunch env configured =
     map_option (\<lambda>(program, args). (program, args @ [current_exe_string env])) (resolve_terminal env configured)"

section \<open>The core's binary\<close>

definition CORE_CANDIDATES :: "string list" where
  "CORE_CANDIDATES =
     [''./whoisthat-core'', ''./core/core/whoisthat-core'', ''./bin/whoisthat-core'',
      ''/usr/bin/whoisthat-core'', ''/usr/local/bin/whoisthat-core'']"

definition find_core_binary :: "HostEnv \<Rightarrow> string" where
  "find_core_binary env =
     (case which env ''whoisthat-core'' of
        Some p \<Rightarrow> p
      | None \<Rightarrow>
          (case find (he_exists env) CORE_CANDIDATES of Some c \<Rightarrow> c | None \<Rightarrow> ''whoisthat-core''))"

definition has_cap_net :: "HostEnv \<Rightarrow> string \<Rightarrow> HostState \<Rightarrow> bool \<times> HostState" where
  "has_cap_net env path h =
     (case run_cmd env ''getcap'' [path] h of (r, h) \<Rightarrow> (str_contains ''cap_net_admin'' (printed r), h))"

definition CORE_CAPS :: string where
  "CORE_CAPS = ''cap_net_admin,cap_net_raw,cap_setpcap=+ep''"

text \<open>\<open>he\_answer\<close> is the line the user types, \<open>None\<close> when it cannot be read; lower-casing a yes needs the
  ASCII letters alone.\<close>

definition resolved_core :: "HostEnv \<Rightarrow> string \<Rightarrow> string" where
  "resolved_core env core_path =
     (case he_canonical env core_path of
        Some p \<Rightarrow> p
      | None \<Rightarrow> (case he_absolute env core_path of Inr p \<Rightarrow> p | Inl _ \<Rightarrow> core_path))"

definition consents :: "(string \<Rightarrow> string) \<Rightarrow> string \<Rightarrow> bool" where
  "consents lc answer \<longleftrightarrow> (let a = lc (trim answer) in a = [] \<or> a = ''y'' \<or> a = ''yes'')"

definition run_manually :: "string \<Rightarrow> string" where
  "run_manually core = ''Run manually: sudo setcap '' @ CORE_CAPS @ '' '' @ core"

definition ensure_core_caps :: "(string \<Rightarrow> string) \<Rightarrow> HostEnv \<Rightarrow> string \<Rightarrow> HostState \<Rightarrow> HostState" where
  "ensure_core_caps lc env core_path h =
     (let core = resolved_core env core_path
      in case has_cap_net env core h of
        (True, h) \<Rightarrow> h
      | (False, h) \<Rightarrow>
          (let h = eprint ''whoisthat: TUN mode needs network capabilities on core binary.'' h;
               h = eprint ''Set up via pkexec? [Y/n] '' h
           in case he_answer env of
                None \<Rightarrow> eprint (CHR 0x0A # run_manually core) h
              | Some answer \<Rightarrow>
                  if \<not> consents lc answer then eprint (run_manually core) h
                  else
                    (case run_cmd env ''pkexec'' [''setcap'', CORE_CAPS, core] h of
                       (r, h) \<Rightarrow>
                         if succeeded r
                         then (case has_cap_net env core h of
                                 (True, h) \<Rightarrow> eprint (''whoisthat: capabilities verified on '' @ core @ ''. TUN mode ready.'') h
                               | (False, h) \<Rightarrow>
                                   eprint (''whoisthat: pkexec reported success but caps missing on '' @ core @
                                     ''. Run: sudo setcap '' @ CORE_CAPS @ '' '' @ core) h)
                         else eprint (''whoisthat: failed. Run: sudo setcap '' @ CORE_CAPS @ '' '' @ core) h)))"

section \<open>The user service\<close>

definition SYSTEMD_SERVICE_NAME :: string where
  "SYSTEMD_SERVICE_NAME = ''whoisthat-core.service''"

definition systemd_service_dir :: "HostEnv \<Rightarrow> string" where
  "systemd_service_dir env =
     path_join (path_join (path_join (case he_var env ''HOME'' of Some home \<Rightarrow> home | None \<Rightarrow> ''/tmp'')
       ''.config'') ''systemd'') ''user''"

definition systemd_service_path :: "HostEnv \<Rightarrow> string" where
  "systemd_service_path env = path_join (systemd_service_dir env) SYSTEMD_SERVICE_NAME"

definition systemctl :: "HostEnv \<Rightarrow> string list \<Rightarrow> HostState \<Rightarrow> (CmdErr + CmdOut) \<times> HostState" where
  "systemctl env args h = run_cmd env ''systemctl'' (''--user'' # args) h"

definition systemd_is_enabled :: "HostEnv \<Rightarrow> HostState \<Rightarrow> bool \<times> HostState" where
  "systemd_is_enabled env h =
     (case systemctl env [''is-enabled'', SYSTEMD_SERVICE_NAME] h of (r, h) \<Rightarrow> (succeeded r, h))"

definition host_user :: "HostEnv \<Rightarrow> string" where
  "host_user env = (case he_var env ''USER'' of Some u \<Rightarrow> u | None \<Rightarrow> [])"

definition linger_is_enabled :: "HostEnv \<Rightarrow> HostState \<Rightarrow> bool \<times> HostState" where
  "linger_is_enabled env h =
     (if host_user env = [] then (False, h)
      else (case run_cmd env ''loginctl'' [''show-user'', host_user env, ''--property=Linger''] h of
              (r, h) \<Rightarrow> (str_contains ''Linger=yes'' (printed r), h)))"

definition enable_linger_via_pkexec :: "HostEnv \<Rightarrow> HostState \<Rightarrow> bool \<times> HostState" where
  "enable_linger_via_pkexec env h =
     (if host_user env = [] then (False, h)
      else (case run_cmd env ''pkexec'' [''loginctl'', ''enable-linger'', host_user env] h of
              (r, h) \<Rightarrow> (succeeded r, h)))"

text \<open>\<open>str::replace\<close> of one byte; the replacements follow each other.\<close>

definition replace_char :: "char \<Rightarrow> string \<Rightarrow> string \<Rightarrow> string" where
  "replace_char c r s = concat (map (\<lambda>x. if x = c then r else [x]) s)"

definition unit_escape :: "string \<Rightarrow> string" where
  "unit_escape v =
     replace_char (CHR 0x22) [CHR 0x5C, CHR 0x22] (replace_char (CHR 0x5C) [CHR 0x5C, CHR 0x5C]
       (replace_char (CHR ''%'') ''%%'' v))"

definition unit_lines :: "string list \<Rightarrow> string" where
  "unit_lines ls = concat (map (\<lambda>l. l @ [CHR 0x0A]) ls)"

definition exec_start :: "string \<Rightarrow> string" where
  "exec_start core_path = ''ExecStart='' @ CHR 0x22 # unit_escape core_path @ [CHR 0x22]"

definition generate_unit_file :: "string \<Rightarrow> string" where
  "generate_unit_file core_path = unit_lines
     [''[Unit]'', ''Description=WhoisThat VPN Core'', ''After=network-online.target'',
      ''Wants=network-online.target'', [], ''[Service]'', ''Type=simple'', exec_start core_path,
      ''Restart=on-failure'', ''RestartSec=5'', [], ''[Install]'', ''WantedBy=default.target'']"

definition write_host_file :: "HostEnv \<Rightarrow> string \<Rightarrow> string \<Rightarrow> HostState \<Rightarrow> string option \<times> HostState" where
  "write_host_file env path c h =
     (case he_write env path of
        Some e \<Rightarrow> (Some e, h)
      | None \<Rightarrow> (None, h\<lparr>hs_files := (hs_files h)(path \<mapsto> c)\<rparr>))"

text \<open>A command that must run and succeed: what is reported otherwise.\<close>

definition must_run :: "string \<Rightarrow> string \<Rightarrow> (CmdErr + CmdOut) \<times> HostState \<Rightarrow> string option \<times> HostState" where
  "must_run what failed r =
     (case r of
        (Inl e, h) \<Rightarrow> (Some (what @ '' failed: '' @ cmd_err e), h)
      | (Inr out, h) \<Rightarrow> (if co_ok out then None else Some failed, h))"

definition setup_systemd_service :: "HostEnv \<Rightarrow> string \<Rightarrow> HostState \<Rightarrow> string option \<times> HostState" where
  "setup_systemd_service env core_path h =
     (case he_absolute env core_path of
        Inl e \<Rightarrow> (Some (''cannot resolve core path: '' @ e), h)
      | Inr core \<Rightarrow>
          (case he_mkdir env (systemd_service_dir env) of
             Some e \<Rightarrow> (Some (''cannot create systemd dir: '' @ e), h)
           | None \<Rightarrow>
               (case write_host_file env (systemd_service_path env) (generate_unit_file (from_utf8_lossy core)) h of
                  (Some e, h) \<Rightarrow> (Some (''cannot write service file: '' @ e), h)
                | (None, h) \<Rightarrow>
                    (case must_run ''daemon-reload'' ''systemctl --user daemon-reload failed''
                            (systemctl env [''daemon-reload''] h) of
                       (Some e, h) \<Rightarrow> (Some e, h)
                     | (None, h) \<Rightarrow>
                         (case must_run ''enable'' ''systemctl --user enable failed''
                                 (systemctl env [''enable'', SYSTEMD_SERVICE_NAME] h) of
                            (Some e, h) \<Rightarrow> (Some e, h)
                          | (None, h) \<Rightarrow>
                              (case linger_is_enabled env h of
                                 (True, h) \<Rightarrow> (None, h)
                               | (False, h) \<Rightarrow>
                                   (case enable_linger_via_pkexec env h of
                                      (True, h) \<Rightarrow> (None, h)
                                    | (False, h) \<Rightarrow>
                                        (Some ''Could not enable lingering. Run manually: sudo loginctl enable-linger $USER'', h))))))))"

definition teardown_systemd_service :: "HostEnv \<Rightarrow> HostState \<Rightarrow> string option \<times> HostState" where
  "teardown_systemd_service env h =
     (case systemctl env [''disable'', SYSTEMD_SERVICE_NAME] h of (_, h) \<Rightarrow>
        must_run ''daemon-reload'' ''systemctl --user daemon-reload failed''
          (systemctl env [''daemon-reload'']
             (h\<lparr>hs_files := (hs_files h)(systemd_service_path env := None)\<rparr>)))"

section \<open>The desktop entries\<close>

definition HANDLER_DESKTOP_FILE :: string where
  "HANDLER_DESKTOP_FILE = ''whoisthat-url.desktop''"

definition exec_quote :: "string \<Rightarrow> string" where
  "exec_quote path =
     CHR 0x22 # replace_char (CHR 0x22) [CHR 0x5C, CHR 0x22] (replace_char (CHR 0x5C) [CHR 0x5C, CHR 0x5C] path)
       @ [CHR 0x22]"

definition launcher_entry :: "string \<Rightarrow> string" where
  "launcher_entry exe = unit_lines
     [''[Desktop Entry]'', ''Name=WhoisThat'', ''GenericName=VPN Client'',
      ''Comment=Modern terminal-based VPN client with Xray-core backend'', ''Exec='' @ exec_quote exe,
      ''Icon=whoisthat'', ''Terminal=false'', ''Type=Application'', ''Categories=Network;X-VPN;ConsoleOnly;'',
      ''Keywords=vpn;proxy;xray;vless;vmess;hysteria;'']"

definition url_handler_entry :: "string \<Rightarrow> string" where
  "url_handler_entry exe = unit_lines
     [''[Desktop Entry]'', ''Name=WhoisThat URL Handler'', ''Comment=Handle wit:// deep links for WhoisThat'',
      ''Exec='' @ exec_quote exe @ '' link handle %u'', ''Icon=whoisthat'', ''Terminal=false'', ''NoDisplay=true'',
      ''Type=Application'', ''MimeType=x-scheme-handler/wit;'']"

record DesktopFiles =
  df_apps_dir :: string
  df_launcher :: string
  df_handler :: string
  df_icon :: string

definition ICON_DIR :: "string \<Rightarrow> string" where
  "ICON_DIR home = path_join home ''.local/share/icons/hicolor/scalable/apps''"

definition desktop_files :: "string \<Rightarrow> DesktopFiles" where
  "desktop_files home =
     (let apps_dir = path_join home ''.local/share/applications''
      in \<lparr>df_apps_dir = apps_dir, df_launcher = path_join apps_dir ''whoisthat.desktop'',
          df_handler = path_join apps_dir HANDLER_DESKTOP_FILE,
          df_icon = path_join (ICON_DIR home) ''whoisthat.svg''\<rparr>)"

text \<open>\<open>svg\<close> is the icon that is compiled in.  The first failure ends the writing.\<close>

definition write_desktop_files ::
  "HostEnv \<Rightarrow> string \<Rightarrow> string \<Rightarrow> string \<Rightarrow> HostState \<Rightarrow> string option \<times> HostState" where
  "write_desktop_files env svg home exe h =
     (let files = desktop_files home
      in case he_mkdir env (df_apps_dir files) of
           Some e \<Rightarrow> (Some e, h)
         | None \<Rightarrow>
      (case he_mkdir env (ICON_DIR home) of
           Some e \<Rightarrow> (Some e, h)
         | None \<Rightarrow>
      (case write_host_file env (df_launcher files) (launcher_entry exe) h of
           (Some e, h) \<Rightarrow> (Some e, h)
         | (None, h) \<Rightarrow>
      (case write_host_file env (df_handler files) (url_handler_entry exe) h of
           (Some e, h) \<Rightarrow> (Some e, h)
         | (None, h) \<Rightarrow> write_host_file env (df_icon files) svg h))))"

definition register_url_handler :: "HostEnv \<Rightarrow> string \<Rightarrow> HostState \<Rightarrow> bool \<times> HostState" where
  "register_url_handler env home h =
     (case run_cmd env ''xdg-mime'' [''default'', HANDLER_DESKTOP_FILE, ''x-scheme-handler/wit''] h of (r, h) \<Rightarrow>
        (case run_cmd env ''update-desktop-database'' [df_apps_dir (desktop_files home)] h of (_, h) \<Rightarrow>
           (succeeded r, h)))"

definition register_desktop_handler :: "HostEnv \<Rightarrow> string \<Rightarrow> HostState \<Rightarrow> string option \<times> HostState" where
  "register_desktop_handler env svg h =
     (case he_var env ''HOME'' of
        None \<Rightarrow> (Some ''HOME environment variable not set'', h)
      | Some home \<Rightarrow>
          (case write_desktop_files env svg home (current_exe_string env) h of
             (Some e, h) \<Rightarrow> (Some e, h)
           | (None, h) \<Rightarrow>
               (let check = [CHR 0xE2, CHR 0x9C, CHR 0x93]; warn = [CHR 0xE2, CHR 0x9A, CHR 0xA0];
                    h = eprint (check @ '' Written desktop entries: '' @ df_launcher (desktop_files home)) h;
                    h = eprint (''                          '' @ df_handler (desktop_files home)) h
                in case register_url_handler env home h of
                     (True, h) \<Rightarrow> (None, eprint (check @ '' Registered '' @ HANDLER_DESKTOP_FILE @
                        '' as default handler for x-scheme-handler/wit'') h)
                   | (False, h) \<Rightarrow> (None, eprint (warn @ '' Note: could not register '' @ HANDLER_DESKTOP_FILE @
                        '' for x-scheme-handler/wit (xdg-utils might not be installed)'') h))))"

text \<open>Files are read from the state; a file that is not valid text counts as different, as it is not equal
  to an entry.\<close>

definition desktop_stale :: "HostEnv \<Rightarrow> string \<Rightarrow> HostState \<Rightarrow> bool" where
  "desktop_stale env home h \<longleftrightarrow>
     (let files = desktop_files home; exe = current_exe_string env
      in hs_files h (df_launcher files) \<noteq> Some (launcher_entry exe) \<or>
         hs_files h (df_handler files) \<noteq> Some (url_handler_entry exe) \<or>
         hs_files h (df_icon files) = None)"

definition ensure_desktop_registered :: "HostEnv \<Rightarrow> string \<Rightarrow> HostState \<Rightarrow> HostState" where
  "ensure_desktop_registered env svg h =
     (case he_var env ''HOME'' of
        None \<Rightarrow> h
      | Some home \<Rightarrow>
          (let needs_write = desktop_stale env home h;
               h = (if needs_write then snd (write_desktop_files env svg home (current_exe_string env) h) else h)
           in case run_cmd env ''xdg-mime'' [''query'', ''default'', ''x-scheme-handler/wit''] h of
                (r, h) \<Rightarrow>
                  (let registered = (case r of Inr out \<Rightarrow> trim (printed r) = HANDLER_DESKTOP_FILE | Inl _ \<Rightarrow> False)
                   in if \<not> registered \<or> needs_write then snd (register_url_handler env home h) else h)))"

section \<open>What systemd reads\<close>

text \<open>The two steps with which systemd reads a quoted word of \<open>ExecStart\<close> (systemd.syntax and systemd.unit):
  a backslash takes the next character literally up to the closing quote, then \<open>%%\<close> stands for a percent
  sign and any other \<open>%\<close> starts a specifier.\<close>

fun read_quoted :: "string \<Rightarrow> (string \<times> string) option" where
  "read_quoted [] = None"
| "read_quoted (c # s) =
     (if c = CHR 0x22 then Some ([], s)
      else if c = CHR 0x5C
      then (case s of [] \<Rightarrow> None | e # s \<Rightarrow> map_option (\<lambda>(w, r). (e # w, r)) (read_quoted s))
      else map_option (\<lambda>(w, r). (c # w, r)) (read_quoted s))"

fun expand_percent :: "string \<Rightarrow> string option" where
  "expand_percent [] = Some []"
| "expand_percent (c # s) =
     (if c \<noteq> CHR ''%'' then map_option ((#) c) (expand_percent s)
      else (case s of
              d # s \<Rightarrow> if d = CHR ''%'' then map_option ((#) (CHR ''%'')) (expand_percent s) else None
            | [] \<Rightarrow> None))"

definition read_exec_start :: "string \<Rightarrow> (string \<times> string) option" where
  "read_exec_start l =
     (case strip_prefix (''ExecStart='' @ [CHR 0x22]) l of
        None \<Rightarrow> None
      | Some w \<Rightarrow>
          (case read_quoted w of
             None \<Rightarrow> None
           | Some (w, r) \<Rightarrow> map_option (\<lambda>w. (w, r)) (expand_percent w)))"

lemma replace_char_simps [simp]:
  "replace_char c r [] = []" "replace_char c r (x # s) = (if x = c then r else [x]) @ replace_char c r s"
  by (simp_all add: replace_char_def)

lemma replace_char_append [simp]: "replace_char c r (s @ t) = replace_char c r s @ replace_char c r t"
  by (simp add: replace_char_def)

lemma unit_escape_simps [simp]:
  "unit_escape [] = []"
  "unit_escape (x # s) =
     (if x = CHR ''%'' then ''%%'' else if x = CHR 0x5C then [CHR 0x5C, CHR 0x5C]
      else if x = CHR 0x22 then [CHR 0x5C, CHR 0x22] else [x]) @ unit_escape s"
  by (simp_all add: unit_escape_def)

lemma read_quoted_escaped:
  "read_quoted (unit_escape p @ CHR 0x22 # r) = Some (replace_char (CHR ''%'') ''%%'' p, r)"
  by (induction p) simp_all

lemma expand_doubled: "expand_percent (replace_char (CHR ''%'') ''%%'' p) = Some p"
  by (induction p) simp_all

text \<open>systemd reads a unit file line by line, so the lines of the file are those it was made of as long as none
  of them holds a line break itself.\<close>

fun file_lines :: "string \<Rightarrow> string list" where
  "file_lines [] = []"
| "file_lines (c # s) =
     (if c = CHR 0x0A then [] # file_lines s
      else (case file_lines s of [] \<Rightarrow> [[c]] | l # ls \<Rightarrow> (c # l) # ls))"

lemma file_lines_line: "CHR 0x0A \<notin> set l \<Longrightarrow> file_lines (l @ CHR 0x0A # s) = l # file_lines s"
  by (induction l) auto

lemma file_lines_unit: "\<forall>l\<in>set ls. CHR 0x0A \<notin> set l \<Longrightarrow> file_lines (unit_lines ls) = ls"
  by (induction ls) (simp_all add: unit_lines_def file_lines_line)

lemma unit_escape_break: "CHR 0x0A \<in> set (unit_escape p) \<longleftrightarrow> CHR 0x0A \<in> set p"
  by (induction p) auto

lemma read_exec_start_escaped: "read_exec_start (exec_start core_path) = Some (core_path, [])"
proof -
  have "strip_prefix (''ExecStart='' @ [CHR 0x22]) (exec_start core_path) = Some (unit_escape core_path @ [CHR 0x22])"
    by (simp add: exec_start_def strip_prefix_def starts_with_def)
  then show ?thesis
    using read_quoted_escaped [of core_path "[]"] by (simp add: read_exec_start_def expand_doubled)
qed



text \<open>The desktop entries quote the path the same way but leave percent signs single, where they are field
  codes as well: a path with one is not read back.\<close>

lemma desktop_entry_keeps_percent:
  "exec_quote ''/opt/50%/whoisthat'' = CHR 0x22 # ''/opt/50%/whoisthat'' @ [CHR 0x22]"
  "expand_percent ''/opt/50%/whoisthat'' = None"
  by (simp_all add: exec_quote_def)

section \<open>Asking before acting\<close>

lemma hs_cmds_simps [simp]:
  "hs_cmds (eprint l h) = hs_cmds h" "snd (run_cmd env p a h) = h\<lparr>hs_cmds := hs_cmds h @ [(p, a)]\<rparr>"
  by (simp_all add: eprint_def run_cmd_def)

lemma has_cap_net_cmds [simp]: "hs_cmds (snd (has_cap_net env path h)) = hs_cmds h @ [(''getcap'', [path])]"
  by (simp add: has_cap_net_def run_cmd_def)

text \<open>C28: The capabilities of the core are changed only when they are missing and the user has agreed: the
  one command with more rights is \<open>pkexec setcap\<close> on the resolved binary, and it is run exactly when
  \<open>getcap\<close> does not show \<open>cap\_net\_admin\<close> and an answer could be read that is empty or a yes.\<close>

theorem capabilities_need_consent:
  "let core = resolved_core env core_path; h' = ensure_core_caps lc env core_path h
   in (\<exists>done. hs_cmds h' = hs_cmds h @ done \<and>
        (\<forall>c. c \<in> set done \<longleftrightarrow> c = (''getcap'', [core]) \<or>
           c = (''pkexec'', [''setcap'', CORE_CAPS, core]) \<and>
           \<not> fst (has_cap_net env core h) \<and> (\<exists>a. he_answer env = Some a \<and> consents lc a)))"
  (is "let core = ?core; h' = ?h in _")
proof -
  show ?thesis
  proof (cases "has_cap_net env ?core h")
    case (Pair b h1)
    have c: "hs_cmds h1 = hs_cmds h @ [(''getcap'', [?core])]"
      using has_cap_net_cmds [of env ?core h] Pair by simp
    have two: "hs_cmds (snd (has_cap_net env ?core h)) = hs_cmds h @ [(''getcap'', [?core])]" for h
      by simp
    show ?thesis
      using Pair c
      by (auto simp: ensure_core_caps_def Let_def run_cmd_def eprint_def has_cap_net_def
          split: option.splits bool.splits)
  qed
qed

section \<open>Registering once\<close>

lemma desktop_names_differ:
  "df_launcher (desktop_files home) \<noteq> df_handler (desktop_files home)"
  by (simp add: desktop_files_def path_join_def HANDLER_DESKTOP_FILE_def)

lemma written_not_stale:
  assumes "write_desktop_files env svg home (current_exe_string env) h = (None, h')"
    "df_icon (desktop_files home) \<notin> {df_launcher (desktop_files home), df_handler (desktop_files home)}"
  shows "\<not> desktop_stale env home h'"
  using assms desktop_names_differ [of home]
  by (auto simp: write_desktop_files_def desktop_stale_def Let_def write_host_file_def
      split: option.splits)

end
