(* ===== verification/Protocol.thy ===== *)
theory Protocol
  imports Json
begin

text \<open>
  \<open>src/core_client/protocol.rs\<close>: the data exchanged with the core, one record per struct
  with the fields in the order of the source.  Field names carry a short prefix because
  record fields are global in HOL.  The integers are only stored, compared and printed by
  the client; they are unbounded here and the decoders of \<open>Codec\<close> enforce their width.
\<close>

type_synonym i32 = int
type_synonym i64 = int
type_synonym u32 = int

section \<open>Profiles and groups\<close>

record Profile =
  p_id :: i32
  p_group_id :: i32
  p_name :: string
  p_protocol :: string
  p_uri :: string
  p_address :: string
  p_host :: string
  p_test_result :: i32
  p_tested_at :: i64
  p_loss_pct :: i32
  p_jitter_ms :: i32
  p_port :: i32
  p_managed :: bool
  p_provider_key :: string

record ProfileID =
  pid_id :: i32
  pid_group_id :: i32

record ProfileDetails =
  pd_group_id :: i32
  pd_id :: i32
  pd_transport :: string
  pd_security :: string
  pd_sni :: string
  pd_flow :: string
  pd_alpn :: string
  pd_path :: string
  pd_host :: string
  pd_service_name :: string
  pd_mode :: string
  pd_fingerprint :: string
  pd_public_key :: string
  pd_short_id :: string
  pd_spider_x :: string
  pd_obfs :: string
  pd_cipher :: string
  pd_allow_insecure :: bool

record RoutingProfileInfo =
  rp_id :: string
  rp_name :: string
  rp_state :: string
  rp_last_error :: string
  rp_active :: bool
  rp_rules_count :: nat
  rp_global_proxy :: bool
  rp_domain_strategy :: string
  rp_fake_dns_enabled :: bool
  rp_remote_dns :: string
  rp_domestic_dns :: string
  rp_last_updated :: i64
  rp_geo_updated_at :: i64

record Group =
  g_id :: i32
  g_name :: string
  g_subscription_url :: string
  g_last_id :: i32
  g_sub_last_updated :: i64
  g_sub_expires :: i64
  g_sub_upload :: i64
  g_sub_download :: i64
  g_sub_total :: i64
  g_sub_update_interval :: i64
  g_sub_update_interval_override :: i64
  g_sub_auto_update_disabled :: bool
  g_profile_order :: "i32 list"
  g_routing_mode :: string
  g_manual_routing_mode :: string
  g_active_routing_profile_id :: string
  g_pending_active_routing_profile_id :: string
  g_subscription_format :: string

record GroupWithProfiles =
  gw_group :: Group
  gw_profiles :: "Profile list"
  gw_routing_profiles :: "RoutingProfileInfo list"

section \<open>The core's state\<close>

record ProxyStatus =
  ps_connection :: string
  ps_profile :: "Profile option"
  ps_connected_at :: i64
  ps_reason :: string

record ConfigStatus =
  cs_state :: string
  cs_error :: string

record DbStatus =
  ds_state :: string
  ds_error :: string
  ds_snapshot_at :: string

record XrayStatusInfo =
  xs_version :: string
  xs_target_version :: string
  xs_status :: string
  xs_progress :: i32
  xs_bytes_downloaded :: i64
  xs_total_bytes :: i64
  xs_error :: string

record XrayProgressNotification =
  xp_status :: string
  xp_version :: string
  xp_progress :: i32
  xp_bytes_downloaded :: i64
  xp_total_bytes :: i64
  xp_error :: string

record TestConfig =
  tc_concurrency :: i32
  tc_timeout_seconds :: i32
  tc_samples_per_test :: i32
  tc_test_endpoint :: string
  tc_auto_test_on_subscribe :: bool

record TestProgress =
  tp_group_id :: i32
  tp_tested :: i32
  tp_total :: i32

record HwidData =
  hw_enabled :: bool
  hw_hwid :: string
  hw_user_agent :: string
  hw_platform :: string
  hw_kernel :: string
  hw_model :: string

record SetHwidData =
  sh_enabled :: "bool option"
  sh_user_agent :: "string option"
  sh_reset :: bool

record AutoconnectInfo =
  ac_enabled :: bool
  ac_mode :: string

record TrafficStats =
  ts_proxy_up :: i64
  ts_proxy_down :: i64
  ts_direct_up :: i64
  ts_direct_down :: i64

record ApplicationState =
  as_groups :: "GroupWithProfiles list"
  as_connection_status :: ProxyStatus
  as_tun_status :: bool
  as_hwid_info :: "HwidData option"
  as_kill_switch :: bool
  as_kill_switch_armed :: bool
  as_split_tunnel :: string
  as_autoconnect :: AutoconnectInfo
  as_xray_status :: "XrayStatusInfo option"
  as_core_version :: string
  as_protocol_version :: u32
  as_tun_name :: string
  as_test_config :: TestConfig
  as_config_status :: ConfigStatus
  as_db_status :: DbStatus

section \<open>Routing\<close>

record RoutingRule =
  r_type :: string
  r_domain :: string
  r_ip :: string
  r_protocol :: string
  r_port :: string
  r_network :: string
  r_outbound_tag :: string
  r_enabled :: bool

record RoutingConfig =
  rc_domain_strategy :: string
  rc_rules :: "RoutingRule list"
  rc_dns :: "json option"

definition EXPECTED_CORE_PROTOCOL_VERSION :: int where
  "EXPECTED_CORE_PROTOCOL_VERSION = 5"

section \<open>Default values (the derived \<open>Default\<close> instances the code uses)\<close>

definition default_profile :: Profile where
  "default_profile = \<lparr>p_id = 0, p_group_id = 0, p_name = [], p_protocol = [], p_uri = [],
     p_address = [], p_host = [], p_test_result = 0, p_tested_at = 0, p_loss_pct = 0,
     p_jitter_ms = 0, p_port = 0, p_managed = False, p_provider_key = []\<rparr>"

definition default_group :: Group where
  "default_group = \<lparr>g_id = 0, g_name = [], g_subscription_url = [], g_last_id = 0,
     g_sub_last_updated = 0, g_sub_expires = 0, g_sub_upload = 0, g_sub_download = 0,
     g_sub_total = 0, g_sub_update_interval = 0, g_sub_update_interval_override = 0,
     g_sub_auto_update_disabled = False, g_profile_order = [], g_routing_mode = [],
     g_manual_routing_mode = [], g_active_routing_profile_id = [],
     g_pending_active_routing_profile_id = [], g_subscription_format = []\<rparr>"

definition default_rule :: RoutingRule where
  "default_rule = \<lparr>r_type = [], r_domain = [], r_ip = [], r_protocol = [], r_port = [],
     r_network = [], r_outbound_tag = [], r_enabled = False\<rparr>"

definition default_routing_config :: RoutingConfig where
  "default_routing_config = \<lparr>rc_domain_strategy = [], rc_rules = [], rc_dns = None\<rparr>"

definition default_traffic :: TrafficStats where
  "default_traffic = \<lparr>ts_proxy_up = 0, ts_proxy_down = 0, ts_direct_up = 0, ts_direct_down = 0\<rparr>"

definition default_test_config :: TestConfig where
  "default_test_config = \<lparr>tc_concurrency = 0, tc_timeout_seconds = 0, tc_samples_per_test = 0,
     tc_test_endpoint = [], tc_auto_test_on_subscribe = False\<rparr>"

definition default_status :: ProxyStatus where
  "default_status = \<lparr>ps_connection = ''disconnected'', ps_profile = None, ps_connected_at = 0,
     ps_reason = []\<rparr>"

end
