(* ===== verification/Config.thy ===== *)
theory Config
  imports Protocol
begin

text \<open>
  \<open>src/config.rs\<close>: the configuration of the terminal client, where the core is reached, and the
  atomic write of the file.  The write is the list of file system operations it performs, so
  that a crash after any of them, or a failure of any of them, can be considered.  TOML is
  third-party code; the serialised text is an argument.
\<close>

record AppConfig =
  c_core_tcp_port :: nat
  c_core_host :: string
  c_autoconnect :: bool
  c_last_group_id :: int
  c_last_profile_id :: int
  c_core_version :: string
  c_show_ip :: bool
  c_theme :: string
  c_log_enabled :: bool
  c_log_level :: string
  c_terminal :: string
  c_test_method :: string
  c_tun_name :: string
  c_kill_switch_enabled :: bool
  c_ipc_socket_path :: string
  c_use_tcp :: bool
  c_autoconnect_migrated :: bool
  c_test_concurrency :: int
  c_test_timeout_seconds :: int
  c_test_samples :: int
  c_test_endpoint :: string
  c_auto_test_on_subscribe :: bool
  c_check_updates :: bool
  c_skipped_version :: string
  c_last_update_check :: int
  c_latest_version :: string

definition default_config :: AppConfig where
  "default_config =
    \<lparr>c_core_tcp_port = 4897, c_core_host = ''127.0.0.1'', c_autoconnect = False,
     c_last_group_id = 0, c_last_profile_id = 0, c_core_version = [], c_show_ip = True,
     c_theme = ''graphite-dark'', c_log_enabled = False, c_log_level = ''warn'', c_terminal = [],
     c_test_method = ''http-get'', c_tun_name = ''whoisthattun'', c_kill_switch_enabled = False,
     c_ipc_socket_path = [], c_use_tcp = False, c_autoconnect_migrated = False,
     c_test_concurrency = 16, c_test_timeout_seconds = 5, c_test_samples = 3,
     c_test_endpoint = ''https://cp.cloudflare.com/generate_204'', c_auto_test_on_subscribe = True,
     c_check_updates = True, c_skipped_version = [], c_last_update_check = 0, c_latest_version = []\<rparr>"

section \<open>Reaching the core\<close>

datatype Endpoint = Unix string | Tcp string nat

definition describe :: "Endpoint \<Rightarrow> string" where
  "describe e = (case e of Unix path \<Rightarrow> ''unix:'' @ path
     | Tcp host port \<Rightarrow> host @ '':'' @ show_nat port)"

text \<open>\<open>xdg\<close> is the variable \<open>XDG\_RUNTIME\_DIR\<close>.\<close>

definition default_socket_path :: "string option \<Rightarrow> nat \<Rightarrow> string" where
  "default_socket_path xdg uid =
     (case xdg of
        Some dir \<Rightarrow> if dir \<noteq> [] then dir @ ''/whoisthat/core.sock''
                   else ''/tmp/whoisthat-'' @ show_nat uid @ ''/core.sock''
      | None \<Rightarrow> ''/tmp/whoisthat-'' @ show_nat uid @ ''/core.sock'')"

definition ipc_token_path :: "string option \<Rightarrow> nat \<Rightarrow> string" where
  "ipc_token_path xdg uid =
     (case xdg of
        Some dir \<Rightarrow> if dir \<noteq> [] then dir @ ''/whoisthat/ipc.token''
                   else ''/tmp/whoisthat-'' @ show_nat uid @ ''/ipc.token''
      | None \<Rightarrow> ''/tmp/whoisthat-'' @ show_nat uid @ ''/ipc.token'')"

text \<open>The first of the two variables that holds a number, else the process's own id.\<close>

definition real_uid :: "(string \<Rightarrow> string option) \<Rightarrow> nat \<Rightarrow> nat" where
  "real_uid env getuid =
     (case Option.bind (env ''SUDO_UID'') (\<lambda>v. parse_unsigned 32 (trim v)) of
        Some u \<Rightarrow> u
      | None \<Rightarrow>
          (case Option.bind (env ''PKEXEC_UID'') (\<lambda>v. parse_unsigned 32 (trim v)) of
             Some u \<Rightarrow> u | None \<Rightarrow> getuid))"

definition endpoint :: "string option \<Rightarrow> nat \<Rightarrow> AppConfig \<Rightarrow> Endpoint" where
  "endpoint xdg uid cfg =
     (if c_use_tcp cfg then Tcp (c_core_host cfg) (c_core_tcp_port cfg)
      else if c_ipc_socket_path cfg \<noteq> [] then Unix (c_ipc_socket_path cfg)
      else Unix (default_socket_path xdg uid))"

definition parse_autoconnect_tun :: "(string \<Rightarrow> json option) \<Rightarrow> string \<Rightarrow> bool" where
  "parse_autoconnect_tun from_str text =
     (case from_str text of
        Some (JObj fs) \<Rightarrow>
          map_of fs ''autoconnect-enabled'' = Some (JBool True)
          \<and> map_of fs ''autoconnect-mode'' = Some (JStr ''tun'')
      | _ \<Rightarrow> False)"

definition core_protocol_matches :: "int \<Rightarrow> bool" where
  "core_protocol_matches v \<longleftrightarrow> v = EXPECTED_CORE_PROTOCOL_VERSION \<and> v \<noteq> 0"

section \<open>The atomic write\<close>

text \<open>Files with their content and mode; what a crash leaves on disk of a file that has been
  written but not yet synced is arbitrary, which \<open>synced\<close> records.\<close>

record File =
  f_content :: string
  f_mode :: nat
  f_synced :: bool

type_synonym disk = "string \<rightharpoonup> File"

datatype DiskOp =
    OpenTrunc string nat
  | WriteAll string string
  | SyncAll string
  | Rename string string
  | RemoveFile string

text \<open>\<open>O\_CREAT\<close> applies the mode to a new file only.\<close>

fun disk_step :: "DiskOp \<Rightarrow> disk \<Rightarrow> disk" where
  "disk_step (OpenTrunc p m) d =
     d(p \<mapsto> \<lparr>f_content = [], f_mode = (case d p of Some f \<Rightarrow> f_mode f | None \<Rightarrow> m), f_synced = False\<rparr>)"
| "disk_step (WriteAll p bs) d =
     (case d p of Some f \<Rightarrow> d(p \<mapsto> f\<lparr>f_content := f_content f @ bs, f_synced := False\<rparr>) | None \<Rightarrow> d)"
| "disk_step (SyncAll p) d =
     (case d p of Some f \<Rightarrow> d(p \<mapsto> f\<lparr>f_synced := True\<rparr>) | None \<Rightarrow> d)"
| "disk_step (Rename p q) d = (case d p of Some f \<Rightarrow> d(p := None, q \<mapsto> f) | None \<Rightarrow> d)"
| "disk_step (RemoveFile p) d = d(p := None)"

definition write_ops :: "string \<Rightarrow> string \<Rightarrow> string \<Rightarrow> DiskOp list" where
  "write_ops tmp path content =
     [OpenTrunc tmp 384, WriteAll tmp content, SyncAll tmp, Rename tmp path]"

text \<open>The closure runs the operations up to the first that fails (number \<open>fail\<close>); then the
  temporary file is removed.  What a failing operation
  did to the temporary file goes with it.\<close>

definition write_atomic :: "string \<Rightarrow> string \<Rightarrow> string \<Rightarrow> nat option \<Rightarrow> disk \<Rightarrow> bool \<times> disk" where
  "write_atomic tmp path content fail d =
     (case fail of
        Some n \<Rightarrow>
          if n < length (write_ops tmp path content)
          then (False, disk_step (RemoveFile tmp) (fold disk_step (take n (write_ops tmp path content)) d))
          else (True, fold disk_step (write_ops tmp path content) d)
      | None \<Rightarrow> (True, fold disk_step (write_ops tmp path content) d))"

text \<open>A crash after \<open>n\<close> operations.\<close>

definition crash_after :: "nat \<Rightarrow> string \<Rightarrow> string \<Rightarrow> string \<Rightarrow> disk \<Rightarrow> disk" where
  "crash_after n tmp path content d = fold disk_step (take n (write_ops tmp path content)) d"

lemma crash_states:
  "crash_after n tmp path content d = d
   \<or> (\<exists>f. crash_after n tmp path content d = d(tmp \<mapsto> f))
   \<or> crash_after n tmp path content d
       = d(tmp := None, path \<mapsto> \<lparr>f_content = content,
             f_mode = (case d tmp of Some f \<Rightarrow> f_mode f | None \<Rightarrow> 384), f_synced = True\<rparr>)"
proof -
  consider "n = 0" | "n = 1" | "n = 2" | "n = 3" | "4 \<le> n" by linarith
  then show ?thesis
    by cases (auto simp: crash_after_def write_ops_def numeral_2_eq_2 numeral_3_eq_3)
qed

text \<open>Wherever a write of the configuration is cut by a crash, the file on disk is either the
  old one, untouched, or the complete new text, synced and readable only by its owner; no other
  file but the temporary one changes.\<close>

theorem config_write_atomic:
  assumes "tmp \<noteq> path" and "d tmp = None"
  shows "(crash_after n tmp path content d path = d path
          \<or> crash_after n tmp path content d path
            = Some \<lparr>f_content = content, f_mode = 384, f_synced = True\<rparr>)
    \<and> (\<forall>p \<in> - {tmp, path}. crash_after n tmp path content d p = d p)"
  using crash_states [of n tmp path content d]
proof (elim disjE exE)
qed (use assms in simp_all)

theorem config_write_atomic_witness:
  "crash_after 2 ''t'' ''p'' ''new'' [''p'' \<mapsto> \<lparr>f_content = ''old'', f_mode = 384, f_synced = True\<rparr>] ''p''
      = Some \<lparr>f_content = ''old'', f_mode = 384, f_synced = True\<rparr>
   \<or> crash_after 2 ''t'' ''p'' ''new'' [''p'' \<mapsto> \<lparr>f_content = ''old'', f_mode = 384, f_synced = True\<rparr>] ''p''
      = Some \<lparr>f_content = ''new'', f_mode = 384, f_synced = True\<rparr>"
  using config_write_atomic [of "''t''" "''p''"
      "[''p'' \<mapsto> \<lparr>f_content = ''old'', f_mode = 384, f_synced = True\<rparr>]" 2 "''new''"] by simp

text \<open>A write that fails reports it, keeps the old file and leaves no temporary file.\<close>

lemma write_atomic_ok:
  assumes "d tmp = None"
  shows "fold disk_step (write_ops tmp path content) d
    = d(tmp := None, path \<mapsto> \<lparr>f_content = content, f_mode = 384, f_synced = True\<rparr>)"
  using assms by (simp add: write_ops_def fun_upd_twist)

lemma failed_write:
  assumes "tmp \<noteq> path" and "d tmp = None" and "n < 4"
  shows "write_atomic tmp path content (Some n) d = (False, d)"
proof -
  have len: "length (write_ops tmp path content) = 4" by (simp add: write_ops_def)
  have "fold disk_step (take n (write_ops tmp path content)) d = d
      \<or> (\<exists>f. fold disk_step (take n (write_ops tmp path content)) d = d(tmp \<mapsto> f))"
  proof -
    consider "n = 0" | "n = 1" | "n = 2" | "n = 3" using assms(3) by linarith
    then show ?thesis
      by cases (auto simp: write_ops_def numeral_2_eq_2 numeral_3_eq_3)
  qed
  then show ?thesis
    using assms by (auto simp: write_atomic_def len fun_upd_idem)
qed

end
