(* ===== verification/ConfigFile.thy ===== *)
theory ConfigFile
  imports Config UpdateCheck
begin

text \<open>
  \<open>src/config.rs\<close>: where the files of the program are, and how its configuration is read from and written
  to the disk.  What \<open>directories\<close> finds and the variables of the environment are the record
  \<open>DirEnv\<close>; TOML is third-party code, so its printer and its parser are arguments; what may go wrong
  with the disk is \<open>Access\<close> and \<open>SaveFault\<close>.
\<close>

section \<open>Directories\<close>

text \<open>\<open>dr\_project\<close> has the configuration and the local data directory of \<open>ProjectDirs\<close>.\<close>

record DirEnv =
  dr_project :: "(string \<times> string) option"
  dr_var :: "string \<Rightarrow> string option"
  dr_getuid :: nat

definition home_or_tmp :: "DirEnv \<Rightarrow> string" where
  "home_or_tmp env = (case dr_var env ''HOME'' of Some h \<Rightarrow> h | None \<Rightarrow> ''/tmp'')"

definition config_dir :: "DirEnv \<Rightarrow> string" where
  "config_dir env =
     (case dr_project env of
        Some (c, _) \<Rightarrow> c
      | None \<Rightarrow> path_join (path_join (home_or_tmp env) ''.config'') ''whoisthat'')"

definition data_dir :: "DirEnv \<Rightarrow> string" where
  "data_dir env =
     (case dr_project env of
        Some (_, d) \<Rightarrow> d
      | None \<Rightarrow> path_join (path_join (path_join (home_or_tmp env) ''.local'') ''share'') ''whoisthat'')"

definition config_path :: "DirEnv \<Rightarrow> string" where
  "config_path env = path_join (config_dir env) ''config.toml''"

text \<open>\<open>std::env::temp\_dir\<close>.\<close>

definition temp_dir :: "DirEnv \<Rightarrow> string" where
  "temp_dir env = (case dr_var env ''TMPDIR'' of Some d \<Rightarrow> d | None \<Rightarrow> ''/tmp'')"

definition fallback_log_path :: "DirEnv \<Rightarrow> string \<Rightarrow> string" where
  "fallback_log_path env name =
     path_join (path_join (temp_dir env) (''whoisthat-'' @ show_nat (real_uid (dr_var env) (dr_getuid env)))) name"

definition core_log_paths :: "DirEnv \<Rightarrow> string list" where
  "core_log_paths env = [path_join (config_dir env) ''core.log'', fallback_log_path env ''core.log'']"

definition tui_log_paths :: "DirEnv \<Rightarrow> string list" where
  "tui_log_paths env = [path_join (data_dir env) ''tui.log'', fallback_log_path env ''tui.log'']"

section \<open>Writing\<close>

text \<open>How a save goes wrong: the directory cannot be made, or a step of the write fails.\<close>

record SaveFault =
  sf_dir :: bool
  sf_step :: "nat option"

definition no_fault :: SaveFault where
  "no_fault = \<lparr>sf_dir = False, sf_step = None\<rparr>"

text \<open>The name of the temporary file, in the directory of the file itself.\<close>

definition tmp_path :: "DirEnv \<Rightarrow> nat \<Rightarrow> string" where
  "tmp_path env pid = path_join (config_dir env) (''.config.toml.tmp.'' @ show_nat pid)"

text \<open>\<open>None\<close> from the printer is its error.\<close>

definition save_config_at ::
  "(AppConfig \<Rightarrow> string option) \<Rightarrow> SaveFault \<Rightarrow> string \<Rightarrow> string \<Rightarrow> AppConfig \<Rightarrow> disk \<Rightarrow> bool \<times> disk" where
  "save_config_at to_toml fault tmp path cfg d =
     (case to_toml cfg of
        None \<Rightarrow> (False, d)
      | Some content \<Rightarrow> if sf_dir fault then (False, d) else write_atomic tmp path content (sf_step fault) d)"

definition try_save_config ::
  "(AppConfig \<Rightarrow> string option) \<Rightarrow> SaveFault \<Rightarrow> DirEnv \<Rightarrow> nat \<Rightarrow> AppConfig \<Rightarrow> disk \<Rightarrow> bool \<times> disk" where
  "try_save_config to_toml fault env pid cfg d =
     save_config_at to_toml fault (tmp_path env pid) (config_path env) cfg d"

text \<open>\<open>config::save\_config\<close> only logs a failure.\<close>

definition save_quietly ::
  "(AppConfig \<Rightarrow> string option) \<Rightarrow> SaveFault \<Rightarrow> DirEnv \<Rightarrow> nat \<Rightarrow> AppConfig \<Rightarrow> disk \<Rightarrow> disk" where
  "save_quietly to_toml fault env pid cfg d = snd (try_save_config to_toml fault env pid cfg d)"

section \<open>Reading\<close>

text \<open>The files the system does not let the process read, and how far a copy gets: everywhere, or only
  \<open>ac\_copied\<close> bytes once the target is open, or not at all.\<close>

datatype CopyEnd = Copied | CutAt nat | NotOpened

record Access =
  ac_denied :: "string \<Rightarrow> bool"
  ac_copy :: CopyEnd

definition read_to_string :: "Access \<Rightarrow> disk \<Rightarrow> string \<Rightarrow> string option" where
  "read_to_string acc d p =
     (case d p of
        None \<Rightarrow> None
      | Some f \<Rightarrow> if ac_denied acc p \<or> \<not> utf8_valid (f_content f) then None else Some (f_content f))"

text \<open>\<open>std::fs::copy\<close> truncates the target and gives it the mode of the source.\<close>

definition copy_file :: "Access \<Rightarrow> string \<Rightarrow> string \<Rightarrow> disk \<Rightarrow> disk" where
  "copy_file acc p q d =
     (case d p of
        None \<Rightarrow> d
      | Some f \<Rightarrow>
          (case ac_copy acc of
             Copied \<Rightarrow> d(q \<mapsto> f\<lparr>f_synced := False\<rparr>)
           | CutAt n \<Rightarrow> d(q \<mapsto> f\<lparr>f_content := take n (f_content f), f_synced := False\<rparr>)
           | NotOpened \<Rightarrow> d))"

text \<open>\<open>with\_file\_name\<close> on the path of the configuration.\<close>

definition config_backup :: "DirEnv \<Rightarrow> string" where
  "config_backup env = path_join (config_dir env) ''config.toml.bak''"

definition load_config ::
  "(AppConfig \<Rightarrow> string option) \<Rightarrow> (string \<Rightarrow> AppConfig option) \<Rightarrow> Access \<Rightarrow> SaveFault \<Rightarrow> DirEnv \<Rightarrow> nat
   \<Rightarrow> disk \<Rightarrow> AppConfig \<times> disk" where
  "load_config to_toml from_toml acc fault env pid d =
     (let path = config_path env
      in if d path = None then (default_config, save_quietly to_toml fault env pid default_config d)
         else (case read_to_string acc d path of
                 None \<Rightarrow> (default_config, d)
               | Some content \<Rightarrow>
                   (case from_toml content of
                      Some cfg \<Rightarrow> (cfg, d)
                    | None \<Rightarrow> (default_config, copy_file acc path (config_backup env) d))))"

text \<open>\<open>config.json\<close> is the core's own file; \<open>from\_str\<close> is serde's parser.\<close>

definition core_autoconnect_tun :: "(string \<Rightarrow> json option) \<Rightarrow> Access \<Rightarrow> DirEnv \<Rightarrow> disk \<Rightarrow> bool" where
  "core_autoconnect_tun from_str acc env d =
     (case read_to_string acc d (path_join (config_dir env) ''config.json'') of
        Some t \<Rightarrow> parse_autoconnect_tun from_str t
      | None \<Rightarrow> False)"

section \<open>What is read after a save\<close>

lemma path_join_inject: "path_join d a = path_join d b \<longleftrightarrow> a = b"
  by (auto simp: path_join_def)

lemma config_paths_differ [simp]:
  "tmp_path env pid \<noteq> config_path env" "config_path env \<noteq> tmp_path env pid"
  "config_backup env \<noteq> config_path env" "config_path env \<noteq> config_backup env"
  "config_backup env \<noteq> tmp_path env pid" "tmp_path env pid \<noteq> config_backup env"
  by (simp_all add: tmp_path_def config_path_def config_backup_def path_join_inject)

lemma read_to_string_cong: "d p = e p \<Longrightarrow> read_to_string acc d p = read_to_string acc e p"
  by (simp add: read_to_string_def)

text \<open>Whether a file is there, what it says and whether it can be read is all that counts.\<close>

lemma load_config_cong:
  "d (config_path env) = e (config_path env) \<Longrightarrow>
   fst (load_config to_toml from_toml acc fault env pid d) = fst (load_config to_toml from_toml acc fault env pid e)"
  by (simp add: load_config_def read_to_string_def Let_def split: option.split)

lemma load_written:
  assumes "d (config_path env) = Some f" and "f_content f = body"
    and "from_toml body = Some cfg" and "utf8_valid body" and "\<not> ac_denied acc (config_path env)"
  shows "load_config to_toml from_toml acc fault env pid d = (cfg, d)"
  using assms by (simp add: load_config_def read_to_string_def Let_def)

text \<open>A save either succeeds, and then it is what is read, or leaves the disk as it was.\<close>

lemma save_outcomes:
  assumes toml: "\<And>t. to_toml cfg = Some t \<Longrightarrow> from_toml t = Some cfg \<and> utf8_valid t"
    and readable: "\<not> ac_denied acc (config_path env)"
    and fresh: "d (tmp_path env pid) = None"
  shows "case try_save_config to_toml fault env pid cfg d of
      (True, e) \<Rightarrow> load_config to_toml from_toml acc fault2 env pid2 e = (cfg, e) \<and> e (tmp_path env pid) = None
    | (False, e) \<Rightarrow> e = d"
proof (cases "to_toml cfg")
  case (Some body)
  let ?e = "d(tmp_path env pid := None,
      config_path env \<mapsto> \<lparr>f_content = body, f_mode = 384, f_synced = True\<rparr>)"
  have written: "fold disk_step (write_ops (tmp_path env pid) (config_path env) body) d = ?e"
    by (rule write_atomic_ok [of d "tmp_path env pid", OF fresh])
  have len: "length (write_ops (tmp_path env pid) (config_path env) body) = 4" by (simp add: write_ops_def)
  have ok: "load_config to_toml from_toml acc fault2 env pid2 ?e = (cfg, ?e)"
    by (rule load_written [of _ _ "\<lparr>f_content = body, f_mode = 384, f_synced = True\<rparr>" body])
      (use toml [OF Some] readable in simp_all)
  have failed: "write_atomic (tmp_path env pid) (config_path env) body (Some k) d = (False, d)" if "k < 4" for k
    by (rule failed_write [of "tmp_path env pid" "config_path env" d, OF config_paths_differ(1) fresh that])
  consider "sf_dir fault" | k where "\<not> sf_dir fault" "sf_step fault = Some k" "k < 4"
    | "\<not> sf_dir fault" "\<And>k. sf_step fault = Some k \<Longrightarrow> \<not> k < 4"
    by (cases "sf_step fault") fastforce+
  then show ?thesis
  proof cases
    case 3
    then have "write_atomic (tmp_path env pid) (config_path env) body (sf_step fault) d = (True, ?e)"
      using written by (simp add: write_atomic_def len split: option.split)
    with 3 Some ok show ?thesis by (simp add: try_save_config_def save_config_at_def)
  qed (use Some failed in \<open>simp_all add: try_save_config_def save_config_at_def\<close>)
qed (simp add: try_save_config_def save_config_at_def)

lemma crashed_save:
  assumes "to_toml cfg = Some body" and "from_toml body = Some cfg" "utf8_valid body"
    and "\<not> ac_denied acc (config_path env)"
  shows "fst (load_config to_toml from_toml acc fault env pid2
            (crash_after n (tmp_path env pid) (config_path env) body d))
           \<in> {fst (load_config to_toml from_toml acc fault env pid2 d), cfg}"
  using crash_states [of n "tmp_path env pid" "config_path env" body d]
proof (elim disjE exE)
  fix f assume "crash_after n (tmp_path env pid) (config_path env) body d = d(tmp_path env pid \<mapsto> f)"
  then show ?thesis by (simp add: load_config_cong [of "d(tmp_path env pid \<mapsto> f)" env d])
qed (use assms load_written in simp_all)

text \<open>The saves of a run of the program, each with what goes wrong in it: the disk after them, and the
  configuration of the last one that reported success.\<close>

fun saves ::
  "(AppConfig \<Rightarrow> string option) \<Rightarrow> DirEnv \<Rightarrow> nat \<Rightarrow> (AppConfig \<times> SaveFault) list \<Rightarrow> AppConfig \<Rightarrow> disk
   \<Rightarrow> AppConfig \<times> disk" where
  "saves to_toml env pid [] cur d = (cur, d)"
| "saves to_toml env pid ((cfg, fault) # rest) cur d =
     (case try_save_config to_toml fault env pid cfg d of (ok, d) \<Rightarrow>
        saves to_toml env pid rest (if ok then cfg else cur) d)"

lemma saves_read:
  assumes toml: "\<And>c t. to_toml c = Some t \<Longrightarrow> from_toml t = Some c \<and> utf8_valid t"
    and readable: "\<not> ac_denied acc (config_path env)"
  shows "d (tmp_path env pid) = None \<Longrightarrow> fst (load_config to_toml from_toml acc fault2 env pid2 d) = cur \<Longrightarrow>
    fst (load_config to_toml from_toml acc fault2 env pid2 (snd (saves to_toml env pid work cur d)))
      = fst (saves to_toml env pid work cur d)"
proof (induction work arbitrary: cur d)
  case (Cons w work)
  obtain cfg fault where w: "w = (cfg, fault)" by force
  obtain ok e where t: "try_save_config to_toml fault env pid cfg d = (ok, e)" by force
  have "case try_save_config to_toml fault env pid cfg d of
      (True, e) \<Rightarrow> load_config to_toml from_toml acc fault2 env pid2 e = (cfg, e) \<and> e (tmp_path env pid) = None
    | (False, e) \<Rightarrow> e = d"
    by (rule save_outcomes) (use toml readable Cons.prems(1) in blast)+
  then show ?case using Cons w t by (cases ok) auto
qed simp


definition sample_dirs :: DirEnv where
  "sample_dirs = \<lparr>dr_project = Some (''/c'', ''/d''), dr_var = (\<lambda>_. None), dr_getuid = 1000\<rparr>"

definition sample_access :: Access where
  "sample_access = \<lparr>ac_denied = (\<lambda>_. False), ac_copy = Copied\<rparr>"

text \<open>A printer that knows two configurations, a parser of its texts, and a disk that holds the first.\<close>

definition sample_print :: "AppConfig \<Rightarrow> string option" where
  "sample_print c =
     (if c = default_config then Some ''show''
      else if c = default_config\<lparr>c_show_ip := False\<rparr> then Some ''hide'' else None)"

definition sample_read :: "string \<Rightarrow> AppConfig option" where
  "sample_read t =
     (if t = ''show'' then Some default_config
      else if t = ''hide'' then Some (default_config\<lparr>c_show_ip := False\<rparr>) else None)"

definition config_sample :: disk where
  "config_sample = [''/c/config.toml'' \<mapsto> \<lparr>f_content = ''show'', f_mode = 384, f_synced = True\<rparr>]"

lemma sample_toml: "sample_print c = Some t \<Longrightarrow> sample_read t = Some c \<and> utf8_valid t"
  by (auto simp: sample_print_def sample_read_def utf8_valid.simps utf8_head_def default_config_def split: if_splits)


section \<open>What is read from a damaged file\<close>

text \<open>A file that is UTF-8 but not a configuration stays as it is, and its text is kept beside it, so the
  next save does not lose it.\<close>

lemma unparsable_config_kept:
  assumes "d (config_path env) = Some f" and "utf8_valid (f_content f)" and "from_toml (f_content f) = None"
    and "\<not> ac_denied acc (config_path env)" and "ac_copy acc = Copied" and "d (tmp_path env pid2) = None"
  shows "load_config to_toml from_toml acc fault env pid d
      = (default_config, d(config_backup env \<mapsto> f\<lparr>f_synced := False\<rparr>)) \<and>
    map_option f_content (save_quietly to_toml no_fault env pid2 cfg
      (snd (load_config to_toml from_toml acc fault env pid d)) (config_backup env)) = Some (f_content f)"
proof -
  have load: "load_config to_toml from_toml acc fault env pid d
      = (default_config, d(config_backup env \<mapsto> f\<lparr>f_synced := False\<rparr>))"
    using assms by (simp add: load_config_def read_to_string_def copy_file_def Let_def)
  show ?thesis
  proof (cases "to_toml cfg")
    case (Some body)
    have "fold disk_step (write_ops (tmp_path env pid2) (config_path env) body)
        (d(config_backup env \<mapsto> f\<lparr>f_synced := False\<rparr>)) (config_backup env) = Some (f\<lparr>f_synced := False\<rparr>)"
      by (subst write_atomic_ok) (use assms(6) in simp_all)
    with Some load show ?thesis
      by (simp add: save_quietly_def try_save_config_def save_config_at_def write_atomic_def no_fault_def)
  qed (simp add: load save_quietly_def try_save_config_def save_config_at_def)
qed

text \<open>A file that is not UTF-8 (or not readable) gets no copy: the defaults are used, and the next save, which
  the interface makes at the latest when it ends, replaces the file.  Then no file holds its text.\<close>

lemma unreadable_config_lost:
  assumes "d = [config_path env \<mapsto> f]" and "\<not> utf8_valid (f_content f)"
    and "to_toml default_config = Some body" and "utf8_valid body"
  shows "fst (load_config to_toml from_toml acc fault env pid d) = default_config \<and>
    (\<forall>p g. save_quietly to_toml no_fault env pid2 (fst (load_config to_toml from_toml acc fault env pid d))
        (snd (load_config to_toml from_toml acc fault env pid d)) p = Some g \<longrightarrow> f_content g \<noteq> f_content f)"
proof -
  have load: "load_config to_toml from_toml acc fault env pid d = (default_config, d)"
    using assms(1,2) by (simp add: load_config_def read_to_string_def Let_def)
  have "fold disk_step (write_ops (tmp_path env pid2) (config_path env) body) d
      = d(tmp_path env pid2 := None, config_path env \<mapsto> \<lparr>f_content = body, f_mode = 384, f_synced = True\<rparr>)"
    by (rule write_atomic_ok) (simp add: assms(1))
  then show ?thesis
    using assms load
    by (auto simp: save_quietly_def try_save_config_def save_config_at_def write_atomic_def no_fault_def
        split: if_splits)
qed

end
