(* ===== verification/Codec.thy ===== *)
theory Codec
  imports Protocol
begin

text \<open>
  The wire form of the structs of \<open>src/core_client/protocol.rs\<close>: for each of them the encoder and
  the decoder that serde derives from its attributes, the values its integer types can hold
  (\<open>ok_\<dots>\<close>), and the law that decoding inverts encoding, as an instance of \<open>codec\<close>.
\<close>

section \<open>Evaluating a decoder on an encoding\<close>

lemmas codec_simps = req_def dflt_def str_codec.dec_all_enc i32_codec.dec_all_enc
  i32_codec.dec_enc i64_codec.dec_enc u32_codec.dec_enc usize_codec.dec_enc
  bool_codec.dec_option_enc i64_codec.dec_option_enc str_codec.dec_option_enc option.pred_True

definition default_autoconnect :: AutoconnectInfo where
  "default_autoconnect = \<lparr>ac_enabled = False, ac_mode = []\<rparr>"

definition default_config_status :: ConfigStatus where
  "default_config_status = \<lparr>cs_state = [], cs_error = []\<rparr>"

definition default_db_status :: DbStatus where
  "default_db_status = \<lparr>ds_state = [], ds_error = [], ds_snapshot_at = []\<rparr>"

section \<open>The structs\<close>

definition enc_profile :: "Profile \<Rightarrow> json" where
  "enc_profile x = JObj
     [(''id'', JInt (p_id x)), (''group_id'', JInt (p_group_id x)), (''name'', JStr (p_name x)),
      (''protocol'', JStr (p_protocol x)), (''uri'', JStr (p_uri x)),
      (''address'', JStr (p_address x)), (''host'', JStr (p_host x)),
      (''test-result'', JInt (p_test_result x)), (''tested_at'', JInt (p_tested_at x)),
      (''loss-pct'', JInt (p_loss_pct x)), (''jitter-ms'', JInt (p_jitter_ms x)),
      (''port'', JInt (p_port x)), (''managed'', JBool (p_managed x)),
      (''provider_key'', JStr (p_provider_key x))]"

definition dec_profile :: "json \<Rightarrow> Profile option" where
  "dec_profile j =
     do { fs \<leftarrow> dec_obj j;
          v_p_id \<leftarrow> req dec_i32 ''id'' fs;
          v_p_group_id \<leftarrow> req dec_i32 ''group_id'' fs;
          v_p_name \<leftarrow> dflt [] dec_str ''name'' fs;
          v_p_protocol \<leftarrow> dflt [] dec_str ''protocol'' fs;
          v_p_uri \<leftarrow> dflt [] dec_str ''uri'' fs;
          v_p_address \<leftarrow> dflt [] dec_str ''address'' fs;
          v_p_host \<leftarrow> dflt [] dec_str ''host'' fs;
          v_p_test_result \<leftarrow> dflt 0 dec_i32 ''test-result'' fs;
          v_p_tested_at \<leftarrow> dflt 0 dec_i64 ''tested_at'' fs;
          v_p_loss_pct \<leftarrow> dflt 0 dec_i32 ''loss-pct'' fs;
          v_p_jitter_ms \<leftarrow> dflt 0 dec_i32 ''jitter-ms'' fs;
          v_p_port \<leftarrow> dflt 0 dec_i32 ''port'' fs;
          v_p_managed \<leftarrow> dflt False dec_bool ''managed'' fs;
          v_p_provider_key \<leftarrow> dflt [] dec_str ''provider_key'' fs;
          Some \<lparr>p_id = v_p_id, p_group_id = v_p_group_id, p_name = v_p_name, p_protocol = v_p_protocol,
             p_uri = v_p_uri, p_address = v_p_address, p_host = v_p_host,
             p_test_result = v_p_test_result, p_tested_at = v_p_tested_at,
             p_loss_pct = v_p_loss_pct, p_jitter_ms = v_p_jitter_ms, p_port = v_p_port,
             p_managed = v_p_managed, p_provider_key = v_p_provider_key\<rparr> }"

definition ok_profile :: "Profile \<Rightarrow> bool" where
  "ok_profile x \<longleftrightarrow> in_i32 (p_id x) \<and> in_i32 (p_group_id x) \<and> in_i32 (p_test_result x) \<and>
     in_i64 (p_tested_at x) \<and> in_i32 (p_loss_pct x) \<and> in_i32 (p_jitter_ms x) \<and>
     in_i32 (p_port x)"

interpretation profile_codec: codec enc_profile dec_profile ok_profile
  by unfold_locales (simp_all add: enc_profile_def dec_profile_def ok_profile_def codec_simps
      split: option.split)

definition enc_profile_ref :: "ProfileID \<Rightarrow> json" where
  "enc_profile_ref x = JObj
     [(''id'', JInt (pid_id x)), (''group_id'', JInt (pid_group_id x))]"

definition dec_profile_ref :: "json \<Rightarrow> ProfileID option" where
  "dec_profile_ref j =
     do { fs \<leftarrow> dec_obj j;
          v_pid_id \<leftarrow> req dec_i32 ''id'' fs;
          v_pid_group_id \<leftarrow> req dec_i32 ''group_id'' fs;
          Some \<lparr>pid_id = v_pid_id, pid_group_id = v_pid_group_id\<rparr> }"

definition ok_profile_ref :: "ProfileID \<Rightarrow> bool" where
  "ok_profile_ref x \<longleftrightarrow> in_i32 (pid_id x) \<and> in_i32 (pid_group_id x)"

interpretation profile_ref_codec: codec enc_profile_ref dec_profile_ref ok_profile_ref
  by unfold_locales (simp_all add: enc_profile_ref_def dec_profile_ref_def ok_profile_ref_def
      codec_simps split: option.split)

definition enc_details :: "ProfileDetails \<Rightarrow> json" where
  "enc_details x = JObj
     [(''group_id'', JInt (pd_group_id x)), (''id'', JInt (pd_id x)),
      (''transport'', JStr (pd_transport x)), (''security'', JStr (pd_security x)),
      (''sni'', JStr (pd_sni x)), (''flow'', JStr (pd_flow x)), (''alpn'', JStr (pd_alpn x)),
      (''path'', JStr (pd_path x)), (''host'', JStr (pd_host x)),
      (''service_name'', JStr (pd_service_name x)), (''mode'', JStr (pd_mode x)),
      (''fingerprint'', JStr (pd_fingerprint x)), (''public_key'', JStr (pd_public_key x)),
      (''short_id'', JStr (pd_short_id x)), (''spider_x'', JStr (pd_spider_x x)),
      (''obfs'', JStr (pd_obfs x)), (''cipher'', JStr (pd_cipher x)),
      (''allow_insecure'', JBool (pd_allow_insecure x))]"

definition dec_details :: "json \<Rightarrow> ProfileDetails option" where
  "dec_details j =
     do { fs \<leftarrow> dec_obj j;
          v_pd_group_id \<leftarrow> req dec_i32 ''group_id'' fs;
          v_pd_id \<leftarrow> req dec_i32 ''id'' fs;
          v_pd_transport \<leftarrow> dflt [] dec_str ''transport'' fs;
          v_pd_security \<leftarrow> dflt [] dec_str ''security'' fs;
          v_pd_sni \<leftarrow> dflt [] dec_str ''sni'' fs;
          v_pd_flow \<leftarrow> dflt [] dec_str ''flow'' fs;
          v_pd_alpn \<leftarrow> dflt [] dec_str ''alpn'' fs;
          v_pd_path \<leftarrow> dflt [] dec_str ''path'' fs;
          v_pd_host \<leftarrow> dflt [] dec_str ''host'' fs;
          v_pd_service_name \<leftarrow> dflt [] dec_str ''service_name'' fs;
          v_pd_mode \<leftarrow> dflt [] dec_str ''mode'' fs;
          v_pd_fingerprint \<leftarrow> dflt [] dec_str ''fingerprint'' fs;
          v_pd_public_key \<leftarrow> dflt [] dec_str ''public_key'' fs;
          v_pd_short_id \<leftarrow> dflt [] dec_str ''short_id'' fs;
          v_pd_spider_x \<leftarrow> dflt [] dec_str ''spider_x'' fs;
          v_pd_obfs \<leftarrow> dflt [] dec_str ''obfs'' fs;
          v_pd_cipher \<leftarrow> dflt [] dec_str ''cipher'' fs;
          v_pd_allow_insecure \<leftarrow> dflt False dec_bool ''allow_insecure'' fs;
          Some \<lparr>pd_group_id = v_pd_group_id, pd_id = v_pd_id, pd_transport = v_pd_transport,
             pd_security = v_pd_security, pd_sni = v_pd_sni, pd_flow = v_pd_flow,
             pd_alpn = v_pd_alpn, pd_path = v_pd_path, pd_host = v_pd_host,
             pd_service_name = v_pd_service_name, pd_mode = v_pd_mode,
             pd_fingerprint = v_pd_fingerprint, pd_public_key = v_pd_public_key,
             pd_short_id = v_pd_short_id, pd_spider_x = v_pd_spider_x, pd_obfs = v_pd_obfs,
             pd_cipher = v_pd_cipher, pd_allow_insecure = v_pd_allow_insecure\<rparr> }"

definition ok_details :: "ProfileDetails \<Rightarrow> bool" where
  "ok_details x \<longleftrightarrow> in_i32 (pd_group_id x) \<and> in_i32 (pd_id x)"

interpretation details_codec: codec enc_details dec_details ok_details
  by unfold_locales (simp_all add: enc_details_def dec_details_def ok_details_def codec_simps
      split: option.split)

definition enc_routing_profile :: "RoutingProfileInfo \<Rightarrow> json" where
  "enc_routing_profile x = JObj
     [(''id'', JStr (rp_id x)), (''name'', JStr (rp_name x)), (''state'', JStr (rp_state x)),
      (''last_error'', JStr (rp_last_error x)), (''active'', JBool (rp_active x)),
      (''rules_count'', JInt (int (rp_rules_count x))),
      (''global_proxy'', JBool (rp_global_proxy x)),
      (''domain_strategy'', JStr (rp_domain_strategy x)),
      (''fake_dns_enabled'', JBool (rp_fake_dns_enabled x)),
      (''remote_dns'', JStr (rp_remote_dns x)), (''domestic_dns'', JStr (rp_domestic_dns x)),
      (''last_updated'', JInt (rp_last_updated x)), (''geo_updated_at'', JInt (rp_geo_updated_at x))]"

definition dec_routing_profile :: "json \<Rightarrow> RoutingProfileInfo option" where
  "dec_routing_profile j =
     do { fs \<leftarrow> dec_obj j;
          v_rp_id \<leftarrow> dflt [] dec_str ''id'' fs;
          v_rp_name \<leftarrow> dflt [] dec_str ''name'' fs;
          v_rp_state \<leftarrow> dflt [] dec_str ''state'' fs;
          v_rp_last_error \<leftarrow> dflt [] dec_str ''last_error'' fs;
          v_rp_active \<leftarrow> dflt False dec_bool ''active'' fs;
          v_rp_rules_count \<leftarrow> dflt 0 dec_usize ''rules_count'' fs;
          v_rp_global_proxy \<leftarrow> dflt False dec_bool ''global_proxy'' fs;
          v_rp_domain_strategy \<leftarrow> dflt [] dec_str ''domain_strategy'' fs;
          v_rp_fake_dns_enabled \<leftarrow> dflt False dec_bool ''fake_dns_enabled'' fs;
          v_rp_remote_dns \<leftarrow> dflt [] dec_str ''remote_dns'' fs;
          v_rp_domestic_dns \<leftarrow> dflt [] dec_str ''domestic_dns'' fs;
          v_rp_last_updated \<leftarrow> dflt 0 dec_i64 ''last_updated'' fs;
          v_rp_geo_updated_at \<leftarrow> dflt 0 dec_i64 ''geo_updated_at'' fs;
          Some \<lparr>rp_id = v_rp_id, rp_name = v_rp_name, rp_state = v_rp_state,
             rp_last_error = v_rp_last_error, rp_active = v_rp_active,
             rp_rules_count = v_rp_rules_count, rp_global_proxy = v_rp_global_proxy,
             rp_domain_strategy = v_rp_domain_strategy, rp_fake_dns_enabled = v_rp_fake_dns_enabled,
             rp_remote_dns = v_rp_remote_dns, rp_domestic_dns = v_rp_domestic_dns,
             rp_last_updated = v_rp_last_updated, rp_geo_updated_at = v_rp_geo_updated_at\<rparr> }"

definition ok_routing_profile :: "RoutingProfileInfo \<Rightarrow> bool" where
  "ok_routing_profile x \<longleftrightarrow> rp_rules_count x < 2 ^ 64 \<and> in_i64 (rp_last_updated x) \<and> in_i64 (rp_geo_updated_at x)"

interpretation routing_profile_codec: codec enc_routing_profile dec_routing_profile ok_routing_profile
  by unfold_locales (simp_all add: enc_routing_profile_def dec_routing_profile_def
      ok_routing_profile_def codec_simps split: option.split)

definition enc_group :: "Group \<Rightarrow> json" where
  "enc_group x = JObj
     [(''id'', JInt (g_id x)), (''name'', JStr (g_name x)),
      (''subscription_url'', JStr (g_subscription_url x)), (''last_id'', JInt (g_last_id x)),
      (''sub_last_updated'', JInt (g_sub_last_updated x)),
      (''sub_expires'', JInt (g_sub_expires x)), (''sub_upload'', JInt (g_sub_upload x)),
      (''sub_download'', JInt (g_sub_download x)), (''sub_total'', JInt (g_sub_total x)),
      (''sub_update_interval'', JInt (g_sub_update_interval x)),
      (''sub_update_interval_override'', JInt (g_sub_update_interval_override x)),
      (''sub_auto_update_disabled'', JBool (g_sub_auto_update_disabled x)),
      (''profile_order'', JArr (map JInt (g_profile_order x))),
      (''routing_mode'', JStr (g_routing_mode x)),
      (''manual_routing_mode'', JStr (g_manual_routing_mode x)),
      (''active_routing_profile_id'', JStr (g_active_routing_profile_id x)),
      (''pending_active_routing_profile_id'', JStr (g_pending_active_routing_profile_id x)),
      (''subscription_format'', JStr (g_subscription_format x))]"

definition dec_group :: "json \<Rightarrow> Group option" where
  "dec_group j =
     do { fs \<leftarrow> dec_obj j;
          v_g_id \<leftarrow> req dec_i32 ''id'' fs;
          v_g_name \<leftarrow> dflt [] dec_str ''name'' fs;
          v_g_subscription_url \<leftarrow> dflt [] dec_str ''subscription_url'' fs;
          v_g_last_id \<leftarrow> dflt 0 dec_i32 ''last_id'' fs;
          v_g_sub_last_updated \<leftarrow> dflt 0 dec_i64 ''sub_last_updated'' fs;
          v_g_sub_expires \<leftarrow> dflt 0 dec_i64 ''sub_expires'' fs;
          v_g_sub_upload \<leftarrow> dflt 0 dec_i64 ''sub_upload'' fs;
          v_g_sub_download \<leftarrow> dflt 0 dec_i64 ''sub_download'' fs;
          v_g_sub_total \<leftarrow> dflt 0 dec_i64 ''sub_total'' fs;
          v_g_sub_update_interval \<leftarrow> dflt 0 dec_i64 ''sub_update_interval'' fs;
          v_g_sub_update_interval_override \<leftarrow> dflt 0 dec_i64 ''sub_update_interval_override'' fs;
          v_g_sub_auto_update_disabled \<leftarrow> dflt False dec_bool ''sub_auto_update_disabled'' fs;
          v_g_profile_order \<leftarrow> dflt [] (dec_list dec_i32) ''profile_order'' fs;
          v_g_routing_mode \<leftarrow> dflt [] dec_str ''routing_mode'' fs;
          v_g_manual_routing_mode \<leftarrow> dflt [] dec_str ''manual_routing_mode'' fs;
          v_g_active_routing_profile_id \<leftarrow> dflt [] dec_str ''active_routing_profile_id'' fs;
          v_g_pending_active_routing_profile_id \<leftarrow> dflt [] dec_str ''pending_active_routing_profile_id'' fs;
          v_g_subscription_format \<leftarrow> dflt [] dec_str ''subscription_format'' fs;
          Some \<lparr>g_id = v_g_id, g_name = v_g_name, g_subscription_url = v_g_subscription_url,
             g_last_id = v_g_last_id, g_sub_last_updated = v_g_sub_last_updated,
             g_sub_expires = v_g_sub_expires, g_sub_upload = v_g_sub_upload,
             g_sub_download = v_g_sub_download, g_sub_total = v_g_sub_total,
             g_sub_update_interval = v_g_sub_update_interval,
             g_sub_update_interval_override = v_g_sub_update_interval_override,
             g_sub_auto_update_disabled = v_g_sub_auto_update_disabled,
             g_profile_order = v_g_profile_order, g_routing_mode = v_g_routing_mode,
             g_manual_routing_mode = v_g_manual_routing_mode,
             g_active_routing_profile_id = v_g_active_routing_profile_id,
             g_pending_active_routing_profile_id = v_g_pending_active_routing_profile_id,
             g_subscription_format = v_g_subscription_format\<rparr> }"

definition ok_group :: "Group \<Rightarrow> bool" where
  "ok_group x \<longleftrightarrow> in_i32 (g_id x) \<and> in_i32 (g_last_id x) \<and> in_i64 (g_sub_last_updated x) \<and>
     in_i64 (g_sub_expires x) \<and> in_i64 (g_sub_upload x) \<and> in_i64 (g_sub_download x) \<and>
     in_i64 (g_sub_total x) \<and> in_i64 (g_sub_update_interval x) \<and>
     in_i64 (g_sub_update_interval_override x) \<and> list_all in_i32 (g_profile_order x)"

interpretation group_codec: codec enc_group dec_group ok_group
  by unfold_locales (simp_all add: enc_group_def dec_group_def ok_group_def codec_simps
      split: option.split)

definition enc_tree_group :: "GroupWithProfiles \<Rightarrow> json" where
  "enc_tree_group x = JObj
     [(''group'', enc_group (gw_group x)), (''profiles'', JArr (map enc_profile (gw_profiles x))),
      (''routing_profiles'', JArr (map enc_routing_profile (gw_routing_profiles x)))]"

definition dec_tree_group :: "json \<Rightarrow> GroupWithProfiles option" where
  "dec_tree_group j =
     do { fs \<leftarrow> dec_obj j;
          v_gw_group \<leftarrow> req dec_group ''group'' fs;
          v_gw_profiles \<leftarrow> req (dec_list dec_profile) ''profiles'' fs;
          v_gw_routing_profiles \<leftarrow> dflt [] (dec_list dec_routing_profile) ''routing_profiles'' fs;
          Some \<lparr>gw_group = v_gw_group, gw_profiles = v_gw_profiles,
             gw_routing_profiles = v_gw_routing_profiles\<rparr> }"

definition ok_tree_group :: "GroupWithProfiles \<Rightarrow> bool" where
  "ok_tree_group x \<longleftrightarrow> ok_group (gw_group x) \<and> list_all ok_profile (gw_profiles x) \<and>
     list_all ok_routing_profile (gw_routing_profiles x)"

interpretation tree_group_codec: codec enc_tree_group dec_tree_group ok_tree_group
  by unfold_locales (simp_all add: enc_tree_group_def dec_tree_group_def ok_tree_group_def
      codec_simps group_codec.dec_enc profile_codec.dec_all_enc routing_profile_codec.dec_all_enc
      split: option.split)

definition enc_status :: "ProxyStatus \<Rightarrow> json" where
  "enc_status x = JObj
     [(''connection'', JStr (ps_connection x)),
      (''profile'', enc_option enc_profile (ps_profile x)),
      (''connected_at'', JInt (ps_connected_at x)), (''reason'', JStr (ps_reason x))]"

definition dec_status :: "json \<Rightarrow> ProxyStatus option" where
  "dec_status j =
     do { fs \<leftarrow> dec_obj j;
          v_ps_connection \<leftarrow> dflt [] dec_str ''connection'' fs;
          v_ps_profile \<leftarrow> dflt None (dec_option dec_profile) ''profile'' fs;
          v_ps_connected_at \<leftarrow> dflt 0 dec_i64 ''connected_at'' fs;
          v_ps_reason \<leftarrow> dflt [] dec_str ''reason'' fs;
          Some \<lparr>ps_connection = v_ps_connection, ps_profile = v_ps_profile,
             ps_connected_at = v_ps_connected_at, ps_reason = v_ps_reason\<rparr> }"

definition ok_status :: "ProxyStatus \<Rightarrow> bool" where
  "ok_status x \<longleftrightarrow> pred_option ok_profile (ps_profile x) \<and> in_i64 (ps_connected_at x)"

interpretation status_codec: codec enc_status dec_status ok_status
  by unfold_locales (simp_all add: enc_status_def dec_status_def ok_status_def codec_simps
      profile_codec.dec_option_enc split: option.split)

definition enc_config_status :: "ConfigStatus \<Rightarrow> json" where
  "enc_config_status x = JObj
     [(''state'', JStr (cs_state x)), (''error'', JStr (cs_error x))]"

definition dec_config_status :: "json \<Rightarrow> ConfigStatus option" where
  "dec_config_status j =
     do { fs \<leftarrow> dec_obj j;
          v_cs_state \<leftarrow> dflt [] dec_str ''state'' fs;
          v_cs_error \<leftarrow> dflt [] dec_str ''error'' fs;
          Some \<lparr>cs_state = v_cs_state, cs_error = v_cs_error\<rparr> }"

definition ok_config_status :: "ConfigStatus \<Rightarrow> bool" where
  "ok_config_status x \<longleftrightarrow> True"

interpretation config_status_codec: codec enc_config_status dec_config_status ok_config_status
  by unfold_locales (simp_all add: enc_config_status_def dec_config_status_def
      ok_config_status_def codec_simps split: option.split)

definition enc_db_status :: "DbStatus \<Rightarrow> json" where
  "enc_db_status x = JObj
     [(''state'', JStr (ds_state x)), (''error'', JStr (ds_error x)),
      (''snapshot_at'', JStr (ds_snapshot_at x))]"

definition dec_db_status :: "json \<Rightarrow> DbStatus option" where
  "dec_db_status j =
     do { fs \<leftarrow> dec_obj j;
          v_ds_state \<leftarrow> dflt [] dec_str ''state'' fs;
          v_ds_error \<leftarrow> dflt [] dec_str ''error'' fs;
          v_ds_snapshot_at \<leftarrow> dflt [] dec_str ''snapshot_at'' fs;
          Some \<lparr>ds_state = v_ds_state, ds_error = v_ds_error, ds_snapshot_at = v_ds_snapshot_at\<rparr> }"

definition ok_db_status :: "DbStatus \<Rightarrow> bool" where
  "ok_db_status x \<longleftrightarrow> True"

interpretation db_status_codec: codec enc_db_status dec_db_status ok_db_status
  by unfold_locales (simp_all add: enc_db_status_def dec_db_status_def ok_db_status_def
      codec_simps split: option.split)

definition enc_xray_status :: "XrayStatusInfo \<Rightarrow> json" where
  "enc_xray_status x = JObj
     [(''version'', JStr (xs_version x)), (''target_version'', JStr (xs_target_version x)),
      (''status'', JStr (xs_status x)), (''progress'', JInt (xs_progress x)),
      (''bytes_downloaded'', JInt (xs_bytes_downloaded x)),
      (''total_bytes'', JInt (xs_total_bytes x)), (''error'', JStr (xs_error x))]"

definition dec_xray_status :: "json \<Rightarrow> XrayStatusInfo option" where
  "dec_xray_status j =
     do { fs \<leftarrow> dec_obj j;
          v_xs_version \<leftarrow> dflt [] dec_str ''version'' fs;
          v_xs_target_version \<leftarrow> dflt [] dec_str ''target_version'' fs;
          v_xs_status \<leftarrow> dflt [] dec_str ''status'' fs;
          v_xs_progress \<leftarrow> dflt 0 dec_i32 ''progress'' fs;
          v_xs_bytes_downloaded \<leftarrow> dflt 0 dec_i64 ''bytes_downloaded'' fs;
          v_xs_total_bytes \<leftarrow> dflt 0 dec_i64 ''total_bytes'' fs;
          v_xs_error \<leftarrow> dflt [] dec_str ''error'' fs;
          Some \<lparr>xs_version = v_xs_version, xs_target_version = v_xs_target_version,
             xs_status = v_xs_status, xs_progress = v_xs_progress,
             xs_bytes_downloaded = v_xs_bytes_downloaded, xs_total_bytes = v_xs_total_bytes,
             xs_error = v_xs_error\<rparr> }"

definition ok_xray_status :: "XrayStatusInfo \<Rightarrow> bool" where
  "ok_xray_status x \<longleftrightarrow> in_i32 (xs_progress x) \<and> in_i64 (xs_bytes_downloaded x) \<and> in_i64 (xs_total_bytes x)"

interpretation xray_status_codec: codec enc_xray_status dec_xray_status ok_xray_status
  by unfold_locales (simp_all add: enc_xray_status_def dec_xray_status_def ok_xray_status_def
      codec_simps split: option.split)

definition enc_xray_progress :: "XrayProgressNotification \<Rightarrow> json" where
  "enc_xray_progress x = JObj
     [(''status'', JStr (xp_status x)), (''version'', JStr (xp_version x)),
      (''progress'', JInt (xp_progress x)), (''bytes_downloaded'', JInt (xp_bytes_downloaded x)),
      (''total_bytes'', JInt (xp_total_bytes x)), (''error'', JStr (xp_error x))]"

definition dec_xray_progress :: "json \<Rightarrow> XrayProgressNotification option" where
  "dec_xray_progress j =
     do { fs \<leftarrow> dec_obj j;
          v_xp_status \<leftarrow> dflt [] dec_str ''status'' fs;
          v_xp_version \<leftarrow> dflt [] dec_str ''version'' fs;
          v_xp_progress \<leftarrow> dflt 0 dec_i32 ''progress'' fs;
          v_xp_bytes_downloaded \<leftarrow> dflt 0 dec_i64 ''bytes_downloaded'' fs;
          v_xp_total_bytes \<leftarrow> dflt 0 dec_i64 ''total_bytes'' fs;
          v_xp_error \<leftarrow> dflt [] dec_str ''error'' fs;
          Some \<lparr>xp_status = v_xp_status, xp_version = v_xp_version, xp_progress = v_xp_progress,
             xp_bytes_downloaded = v_xp_bytes_downloaded, xp_total_bytes = v_xp_total_bytes,
             xp_error = v_xp_error\<rparr> }"

definition ok_xray_progress :: "XrayProgressNotification \<Rightarrow> bool" where
  "ok_xray_progress x \<longleftrightarrow> in_i32 (xp_progress x) \<and> in_i64 (xp_bytes_downloaded x) \<and> in_i64 (xp_total_bytes x)"

interpretation xray_progress_codec: codec enc_xray_progress dec_xray_progress ok_xray_progress
  by unfold_locales (simp_all add: enc_xray_progress_def dec_xray_progress_def
      ok_xray_progress_def codec_simps split: option.split)

definition enc_test_config :: "TestConfig \<Rightarrow> json" where
  "enc_test_config x = JObj
     [(''concurrency'', JInt (tc_concurrency x)),
      (''timeout_seconds'', JInt (tc_timeout_seconds x)),
      (''samples_per_test'', JInt (tc_samples_per_test x)),
      (''test_endpoint'', JStr (tc_test_endpoint x)),
      (''auto_test_on_subscribe'', JBool (tc_auto_test_on_subscribe x))]"

definition dec_test_config :: "json \<Rightarrow> TestConfig option" where
  "dec_test_config j =
     do { fs \<leftarrow> dec_obj j;
          v_tc_concurrency \<leftarrow> req dec_i32 ''concurrency'' fs;
          v_tc_timeout_seconds \<leftarrow> req dec_i32 ''timeout_seconds'' fs;
          v_tc_samples_per_test \<leftarrow> req dec_i32 ''samples_per_test'' fs;
          v_tc_test_endpoint \<leftarrow> req dec_str ''test_endpoint'' fs;
          v_tc_auto_test_on_subscribe \<leftarrow> req dec_bool ''auto_test_on_subscribe'' fs;
          Some \<lparr>tc_concurrency = v_tc_concurrency, tc_timeout_seconds = v_tc_timeout_seconds,
             tc_samples_per_test = v_tc_samples_per_test, tc_test_endpoint = v_tc_test_endpoint,
             tc_auto_test_on_subscribe = v_tc_auto_test_on_subscribe\<rparr> }"

definition ok_test_config :: "TestConfig \<Rightarrow> bool" where
  "ok_test_config x \<longleftrightarrow> in_i32 (tc_concurrency x) \<and> in_i32 (tc_timeout_seconds x) \<and>
     in_i32 (tc_samples_per_test x)"

interpretation test_config_codec: codec enc_test_config dec_test_config ok_test_config
  by unfold_locales (simp_all add: enc_test_config_def dec_test_config_def ok_test_config_def
      codec_simps split: option.split)

definition enc_test_progress :: "TestProgress \<Rightarrow> json" where
  "enc_test_progress x = JObj
     [(''group_id'', JInt (tp_group_id x)), (''tested'', JInt (tp_tested x)),
      (''total'', JInt (tp_total x))]"

definition dec_test_progress :: "json \<Rightarrow> TestProgress option" where
  "dec_test_progress j =
     do { fs \<leftarrow> dec_obj j;
          v_tp_group_id \<leftarrow> dflt 0 dec_i32 ''group_id'' fs;
          v_tp_tested \<leftarrow> req dec_i32 ''tested'' fs;
          v_tp_total \<leftarrow> req dec_i32 ''total'' fs;
          Some \<lparr>tp_group_id = v_tp_group_id, tp_tested = v_tp_tested, tp_total = v_tp_total\<rparr> }"

definition ok_test_progress :: "TestProgress \<Rightarrow> bool" where
  "ok_test_progress x \<longleftrightarrow> in_i32 (tp_group_id x) \<and> in_i32 (tp_tested x) \<and> in_i32 (tp_total x)"

interpretation test_progress_codec: codec enc_test_progress dec_test_progress ok_test_progress
  by unfold_locales (simp_all add: enc_test_progress_def dec_test_progress_def
      ok_test_progress_def codec_simps split: option.split)

definition enc_hwid :: "HwidData \<Rightarrow> json" where
  "enc_hwid x = JObj
     [(''enabled'', JBool (hw_enabled x)), (''hwid'', JStr (hw_hwid x)),
      (''user_agent'', JStr (hw_user_agent x)), (''platform'', JStr (hw_platform x)),
      (''kernel'', JStr (hw_kernel x)), (''model'', JStr (hw_model x))]"

definition dec_hwid :: "json \<Rightarrow> HwidData option" where
  "dec_hwid j =
     do { fs \<leftarrow> dec_obj j;
          v_hw_enabled \<leftarrow> dflt False dec_bool ''enabled'' fs;
          v_hw_hwid \<leftarrow> dflt [] dec_str ''hwid'' fs;
          v_hw_user_agent \<leftarrow> dflt [] dec_str ''user_agent'' fs;
          v_hw_platform \<leftarrow> dflt [] dec_str ''platform'' fs;
          v_hw_kernel \<leftarrow> dflt [] dec_str ''kernel'' fs;
          v_hw_model \<leftarrow> dflt [] dec_str ''model'' fs;
          Some \<lparr>hw_enabled = v_hw_enabled, hw_hwid = v_hw_hwid, hw_user_agent = v_hw_user_agent,
             hw_platform = v_hw_platform, hw_kernel = v_hw_kernel, hw_model = v_hw_model\<rparr> }"

definition ok_hwid :: "HwidData \<Rightarrow> bool" where
  "ok_hwid x \<longleftrightarrow> True"

interpretation hwid_codec: codec enc_hwid dec_hwid ok_hwid
  by unfold_locales (simp_all add: enc_hwid_def dec_hwid_def ok_hwid_def codec_simps
      split: option.split)

definition enc_autoconnect_info :: "AutoconnectInfo \<Rightarrow> json" where
  "enc_autoconnect_info x = JObj
     [(''enabled'', JBool (ac_enabled x)), (''mode'', JStr (ac_mode x))]"

definition dec_autoconnect_info :: "json \<Rightarrow> AutoconnectInfo option" where
  "dec_autoconnect_info j =
     do { fs \<leftarrow> dec_obj j;
          v_ac_enabled \<leftarrow> dflt False dec_bool ''enabled'' fs;
          v_ac_mode \<leftarrow> dflt ''proxy'' dec_str ''mode'' fs;
          Some \<lparr>ac_enabled = v_ac_enabled, ac_mode = v_ac_mode\<rparr> }"

definition ok_autoconnect_info :: "AutoconnectInfo \<Rightarrow> bool" where
  "ok_autoconnect_info x \<longleftrightarrow> True"

interpretation autoconnect_info_codec: codec enc_autoconnect_info dec_autoconnect_info ok_autoconnect_info
  by unfold_locales (simp_all add: enc_autoconnect_info_def dec_autoconnect_info_def
      ok_autoconnect_info_def codec_simps split: option.split)

definition enc_traffic :: "TrafficStats \<Rightarrow> json" where
  "enc_traffic x = JObj
     [(''proxy_up'', JInt (ts_proxy_up x)), (''proxy_down'', JInt (ts_proxy_down x)),
      (''direct_up'', JInt (ts_direct_up x)), (''direct_down'', JInt (ts_direct_down x))]"

definition dec_traffic :: "json \<Rightarrow> TrafficStats option" where
  "dec_traffic j =
     do { fs \<leftarrow> dec_obj j;
          v_ts_proxy_up \<leftarrow> dflt 0 dec_i64 ''proxy_up'' fs;
          v_ts_proxy_down \<leftarrow> dflt 0 dec_i64 ''proxy_down'' fs;
          v_ts_direct_up \<leftarrow> dflt 0 dec_i64 ''direct_up'' fs;
          v_ts_direct_down \<leftarrow> dflt 0 dec_i64 ''direct_down'' fs;
          Some \<lparr>ts_proxy_up = v_ts_proxy_up, ts_proxy_down = v_ts_proxy_down,
             ts_direct_up = v_ts_direct_up, ts_direct_down = v_ts_direct_down\<rparr> }"

definition ok_traffic :: "TrafficStats \<Rightarrow> bool" where
  "ok_traffic x \<longleftrightarrow> in_i64 (ts_proxy_up x) \<and> in_i64 (ts_proxy_down x) \<and> in_i64 (ts_direct_up x) \<and>
     in_i64 (ts_direct_down x)"

interpretation traffic_codec: codec enc_traffic dec_traffic ok_traffic
  by unfold_locales (simp_all add: enc_traffic_def dec_traffic_def ok_traffic_def codec_simps
      split: option.split)

definition enc_rule :: "RoutingRule \<Rightarrow> json" where
  "enc_rule x = JObj
     [(''type'', JStr (r_type x)), (''domain'', JStr (r_domain x)), (''ip'', JStr (r_ip x)),
      (''protocol'', JStr (r_protocol x)), (''port'', JStr (r_port x)),
      (''network'', JStr (r_network x)), (''outbound_tag'', JStr (r_outbound_tag x)),
      (''enabled'', JBool (r_enabled x))]"

definition dec_rule :: "json \<Rightarrow> RoutingRule option" where
  "dec_rule j =
     do { fs \<leftarrow> dec_obj j;
          v_r_type \<leftarrow> dflt [] dec_str ''type'' fs;
          v_r_domain \<leftarrow> dflt [] dec_str ''domain'' fs;
          v_r_ip \<leftarrow> dflt [] dec_str ''ip'' fs;
          v_r_protocol \<leftarrow> dflt [] dec_str ''protocol'' fs;
          v_r_port \<leftarrow> dflt [] dec_str ''port'' fs;
          v_r_network \<leftarrow> dflt [] dec_str ''network'' fs;
          v_r_outbound_tag \<leftarrow> dflt [] dec_str ''outbound_tag'' fs;
          v_r_enabled \<leftarrow> dflt True dec_bool ''enabled'' fs;
          Some \<lparr>r_type = v_r_type, r_domain = v_r_domain, r_ip = v_r_ip, r_protocol = v_r_protocol,
             r_port = v_r_port, r_network = v_r_network, r_outbound_tag = v_r_outbound_tag,
             r_enabled = v_r_enabled\<rparr> }"

definition ok_rule :: "RoutingRule \<Rightarrow> bool" where
  "ok_rule x \<longleftrightarrow> True"

interpretation rule_codec: codec enc_rule dec_rule ok_rule
  by unfold_locales (simp_all add: enc_rule_def dec_rule_def ok_rule_def codec_simps
      split: option.split)

definition enc_routing :: "RoutingConfig \<Rightarrow> json" where
  "enc_routing x = JObj
     ([(''domain_strategy'', JStr (rc_domain_strategy x)),
       (''rules'', JArr (map enc_rule (rc_rules x)))]
      @ (case rc_dns x of Some j \<Rightarrow> [(''dns'', j)] | None \<Rightarrow> []))"

definition dec_routing :: "json \<Rightarrow> RoutingConfig option" where
  "dec_routing j =
     do { fs \<leftarrow> dec_obj j;
          v_rc_domain_strategy \<leftarrow> dflt ''IPIfNonMatch'' dec_str ''domain_strategy'' fs;
          v_rc_rules \<leftarrow> dflt [] (dec_list dec_rule) ''rules'' fs;
          v_rc_dns \<leftarrow> dflt None (dec_option Some) ''dns'' fs;
          Some \<lparr>rc_domain_strategy = v_rc_domain_strategy, rc_rules = v_rc_rules, rc_dns = v_rc_dns\<rparr> }"

definition ok_routing :: "RoutingConfig \<Rightarrow> bool" where
  "ok_routing x \<longleftrightarrow> list_all ok_rule (rc_rules x) \<and> rc_dns x \<noteq> Some JNull"

interpretation routing_codec: codec enc_routing dec_routing ok_routing
proof unfold_locales
  fix x
  assume "ok_routing x"
  then show "dec_routing (enc_routing x) = Some x"
    by (cases x; cases "rc_dns x")
      (auto simp: enc_routing_def dec_routing_def ok_routing_def codec_simps rule_codec.dec_all_enc
        json_any_dec_option)
qed (simp add: enc_routing_def)

definition enc_app_state :: "ApplicationState \<Rightarrow> json" where
  "enc_app_state x = JObj
     ([(''groups'', JArr (map enc_tree_group (as_groups x))),
       (''connection-status'', enc_status (as_connection_status x)),
       (''tun-status'', JBool (as_tun_status x)),
       (''hwid_info'', enc_option enc_hwid (as_hwid_info x)),
       (''kill_switch'', JBool (as_kill_switch x))]
      @ (if as_kill_switch_armed x then [(''kill_switch_armed'', JBool True)] else [])
      @ [(''split_tunnel'', JStr (as_split_tunnel x)),
       (''autoconnect'', enc_autoconnect_info (as_autoconnect x)),
       (''xray_status'', enc_option enc_xray_status (as_xray_status x)),
       (''core_version'', JStr (as_core_version x)),
       (''protocol_version'', JInt (as_protocol_version x)),
       (''tun_name'', JStr (as_tun_name x)),
       (''test_config'', enc_test_config (as_test_config x)),
       (''config_status'', enc_config_status (as_config_status x)),
       (''db_status'', enc_db_status (as_db_status x))])"

definition dec_app_state :: "json \<Rightarrow> ApplicationState option" where
  "dec_app_state j =
     do { fs \<leftarrow> dec_obj j;
          v_as_groups \<leftarrow> req (dec_list dec_tree_group) ''groups'' fs;
          v_as_connection_status \<leftarrow> req dec_status ''connection-status'' fs;
          v_as_tun_status \<leftarrow> dflt False dec_bool ''tun-status'' fs;
          v_as_hwid_info \<leftarrow> dflt None (dec_option dec_hwid) ''hwid_info'' fs;
          v_as_kill_switch \<leftarrow> dflt False dec_bool ''kill_switch'' fs;
          v_as_kill_switch_armed \<leftarrow> dflt False dec_bool ''kill_switch_armed'' fs;
          v_as_split_tunnel \<leftarrow> dflt [] dec_str ''split_tunnel'' fs;
          v_as_autoconnect \<leftarrow> dflt default_autoconnect dec_autoconnect_info ''autoconnect'' fs;
          v_as_xray_status \<leftarrow> dflt None (dec_option dec_xray_status) ''xray_status'' fs;
          v_as_core_version \<leftarrow> dflt [] dec_str ''core_version'' fs;
          v_as_protocol_version \<leftarrow> dflt 0 dec_u32 ''protocol_version'' fs;
          v_as_tun_name \<leftarrow> dflt [] dec_str ''tun_name'' fs;
          v_as_test_config \<leftarrow> dflt default_test_config dec_test_config ''test_config'' fs;
          v_as_config_status \<leftarrow> dflt default_config_status dec_config_status ''config_status'' fs;
          v_as_db_status \<leftarrow> dflt default_db_status dec_db_status ''db_status'' fs;
          Some \<lparr>as_groups = v_as_groups, as_connection_status = v_as_connection_status,
             as_tun_status = v_as_tun_status, as_hwid_info = v_as_hwid_info,
             as_kill_switch = v_as_kill_switch, as_kill_switch_armed = v_as_kill_switch_armed,
             as_split_tunnel = v_as_split_tunnel, as_autoconnect = v_as_autoconnect,
             as_xray_status = v_as_xray_status, as_core_version = v_as_core_version,
             as_protocol_version = v_as_protocol_version, as_tun_name = v_as_tun_name,
             as_test_config = v_as_test_config, as_config_status = v_as_config_status,
             as_db_status = v_as_db_status\<rparr> }"

definition ok_app_state :: "ApplicationState \<Rightarrow> bool" where
  "ok_app_state x \<longleftrightarrow> list_all ok_tree_group (as_groups x) \<and> ok_status (as_connection_status x) \<and>
     pred_option ok_hwid (as_hwid_info x) \<and> ok_autoconnect_info (as_autoconnect x) \<and>
     pred_option ok_xray_status (as_xray_status x) \<and> in_u32 (as_protocol_version x) \<and>
     ok_test_config (as_test_config x) \<and> ok_config_status (as_config_status x) \<and>
     ok_db_status (as_db_status x)"

interpretation app_state_codec: codec enc_app_state dec_app_state ok_app_state
  by unfold_locales (simp_all add: enc_app_state_def dec_app_state_def ok_app_state_def
      codec_simps tree_group_codec.dec_all_enc status_codec.dec_enc hwid_codec.dec_option_enc
      autoconnect_info_codec.dec_enc xray_status_codec.dec_option_enc test_config_codec.dec_enc
      config_status_codec.dec_enc db_status_codec.dec_enc split: option.split)

end
