(* ===== verification/Requests.thy ===== *)
theory Requests
  imports Codec
begin

text \<open>
  The payloads of the requests the client sends and of the notifications the core sends, the
  remaining structs of \<open>src/core_client/protocol.rs\<close>, with their wire form as in \<open>Codec\<close>.
\<close>

section \<open>The structs\<close>

record ConnectData =
  cd_profile :: ProfileID

definition enc_connect_data :: "ConnectData \<Rightarrow> json" where
  "enc_connect_data x = JObj
     [(''profile'', enc_profile_ref (cd_profile x))]"

definition dec_connect_data :: "json \<Rightarrow> ConnectData option" where
  "dec_connect_data j =
     do { fs \<leftarrow> dec_obj j;
          v_cd_profile \<leftarrow> req dec_profile_ref ''profile'' fs;
          Some \<lparr>cd_profile = v_cd_profile\<rparr> }"

definition ok_connect_data :: "ConnectData \<Rightarrow> bool" where
  "ok_connect_data x \<longleftrightarrow> ok_profile_ref (cd_profile x)"

interpretation connect_data_codec: codec enc_connect_data dec_connect_data ok_connect_data
  by unfold_locales (simp_all add: enc_connect_data_def dec_connect_data_def ok_connect_data_def
      codec_simps profile_ref_codec.dec_enc split: option.split)

record SetLogLevelData =
  sll_level :: string

definition enc_set_log_level_data :: "SetLogLevelData \<Rightarrow> json" where
  "enc_set_log_level_data x = JObj
     [(''level'', JStr (sll_level x))]"

definition dec_set_log_level_data :: "json \<Rightarrow> SetLogLevelData option" where
  "dec_set_log_level_data j =
     do { fs \<leftarrow> dec_obj j;
          v_sll_level \<leftarrow> req dec_str ''level'' fs;
          Some \<lparr>sll_level = v_sll_level\<rparr> }"

definition ok_set_log_level_data :: "SetLogLevelData \<Rightarrow> bool" where
  "ok_set_log_level_data x \<longleftrightarrow> True"

interpretation set_log_level_data_codec: codec enc_set_log_level_data dec_set_log_level_data ok_set_log_level_data
  by unfold_locales (simp_all add: enc_set_log_level_data_def dec_set_log_level_data_def
      ok_set_log_level_data_def codec_simps split: option.split)

record AddProfilesData =
  ap_uris :: string
  ap_group_id :: i32

definition enc_add_profiles_data :: "AddProfilesData \<Rightarrow> json" where
  "enc_add_profiles_data x = JObj
     [(''uris'', JStr (ap_uris x)), (''group_id'', JInt (ap_group_id x))]"

definition dec_add_profiles_data :: "json \<Rightarrow> AddProfilesData option" where
  "dec_add_profiles_data j =
     do { fs \<leftarrow> dec_obj j;
          v_ap_uris \<leftarrow> req dec_str ''uris'' fs;
          v_ap_group_id \<leftarrow> req dec_i32 ''group_id'' fs;
          Some \<lparr>ap_uris = v_ap_uris, ap_group_id = v_ap_group_id\<rparr> }"

definition ok_add_profiles_data :: "AddProfilesData \<Rightarrow> bool" where
  "ok_add_profiles_data x \<longleftrightarrow> in_i32 (ap_group_id x)"

interpretation add_profiles_data_codec: codec enc_add_profiles_data dec_add_profiles_data ok_add_profiles_data
  by unfold_locales (simp_all add: enc_add_profiles_data_def dec_add_profiles_data_def
      ok_add_profiles_data_def codec_simps split: option.split)

record DeleteProfilesData =
  dp_profiles :: "ProfileID list"

definition enc_delete_profiles_data :: "DeleteProfilesData \<Rightarrow> json" where
  "enc_delete_profiles_data x = JObj
     [(''profiles'', JArr (map enc_profile_ref (dp_profiles x)))]"

definition dec_delete_profiles_data :: "json \<Rightarrow> DeleteProfilesData option" where
  "dec_delete_profiles_data j =
     do { fs \<leftarrow> dec_obj j;
          v_dp_profiles \<leftarrow> req (dec_list dec_profile_ref) ''profiles'' fs;
          Some \<lparr>dp_profiles = v_dp_profiles\<rparr> }"

definition ok_delete_profiles_data :: "DeleteProfilesData \<Rightarrow> bool" where
  "ok_delete_profiles_data x \<longleftrightarrow> list_all ok_profile_ref (dp_profiles x)"

interpretation delete_profiles_data_codec: codec enc_delete_profiles_data dec_delete_profiles_data ok_delete_profiles_data
  by unfold_locales (simp_all add: enc_delete_profiles_data_def dec_delete_profiles_data_def
      ok_delete_profiles_data_def codec_simps profile_ref_codec.dec_all_enc split: option.split)

record AddGroupData =
  ag_name :: string
  ag_subscription_url :: string

definition enc_add_group_data :: "AddGroupData \<Rightarrow> json" where
  "enc_add_group_data x = JObj
     [(''name'', JStr (ag_name x)), (''subscription_url'', JStr (ag_subscription_url x))]"

definition dec_add_group_data :: "json \<Rightarrow> AddGroupData option" where
  "dec_add_group_data j =
     do { fs \<leftarrow> dec_obj j;
          v_ag_name \<leftarrow> req dec_str ''name'' fs;
          v_ag_subscription_url \<leftarrow> req dec_str ''subscription_url'' fs;
          Some \<lparr>ag_name = v_ag_name, ag_subscription_url = v_ag_subscription_url\<rparr> }"

definition ok_add_group_data :: "AddGroupData \<Rightarrow> bool" where
  "ok_add_group_data x \<longleftrightarrow> True"

interpretation add_group_data_codec: codec enc_add_group_data dec_add_group_data ok_add_group_data
  by unfold_locales (simp_all add: enc_add_group_data_def dec_add_group_data_def
      ok_add_group_data_def codec_simps split: option.split)

record DeleteGroupData =
  dg_id :: i32

definition enc_delete_group_data :: "DeleteGroupData \<Rightarrow> json" where
  "enc_delete_group_data x = JObj
     [(''id'', JInt (dg_id x))]"

definition dec_delete_group_data :: "json \<Rightarrow> DeleteGroupData option" where
  "dec_delete_group_data j =
     do { fs \<leftarrow> dec_obj j;
          v_dg_id \<leftarrow> req dec_i32 ''id'' fs;
          Some \<lparr>dg_id = v_dg_id\<rparr> }"

definition ok_delete_group_data :: "DeleteGroupData \<Rightarrow> bool" where
  "ok_delete_group_data x \<longleftrightarrow> in_i32 (dg_id x)"

interpretation delete_group_data_codec: codec enc_delete_group_data dec_delete_group_data ok_delete_group_data
  by unfold_locales (simp_all add: enc_delete_group_data_def dec_delete_group_data_def
      ok_delete_group_data_def codec_simps split: option.split)

record UpdateSubscriptionData =
  us_group_id :: i32

definition enc_update_subscription_data :: "UpdateSubscriptionData \<Rightarrow> json" where
  "enc_update_subscription_data x = JObj
     [(''group_id'', JInt (us_group_id x))]"

definition dec_update_subscription_data :: "json \<Rightarrow> UpdateSubscriptionData option" where
  "dec_update_subscription_data j =
     do { fs \<leftarrow> dec_obj j;
          v_us_group_id \<leftarrow> req dec_i32 ''group_id'' fs;
          Some \<lparr>us_group_id = v_us_group_id\<rparr> }"

definition ok_update_subscription_data :: "UpdateSubscriptionData \<Rightarrow> bool" where
  "ok_update_subscription_data x \<longleftrightarrow> in_i32 (us_group_id x)"

interpretation update_subscription_data_codec: codec enc_update_subscription_data dec_update_subscription_data ok_update_subscription_data
  by unfold_locales (simp_all add: enc_update_subscription_data_def
      dec_update_subscription_data_def ok_update_subscription_data_def codec_simps
      split: option.split)

record MoveProfileData =
  mpd_profile_id :: i32
  mpd_from_group_id :: i32
  mpd_to_group_id :: i32

definition enc_move_profile_data :: "MoveProfileData \<Rightarrow> json" where
  "enc_move_profile_data x = JObj
     [(''profile_id'', JInt (mpd_profile_id x)), (''from_group_id'', JInt (mpd_from_group_id x)),
      (''to_group_id'', JInt (mpd_to_group_id x))]"

definition dec_move_profile_data :: "json \<Rightarrow> MoveProfileData option" where
  "dec_move_profile_data j =
     do { fs \<leftarrow> dec_obj j;
          v_mpd_profile_id \<leftarrow> req dec_i32 ''profile_id'' fs;
          v_mpd_from_group_id \<leftarrow> req dec_i32 ''from_group_id'' fs;
          v_mpd_to_group_id \<leftarrow> req dec_i32 ''to_group_id'' fs;
          Some \<lparr>mpd_profile_id = v_mpd_profile_id, mpd_from_group_id = v_mpd_from_group_id,
             mpd_to_group_id = v_mpd_to_group_id\<rparr> }"

definition ok_move_profile_data :: "MoveProfileData \<Rightarrow> bool" where
  "ok_move_profile_data x \<longleftrightarrow> in_i32 (mpd_profile_id x) \<and> in_i32 (mpd_from_group_id x) \<and> in_i32 (mpd_to_group_id x)"

interpretation move_profile_data_codec: codec enc_move_profile_data dec_move_profile_data ok_move_profile_data
  by unfold_locales (simp_all add: enc_move_profile_data_def dec_move_profile_data_def
      ok_move_profile_data_def codec_simps split: option.split)

record TestProfileData =
  tpd_profile :: ProfileID
  tpd_method :: string
  tpd_sample_count :: i32

definition enc_test_profile_data :: "TestProfileData \<Rightarrow> json" where
  "enc_test_profile_data x = JObj
     [(''profile'', enc_profile_ref (tpd_profile x)), (''method'', JStr (tpd_method x)),
      (''sample_count'', JInt (tpd_sample_count x))]"

definition dec_test_profile_data :: "json \<Rightarrow> TestProfileData option" where
  "dec_test_profile_data j =
     do { fs \<leftarrow> dec_obj j;
          v_tpd_profile \<leftarrow> req dec_profile_ref ''profile'' fs;
          v_tpd_method \<leftarrow> req dec_str ''method'' fs;
          v_tpd_sample_count \<leftarrow> dflt 0 dec_i32 ''sample_count'' fs;
          Some \<lparr>tpd_profile = v_tpd_profile, tpd_method = v_tpd_method,
             tpd_sample_count = v_tpd_sample_count\<rparr> }"

definition ok_test_profile_data :: "TestProfileData \<Rightarrow> bool" where
  "ok_test_profile_data x \<longleftrightarrow> ok_profile_ref (tpd_profile x) \<and> in_i32 (tpd_sample_count x)"

interpretation test_profile_data_codec: codec enc_test_profile_data dec_test_profile_data ok_test_profile_data
  by unfold_locales (simp_all add: enc_test_profile_data_def dec_test_profile_data_def
      ok_test_profile_data_def codec_simps profile_ref_codec.dec_enc split: option.split)

record TestGroupData =
  tgd_group_id :: i32
  tgd_method :: string
  tgd_sample_count :: i32

definition enc_test_group_data :: "TestGroupData \<Rightarrow> json" where
  "enc_test_group_data x = JObj
     [(''group_id'', JInt (tgd_group_id x)), (''method'', JStr (tgd_method x)),
      (''sample_count'', JInt (tgd_sample_count x))]"

definition dec_test_group_data :: "json \<Rightarrow> TestGroupData option" where
  "dec_test_group_data j =
     do { fs \<leftarrow> dec_obj j;
          v_tgd_group_id \<leftarrow> req dec_i32 ''group_id'' fs;
          v_tgd_method \<leftarrow> req dec_str ''method'' fs;
          v_tgd_sample_count \<leftarrow> dflt 0 dec_i32 ''sample_count'' fs;
          Some \<lparr>tgd_group_id = v_tgd_group_id, tgd_method = v_tgd_method,
             tgd_sample_count = v_tgd_sample_count\<rparr> }"

definition ok_test_group_data :: "TestGroupData \<Rightarrow> bool" where
  "ok_test_group_data x \<longleftrightarrow> in_i32 (tgd_group_id x) \<and> in_i32 (tgd_sample_count x)"

interpretation test_group_data_codec: codec enc_test_group_data dec_test_group_data ok_test_group_data
  by unfold_locales (simp_all add: enc_test_group_data_def dec_test_group_data_def
      ok_test_group_data_def codec_simps split: option.split)

record SetTestConfigData =
  stc_config :: TestConfig

definition enc_set_test_config_data :: "SetTestConfigData \<Rightarrow> json" where
  "enc_set_test_config_data x = JObj
     [(''config'', enc_test_config (stc_config x))]"

definition dec_set_test_config_data :: "json \<Rightarrow> SetTestConfigData option" where
  "dec_set_test_config_data j =
     do { fs \<leftarrow> dec_obj j;
          v_stc_config \<leftarrow> req dec_test_config ''config'' fs;
          Some \<lparr>stc_config = v_stc_config\<rparr> }"

definition ok_set_test_config_data :: "SetTestConfigData \<Rightarrow> bool" where
  "ok_set_test_config_data x \<longleftrightarrow> ok_test_config (stc_config x)"

interpretation set_test_config_data_codec: codec enc_set_test_config_data dec_set_test_config_data ok_set_test_config_data
  by unfold_locales (simp_all add: enc_set_test_config_data_def dec_set_test_config_data_def
      ok_set_test_config_data_def codec_simps test_config_codec.dec_enc split: option.split)

record TestConfigUpdated =
  tcu_config :: TestConfig

definition enc_test_config_updated :: "TestConfigUpdated \<Rightarrow> json" where
  "enc_test_config_updated x = JObj
     [(''config'', enc_test_config (tcu_config x))]"

definition dec_test_config_updated :: "json \<Rightarrow> TestConfigUpdated option" where
  "dec_test_config_updated j =
     do { fs \<leftarrow> dec_obj j;
          v_tcu_config \<leftarrow> req dec_test_config ''config'' fs;
          Some \<lparr>tcu_config = v_tcu_config\<rparr> }"

definition ok_test_config_updated :: "TestConfigUpdated \<Rightarrow> bool" where
  "ok_test_config_updated x \<longleftrightarrow> ok_test_config (tcu_config x)"

interpretation test_config_updated_codec: codec enc_test_config_updated dec_test_config_updated ok_test_config_updated
  by unfold_locales (simp_all add: enc_test_config_updated_def dec_test_config_updated_def
      ok_test_config_updated_def codec_simps test_config_codec.dec_enc split: option.split)

record SetTunNameData =
  stn_tun_name :: string

definition enc_set_tun_name_data :: "SetTunNameData \<Rightarrow> json" where
  "enc_set_tun_name_data x = JObj
     [(''tun_name'', JStr (stn_tun_name x))]"

definition dec_set_tun_name_data :: "json \<Rightarrow> SetTunNameData option" where
  "dec_set_tun_name_data j =
     do { fs \<leftarrow> dec_obj j;
          v_stn_tun_name \<leftarrow> req dec_str ''tun_name'' fs;
          Some \<lparr>stn_tun_name = v_stn_tun_name\<rparr> }"

definition ok_set_tun_name_data :: "SetTunNameData \<Rightarrow> bool" where
  "ok_set_tun_name_data x \<longleftrightarrow> True"

interpretation set_tun_name_data_codec: codec enc_set_tun_name_data dec_set_tun_name_data ok_set_tun_name_data
  by unfold_locales (simp_all add: enc_set_tun_name_data_def dec_set_tun_name_data_def
      ok_set_tun_name_data_def codec_simps split: option.split)

record UpdateProfileData =
  upd_profile :: ProfileID
  upd_name :: string

definition enc_update_profile_data :: "UpdateProfileData \<Rightarrow> json" where
  "enc_update_profile_data x = JObj
     [(''Profile'', enc_profile_ref (upd_profile x)), (''Name'', JStr (upd_name x))]"

definition dec_update_profile_data :: "json \<Rightarrow> UpdateProfileData option" where
  "dec_update_profile_data j =
     do { fs \<leftarrow> dec_obj j;
          v_upd_profile \<leftarrow> req dec_profile_ref ''Profile'' fs;
          v_upd_name \<leftarrow> req dec_str ''Name'' fs;
          Some \<lparr>upd_profile = v_upd_profile, upd_name = v_upd_name\<rparr> }"

definition ok_update_profile_data :: "UpdateProfileData \<Rightarrow> bool" where
  "ok_update_profile_data x \<longleftrightarrow> ok_profile_ref (upd_profile x)"

interpretation update_profile_data_codec: codec enc_update_profile_data dec_update_profile_data ok_update_profile_data
  by unfold_locales (simp_all add: enc_update_profile_data_def dec_update_profile_data_def
      ok_update_profile_data_def codec_simps profile_ref_codec.dec_enc split: option.split)

record UpdateGroupData =
  ugd_id :: i32
  ugd_name :: string
  ugd_subscription_url :: string
  ugd_auto_update :: "bool option"
  ugd_update_interval :: "i64 option"

definition enc_update_group_data :: "UpdateGroupData \<Rightarrow> json" where
  "enc_update_group_data x = JObj
     ([(''id'', JInt (ugd_id x)),
       (''name'', JStr (ugd_name x)),
       (''subscription_url'', JStr (ugd_subscription_url x))]
      @ (case ugd_auto_update x of Some v \<Rightarrow> [(''auto_update'', JBool v)] | None \<Rightarrow> [])
      @ (case ugd_update_interval x of Some v \<Rightarrow> [(''update_interval'', JInt v)] | None \<Rightarrow> []))"

definition dec_update_group_data :: "json \<Rightarrow> UpdateGroupData option" where
  "dec_update_group_data j =
     do { fs \<leftarrow> dec_obj j;
          v_ugd_id \<leftarrow> req dec_i32 ''id'' fs;
          v_ugd_name \<leftarrow> dflt [] dec_str ''name'' fs;
          v_ugd_subscription_url \<leftarrow> dflt [] dec_str ''subscription_url'' fs;
          v_ugd_auto_update \<leftarrow> dflt None (dec_option dec_bool) ''auto_update'' fs;
          v_ugd_update_interval \<leftarrow> dflt None (dec_option dec_i64) ''update_interval'' fs;
          Some \<lparr>ugd_id = v_ugd_id, ugd_name = v_ugd_name,
             ugd_subscription_url = v_ugd_subscription_url, ugd_auto_update = v_ugd_auto_update,
             ugd_update_interval = v_ugd_update_interval\<rparr> }"

definition ok_update_group_data :: "UpdateGroupData \<Rightarrow> bool" where
  "ok_update_group_data x \<longleftrightarrow> in_i32 (ugd_id x) \<and> pred_option in_i64 (ugd_update_interval x)"

interpretation update_group_data_codec: codec
  enc_update_group_data dec_update_group_data ok_update_group_data
proof unfold_locales
  fix x
  assume "ok_update_group_data x"
  then show "dec_update_group_data (enc_update_group_data x) = Some x"
    by (cases x; cases "ugd_auto_update x"; cases "ugd_update_interval x")
      (auto simp: enc_update_group_data_def dec_update_group_data_def ok_update_group_data_def
        codec_simps json_any_dec_option)
qed (simp add: enc_update_group_data_def)

record ReorderProfilesData =
  rpd_group_id :: i32
  rpd_profile_ids :: "i32 list"

definition enc_reorder_profiles_data :: "ReorderProfilesData \<Rightarrow> json" where
  "enc_reorder_profiles_data x = JObj
     [(''group_id'', JInt (rpd_group_id x)), (''profile_ids'', JArr (map JInt (rpd_profile_ids x)))]"

definition dec_reorder_profiles_data :: "json \<Rightarrow> ReorderProfilesData option" where
  "dec_reorder_profiles_data j =
     do { fs \<leftarrow> dec_obj j;
          v_rpd_group_id \<leftarrow> req dec_i32 ''group_id'' fs;
          v_rpd_profile_ids \<leftarrow> req (dec_list dec_i32) ''profile_ids'' fs;
          Some \<lparr>rpd_group_id = v_rpd_group_id, rpd_profile_ids = v_rpd_profile_ids\<rparr> }"

definition ok_reorder_profiles_data :: "ReorderProfilesData \<Rightarrow> bool" where
  "ok_reorder_profiles_data x \<longleftrightarrow> in_i32 (rpd_group_id x) \<and> list_all in_i32 (rpd_profile_ids x)"

interpretation reorder_profiles_data_codec: codec enc_reorder_profiles_data dec_reorder_profiles_data ok_reorder_profiles_data
  by unfold_locales (simp_all add: enc_reorder_profiles_data_def dec_reorder_profiles_data_def
      ok_reorder_profiles_data_def codec_simps split: option.split)

record ReorderGroupsData =
  rgd_group_ids :: "i32 list"

definition enc_reorder_groups_data :: "ReorderGroupsData \<Rightarrow> json" where
  "enc_reorder_groups_data x = JObj
     [(''group_ids'', JArr (map JInt (rgd_group_ids x)))]"

definition dec_reorder_groups_data :: "json \<Rightarrow> ReorderGroupsData option" where
  "dec_reorder_groups_data j =
     do { fs \<leftarrow> dec_obj j;
          v_rgd_group_ids \<leftarrow> req (dec_list dec_i32) ''group_ids'' fs;
          Some \<lparr>rgd_group_ids = v_rgd_group_ids\<rparr> }"

definition ok_reorder_groups_data :: "ReorderGroupsData \<Rightarrow> bool" where
  "ok_reorder_groups_data x \<longleftrightarrow> list_all in_i32 (rgd_group_ids x)"

interpretation reorder_groups_data_codec: codec enc_reorder_groups_data dec_reorder_groups_data ok_reorder_groups_data
  by unfold_locales (simp_all add: enc_reorder_groups_data_def dec_reorder_groups_data_def
      ok_reorder_groups_data_def codec_simps split: option.split)

definition enc_set_hwid_data :: "SetHwidData \<Rightarrow> json" where
  "enc_set_hwid_data x = JObj
     [(''enabled'', enc_option JBool (sh_enabled x)),
      (''user_agent'', enc_option JStr (sh_user_agent x)), (''reset'', JBool (sh_reset x))]"

definition dec_set_hwid_data :: "json \<Rightarrow> SetHwidData option" where
  "dec_set_hwid_data j =
     do { fs \<leftarrow> dec_obj j;
          v_sh_enabled \<leftarrow> dflt None (dec_option dec_bool) ''enabled'' fs;
          v_sh_user_agent \<leftarrow> dflt None (dec_option dec_str) ''user_agent'' fs;
          v_sh_reset \<leftarrow> dflt False dec_bool ''reset'' fs;
          Some \<lparr>sh_enabled = v_sh_enabled, sh_user_agent = v_sh_user_agent, sh_reset = v_sh_reset\<rparr> }"

definition ok_set_hwid_data :: "SetHwidData \<Rightarrow> bool" where
  "ok_set_hwid_data x \<longleftrightarrow> True"

interpretation set_hwid_data_codec: codec enc_set_hwid_data dec_set_hwid_data ok_set_hwid_data
  by unfold_locales (simp_all add: enc_set_hwid_data_def dec_set_hwid_data_def
      ok_set_hwid_data_def codec_simps split: option.split)

record GetRoutingData =
  grd_group_id :: i32

definition enc_get_routing_data :: "GetRoutingData \<Rightarrow> json" where
  "enc_get_routing_data x = JObj
     [(''group_id'', JInt (grd_group_id x))]"

definition dec_get_routing_data :: "json \<Rightarrow> GetRoutingData option" where
  "dec_get_routing_data j =
     do { fs \<leftarrow> dec_obj j;
          v_grd_group_id \<leftarrow> dflt 0 dec_i32 ''group_id'' fs;
          Some \<lparr>grd_group_id = v_grd_group_id\<rparr> }"

definition ok_get_routing_data :: "GetRoutingData \<Rightarrow> bool" where
  "ok_get_routing_data x \<longleftrightarrow> in_i32 (grd_group_id x)"

interpretation get_routing_data_codec: codec enc_get_routing_data dec_get_routing_data ok_get_routing_data
  by unfold_locales (simp_all add: enc_get_routing_data_def dec_get_routing_data_def
      ok_get_routing_data_def codec_simps split: option.split)

record UpdateRoutingData =
  urd_group_id :: i32
  urd_config :: RoutingConfig

definition enc_update_routing_data :: "UpdateRoutingData \<Rightarrow> json" where
  "enc_update_routing_data x = JObj
     [(''group_id'', JInt (urd_group_id x)), (''config'', enc_routing (urd_config x))]"

definition dec_update_routing_data :: "json \<Rightarrow> UpdateRoutingData option" where
  "dec_update_routing_data j =
     do { fs \<leftarrow> dec_obj j;
          v_urd_group_id \<leftarrow> dflt 0 dec_i32 ''group_id'' fs;
          v_urd_config \<leftarrow> req dec_routing ''config'' fs;
          Some \<lparr>urd_group_id = v_urd_group_id, urd_config = v_urd_config\<rparr> }"

definition ok_update_routing_data :: "UpdateRoutingData \<Rightarrow> bool" where
  "ok_update_routing_data x \<longleftrightarrow> in_i32 (urd_group_id x) \<and> ok_routing (urd_config x)"

interpretation update_routing_data_codec: codec enc_update_routing_data dec_update_routing_data ok_update_routing_data
  by unfold_locales (simp_all add: enc_update_routing_data_def dec_update_routing_data_def
      ok_update_routing_data_def codec_simps routing_codec.dec_enc split: option.split)

record SetManualRoutingSourceData =
  smr_group_id :: i32
  smr_source :: string

definition enc_set_manual_routing_source_data :: "SetManualRoutingSourceData \<Rightarrow> json" where
  "enc_set_manual_routing_source_data x = JObj
     [(''group_id'', JInt (smr_group_id x)), (''source'', JStr (smr_source x))]"

definition dec_set_manual_routing_source_data :: "json \<Rightarrow> SetManualRoutingSourceData option" where
  "dec_set_manual_routing_source_data j =
     do { fs \<leftarrow> dec_obj j;
          v_smr_group_id \<leftarrow> req dec_i32 ''group_id'' fs;
          v_smr_source \<leftarrow> req dec_str ''source'' fs;
          Some \<lparr>smr_group_id = v_smr_group_id, smr_source = v_smr_source\<rparr> }"

definition ok_set_manual_routing_source_data :: "SetManualRoutingSourceData \<Rightarrow> bool" where
  "ok_set_manual_routing_source_data x \<longleftrightarrow> in_i32 (smr_group_id x)"

interpretation set_manual_routing_source_data_codec: codec enc_set_manual_routing_source_data dec_set_manual_routing_source_data ok_set_manual_routing_source_data
  by unfold_locales (simp_all add: enc_set_manual_routing_source_data_def
      dec_set_manual_routing_source_data_def ok_set_manual_routing_source_data_def codec_simps
      split: option.split)

record SetKillSwitchData =
  sks_enabled :: bool
  sks_force :: bool
  sks_armed :: bool

definition enc_set_kill_switch_data :: "SetKillSwitchData \<Rightarrow> json" where
  "enc_set_kill_switch_data x = JObj
     ([(''enabled'', JBool (sks_enabled x))]
      @ (if sks_force x then [(''force'', JBool True)] else [])
      @ (if sks_armed x then [(''armed'', JBool True)] else []))"

definition dec_set_kill_switch_data :: "json \<Rightarrow> SetKillSwitchData option" where
  "dec_set_kill_switch_data j =
     do { fs \<leftarrow> dec_obj j;
          v_sks_enabled \<leftarrow> req dec_bool ''enabled'' fs;
          v_sks_force \<leftarrow> dflt False dec_bool ''force'' fs;
          v_sks_armed \<leftarrow> dflt False dec_bool ''armed'' fs;
          Some \<lparr>sks_enabled = v_sks_enabled, sks_force = v_sks_force, sks_armed = v_sks_armed\<rparr> }"

definition ok_set_kill_switch_data :: "SetKillSwitchData \<Rightarrow> bool" where
  "ok_set_kill_switch_data x \<longleftrightarrow> True"

interpretation set_kill_switch_data_codec: codec enc_set_kill_switch_data dec_set_kill_switch_data ok_set_kill_switch_data
  by unfold_locales (simp_all add: enc_set_kill_switch_data_def dec_set_kill_switch_data_def
      ok_set_kill_switch_data_def codec_simps split: option.split)

record SetSplitTunnelData =
  sst_mode :: string

definition enc_set_split_tunnel_data :: "SetSplitTunnelData \<Rightarrow> json" where
  "enc_set_split_tunnel_data x = JObj
     [(''mode'', JStr (sst_mode x))]"

definition dec_set_split_tunnel_data :: "json \<Rightarrow> SetSplitTunnelData option" where
  "dec_set_split_tunnel_data j =
     do { fs \<leftarrow> dec_obj j;
          v_sst_mode \<leftarrow> req dec_str ''mode'' fs;
          Some \<lparr>sst_mode = v_sst_mode\<rparr> }"

definition ok_set_split_tunnel_data :: "SetSplitTunnelData \<Rightarrow> bool" where
  "ok_set_split_tunnel_data x \<longleftrightarrow> True"

interpretation set_split_tunnel_data_codec: codec enc_set_split_tunnel_data dec_set_split_tunnel_data ok_set_split_tunnel_data
  by unfold_locales (simp_all add: enc_set_split_tunnel_data_def dec_set_split_tunnel_data_def
      ok_set_split_tunnel_data_def codec_simps split: option.split)

record SetAutoconnectData =
  sad_enabled :: bool
  sad_group_id :: i32
  sad_profile_id :: i32
  sad_mode :: string

definition enc_set_autoconnect_data :: "SetAutoconnectData \<Rightarrow> json" where
  "enc_set_autoconnect_data x = JObj
     [(''enabled'', JBool (sad_enabled x)), (''group_id'', JInt (sad_group_id x)),
      (''profile_id'', JInt (sad_profile_id x)), (''mode'', JStr (sad_mode x))]"

definition dec_set_autoconnect_data :: "json \<Rightarrow> SetAutoconnectData option" where
  "dec_set_autoconnect_data j =
     do { fs \<leftarrow> dec_obj j;
          v_sad_enabled \<leftarrow> req dec_bool ''enabled'' fs;
          v_sad_group_id \<leftarrow> req dec_i32 ''group_id'' fs;
          v_sad_profile_id \<leftarrow> req dec_i32 ''profile_id'' fs;
          v_sad_mode \<leftarrow> req dec_str ''mode'' fs;
          Some \<lparr>sad_enabled = v_sad_enabled, sad_group_id = v_sad_group_id,
             sad_profile_id = v_sad_profile_id, sad_mode = v_sad_mode\<rparr> }"

definition ok_set_autoconnect_data :: "SetAutoconnectData \<Rightarrow> bool" where
  "ok_set_autoconnect_data x \<longleftrightarrow> in_i32 (sad_group_id x) \<and> in_i32 (sad_profile_id x)"

interpretation set_autoconnect_data_codec: codec enc_set_autoconnect_data dec_set_autoconnect_data ok_set_autoconnect_data
  by unfold_locales (simp_all add: enc_set_autoconnect_data_def dec_set_autoconnect_data_def
      ok_set_autoconnect_data_def codec_simps split: option.split)

record ImportHappRoutingData =
  ihr_group_id :: i32
  ihr_link :: string

definition enc_import_happ_routing_data :: "ImportHappRoutingData \<Rightarrow> json" where
  "enc_import_happ_routing_data x = JObj
     [(''group_id'', JInt (ihr_group_id x)), (''link'', JStr (ihr_link x))]"

definition dec_import_happ_routing_data :: "json \<Rightarrow> ImportHappRoutingData option" where
  "dec_import_happ_routing_data j =
     do { fs \<leftarrow> dec_obj j;
          v_ihr_group_id \<leftarrow> req dec_i32 ''group_id'' fs;
          v_ihr_link \<leftarrow> req dec_str ''link'' fs;
          Some \<lparr>ihr_group_id = v_ihr_group_id, ihr_link = v_ihr_link\<rparr> }"

definition ok_import_happ_routing_data :: "ImportHappRoutingData \<Rightarrow> bool" where
  "ok_import_happ_routing_data x \<longleftrightarrow> in_i32 (ihr_group_id x)"

interpretation import_happ_routing_data_codec: codec enc_import_happ_routing_data dec_import_happ_routing_data ok_import_happ_routing_data
  by unfold_locales (simp_all add: enc_import_happ_routing_data_def
      dec_import_happ_routing_data_def ok_import_happ_routing_data_def codec_simps
      split: option.split)

record SetGroupRoutingModeData =
  sgr_group_id :: i32
  sgr_mode :: string

definition enc_set_group_routing_mode_data :: "SetGroupRoutingModeData \<Rightarrow> json" where
  "enc_set_group_routing_mode_data x = JObj
     [(''group_id'', JInt (sgr_group_id x)), (''mode'', JStr (sgr_mode x))]"

definition dec_set_group_routing_mode_data :: "json \<Rightarrow> SetGroupRoutingModeData option" where
  "dec_set_group_routing_mode_data j =
     do { fs \<leftarrow> dec_obj j;
          v_sgr_group_id \<leftarrow> req dec_i32 ''group_id'' fs;
          v_sgr_mode \<leftarrow> req dec_str ''mode'' fs;
          Some \<lparr>sgr_group_id = v_sgr_group_id, sgr_mode = v_sgr_mode\<rparr> }"

definition ok_set_group_routing_mode_data :: "SetGroupRoutingModeData \<Rightarrow> bool" where
  "ok_set_group_routing_mode_data x \<longleftrightarrow> in_i32 (sgr_group_id x)"

interpretation set_group_routing_mode_data_codec: codec enc_set_group_routing_mode_data dec_set_group_routing_mode_data ok_set_group_routing_mode_data
  by unfold_locales (simp_all add: enc_set_group_routing_mode_data_def
      dec_set_group_routing_mode_data_def ok_set_group_routing_mode_data_def codec_simps
      split: option.split)

record SetActiveRoutingProfileData =
  sar_group_id :: i32
  sar_profile_id :: string

definition enc_set_active_routing_profile_data :: "SetActiveRoutingProfileData \<Rightarrow> json" where
  "enc_set_active_routing_profile_data x = JObj
     [(''group_id'', JInt (sar_group_id x)), (''profile_id'', JStr (sar_profile_id x))]"

definition dec_set_active_routing_profile_data :: "json \<Rightarrow> SetActiveRoutingProfileData option" where
  "dec_set_active_routing_profile_data j =
     do { fs \<leftarrow> dec_obj j;
          v_sar_group_id \<leftarrow> req dec_i32 ''group_id'' fs;
          v_sar_profile_id \<leftarrow> req dec_str ''profile_id'' fs;
          Some \<lparr>sar_group_id = v_sar_group_id, sar_profile_id = v_sar_profile_id\<rparr> }"

definition ok_set_active_routing_profile_data :: "SetActiveRoutingProfileData \<Rightarrow> bool" where
  "ok_set_active_routing_profile_data x \<longleftrightarrow> in_i32 (sar_group_id x)"

interpretation set_active_routing_profile_data_codec: codec enc_set_active_routing_profile_data dec_set_active_routing_profile_data ok_set_active_routing_profile_data
  by unfold_locales (simp_all add: enc_set_active_routing_profile_data_def
      dec_set_active_routing_profile_data_def ok_set_active_routing_profile_data_def codec_simps
      split: option.split)

record DeleteRoutingProfileData =
  drp_group_id :: i32
  drp_profile_id :: string

definition enc_delete_routing_profile_data :: "DeleteRoutingProfileData \<Rightarrow> json" where
  "enc_delete_routing_profile_data x = JObj
     [(''group_id'', JInt (drp_group_id x)), (''profile_id'', JStr (drp_profile_id x))]"

definition dec_delete_routing_profile_data :: "json \<Rightarrow> DeleteRoutingProfileData option" where
  "dec_delete_routing_profile_data j =
     do { fs \<leftarrow> dec_obj j;
          v_drp_group_id \<leftarrow> req dec_i32 ''group_id'' fs;
          v_drp_profile_id \<leftarrow> req dec_str ''profile_id'' fs;
          Some \<lparr>drp_group_id = v_drp_group_id, drp_profile_id = v_drp_profile_id\<rparr> }"

definition ok_delete_routing_profile_data :: "DeleteRoutingProfileData \<Rightarrow> bool" where
  "ok_delete_routing_profile_data x \<longleftrightarrow> in_i32 (drp_group_id x)"

interpretation delete_routing_profile_data_codec: codec enc_delete_routing_profile_data dec_delete_routing_profile_data ok_delete_routing_profile_data
  by unfold_locales (simp_all add: enc_delete_routing_profile_data_def
      dec_delete_routing_profile_data_def ok_delete_routing_profile_data_def codec_simps
      split: option.split)

record Warning =
  w_key :: string
  w_content :: string

definition enc_warning :: "Warning \<Rightarrow> json" where
  "enc_warning x = JObj
     [(''key'', JStr (w_key x)), (''content'', JStr (w_content x))]"

definition dec_warning :: "json \<Rightarrow> Warning option" where
  "dec_warning j =
     do { fs \<leftarrow> dec_obj j;
          v_w_key \<leftarrow> dflt [] dec_str ''key'' fs;
          v_w_content \<leftarrow> dflt [] dec_str ''content'' fs;
          Some \<lparr>w_key = v_w_key, w_content = v_w_content\<rparr> }"

definition ok_warning :: "Warning \<Rightarrow> bool" where
  "ok_warning x \<longleftrightarrow> True"

interpretation warning_codec: codec enc_warning dec_warning ok_warning
  by unfold_locales (simp_all add: enc_warning_def dec_warning_def ok_warning_def codec_simps
      split: option.split)

record ProfilesAdded =
  pa_profiles :: "Profile list"

definition enc_profiles_added :: "ProfilesAdded \<Rightarrow> json" where
  "enc_profiles_added x = JObj
     [(''profiles'', JArr (map enc_profile (pa_profiles x)))]"

definition dec_profiles_added :: "json \<Rightarrow> ProfilesAdded option" where
  "dec_profiles_added j =
     do { fs \<leftarrow> dec_obj j;
          v_pa_profiles \<leftarrow> req (dec_list dec_profile) ''profiles'' fs;
          Some \<lparr>pa_profiles = v_pa_profiles\<rparr> }"

definition ok_profiles_added :: "ProfilesAdded \<Rightarrow> bool" where
  "ok_profiles_added x \<longleftrightarrow> list_all ok_profile (pa_profiles x)"

interpretation profiles_added_codec: codec enc_profiles_added dec_profiles_added ok_profiles_added
  by unfold_locales (simp_all add: enc_profiles_added_def dec_profiles_added_def
      ok_profiles_added_def codec_simps profile_codec.dec_all_enc split: option.split)

record ProfilesDeleted =
  pdl_deleted_profiles :: "ProfileID list"

definition enc_profiles_deleted :: "ProfilesDeleted \<Rightarrow> json" where
  "enc_profiles_deleted x = JObj
     [(''deleted-profiles'', JArr (map enc_profile_ref (pdl_deleted_profiles x)))]"

definition dec_profiles_deleted :: "json \<Rightarrow> ProfilesDeleted option" where
  "dec_profiles_deleted j =
     do { fs \<leftarrow> dec_obj j;
          v_pdl_deleted_profiles \<leftarrow> req (dec_list dec_profile_ref) ''deleted-profiles'' fs;
          Some \<lparr>pdl_deleted_profiles = v_pdl_deleted_profiles\<rparr> }"

definition ok_profiles_deleted :: "ProfilesDeleted \<Rightarrow> bool" where
  "ok_profiles_deleted x \<longleftrightarrow> list_all ok_profile_ref (pdl_deleted_profiles x)"

interpretation profiles_deleted_codec: codec enc_profiles_deleted dec_profiles_deleted ok_profiles_deleted
  by unfold_locales (simp_all add: enc_profiles_deleted_def dec_profiles_deleted_def
      ok_profiles_deleted_def codec_simps profile_ref_codec.dec_all_enc split: option.split)

record ProfileUpdated =
  pu_profile :: Profile

definition enc_profile_updated :: "ProfileUpdated \<Rightarrow> json" where
  "enc_profile_updated x = JObj
     [(''profile'', enc_profile (pu_profile x))]"

definition dec_profile_updated :: "json \<Rightarrow> ProfileUpdated option" where
  "dec_profile_updated j =
     do { fs \<leftarrow> dec_obj j;
          v_pu_profile \<leftarrow> req dec_profile ''profile'' fs;
          Some \<lparr>pu_profile = v_pu_profile\<rparr> }"

definition ok_profile_updated :: "ProfileUpdated \<Rightarrow> bool" where
  "ok_profile_updated x \<longleftrightarrow> ok_profile (pu_profile x)"

interpretation profile_updated_codec: codec enc_profile_updated dec_profile_updated ok_profile_updated
  by unfold_locales (simp_all add: enc_profile_updated_def dec_profile_updated_def
      ok_profile_updated_def codec_simps profile_codec.dec_enc split: option.split)

record GroupAdded =
  ga_id :: i32
  ga_name :: string
  ga_subscription_url :: string

definition enc_group_added :: "GroupAdded \<Rightarrow> json" where
  "enc_group_added x = JObj
     [(''id'', JInt (ga_id x)), (''name'', JStr (ga_name x)),
      (''subscription_url'', JStr (ga_subscription_url x))]"

definition dec_group_added :: "json \<Rightarrow> GroupAdded option" where
  "dec_group_added j =
     do { fs \<leftarrow> dec_obj j;
          v_ga_id \<leftarrow> req dec_i32 ''id'' fs;
          v_ga_name \<leftarrow> dflt [] dec_str ''name'' fs;
          v_ga_subscription_url \<leftarrow> dflt [] dec_str ''subscription_url'' fs;
          Some \<lparr>ga_id = v_ga_id, ga_name = v_ga_name, ga_subscription_url = v_ga_subscription_url\<rparr> }"

definition ok_group_added :: "GroupAdded \<Rightarrow> bool" where
  "ok_group_added x \<longleftrightarrow> in_i32 (ga_id x)"

interpretation group_added_codec: codec enc_group_added dec_group_added ok_group_added
  by unfold_locales (simp_all add: enc_group_added_def dec_group_added_def ok_group_added_def
      codec_simps split: option.split)

record GroupDeleted =
  gdl_id :: i32

definition enc_group_deleted :: "GroupDeleted \<Rightarrow> json" where
  "enc_group_deleted x = JObj
     [(''id'', JInt (gdl_id x))]"

definition dec_group_deleted :: "json \<Rightarrow> GroupDeleted option" where
  "dec_group_deleted j =
     do { fs \<leftarrow> dec_obj j;
          v_gdl_id \<leftarrow> req dec_i32 ''id'' fs;
          Some \<lparr>gdl_id = v_gdl_id\<rparr> }"

definition ok_group_deleted :: "GroupDeleted \<Rightarrow> bool" where
  "ok_group_deleted x \<longleftrightarrow> in_i32 (gdl_id x)"

interpretation group_deleted_codec: codec enc_group_deleted dec_group_deleted ok_group_deleted
  by unfold_locales (simp_all add: enc_group_deleted_def dec_group_deleted_def
      ok_group_deleted_def codec_simps split: option.split)

record SubscriptionUpdated =
  su_group_id :: i32
  su_group :: Group
  su_profiles :: "Profile list"
  su_routing_profiles :: "RoutingProfileInfo list"
  su_auto :: bool

definition enc_subscription_updated :: "SubscriptionUpdated \<Rightarrow> json" where
  "enc_subscription_updated x = JObj
     [(''group_id'', JInt (su_group_id x)), (''group'', enc_group (su_group x)),
      (''profiles'', JArr (map enc_profile (su_profiles x))),
      (''routing_profiles'', JArr (map enc_routing_profile (su_routing_profiles x))),
      (''auto'', JBool (su_auto x))]"

definition dec_subscription_updated :: "json \<Rightarrow> SubscriptionUpdated option" where
  "dec_subscription_updated j =
     do { fs \<leftarrow> dec_obj j;
          v_su_group_id \<leftarrow> req dec_i32 ''group_id'' fs;
          v_su_group \<leftarrow> req dec_group ''group'' fs;
          v_su_profiles \<leftarrow> req (dec_list dec_profile) ''profiles'' fs;
          v_su_routing_profiles \<leftarrow> dflt [] (dec_list dec_routing_profile) ''routing_profiles'' fs;
          v_su_auto \<leftarrow> dflt False dec_bool ''auto'' fs;
          Some \<lparr>su_group_id = v_su_group_id, su_group = v_su_group, su_profiles = v_su_profiles,
             su_routing_profiles = v_su_routing_profiles, su_auto = v_su_auto\<rparr> }"

definition ok_subscription_updated :: "SubscriptionUpdated \<Rightarrow> bool" where
  "ok_subscription_updated x \<longleftrightarrow> in_i32 (su_group_id x) \<and> ok_group (su_group x) \<and>
     list_all ok_profile (su_profiles x) \<and> list_all ok_routing_profile (su_routing_profiles x)"

interpretation subscription_updated_codec: codec enc_subscription_updated dec_subscription_updated ok_subscription_updated
  by unfold_locales (simp_all add: enc_subscription_updated_def dec_subscription_updated_def
      ok_subscription_updated_def codec_simps group_codec.dec_enc profile_codec.dec_all_enc
      routing_profile_codec.dec_all_enc split: option.split)

record ProfilesReordered =
  pr_group_id :: i32
  pr_profile_ids :: "i32 list"

definition enc_profiles_reordered :: "ProfilesReordered \<Rightarrow> json" where
  "enc_profiles_reordered x = JObj
     [(''group_id'', JInt (pr_group_id x)), (''profile_ids'', JArr (map JInt (pr_profile_ids x)))]"

definition dec_profiles_reordered :: "json \<Rightarrow> ProfilesReordered option" where
  "dec_profiles_reordered j =
     do { fs \<leftarrow> dec_obj j;
          v_pr_group_id \<leftarrow> req dec_i32 ''group_id'' fs;
          v_pr_profile_ids \<leftarrow> req (dec_list dec_i32) ''profile_ids'' fs;
          Some \<lparr>pr_group_id = v_pr_group_id, pr_profile_ids = v_pr_profile_ids\<rparr> }"

definition ok_profiles_reordered :: "ProfilesReordered \<Rightarrow> bool" where
  "ok_profiles_reordered x \<longleftrightarrow> in_i32 (pr_group_id x) \<and> list_all in_i32 (pr_profile_ids x)"

interpretation profiles_reordered_codec: codec enc_profiles_reordered dec_profiles_reordered ok_profiles_reordered
  by unfold_locales (simp_all add: enc_profiles_reordered_def dec_profiles_reordered_def
      ok_profiles_reordered_def codec_simps split: option.split)

record GroupsReordered =
  gr_group_ids :: "i32 list"

definition enc_groups_reordered :: "GroupsReordered \<Rightarrow> json" where
  "enc_groups_reordered x = JObj
     [(''group_ids'', JArr (map JInt (gr_group_ids x)))]"

definition dec_groups_reordered :: "json \<Rightarrow> GroupsReordered option" where
  "dec_groups_reordered j =
     do { fs \<leftarrow> dec_obj j;
          v_gr_group_ids \<leftarrow> req (dec_list dec_i32) ''group_ids'' fs;
          Some \<lparr>gr_group_ids = v_gr_group_ids\<rparr> }"

definition ok_groups_reordered :: "GroupsReordered \<Rightarrow> bool" where
  "ok_groups_reordered x \<longleftrightarrow> list_all in_i32 (gr_group_ids x)"

interpretation groups_reordered_codec: codec enc_groups_reordered dec_groups_reordered ok_groups_reordered
  by unfold_locales (simp_all add: enc_groups_reordered_def dec_groups_reordered_def
      ok_groups_reordered_def codec_simps split: option.split)

record ProfileMoved =
  pm_old_profile :: ProfileID
  pm_new_profile :: Profile

definition enc_profile_moved :: "ProfileMoved \<Rightarrow> json" where
  "enc_profile_moved x = JObj
     [(''old_profile'', enc_profile_ref (pm_old_profile x)),
      (''new_profile'', enc_profile (pm_new_profile x))]"

definition dec_profile_moved :: "json \<Rightarrow> ProfileMoved option" where
  "dec_profile_moved j =
     do { fs \<leftarrow> dec_obj j;
          v_pm_old_profile \<leftarrow> req dec_profile_ref ''old_profile'' fs;
          v_pm_new_profile \<leftarrow> req dec_profile ''new_profile'' fs;
          Some \<lparr>pm_old_profile = v_pm_old_profile, pm_new_profile = v_pm_new_profile\<rparr> }"

definition ok_profile_moved :: "ProfileMoved \<Rightarrow> bool" where
  "ok_profile_moved x \<longleftrightarrow> ok_profile_ref (pm_old_profile x) \<and> ok_profile (pm_new_profile x)"

interpretation profile_moved_codec: codec enc_profile_moved dec_profile_moved ok_profile_moved
  by unfold_locales (simp_all add: enc_profile_moved_def dec_profile_moved_def
      ok_profile_moved_def codec_simps profile_ref_codec.dec_enc profile_codec.dec_enc
      split: option.split)

record TunStatus =
  tun_is_enabled :: bool

definition enc_tun_status :: "TunStatus \<Rightarrow> json" where
  "enc_tun_status x = JObj
     [(''is_enabled'', JBool (tun_is_enabled x))]"

definition dec_tun_status :: "json \<Rightarrow> TunStatus option" where
  "dec_tun_status j =
     do { fs \<leftarrow> dec_obj j;
          v_tun_is_enabled \<leftarrow> req dec_bool ''is_enabled'' fs;
          Some \<lparr>tun_is_enabled = v_tun_is_enabled\<rparr> }"

definition ok_tun_status :: "TunStatus \<Rightarrow> bool" where
  "ok_tun_status x \<longleftrightarrow> True"

interpretation tun_status_codec: codec enc_tun_status dec_tun_status ok_tun_status
  by unfold_locales (simp_all add: enc_tun_status_def dec_tun_status_def ok_tun_status_def
      codec_simps split: option.split)

record IsRootAnswer =
  ira_is_root :: bool

definition enc_is_root_answer :: "IsRootAnswer \<Rightarrow> json" where
  "enc_is_root_answer x = JObj
     [(''IsRoot'', JBool (ira_is_root x))]"

definition dec_is_root_answer :: "json \<Rightarrow> IsRootAnswer option" where
  "dec_is_root_answer j =
     do { fs \<leftarrow> dec_obj j;
          v_ira_is_root \<leftarrow> req dec_bool ''IsRoot'' fs;
          Some \<lparr>ira_is_root = v_ira_is_root\<rparr> }"

definition ok_is_root_answer :: "IsRootAnswer \<Rightarrow> bool" where
  "ok_is_root_answer x \<longleftrightarrow> True"

interpretation is_root_answer_codec: codec enc_is_root_answer dec_is_root_answer ok_is_root_answer
  by unfold_locales (simp_all add: enc_is_root_answer_def dec_is_root_answer_def
      ok_is_root_answer_def codec_simps split: option.split)

record RoutingUpdated =
  ru_group_id :: i32
  ru_config :: RoutingConfig
  ru_source :: string
  ru_custom :: "RoutingConfig option"

definition enc_routing_updated :: "RoutingUpdated \<Rightarrow> json" where
  "enc_routing_updated x = JObj
     [(''group_id'', JInt (ru_group_id x)), (''config'', enc_routing (ru_config x)),
      (''source'', JStr (ru_source x)), (''custom'', enc_option enc_routing (ru_custom x))]"

definition dec_routing_updated :: "json \<Rightarrow> RoutingUpdated option" where
  "dec_routing_updated j =
     do { fs \<leftarrow> dec_obj j;
          v_ru_group_id \<leftarrow> dflt 0 dec_i32 ''group_id'' fs;
          v_ru_config \<leftarrow> req dec_routing ''config'' fs;
          v_ru_source \<leftarrow> dflt [] dec_str ''source'' fs;
          v_ru_custom \<leftarrow> dflt None (dec_option dec_routing) ''custom'' fs;
          Some \<lparr>ru_group_id = v_ru_group_id, ru_config = v_ru_config, ru_source = v_ru_source,
             ru_custom = v_ru_custom\<rparr> }"

definition ok_routing_updated :: "RoutingUpdated \<Rightarrow> bool" where
  "ok_routing_updated x \<longleftrightarrow> in_i32 (ru_group_id x) \<and> ok_routing (ru_config x) \<and>
     pred_option ok_routing (ru_custom x)"

interpretation routing_updated_codec: codec enc_routing_updated dec_routing_updated ok_routing_updated
  by unfold_locales (simp_all add: enc_routing_updated_def dec_routing_updated_def
      ok_routing_updated_def codec_simps routing_codec.dec_enc routing_codec.dec_option_enc
      split: option.split)

end
