(* ===== verification/Dispatch.thy ===== *)
theory Dispatch
  imports Requests
begin

text \<open>
  \<open>src/core_client/dispatch.rs\<close>: the events the interface reacts to, and \<open>dispatch\<close>, which turns a
  message of the core into one of them.  The arms of its \<open>match\<close> are the rows of \<open>dispatch_arms\<close>: the
  name of the message, and the macro \<open>try_dispatch!\<close> on its type and its map.
\<close>

datatype (plugins only: code size) CoreEvent =
    EvApplicationState ApplicationState
  | EvStatusChanged ProxyStatus
  | EvProfilesAdded "Profile list"
  | EvProfilesDeleted "ProfileID list"
  | EvProfileUpdated Profile
  | EvProfileDetails ProfileDetails
  | EvGroupAdded Group
  | EvGroupDeleted i32
  | EvGroupUpdated Group
  | EvSubscriptionUpdated Group "Profile list" "RoutingProfileInfo list" bool
  | EvTunStatusChanged bool
  | EvIsRootAnswer bool
  | EvWarning string string
  | EvError string
  | EvTrafficStats TrafficStats
  | EvRoutingUpdated i32 RoutingConfig string "RoutingConfig option"
  | EvHwidUpdated HwidData
  | EvTunNameUpdated string
  | EvKillSwitchUpdated bool bool
  | EvSplitTunnelUpdated string
  | EvAutoconnectUpdated AutoconnectInfo
  | EvTestProgress TestProgress
  | EvTestConfigUpdated TestConfig
  | EvXrayProgress XrayProgressNotification
  | EvProfilesReordered i32 "i32 list"
  | EvGroupsReordered "i32 list"
  | EvProfileMoved ProfileID Profile
  | EvReconnected
  | EvDisconnected

record TcpMessage =
  tm_msg :: string
  tm_data :: json
  tm_id :: "string option"

definition enc_message :: "TcpMessage \<Rightarrow> json" where
  "enc_message m = JObj
     ([(''msg'', JStr (tm_msg m)), (''data'', tm_data m)]
      @ (case tm_id m of Some i \<Rightarrow> [(''id'', JStr i)] | None \<Rightarrow> []))"

definition dec_message :: "json \<Rightarrow> TcpMessage option" where
  "dec_message j =
     do { fs \<leftarrow> dec_obj j;
          m \<leftarrow> req dec_str ''msg'' fs;
          d \<leftarrow> req Some ''data'' fs;
          i \<leftarrow> dflt None (dec_option dec_str) ''id'' fs;
          Some \<lparr>tm_msg = m, tm_data = d, tm_id = i\<rparr> }"

interpretation message_codec: codec enc_message dec_message "\<lambda>_. True"
proof unfold_locales
  fix m
  show "dec_message (enc_message m) = Some m"
    by (cases m; cases "tm_id m")
      (auto simp: enc_message_def dec_message_def codec_simps json_any_dec_option)
qed (simp add: enc_message_def)

section \<open>Dispatch\<close>

definition arm :: "(json \<Rightarrow> 'a option) \<Rightarrow> ('a \<Rightarrow> CoreEvent) \<Rightarrow> json \<Rightarrow> CoreEvent option" where
  "arm d f j = map_option f (d j)"

definition dispatch_arms :: "(string \<times> (json \<Rightarrow> CoreEvent option)) list" where
  "dispatch_arms =
    [(''application-state'', arm dec_app_state EvApplicationState),
     (''status-changed'', arm dec_status EvStatusChanged),
     (''profiles-added'', arm dec_profiles_added (\<lambda>d. EvProfilesAdded (pa_profiles d))),
     (''profiles-deleted'',
        arm dec_profiles_deleted (\<lambda>d. EvProfilesDeleted (pdl_deleted_profiles d))),
     (''profile-updated'', arm dec_profile_updated (\<lambda>d. EvProfileUpdated (pu_profile d))),
     (''profile-details'', arm dec_details EvProfileDetails),
     (''group-added'', arm dec_group_added (\<lambda>d. EvGroupAdded (default_group
        \<lparr>g_id := ga_id d, g_name := ga_name d, g_subscription_url := ga_subscription_url d, g_last_id := 0\<rparr>))),
     (''group-deleted'', arm dec_group_deleted (\<lambda>d. EvGroupDeleted (gdl_id d))),
     (''group-updated'', arm dec_group EvGroupUpdated),
     (''subscription-updated'',
        arm dec_subscription_updated (\<lambda>d. EvSubscriptionUpdated (su_group d) (su_profiles d) (su_routing_profiles d) (su_auto d))),
     (''profiles-reordered'',
        arm dec_profiles_reordered (\<lambda>d. EvProfilesReordered (pr_group_id d) (pr_profile_ids d))),
     (''groups-reordered'',
        arm dec_groups_reordered (\<lambda>d. EvGroupsReordered (gr_group_ids d))),
     (''profile-moved'',
        arm dec_profile_moved (\<lambda>d. EvProfileMoved (pm_old_profile d) (pm_new_profile d))),
     (''tun-status-changed'',
        arm dec_tun_status (\<lambda>d. EvTunStatusChanged (tun_is_enabled d))),
     (''is-root-answer'', arm dec_is_root_answer (\<lambda>d. EvIsRootAnswer (ira_is_root d))),
     (''warn'', arm dec_warning (\<lambda>d. EvWarning (w_key d) (w_content d))),
     (''error'', arm dec_warning (\<lambda>d. EvError (w_content d))),
     (''traffic-stats'', arm dec_traffic EvTrafficStats),
     (''routing-updated'',
        arm dec_routing_updated (\<lambda>d. EvRoutingUpdated (ru_group_id d) (ru_config d) (ru_source d) (ru_custom d))),
     (''hwid-updated'', arm dec_hwid EvHwidUpdated),
     (''tun-name-updated'',
        arm dec_set_tun_name_data (\<lambda>d. EvTunNameUpdated (stn_tun_name d))),
     (''kill-switch-updated'',
        arm dec_set_kill_switch_data (\<lambda>d. EvKillSwitchUpdated (sks_enabled d) (sks_armed d))),
     (''split-tunnel-updated'',
        arm dec_set_split_tunnel_data (\<lambda>d. EvSplitTunnelUpdated (sst_mode d))),
     (''autoconnect-updated'', arm dec_autoconnect_info EvAutoconnectUpdated),
     (''test-progress'', arm dec_test_progress EvTestProgress),
     (''test-config-updated'',
        arm dec_test_config_updated (\<lambda>d. EvTestConfigUpdated (tcu_config d))),
     (''xray-progress'', arm dec_xray_progress EvXrayProgress)]"

definition dispatch :: "TcpMessage \<Rightarrow> CoreEvent" where
  "dispatch m =
     (case map_of dispatch_arms (tm_msg m) of
        None \<Rightarrow> EvError (''Unknown message: '' @ tm_msg m)
      | Some f \<Rightarrow>
          (case f (tm_data m) of
             None \<Rightarrow> EvError (''Invalid '' @ tm_msg m)
           | Some ev \<Rightarrow> ev))"

section \<open>The notifications\<close>

text \<open>The message that carries an event, written with the encoders the structs derive.  The last two
  events are made by the read loop and have no message.\<close>

definition carry :: "string \<Rightarrow> json \<Rightarrow> TcpMessage" where
  "carry m j = \<lparr>tm_msg = m, tm_data = j, tm_id = None\<rparr>"

fun notification :: "CoreEvent \<Rightarrow> TcpMessage" where
  "notification (EvApplicationState d) = carry ''application-state'' (enc_app_state d)"
| "notification (EvStatusChanged d) = carry ''status-changed'' (enc_status d)"
| "notification (EvProfilesAdded a) =
     carry ''profiles-added'' (enc_profiles_added \<lparr>pa_profiles = a\<rparr>)"
| "notification (EvProfilesDeleted a) =
     carry ''profiles-deleted'' (enc_profiles_deleted \<lparr>pdl_deleted_profiles = a\<rparr>)"
| "notification (EvProfileUpdated a) =
     carry ''profile-updated'' (enc_profile_updated \<lparr>pu_profile = a\<rparr>)"
| "notification (EvProfileDetails d) = carry ''profile-details'' (enc_details d)"
| "notification (EvGroupAdded d) =
     carry ''group-added'' (enc_group_added
       \<lparr>ga_id = g_id d, ga_name = g_name d, ga_subscription_url = g_subscription_url d\<rparr>)"
| "notification (EvGroupDeleted a) =
     carry ''group-deleted'' (enc_group_deleted \<lparr>gdl_id = a\<rparr>)"
| "notification (EvGroupUpdated d) = carry ''group-updated'' (enc_group d)"
| "notification (EvSubscriptionUpdated a b c d) =
     carry ''subscription-updated'' (enc_subscription_updated
       \<lparr>su_group_id = g_id a, su_group = a, su_profiles = b, su_routing_profiles = c, su_auto = d\<rparr>)"
| "notification (EvProfilesReordered a b) =
     carry ''profiles-reordered'' (enc_profiles_reordered
       \<lparr>pr_group_id = a, pr_profile_ids = b\<rparr>)"
| "notification (EvGroupsReordered a) =
     carry ''groups-reordered'' (enc_groups_reordered \<lparr>gr_group_ids = a\<rparr>)"
| "notification (EvProfileMoved a b) =
     carry ''profile-moved'' (enc_profile_moved \<lparr>pm_old_profile = a, pm_new_profile = b\<rparr>)"
| "notification (EvTunStatusChanged a) =
     carry ''tun-status-changed'' (enc_tun_status \<lparr>tun_is_enabled = a\<rparr>)"
| "notification (EvIsRootAnswer a) =
     carry ''is-root-answer'' (enc_is_root_answer \<lparr>ira_is_root = a\<rparr>)"
| "notification (EvWarning a b) =
     carry ''warn'' (enc_warning \<lparr>w_key = a, w_content = b\<rparr>)"
| "notification (EvError a) =
     carry ''error'' (enc_warning \<lparr>w_key = [], w_content = a\<rparr>)"
| "notification (EvTrafficStats d) = carry ''traffic-stats'' (enc_traffic d)"
| "notification (EvRoutingUpdated a b c d) =
     carry ''routing-updated'' (enc_routing_updated
       \<lparr>ru_group_id = a, ru_config = b, ru_source = c, ru_custom = d\<rparr>)"
| "notification (EvHwidUpdated d) = carry ''hwid-updated'' (enc_hwid d)"
| "notification (EvTunNameUpdated a) =
     carry ''tun-name-updated'' (enc_set_tun_name_data \<lparr>stn_tun_name = a\<rparr>)"
| "notification (EvKillSwitchUpdated a b) =
     carry ''kill-switch-updated'' (enc_set_kill_switch_data
       \<lparr>sks_enabled = a, sks_force = False, sks_armed = b\<rparr>)"
| "notification (EvSplitTunnelUpdated a) =
     carry ''split-tunnel-updated'' (enc_set_split_tunnel_data \<lparr>sst_mode = a\<rparr>)"
| "notification (EvAutoconnectUpdated d) = carry ''autoconnect-updated'' (enc_autoconnect_info d)"
| "notification (EvTestProgress d) = carry ''test-progress'' (enc_test_progress d)"
| "notification (EvTestConfigUpdated a) =
     carry ''test-config-updated'' (enc_test_config_updated \<lparr>tcu_config = a\<rparr>)"
| "notification (EvXrayProgress d) = carry ''xray-progress'' (enc_xray_progress d)"
| "notification EvReconnected = carry '''' JNull"
| "notification EvDisconnected = carry '''' JNull"

fun ok_event :: "CoreEvent \<Rightarrow> bool" where
  "ok_event (EvApplicationState d) \<longleftrightarrow> ok_app_state d"
| "ok_event (EvStatusChanged d) \<longleftrightarrow> ok_status d"
| "ok_event (EvProfilesAdded a) \<longleftrightarrow> list_all ok_profile a"
| "ok_event (EvProfilesDeleted a) \<longleftrightarrow> list_all ok_profile_ref a"
| "ok_event (EvProfileUpdated a) \<longleftrightarrow> ok_profile a"
| "ok_event (EvProfileDetails d) \<longleftrightarrow> ok_details d"
| "ok_event (EvGroupAdded d) \<longleftrightarrow> in_i32 (g_id d) \<and>
     d = default_group\<lparr>g_id := g_id d, g_name := g_name d, g_subscription_url := g_subscription_url d\<rparr>"
| "ok_event (EvGroupDeleted a) \<longleftrightarrow> in_i32 a"
| "ok_event (EvGroupUpdated d) \<longleftrightarrow> ok_group d"
| "ok_event (EvSubscriptionUpdated a b c _) \<longleftrightarrow> ok_group a \<and> list_all ok_profile b \<and> list_all ok_routing_profile c"
| "ok_event (EvProfilesReordered a b) \<longleftrightarrow> in_i32 a \<and> list_all in_i32 b"
| "ok_event (EvGroupsReordered a) \<longleftrightarrow> list_all in_i32 a"
| "ok_event (EvProfileMoved a b) \<longleftrightarrow> ok_profile_ref a \<and> ok_profile b"
| "ok_event (EvTunStatusChanged _) \<longleftrightarrow> True"
| "ok_event (EvIsRootAnswer _) \<longleftrightarrow> True"
| "ok_event (EvWarning _ _) \<longleftrightarrow> True"
| "ok_event (EvError _) \<longleftrightarrow> True"
| "ok_event (EvTrafficStats d) \<longleftrightarrow> ok_traffic d"
| "ok_event (EvRoutingUpdated a b _ d) \<longleftrightarrow> in_i32 a \<and> ok_routing b \<and> pred_option ok_routing d"
| "ok_event (EvHwidUpdated d) \<longleftrightarrow> ok_hwid d"
| "ok_event (EvTunNameUpdated _) \<longleftrightarrow> True"
| "ok_event (EvKillSwitchUpdated _ _) \<longleftrightarrow> True"
| "ok_event (EvSplitTunnelUpdated _) \<longleftrightarrow> True"
| "ok_event (EvAutoconnectUpdated d) \<longleftrightarrow> ok_autoconnect_info d"
| "ok_event (EvTestProgress d) \<longleftrightarrow> ok_test_progress d"
| "ok_event (EvTestConfigUpdated a) \<longleftrightarrow> ok_test_config a"
| "ok_event (EvXrayProgress d) \<longleftrightarrow> ok_xray_progress d"
| "ok_event EvReconnected \<longleftrightarrow> False"
| "ok_event EvDisconnected \<longleftrightarrow> False"

lemmas notification_codecs =
  app_state_codec.dec_enc
  autoconnect_info_codec.dec_enc
  details_codec.dec_enc
  group_added_codec.dec_enc
  group_codec.dec_enc
  group_deleted_codec.dec_enc
  groups_reordered_codec.dec_enc
  hwid_codec.dec_enc
  is_root_answer_codec.dec_enc
  profile_moved_codec.dec_enc
  profile_updated_codec.dec_enc
  profiles_added_codec.dec_enc
  profiles_deleted_codec.dec_enc
  profiles_reordered_codec.dec_enc
  routing_updated_codec.dec_enc
  set_kill_switch_data_codec.dec_enc
  set_split_tunnel_data_codec.dec_enc
  set_tun_name_data_codec.dec_enc
  status_codec.dec_enc
  subscription_updated_codec.dec_enc
  test_config_updated_codec.dec_enc
  test_progress_codec.dec_enc
  traffic_codec.dec_enc
  tun_status_codec.dec_enc
  warning_codec.dec_enc
  xray_progress_codec.dec_enc

lemmas notification_oks =
  ok_group_added_def
  ok_group_deleted_def
  ok_groups_reordered_def
  ok_is_root_answer_def
  ok_profile_moved_def
  ok_profile_updated_def
  ok_profiles_added_def
  ok_profiles_deleted_def
  ok_profiles_reordered_def
  ok_routing_updated_def
  ok_set_kill_switch_data_def
  ok_set_split_tunnel_data_def
  ok_set_tun_name_data_def
  ok_subscription_updated_def
  ok_test_config_updated_def
  ok_tun_status_def
  ok_warning_def

lemma added_group_last_id:
  "d = default_group\<lparr>g_id := i, g_name := n, g_subscription_url := u\<rparr> \<Longrightarrow> d\<lparr>g_last_id := 0\<rparr> = d"
  by (simp add: default_group_def)

lemma ok_group_id: "ok_group g \<Longrightarrow> in_i32 (g_id g)"
  by (simp add: ok_group_def)

lemma dispatch_arm:
  assumes "map_of dispatch_arms name = Some (arm d f)" "d j = Some x"
  shows "dispatch (carry name j) = f x"
  using assms by (simp add: dispatch_def carry_def arm_def)

lemma dispatch_of_notification:
  assumes "ok_event ev"
  shows "dispatch (notification ev) = ev"
proof (cases ev)
  case (EvGroupAdded d)
  have "dispatch (notification ev) = EvGroupAdded (d\<lparr>g_last_id := 0\<rparr>)"
    using assms EvGroupAdded
    by (simp add: dispatch_def dispatch_arms_def carry_def arm_def notification_codecs notification_oks)
  moreover have "d = default_group
      \<lparr>g_id := g_id d, g_name := g_name d, g_subscription_url := g_subscription_url d\<rparr>"
    using assms EvGroupAdded by simp
  then have "d\<lparr>g_last_id := 0\<rparr> = d" by (rule added_group_last_id)
  ultimately show ?thesis using EvGroupAdded by simp
qed (use assms in \<open>simp_all add: dispatch_def dispatch_arms_def carry_def arm_def notification_codecs
    notification_oks ok_group_id\<close>)

lemma arms_events:
  assumes "(k, f) \<in> set dispatch_arms" "f j = Some ev"
  shows "ev \<noteq> EvReconnected \<and> ev \<noteq> EvDisconnected"
proof -
  have "list_all (\<lambda>(k, f). f j \<noteq> Some EvReconnected \<and> f j \<noteq> Some EvDisconnected) dispatch_arms"
    by (simp add: dispatch_arms_def arm_def)
  with assms show ?thesis by (force simp: list_all_iff)
qed

lemma read_loop_events_not_sent: "dispatch m \<noteq> EvReconnected" "dispatch m \<noteq> EvDisconnected"
proof -
  have "dispatch m \<noteq> EvReconnected \<and> dispatch m \<noteq> EvDisconnected"
  proof (cases "map_of dispatch_arms (tm_msg m)")
    case None
    then show ?thesis by (simp add: dispatch_def)
  next
    case (Some f)
    then have "(tm_msg m, f) \<in> set dispatch_arms" by (rule map_of_SomeD)
    from arms_events [OF this] Some show ?thesis
      by (cases "f (tm_data m)") (auto simp: dispatch_def)
  qed
  then show "dispatch m \<noteq> EvReconnected" "dispatch m \<noteq> EvDisconnected" by simp_all
qed

section \<open>Properties\<close>



end
