(* ===== verification/Frame.thy ===== *)
theory Frame
  imports Dispatch Config "HOL-Library.Word"
begin

text \<open>
  \<open>src/core_client/connection.rs\<close>: the frames of the connection to the core (four bytes of length,
  most significant first, then the JSON text), how they are written and read, waiting for an
  answer under a deadline, and the handshake of the TCP transport.

  A stream is the list of the bytes that are still to be read from it before it is closed, or that
  have been written to it.  The printer and the parser of JSON texts (\<open>serde_json::to_vec\<close> and
  \<open>from_slice\<close>) are not part of the program: they are the arguments \<open>to_vec\<close> and \<open>from_slice\<close>.
\<close>

unbundle bit_operations_syntax

type_synonym byte = "8 word"
type_synonym bytes = "byte list"

definition MAX_FRAME_SIZE :: nat where
  "MAX_FRAME_SIZE = 64 * 1024 * 1024"

text \<open>The error kinds of \<open>std::io::Error\<close> that are produced, with their texts.\<close>

datatype (plugins only: code size) IoError =
    UnexpectedEof
  | InvalidData string
  | TimedOut string
  | PermissionDenied string
  | ConnectFailed

section \<open>The length prefix\<close>

definition to_be_bytes :: "32 word \<Rightarrow> bytes" where
  "to_be_bytes w = [ucast (drop_bit 24 w), ucast (drop_bit 16 w), ucast (drop_bit 8 w), ucast w]"

fun from_be_bytes :: "bytes \<Rightarrow> 32 word" where
  "from_be_bytes [a, b, c, d] =
     push_bit 24 (ucast a) OR push_bit 16 (ucast b) OR push_bit 8 (ucast c) OR ucast d"
| "from_be_bytes _ = 0"

lemma length_to_be_bytes: "length (to_be_bytes w) = 4"
  by (simp add: to_be_bytes_def)

lemma bit_from_be: 
  "bit (from_be_bytes [a, b, c, d]) n \<longleftrightarrow>
     n < 32 \<and> (if n < 8 then bit d n else if n < 16 then bit c (n - 8) else if n < 24 then bit b (n - 16) else bit a (n - 24))"
proof -
  have z: "\<not> bit (x :: 8 word) m" if "8 \<le> m" for x m
    using that by (auto dest: bit_imp_le_length)
  show ?thesis
    unfolding from_be_bytes.simps by (simp add: bit_or_iff bit_push_bit_iff bit_ucast_iff) (use z in force)
qed
lemma from_to_be_bytes: "from_be_bytes (to_be_bytes w) = w"
proof (rule bit_word_eqI)
  fix n
  assume "n < LENGTH(32)"
  then show "bit (from_be_bytes (to_be_bytes w)) n = bit w n"
    unfolding to_be_bytes_def bit_from_be by (auto simp: bit_ucast_iff bit_drop_bit_eq)
qed

lemma to_from_be_bytes:
  assumes "length bs = 4"
  shows "to_be_bytes (from_be_bytes bs) = bs"
proof -
  obtain a b c d where bs: "bs = [a, b, c, d]"
    using assms by (auto simp: length_Suc_conv numeral_eq_Suc)
  have "ucast (drop_bit 24 (from_be_bytes bs)) = a" "ucast (drop_bit 16 (from_be_bytes bs)) = b"
    "ucast (drop_bit 8 (from_be_bytes bs)) = c" "ucast (from_be_bytes bs) = d"
    unfolding bs by (rule bit_word_eqI; simp add: bit_ucast_iff bit_drop_bit_eq bit_from_be del: from_be_bytes.simps)+
  then show ?thesis by (simp add: to_be_bytes_def bs)
qed

section \<open>Reading\<close>

text \<open>\<open>read\_exact\<close>: that many bytes, or an error once the stream ends; what was read is gone either
  way.\<close>

definition read_exact :: "nat \<Rightarrow> bytes \<Rightarrow> (IoError + bytes) \<times> bytes" where
  "read_exact n s = (if n \<le> length s then (Inr (take n s), drop n s) else (Inl UnexpectedEof, []))"

text \<open>The length, its check, the text and what it says.  The texts of the errors of \<open>from_slice\<close> are
  serde's and are left out.\<close>

definition read_frame ::
  "(nat \<Rightarrow> string) \<Rightarrow> (bytes \<Rightarrow> json option) \<Rightarrow> bytes \<Rightarrow> (IoError + TcpMessage) \<times> bytes" where
  "read_frame bad from_slice s =
     (case read_exact 4 s of
        (Inl e, s) \<Rightarrow> (Inl e, s)
      | (Inr len_buf, s) \<Rightarrow>
          let len = from_be_bytes len_buf
          in if len = 0 \<or> unat len > MAX_FRAME_SIZE
             then (Inl (InvalidData (bad (unat len))), s)
             else
               (case read_exact (unat len) s of
                  (Inl e, s) \<Rightarrow> (Inl e, s)
                | (Inr payload, s) \<Rightarrow>
                    (case Option.bind (from_slice payload) dec_message of
                       None \<Rightarrow> (Inl (InvalidData []), s)
                     | Some m \<Rightarrow> (Inr m, s))))"

definition recv :: "(bytes \<Rightarrow> json option) \<Rightarrow> bytes \<Rightarrow> (IoError + TcpMessage) \<times> bytes" where
  "recv = read_frame (\<lambda>n. ''Invalid message length: '' @ show_nat n)"

lemma read_exact_append: "read_exact (length xs) (xs @ ys) = (Inr xs, ys)"
  by (simp add: read_exact_def)

lemma read_exact_SomeE:
  assumes "read_exact n s = (Inr xs, rest)"
  obtains "s = xs @ rest" "length xs = n"
  using assms that by (auto simp: read_exact_def split: if_splits)

lemma unat_length: "length p \<le> MAX_FRAME_SIZE \<Longrightarrow> unat (word_of_nat (length p) :: 32 word) = length p"
  by (simp add: MAX_FRAME_SIZE_def unat_of_nat)

definition frame :: "bytes \<Rightarrow> bytes" where
  "frame p = to_be_bytes (word_of_nat (length p)) @ p"

definition fits :: "bytes \<Rightarrow> bool" where
  "fits p \<longleftrightarrow> 0 < length p \<and> length p \<le> MAX_FRAME_SIZE"

lemma read_frame_frame:
  assumes "fits p" "Option.bind (from_slice p) dec_message = Some m"
  shows "read_frame bad from_slice (frame p @ rest) = (Inr m, rest)"
proof -
  let ?w = "word_of_nat (length p) :: 32 word"
  have u: "unat ?w = length p" using assms(1) by (simp add: fits_def unat_length)
  moreover from this have "?w \<noteq> 0" using assms(1) by (auto simp: fits_def)
  moreover have "read_exact 4 (frame p @ rest) = (Inr (to_be_bytes ?w), p @ rest)"
    using read_exact_append [of "to_be_bytes ?w" "p @ rest"] by (simp add: frame_def length_to_be_bytes)
  moreover have "read_exact (length p) (p @ rest) = (Inr p, rest)" by (rule read_exact_append)
  ultimately show ?thesis using assms
    by (simp add: read_frame_def Let_def from_to_be_bytes fits_def del: word_of_nat_eq_0_iff)
qed

lemma read_frame_OkE:
  assumes "read_frame bad from_slice s = (Inr m, rest)"
  obtains p where "s = frame p @ rest" "fits p" "Option.bind (from_slice p) dec_message = Some m"
proof -
  from assms obtain hd s1 where r1: "read_exact 4 s = (Inr hd, s1)"
    by (auto simp: read_frame_def split: prod.splits sum.splits)
  let ?n = "from_be_bytes hd"
  from assms r1 have n: "?n \<noteq> 0" "unat ?n \<le> MAX_FRAME_SIZE"
    by (auto simp: read_frame_def Let_def split: if_splits)
  from assms r1 n obtain p where r2: "read_exact (unat ?n) s1 = (Inr p, rest)"
    and m: "Option.bind (from_slice p) dec_message = Some m"
    by (auto simp: read_frame_def Let_def split: prod.splits sum.splits option.splits)
  from r1 have s: "s = hd @ s1" and hd: "length hd = 4" by (auto elim: read_exact_SomeE)
  from r2 have s1: "s1 = p @ rest" and p: "length p = unat ?n" by (auto elim: read_exact_SomeE)
  have "to_be_bytes (word_of_nat (length p)) = hd"
    using to_from_be_bytes [OF hd] by (simp add: p)
  then have "s = frame p @ rest" by (simp add: frame_def s s1)
  moreover have "fits p" using n p by (simp add: fits_def unat_gt_0)
  ultimately show ?thesis using m that by blast
qed

section \<open>Writing\<close>

text \<open>The two early failures leave the stream as it was.  The length is taken modulo \<open>2 ^ 32\<close> before
  it is checked.\<close>

definition send_payload :: "bytes \<Rightarrow> bytes \<Rightarrow> (IoError + unit) \<times> bytes" where
  "send_payload js s =
     (let len = (word_of_nat (length js) :: 32 word)
      in if len = 0 \<or> unat len > MAX_FRAME_SIZE
         then (Inl (InvalidData (''Invalid payload length: '' @ show_nat (unat len))), s)
         else (Inr (), s @ to_be_bytes len @ js))"

definition send_frame ::
  "(json \<Rightarrow> bytes) \<Rightarrow> string \<Rightarrow> json \<Rightarrow> string option \<Rightarrow> bytes \<Rightarrow> (IoError + unit) \<times> bytes" where
  "send_frame to_vec name data mid s =
     send_payload (to_vec (enc_message \<lparr>tm_msg = name, tm_data = data, tm_id = mid\<rparr>)) s"

definition send_plain :: "(json \<Rightarrow> bytes) \<Rightarrow> string \<Rightarrow> json \<Rightarrow> bytes \<Rightarrow> (IoError + unit) \<times> bytes" where
  "send_plain to_vec name data s = send_frame to_vec name data None s"

definition send_with_id ::
  "(json \<Rightarrow> bytes) \<Rightarrow> string \<Rightarrow> string \<Rightarrow> json \<Rightarrow> bytes \<Rightarrow> (IoError + unit) \<times> bytes" where
  "send_with_id to_vec i name data s = send_frame to_vec name data (Some i) s"

lemma send_payload_fits: "fits p \<Longrightarrow> send_payload p s = (Inr (), s @ frame p)"
  using unat_length [of p] by (auto simp: send_payload_def fits_def frame_def Let_def)

lemma send_payload_Ok:
  "send_payload p s = (Inr (), s') \<Longrightarrow> s' = s @ frame p"
  by (auto simp: send_payload_def frame_def Let_def split: if_splits)

text \<open>A text of \<open>2 ^ 32 + 1\<close> bytes passes the check and is announced as one byte, so the reader takes
  the rest of it for further frames.\<close>

lemma oversized_frame_accepted:
  assumes "length p = 2 ^ 32 + 1"
  shows "send_payload p s = (Inr (), s @ [0, 0, 0, 1] @ p)"
proof -
  have "(word_of_nat (length p) :: 32 word) = 1"
    unfolding assms by (simp add: word_eq_iff_unsigned unat_of_nat) 
  then show ?thesis
    by (simp add: send_payload_def MAX_FRAME_SIZE_def to_be_bytes_def)
qed

section \<open>The stream of messages\<close>

text \<open>The inner loop of the reader: messages until the first error.\<close>

function recv_all :: "(bytes \<Rightarrow> json option) \<Rightarrow> bytes \<Rightarrow> TcpMessage list \<times> IoError" where
  "recv_all from_slice s =
     (case recv from_slice s of
        (Inl e, _) \<Rightarrow> ([], e)
      | (Inr m, rest) \<Rightarrow> (let (ms, e) = recv_all from_slice rest in (m # ms, e)))"
  by pat_completeness auto

lemma recv_shrinks: "recv from_slice s = (Inr m, rest) \<Longrightarrow> length rest < length s"
  unfolding recv_def by (erule read_frame_OkE) (simp add: frame_def length_to_be_bytes)

termination recv_all
  by (relation "measure (\<lambda>(_, s). length s)") (auto dest: recv_shrinks [OF sym])

declare recv_all.simps [simp del]

definition carries :: "(json \<Rightarrow> bytes) \<Rightarrow> (bytes \<Rightarrow> json option) \<Rightarrow> TcpMessage \<Rightarrow> bool" where
  "carries to_vec from_slice m \<longleftrightarrow>
     from_slice (to_vec (enc_message m)) = Some (enc_message m) \<and> fits (to_vec (enc_message m))"

definition send_message :: "(json \<Rightarrow> bytes) \<Rightarrow> TcpMessage \<Rightarrow> bytes \<Rightarrow> bytes" where
  "send_message to_vec m s = snd (send_frame to_vec (tm_msg m) (tm_data m) (tm_id m) s)"

lemma send_message_carries:
  "carries to_vec from_slice m \<Longrightarrow> send_message to_vec m s = s @ frame (to_vec (enc_message m))"
  by (cases m) (simp add: send_message_def send_frame_def carries_def send_payload_fits)

lemma recv_carries:
  "carries to_vec from_slice m \<Longrightarrow>
   recv from_slice (frame (to_vec (enc_message m)) @ rest) = (Inr m, rest)"
  unfolding recv_def carries_def by (rule read_frame_frame) (auto simp: message_codec.dec_enc)

lemma recv_all_eof: "recv_all from_slice [] = ([], UnexpectedEof)"
proof -
  have "recv from_slice [] = (Inl UnexpectedEof, [])"
    by (simp add: recv_def read_frame_def read_exact_def)
  then show ?thesis by (simp add: recv_all.simps [of from_slice "[]"])
qed

lemma fold_send:
  "list_all (carries to_vec from_slice) ms \<Longrightarrow>
   fold (send_message to_vec) ms s = s @ concat (map (\<lambda>m. frame (to_vec (enc_message m))) ms)"
  by (induction ms arbitrary: s) (auto dest: send_message_carries)

lemma recv_all_frames:
  "list_all (carries to_vec from_slice) ms \<Longrightarrow>
   recv_all from_slice (concat (map (\<lambda>m. frame (to_vec (enc_message m))) ms)) = (ms, UnexpectedEof)"
proof (induction ms)
  case (Cons m ms)
  then show ?case
    using recv_carries [of to_vec from_slice m] by (subst recv_all.simps) simp
qed (simp add: recv_all_eof)

lemma recv_all_sound:
  "recv_all from_slice s = (ms, e) \<Longrightarrow>
   \<exists>ps rest. s = concat (map frame ps) @ rest \<and> list_all fits ps \<and>
     map (\<lambda>p. Option.bind (from_slice p) dec_message) ps = map Some ms"
proof (induction from_slice s arbitrary: ms e rule: recv_all.induct)
  case (1 from_slice s)
  show ?case
  proof (cases "recv from_slice s")
    case (Pair r rest)
    show ?thesis
    proof (cases r)
      case (Inl e')
      with 1(2) Pair show ?thesis by (auto simp: recv_all.simps intro: exI [of _ "[]"])
    next
      case (Inr m)
      obtain ms' where r: "recv_all from_slice rest = (ms', e)" and ms: "ms = m # ms'"
        using 1(2) Pair Inr by (auto simp: recv_all.simps [of from_slice s] split: prod.splits)
      obtain ps rest' where ps: "rest = concat (map frame ps) @ rest'" "list_all fits ps"
        "map (\<lambda>p. Option.bind (from_slice p) dec_message) ps = map Some ms'"
        using 1(1) [OF Pair [symmetric] Inr r] by auto
      obtain p where "s = frame p @ rest" "fits p" "Option.bind (from_slice p) dec_message = Some m"
        using Pair Inr unfolding recv_def by (auto elim: read_frame_OkE)
      with ps ms show ?thesis by (intro exI [of _ "p # ps"] exI [of _ rest']) simp
    qed
  qed
qed

section \<open>Waiting for an answer\<close>

text \<open>
  \<open>recv\_until\<close>, on the frames in the order in which they arrive, each with the time (in
  milliseconds) at which it is complete.  A frame that is complete after the deadline is not waited
  for, and one that arrives before a frame already read was read too late.
\<close>

definition wait_timed_out :: IoError where
  "wait_timed_out = TimedOut ''timed out waiting for IPC message''"

fun recv_until_from ::
  "nat \<Rightarrow> nat \<Rightarrow> (TcpMessage \<Rightarrow> bool) \<Rightarrow> (nat \<times> (IoError + TcpMessage)) list \<Rightarrow> IoError + TcpMessage" where
  "recv_until_from now deadline matches [] = Inl wait_timed_out"
| "recv_until_from now deadline matches ((t, r) # arrivals) =
     (if deadline \<le> now \<or> deadline < t then Inl wait_timed_out
      else (case r of
              Inl e \<Rightarrow> Inl e
            | Inr m \<Rightarrow> if matches m then Inr m
                       else recv_until_from (max now t) deadline matches arrivals))"

definition recv_until ::
  "nat \<Rightarrow> nat \<Rightarrow> (TcpMessage \<Rightarrow> bool) \<Rightarrow> (nat \<times> (IoError + TcpMessage)) list \<Rightarrow> IoError + TcpMessage" where
  "recv_until now timeout matches arrivals = recv_until_from now (now + timeout) matches arrivals"

lemma recv_until_from_Inr:
  "recv_until_from now deadline matches arrivals = Inr m \<Longrightarrow>
   matches m \<and> (\<exists>t\<le>deadline. (t, Inr m) \<in> set arrivals)"
proof (induction arrivals arbitrary: now)
  case (Cons a arrivals)
  obtain t r where a: "a = (t, r)" by (cases a)
  show ?case
  proof (cases r)
    case (Inr m')
    show ?thesis
      using Cons.prems Cons.IH [of "max now t"] by (auto simp: a Inr not_less split: if_splits)
  qed (use Cons.prems in \<open>auto simp: a split: if_splits\<close>)
qed simp

lemma recv_until_from_skips:
  assumes "\<forall>(t, r) \<in> set before. t < deadline \<and> (\<exists>x. r = Inr x \<and> \<not> matches x)"
    "now < deadline" "t \<le> deadline" "matches m"
  shows "recv_until_from now deadline matches (before @ (t, Inr m) # after) = Inr m"
  using assms by (induction before arbitrary: now) auto

section \<open>The handshake of the TCP transport\<close>

definition hello_message :: "string \<Rightarrow> json" where
  "hello_message token = JObj
     [(''msg'', JStr ''hello''),
      (''data'', JObj [(''token'', JStr (trim token)),
                       (''protocol_version'', JInt EXPECTED_CORE_PROTOCOL_VERSION)])]"

fun json_get :: "string \<Rightarrow> json \<Rightarrow> json option" where
  "json_get k (JObj fs) = map_of fs k"
| "json_get k _ = None"

fun as_str :: "json \<Rightarrow> string option" where
  "as_str (JStr s) = Some s"
| "as_str _ = None"

text \<open>The token is the content of the token file, or the text of the error of reading it.  The result
  is followed by what is left to read and by what has been written.\<close>

definition tcp_handshake ::
  "(json \<Rightarrow> bytes) \<Rightarrow> (bytes \<Rightarrow> json option) \<Rightarrow> string \<Rightarrow> string + string \<Rightarrow> bytes
   \<Rightarrow> (IoError + unit) \<times> bytes \<times> bytes" where
  "tcp_handshake to_vec from_slice token_path token s =
     (case token of
        Inl e \<Rightarrow> (Inl (PermissionDenied (''cannot read TCP IPC token at '' @ token_path @ '': '' @ e @
                   ''. Start whoisthat-core with tcp-enabled first.'')), s, [])
      | Inr tok \<Rightarrow>
          (case send_payload (to_vec (hello_message tok)) [] of
             (Inl _, out) \<Rightarrow> (Inl (InvalidData ''hello frame too large''), s, out)
           | (Inr _, out) \<Rightarrow>
               (case read_frame (\<lambda>_. ''invalid hello response length'') from_slice s of
                  (Inl e, s) \<Rightarrow> (Inl e, s, out)
                | (Inr m, s) \<Rightarrow>
                    (if tm_msg m = ''hello-ok'' then Inr ()
                     else if tm_msg m = ''hello-error''
                     then Inl (PermissionDenied
                       (case Option.bind (json_get ''error'' (tm_data m)) as_str of
                          Some reason \<Rightarrow> reason
                        | None \<Rightarrow> ''TCP IPC authentication failed''))
                     else Inl (InvalidData (''unexpected handshake response: '' @ tm_msg m)), s, out))))"

text \<open>\<open>dial\<close> opens the socket: what the peer will send on it, or an error.  The result is the connection:
  what is left to read and what has been written.\<close>

definition connect_endpoint ::
  "(json \<Rightarrow> bytes) \<Rightarrow> (bytes \<Rightarrow> json option) \<Rightarrow> string \<Rightarrow> string + string
   \<Rightarrow> (Endpoint \<Rightarrow> bytes option) \<Rightarrow> Endpoint \<Rightarrow> IoError + (bytes \<times> bytes)" where
  "connect_endpoint to_vec from_slice token_path token dial ep =
     (case dial ep of
        None \<Rightarrow> Inl ConnectFailed
      | Some s \<Rightarrow>
          (case ep of
             Unix _ \<Rightarrow> Inr (s, [])
           | Tcp _ _ \<Rightarrow>
               (case tcp_handshake to_vec from_slice token_path token s of
                  (Inl e, _) \<Rightarrow> Inl e
                | (Inr _, conn) \<Rightarrow> Inr conn)))"

lemma handshake_Ok:
  assumes "tcp_handshake to_vec from_slice token_path token s = (Inr (), rest, out)"
  shows "\<exists>tok p m. token = Inr tok \<and> out = frame (to_vec (hello_message tok)) \<and>
    s = frame p @ rest \<and> Option.bind (from_slice p) dec_message = Some m \<and> tm_msg m = ''hello-ok''"
proof -
  obtain tok where tok: "token = Inr tok"
    using assms by (cases token) (auto simp: tcp_handshake_def)
  obtain out' where o: "send_payload (to_vec (hello_message tok)) [] = (Inr (), out')"
    using assms tok by (cases "send_payload (to_vec (hello_message tok)) []")
      (auto simp: tcp_handshake_def split: sum.splits)
  obtain m rest' where r: "read_frame (\<lambda>_. ''invalid hello response length'') from_slice s = (Inr m, rest')"
    using assms tok o by (cases "read_frame (\<lambda>_. ''invalid hello response length'') from_slice s")
      (auto simp: tcp_handshake_def split: sum.splits)
  have "tm_msg m = ''hello-ok''" "rest' = rest" "out' = out"
    using assms tok o r by (auto simp: tcp_handshake_def split: if_splits)
  moreover obtain p where "s = frame p @ rest'" "Option.bind (from_slice p) dec_message = Some m"
    using r by (rule read_frame_OkE)
  moreover have "out' = frame (to_vec (hello_message tok))" using send_payload_Ok [OF o] by simp
  ultimately show ?thesis using tok by blast
qed

section \<open>Properties\<close>

text \<open>C2: what one side sends, the other receives: if every message has a text that the parser reads
  back and that fits in a frame, then reading the stream the writer has produced gives the messages
  in their order, none split, joined or lost, and ends at the end of the stream.\<close>

theorem frames_roundtrip:
  assumes "list_all (carries to_vec from_slice) ms"
  shows "recv_all from_slice (fold (send_message to_vec) ms []) = (ms, UnexpectedEof)"
  using assms by (simp add: fold_send recv_all_frames)

definition sample_message :: TcpMessage where
  "sample_message = \<lparr>tm_msg = ''warn'', tm_data = JObj [(''content'', JStr ''hi'')], tm_id = Some ''7''\<rparr>"

theorem frames_roundtrip_witness:
  "recv_all (\<lambda>_. Some (enc_message sample_message))
     (fold (send_message (\<lambda>_. [0x7B, 0x7D])) [sample_message, sample_message] []) =
   ([sample_message, sample_message], UnexpectedEof)"
  by (rule frames_roundtrip) (simp add: carries_def fits_def MAX_FRAME_SIZE_def)

text \<open>C9: a TCP connection is only used after the core has accepted the token: if the handshake
  succeeds, the token file was readable, exactly one frame was written, the greeting with the
  trimmed token and the protocol version, and exactly one frame was read, a \<open>hello-ok\<close>; what
  follows it on the stream is left for the reader.\<close>

theorem handshake_authenticates:
  assumes "tcp_handshake to_vec from_slice token_path token s = (Inr (), rest, out)"
  shows "\<exists>tok p m. token = Inr tok \<and> out = frame (to_vec (hello_message tok)) \<and>
    s = frame p @ rest \<and> Option.bind (from_slice p) dec_message = Some m \<and> tm_msg m = ''hello-ok''"
  using assms by (rule handshake_Ok)

definition sample_hello_ok :: TcpMessage where
  "sample_hello_ok = \<lparr>tm_msg = ''hello-ok'', tm_data = JNull, tm_id = None\<rparr>"

lemma sample_handshake:
  "tcp_handshake (\<lambda>_. [1, 2]) (\<lambda>_. Some (enc_message sample_hello_ok)) ''/t'' (Inr ''s'')
     (frame [7] @ [9]) = (Inr (), [9], frame [1, 2])"
proof -
  have "read_frame (\<lambda>_. ''invalid hello response length'') (\<lambda>_. Some (enc_message sample_hello_ok))
      (frame [7] @ [9]) = (Inr sample_hello_ok, [9])"
    by (rule read_frame_frame) (simp_all add: fits_def MAX_FRAME_SIZE_def message_codec.dec_enc)
  moreover have "send_payload [1, 2] [] = (Inr (), [] @ frame [1, 2])"
    by (rule send_payload_fits) (simp add: fits_def MAX_FRAME_SIZE_def)
  ultimately show ?thesis by (simp add: tcp_handshake_def) (simp add: sample_hello_ok_def)
qed

theorem handshake_authenticates_witness:
  "\<exists>tok p m. (Inr ''s'' :: string + string) = Inr tok \<and>
    frame [1, 2] = frame ((\<lambda>_. [1, 2]) (hello_message tok)) \<and>
    frame [7] @ [9] = frame p @ [9] \<and>
    Option.bind ((\<lambda>_. Some (enc_message sample_hello_ok)) p) dec_message = Some m \<and>
    tm_msg m = ''hello-ok''"
  by (rule handshake_authenticates [OF sample_handshake])

end
