(* ===== verification/Doctor.thy ===== *)
theory Doctor
  imports DoctorReport Host ConfigFile Codec Frame
begin

text \<open>
  \<open>src/doctor/checks/\<close>: what \<open>whoisthat doctor\<close> looks at, except name resolution and routing
  (\<open>DoctorDns\<close>).  The checks only ask: the files, the answers of commands and the talk with the daemon
  are the record \<open>DoctorEnv\<close>.
\<close>

section \<open>What is asked\<close>

record FileMeta =
  fm_len :: nat
  fm_mode :: nat
  fm_socket :: bool
  fm_char_device :: bool
  fm_age :: "nat option"

text \<open>The one-shot query of a daemon that accepts the connection: whether sending fails, the messages that
  arrive, and whether the two seconds are over before the connection ends.\<close>

record DaemonTalk =
  dt_send_err :: "string option"
  dt_msgs :: "TcpMessage list"
  dt_times_out :: bool

record DoctorEnv =
  de_host :: HostEnv
  de_lc :: "string \<Rightarrow> string"
  de_meta :: "string \<Rightarrow> string + FileMeta"
  de_read :: "string \<Rightarrow> string + string"
  de_json :: "string \<Rightarrow> string + json"
  de_dir :: "string \<Rightarrow> string list option"
  de_dirs :: DirEnv
  de_xdg :: "string option"
  de_uid :: nat
  de_version :: string
  de_daemon :: "DaemonTalk option"
  de_ipc_version :: "(string \<times> int) option"

definition ask :: "DoctorEnv \<Rightarrow> string \<Rightarrow> string list \<Rightarrow> CmdErr + CmdOut" where
  "ask env prog args = he_run (de_host env) [] (prog, args)"

definition file_there :: "DoctorEnv \<Rightarrow> string \<Rightarrow> bool" where
  "file_there env p = he_exists (de_host env) p"

definition mode_bits :: "FileMeta \<Rightarrow> nat" where
  "mode_bits m = fm_mode m mod 512"

text \<open>\<open>mode & 0o077 != 0\<close>.\<close>

definition open_to_others :: "nat \<Rightarrow> bool" where
  "open_to_others mode \<longleftrightarrow> mode mod 64 \<noteq> 0"

section \<open>Binaries\<close>

definition PINNED_XRAY_VERSION :: string where
  "PINNED_XRAY_VERSION = ''26.10.31''"

definition find_binary :: "DoctorEnv \<Rightarrow> string \<Rightarrow> string list \<Rightarrow> string option" where
  "find_binary env name candidates =
     (let s = trim (printed (ask env ''which'' [name]))
      in if succeeded (ask env ''which'' [name]) \<and> s \<noteq> [] \<and> file_there env s then Some s
         else find (\<lambda>c. file_there env c \<and> he_is_file (de_host env) c) candidates)"

text \<open>The word after \<open>Xray\<close> in the first line that has one.\<close>

fun xray_version :: "string list \<Rightarrow> string" where
  "xray_version [] = ''version unknown''"
| "xray_version (line # ls) =
     (if starts_with ''Xray '' line
      then (case split_whitespace line of _ # v # _ \<Rightarrow> v | _ \<Rightarrow> xray_version ls)
      else xray_version ls)"

definition xray_candidates :: "DoctorEnv \<Rightarrow> string list" where
  "xray_candidates env =
     (let runtime_dir = path_join (path_join (data_dir (de_dirs env)) ''runtimes'') ''xray'';
          dirs = (if file_there env runtime_dir then (case de_dir env runtime_dir of Some es \<Rightarrow> es | None \<Rightarrow> []) else [])
      in map from_utf8_lossy (filter (file_there env) (map (\<lambda>d. path_join d ''xray'') (rev (sort dirs))))
         @ (case find_binary env ''xray'' [''/usr/bin/xray'', ''/usr/local/bin/xray''] of Some b \<Rightarrow> [b] | None \<Rightarrow> []))"

text \<open>The first candidate of the pinned version, otherwise the first that works.\<close>

fun pick_xray :: "DoctorEnv \<Rightarrow> (string \<times> string) option \<Rightarrow> string list \<Rightarrow> (string \<times> string) option" where
  "pick_xray env first_working [] = first_working"
| "pick_xray env first_working (bin # bins) =
     (let out = ask env bin [''version'']
      in if succeeded out
         then (let ver = xray_version (str_lines (printed out))
               in if str_contains PINNED_XRAY_VERSION ver then Some (bin, ver)
                  else pick_xray env (case first_working of None \<Rightarrow> Some (bin, ver) | _ \<Rightarrow> first_working) bins)
         else pick_xray env first_working bins)"

definition probe_xray :: "DoctorEnv \<Rightarrow> (string \<times> string) option" where
  "probe_xray env = pick_xray env None (xray_candidates env)"

definition join_with :: "string \<Rightarrow> string list \<Rightarrow> string" where
  "join_with sep xs = (case xs of [] \<Rightarrow> [] | x # ys \<Rightarrow> x @ concat (map (\<lambda>y. sep @ y) ys))"

definition check_binaries :: "DoctorEnv \<Rightarrow> CheckCategory" where
  "check_binaries env =
     (let client = (case he_current_exe (de_host env) of Some p \<Rightarrow> from_utf8_lossy p | None \<Rightarrow> ''whoisthat'');
          core_bin = find_core_binary (de_host env);
          tools = [''ip'', ''getcap'', ''setcap'', ''pkexec''];
          found = filter (\<lambda>t. find_binary env t [] \<noteq> None) tools;
          missing = filter (\<lambda>t. find_binary env t [] = None) tools
      in category ''Binaries & Runtimes''
        [item_pass ''whoisthat'' (client @ '' (v'' @ de_version env @ '')''),
         (if file_there env core_bin then item_pass ''whoisthat-core'' core_bin
          else item_fail ''whoisthat-core'' ''daemon binary not found in PATH or standard directories''
            (Some ''sudo install -Dm755 core/core/whoisthat-core /usr/bin/whoisthat-core'')),
         (case probe_xray env of
            Some (path, ver) \<Rightarrow>
              (let m = path @ '' ('' @ ver @ '')''
               in if str_contains PINNED_XRAY_VERSION ver then item_pass ''xray-core'' m
                  else item_warn ''xray-core'' (m @ '' (recommended pinned version: v'' @ PINNED_XRAY_VERSION @ '')'')
                    (Some (''WhoisThat will auto-download pinned v'' @ PINNED_XRAY_VERSION @
                       '' into ~/.local/share/whoisthat/runtimes/xray/'')))
          | None \<Rightarrow> item_warn ''xray-core'' ''xray binary not found in PATH or managed runtimes''
              (Some (''Install 'xray' or run WhoisThat to trigger automatic download of v'' @ PINNED_XRAY_VERSION))),
         (if missing = [] then item_pass ''system tools'' (join_with '', '' found @ '' available'')
          else item_warn ''system tools'' (''missing: '' @ join_with '', '' missing)
            (Some ''Install iproute2, libcap, and polkit packages''))])"

section \<open>Capabilities and kernel\<close>

text \<open>\<open>caps\_output.split\_whitespace().last()\<close>.\<close>

definition last_word :: "string \<Rightarrow> string option" where
  "last_word s = (case rev (split_whitespace s) of [] \<Rightarrow> None | w # _ \<Rightarrow> Some w)"

definition core_caps_item :: "DoctorEnv \<Rightarrow> CheckItem" where
  "core_caps_item env =
     (let core_bin = find_core_binary (de_host env)
      in if file_there env core_bin
         then (let caps = printed (ask env ''getcap'' [core_bin])
               in if str_contains ''cap_net_admin'' caps \<and> str_contains ''cap_net_raw'' caps \<and> str_contains ''cap_setpcap'' caps
                  then item_pass ''whoisthat-core caps'' (core_bin @ '' ('' @
                         (case last_word caps of Some w \<Rightarrow> w | None \<Rightarrow> ''verified'') @ '')'')
                  else item_fail ''whoisthat-core caps'' ''missing required network capabilities for rootless TUN mode''
                         (Some (''sudo setcap cap_net_admin,cap_net_raw,cap_setpcap=+ep '' @ core_bin)))
         else item_fail ''whoisthat-core caps''
                ''cannot check capabilities because whoisthat-core binary was not found'' None)"

definition tun_device_item :: "DoctorEnv \<Rightarrow> CheckItem" where
  "tun_device_item env =
     (if file_there env ''/dev/net/tun''
      then (case de_meta env ''/dev/net/tun'' of
              Inr m \<Rightarrow>
                if fm_char_device m
                then item_pass ''/dev/net/tun'' (''available (char device, mode '' @ octal4 (mode_bits m) @ '')'')
                else item_fail ''/dev/net/tun'' ''exists but is not a character device''
                       (Some ''Ensure the 'tun' kernel module is loaded: sudo modprobe tun'')
            | Inl e \<Rightarrow> item_fail ''/dev/net/tun'' (''cannot read metadata: '' @ e) None)
      else item_fail ''/dev/net/tun'' ''virtual device /dev/net/tun not found''
             (Some ''Load tun kernel module: sudo modprobe tun''))"

definition ran :: "(CmdErr + CmdOut) \<Rightarrow> bool" where
  "ran r = (case r of Inr _ \<Rightarrow> True | Inl _ \<Rightarrow> False)"

definition check_capabilities :: "DoctorEnv \<Rightarrow> CheckCategory" where
  "check_capabilities env =
     category ''Linux Capabilities & Kernel''
       [core_caps_item env, tun_device_item env,
        (if ran (ask env ''nft'' [''--version'']) then item_pass ''firewall backend'' ''nftables active (recommended)''
         else if ran (ask env ''iptables'' [''--version'']) then item_pass ''firewall backend'' ''iptables legacy mode''
         else item_fail ''firewall backend''
                (''neither nftables nor iptables found '' @ dash @ '' TUN routing & killswitch will fail'')
                (Some ''Install 'nftables' or 'iptables' from package manager'')),
        (if file_there env ''/sys/fs/cgroup/cgroup.controllers''
         then item_pass ''cgroup v2'' (''available '' @ dash @ '' split-tunneling supported'')
         else item_warn ''cgroup v2''
                (''/sys/fs/cgroup/cgroup.controllers not found '' @ dash @ '' system may use legacy cgroup v1'')
                (Some ''Split-tunneling ('whoisthat run') requires unified cgroup v2 hierarchy''))]"

section \<open>Polkit\<close>

definition check_polkit :: "DoctorEnv \<Rightarrow> CheckCategory" where
  "check_polkit env =
     (let user = host_user (de_host env)
      in category ''Polkit & Permissions''
        ([(if trim (printed (ask env ''systemctl'' [''is-active'', ''polkit.service''])) = ''active''
           then item_pass ''polkit daemon'' ''active (polkit.service)''
           else item_warn ''polkit daemon'' ''polkit.service is not active''
                  (Some ''Start polkit daemon: sudo systemctl start polkit'')),
          (case find_binary env ''pkexec'' [''/usr/bin/pkexec''] of
             Some path \<Rightarrow> item_pass ''pkexec'' path
           | None \<Rightarrow> item_warn ''pkexec'' ''pkexec binary not found''
               (Some ''Install 'polkit' package to allow graphical/prompt capability setup''))]
         @ (if user = [] then []
            else if str_contains ''Linger=yes'' (printed (ask env ''loginctl'' [''show-user'', user, ''--property=Linger'']))
            then [item_pass ''systemd linger'' (''enabled for user '' @ CHR 0x27 # user @ [CHR 0x27])]
            else [item_info ''systemd linger'' (''disabled for user '' @ CHR 0x27 # user @ CHR 0x27 #
                    '' (enable with: loginctl enable-linger '' @ user @ '' to start VPN on boot)'')])))"

section \<open>The daemon\<close>

fun first_state :: "TcpMessage list \<Rightarrow> ApplicationState option" where
  "first_state [] = None"
| "first_state (m # ms) =
     (if tm_msg m = ''application-state''
      then (case dec_app_state (tm_data m) of Some st \<Rightarrow> Some st | None \<Rightarrow> first_state ms)
      else first_state ms)"

definition query_daemon :: "DaemonTalk \<Rightarrow> string + ApplicationState" where
  "query_daemon t =
     (case dt_send_err t of
        Some e \<Rightarrow> Inl e
      | None \<Rightarrow>
          (case first_state (dt_msgs t) of
             Some st \<Rightarrow> Inr st
           | None \<Rightarrow> Inl (if dt_times_out t then ''deadline has elapsed'' else ''state message not received'')))"

definition runtime_dir_item :: "DoctorEnv \<Rightarrow> CheckItem" where
  "runtime_dir_item env =
     (case he_var (de_host env) ''XDG_RUNTIME_DIR'' of
        Some dir \<Rightarrow>
          if file_there env dir then item_pass ''XDG_RUNTIME_DIR'' dir
          else item_warn ''XDG_RUNTIME_DIR'' (''directory does not exist: '' @ dir) None
      | None \<Rightarrow> item_warn ''XDG_RUNTIME_DIR'' ''env variable not set, using fallback /tmp/whoisthat-<uid>'' None)"

definition socket_item :: "DoctorEnv \<Rightarrow> Endpoint \<Rightarrow> CheckItem" where
  "socket_item env ep =
     (case ep of
        Tcp host port \<Rightarrow> item_info ''IPC transport'' (''TCP mode configured on '' @ host @ '':'' @ show_nat port)
      | Unix sock \<Rightarrow>
          if \<not> file_there env sock
          then item_info ''IPC socket'' (sock @ '' (not created '' @ dash @ '' daemon is offline)'')
          else
            (case de_meta env sock of
               Inl _ \<Rightarrow> item_pass ''IPC socket'' sock
             | Inr m \<Rightarrow>
                 if \<not> fm_socket m
                 then item_fail ''IPC socket'' (sock @ '' exists but is not a unix domain socket'') (Some (''rm -f '' @ sock))
                 else if mode_bits m = 384 then item_pass ''IPC socket'' (sock @ '' (mode 0600, secure)'')
                 else item_warn ''IPC socket'' (sock @ '' (mode '' @ octal4 (mode_bits m) @ '', expected 0600)'')
                        (Some (''chmod 0600 '' @ sock))))"

definition daemon_item :: "DoctorEnv \<Rightarrow> CheckItem" where
  "daemon_item env =
     (case de_daemon env of
        None \<Rightarrow> item_info ''daemon connection''
          ''core is not running (start with 'whoisthat' or 'systemctl --user start whoisthat-core')''
      | Some t \<Rightarrow>
          (case query_daemon t of
             Inl e \<Rightarrow> item_warn ''daemon connection'' (''connected but state query failed: '' @ e) None
           | Inr st \<Rightarrow>
               item_pass ''daemon connection''
                 (''active & responsive (VPN: '' @ ps_connection (as_connection_status st) @ '', '' @
                  (if as_tun_status st then ''TUN active'' else ''Proxy mode'') @ '', profile: '' @
                  (case ps_profile (as_connection_status st) of
                     None \<Rightarrow> ''none''
                   | Some p \<Rightarrow> ''profile #'' @ show_int (p_id p) @ '' ('' @ p_name p @ '')'') @ '')'')))"

definition systemctl_word :: "DoctorEnv \<Rightarrow> string \<Rightarrow> string" where
  "systemctl_word env q =
     (case ask env ''systemctl'' [''--user'', q, ''whoisthat-core.service''] of
        Inl _ \<Rightarrow> ''unknown'' | Inr out \<Rightarrow> trim (from_utf8_lossy (co_stdout out)))"

definition check_ipc_and_daemon :: "DoctorEnv \<Rightarrow> AppConfig \<Rightarrow> CheckCategory" where
  "check_ipc_and_daemon env cfg =
     category ''IPC & Daemon''
       [runtime_dir_item env, socket_item env (endpoint (de_xdg env) (de_uid env) cfg), daemon_item env,
        item_info ''systemd user service'' (''whoisthat-core.service (status: '' @ systemctl_word env ''is-active''
          @ '', autostart: '' @ systemctl_word env ''is-enabled'' @ '')'')]"

section \<open>Configuration and storage\<close>

fun as_i64 :: "json \<Rightarrow> int option" where
  "as_i64 (JInt i) = (if - (2 ^ 63) \<le> i \<and> i < 2 ^ 63 then Some i else None)"
| "as_i64 _ = None"

definition port_of :: "string \<Rightarrow> json \<Rightarrow> int" where
  "port_of key v = (case Option.bind (json_get key v) as_i64 of Some i \<Rightarrow> i | None \<Rightarrow> 0)"

definition core_config_item :: "DoctorEnv \<Rightarrow> CheckItem" where
  "core_config_item env =
     (let path = path_join (config_dir (de_dirs env)) ''config.json''
      in if \<not> file_there env path then item_info ''core config'' (path @ '' (auto-generated on core startup)'')
         else
           (case de_read env path of
              Inl e \<Rightarrow> item_warn ''core config'' (''cannot read '' @ path @ '': '' @ e) None
            | Inr text \<Rightarrow>
                (case de_json env text of
                   Inl e \<Rightarrow> item_warn ''core config'' (''invalid JSON: '' @ e)
                     (Some ''Core will recreate default config on startup'')
                 | Inr v \<Rightarrow> item_pass ''core config'' (path @ '' (SOCKS: '' @ show_int (port_of ''socks-port'' v)
                     @ '', HTTP: '' @ show_int (port_of ''http-port'' v) @ '')''))))"

definition encrypted_db_item :: "DoctorEnv \<Rightarrow> CheckItem" where
  "encrypted_db_item env =
     (let db_dir = path_join (data_dir (de_dirs env)) ''db'';
          new_key = path_join (config_dir (de_dirs env)) ''db.key'';
          key_file = (if file_there env new_key then new_key else path_join db_dir ''.key'')
      in if \<not> file_there env db_dir
         then item_info ''encrypted db'' (db_dir @ '' (will be created on first profile/group add)'')
         else if \<not> file_there env key_file
         then item_warn ''encrypted db'' (db_dir @ '' exists but the encryption key is missing'')
                (Some ''Core will generate a new AES key on startup'')
         else
           (let size = (case de_meta env key_file of Inr m \<Rightarrow> fm_len m | Inl _ \<Rightarrow> 0);
                mode = (case de_meta env key_file of Inr m \<Rightarrow> mode_bits m | Inl _ \<Rightarrow> 0)
            in if size \<noteq> 32
               then item_warn ''encrypted db'' (''key file '' @ key_file @ '' is '' @ show_nat size @ '' bytes (expected 32 bytes)'')
                      (Some ''Restore the key from a backup; do not delete it while encrypted data exists'')
               else if open_to_others mode
               then item_warn ''encrypted db'' (''key file '' @ key_file @ '' has mode '' @ show_octal mode @ '' (expected 0600)'')
                      (Some (''chmod 600 '' @ key_file))
               else item_pass ''encrypted db'' (db_dir @ '' (AES-256-GCM key present at '' @ key_file @ '')'')))"

definition geo_dirs :: "DoctorEnv \<Rightarrow> string list" where
  "geo_dirs env =
     [path_join (config_dir (de_dirs env)) ''geo'']
     @ (case de_dir env (path_join (path_join (data_dir (de_dirs env)) ''runtimes'') ''xray'') of Some es \<Rightarrow> es | None \<Rightarrow> [])
     @ [''/usr/share/xray'', ''/usr/local/share/xray'']"

definition find_geo_assets :: "DoctorEnv \<Rightarrow> (string \<times> string) option" where
  "find_geo_assets env =
     map_option (\<lambda>d. (path_join d ''geoip.dat'', path_join d ''geosite.dat''))
       (find (\<lambda>d. file_there env (path_join d ''geoip.dat'') \<and> file_there env (path_join d ''geosite.dat'')) (geo_dirs env))"

definition file_len :: "DoctorEnv \<Rightarrow> string \<Rightarrow> nat" where
  "file_len env p = (case de_meta env p of Inr m \<Rightarrow> fm_len m | Inl _ \<Rightarrow> 0)"

definition geo_item :: "DoctorEnv \<Rightarrow> CheckItem" where
  "geo_item env =
     (case find_geo_assets env of
        None \<Rightarrow> item_info ''geo assets'' ''not downloaded yet (auto-downloaded from v2fly on first xray startup)''
      | Some (ip, site) \<Rightarrow>
          (if file_len env ip \<ge> 10 * 1024 * 1024
           then item_pass ''geo assets'' (''geoip.dat ('' @ one_decimal (file_len env ip) 1048576 @
                  '' MB), geosite.dat ('' @ one_decimal (file_len env site) 1048576 @ '' MB)'')
           else item_warn ''geo assets'' (''geoip.dat ('' @ one_decimal (file_len env ip) 1048576 @
                  '' MB is under 10MB) '' @ dash @ '' may trigger re-download'') None))"

definition check_config_and_storage :: "DoctorEnv \<Rightarrow> AppConfig \<Rightarrow> CheckCategory" where
  "check_config_and_storage env cfg =
     category ''Configuration & Storage''
       [(if file_there env (config_path (de_dirs env))
         then item_pass ''TUI config'' (config_path (de_dirs env) @ '' (theme: '' @ c_theme cfg @ '', test: '' @ c_test_method cfg @ '')'')
         else item_info ''TUI config'' (config_path (de_dirs env) @ '' (using defaults, created on first save)'')),
        core_config_item env, encrypted_db_item env, geo_item env]"

section \<open>Logs\<close>

definition recent_errors :: "string option \<Rightarrow> string list" where
  "recent_errors content =
     (case content of
        None \<Rightarrow> []
      | Some c \<Rightarrow>
          (let errors = map (\<lambda>l. truncate_text l 160)
                 (filter (\<lambda>l. ll_level (LogFmt.parse l) = Some Error) (fst (read_tail c (256 * 1024))))
           in drop (length errors - 5) errors))"

definition recent_errors_item :: "string \<Rightarrow> string option \<Rightarrow> CheckItem" where
  "recent_errors_item label content =
     (let errors = recent_errors content; name = label @ '' recent errors''
      in if errors = [] then item_pass name ''no error/fatal lines in the last 256 KiB''
         else item_warn name (join_with '' | '' errors)
                (Some (''whoisthat logs --source '' @ label @ '' --level error'')))"

text \<open>The log files themselves are on the disk of \<open>LogFile\<close>; their metadata come from \<open>de\_meta\<close>.\<close>

definition log_rotation_item :: "DoctorEnv \<Rightarrow> Disk \<Rightarrow> string \<Rightarrow> string \<Rightarrow> CheckItem" where
  "log_rotation_item env d label path =
     (if label = ''core''
      then (let backups = rotated_backups path d
            in if backups = [] then item_pass ''core log backups'' ''none''
               else item_info ''core log backups'' (show_nat (length backups) @ '' file(s), '' @
                      human_bytes (sum_list (map (file_len env) backups))))
      else (let backup = backup_path path
            in case de_meta env backup of
                 Inr m \<Rightarrow> item_info ''tui log backup'' (backup @ '' ('' @ human_bytes (fm_len m) @ '', mode '' @
                    octal4 (mode_bits m) @ '')'')
               | Inl _ \<Rightarrow> item_pass ''tui log backup'' ''none''))"

definition log_content :: "Disk \<Rightarrow> string \<Rightarrow> string option" where
  "log_content d path =
     (case dk_fail d OpenRead path of Some _ \<Rightarrow> None | None \<Rightarrow> map_option fi_content (lookup_file d path))"

definition log_items :: "DoctorEnv \<Rightarrow> Disk \<Rightarrow> string \<Rightarrow> string list \<Rightarrow> CheckItem list" where
  "log_items env d label paths =
     (let path = (case find (file_there env) paths of Some p \<Rightarrow> p | None \<Rightarrow> hd paths)
      in case de_meta env path of
           Inl _ \<Rightarrow> [item_info (label @ '' log'') (path @ '' (not created yet)'')]
         | Inr m \<Rightarrow>
             (let text = path @ '' ('' @ human_bytes (fm_len m) @ '', mode '' @ octal4 (mode_bits m) @
                    '', modified '' @ age_label (fm_age m) @ '')''
              in [(if open_to_others (mode_bits m)
                   then item_warn (label @ '' log'') text (Some (''chmod 600 '' @ path))
                   else item_pass (label @ '' log'') text),
                  log_rotation_item env d label path, recent_errors_item label (log_content d path)]))"

definition crash_items :: "DoctorEnv \<Rightarrow> CheckItem list" where
  "crash_items env =
     (let crash = path_join (data_dir (de_dirs env)) ''core-crash.log''
      in (case de_meta env crash of
            Inr m \<Rightarrow>
              if fm_len m > 0
              then item_warn ''core crash log'' (crash @ '' ('' @ human_bytes (fm_len m) @ '', mode '' @ octal4 (mode_bits m) @
                     '') '' @ dash @ '' a previous crash was recorded'')
                     (Some ''inspect it, then clear with: whoisthat logs clear --source core --yes'')
              else item_pass ''core crash log'' (crash @ '' (empty)'')
          | Inl _ \<Rightarrow> item_info ''core crash log'' (crash @ '' (not created)''))
         # (case de_meta env (backup_path crash) of
              Inr m \<Rightarrow> [item_info ''core crash backup'' (backup_path crash @ '' ('' @ human_bytes (fm_len m) @ '')'')]
            | Inl _ \<Rightarrow> []))"

definition check_logs :: "DoctorEnv \<Rightarrow> Disk \<Rightarrow> CheckCategory" where
  "check_logs env d =
     category ''Logs''
       (log_items env d ''core'' (core_log_paths (de_dirs env)) @ log_items env d ''tui'' (tui_log_paths (de_dirs env)) @ crash_items env)"

end
