(* ===== verification/IpAddr.thy ===== *)
theory IpAddr
  imports Prelude "HOL-Library.Word"
begin

text \<open>
  The address parser of Rust's standard library (\<open>core::net::parser\<close>), with which
  \<open>src/doctor/checks/dns.rs\<close> and \<open>src/net\_info.rs\<close> read addresses, and the test of
  \<open>src/doctor/checks/dns.rs\<close> whether an address is in a network.  A reader takes the text and gives the
  value and the rest, or nothing, in which case the text is untouched.
\<close>

unbundle bit_operations_syntax

section \<open>Numbers\<close>

definition radix_digit :: "nat \<Rightarrow> char \<Rightarrow> nat option" where
  "radix_digit radix c =
     (let n = (of_char c :: nat);
          d = (if 48 \<le> n \<and> n \<le> 57 then Some (n - 48)
               else if 97 \<le> n \<and> n \<le> 122 then Some (n - 87)
               else if 65 \<le> n \<and> n \<le> 90 then Some (n - 55) else None)
      in case d of Some v \<Rightarrow> if v < radix then Some v else None | None \<Rightarrow> None)"

text \<open>All digits are read; too many of them, a value above the type's largest, or a leading zero where it is
  not allowed are failures.\<close>

definition read_number :: "nat \<Rightarrow> nat \<Rightarrow> bool \<Rightarrow> nat \<Rightarrow> string \<Rightarrow> (nat \<times> string) option" where
  "read_number radix max_digits zero_prefix max_value s =
     (let ds = takeWhile (\<lambda>c. radix_digit radix c \<noteq> None) s;
          v = foldl (\<lambda>v c. v * radix + the (radix_digit radix c)) 0 ds
      in if ds = [] \<or> length ds > max_digits \<or> v > max_value \<or>
            \<not> zero_prefix \<and> hd ds = CHR ''0'' \<and> length ds > 1
         then None else Some (v, drop (length ds) s))"

definition read_char :: "char \<Rightarrow> string \<Rightarrow> string option" where
  "read_char c s = (case s of d # r \<Rightarrow> if d = c then Some r else None | [] \<Rightarrow> None)"

text \<open>\<open>read\_separator\<close>: the separator before every element but the first.\<close>

definition read_separator :: "char \<Rightarrow> nat \<Rightarrow> (string \<Rightarrow> ('a \<times> string) option) \<Rightarrow> string \<Rightarrow> ('a \<times> string) option" where
  "read_separator sep i inner s =
     (if i > 0 then (case read_char sep s of None \<Rightarrow> None | Some r \<Rightarrow> inner r) else inner s)"

section \<open>Addresses\<close>

definition read_octet :: "nat \<Rightarrow> string \<Rightarrow> (nat \<times> string) option" where
  "read_octet i = read_separator (CHR ''.'') i (read_number 10 3 False 255)"

fun read_octets :: "nat list \<Rightarrow> string \<Rightarrow> (nat list \<times> string) option" where
  "read_octets [] s = Some ([], s)"
| "read_octets (i # is) s =
     (case read_octet i s of
        None \<Rightarrow> None
      | Some (v, s) \<Rightarrow> map_option (\<lambda>(vs, s). (v # vs, s)) (read_octets is s))"

definition read_ipv4 :: "string \<Rightarrow> (nat list \<times> string) option" where
  "read_ipv4 s = read_octets [0, 1, 2, 3] s"

definition ipv4_word :: "nat list \<Rightarrow> 32 word" where
  "ipv4_word os = foldl (\<lambda>w v. push_bit 8 w OR word_of_nat v) 0 os"

definition parse_ipv4 :: "string \<Rightarrow> 32 word option" where
  "parse_ipv4 s =
     (if length s > 15 then None
      else (case read_ipv4 s of Some (os, []) \<Rightarrow> Some (ipv4_word os) | _ \<Rightarrow> None))"

text \<open>\<open>read\_groups\<close>: up to \<open>limit\<close> groups of 16 bits, the last two of which may be written as an IPv4
  address; \<open>n\<close> counts the groups that are left.\<close>

fun read_groups :: "nat \<Rightarrow> nat \<Rightarrow> string \<Rightarrow> nat list \<times> bool \<times> string" where
  "read_groups 0 i s = ([], False, s)"
| "read_groups (Suc n) i s =
     (case (if n > 0 then read_separator (CHR '':'') i read_ipv4 s else None) of
        Some (os, s) \<Rightarrow> ([os ! 0 * 256 + os ! 1, os ! 2 * 256 + os ! 3], True, s)
      | None \<Rightarrow>
          (case read_separator (CHR '':'') i (read_number 16 4 True 65535) s of
             Some (g, s) \<Rightarrow> (case read_groups n (i + 1) s of (gs, v4, s) \<Rightarrow> (g # gs, v4, s))
           | None \<Rightarrow> ([], False, s)))"

definition read_ipv6 :: "string \<Rightarrow> (nat list \<times> string) option" where
  "read_ipv6 s =
     (case read_groups 8 0 s of (front, v4, s) \<Rightarrow>
        if length front = 8 then Some (front, s)
        else if v4 then None
        else
          (case read_char (CHR '':'') s of
             None \<Rightarrow> None
           | Some s \<Rightarrow>
               (case read_char (CHR '':'') s of
                  None \<Rightarrow> None
                | Some s \<Rightarrow>
                    (case read_groups (7 - length front) 0 s of (back, _, s) \<Rightarrow>
                       Some (front @ replicate (8 - length front - length back) 0 @ back, s)))))"

definition ipv6_word :: "nat list \<Rightarrow> 128 word" where
  "ipv6_word gs = foldl (\<lambda>w v. push_bit 16 w OR word_of_nat v) 0 gs"

definition parse_ipv6 :: "string \<Rightarrow> 128 word option" where
  "parse_ipv6 s = (case read_ipv6 s of Some (gs, []) \<Rightarrow> Some (ipv6_word gs) | _ \<Rightarrow> None)"

section \<open>Networks\<close>

definition ipv4_in_cidr :: "32 word \<Rightarrow> 32 word \<Rightarrow> nat \<Rightarrow> bool" where
  "ipv4_in_cidr ip network prefix \<longleftrightarrow>
     (let mask = (if prefix = 0 then 0 else push_bit (32 - prefix) (- 1 :: 32 word)) in ip AND mask = network AND mask)"

definition ipv6_in_cidr :: "128 word \<Rightarrow> 128 word \<Rightarrow> nat \<Rightarrow> bool" where
  "ipv6_in_cidr ip network prefix \<longleftrightarrow>
     (let mask = (if prefix = 0 then 0 else push_bit (128 - prefix) (- 1 :: 128 word)) in ip AND mask = network AND mask)"

text \<open>Masking keeps the leading bits: being in a network is having the network's quotient.\<close>

lemma high_bits_eq:
  fixes a b :: "'a::len word"
  assumes "k \<le> LENGTH('a)"
  shows "a AND push_bit k (- 1) = b AND push_bit k (- 1) \<longleftrightarrow> drop_bit k a = drop_bit k b"
proof
  assume l: "a AND push_bit k (- 1) = b AND push_bit k (- 1)"
  have "drop_bit k (x AND push_bit k (- 1)) = drop_bit k x" for x :: "'a word"
    by (rule bit_word_eqI) (auto simp: bit_simps dest: bit_imp_le_length)
  then show "drop_bit k a = drop_bit k b" using l by metis
next
  assume "drop_bit k a = drop_bit k b"
  then have "bit (drop_bit k a) n = bit (drop_bit k b) n" for n by simp
  then have "bit a (k + n) = bit b (k + n)" for n by (simp add: bit_simps)
  then have eq: "bit a n = bit b n" if "k \<le> n" for n using that by (metis le_add_diff_inverse)
  show "a AND push_bit k (- 1) = b AND push_bit k (- 1)"
    by (intro bit_word_eqI) (auto simp: bit_simps eq)
qed

lemma high_bits_unat:
  fixes a b :: "'a::len word"
  assumes "k \<le> LENGTH('a)"
  shows "a AND push_bit k (- 1) = b AND push_bit k (- 1) \<longleftrightarrow> unat a div 2 ^ k = unat b div 2 ^ k"
proof -
  have "unat (drop_bit k x) = unat x div 2 ^ k" for x :: "'a word"
    by (simp only: unat_drop_bit_eq) (simp add: drop_bit_eq_div)
  then show ?thesis using high_bits_eq [OF assms, of a b] by (metis unsigned_word_eqI)
qed

lemma ipv4_in_cidr_div:
  assumes "0 < prefix" "prefix \<le> 32"
  shows "ipv4_in_cidr ip network prefix \<longleftrightarrow> unat ip div 2 ^ (32 - prefix) = unat network div 2 ^ (32 - prefix)"
  unfolding ipv4_in_cidr_def Let_def using assms high_bits_unat [of "32 - prefix" ip network] by simp

lemma ipv6_in_cidr_div:
  assumes "0 < prefix" "prefix \<le> 128"
  shows "ipv6_in_cidr ip network prefix \<longleftrightarrow> unat ip div 2 ^ (128 - prefix) = unat network div 2 ^ (128 - prefix)"
  unfolding ipv6_in_cidr_def Let_def using assms high_bits_unat [of "128 - prefix" ip network] by simp

end
