(* ===== verification/DoctorDns.thy ===== *)
theory DoctorDns
  imports Doctor IpAddr
begin

text \<open>
  \<open>src/doctor/checks/dns.rs\<close>: name resolution, the kill switch and the routes as the firewall and \<open>ip\<close>
  show them, and \<open>src/doctor/checks/mod.rs\<close>: the whole report.
\<close>

section \<open>Reading what the tools print\<close>

definition DNS_SINK4 :: string where "DNS_SINK4 = ''198.18.0.53''"
definition DNS_SINK6 :: string where "DNS_SINK6 = ''fd00::53''"
definition FAKE_POOL4 :: string where "FAKE_POOL4 = ''198.19.0.0/16''"
definition FAKE_POOL6 :: string where "FAKE_POOL6 = ''fc00::/18''"

definition has_mark1_policy_rule :: "string \<Rightarrow> bool" where
  "has_mark1_policy_rule rules \<longleftrightarrow>
     list_ex (\<lambda>l. str_contains ''fwmark 0x1'' l \<and> (str_contains ''lookup 100'' l \<or> str_contains ''table 100'' l))
       (str_lines rules)"

definition has_default_route :: "string \<Rightarrow> bool" where
  "has_default_route routes \<longleftrightarrow> list_ex (\<lambda>l. starts_with ''default '' (trim_start l)) (str_lines routes)"

datatype DnsMode = Happ | LegacyMode

definition dns_mode_from_rules :: "string \<Rightarrow> DnsMode option" where
  "dns_mode_from_rules text =
     (if str_contains DNS_SINK4 text \<or> str_contains DNS_SINK6 text then Some Happ
      else if str_contains ''dnat to'' text \<or> str_contains ''DNAT --to-destination'' text then Some LegacyMode
      else None)"

definition has_mark_return :: "(string \<Rightarrow> string) \<Rightarrow> string \<Rightarrow> bool" where
  "has_mark_return lc text \<longleftrightarrow>
     (let lower = lc text
      in str_contains ''meta mark 0x00000001 return'' lower \<or> str_contains ''mark 1 return'' lower \<or>
         str_contains ''--mark 0x1 -j return'' lower \<or> str_contains ''--mark 1 -j return'' lower)"

definition has_sink_return :: "(string \<Rightarrow> string) \<Rightarrow> string \<Rightarrow> bool" where
  "has_sink_return lc text \<longleftrightarrow>
     (let lower = lc text
      in str_contains (''daddr '' @ DNS_SINK4 @ '' return'') lower \<or> str_contains (''daddr '' @ DNS_SINK6 @ '' return'') lower \<or>
         str_contains (''-d '' @ DNS_SINK4 @ ''/32 -j return'') lower \<or> str_contains (''-d '' @ DNS_SINK6 @ ''/128 -j return'') lower \<or>
         str_contains (''-d '' @ DNS_SINK4 @ '' -j return'') lower \<or> str_contains (''-d '' @ DNS_SINK6 @ '' -j return'') lower)"

definition sink_assigned :: "string \<Rightarrow> bool" where
  "sink_assigned ip_output \<longleftrightarrow>
     list_ex (\<lambda>l. str_contains (''inet '' @ DNS_SINK4 @ ''/'') l \<or> str_contains (''inet6 '' @ DNS_SINK6 @ ''/'') l)
       (str_lines ip_output)"

definition POOL4 :: "32 word" where "POOL4 = ipv4_word [198, 19, 0, 0]"
definition POOL6 :: "128 word" where "POOL6 = ipv6_word [0xfc00, 0, 0, 0, 0, 0, 0, 0]"

text \<open>One address as it stands after \<open>inet\<close> or \<open>inet6\<close>.\<close>

definition cidr_pool :: "bool \<Rightarrow> string \<Rightarrow> string option" where
  "cidr_pool v6 cidr =
     (case split_once (CHR ''/'') cidr of
        None \<Rightarrow> None
      | Some (a, _) \<Rightarrow>
          if v6
          then (case parse_ipv6 a of Some ip \<Rightarrow> if ipv6_in_cidr ip POOL6 18 then Some FAKE_POOL6 else None | None \<Rightarrow> None)
          else (case parse_ipv4 a of Some ip \<Rightarrow> if ipv4_in_cidr ip POOL4 16 then Some FAKE_POOL4 else None | None \<Rightarrow> None))"

text \<open>The loop over the words of a line: the word after \<open>inet\<close> is consumed whatever it is.\<close>

fun line_pool :: "string list \<Rightarrow> string option" where
  "line_pool [] = None"
| "line_pool [kind] = None"
| "line_pool (kind # cidr # ws) =
     (if kind = ''inet'' \<or> kind = ''inet6''
      then (case cidr_pool (kind = ''inet6'') cidr of Some p \<Rightarrow> Some p | None \<Rightarrow> line_pool ws)
      else line_pool (cidr # ws))"

fun lines_pool :: "string list \<Rightarrow> string option" where
  "lines_pool [] = None"
| "lines_pool (l # ls) = (case line_pool (split_whitespace l) of Some p \<Rightarrow> Some p | None \<Rightarrow> lines_pool ls)"

definition fake_pool_overlap :: "string \<Rightarrow> string option" where
  "fake_pool_overlap ip_output = lines_pool (str_lines ip_output)"

section \<open>Probes\<close>

datatype KillSwitchProbe = KsPresent string | KsAbsent | KsPermissionDenied | KsUnavailable | KsFailed string

text \<open>What one call of \<open>iptables\<close> or \<open>ip6tables\<close> adds to whether a backend was seen, the rules and the failures;
  \<open>None\<close> ends the probe with a denied permission.\<close>

fun ks_table :: "DoctorEnv \<Rightarrow> string \<Rightarrow> bool \<times> string \<times> string list \<Rightarrow> (bool \<times> string \<times> string list) option" where
  "ks_table env bin (saw, text, failures) =
     (case ask env bin [''-S'', ''WHOISTHAT_KS''] of
        Inr out \<Rightarrow>
          if co_ok out then Some (True, text @ from_utf8_lossy (co_stdout out), failures)
          else if permission_denied (de_lc env) (co_stderr out) then None
          else Some (True, text, failures)
      | Inl MissingCmd \<Rightarrow> Some (saw, text, failures)
      | Inl e \<Rightarrow> Some (saw, text, failures @ [bin @ '': '' @ cmd_err e]))"

definition ks_result :: "bool \<times> string \<times> string list \<Rightarrow> KillSwitchProbe" where
  "ks_result r =
     (case r of (saw, text, failures) \<Rightarrow>
        if text \<noteq> [] then KsPresent text
        else if failures \<noteq> [] then KsFailed (join_with ''; '' failures)
        else if \<not> saw then KsUnavailable else KsAbsent)"

definition ks_tables :: "DoctorEnv \<Rightarrow> bool \<times> string \<times> string list \<Rightarrow> KillSwitchProbe" where
  "ks_tables env r =
     (case ks_table env ''iptables'' r of
        None \<Rightarrow> KsPermissionDenied
      | Some r \<Rightarrow>
          (case ks_table env ''ip6tables'' r of None \<Rightarrow> KsPermissionDenied | Some r \<Rightarrow> ks_result r))"

definition probe_kill_switch :: "DoctorEnv \<Rightarrow> KillSwitchProbe" where
  "probe_kill_switch env =
     (case ask env ''nft'' [''list'', ''table'', ''inet'', ''whoisthat_ks''] of
        Inr out \<Rightarrow>
          if co_ok out then KsPresent (from_utf8_lossy (co_stdout out))
          else if permission_denied (de_lc env) (co_stderr out) then KsPermissionDenied
          else
            (let stderr = from_utf8_lossy (co_stderr out)
             in ks_tables env (True, [], if str_contains ''No such file or directory'' stderr then []
                                         else [''nft: '' @ trim stderr]))
      | Inl MissingCmd \<Rightarrow> ks_tables env (False, [], [])
      | Inl e \<Rightarrow> ks_tables env (False, [], [''nft: '' @ cmd_err e]))"

datatype DnsRules = HappRules string bool | LegacyRules | NoRules | DnsPermissionDenied | DnsUnavailable

text \<open>The two families one after the other: the rules that could be read, whether any and whether those of
  IPv6 could, and whether a permission was denied.\<close>

fun dns_family :: "DoctorEnv \<Rightarrow> string \<times> string list \<times> bool \<Rightarrow> string \<times> bool \<times> bool \<times> bool \<Rightarrow> string \<times> bool \<times> bool \<times> bool" where
  "dns_family env (prog, args, is_v6) (text, got, ipv6, denied) =
     (case ask env prog args of
        Inr out \<Rightarrow>
          if co_ok out then (text @ from_utf8_lossy (co_stdout out), True, ipv6 \<or> is_v6, denied)
          else (text, got, ipv6, denied \<or> permission_denied (de_lc env) (co_stderr out))
      | Inl _ \<Rightarrow> (text, got, ipv6, denied))"

definition dns_rules_of :: "DnsRules \<Rightarrow> string \<times> bool \<times> bool \<times> bool \<Rightarrow> DnsRules" where
  "dns_rules_of nothing r =
     (case r of (text, got, ipv6, denied) \<Rightarrow>
        if got
        then (case dns_mode_from_rules text of
                Some Happ \<Rightarrow> HappRules text ipv6 | Some LegacyMode \<Rightarrow> LegacyRules | None \<Rightarrow> NoRules)
        else if denied then DnsPermissionDenied else nothing)"

definition probe_dns_rules :: "DoctorEnv \<Rightarrow> DnsRules" where
  "probe_dns_rules env =
     (let none = ([], False, False, False)
      in if find_binary env ''nft'' [''/usr/bin/nft'', ''/usr/local/bin/nft''] \<noteq> None
         then dns_rules_of NoRules
           (dns_family env (''nft'', [''list'', ''table'', ''ip6'', ''whoisthat''], True)
             (dns_family env (''nft'', [''list'', ''table'', ''ip'', ''whoisthat''], False) none))
         else dns_rules_of DnsUnavailable
           (fold (\<lambda>(cmd, is_v6) r.
               if find_binary env cmd [] = None then r
               else dns_family env (cmd, [''-t'', ''nat'', ''-S''], is_v6) r)
             [(''iptables'', False), (''ip6tables'', True)] none))"

record CoreRuntimeConfig =
  cr_split_mode :: string
  cr_kill_switch :: bool
  cr_tun_name :: string

fun as_bool_value :: "json \<Rightarrow> bool option" where
  "as_bool_value (JBool b) = Some b"
| "as_bool_value _ = None"

definition str_or_empty :: "string option \<Rightarrow> string" where
  "str_or_empty v = (case v of Some s \<Rightarrow> s | None \<Rightarrow> [])"

definition read_core_runtime_config :: "DoctorEnv \<Rightarrow> CoreRuntimeConfig" where
  "read_core_runtime_config env =
     (let dflt = \<lparr>cr_split_mode = [], cr_kill_switch = False, cr_tun_name = []\<rparr>
      in case de_read env (path_join (config_dir (de_dirs env)) ''config.json'') of
           Inl _ \<Rightarrow> dflt
         | Inr text \<Rightarrow>
             (case de_json env text of
                Inl _ \<Rightarrow> dflt
              | Inr v \<Rightarrow>
                  \<lparr>cr_split_mode = str_or_empty (Option.bind (Option.bind (json_get ''split-tunnel'' v) (json_get ''mode'')) as_str),
                   cr_kill_switch = (Option.bind (json_get ''kill-switch-enabled'' v) as_bool_value = Some True),
                   cr_tun_name = str_or_empty (Option.bind (json_get ''tun-name'' v) as_str)\<rparr>))"

section \<open>The checks\<close>

definition sink_item :: "DoctorEnv \<Rightarrow> CheckItem" where
  "sink_item env =
     (let r = ask env ''ip'' [''-o'', ''addr'', ''show'']
      in if \<not> succeeded r then item_info ''DNS sink address'' ''could not inspect interface addresses''
         else if sink_assigned (printed r)
         then item_fail ''DNS sink address'' (DNS_SINK4 @ '' or '' @ DNS_SINK6 @ '' is assigned to an interface'')
                (Some ''Remove the address from the interface; the sink must stay unassigned'')
         else item_pass ''DNS sink address'' (DNS_SINK4 @ '' / '' @ DNS_SINK6 @ '' are not assigned to any interface''))"

definition pools_item :: "DoctorEnv \<Rightarrow> bool \<Rightarrow> string \<Rightarrow> CheckItem" where
  "pools_item env tun_up tun_name =
     (let r = ask env ''ip'' [''-o'', ''addr'', ''show'', ''dev'', tun_name]
      in if \<not> tun_up then item_info ''FakeDNS pools'' (''TUN is inactive '' @ dash @ '' pool overlap check skipped'')
         else if \<not> succeeded r then item_info ''FakeDNS pools'' (''could not inspect addresses of '' @ tun_name)
         else (case fake_pool_overlap (printed r) of
                 Some pool \<Rightarrow> item_fail ''FakeDNS pools'' (''TUN address overlaps the '' @ pool @ '' fake pool'')
                   (Some ''Change the TUN address or the fake pool constants'')
               | None \<Rightarrow> item_pass ''FakeDNS pools''
                   (''TUN address does not overlap '' @ FAKE_POOL4 @ '' / '' @ FAKE_POOL6)))"

definition split_route_present :: "DoctorEnv \<Rightarrow> bool" where
  "split_route_present env \<longleftrightarrow>
     has_mark1_policy_rule (printed (ask env ''ip'' [''rule'', ''show''])) \<and>
     has_default_route (printed (ask env ''ip'' [''route'', ''show'', ''table'', ''100'']))"

definition split_policy_route_item :: "DoctorEnv \<Rightarrow> bool \<Rightarrow> string \<Rightarrow> CheckItem" where
  "split_policy_route_item env tun_up split_mode =
     (if \<not> tun_up
      then item_info ''Split-tunnel routing'' (''TUN is inactive '' @ dash @ '' no split policy route expected'')
      else if split_mode \<noteq> ''exclude''
      then item_info ''Split-tunnel routing'' (''split mode '' @ (if split_mode = [] then ''off'' else split_mode) @ '' '' @
             dash @ '' mark 1/table 100 is not used'')
      else if split_route_present env
      then item_pass ''Split-tunnel routing'' ''exclude mode: mark 1 is routed via table 100 (physical link)''
      else item_fail ''Split-tunnel routing''
             (''split exclude is on, but the mark 1 '' @ [CHR 0xE2, CHR 0x86, CHR 0x92] @
              '' table 100 policy route is missing; excluded apps are tunnelled'')
             (Some ''Re-apply the mode: whoisthat settings set split-tunnel=exclude (or restart TUN)''))"

definition restart_tun :: "string option" where
  "restart_tun = Some ''Restart TUN so the scoped hijack is reinstalled''"

definition happ_items :: "DoctorEnv \<Rightarrow> string \<Rightarrow> bool \<Rightarrow> CheckItem list" where
  "happ_items env text ipv6 =
     [item_pass ''DNS hijack rules'' (''Happ sink ('' @ DNS_SINK4 @ '' / '' @ DNS_SINK6 @ '')''),
      (if \<not> has_mark_return (de_lc env) text
       then item_fail ''DNS hijack safety returns''
              ''missing mark-1 return; Xray direct DNS or split-excluded apps may loop'' restart_tun
       else if \<not> has_sink_return (de_lc env) text
       then item_fail ''DNS hijack safety returns'' ''missing sink return rule'' restart_tun
       else item_pass ''DNS hijack safety returns'' ''mark 1 and sink returns are present'')]
     @ (if str_contains ''masquerade'' (de_lc env text)
        then [item_warn ''DNS hijack mode'' ''Happ sink rules also contain masquerade (legacy leftovers?)''
                (Some ''Restart TUN to rebuild a clean whoisthat table'')] else [])
     @ [(if ipv6 then item_pass ''IPv6 DNS hijack'' (''sink '' @ DNS_SINK6 @ '' is installed'')
         else item_warn ''IPv6 DNS hijack'' ''IPv6 hijack table is missing''
                (Some ''Enable IPv6 in the kernel or restart TUN''))]"

definition hijack_items :: "DoctorEnv \<Rightarrow> bool \<Rightarrow> string \<Rightarrow> DnsRules \<Rightarrow> CheckItem list" where
  "hijack_items env tun_up split_mode rules =
     (case rules of
        HappRules text ipv6 \<Rightarrow> happ_items env text ipv6
      | LegacyRules \<Rightarrow>
          [item_pass ''DNS hijack rules'' ''legacy resolver DNAT (manual routing or Happ profile without DNS)'']
      | NoRules \<Rightarrow>
          [if \<not> tun_up then item_info ''DNS hijack rules'' (''TUN is inactive '' @ dash @ '' no hijack expected'')
           else if split_mode = ''include''
           then item_info ''DNS hijack rules'' (''split include '' @ dash @ '' hijack intentionally disabled'')
           else item_warn ''DNS hijack rules'' ''TUN is active but no DNS hijack table was found''
                  (Some ''Restart TUN; if it persists, check core.log and firewall permissions'')]
      | DnsPermissionDenied \<Rightarrow>
          [item_info ''DNS hijack rules''
             ''cannot inspect firewall state without root (try: sudo nft list table ip whoisthat)'']
      | DnsUnavailable \<Rightarrow>
          [item_info ''DNS hijack rules'' ''neither nftables nor iptables is available for inspection''])"

definition resolved_item :: "DoctorEnv \<Rightarrow> bool \<Rightarrow> string \<Rightarrow> string \<Rightarrow> DnsRules \<Rightarrow> CheckItem" where
  "resolved_item env tun_up split_mode tun_name rules =
     (let happ_mode = (case rules of HappRules _ _ \<Rightarrow> True | _ \<Rightarrow> False);
          r = ask env ''resolvectl'' [''dns'', tun_name]
      in if find_binary env ''resolvectl'' [''/usr/bin/resolvectl'', ''/usr/local/bin/resolvectl''] = None
         then item_info ''systemd-resolved'' (''resolvectl not installed '' @ dash @ '' system resolver is left untouched'')
         else if \<not> tun_up
         then item_info ''systemd-resolved'' (''TUN is inactive '' @ dash @ '' resolvectl is not configured'')
         else if split_mode = ''include''
         then item_info ''systemd-resolved'' (''split include '' @ dash @ '' resolvectl is left untouched'')
         else if \<not> succeeded r
         then item_info ''systemd-resolved''
                (''resolvectl is installed but systemd-resolved is inactive; system resolver is left untouched '' @
                 ''(kernel DNAT still works)'')
         else if happ_mode \<and> \<not> str_contains DNS_SINK4 (printed r)
         then item_warn ''systemd-resolved'' (tun_name @ '' DNS is not pointed at the Happ sink'')
                (Some (''resolvectl dns '' @ tun_name @ '' '' @ DNS_SINK4))
         else item_pass ''systemd-resolved'' ''system resolver configuration is consistent with the active DNS mode'')"

definition missing_allows :: "string \<Rightarrow> string \<Rightarrow> string list" where
  "missing_allows text tun_name =
     (if str_contains tun_name text then [] else [''TUN interface''])
     @ (if str_contains DNS_SINK4 text then [] else [''DNS sink''])
     @ (if str_contains ''mark 0x00000001'' text \<or> str_contains ''mark 1'' text \<or> str_contains ''--mark 0x1'' text
        then [] else [''mark 1''])"

definition kill_switch_item :: "string \<Rightarrow> bool \<Rightarrow> KillSwitchProbe \<Rightarrow> CheckItem" where
  "kill_switch_item tun_name kill_switch p =
     (case p of
        KsAbsent \<Rightarrow>
          if kill_switch
          then item_warn ''Kill-switch firewall'' ''kill-switch is enabled but no rules are installed''
                 (Some (''check core.log; re-enable the kill-switch or use '' @
                        ''`settings set kill-switch=false --force`''))
          else item_info ''Kill-switch firewall'' ''kill-switch is disabled''
      | KsPresent text \<Rightarrow>
          if \<not> kill_switch
          then item_warn ''Kill-switch firewall'' ''kill-switch is disabled but firewall rules are still installed''
                 (Some ''remove them: sudo nft delete table inet whoisthat_ks'')
          else if missing_allows text tun_name = []
          then item_pass ''Kill-switch firewall'' ''TUN, DNS sink, and mark 1 are allowed''
          else item_warn ''Kill-switch firewall'' (''missing allows: '' @ join_with '', '' (missing_allows text tun_name))
                 (Some ''Re-apply the kill-switch so the whitelist is regenerated'')
      | KsPermissionDenied \<Rightarrow>
          item_info ''Kill-switch firewall'' (''cannot inspect the kill-switch rules without root '' @
            ''(try: sudo nft list table inet whoisthat_ks)'')
      | KsUnavailable \<Rightarrow>
          item_warn ''Kill-switch firewall'' ''neither nftables nor iptables found; the kill-switch cannot be inspected''
            (Some ''install nftables (recommended) or iptables'')
      | KsFailed err \<Rightarrow>
          item_warn ''Kill-switch firewall'' (''cannot inspect the kill-switch rules: '' @ err) (Some ''check core.log''))"

definition effective_tun_name :: "CoreRuntimeConfig \<Rightarrow> AppConfig \<Rightarrow> string" where
  "effective_tun_name rc cfg = (if cr_tun_name rc = [] then c_tun_name cfg else cr_tun_name rc)"

definition tun_is_up :: "DoctorEnv \<Rightarrow> string \<Rightarrow> bool" where
  "tun_is_up env tun_name = succeeded (ask env ''ip'' [''link'', ''show'', ''dev'', tun_name])"

definition check_dns_and_routing :: "DoctorEnv \<Rightarrow> AppConfig \<Rightarrow> CheckCategory" where
  "check_dns_and_routing env cfg =
     (let rc = read_core_runtime_config env;
          tun_name = effective_tun_name rc cfg;
          tun_up = tun_is_up env tun_name;
          rules = probe_dns_rules env
      in category ''DNS & Routing''
        ([sink_item env, pools_item env tun_up tun_name, split_policy_route_item env tun_up (cr_split_mode rc)]
         @ hijack_items env tun_up (cr_split_mode rc) rules
         @ [resolved_item env tun_up (cr_split_mode rc) tun_name rules,
            kill_switch_item tun_name (cr_kill_switch rc) (probe_kill_switch env)]))"

section \<open>The whole report\<close>

definition run_doctor :: "DoctorEnv \<Rightarrow> Disk \<Rightarrow> AppConfig \<Rightarrow> bool \<Rightarrow> DoctorReport" where
  "run_doctor env d cfg include_logs =
     (let report = report_new (de_version env)
            ([check_binaries env, check_capabilities env, check_polkit env, check_ipc_and_daemon env cfg,
              check_dns_and_routing env cfg, check_config_and_storage env cfg]
             @ (if include_logs then [check_logs env d] else []))
      in case de_ipc_version env of
           Some (cv, proto) \<Rightarrow> report\<lparr>dr_core_version := Some cv, dr_core_protocol_version := Some proto\<rparr>
         | None \<Rightarrow> if c_core_version cfg \<noteq> [] then report\<lparr>dr_core_version := Some (c_core_version cfg)\<rparr> else report)"

end
