(* ===== verification/CliArgs.thy ===== *)
theory CliArgs
  imports Protocol LogFmt
begin

text \<open>
  The command line of the program: \<open>src/cli/args.rs\<close> (what the argument parser delivers; the
  parser itself is clap's), \<open>src/cli/error.rs\<close>, and of \<open>src/cli/mod.rs\<close> the rewriting of the old
  flags into the commands.  The structs of arguments that follow an enum in \<open>args.rs\<close> are the
  arguments of its constructors.
\<close>

section \<open>Errors\<close>

text \<open>\<open>Panicked\<close> is not a value of the source's type: it stands for a panic, which ends the process
  with code 101 from wherever it happens.\<close>

datatype (plugins only: code size) CliError =
    Usage string
  | Offline string
  | Timeout string
  | CoreError string
  | IoFailed string
  | JsonInvalid
  | Panicked

definition exit_code :: "CliError \<Rightarrow> int" where
  "exit_code e = (case e of Usage _ \<Rightarrow> 2 | Offline _ \<Rightarrow> 3 | Panicked \<Rightarrow> 101 | _ \<Rightarrow> 1)"

definition cli_error_text :: "CliError \<Rightarrow> string" where
  "cli_error_text e =
     (case e of Usage s \<Rightarrow> s | Offline s \<Rightarrow> s | Timeout s \<Rightarrow> ''timed out: '' @ s | CoreError s \<Rightarrow> s
      | IoFailed s \<Rightarrow> s | JsonInvalid \<Rightarrow> [] | Panicked \<Rightarrow> [])"

section \<open>Arguments\<close>

record GlobalArgs =
  gl_json :: bool
  gl_quiet :: bool
  gl_no_color :: bool
  gl_socket :: "string option"
  gl_tcp :: "string option"
  gl_timeout :: "nat option"
  gl_no_spawn :: bool
  gl_version :: bool

definition default_args :: GlobalArgs where
  "default_args = \<lparr>gl_json = False, gl_quiet = False, gl_no_color = False, gl_socket = None, gl_tcp = None,
     gl_timeout = None, gl_no_spawn = False, gl_version = False\<rparr>"

datatype (plugins only: code size) ModeCmd = ModeStatus | ModeTun | ModeProxy | ModeToggle

datatype (plugins only: code size) CoreCmd = CoreStatus | CoreStart | CoreStop | CoreRestart | CoreVersion

datatype (plugins only: code size) ProfileCmd =
    ProfileList "string option" bool
  | ProfileShow string "string option" bool
  | ProfileAdd "string list" "string option"
  | ProfileRm "string list" bool
  | ProfileRename string string
  | ProfileMove string string
  | ProfileReorder string "string list" "string option"

datatype (plugins only: code size) SubCmd =
    SubList bool
  | SubShow string bool
  | SubAdd string "string option" "string option" bool
  | SubRm string bool
  | SubRefresh "string option" bool bool
  | SubRename string "string option"
  | SubUrl string "string option" bool
  | SubReorder string nat
  | SubAuto string string
  | SubInterval string string

datatype (plugins only: code size) RouteProfileCmd =
    RouteProfileList "string option"
  | RouteProfileActivate string "string option"
  | RouteProfileOff "string option"
  | RouteProfileRm string "string option"

datatype (plugins only: code size) RoutePresetCmd =
    RoutePresetList
  | RoutePresetApply string "string option"
  | RoutePresetRemove string "string option"

datatype (plugins only: code size) RouteCmd =
    RouteList "string option"
  | RouteAdd string string string "string option"
  | RouteRm "nat list" "string option"
  | RouteEnable "nat list" "string option"
  | RouteDisable "nat list" "string option"
  | RouteMove nat nat "string option"
  | RouteMode string string
  | RouteProfile RouteProfileCmd
  | RouteImport string "string option"
  | RoutePreset RoutePresetCmd

record TestConfigArgs =
  ta_concurrency :: "i32 option"
  ta_test_timeout :: "i32 option"
  ta_samples :: "i32 option"
  ta_endpoint :: "string option"
  ta_auto_on_subscribe :: "string option"

datatype (plugins only: code size) TestCmd =
    TestOneProfile string "string option" bool
  | TestOneGroup string "string option" bool
  | TestAll "string option" bool
  | TestCancel
  | TestConfigure TestConfigArgs

datatype (plugins only: code size) SettingsCmd =
    SettingsList
  | SettingsGet string
  | SettingsSet "string list" bool
  | SettingsToggle string

datatype (plugins only: code size) HwidCmd = HwidStatus | HwidEnable | HwidDisable | HwidReset | HwidUserAgent string

datatype (plugins only: code size) LogLevelArg = ArgError | ArgWarn | ArgInfo | ArgDebug | ArgTrace

fun arg_level :: "LogLevelArg \<Rightarrow> Level" where
  "arg_level ArgError = Error"
| "arg_level ArgWarn = Warn"
| "arg_level ArgInfo = Info"
| "arg_level ArgDebug = Debug"
| "arg_level ArgTrace = Trace"

datatype (plugins only: code size) LogSourceArg = SourceCore | SourceTui

datatype (plugins only: code size) ClearSource = ClearCore | ClearTui | ClearAll

record LogsArgs =
  la_clear :: "(ClearSource \<times> bool) option"
  la_lines :: nat
  la_level :: "LogLevelArg option"
  la_follow :: bool
  la_tui :: bool
  la_source :: "LogSourceArg option"
  la_since :: "string option"
  la_grep :: "string option"

datatype (plugins only: code size) SystemdCmd = SystemdStatus | SystemdEnable | SystemdDisable | SystemdToggle

datatype (plugins only: code size) LinkCmd = LinkHandle string "string option" | LinkRegister

datatype (plugins only: code size) CliCommand =
    CmdStatus bool bool
  | CmdConnect "string option" "string option" bool
  | CmdDisconnect bool
  | CmdToggle bool
  | CmdMode "ModeCmd option"
  | CmdCore CoreCmd
  | CmdProfile ProfileCmd
  | CmdSub SubCmd
  | CmdRoute RouteCmd
  | CmdTest TestCmd
  | CmdSettings "SettingsCmd option" "string list" bool
  | CmdHwid HwidCmd
  | CmdLogs LogsArgs
  | CmdSystemd SystemdCmd
  | CmdLink LinkCmd
  | CmdDoctor bool
  | CmdIp
  | CmdVersion
  | CmdRun bool "string list"

section \<open>The old flags\<close>

definition legacy_prefixes :: "(string list \<times> string list) list" where
  "legacy_prefixes =
    [([''-t'', ''--toggle''], [''toggle'']),
     ([''-c'', ''--start'', ''start''], [''connect'']),
     ([''-d'', ''--stop'', ''stop''], [''disconnect'']),
     ([''-mt'', ''--mode-toggle'', ''toggle-tun'', ''toggle-mode''], [''mode'', ''toggle'']),
     ([''--mode-tun'', ''--tun''], [''mode'', ''tun'']),
     ([''--mode-proxy'', ''--proxy''], [''mode'', ''proxy'']),
     ([''-st'', ''--systemd-toggle''], [''systemd'', ''toggle'']),
     ([''--systemd-on'', ''--systemd-enable'', ''--enable''], [''systemd'', ''enable'']),
     ([''--systemd-off'', ''--systemd-disable'', ''--disable''], [''systemd'', ''disable'']),
     ([''--systemd-status''], [''systemd'', ''status'']),
     ([''-kt'', ''--killswitch-toggle''], [''settings'', ''toggle'', ''kill-switch'']),
     ([''--killswitch-on''], [''settings'', ''set'', ''kill-switch=true'']),
     ([''--killswitch-off''], [''settings'', ''set'', ''kill-switch=false'']),
     ([''-p'', ''--profiles'', ''profiles''], [''sub'', ''list'']),
     ([''add-sub''], [''sub'', ''add'']),
     ([''handle-url'', ''url''], [''link'', ''handle'']),
     ([''register-deeplink'', ''setup-desktop''], [''link'', ''register'']),
     ([''--status''], [''status'']),
     ([''--ip''], [''ip'']),
     ([''--doctor''], [''doctor''])]"

definition legacy_mapped :: "string \<Rightarrow> string list option" where
  "legacy_mapped first =
     map_option snd (find (\<lambda>(names, _). first \<in> set names) legacy_prefixes)"

definition is_status_flag :: "string \<Rightarrow> string list \<Rightarrow> bool" where
  "is_status_flag first rest \<longleftrightarrow>
     first = ''-s'' \<or> first = ''-w'' \<or>
     first = ''-j'' \<and> (case rest of [] \<Rightarrow> True | a # _ \<Rightarrow> starts_with ''-'' a)"

fun normalize_legacy :: "string list \<Rightarrow> string list" where
  "normalize_legacy [] = []"
| "normalize_legacy (first # rest) =
     (if is_status_flag first rest then ''status'' # first # rest
      else (case legacy_mapped first of Some prefix \<Rightarrow> prefix @ rest | None \<Rightarrow> first # rest))"

text \<open>The commands the rewriting produces are not themselves old forms.\<close>

lemma legacy_prefix_stable:
  assumes "legacy_mapped first = Some prefix"
  shows "\<exists>c cs. prefix = c # cs \<and> legacy_mapped c = None \<and> (\<forall>rest. \<not> is_status_flag c rest)"
proof -
  have "list_all (\<lambda>(_, p). case p of [] \<Rightarrow> False
      | c # _ \<Rightarrow> legacy_mapped c = None \<and> c \<notin> {''-s'', ''-w'', ''-j''}) legacy_prefixes"
    by code_simp
  moreover obtain names where "(names, prefix) \<in> set legacy_prefixes"
    using assms by (auto simp: legacy_mapped_def find_Some_iff) (metis nth_mem)
  ultimately show ?thesis
    by (force simp: list_all_iff is_status_flag_def split: list.splits)
qed

lemma status_not_legacy: "legacy_mapped ''status'' = None" "\<not> is_status_flag ''status'' rest"
  by (simp_all add: legacy_mapped_def legacy_prefixes_def is_status_flag_def)

lemma normalize_idempotent: "normalize_legacy (normalize_legacy args) = normalize_legacy args"
proof (cases args)
  case (Cons first rest)
  show ?thesis
  proof (cases "is_status_flag first rest")
    case True
    then show ?thesis by (simp add: Cons status_not_legacy)
  next
    case flag: False
    show ?thesis
    proof (cases "legacy_mapped first")
      case (Some prefix)
      then obtain c cs where "prefix = c # cs" "legacy_mapped c = None" "\<And>rest. \<not> is_status_flag c rest"
        using legacy_prefix_stable by blast
      then show ?thesis using flag by (simp add: Cons Some)
    qed (simp add: Cons flag)
  qed
qed simp

section \<open>Choosing a log\<close>

definition resolve_source :: "LogSourceArg option \<Rightarrow> bool \<Rightarrow> CliError + LogSourceArg" where
  "resolve_source source tui =
     (case source of
        Some s \<Rightarrow> if tui then Inl (Usage ''--tui conflicts with --source; use one of them'') else Inr s
      | None \<Rightarrow> if tui then Inr SourceTui else Inr SourceCore)"

end
