(* ===== verification/CliResolve.thy ===== *)
theory CliResolve
  imports CliArgs
begin

text \<open>
  \<open>src/cli/resolve.rs\<close>: which group, profile or routing profile a selector of the command line
  means.  \<open>lc\<close> stands for \<open>str::to_lowercase\<close>.
\<close>

section \<open>Definitions\<close>

fun join :: "string \<Rightarrow> string list \<Rightarrow> string" where
  "join sep [] = []"
| "join sep [x] = x"
| "join sep (x # y # xs) = x @ sep @ join sep (y # xs)"

definition ambiguous :: "string \<Rightarrow> string list \<Rightarrow> CliError" where
  "ambiguous selector items =
     Usage (''ambiguous selector '' @ [CHR 0x27] @ selector @ [CHR 0x27] @ '': '' @ join '' | '' items)"

definition quoted :: "string \<Rightarrow> string" where
  "quoted s = [CHR 0x27] @ s @ [CHR 0x27]"

definition group_item :: "Group \<Rightarrow> string" where
  "group_item g = ''#'' @ show_int (g_id g) @ '' '' @ g_name g"

definition name_contains :: "(string \<Rightarrow> string) \<Rightarrow> string \<Rightarrow> string \<Rightarrow> bool" where
  "name_contains lc selector name \<longleftrightarrow> str_contains (lc selector) (lc name)"

definition find_group ::
  "(string \<Rightarrow> string) \<Rightarrow> GroupWithProfiles list \<Rightarrow> string \<Rightarrow> CliError + Group" where
  "find_group lc groups selector =
     (case parse_i32 selector of
        Some i \<Rightarrow>
          (case find (\<lambda>g. g_id (gw_group g) = i) groups of
             Some g \<Rightarrow> Inr (gw_group g)
           | None \<Rightarrow> Inl (Usage (''group #'' @ show_int i @ '' not found'')))
      | None \<Rightarrow>
          (let all = map gw_group groups;
               exact = filter (\<lambda>g. eq_ignore_ascii_case (g_name g) selector) all
           in (case exact of
                 [g] \<Rightarrow> Inr g
               | _ # _ # _ \<Rightarrow> Inl (ambiguous selector (map group_item exact))
               | [] \<Rightarrow>
                   (let partial = filter (\<lambda>g. name_contains lc selector (g_name g)) all
                    in (case partial of
                          [g] \<Rightarrow> Inr g
                        | [] \<Rightarrow> Inl (Usage (''group '' @ quoted selector @
                                 '' not found; run `whoisthat sub list`''))
                        | _ \<Rightarrow> Inl (ambiguous selector (map group_item partial)))))))"

definition profile_item :: "Group \<times> Profile \<Rightarrow> string" where
  "profile_item gp =
     show_int (g_id (fst gp)) @ '':'' @ show_int (p_id (snd gp)) @ '' '' @ p_name (snd gp)"

definition one_profile :: "string \<Rightarrow> (Group \<times> Profile) list \<Rightarrow> CliError + (Group \<times> Profile)" where
  "one_profile selector hits =
     (case hits of [h] \<Rightarrow> Inr h | _ \<Rightarrow> Inl (ambiguous selector (map profile_item hits)))"

text \<open>The profiles of some groups that satisfy a condition, each with its group.\<close>

definition hits :: "(Profile \<Rightarrow> bool) \<Rightarrow> GroupWithProfiles list \<Rightarrow> (Group \<times> Profile) list" where
  "hits P scoped = concat (map (\<lambda>g. map (\<lambda>p. (gw_group g, p)) (filter P (gw_profiles g))) scoped)"

definition pair_selector :: "string \<Rightarrow> (int \<times> int) option" where
  "pair_selector selector =
     (case split_once (CHR '':'') selector of
        None \<Rightarrow> None
      | Some (g, p) \<Rightarrow>
          (case (parse_i32 g, parse_i32 p) of (Some gid, Some pid) \<Rightarrow> Some (gid, pid) | _ \<Rightarrow> None))"

definition find_pair :: "GroupWithProfiles list \<Rightarrow> int \<Rightarrow> int \<Rightarrow> (Group \<times> Profile) option" where
  "find_pair groups gid pid =
     (case find (\<lambda>x. g_id (gw_group x) = gid) groups of
        None \<Rightarrow> None
      | Some g \<Rightarrow>
          (case find (\<lambda>x. p_id x = pid) (gw_profiles g) of
             None \<Rightarrow> None
           | Some p \<Rightarrow> Some (gw_group g, p)))"

definition scoped_groups ::
  "(string \<Rightarrow> string) \<Rightarrow> GroupWithProfiles list \<Rightarrow> string option
   \<Rightarrow> CliError + GroupWithProfiles list" where
  "scoped_groups lc groups group_filter =
     (case group_filter of
        None \<Rightarrow> Inr groups
      | Some sel \<Rightarrow>
          (case find_group lc groups sel of
             Inl e \<Rightarrow> Inl e
           | Inr g \<Rightarrow> Inr (filter (\<lambda>x. g_id (gw_group x) = g_id g) groups)))"

definition find_profile ::
  "(string \<Rightarrow> string) \<Rightarrow> GroupWithProfiles list \<Rightarrow> string \<Rightarrow> string option
   \<Rightarrow> CliError + (Group \<times> Profile)" where
  "find_profile lc groups selector group_filter =
     (case pair_selector selector of
        Some (gid, pid) \<Rightarrow>
          (case find_pair groups gid pid of
             Some gp \<Rightarrow> Inr gp
           | None \<Rightarrow> Inl (Usage (''profile '' @ show_int gid @ '':'' @ show_int pid @ '' not found'')))
      | None \<Rightarrow>
          (case scoped_groups lc groups group_filter of
             Inl e \<Rightarrow> Inl e
           | Inr scoped \<Rightarrow>
               (case parse_i32 selector of
                  Some i \<Rightarrow> one_profile selector (hits (\<lambda>p. p_id p = i) scoped)
                | None \<Rightarrow>
                    (let exact = hits (\<lambda>p. eq_ignore_ascii_case (p_name p) selector) scoped
                     in if exact \<noteq> [] then one_profile selector exact
                        else
                          (let partial = hits (\<lambda>p. name_contains lc selector (p_name p)) scoped
                           in if partial = []
                              then Inl (Usage (''profile '' @ quoted selector @
                                     '' not found; run `whoisthat profile list`''))
                              else one_profile selector partial)))))"

definition find_routing_profile ::
  "(string \<Rightarrow> string) \<Rightarrow> GroupWithProfiles \<Rightarrow> string \<Rightarrow> CliError + RoutingProfileInfo" where
  "find_routing_profile lc grp selector =
     (case find (\<lambda>p. rp_id p = selector) (gw_routing_profiles grp) of
        Some p \<Rightarrow> Inr p
      | None \<Rightarrow>
          (case filter (\<lambda>p. eq_ignore_ascii_case (rp_name p) selector) (gw_routing_profiles grp) of
             [p] \<Rightarrow> Inr p
           | _ \<Rightarrow>
               (let partial = filter (\<lambda>p. name_contains lc selector (rp_name p)) (gw_routing_profiles grp)
                in (case partial of
                      [p] \<Rightarrow> Inr p
                    | [] \<Rightarrow> Inl (Usage (''routing profile '' @ quoted selector @ '' not found in group #'' @
                             show_int (g_id (gw_group grp))))
                    | _ \<Rightarrow> Inl (ambiguous selector (map (\<lambda>p. rp_id p @ '' '' @ rp_name p) partial))))))"

section \<open>A selector never picks one of several\<close>

definition matches_group :: "(string \<Rightarrow> string) \<Rightarrow> string \<Rightarrow> Group \<Rightarrow> bool" where
  "matches_group lc selector g \<longleftrightarrow>
     (case parse_i32 selector of
        Some i \<Rightarrow> g_id g = i
      | None \<Rightarrow> eq_ignore_ascii_case (g_name g) selector \<or> name_contains lc selector (g_name g))"

lemma find_group_Inr:
  assumes "find_group lc groups selector = Inr g"
  shows "g \<in> gw_group ` set groups \<and> matches_group lc selector g"
proof (cases "parse_i32 selector")
  case (Some i)
  with assms show ?thesis
    by (auto simp: find_group_def matches_group_def find_Some_iff split: option.splits)
next
  case None
  let ?all = "map gw_group groups"
  let ?E = "filter (\<lambda>g. eq_ignore_ascii_case (g_name g) selector) ?all"
  let ?P = "filter (\<lambda>g. name_contains lc selector (g_name g)) ?all"
  have "?E = [g] \<or> ?P = [g]"
    using assms None by (auto simp: find_group_def Let_def simp del: filter_map split: list.splits)
  then have "g \<in> set ?E \<or> g \<in> set ?P" by (metis list.set_intros(1))
  then show ?thesis using None by (auto simp: matches_group_def)
qed

lemma one_profile_Inr: "one_profile selector hs = Inr gp \<longleftrightarrow> hs = [gp]"
  by (auto simp: one_profile_def split: list.splits)

lemma in_hits: "(g, p) \<in> set (hits P scoped) \<longleftrightarrow>
    (\<exists>x\<in>set scoped. gw_group x = g \<and> p \<in> set (gw_profiles x) \<and> P p)"
  by (auto simp: hits_def)

definition owns :: "GroupWithProfiles list \<Rightarrow> Group \<times> Profile \<Rightarrow> bool" where
  "owns groups gp \<longleftrightarrow> (\<exists>x\<in>set groups. gw_group x = fst gp \<and> snd gp \<in> set (gw_profiles x))"

lemma scoped_subset: "scoped_groups lc groups f = Inr scoped \<Longrightarrow> set scoped \<subseteq> set groups"
  by (auto simp: scoped_groups_def split: option.splits sum.splits)

lemma find_pair_owns: "find_pair groups gid pid = Some gp \<Longrightarrow>
    owns groups gp \<and> g_id (fst gp) = gid \<and> p_id (snd gp) = pid"
  by (auto simp: find_pair_def owns_def find_Some_iff split: option.splits)

text \<open>What a selector is compared with: the id if it is a number, else the whole name if any name in
  scope is the selector, else a part of the name.\<close>

definition selects :: "(string \<Rightarrow> string) \<Rightarrow> string \<Rightarrow> GroupWithProfiles list \<Rightarrow> Profile \<Rightarrow> bool" where
  "selects lc selector scoped =
     (case parse_i32 selector of
        Some i \<Rightarrow> (\<lambda>p. p_id p = i)
      | None \<Rightarrow>
          if hits (\<lambda>p. eq_ignore_ascii_case (p_name p) selector) scoped \<noteq> []
          then (\<lambda>p. eq_ignore_ascii_case (p_name p) selector)
          else (\<lambda>p. name_contains lc selector (p_name p)))"

lemma find_profile_iff:
  assumes "pair_selector selector = None"
  shows "find_profile lc groups selector f = Inr gp \<longleftrightarrow>
    (\<exists>scoped. scoped_groups lc groups f = Inr scoped \<and>
       hits (selects lc selector scoped) scoped = [gp])"
  using assms by (auto simp: find_profile_def selects_def Let_def one_profile_Inr
      split: option.splits sum.splits)

lemma hits_owns: "hits P scoped = [gp] \<Longrightarrow> set scoped \<subseteq> set groups \<Longrightarrow> owns groups gp"
proof -
  assume h: "hits P scoped = [gp]" and sub: "set scoped \<subseteq> set groups"
  have "(fst gp, snd gp) \<in> set (hits P scoped)" by (simp add: h)
  with sub show "owns groups gp" unfolding in_hits owns_def by auto
qed

lemma find_profile_owns: "find_profile lc groups selector f = Inr gp \<Longrightarrow> owns groups gp"
proof (cases "pair_selector selector")
  case None
  assume "find_profile lc groups selector f = Inr gp"
  then show ?thesis unfolding find_profile_iff [OF None] by (metis hits_owns scoped_subset)
next
  case (Some ids)
  assume "find_profile lc groups selector f = Inr gp"
  with Some show ?thesis
    by (cases ids) (auto simp: find_profile_def find_pair_owns split: option.splits)
qed

text \<open>An unknown id is reported as ambiguous between no profiles.\<close>

lemma missing_id_called_ambiguous:
  assumes "pair_selector selector = None" "parse_i32 selector = Some i"
    "\<forall>x\<in>set groups. \<forall>p\<in>set (gw_profiles x). p_id p \<noteq> i"
  shows "find_profile lc groups selector None = Inl (ambiguous selector [])"
proof -
  have "hits (\<lambda>p. p_id p = i) groups = []" using assms(3) by (auto simp: hits_def filter_empty_conv)
  then show ?thesis using assms(1,2) by (simp add: find_profile_def scoped_groups_def one_profile_def)
qed

section \<open>Properties\<close>

text \<open>A selector of the command line never picks one of several profiles: without an explicit
  group and id it yields a profile exactly when, among the profiles of the groups it may search, one
  and only one has the id, or failing that the name, or failing that a name that contains it; and
  what it yields is a profile of the state together with its own group.\<close>

theorem find_profile_unambiguous:
  assumes "pair_selector selector = None"
  shows "(find_profile lc groups selector f = Inr gp \<longleftrightarrow>
      (\<exists>scoped. scoped_groups lc groups f = Inr scoped \<and>
         hits (selects lc selector scoped) scoped = [gp])) \<and>
    (find_profile lc groups selector f = Inr gp \<longrightarrow> owns groups gp)"
  using find_profile_iff [OF assms] find_profile_owns by blast

definition sample_groups :: "GroupWithProfiles list" where
  "sample_groups =
    [\<lparr>gw_group = default_group\<lparr>g_id := 1, g_name := ''Work''\<rparr>,
      gw_profiles = [default_profile\<lparr>p_id := 10, p_name := ''Berlin''\<rparr>,
                     default_profile\<lparr>p_id := 11, p_name := ''Paris''\<rparr>],
      gw_routing_profiles = []\<rparr>]"

theorem find_profile_unambiguous_witness:
  "\<exists>scoped. scoped_groups (map ascii_lower) sample_groups None = Inr scoped \<and>
     hits (selects (map ascii_lower) ''11'' scoped) scoped =
       [(default_group\<lparr>g_id := 1, g_name := ''Work''\<rparr>, default_profile\<lparr>p_id := 11, p_name := ''Paris''\<rparr>)]"
proof -
  have "pair_selector ''11'' = None" by (simp add: pair_selector_def)
  moreover have "find_profile (map ascii_lower) sample_groups ''11'' None =
      Inr (default_group\<lparr>g_id := 1, g_name := ''Work''\<rparr>, default_profile\<lparr>p_id := 11, p_name := ''Paris''\<rparr>)"
    by (simp add: find_profile_def pair_selector_def scoped_groups_def parse_i32_def parse_nat_def
        is_digit_def digits_value_def hits_def sample_groups_def one_profile_def)
  ultimately show ?thesis
    using find_profile_unambiguous [of "''11''" "map ascii_lower" sample_groups None] by blast
qed

end
