(* ===== verification/NetInfo.thy ===== *)
theory NetInfo
  imports IpAddr
begin

text \<open>
  \<open>src/net\_info.rs\<close>: the public address of the host.  \<open>Display\<close> and \<open>FromStr\<close> of \<open>IpAddr\<close> are the
  standard library's; the HTTP client is a function from the address asked for to the text of the answer,
  \<open>None\<close> when the request fails.
\<close>

unbundle bit_operations_syntax

section \<open>Addresses and their texts\<close>

datatype Ip = V4 "32 word" | V6 "128 word"

definition is_ipv6 :: "Ip \<Rightarrow> bool" where
  "is_ipv6 ip = (case ip of V4 _ \<Rightarrow> False | V6 _ \<Rightarrow> True)"

text \<open>\<open>IpAddr::from\_str\<close>: an IPv4 address if one can be read, else an IPv6 one; nothing may follow it.\<close>

definition parse_ip :: "string \<Rightarrow> Ip option" where
  "parse_ip s =
     (case read_ipv4 s of
        Some (os, r) \<Rightarrow> if r = [] then Some (V4 (ipv4_word os)) else None
      | None \<Rightarrow>
          (case read_ipv6 s of
             Some (gs, r) \<Rightarrow> if r = [] then Some (V6 (ipv6_word gs)) else None
           | None \<Rightarrow> None))"

text \<open>A word as \<open>n\<close> digits of \<open>k\<close> bits, the first one leading.\<close>

fun pieces :: "nat \<Rightarrow> nat \<Rightarrow> 'a::len word \<Rightarrow> nat list" where
  "pieces k 0 w = []"
| "pieces k (Suc n) w = pieces k n (drop_bit k w) @ [unat (w AND mask k)]"

definition octets :: "32 word \<Rightarrow> nat list" where "octets w = pieces 8 4 w"

definition segments :: "128 word \<Rightarrow> nat list" where "segments w = pieces 16 8 w"

definition hex_digit_char :: "nat \<Rightarrow> char" where
  "hex_digit_char d = char_of (if d < 10 then 48 + d else 87 + d)"

function show_hex :: "nat \<Rightarrow> string" where
  "show_hex n = (if n < 16 then [hex_digit_char n] else show_hex (n div 16) @ [hex_digit_char (n mod 16)])"
  by pat_completeness auto
termination
  by (relation "measure id") auto

declare show_hex.simps [simp del]

text \<open>The texts with a separator between them; \<open>i\<close> counts those before.\<close>

fun spaced :: "char \<Rightarrow> nat \<Rightarrow> string list \<Rightarrow> string" where
  "spaced sep i [] = []"
| "spaced sep i (t # ts) = (if i > 0 then [sep] else []) @ t @ spaced sep (i + 1) ts"

definition ipv4_text :: "nat list \<Rightarrow> string" where
  "ipv4_text os = spaced (CHR ''.'') 0 (map show_nat os)"

definition groups_text :: "nat list \<Rightarrow> string" where
  "groups_text gs = spaced (CHR '':'') 0 (map show_hex gs)"

text \<open>The first of the longest runs of zeros, as its start and its length.\<close>

fun zero_span :: "nat \<Rightarrow> nat \<times> nat \<Rightarrow> nat \<times> nat \<Rightarrow> nat list \<Rightarrow> nat \<times> nat" where
  "zero_span i cur longest [] = longest"
| "zero_span i cur longest (s # ss) =
     (if s = 0 then
        (let cur = (if snd cur = 0 then i else fst cur, snd cur + 1)
         in zero_span (i + 1) cur (if snd cur > snd longest then cur else longest) ss)
      else zero_span (i + 1) (0, 0) longest ss)"

definition is_mapped :: "nat list \<Rightarrow> bool" where
  "is_mapped gs \<longleftrightarrow> take 6 gs = [0, 0, 0, 0, 0, 65535]"

definition ipv6_text :: "nat list \<Rightarrow> string" where
  "ipv6_text gs =
     (if is_mapped gs
      then ''::ffff:'' @ ipv4_text [gs ! 6 div 256, gs ! 6 mod 256, gs ! 7 div 256, gs ! 7 mod 256]
      else (case zero_span 0 (0, 0) (0, 0) gs of (start, len) \<Rightarrow>
              if len > 1
              then groups_text (take start gs) @ ''::'' @ groups_text (drop (start + len) gs)
              else groups_text gs))"

definition ip_text :: "Ip \<Rightarrow> string" where
  "ip_text ip = (case ip of V4 w \<Rightarrow> ipv4_text (octets w) | V6 w \<Rightarrow> ipv6_text (segments w))"

section \<open>Asking for the public address\<close>

definition fetch_ip :: "(string \<Rightarrow> string option) \<Rightarrow> string \<Rightarrow> bool \<Rightarrow> string option" where
  "fetch_ip http url want_v6 =
     (case http url of
        None \<Rightarrow> None
      | Some body \<Rightarrow>
          (case parse_ip (trim body) of
             None \<Rightarrow> None
           | Some ip \<Rightarrow> if is_ipv6 ip = want_v6 then Some (ip_text ip) else None))"

definition fetch_public_ip :: "(string \<Rightarrow> string option) \<Rightarrow> string option" where
  "fetch_public_ip http = fetch_ip http ''https://api.ipify.org'' False"

definition fetch_public_ipv6 :: "(string \<Rightarrow> string option) \<Rightarrow> string option" where
  "fetch_public_ipv6 http = fetch_ip http ''https://api6.ipify.org'' True"

section \<open>Words and their digits\<close>

lemma length_pieces [simp]: "length (pieces k n w) = n"
  by (induction k n w rule: pieces.induct) auto

lemma pieces_less: "g \<in> set (pieces k n w) \<Longrightarrow> g < 2 ^ k"
proof (induction k n w rule: pieces.induct)
  case (2 k n w)
  have "unat (w AND mask k) < 2 ^ k"
    by (metis mask_eq_exp_minus_1 take_bit_eq_mask unsigned_take_bit_eq take_bit_nat_less_exp)
  with 2 show ?case by auto
qed simp

lemma pieces_word:
  "foldl (\<lambda>v g. push_bit k v OR word_of_nat g) 0 (pieces k n w) = w AND mask (k * n)"
proof (induction k n w rule: pieces.induct)
  case (2 k n w)
  have "push_bit k (drop_bit k w AND mask (k * n)) OR (w AND mask k) = w AND mask (k * Suc n)"
    by (rule bit_word_eqI) (auto simp: bit_simps)
  with 2 show ?case by simp
qed simp

lemma and_mask_full: "w AND mask (LENGTH('a)) = (w :: 'a::len word)"
  by (rule bit_word_eqI) (auto simp: bit_simps dest: bit_imp_le_length)

lemma octets_word: "ipv4_word (octets w) = w"
  using pieces_word [of 8 4 w] and_mask_full [of w] by (simp add: ipv4_word_def octets_def)

lemma segments_word: "ipv6_word (segments w) = w"
  using pieces_word [of 16 8 w] and_mask_full [of w] by (simp add: ipv6_word_def segments_def)

section \<open>Numbers and their digits\<close>

definition reads :: "nat \<Rightarrow> string \<Rightarrow> nat \<Rightarrow> bool" where
  "reads r s n \<longleftrightarrow> s \<noteq> [] \<and> list_all (\<lambda>c. radix_digit r c \<noteq> None) s
     \<and> foldl (\<lambda>v c. v * r + the (radix_digit r c)) 0 s = n"

lemma reads_snoc:
  "reads r s n \<Longrightarrow> radix_digit r c = Some d \<Longrightarrow> reads r (s @ [c]) (n * r + d)"
  by (simp add: reads_def)

lemma reads_one: "radix_digit r c = Some d \<Longrightarrow> reads r [c] d"
  by (simp add: reads_def)

lemma radix_digit_dec: "d < 10 \<Longrightarrow> radix_digit 10 (char_of (48 + d)) = Some d"
  by (simp add: radix_digit_def Let_def of_char_of)

lemma radix_digit_hex: "d < 16 \<Longrightarrow> radix_digit 16 (hex_digit_char d) = Some d"
  by (auto simp: radix_digit_def hex_digit_char_def Let_def of_char_of)

lemma reads_show_nat: "reads 10 (show_nat n) n"
proof (induction n rule: show_nat.induct)
  case (1 n)
  show ?case
  proof (cases "n < 10")
    case True
    then show ?thesis using reads_one [OF radix_digit_dec [OF True]] by (simp add: show_nat.simps [of n])
  next
    case False
    then show ?thesis
      using reads_snoc [OF 1 [OF False] radix_digit_dec [of "n mod 10"]] by (simp add: show_nat.simps [of n])
  qed
qed

lemma reads_show_hex: "reads 16 (show_hex n) n"
proof (induction n rule: show_hex.induct)
  case (1 n)
  show ?case
  proof (cases "n < 16")
    case True
    then show ?thesis using reads_one [OF radix_digit_hex [OF True]] by (simp add: show_hex.simps [of n])
  next
    case False
    then show ?thesis
      using reads_snoc [OF 1 [OF False] radix_digit_hex [of "n mod 16"]] by (simp add: show_hex.simps [of n])
  qed
qed

lemma length_show_nat: "n < 10 ^ Suc k \<Longrightarrow> length (show_nat n) \<le> Suc k"
proof (induction k arbitrary: n)
  case (Suc k)
  then have "n div 10 < 10 ^ Suc k" by simp
  from Suc.IH [OF this] show ?case by (simp add: show_nat.simps [of n])
qed (simp add: show_nat.simps)

lemma length_show_hex: "n < 16 ^ Suc k \<Longrightarrow> length (show_hex n) \<le> Suc k"
proof (induction k arbitrary: n)
  case (Suc k)
  then have "n div 16 < 16 ^ Suc k" by simp
  from Suc.IH [OF this] show ?case by (simp add: show_hex.simps [of n])
qed (simp add: show_hex.simps)

lemma no_leading_zero: "0 < n \<Longrightarrow> hd (show_nat n) \<noteq> CHR ''0''"
proof (induction n rule: show_nat.induct)
  case (1 n)
  show ?case
  proof (cases "n < 10")
    case True
    have "of_char (char_of (48 + n)) \<noteq> (of_char (CHR ''0'') :: nat)" using True 1(2) by (simp add: of_char_of)
    then have "char_of (48 + n) \<noteq> CHR ''0''" by metis
    with True show ?thesis by (simp add: show_nat.simps [of n])
  next
    case False
    moreover have "show_nat (n div 10) \<noteq> []" using reads_show_nat by (simp add: reads_def)
    ultimately show ?thesis using 1 by (simp add: show_nat.simps [of n])
  qed
qed

lemma read_number_reads:
  assumes "reads r s n" and "length s \<le> m" and "n \<le> mx" and "zp \<or> hd s \<noteq> CHR ''0'' \<or> length s = 1"
    and "rest = [] \<or> radix_digit r (hd rest) = None"
  shows "read_number r m zp mx (s @ rest) = Some (n, rest)"
proof -
  have "takeWhile (\<lambda>c. radix_digit r c \<noteq> None) rest = []" using assms(5) by (cases rest) auto
  moreover have "\<And>c. c \<in> set s \<Longrightarrow> radix_digit r c \<noteq> None"
    using assms(1) by (simp add: reads_def list_all_iff)
  ultimately have "takeWhile (\<lambda>c. radix_digit r c \<noteq> None) (s @ rest) = s" by (simp add: takeWhile_append2)
  with assms show ?thesis by (auto simp: read_number_def reads_def Let_def)
qed

lemma read_show_nat:
  assumes "n < 256" and "rest = [] \<or> radix_digit 10 (hd rest) = None"
  shows "read_number 10 3 False 255 (show_nat n @ rest) = Some (n, rest)"
proof (rule read_number_reads [OF reads_show_nat _ _ _ assms(2)])
  show "length (show_nat n) \<le> 3" using length_show_nat [of n 2] assms(1) by simp
  show "False \<or> hd (show_nat n) \<noteq> CHR ''0'' \<or> length (show_nat n) = 1"
    using no_leading_zero [of n] by (cases n) (auto simp: show_nat.simps)
qed (use assms in simp)

lemma read_show_hex:
  assumes "n < 65536" and "rest = [] \<or> radix_digit 16 (hd rest) = None"
  shows "read_number 16 4 True 65535 (show_hex n @ rest) = Some (n, rest)"
  by (rule read_number_reads [OF reads_show_hex]) (use length_show_hex [of n 3] assms in simp_all)

section \<open>An address is read back from its text\<close>

lemma not_digit [simp]:
  "radix_digit 10 (CHR ''.'') = None" "radix_digit 16 (CHR '':'') = None" "radix_digit 10 (CHR '':'') = None"
  "radix_digit 16 (CHR ''.'') = None"
  by (simp_all add: radix_digit_def)

lemma read_ipv4_text:
  assumes "a < 256" "b < 256" "c < 256" "d < 256"
  shows "read_ipv4 (ipv4_text [a, b, c, d]) = Some ([a, b, c, d], [])"
  using assms read_show_nat [of d "[]"]
  by (simp add: read_ipv4_def ipv4_text_def read_octet_def read_separator_def read_char_def read_show_nat)

lemma read_ipv4_list:
  assumes "length os = 4" and "\<And>v. v \<in> set os \<Longrightarrow> v < 256"
  shows "read_ipv4 (ipv4_text os) = Some (os, [])"
proof -
  obtain a b c d where "os = [a, b, c, d]"
    using assms(1) by (auto simp: numeral_eq_Suc length_Suc_conv)
  then show ?thesis using read_ipv4_text assms(2) by simp
qed

lemma octets_text: "read_ipv4 (ipv4_text (octets w)) = Some (octets w, [])"
  by (rule read_ipv4_list) (use pieces_less [of _ 8 4 w] in \<open>simp_all add: octets_def\<close>)

text \<open>Without a dot in it a text does not begin with an IPv4 address.\<close>

lemma set_spaced: "c \<in> set (spaced sep i ts) \<Longrightarrow> c = sep \<or> (\<exists>t \<in> set ts. c \<in> set t)"
  by (induction sep i ts rule: spaced.induct) (auto split: if_splits)

lemma no_dot_ipv4: "CHR ''.'' \<notin> set s \<Longrightarrow> read_ipv4 s = None"
  by (auto simp: read_ipv4_def read_octet_def read_separator_def read_number_def read_char_def Let_def
      split: option.split list.split dest: in_set_dropD)
    (metis in_set_dropD list.set_intros(1))+

lemma no_dot_hex: "CHR ''.'' \<notin> set (show_hex n)"
proof
  assume "CHR ''.'' \<in> set (show_hex n)"
  then have "radix_digit 16 (CHR ''.'') \<noteq> None"
    using reads_show_hex [of n] by (auto simp: reads_def list_all_iff)
  then show False by simp
qed

lemma no_dot_groups: "CHR ''.'' \<notin> set (spaced (CHR '':'') i (map show_hex gs))"
  using set_spaced [of "CHR ''.''" "CHR '':''" i "map show_hex gs"] no_dot_hex by auto

text \<open>The groups of a text are read up to its end or a double colon.\<close>

definition ends_groups :: "string \<Rightarrow> bool" where
  "ends_groups rest \<longleftrightarrow> CHR ''.'' \<notin> set rest \<and> (rest = [] \<or> take 2 rest = ''::'')"

lemma read_nothing:
  assumes "ends_groups rest"
  shows "read_groups n i rest = ([], False, rest)"
proof (cases n)
  case (Suc m)
  have "read_ipv4 rest = None" "read_ipv4 (tl rest) = None"
    using assms no_dot_ipv4 by (cases rest; simp add: ends_groups_def)+
  moreover have "rest = [] \<or> (\<exists>r. rest = CHR '':'' # CHR '':'' # r)"
    using assms by (cases rest; cases "tl rest") (auto simp: ends_groups_def)
  ultimately show ?thesis
    using Suc by (auto simp: read_separator_def read_char_def read_number_def)
qed simp

lemma after_group: "ends_groups rest \<Longrightarrow>
    spaced (CHR '':'') (Suc i) ts @ rest = [] \<or> radix_digit 16 (hd (spaced (CHR '':'') (Suc i) ts @ rest)) = None"
  by (cases ts; cases rest) (auto simp: ends_groups_def)

lemma read_groups_text:
  assumes "ends_groups rest"
  shows "length gs \<le> n \<Longrightarrow> (\<And>g. g \<in> set gs \<Longrightarrow> g < 65536) \<Longrightarrow>
    read_groups n i (spaced (CHR '':'') i (map show_hex gs) @ rest) = (gs, False, rest)"
proof (induction gs arbitrary: n i)
  case Nil
  then show ?case using read_nothing [OF assms] by simp
next
  case (Cons g gs)
  then obtain m where n: "n = Suc m" by (cases n) auto
  let ?t = "spaced (CHR '':'') (Suc i) (map show_hex gs) @ rest"
  have "CHR ''.'' \<notin> set (show_hex g @ ?t)"
    using no_dot_hex no_dot_groups assms by (auto simp: ends_groups_def)
  then have "read_ipv4 (show_hex g @ ?t) = None" "read_ipv4 (CHR '':'' # show_hex g @ ?t) = None"
    by (auto intro!: no_dot_ipv4)
  moreover have "read_number 16 4 True 65535 (show_hex g @ ?t) = Some (g, ?t)"
    by (rule read_show_hex) (use Cons.prems(2) after_group [OF assms] in simp_all)
  moreover have "read_groups m (Suc i) ?t = (gs, False, rest)"
    by (rule Cons.IH) (use Cons.prems n in simp_all)
  moreover have "m = 0 \<longrightarrow> gs = []" using Cons.prems(1) n by auto
  ultimately show ?case
    by (cases "i = 0") (auto simp: n read_separator_def read_char_def)
qed

text \<open>What the search for zeros finds is a run of zeros.\<close>

definition zeros_at :: "nat list \<Rightarrow> nat \<Rightarrow> nat \<times> nat \<Rightarrow> bool" where
  "zeros_at gs i p \<longleftrightarrow> fst p + snd p \<le> i \<and> (\<forall>j < snd p. gs ! (fst p + j) = 0)"

lemma zero_span_found:
  "gs = pre @ ss \<Longrightarrow> length pre = i \<Longrightarrow> zeros_at gs i cur \<Longrightarrow> (0 < snd cur \<longrightarrow> fst cur + snd cur = i) \<Longrightarrow>
   zeros_at gs i longest \<Longrightarrow> zeros_at gs (length gs) (zero_span i cur longest ss)"
proof (induction i cur longest ss arbitrary: pre rule: zero_span.induct)
  case (2 i cur longest s ss)
  define c where "c = (if snd cur = 0 then i else fst cur, snd cur + 1)"
  have c: "zeros_at gs (Suc i) c" "fst c + snd c = Suc i" if "s = 0"
    using 2(3-6) that by (auto simp: zeros_at_def c_def nth_append less_Suc_eq)
  have l: "zeros_at gs (Suc i) longest" using 2(7) by (simp add: zeros_at_def)
  have gs: "gs = (pre @ [s]) @ ss" "length (pre @ [s]) = i + 1" using 2(3,4) by simp_all
  show ?case
  proof (cases "s = 0")
    case True
    have "zeros_at gs (length gs) (zero_span (i + 1) c (if snd c > snd longest then c else longest) ss)"
      by (rule 2(1) [OF True c_def gs]) (use c [OF True] l in \<open>simp_all\<close>)
    moreover have "zero_span i cur longest (s # ss) = zero_span (i + 1) c (if snd c > snd longest then c else longest) ss"
      using True by (simp only: zero_span.simps c_def Let_def if_True simp_thms)
    ultimately show ?thesis by simp
  next
    case False
    have "zeros_at gs (length gs) (zero_span (i + 1) (0, 0) longest ss)"
      by (rule 2(2) [OF False gs]) (use l in \<open>simp_all add: zeros_at_def\<close>)
    with False show ?thesis by simp
  qed
qed simp

lemma zeros_cut:
  assumes "zeros_at gs (length gs) (st, ln)"
  shows "gs = take st gs @ replicate ln 0 @ drop (st + ln) gs"
proof -
  have "take ln (drop st gs) = replicate ln 0"
    using assms by (intro nth_equalityI) (auto simp: zeros_at_def)
  then show ?thesis by (metis append_take_drop_id drop_drop add.commute)
qed

lemma read_ipv6_groups:
  assumes "length gs = 8" and "\<And>g. g \<in> set gs \<Longrightarrow> g < 65536"
  shows "read_ipv6 (groups_text gs) = Some (gs, [])"
  using read_groups_text [of "[]" gs 8 0] assms by (simp add: read_ipv6_def groups_text_def ends_groups_def)

lemma read_ipv6_cut:
  assumes "length xs + ln + length ys = 8" and "1 < ln"
    and "\<And>g. g \<in> set (xs @ ys) \<Longrightarrow> g < 65536"
  shows "read_ipv6 (groups_text xs @ ''::'' @ groups_text ys) = Some (xs @ replicate ln 0 @ ys, [])"
proof -
  have "read_groups 8 0 (groups_text xs @ ''::'' @ groups_text ys) = (xs, False, ''::'' @ groups_text ys)"
    unfolding groups_text_def
    by (rule read_groups_text) (use assms no_dot_groups in \<open>auto simp: ends_groups_def\<close>)
  moreover have "read_groups (7 - length xs) 0 (groups_text ys) = (ys, False, [])"
    using read_groups_text [of "[]" ys "7 - length xs" 0] assms
    by (simp add: groups_text_def ends_groups_def)
  ultimately show ?thesis
    using assms(1,2) by (simp add: read_ipv6_def read_char_def)
qed

lemma read_ipv4_odd: "read_ipv4 (CHR '':'' # s) = None" "read_ipv4 (CHR ''f'' # s) = None"
  by (simp_all add: read_ipv4_def read_octet_def read_separator_def read_number_def radix_digit_def)

lemma read_colon: "read_groups n 0 (CHR '':'' # s) = ([], False, CHR '':'' # s)"
  by (cases n) (simp_all add: read_separator_def read_ipv4_odd read_number_def)

lemma read_groups_pos:
  "0 < n \<Longrightarrow> read_groups n i s =
     (case (if 1 < n then read_separator (CHR '':'') i read_ipv4 s else None) of
        Some (os, s) \<Rightarrow> ([os ! 0 * 256 + os ! 1, os ! 2 * 256 + os ! 3], True, s)
      | None \<Rightarrow>
          (case read_separator (CHR '':'') i (read_number 16 4 True 65535) s of
             Some (g, s) \<Rightarrow> (case read_groups (n - 1) (i + 1) s of (gs, v4, s) \<Rightarrow> (g # gs, v4, s))
           | None \<Rightarrow> ([], False, s)))"
  by (cases n) (auto split: option.split)

lemma read_ipv6_double:
  "read_groups 7 0 r = (gs, v4, rest) \<Longrightarrow>
   read_ipv6 (CHR '':'' # CHR '':'' # r) = Some (replicate (8 - length gs) 0 @ gs, rest)"
  by (simp add: read_ipv6_def read_colon read_char_def)

lemma read_ipv6_mapped:
  assumes "a < 256" "b < 256" "c < 256" "d < 256"
  shows "read_ipv6 (''::ffff:'' @ ipv4_text [a, b, c, d])
      = Some ([0, 0, 0, 0, 0, 65535, a * 256 + b, c * 256 + d], [])"
proof -
  let ?v = "ipv4_text [a, b, c, d]"
  have "radix_digit 16 (CHR ''f'') = Some 15" by (simp add: radix_digit_def)
  then have "reads 16 (((''f'' @ ''f'') @ ''f'') @ ''f'') (((15 * 16 + 15) * 16 + 15) * 16 + 15)"
    by (intro reads_snoc reads_one)
  then have "reads 16 ''ffff'' 65535" by simp
  then have n: "read_number 16 4 True 65535 (''ffff'' @ CHR '':'' # ?v) = Some (65535, CHR '':'' # ?v)"
    by (rule read_number_reads) simp_all
  have "read_groups 6 1 (CHR '':'' # ?v) = ([a * 256 + b, c * 256 + d], True, [])"
    by (subst read_groups_pos) (simp_all add: read_separator_def read_char_def read_ipv4_text [OF assms])
  then have "read_groups 7 0 (''ffff'' @ CHR '':'' # ?v) = ([65535, a * 256 + b, c * 256 + d], True, [])"
    using n by (subst read_groups_pos) (simp_all add: read_separator_def read_ipv4_odd)
  from read_ipv6_double [OF this]
  have "read_ipv6 (CHR '':'' # CHR '':'' # ''ffff'' @ CHR '':'' # ?v)
      = Some (replicate 5 0 @ [65535, a * 256 + b, c * 256 + d], [])" by simp
  moreover have "replicate 5 (0 :: nat) = [0, 0, 0, 0, 0]" by (simp add: numeral_eq_Suc)
  ultimately show ?thesis by simp
qed

lemma eight_items: "length gs = 8 \<Longrightarrow> \<exists>a b c d e f g h. gs = [a, b, c, d, e, f, g, h]"
  by (auto simp: numeral_eq_Suc length_Suc_conv)

lemma eight: "length gs = 8 \<Longrightarrow> is_mapped gs \<Longrightarrow> gs = [0, 0, 0, 0, 0, 65535, gs ! 6, gs ! 7]"
  by (drule eight_items) (auto simp: is_mapped_def)

lemma read_ipv6_text:
  assumes len: "length gs = 8" and "\<And>g. g \<in> set gs \<Longrightarrow> g < 65536"
  shows "read_ipv6 (ipv6_text gs) = Some (gs, [])"
proof (cases "is_mapped gs")
  case True
  then have gs: "gs = [0, 0, 0, 0, 0, 65535, gs ! 6, gs ! 7]" using eight len by blast
  have "gs ! 6 < 65536" "gs ! 7 < 65536" using assms by simp_all
  then have "read_ipv6 (''::ffff:'' @ ipv4_text [gs ! 6 div 256, gs ! 6 mod 256, gs ! 7 div 256, gs ! 7 mod 256])
      = Some ([0, 0, 0, 0, 0, 65535, gs ! 6, gs ! 7], [])"
    by (subst read_ipv6_mapped) (simp_all add: less_mult_imp_div_less)
  then show ?thesis using True by (simp add: ipv6_text_def flip: gs)
next
  case False
  obtain st ln where p: "zero_span 0 (0, 0) (0, 0) gs = (st, ln)" by force
  have z: "zeros_at gs (length gs) (st, ln)"
    using zero_span_found [of gs "[]" gs 0 "(0, 0)" "(0, 0)"] p by (simp add: zeros_at_def)
  show ?thesis
  proof (cases "1 < ln")
    case True
    have "read_ipv6 (groups_text (take st gs) @ ''::'' @ groups_text (drop (st + ln) gs))
        = Some (take st gs @ replicate ln 0 @ drop (st + ln) gs, [])"
      by (rule read_ipv6_cut) (use True z assms in \<open>auto simp: zeros_at_def dest: in_set_takeD in_set_dropD\<close>)
    with True False p zeros_cut [OF z] show ?thesis by (simp add: ipv6_text_def)
  qed (use False p assms read_ipv6_groups in \<open>simp add: ipv6_text_def\<close>)
qed

lemma read_ipv4_of_ipv6: "length gs = 8 \<Longrightarrow> read_ipv4 (ipv6_text gs) = None"
proof (cases "is_mapped gs")
  case False
  have "CHR ''.'' \<notin> set (groups_text hs)" for hs using no_dot_groups by (simp add: groups_text_def)
  with False have "CHR ''.'' \<notin> set (ipv6_text gs)" by (simp add: ipv6_text_def split: prod.split)
  then show ?thesis by (rule no_dot_ipv4)
qed (simp add: ipv6_text_def read_ipv4_odd)

text \<open>An address is read back from its text, whichever of the 2^32 or the 2^128 it is: a run of zeros that
  is left out of the text is found again, and an address that stands for an IPv4 one is written with a dotted
  tail.\<close>

lemma parse_ip_text: "parse_ip (ip_text ip) = Some ip"
proof (cases ip)
  case (V4 w)
  then show ?thesis by (simp add: parse_ip_def ip_text_def octets_text octets_word)
next
  case (V6 w)
  have len: "length (segments w) = 8" by (simp add: segments_def)
  have "read_ipv6 (ipv6_text (segments w)) = Some (segments w, [])"
    by (rule read_ipv6_text [OF len]) (use pieces_less [of _ 16 8 w] in \<open>simp add: segments_def\<close>)
  with V6 show ?thesis
    by (simp add: parse_ip_def ip_text_def read_ipv4_of_ipv6 [OF len] segments_word)
qed

section \<open>What is shown as the public address\<close>

definition address_char :: "char \<Rightarrow> bool" where
  "address_char c \<longleftrightarrow> c \<in> set ''0123456789abcdef.:''"

lemma address_digit: "d < 16 \<Longrightarrow> address_char (hex_digit_char d)"
proof -
  have "list_all (\<lambda>d. address_char (hex_digit_char d)) [0..<16]" by code_simp
  then show "d < 16 \<Longrightarrow> address_char (hex_digit_char d)" by (simp add: list_all_iff)
qed

lemma address_show_nat: "list_all address_char (show_nat n)"
proof (induction n rule: show_nat.induct)
  case (1 n)
  have d: "d < 10 \<Longrightarrow> address_char (char_of (48 + d))" for d :: nat
    using address_digit [of d] by (simp add: hex_digit_char_def)
  show ?case using 1 d by (cases "n < 10") (simp_all add: show_nat.simps [of n])
qed

lemma address_show_hex: "list_all address_char (show_hex n)"
proof (induction n rule: show_hex.induct)
  case (1 n)
  then show ?case using address_digit by (cases "n < 16") (simp_all add: show_hex.simps [of n])
qed

lemma address_spaced:
  "address_char sep \<Longrightarrow> (\<And>t. t \<in> set ts \<Longrightarrow> list_all address_char t) \<Longrightarrow> list_all address_char (spaced sep i ts)"
  by (induction sep i ts rule: spaced.induct) auto

lemma address_ip_text: "list_all address_char (ip_text ip)"
proof -
  have v4: "list_all address_char (ipv4_text os)" for os
    using address_show_nat by (auto simp: ipv4_text_def address_char_def intro!: address_spaced)
  have v6: "list_all address_char (groups_text gs)" for gs
    using address_show_hex by (auto simp: groups_text_def address_char_def intro!: address_spaced)
  have "list_all address_char ''::ffff:''" by (simp add: address_char_def)
  then show ?thesis
    using v4 v6 by (auto simp: ip_text_def ipv6_text_def address_char_def split: Ip.split prod.split)
qed

lemma length_spaced:
  "(\<And>t. t \<in> set ts \<Longrightarrow> length t \<le> k) \<Longrightarrow>
   length (spaced sep i ts) \<le> (k + 1) * length ts - (if i = 0 then 1 else 0)"
proof (induction sep i ts rule: spaced.induct)
  case (2 sep i t ts)
  have "length (spaced sep (i + 1) ts) \<le> (k + 1) * length ts" using 2 by simp
  moreover have "length t \<le> k" using 2(2) by simp
  ultimately show ?case by auto
qed simp

lemma length_ipv4_text:
  assumes "length os = 4" and "\<And>v. v \<in> set os \<Longrightarrow> v < 256"
  shows "length (ipv4_text os) \<le> 15"
proof -
  have "length (show_nat v) \<le> 3" if "v \<in> set os" for v
    using length_show_nat [of v 2] assms(2) [OF that] by simp
  then show ?thesis using length_spaced [of "map show_nat os" 3 "CHR ''.''" 0] assms(1)
    by (auto simp: ipv4_text_def)
qed

lemma length_groups_text:
  assumes "\<And>g. g \<in> set gs \<Longrightarrow> g < 65536"
  shows "length (groups_text gs) \<le> 5 * length gs - 1"
proof -
  have "length (show_hex g) \<le> 4" if "g \<in> set gs" for g
    using length_show_hex [of g 3] assms [OF that] by simp
  then show ?thesis using length_spaced [of "map show_hex gs" 4 "CHR '':''" 0]
    by (auto simp: groups_text_def)
qed

lemma length_ipv6_text:
  assumes len: "length gs = 8" and small: "\<And>g. g \<in> set gs \<Longrightarrow> g < 65536"
  shows "length (ipv6_text gs) \<le> 39"
proof (cases "is_mapped gs")
  case True
  have "length (ipv4_text [gs ! 6 div 256, gs ! 6 mod 256, gs ! 7 div 256, gs ! 7 mod 256]) \<le> 15"
    by (rule length_ipv4_text) (use len small in \<open>auto intro!: less_mult_imp_div_less\<close>)
  with True show ?thesis by (simp add: ipv6_text_def)
next
  case False
  obtain st ln where p: "zero_span 0 (0, 0) (0, 0) gs = (st, ln)" by force
  have z: "st + ln \<le> 8"
    using zero_span_found [of gs "[]" gs 0 "(0, 0)" "(0, 0)"] p len by (simp add: zeros_at_def)
  have "length (groups_text (take st gs)) \<le> 5 * length (take st gs) - 1"
    "length (groups_text (drop (st + ln) gs)) \<le> 5 * length (drop (st + ln) gs) - 1"
    "length (groups_text gs) \<le> 5 * length gs - 1"
    by (rule length_groups_text, use small in \<open>blast dest: in_set_takeD in_set_dropD\<close>)+
  with False p z len show ?thesis by (auto simp: ipv6_text_def)
qed

lemma length_ip_text: "length (ip_text ip) \<le> (if is_ipv6 ip then 39 else 15)"
proof (cases ip)
  case (V4 w)
  have "length (ipv4_text (octets w)) \<le> 15"
    by (rule length_ipv4_text) (use pieces_less [of _ 8 4 w] in \<open>simp_all add: octets_def\<close>)
  with V4 show ?thesis by (simp add: ip_text_def is_ipv6_def)
next
  case (V6 w)
  have "length (ipv6_text (segments w)) \<le> 39"
    by (rule length_ipv6_text) (use pieces_less [of _ 16 8 w] in \<open>simp_all add: segments_def\<close>)
  with V6 show ?thesis by (simp add: ip_text_def is_ipv6_def)
qed

text \<open>C11: whatever the address service answers, what reaches the status bar is an address of the family that was
  asked for, the one the answer contains: at most 39 characters (15 for IPv4), only hexadecimal digits,
  colons and dots, so neither a control sequence nor a text of another's making.\<close>

theorem public_ip_is_an_address:
  assumes "fetch_ip http url want_v6 = Some s"
  shows "(\<exists>body ip. http url = Some body \<and> parse_ip (trim body) = Some ip \<and> parse_ip s = Some ip \<and> is_ipv6 ip = want_v6)
    \<and> length s \<le> (if want_v6 then 39 else 15) \<and> list_all address_char s"
proof -
  obtain body ip where "http url = Some body" "parse_ip (trim body) = Some ip" "is_ipv6 ip = want_v6" "s = ip_text ip"
    using assms by (auto simp: fetch_ip_def split: option.splits if_splits)
  then show ?thesis
    using length_ip_text [of ip] address_ip_text [of ip] parse_ip_text by blast
qed

theorem public_ip_is_an_address_witness:
  "(\<exists>body ip. Some '' ::1'' = Some body \<and> parse_ip (trim body) = Some ip
      \<and> parse_ip ''::1'' = Some ip \<and> is_ipv6 ip = True)
    \<and> length ''::1'' \<le> (if True then 39 else 15) \<and> list_all address_char ''::1''"
proof (rule public_ip_is_an_address
    [of "\<lambda>_. Some '' ::1''" "''https://api6.ipify.org''" True])
  have zero: "pieces k n (0 :: 128 word) = replicate n 0" for k n
    by (induction n) (simp_all add: replicate_append_same)
  have "segments 1 = pieces 16 (Suc 7) (1 :: 128 word)" by (simp add: segments_def)
  also have "\<dots> = pieces 16 7 (drop_bit 16 (1 :: 128 word)) @ [unat (1 AND mask 16 :: 128 word)]" by (rule pieces.simps)
  also have "drop_bit 16 (1 :: 128 word) = 0" by (simp add: drop_bit_eq_div)
  also have "unat (1 AND mask 16 :: 128 word) = 1" by (simp add: mask_eq_exp_minus_1)
  finally have "segments 1 = replicate 7 0 @ [1]" by (simp add: zero)
  also have "\<dots> = [0, 0, 0, 0, 0, 0, 0, 1]" by code_simp
  finally have "segments 1 = [0, 0, 0, 0, 0, 0, 0, 1]" .
  moreover have "show_hex (Suc 0) = ''1''" by code_simp
  ultimately have shown: "ip_text (V6 1) = ''::1''"
    by (simp add: ip_text_def ipv6_text_def is_mapped_def groups_text_def)
  have "trim '' ::1'' = ''::1''" by code_simp
  with parse_ip_text [of "V6 1"] shown
  show "fetch_ip (\<lambda>_. Some '' ::1'') ''https://api6.ipify.org'' True = Some ''::1''"
    by (simp add: fetch_ip_def is_ipv6_def)
qed

end
