(* ===== verification/LogTail.thy ===== *)
theory LogTail
  imports LogFile
begin

text \<open>
  \<open>Tail\<close> of \<open>src/cli/commands/logs.rs\<close>: following a log file.  A poll reads what was appended since the
  last one; the bytes of a line that is not complete yet are kept, so that neither a line nor a
  character is cut where two reads meet.  A file is its inode and its content.
\<close>

section \<open>Polling\<close>

record Tail =
  tl_offset :: nat
  tl_inode :: nat
  tl_pending :: string

definition open_at :: "LogFileData \<Rightarrow> nat \<Rightarrow> Tail" where
  "open_at f offset =
     \<lparr>tl_offset = min offset (length (fi_content f)), tl_inode = fi_inode f, tl_pending = []\<rparr>"

definition trim_line_end :: "string \<Rightarrow> string" where
  "trim_line_end t = rev (dropWhile (\<lambda>b. b = CHR 0x0A \<or> b = CHR 0x0D) (rev t))"

text \<open>The complete lines at the front of the pending bytes.\<close>

function drain_lines :: "string \<Rightarrow> string list \<times> string" where
  "drain_lines pending =
     (case position (\<lambda>b. b = CHR 0x0A) pending of
        None \<Rightarrow> ([], pending)
      | Some pos \<Rightarrow>
          (case drain_lines (drop (Suc pos) pending) of
             (ls, rest) \<Rightarrow> (take (Suc pos) pending # ls, rest)))"
  by pat_completeness auto
termination
proof (relation "measure length")
  fix pending :: string and pos
  assume "position (\<lambda>b. b = CHR 0x0A) pending = Some pos"
  then have "pending \<noteq> []" by auto
  then show "(drop (Suc pos) pending, pending) \<in> measure length" by simp
qed simp

declare drain_lines.simps [simp del]

definition shown_lines :: "string list \<Rightarrow> string list" where
  "shown_lines ls = filter (\<lambda>t. t \<noteq> []) (map (\<lambda>l. trim_line_end (from_utf8_lossy l)) ls)"

definition rotated :: "Tail \<Rightarrow> LogFileData option \<Rightarrow> bool" where
  "rotated t file \<longleftrightarrow>
     (case file of None \<Rightarrow> True | Some f \<Rightarrow> fi_inode f \<noteq> tl_inode t \<or> length (fi_content f) < tl_offset t)"

definition poll_tail :: "Tail \<Rightarrow> LogFileData option \<Rightarrow> string list \<times> Tail" where
  "poll_tail t file =
     (case file of
        None \<Rightarrow> ([], t)
      | Some f \<Rightarrow>
          (let t = (if rotated t file then t\<lparr>tl_inode := fi_inode f, tl_offset := 0, tl_pending := []\<rparr> else t);
               buf = drop (tl_offset t) (fi_content f);
               (ls, rest) = drain_lines (tl_pending t @ buf)
           in (shown_lines ls, t\<lparr>tl_offset := tl_offset t + length buf, tl_pending := rest\<rparr>)))"

fun poll_all :: "Tail \<Rightarrow> LogFileData option list \<Rightarrow> string list \<times> Tail" where
  "poll_all t [] = ([], t)"
| "poll_all t (f # fs) = (case poll_tail t f of (ls, t) \<Rightarrow> (case poll_all t fs of (ms, t) \<Rightarrow> (ls @ ms, t)))"

section \<open>Where the reads fall does not matter\<close>

lemma drain_no_newline:
  assumes "CHR 0x0A \<notin> set s"
  shows "drain_lines s = ([], s)"
proof -
  have "position (\<lambda>b. b = CHR 0x0A) s = None" using assms by (auto simp: position_None)
  then show ?thesis by (subst drain_lines.simps) simp
qed

lemma drain_line:
  assumes "CHR 0x0A \<notin> set l"
  shows "drain_lines (l @ CHR 0x0A # s) = (case drain_lines s of (ls, rest) \<Rightarrow> ((l @ [CHR 0x0A]) # ls, rest))"
proof -
  have "position (\<lambda>b. b = CHR 0x0A) (l @ CHR 0x0A # s) = Some (length l)"
    using assms by (induction l) auto
  then show ?thesis by (subst drain_lines.simps) simp
qed

lemma drain_append:
  "drain_lines (a @ b) =
     (case drain_lines a of (ls, p) \<Rightarrow> (case drain_lines (p @ b) of (ms, q) \<Rightarrow> (ls @ ms, q)))"
proof (induction "length a" arbitrary: a rule: less_induct)
  case less
  show ?case
  proof (cases "CHR 0x0A \<in> set a")
    case False
    then show ?thesis by (simp add: drain_no_newline)
  next
    case True
    then obtain l s where a: "a = l @ CHR 0x0A # s" and l: "CHR 0x0A \<notin> set l"
      by (blast dest: split_list_first)
    have IH: "drain_lines (s @ b) =
        (case drain_lines s of (ls, p) \<Rightarrow> (case drain_lines (p @ b) of (ms, q) \<Rightarrow> (ls @ ms, q)))"
      by (rule less) (simp add: a)
    have "drain_lines (a @ b) =
        (case drain_lines (s @ b) of (ls, rest) \<Rightarrow> ((l @ [CHR 0x0A]) # ls, rest))"
      using drain_line [OF l, of "s @ b"] by (simp add: a)
    then show ?thesis
      unfolding IH a drain_line [OF l] by (simp split: prod.splits)
  qed
qed

lemma drain_rest_no_newline: "CHR 0x0A \<notin> set (snd (drain_lines s))"
proof (induction "length s" arbitrary: s rule: less_induct)
  case less
  show ?case
  proof (cases "CHR 0x0A \<in> set s")
    case True
    then obtain l r where s: "s = l @ CHR 0x0A # r" and l: "CHR 0x0A \<notin> set l"
      by (blast dest: split_list_first)
    have "CHR 0x0A \<notin> set (snd (drain_lines r))" by (rule less) (simp add: s)
    then show ?thesis unfolding s drain_line [OF l] by (cases "drain_lines r") simp
  qed (simp add: drain_no_newline)
qed

text \<open>The files of successive polls: one inode, each content an extension of the one before.\<close>

fun growing :: "nat \<Rightarrow> string \<Rightarrow> LogFileData option list \<Rightarrow> bool" where
  "growing ino c [] \<longleftrightarrow> True"
| "growing ino c (None # fs) \<longleftrightarrow> False"
| "growing ino c (Some f # fs) \<longleftrightarrow>
     fi_inode f = ino \<and> take (length c) (fi_content f) = c \<and> growing ino (fi_content f) fs"

fun final_content :: "string \<Rightarrow> LogFileData option list \<Rightarrow> string" where
  "final_content c [] = c"
| "final_content c (None # fs) = final_content c fs"
| "final_content c (Some f # fs) = final_content (fi_content f) fs"

definition tail_at :: "nat \<Rightarrow> string \<Rightarrow> string \<Rightarrow> Tail" where
  "tail_at ino c p = \<lparr>tl_offset = length c, tl_inode = ino, tl_pending = p\<rparr>"

lemma take_self_le: "take (length c) s = c \<Longrightarrow> length c \<le> length s"
  by (drule arg_cong [of _ _ length]) simp

lemma poll_tail_growing:
  assumes "fi_inode f = ino" "take (length c) (fi_content f) = c"
  shows "poll_tail (tail_at ino c p) (Some f) =
    (case drain_lines (p @ drop (length c) (fi_content f)) of
       (ls, rest) \<Rightarrow> (shown_lines ls, tail_at ino (fi_content f) rest))"
proof -
  have le: "length c \<le> length (fi_content f)"
    using assms(2) by (rule take_self_le)
  then show ?thesis
    using assms by (auto simp: poll_tail_def rotated_def tail_at_def Let_def split: prod.splits)
qed

lemma final_growing: "growing ino c fs \<Longrightarrow> take (length c) (final_content c fs) = c"
proof (induction ino c fs rule: growing.induct)
  case (3 ino c f fs)
  then have a: "take (length c) (fi_content f) = c"
    and b: "take (length (fi_content f)) (final_content (fi_content f) fs) = fi_content f" by simp_all
  have "length c \<le> length (fi_content f)" using a by (rule take_self_le)
  have "take (length c) (final_content (fi_content f) fs)
      = take (length c) (take (length (fi_content f)) (final_content (fi_content f) fs))"
    using \<open>length c \<le> length (fi_content f)\<close> by (simp add: min_absorb1)
  then show ?case using a b by simp
qed simp_all

lemma shown_append: "shown_lines (a @ b) = shown_lines a @ shown_lines b"
  by (simp add: shown_lines_def)

lemma poll_all_growing:
  assumes "growing ino c fs" "CHR 0x0A \<notin> set p"
  shows "poll_all (tail_at ino c p) fs =
    (case drain_lines (p @ drop (length c) (final_content c fs)) of
       (ls, rest) \<Rightarrow> (shown_lines ls, tail_at ino (final_content c fs) rest))"
  using assms
proof (induction ino c fs arbitrary: p rule: growing.induct)
  case (1 ino c)
  then show ?case by (simp add: drain_no_newline shown_lines_def)
next
  case (3 ino c f fs)
  let ?new = "drop (length c) (fi_content f)"
  let ?later = "drop (length (fi_content f)) (final_content (fi_content f) fs)"
  have f: "fi_inode f = ino" "take (length c) (fi_content f) = c" and g: "growing ino (fi_content f) fs"
    using 3(2) by simp_all
  obtain ls q where d: "drain_lines (p @ ?new) = (ls, q)" by fastforce
  have q: "CHR 0x0A \<notin> set q" using drain_rest_no_newline [of "p @ ?new"] by (simp add: d)
  have whole: "drop (length c) (final_content (fi_content f) fs) = ?new @ ?later"
  proof -
    have "final_content (fi_content f) fs = fi_content f @ ?later"
      using final_growing [OF g] by (metis append_take_drop_id)
    moreover have "length c \<le> length (fi_content f)" using f(2) by (rule take_self_le)
    ultimately show ?thesis by (metis drop_append diff_is_0_eq drop_0)
  qed
  have "drain_lines (p @ drop (length c) (final_content c (Some f # fs))) =
      (case drain_lines (q @ ?later) of (ms, r) \<Rightarrow> (ls @ ms, r))"
    using drain_append [of "p @ ?new" ?later] by (simp add: whole d)
  then show ?case
    using 3(1) [OF g q] poll_tail_growing [OF f, of p]
    by (simp add: d shown_append split: prod.splits)
qed simp_all

text \<open>C34: Following a log shows each complete line that is appended once, in order, wherever the reads
  fall: as long as the file only grows, the polls together show exactly the complete lines of what
  was appended since the follower was opened, as one single read of it would, and the bytes that
  remain are the unfinished last line.\<close>

theorem follow_reads_each_line_once:
  assumes "growing (fi_inode f) (fi_content f) fs"
  shows "poll_all (open_at f (length (fi_content f))) fs =
    (case drain_lines (drop (length (fi_content f)) (final_content (fi_content f) fs)) of
       (ls, rest) \<Rightarrow> (shown_lines ls, tail_at (fi_inode f) (final_content (fi_content f) fs) rest))"
  using poll_all_growing [OF assms, of "[]"] by (simp add: open_at_def tail_at_def)

definition sample_old :: LogFileData where
  "sample_old = \<lparr>fi_inode = 7, fi_content = ''ab''\<rparr>"

definition sample_files :: "LogFileData option list" where
  "sample_files = map (\<lambda>t. Some \<lparr>fi_inode = 7, fi_content = ''abfirst'' @ t\<rparr>)
     [[CHR 0xD0], [CHR 0xD0, CHR 0xBF, CHR 0x0A], [CHR 0xD0, CHR 0xBF, CHR 0x0A, CHR 0x0A] @ ''rest'']"

theorem follow_reads_each_line_once_witness:
  "fst (poll_all (open_at sample_old (length (fi_content sample_old))) sample_files)
     = [''first'' @ [CHR 0xD0, CHR 0xBF]]"
proof -
  have g: "growing (fi_inode sample_old) (fi_content sample_old) sample_files" by code_simp
  show ?thesis unfolding follow_reads_each_line_once [OF g] by code_simp
qed

text \<open>A rotation is different: what was appended to the old file after the last poll, and the unfinished
  line that was kept, are never shown.\<close>

lemma rotation_drops_tail:
  assumes "fi_inode old \<noteq> fi_inode new"
  shows "fst (poll_all (tail_at (fi_inode old) c p) [Some new]) = shown_lines (fst (drain_lines (fi_content new)))"
  using assms by (simp add: poll_tail_def rotated_def tail_at_def split: prod.splits)

end
