(* ===== verification/CliSession.thy ===== *)
theory CliSession
  imports CliResolve Requests Dispatch ConfigFile NetInfo Decimal LogTail
begin

text \<open>
  \<open>src/cli/client.rs\<close> and the output of \<open>src/cli/output.rs\<close>: the connection of one command line
  call to the core.  A command is a function on the state \<open>Cli\<close> of the process that returns an
  error or a value.  What the core will send on each further connection is given beforehand, as the
  frames in their order with the time (in milliseconds) that passes before each of them: a command
  is proved correct for every behaviour of the core.  \<open>CliEnv\<close> are the answers of the system.
\<close>

section \<open>The state of a call\<close>

type_synonym arrivals = "(nat \<times> (string + TcpMessage)) list"

datatype Said = Stdout string | StdoutJson json | Stderr string | Notify string string

record CliEnv =
  ce_lc :: "string \<Rightarrow> string"
  ce_xdg :: "string option"
  ce_uid :: nat
  ce_pid :: nat
  ce_nanos :: "nat \<Rightarrow> nat"
  ce_write :: "nat \<Rightarrow> string option"
  ce_spawn :: "string \<Rightarrow> string option"
  ce_save :: "AppConfig \<Rightarrow> string option"
  ce_stdin :: "string + string list"
  ce_config_json :: "json option"
  ce_systemd_enabled :: bool
  ce_systemctl_restart :: "string option"
  ce_register_desktop :: "string option"
  ce_setup_systemd :: "string option"
  ce_teardown_systemd :: "string option"
  ce_linger :: bool
  ce_unit_path :: string
  ce_core_binary :: string
  ce_has_caps :: bool
  ce_tui_version :: string
  ce_http :: "string \<Rightarrow> string option"
  ce_date :: "int \<Rightarrow> string option"
  ce_now :: int
  ce_parse_time :: "string \<Rightarrow> string \<Rightarrow> int option"
  ce_dirs :: DirEnv
  ce_follow :: "LogFileData option list"

record Cli =
  cl_conns :: "(string + arrivals) list"
  cl_arrivals :: arrivals
  cl_sent :: "(string \<times> string \<times> json) list"
  cl_timeout :: nat
  cl_warnings :: "Warning list"
  cl_cfg :: AppConfig
  cl_file :: AppConfig
  cl_out :: "Said list"
  cl_seq :: nat
  cl_spawned :: nat
  cl_disk :: Disk

type_synonym 'a cli = "Cli \<Rightarrow> (CliError + 'a) \<times> Cli"

definition ret :: "'a \<Rightarrow> 'a cli" where
  "ret x s = (Inr x, s)"

definition fail :: "CliError \<Rightarrow> 'a cli" where
  "fail e s = (Inl e, s)"

definition andThen :: "'a cli \<Rightarrow> ('a \<Rightarrow> 'b cli) \<Rightarrow> 'b cli" where
  "andThen m f s = (case m s of (Inl e, s) \<Rightarrow> (Inl e, s) | (Inr x, s) \<Rightarrow> f x s)"

definition lift :: "CliError + 'a \<Rightarrow> 'a cli" where
  "lift r s = (r, s)"

definition require :: "bool \<Rightarrow> CliError \<Rightarrow> unit cli" where
  "require b e = (if b then ret () else fail e)"

definition get_cli :: "(Cli \<Rightarrow> 'a) \<Rightarrow> 'a cli" where
  "get_cli f s = (Inr (f s), s)"

definition modify :: "(Cli \<Rightarrow> Cli) \<Rightarrow> unit cli" where
  "modify f s = (Inr (), f s)"

lemma ret_simp [simp]: "ret x s = (Inr x, s)"
  by (simp add: ret_def)

lemma fail_simp [simp]: "fail e s = (Inl e, s)"
  by (simp add: fail_def)

lemma lift_simp [simp]: "lift r s = (r, s)"
  by (simp add: lift_def)

lemma modify_simp [simp]: "modify f s = (Inr (), f s)"
  by (simp add: modify_def)

lemma get_cli_simp [simp]: "get_cli f s = (Inr (f s), s)"
  by (simp add: get_cli_def)

lemma require_simp [simp]: "require b e s = (if b then (Inr (), s) else (Inl e, s))"
  by (simp add: require_def)

lemma case_unit_any [simp]: "(case u of () \<Rightarrow> x) = x"
  by (induction u) (rule unit.case)

lemma andThen_Inr: "m s = (Inr x, s') \<Longrightarrow> andThen m f s = f x s'"
  by (simp add: andThen_def)

lemma andThen_Inl: "m s = (Inl e, s') \<Longrightarrow> andThen m f s = (Inl e, s')"
  by (simp add: andThen_def)

lemma andThen_OkE:
  assumes "andThen m f s = (Inr y, t)"
  obtains x u where "m s = (Inr x, u)" "f x u = (Inr y, t)"
  using assms by (auto simp: andThen_def split: prod.splits sum.splits)

section \<open>Output\<close>

definition say :: "Said \<Rightarrow> unit cli" where
  "say x = modify (\<lambda>s. s\<lparr>cl_out := cl_out s @ [x]\<rparr>)"

definition println :: "string \<Rightarrow> unit cli" where
  "println t = say (Stdout t)"

definition cli_format_bytes :: "int \<Rightarrow> string" where
  "cli_format_bytes bytes =
     (let b = as_f64 (nat bytes)
      in if b < 1024 then show_nat b @ '' B''
         else if b < 1024 ^ 2 then one_decimal b 1024 @ '' KiB''
         else if b < 1024 ^ 3 then one_decimal b (1024 ^ 2) @ '' MiB''
         else if b < 1024 ^ 4 then two_decimals b (1024 ^ 3) @ '' GiB''
         else two_decimals b (1024 ^ 4) @ '' TiB'')"

definition out_json :: "json \<Rightarrow> unit cli" where
  "out_json j = say (StdoutJson j)"

definition out_line :: "GlobalArgs \<Rightarrow> string \<Rightarrow> unit cli" where
  "out_line g t = (if gl_json g then ret () else println t)"

definition out_note :: "GlobalArgs \<Rightarrow> string \<Rightarrow> unit cli" where
  "out_note g t = (if gl_quiet g \<or> gl_json g then ret () else say (Stderr t))"

definition out_ok :: "GlobalArgs \<Rightarrow> string \<Rightarrow> json \<Rightarrow> unit cli" where
  "out_ok g human result =
     (if gl_json g then out_json (JObj [(''ok'', JBool True), (''result'', result)])
      else out_line g human)"

section \<open>Reaching the core\<close>

definition spawn_allowed :: "GlobalArgs \<Rightarrow> bool" where
  "spawn_allowed g \<longleftrightarrow> \<not> gl_no_spawn g \<and> gl_tcp g = None \<and> gl_socket g = None"

definition split_bracket :: "string \<Rightarrow> (string \<times> string) option" where
  "split_bracket s =
     (case str_find '']:'' s of None \<Rightarrow> None | Some i \<Rightarrow> Some (take i s, drop (i + 2) s))"

definition parse_tcp :: "string \<Rightarrow> CliError + Endpoint" where
  "parse_tcp value =
     (let value = trim value;
          parts = (case strip_prefix ''['' value of
                     Some rest \<Rightarrow> split_bracket rest
                   | None \<Rightarrow> rsplit_once (CHR '':'') value)
      in (case parts of
            None \<Rightarrow> Inl (Usage (''invalid TCP endpoint: '' @ value))
          | Some (host, port) \<Rightarrow>
              (case parse_unsigned 16 port of
                 None \<Rightarrow> Inl (Usage (''invalid TCP port in: '' @ value))
               | Some p \<Rightarrow> Inr (Tcp host p))))"

definition cli_endpoint :: "CliEnv \<Rightarrow> GlobalArgs \<Rightarrow> AppConfig \<Rightarrow> CliError + Endpoint" where
  "cli_endpoint env g cfg =
     (case gl_tcp g of
        Some tcp \<Rightarrow> parse_tcp tcp
      | None \<Rightarrow>
          (case gl_socket g of
             Some path \<Rightarrow> Inr (Unix path)
           | None \<Rightarrow> Inr (endpoint (ce_xdg env) (ce_uid env) cfg)))"

definition seconds :: "nat \<Rightarrow> nat" where
  "seconds n = n * 1000"

definition arg_timeout :: "GlobalArgs \<Rightarrow> nat \<Rightarrow> nat" where
  "arg_timeout g n = (case gl_timeout g of Some t \<Rightarrow> t | None \<Rightarrow> n)"

text \<open>\<open>CoreConnection::connect_endpoint\<close>: the next outcome.\<close>

definition take_conn :: "(string + arrivals) cli" where
  "take_conn s =
     (case cl_conns s of
        [] \<Rightarrow> (Inr (Inl ''connection refused''), s)
      | r # rest \<Rightarrow> (Inr r, s\<lparr>cl_conns := rest\<rparr>))"

definition from_conn :: "GlobalArgs \<Rightarrow> AppConfig \<Rightarrow> arrivals \<Rightarrow> unit cli" where
  "from_conn g cfg frames =
     modify (\<lambda>s. s\<lparr>cl_arrivals := frames, cl_cfg := cfg, cl_timeout := seconds (arg_timeout g 10),
       cl_warnings := []\<rparr>)"

definition session_open :: "CliEnv \<Rightarrow> GlobalArgs \<Rightarrow> unit cli" where
  "session_open env g =
     andThen (get_cli cl_file) (\<lambda>cfg.
     andThen (lift (cli_endpoint env g cfg)) (\<lambda>ep.
     andThen take_conn (\<lambda>conn.
     (case conn of
        Inl e \<Rightarrow> fail (Offline (''cannot reach whoisthat-core at '' @ describe ep @ '': '' @ e))
      | Inr frames \<Rightarrow> from_conn g cfg frames))))"

fun retry_open :: "nat \<Rightarrow> CliError \<Rightarrow> CliEnv \<Rightarrow> GlobalArgs \<Rightarrow> unit cli" where
  "retry_open 0 e env g s = (Inl e, s)"
| "retry_open (Suc n) e env g s =
     (case session_open env g s of
        (Inr (), s) \<Rightarrow> (Inr (), s)
      | (Inl _, s) \<Rightarrow> retry_open n e env g s)"

text \<open>Whether the daemon could be started; the configuration gives it its log level.\<close>

definition spawn_core :: "CliEnv \<Rightarrow> unit cli" where
  "spawn_core env s =
     (case ce_spawn env (c_log_level (cl_file s)) of
        Some e \<Rightarrow> (Inl (Offline (''failed to start whoisthat-core: '' @ e)), s)
      | None \<Rightarrow> (Inr (), s\<lparr>cl_spawned := cl_spawned s + 1\<rparr>))"

definition open_or_spawn :: "CliEnv \<Rightarrow> GlobalArgs \<Rightarrow> unit cli" where
  "open_or_spawn env g s =
     (case session_open env g s of
        (Inr (), s) \<Rightarrow> (Inr (), s)
      | (Inl e, s) \<Rightarrow>
          if \<not> spawn_allowed g then (Inl e, s)
          else andThen (spawn_core env) (\<lambda>_.
                 retry_open 300 (Offline ''whoisthat-core did not become reachable within 30s'') env g) s)"

definition set_timeout :: "nat \<Rightarrow> unit cli" where
  "set_timeout secs = modify (\<lambda>s. s\<lparr>cl_timeout := seconds secs\<rparr>)"

section \<open>Requests and replies\<close>

text \<open>The process, the clock in nanoseconds (0 before 1970) and a counter.\<close>

definition next_id :: "nat \<Rightarrow> nat \<Rightarrow> nat \<Rightarrow> string" where
  "next_id pid nanos n = show_nat pid @ ''-'' @ show_nat nanos @ ''-'' @ show_nat n"

text \<open>Two requests of a process never carry the same id, whatever the clock does.\<close>

lemma show_nat_inject: "show_nat m = show_nat n \<longleftrightarrow> m = n"
  by (metis reads_def reads_show_nat)

lemma no_dash_nat: "CHR ''-'' \<notin> set (show_nat n)"
proof
  assume "CHR ''-'' \<in> set (show_nat n)"
  then have "radix_digit 10 (CHR ''-'') \<noteq> None" using reads_show_nat [of n] by (auto simp: reads_def list_all_iff)
  then show False by (simp add: radix_digit_def)
qed

lemma next_id_unique:
  assumes "next_id pid t m = next_id pid t2 n"
  shows "m = n"
proof -
  have counter: "takeWhile (\<lambda>c. c \<noteq> CHR ''-'') (rev (next_id pid t n)) = rev (show_nat n)" for t n
    using no_dash_nat [of n] by (auto simp: next_id_def takeWhile_tail takeWhile_eq_all_conv)
  from assms counter [of t m] counter [of t2 n] show ?thesis by (simp add: show_nat_inject)
qed

definition session_send :: "CliEnv \<Rightarrow> string \<Rightarrow> json \<Rightarrow> string cli" where
  "session_send env name data s =
     (let i = next_id (ce_pid env) (ce_nanos env (cl_seq s)) (cl_seq s);
          t = s\<lparr>cl_seq := cl_seq s + 1\<rparr>
      in (case ce_write env (cl_seq s) of
            Some e \<Rightarrow> (Inl (IoFailed e), t)
          | None \<Rightarrow> (Inr i, t\<lparr>cl_sent := cl_sent t @ [(i, name, data)]\<rparr>)))"

datatype (plugins only: code size) Reply =
    ReplyId (expect: "string list") (fatal_warns: "string list")
  | Broadcast (pred: "TcpMessage \<Rightarrow> bool") (fatal_warns: "string list")

definition is_answer :: "string \<Rightarrow> Reply \<Rightarrow> TcpMessage \<Rightarrow> bool" where
  "is_answer i reply m \<longleftrightarrow>
     (case reply of
        ReplyId ex _ \<Rightarrow> tm_id m = Some i \<and> tm_msg m \<in> set ex
      | Broadcast p _ \<Rightarrow> p m)"

text \<open>The warning a frame carries for the request.\<close>

definition own_warning :: "string \<Rightarrow> TcpMessage \<Rightarrow> Warning option" where
  "own_warning i m = (if tm_id m = Some i then dec_warning (tm_data m) else None)"

text \<open>The time to wait starts again with every frame.\<close>

fun wait_frames ::
  "nat \<Rightarrow> string \<Rightarrow> Reply \<Rightarrow> Warning list \<Rightarrow> arrivals \<Rightarrow> (CliError + json) \<times> Warning list \<times> arrivals" where
  "wait_frames limit i reply ws [] =
     (Inl (Timeout (''waiting for reply to '' @ quoted i)), ws, [])"
| "wait_frames limit i reply ws ((gap, r) # rest) =
     (if limit < gap then (Inl (Timeout (''waiting for reply to '' @ quoted i)), ws, (gap - limit, r) # rest)
      else (case r of
        Inl e \<Rightarrow> (Inl (IoFailed e), ws, rest)
      | Inr m \<Rightarrow>
          if tm_msg m = ''warn''
          then (case own_warning i m of
                  None \<Rightarrow> wait_frames limit i reply ws rest
                | Some w \<Rightarrow>
                    if w_key w \<in> set (fatal_warns reply) then (Inl (CoreError (w_content w)), ws, rest)
                    else wait_frames limit i reply (ws @ [w]) rest)
          else if is_answer i reply m then (Inr (tm_data m), ws, rest)
          else wait_frames limit i reply ws rest))"

definition decode :: "(json \<Rightarrow> 'a option) \<Rightarrow> json \<Rightarrow> CliError + 'a" where
  "decode d j = (case d j of None \<Rightarrow> Inl JsonInvalid | Some x \<Rightarrow> Inr x)"

definition session_wait :: "(json \<Rightarrow> 'a option) \<Rightarrow> string \<Rightarrow> Reply \<Rightarrow> 'a cli" where
  "session_wait d i reply s =
     (case wait_frames (cl_timeout s) i reply (cl_warnings s) (cl_arrivals s) of
        (r, ws, rest) \<Rightarrow>
          let s = s\<lparr>cl_warnings := ws, cl_arrivals := rest\<rparr>
          in (case r of Inl e \<Rightarrow> (Inl e, s) | Inr j \<Rightarrow> (decode d j, s)))"

definition session_request ::
  "CliEnv \<Rightarrow> string \<Rightarrow> json \<Rightarrow> (json \<Rightarrow> 'a option) \<Rightarrow> Reply \<Rightarrow> 'a cli" where
  "session_request env name data d reply =
     andThen (session_send env name data) (\<lambda>i. session_wait d i reply)"

definition session_state :: "CliEnv \<Rightarrow> ApplicationState cli" where
  "session_state env =
     session_request env ''get-application-state'' (JObj []) dec_app_state (ReplyId [''application-state''] [])"

text \<open>\<open>recv\_until\<close> on the frames of the connection, with one deadline for the whole wait.\<close>

fun recv_within :: "nat \<Rightarrow> (TcpMessage \<Rightarrow> bool) \<Rightarrow> arrivals \<Rightarrow> (string + TcpMessage) \<times> arrivals" where
  "recv_within left matches [] = (Inl ''timed out waiting for IPC message'', [])"
| "recv_within left matches ((gap, r) # rest) =
     (if left = 0 \<or> left < gap then (Inl ''timed out waiting for IPC message'', rest)
      else (case r of
              Inl e \<Rightarrow> (Inl e, rest)
            | Inr m \<Rightarrow> if matches m then (Inr m, rest) else recv_within (left - gap) matches rest))"

definition recv_until_cli :: "nat \<Rightarrow> (TcpMessage \<Rightarrow> bool) \<Rightarrow> TcpMessage cli" where
  "recv_until_cli limit matches s =
     (case recv_within limit matches (cl_arrivals s) of
        (Inl e, rest) \<Rightarrow> (Inl (IoFailed e), s\<lparr>cl_arrivals := rest\<rparr>)
      | (Inr m, rest) \<Rightarrow> (Inr m, s\<lparr>cl_arrivals := rest\<rparr>))"

definition take_warnings :: "Warning list cli" where
  "take_warnings s = (Inr (cl_warnings s), s\<lparr>cl_warnings := []\<rparr>)"

fun note_warnings :: "GlobalArgs \<Rightarrow> Warning list \<Rightarrow> unit cli" where
  "note_warnings g [] = ret ()"
| "note_warnings g (w # ws) =
     andThen (if w_content w = [] then ret ()
              else if w_key w = [] then out_note g (w_content w)
              else out_note g (''note: '' @ w_content w))
       (\<lambda>_. note_warnings g ws)"

definition flush_warnings :: "GlobalArgs \<Rightarrow> unit cli" where
  "flush_warnings g = andThen take_warnings (note_warnings g)"

text \<open>\<open>config::save\_config\<close>: a failure is only logged.  The copy in the session is set as well.\<close>

definition save_cfg :: "CliEnv \<Rightarrow> (AppConfig \<Rightarrow> AppConfig) \<Rightarrow> unit cli" where
  "save_cfg env f =
     modify (\<lambda>s. let cfg = f (cl_cfg s)
                  in s\<lparr>cl_cfg := cfg, cl_file := (if ce_save env cfg = None then cfg else cl_file s)\<rparr>)"

section \<open>What a wait accepts\<close>

definition passed :: "nat \<Rightarrow> string \<Rightarrow> Reply \<Rightarrow> nat \<times> (string + TcpMessage) \<Rightarrow> bool" where
  "passed limit i reply a \<longleftrightarrow> fst a \<le> limit \<and>
     (\<exists>m. snd a = Inr m \<and>
        (if tm_msg m = ''warn''
         then (\<forall>w. own_warning i m = Some w \<longrightarrow> w_key w \<notin> set (fatal_warns reply))
         else \<not> is_answer i reply m))"

lemma wait_frames_Inr:
  assumes "wait_frames limit i reply ws frames = (Inr j, ws', rest)"
  shows "\<exists>before gap m. frames = before @ (gap, Inr m) # rest \<and> list_all (passed limit i reply) before \<and>
    gap \<le> limit \<and> tm_msg m \<noteq> ''warn'' \<and> is_answer i reply m \<and> j = tm_data m"
  using assms
proof (induction limit i reply ws frames rule: wait_frames.induct)
  case (2 limit i reply ws gap r frames)
  show ?case
  proof (cases r)
    case (Inl e)
    with 2(4) show ?thesis by (simp split: if_splits)
  next
    case (Inr m)
    have le: "gap \<le> limit" using 2(4) by (simp split: if_splits)
    have skip: ?thesis if w: "wait_frames limit i reply ws0 frames = (Inr j, ws', rest)"
      and p: "passed limit i reply (gap, r)"
      and IH: "wait_frames limit i reply ws0 frames = (Inr j, ws', rest) \<Longrightarrow>
        \<exists>before gap m. frames = before @ (gap, Inr m) # rest \<and> list_all (passed limit i reply) before \<and>
          gap \<le> limit \<and> tm_msg m \<noteq> ''warn'' \<and> is_answer i reply m \<and> j = tm_data m" for ws0
    proof -
      from IH [OF w] obtain before g m where "frames = before @ (g, Inr m) # rest"
        "list_all (passed limit i reply) before" "g \<le> limit" "tm_msg m \<noteq> ''warn''"
        "is_answer i reply m" "j = tm_data m" by blast
      with p show ?thesis by (intro exI [of _ "(gap, r) # before"] exI [of _ g] exI [of _ m]) simp
    qed
    show ?thesis
    proof (cases "tm_msg m = ''warn''")
      case warn: True
      show ?thesis
      proof (cases "own_warning i m")
        case None
        then have "wait_frames limit i reply ws frames = (Inr j, ws', rest)"
          using 2(4) Inr warn le by simp
        moreover have "passed limit i reply (gap, r)" using le Inr warn None by (simp add: passed_def)
        ultimately show ?thesis using skip [of ws] 2(1) [of m] Inr warn None le by simp
      next
        case (Some w)
        have nf: "w_key w \<notin> set (fatal_warns reply)" using 2(4) Inr warn Some le by (simp split: if_splits)
        then have "wait_frames limit i reply (ws @ [w]) frames = (Inr j, ws', rest)"
          using 2(4) Inr warn Some le by simp
        moreover have "passed limit i reply (gap, r)" using le Inr warn Some nf by (simp add: passed_def)
        ultimately show ?thesis using skip [of "ws @ [w]"] 2(2) [of m w] Inr warn Some nf le by simp
      qed
    next
      case no_warn: False
      show ?thesis
      proof (cases "is_answer i reply m")
        case True
        then have "rest = frames" "j = tm_data m" using 2(4) Inr no_warn le by simp_all
        then show ?thesis using True no_warn le Inr by (intro exI [of _ "[]"] exI [of _ gap] exI [of _ m]) simp
      next
        case False
        then have "wait_frames limit i reply ws frames = (Inr j, ws', rest)"
          using 2(4) Inr no_warn le by simp
        moreover have "passed limit i reply (gap, r)" using le Inr no_warn False by (simp add: passed_def)
        ultimately show ?thesis using skip [of ws] 2(3) [of m] Inr no_warn False le by simp
      qed
    qed
  qed
qed simp

text \<open>Conversely, frames that do not concern the request only delay the answer, for as long as each of
  them comes within the limit: there is no bound on the whole.\<close>

lemma wait_frames_skips:
  assumes "list_all (\<lambda>a. fst a \<le> limit \<and> (\<exists>m. snd a = Inr m \<and> tm_msg m \<noteq> ''warn'' \<and> \<not> is_answer i reply m)) before"
    "gap \<le> limit" "tm_msg m \<noteq> ''warn''" "is_answer i reply m"
  shows "wait_frames limit i reply ws (before @ (gap, Inr m) # rest) = (Inr (tm_data m), ws, rest)"
  using assms by (induction before) auto

lemma wait_outlasts_timeout:
  fixes n :: nat
  assumes "tm_msg other \<noteq> ''warn''" "\<not> is_answer i reply other" "tm_msg m \<noteq> ''warn''" "is_answer i reply m"
  shows "wait_frames limit i reply ws (replicate n (limit, Inr other) @ [(0, Inr m)]) = (Inr (tm_data m), ws, [])"
  by (rule wait_frames_skips) (use assms in \<open>simp_all add: list_all_iff\<close>)

end
