(* ===== verification/CliConnection.thy ===== *)
theory CliConnection
  imports CliSession
begin

text \<open>
  \<open>src/cli/commands/connection.rs\<close>, \<open>core.rs\<close> and \<open>hwid.rs\<close>: connecting and disconnecting, the mode,
  the life of the daemon, the hardware id.
\<close>

section \<open>Connecting\<close>

definition is_connected_state :: "ApplicationState \<Rightarrow> bool" where
  "is_connected_state st \<longleftrightarrow> ps_connection (as_connection_status st) = ''connected''"

definition first_profile :: "GroupWithProfiles \<Rightarrow> (i32 \<times> i32 \<times> string) option" where
  "first_profile g =
     (case gw_profiles g of [] \<Rightarrow> None | p # _ \<Rightarrow> Some (g_id (gw_group g), p_id p, p_name p))"

definition last_used :: "AppConfig \<Rightarrow> GroupWithProfiles \<Rightarrow> (i32 \<times> i32 \<times> string) option" where
  "last_used cfg g =
     (if g_id (gw_group g) = c_last_group_id cfg
      then map_option (\<lambda>p. (g_id (gw_group g), p_id p, p_name p))
             (find (\<lambda>p. p_id p = c_last_profile_id cfg) (gw_profiles g))
      else None)"

fun first_some :: "('a \<Rightarrow> 'b option) \<Rightarrow> 'a list \<Rightarrow> 'b option" where
  "first_some f [] = None"
| "first_some f (x # xs) = (case f x of Some y \<Rightarrow> Some y | None \<Rightarrow> first_some f xs)"

definition any_target :: "ApplicationState \<Rightarrow> AppConfig \<Rightarrow> CliError + (i32 \<times> i32 \<times> string)" where
  "any_target st cfg =
     (case (if c_last_profile_id cfg \<noteq> 0 then first_some (last_used cfg) (as_groups st) else None) of
        Some t \<Rightarrow> Inr t
      | None \<Rightarrow>
          (case first_some first_profile (as_groups st) of
             Some t \<Rightarrow> Inr t
           | None \<Rightarrow> Inl (Usage ''no profiles available; import a subscription first'')))"

definition select_target ::
  "(string \<Rightarrow> string) \<Rightarrow> ApplicationState \<Rightarrow> AppConfig \<Rightarrow> string option \<Rightarrow> string option
   \<Rightarrow> CliError + (i32 \<times> i32 \<times> string)" where
  "select_target lc st cfg target grp =
     (case target of
        Some selector \<Rightarrow>
          (case find_profile lc (as_groups st) selector grp of
             Inl e \<Rightarrow> Inl e
           | Inr (gr, p) \<Rightarrow> Inr (g_id gr, p_id p, p_name p))
      | None \<Rightarrow>
          (case grp of
             Some sel \<Rightarrow>
               (case find_group lc (as_groups st) sel of
                  Inl e \<Rightarrow> Inl e
                | Inr gr \<Rightarrow>
                    (case Option.bind (find (\<lambda>x. g_id (gw_group x) = g_id gr) (as_groups st))
                            (\<lambda>x. case gw_profiles x of [] \<Rightarrow> None | p # _ \<Rightarrow> Some p) of
                       Some p \<Rightarrow> Inr (g_id gr, p_id p, p_name p)
                     | None \<Rightarrow> Inl (Usage (''group '' @ quoted (g_name gr) @ '' has no profiles''))))
           | None \<Rightarrow> any_target st cfg))"

definition status_is :: "(ProxyStatus \<Rightarrow> bool) \<Rightarrow> TcpMessage \<Rightarrow> bool" where
  "status_is P m \<longleftrightarrow>
     tm_msg m = ''status-changed'' \<and> (case dec_status (tm_data m) of None \<Rightarrow> False | Some st \<Rightarrow> P st)"

definition connected_to :: "i32 \<Rightarrow> i32 \<Rightarrow> ProxyStatus \<Rightarrow> bool" where
  "connected_to gid pid st \<longleftrightarrow> ps_connection st = ''connected'' \<and>
     (case ps_profile st of None \<Rightarrow> False | Some p \<Rightarrow> p_group_id p = gid \<and> p_id p = pid)"

definition connect_json :: "i32 \<Rightarrow> i32 \<Rightarrow> string \<Rightarrow> bool \<Rightarrow> json" where
  "connect_json gid pid name b = JObj
     [(''group_id'', JInt gid), (''profile_id'', JInt pid), (''profile_name'', JStr name),
      (''connected'', JBool b)]"

definition cli_connect ::
  "CliEnv \<Rightarrow> GlobalArgs \<Rightarrow> string option \<Rightarrow> string option \<Rightarrow> bool \<Rightarrow> unit cli" where
  "cli_connect env g target grp wait =
     andThen (open_or_spawn env g) (\<lambda>_.
     andThen (session_state env) (\<lambda>st.
     andThen (get_cli cl_cfg) (\<lambda>cfg.
     andThen (lift (select_target (ce_lc env) st cfg target grp)) (\<lambda>(gid, pid, name).
     andThen (session_send env ''connect''
       (enc_connect_data \<lparr>cd_profile = \<lparr>pid_id = pid, pid_group_id = gid\<rparr>\<rparr>)) (\<lambda>i.
     andThen (save_cfg env (\<lambda>c. c\<lparr>c_last_group_id := gid, c_last_profile_id := pid\<rparr>)) (\<lambda>_.
     andThen
       (if wait
        then andThen (set_timeout (arg_timeout g 30)) (\<lambda>_.
             andThen (session_wait dec_status i
               (Broadcast (status_is (connected_to gid pid)) [''connect-failed''])) (\<lambda>_.
             out_ok g (''Connected to '' @ quoted name @ ''.'') (connect_json gid pid name True)))
        else out_ok g (''Connecting to '' @ quoted name @ ''...'') (connect_json gid pid name False)) (\<lambda>_.
     flush_warnings g)))))))"

definition disconnected_ok :: "GlobalArgs \<Rightarrow> unit cli" where
  "disconnected_ok g = out_ok g ''Disconnected.'' (JObj [(''connected'', JBool False)])"

definition cli_disconnect :: "CliEnv \<Rightarrow> GlobalArgs \<Rightarrow> bool \<Rightarrow> unit cli" where
  "cli_disconnect env g wait =
     andThen (open_or_spawn env g) (\<lambda>_.
     andThen (session_state env) (\<lambda>st.
     if \<not> is_connected_state st then disconnected_ok g
     else
       andThen (session_send env ''disconnect'' (JObj [])) (\<lambda>i.
       andThen
         (if wait
          then andThen (set_timeout (arg_timeout g 10)) (\<lambda>_.
               andThen (session_wait dec_status i
                 (Broadcast (status_is (\<lambda>st. ps_connection st = ''disconnected'')) [])) (\<lambda>_. ret ()))
          else ret ()) (\<lambda>_.
       andThen (disconnected_ok g) (\<lambda>_.
       flush_warnings g)))))"

definition cli_toggle :: "CliEnv \<Rightarrow> GlobalArgs \<Rightarrow> bool \<Rightarrow> unit cli" where
  "cli_toggle env g wait =
     andThen (open_or_spawn env g) (\<lambda>_.
     andThen (session_state env) (\<lambda>st.
     if is_connected_state st then cli_disconnect env g wait else cli_connect env g None None wait))"

section \<open>The mode\<close>

definition mode_status :: "GlobalArgs \<Rightarrow> ApplicationState \<Rightarrow> unit cli" where
  "mode_status g st =
     (let mode = (if is_connected_state st then if as_tun_status st then ''tun'' else ''proxy'' else ''off'')
      in if gl_json g
         then out_json (JObj [(''connected'', JBool (is_connected_state st)), (''mode'', JStr mode),
                (''tun_enabled'', JBool (as_tun_status st)), (''split_tunnel'', JStr (as_split_tunnel st))])
         else out_line g (''Mode: '' @
                (if mode = ''tun'' then ''TUN'' else if mode = ''proxy'' then ''PROXY'' else ''OFF'') @ '' (split: '' @
                (if as_split_tunnel st = [] then ''off'' else as_split_tunnel st) @ '')''))"

definition tun_is :: "bool \<Rightarrow> TcpMessage \<Rightarrow> bool" where
  "tun_is want m \<longleftrightarrow> tm_msg m = ''tun-status-changed'' \<and>
     (case dec_tun_status (tm_data m) of None \<Rightarrow> False | Some t \<Rightarrow> tun_is_enabled t = want)"

definition tun_json :: "bool \<Rightarrow> json" where
  "tun_json b = JObj [(''tun_enabled'', JBool b)]"

definition mode_wanted :: "ModeCmd \<Rightarrow> bool \<Rightarrow> bool" where
  "mode_wanted cmd current = (case cmd of ModeTun \<Rightarrow> True | ModeProxy \<Rightarrow> False | _ \<Rightarrow> \<not> current)"

definition cli_mode :: "CliEnv \<Rightarrow> GlobalArgs \<Rightarrow> ModeCmd \<Rightarrow> unit cli" where
  "cli_mode env g cmd =
     andThen (open_or_spawn env g) (\<lambda>_.
     andThen (session_state env) (\<lambda>st.
     if cmd = ModeStatus then mode_status g st
     else
       (let want = mode_wanted cmd (as_tun_status st)
        in if want = as_tun_status st
           then out_ok g (if want then ''TUN mode is already enabled.'' else ''Proxy mode is already active.'')
                  (tun_json want)
           else
             andThen (session_send env (if want then ''enable-tun'' else ''disable-tun'') (JObj [])) (\<lambda>i.
             andThen (set_timeout (arg_timeout g 30)) (\<lambda>_.
             andThen (session_wait dec_tun_status i (Broadcast (tun_is want) [''enable-tun-failed''])) (\<lambda>t.
             andThen (out_ok g (if tun_is_enabled t then ''TUN mode enabled.''
                        else ''Proxy mode enabled (TUN disabled).'') (tun_json (tun_is_enabled t))) (\<lambda>_.
             flush_warnings g)))))))"

section \<open>The daemon\<close>

definition core_start :: "CliEnv \<Rightarrow> GlobalArgs \<Rightarrow> unit cli" where
  "core_start env g s =
     (if gl_tcp g \<noteq> None \<or> gl_socket g \<noteq> None
      then (Inl (Usage ''core start cannot bind a custom --tcp/--socket endpoint; start the daemon yourself''), s)
      else
        (case session_open env g s of
           (Inr (), s) \<Rightarrow>
             out_ok g ''Core is already running.''
               (JObj [(''running'', JBool True), (''started'', JBool False)]) s
         | (Inl _, s) \<Rightarrow>
             andThen (spawn_core env) (\<lambda>_.
             andThen (retry_open 300 (Timeout ''core did not become reachable within 30s'') env g) (\<lambda>_.
             andThen (session_state env) (\<lambda>st.
             out_ok g (''Core started (v'' @ as_core_version st @ '').'')
               (JObj [(''running'', JBool True), (''version'', JStr (as_core_version st))])))) s))"

text \<open>Up to \<open>n\<close> further attempts to connect; true once one fails.\<close>

fun await_exit :: "nat \<Rightarrow> bool cli" where
  "await_exit 0 s = (Inr False, s)"
| "await_exit (Suc n) s =
     (case take_conn s of
        (Inr (Inr _), s) \<Rightarrow> await_exit n s
      | (_, s) \<Rightarrow> (Inr True, s))"

definition kill_switch_on :: "CliEnv \<Rightarrow> bool cli" where
  "kill_switch_on env s =
     (case session_state env s of (Inl _, s) \<Rightarrow> (Inr False, s) | (Inr st, s) \<Rightarrow> (Inr (as_kill_switch st), s))"

definition core_stop :: "CliEnv \<Rightarrow> GlobalArgs \<Rightarrow> unit cli" where
  "core_stop env g s =
     (case session_open env g s of
        (Inl _, s) \<Rightarrow> out_ok g ''Core is not running.'' (JObj [(''running'', JBool False)]) s
      | (Inr (), s) \<Rightarrow>
          andThen (kill_switch_on env) (\<lambda>ks.
          andThen (session_send env ''die'' (JObj [])) (\<lambda>_.
          andThen (if ks then out_note g (''Kill-switch rules stay armed while the core is stopped. '' @
                     ''Remove them with `sudo nft delete table inet whoisthat_ks`, '' @
                     ''or start the core and disable the kill-switch.'') else ret ()) (\<lambda>_.
          andThen (out_note g ''Waiting for whoisthat-core to exit...'') (\<lambda>_.
          andThen (get_cli cl_file) (\<lambda>cfg.
          andThen (lift (cli_endpoint env g cfg)) (\<lambda>_.
          andThen (await_exit 100) (\<lambda>gone.
          if gone
          then andThen (out_ok g ''Core stopped.'' (JObj [(''running'', JBool False)])) (\<lambda>_.
               out_note g ''note: an open TUI may respawn the core automatically'')
          else fail (Timeout ''core did not stop within 10s'')))))))) s)"

definition core_restart :: "CliEnv \<Rightarrow> GlobalArgs \<Rightarrow> unit cli" where
  "core_restart env g s =
     (if ce_systemd_enabled env
      then andThen (out_note g ''Restarting whoisthat-core.service via systemd...'') (\<lambda>_.
           andThen (case ce_systemctl_restart env of Some e \<Rightarrow> fail (CoreError e) | None \<Rightarrow> ret ()) (\<lambda>_.
           andThen (retry_open 300 (Timeout ''core did not become reachable within 30s'') env g) (\<lambda>_.
           andThen (session_state env) (\<lambda>st.
           out_ok g (''Core restarted (v'' @ as_core_version st @ '').'')
             (JObj [(''running'', JBool True), (''version'', JStr (as_core_version st))]))))) s
      else core_start env g (snd (core_stop env g s)))"

definition opt_json :: "('a \<Rightarrow> json) \<Rightarrow> 'a option \<Rightarrow> json" where
  "opt_json e x = (case x of None \<Rightarrow> JNull | Some v \<Rightarrow> e v)"

fun print_lines :: "string list \<Rightarrow> unit cli" where
  "print_lines [] = ret ()"
| "print_lines (l # ls) = andThen (println l) (\<lambda>_. print_lines ls)"

definition core_running_lines :: "CliEnv \<Rightarrow> string \<Rightarrow> ApplicationState \<Rightarrow> string list" where
  "core_running_lines env ep st =
     [''Core:        running'', ''Version:     '' @ as_core_version st,
      ''Protocol:    '' @ show_int (as_protocol_version st), ''Socket:      '' @ ep,
      ''Binary:      '' @ ce_core_binary env,
      ''Capabilities:'' @ (if ce_has_caps env then '' cap_net_admin'' else '' missing''),
      ''Connection:  '' @ ps_connection (as_connection_status st) @
        (if as_tun_status st then '' (TUN)'' else '' (proxy)'')]
     @ (case as_xray_status st of
          Some x \<Rightarrow> [''Xray:        '' @ xs_version x @ '' ('' @ xs_status x @ '')'']
        | None \<Rightarrow> [])"

definition core_running_json :: "CliEnv \<Rightarrow> string \<Rightarrow> ApplicationState \<Rightarrow> json" where
  "core_running_json env ep st = JObj
     [(''running'', JBool True), (''version'', JStr (as_core_version st)),
      (''protocol'', JInt (as_protocol_version st)), (''socket'', JStr ep),
      (''binary'', JStr (ce_core_binary env)), (''capabilities'', JBool (ce_has_caps env)),
      (''connected'', JBool (is_connected_state st)), (''tun_enabled'', JBool (as_tun_status st)),
      (''xray'', opt_json (\<lambda>x. JObj [(''version'', JStr (xs_version x)), (''target'', JStr (xs_target_version x)),
         (''status'', JStr (xs_status x))]) (as_xray_status st))]"

definition core_offline :: "CliEnv \<Rightarrow> GlobalArgs \<Rightarrow> string \<Rightarrow> unit cli" where
  "core_offline env g ep =
     (if gl_json g
      then out_json (JObj [(''running'', JBool False), (''version'', JNull), (''protocol'', JNull),
             (''socket'', JStr ep), (''binary'', JStr (ce_core_binary env)),
             (''capabilities'', JBool (ce_has_caps env))])
      else print_lines [''Core:        offline'', ''Socket:      '' @ ep, ''Binary:      '' @ ce_core_binary env,
             ''Capabilities:'' @ (if ce_has_caps env then '' cap_net_admin'' else '' missing'')])"

definition core_status :: "CliEnv \<Rightarrow> GlobalArgs \<Rightarrow> unit cli" where
  "core_status env g =
     andThen (get_cli cl_file) (\<lambda>cfg.
     andThen (lift (cli_endpoint env g cfg)) (\<lambda>ep s.
     (case session_open env g s of
        (Inl _, s) \<Rightarrow> core_offline env g (describe ep) s
      | (Inr (), s) \<Rightarrow>
          andThen (session_state env) (\<lambda>st.
          if gl_json g then out_json (core_running_json env (describe ep) st)
          else print_lines (core_running_lines env (describe ep) st)) s)))"

section \<open>Versions\<close>

text \<open>\<open>src/core\_client/query.rs\<close>: no answer, for whatever reason, is \<open>None\<close>.  The request is sent
  without an id, which is recorded as the empty one.\<close>

definition fetch_core_version :: "(string \<times> u32) option cli" where
  "fetch_core_version s =
     (case cl_conns s of
        Inr frames # rest \<Rightarrow>
          (Inr (case fst (recv_within 2000 (\<lambda>m. tm_msg m = ''application-state'') frames) of
                  Inl _ \<Rightarrow> None
                | Inr m \<Rightarrow>
                    (case dec_app_state (tm_data m) of
                       None \<Rightarrow> None
                     | Some st \<Rightarrow> if as_core_version st = [] then None
                                 else Some (as_core_version st, as_protocol_version st))),
           s\<lparr>cl_conns := rest, cl_sent := cl_sent s @ [([], ''get-application-state'', JObj [])]\<rparr>)
      | _ \<Rightarrow> (Inr None, s\<lparr>cl_conns := tl (cl_conns s)\<rparr>))"

definition version_line :: "(string \<times> u32) option \<Rightarrow> string \<Rightarrow> string" where
  "version_line ipc seen =
     (case ipc of
        Some (ver, proto) \<Rightarrow> ''whoisthat-core v'' @ ver @ '' (protocol '' @ show_int proto @ '')''
      | None \<Rightarrow> if seen = [] then ''whoisthat-core offline (version unknown)''
                else ''whoisthat-core v'' @ seen @ '' (offline, last seen)'')"

definition cli_version :: "CliEnv \<Rightarrow> GlobalArgs \<Rightarrow> unit cli" where
  "cli_version env g =
     andThen (get_cli cl_file) (\<lambda>cfg.
     andThen (lift (cli_endpoint env g cfg)) (\<lambda>_.
     andThen fetch_core_version (\<lambda>ipc.
     if gl_json g
     then out_json (JObj [(''tui'', JStr (ce_tui_version env)), (''core'', opt_json (\<lambda>(v, _). JStr v) ipc),
            (''protocol'', opt_json (\<lambda>(_, p). JInt p) ipc),
            (''last_seen'', if c_core_version cfg = [] then JNull else JStr (c_core_version cfg))])
     else print_lines [''whoisthat (tui) v'' @ ce_tui_version env, version_line ipc (c_core_version cfg)])))"

fun cli_core :: "CliEnv \<Rightarrow> GlobalArgs \<Rightarrow> CoreCmd \<Rightarrow> unit cli" where
  "cli_core env g CoreStatus = core_status env g"
| "cli_core env g CoreStart = core_start env g"
| "cli_core env g CoreStop = core_stop env g"
| "cli_core env g CoreRestart = core_restart env g"
| "cli_core env g CoreVersion = cli_version env g"

definition cli_ip :: "CliEnv \<Rightarrow> GlobalArgs \<Rightarrow> unit cli" where
  "cli_ip env g =
     andThen (out_note g ''Fetching public IP...'') (\<lambda>_.
     if gl_json g
     then out_json (JObj [(''ipv4'', opt_json JStr (fetch_public_ip (ce_http env))),
       (''ipv6'', opt_json JStr (fetch_public_ipv6 (ce_http env)))])
     else print_lines [''IPv4: '' @ (case fetch_public_ip (ce_http env) of Some i \<Rightarrow> i | None \<Rightarrow> ''unavailable''),
            ''IPv6: '' @ (case fetch_public_ipv6 (ce_http env) of Some i \<Rightarrow> i | None \<Rightarrow> ''unavailable'')])"

section \<open>Hardware id\<close>

definition hwid_lines :: "HwidData \<Rightarrow> string list" where
  "hwid_lines h =
     [''enabled:    '' @ (if hw_enabled h then ''true'' else ''false''), ''hwid:       '' @ hw_hwid h,
      ''user-agent: '' @ hw_user_agent h, ''platform:   '' @ hw_platform h, ''kernel:     '' @ hw_kernel h,
      ''model:      '' @ hw_model h]"

definition hwid_set :: "CliEnv \<Rightarrow> GlobalArgs \<Rightarrow> bool option \<Rightarrow> string option \<Rightarrow> bool \<Rightarrow> unit cli" where
  "hwid_set env g enabled ua reset =
     andThen (open_or_spawn env g) (\<lambda>_.
     andThen (session_request env ''set-hwid''
       (enc_set_hwid_data \<lparr>sh_enabled = enabled, sh_user_agent = ua, sh_reset = reset\<rparr>) dec_hwid
       (ReplyId [''hwid-updated''] [])) (\<lambda>h.
     andThen (flush_warnings g) (\<lambda>_.
     if gl_json g then out_json (enc_hwid h)
     else print_lines [''hwid-enabled: '' @ (if hw_enabled h then ''true'' else ''false''),
            ''hwid:         '' @ hw_hwid h, ''user-agent:   '' @ hw_user_agent h])))"

definition hwid_status :: "CliEnv \<Rightarrow> GlobalArgs \<Rightarrow> unit cli" where
  "hwid_status env g =
     andThen (session_open env g) (\<lambda>_.
     andThen (session_state env) (\<lambda>st.
     (case as_hwid_info st of
        None \<Rightarrow> fail (CoreError ''core did not return HWID info'')
      | Some h \<Rightarrow> if gl_json g then out_json (enc_hwid h) else print_lines (hwid_lines h))))"

fun cli_hwid :: "CliEnv \<Rightarrow> GlobalArgs \<Rightarrow> HwidCmd \<Rightarrow> unit cli" where
  "cli_hwid env g HwidStatus = hwid_status env g"
| "cli_hwid env g HwidEnable = hwid_set env g (Some True) None False"
| "cli_hwid env g HwidDisable = hwid_set env g (Some False) None False"
| "cli_hwid env g HwidReset = hwid_set env g None None True"
| "cli_hwid env g (HwidUserAgent v) = hwid_set env g None (Some v) False"

end
