(* ===== verification/Labels.thy ===== *)
theory Labels
  imports Prelude
begin

text \<open>
  The text helpers of \<open>src/ui/app/helpers.rs\<close>: labels that come from a provider are
  stripped of control characters and cut, addresses lose their credentials, intervals become
  short texts.
\<close>

definition MAX_LABEL :: nat where
  "MAX_LABEL = 200"

definition clean_label :: "string \<Rightarrow> string" where
  "clean_label s = concat (take MAX_LABEL (filter (\<lambda>c. \<not> is_control c) (uchars s)))"

definition ellipsis :: string where
  "ellipsis = [CHR 0xE2, CHR 0x80, CHR 0xA6]"

definition em_dash :: string where
  "em_dash = [CHR 0xE2, CHR 0x80, CHR 0x94]"

text \<open>\<open>str::split_once\<close> with a text as separator.\<close>

definition split_once_str :: "string \<Rightarrow> string \<Rightarrow> (string \<times> string) option" where
  "split_once_str p s = map_option (\<lambda>i. (take i s, drop (i + length p) s)) (str_find p s)"

definition redact_base :: "string \<Rightarrow> string" where
  "redact_base base =
     (case split_once_str ''://'' base of
        Some (scheme, rest) \<Rightarrow>
          (let authority = takeWhile (\<lambda>b. b \<noteq> CHR ''/'') rest;
               path = dropWhile (\<lambda>b. b \<noteq> CHR ''/'') rest;
               host = (case rsplit_once (CHR ''@'') authority of
                   Some (_, h) \<Rightarrow> h | None \<Rightarrow> authority)
           in scheme @ ''://'' @ host @ path)
      | None \<Rightarrow> base)"

definition redact_url :: "string \<Rightarrow> string" where
  "redact_url url =
     (case split_once (CHR ''?'') url of
        Some (b, _) \<Rightarrow> redact_base b @ ''?'' @ ellipsis
      | None \<Rightarrow> redact_base url)"

definition format_interval_secs :: "int \<Rightarrow> string" where
  "format_interval_secs secs =
     (if secs \<le> 0 then em_dash
      else if secs < 3600 then show_int (secs div 60) @ ''m''
      else let hours = secs div 3600
           in if hours mod 24 = 0 then show_int (hours div 24) @ ''d''
              else show_int hours @ ''h'')"

definition format_relative :: "int \<Rightarrow> int \<Rightarrow> string" where
  "format_relative now unix_ts =
     (let diff = now - unix_ts
      in if diff < 0 then ''just now''
         else if diff < 60 then show_int diff @ ''s ago''
         else if diff < 3600 then show_int (diff div 60) @ ''m ago''
         else if diff < 86400 then show_int (diff div 3600) @ ''h ago''
         else show_int (diff div 86400) @ ''d ago'')"

section \<open>Lemmas\<close>

text \<open>A label fit for the terminal: no control character, at most 200 characters.\<close>

definition safe_label :: "string \<Rightarrow> bool" where
  "safe_label s \<longleftrightarrow> str_ok s \<and> list_all (\<lambda>c. \<not> is_control c) (uchars s) \<and> char_count s \<le> MAX_LABEL"

lemma uchars_clean_label:
  assumes "str_ok s"
  shows "uchars (clean_label s) = take MAX_LABEL (filter (\<lambda>c. \<not> is_control c) (uchars s))"
proof -
  have "list_all uchar (take MAX_LABEL (filter (\<lambda>c. \<not> is_control c) (uchars s)))"
    using uchars_ok [OF assms] by (auto simp: list_all_iff dest: in_set_takeD)
  then show ?thesis by (simp add: clean_label_def)
qed

text \<open>The texts of the model are valid UTF-8, so the first character of a label never starts in
  the middle of one; on such texts cleaning is what the comment promises.\<close>

lemma str_ok_clean_label [simp]: "str_ok s \<Longrightarrow> str_ok (clean_label s)"
  using uchars_clean_label [of s] uchars_ok [of s]
  by (auto simp: str_ok_iff_uchars list_all_iff dest: in_set_takeD)

lemma safe_clean_label [simp]: "str_ok s \<Longrightarrow> safe_label (clean_label s)"
  by (auto simp: safe_label_def char_count_def uchars_clean_label list_all_iff dest: in_set_takeD)

lemma clean_label_safe [simp]: "safe_label s \<Longrightarrow> clean_label s = s"
proof -
  assume s: "safe_label s"
  then have "filter (\<lambda>c. \<not> is_control c) (uchars s) = uchars s"
    by (simp add: safe_label_def list_all_iff filter_id_conv)
  with s show ?thesis by (simp add: clean_label_def safe_label_def char_count_def)
qed

lemma str_find_sep:
  assumes "CHR '':'' \<notin> set s"
  shows "str_find ''://'' (s @ ''://'' @ t) = Some (length s)"
  using assms
proof (induction s)
  case Nil
  show ?case by (simp add: starts_with_simps)
next
  case (Cons b s)
  then show ?case by (simp add: starts_with_simps)
qed

lemma redact_base_parts:
  assumes "CHR '':'' \<notin> set scheme" and "CHR ''/'' \<notin> set user" and "CHR ''/'' \<notin> set host"
    and "CHR ''@'' \<notin> set host" and "path = [] \<or> hd path = CHR ''/''"
  shows "redact_base (scheme @ ''://'' @ user @ ''@'' @ host @ path) = scheme @ ''://'' @ host @ path"
proof -
  have split: "split_once_str ''://'' (scheme @ ''://'' @ r) = Some (scheme, r)" for r
    using str_find_sep [OF assms(1), of r] by (simp add: split_once_str_def del: str_find.simps)
  let ?rest = "user @ ''@'' @ host @ path"
  have no: "\<forall>b \<in> set (user @ ''@'' @ host). b \<noteq> CHR ''/''" using assms(2,3) by auto
  have tw: "takeWhile (\<lambda>b. b \<noteq> CHR ''/'') ?rest = user @ ''@'' @ host"
    using no assms(5) takeWhile_append2 [of "user @ ''@'' @ host" "\<lambda>b. b \<noteq> CHR ''/''" path]
    by (cases path) auto
  have dw: "dropWhile (\<lambda>b. b \<noteq> CHR ''/'') ?rest = path"
    using no assms(5) dropWhile_append2 [of "user @ ''@'' @ host" "\<lambda>b. b \<noteq> CHR ''/''" path]
    by (cases path) auto
  have "rsplit_once (CHR ''@'') (user @ ''@'' @ host) = Some (user, host)"
    using assms(4) by (simp add: rsplit_once_Some)
  then show ?thesis unfolding redact_base_def split option.case prod.case tw dw Let_def by simp
qed

text \<open>An address shown on screen has lost its credentials: whatever the user information and
  the query of a provider address are, only scheme, host and path remain.\<close>

theorem redact_url_hides:
  assumes "CHR '':'' \<notin> set scheme" and "CHR ''/'' \<notin> set user" and "CHR ''/'' \<notin> set host"
    and "CHR ''@'' \<notin> set host" and "path = [] \<or> hd path = CHR ''/''"
    and "CHR ''?'' \<notin> set (scheme @ user @ host @ path)"
  shows "redact_url (scheme @ ''://'' @ user @ ''@'' @ host @ path @ ''?'' @ query)
    = scheme @ ''://'' @ host @ path @ ''?'' @ ellipsis"
proof -
  let ?base = "scheme @ ''://'' @ user @ ''@'' @ host @ path"
  have "split_once (CHR ''?'') (?base @ ''?'' @ query) = Some (?base, query)"
    using assms(6) by (simp add: split_once_Some)
  moreover have "?base @ ''?'' @ query = scheme @ ''://'' @ user @ ''@'' @ host @ path @ ''?'' @ query"
    by simp
  ultimately show ?thesis
    using redact_base_parts [OF assms(1-5)] by (simp add: redact_url_def)
qed

theorem redact_url_hides_witness:
  "redact_url (''https'' @ ''://'' @ ''user:pw'' @ ''@'' @ ''h.example'' @ ''/sub'' @ ''?'' @ ''token=1'')
    = ''https'' @ ''://'' @ ''h.example'' @ ''/sub'' @ ''?'' @ ellipsis"
  by (rule redact_url_hides) simp_all

text \<open>a cleaned label is safe for the terminal (no control character, at most 200 characters,
  whole characters only), and a safe label is left alone.\<close>

theorem clean_label_correct:
  assumes "str_ok s"
  shows "safe_label (clean_label s) \<and> clean_label (clean_label s) = clean_label s"
  using assms by simp

theorem clean_label_correct_witness:
  "safe_label (clean_label ''a'') \<and> clean_label (clean_label ''a'') = clean_label ''a''"
  by (rule clean_label_correct) (simp add: is_cont_def)

end
