(* ===== verification/CliSubs.thy ===== *)
theory CliSubs
  imports CliConnection Labels
begin

text \<open>
  \<open>src/cli/commands/subs.rs\<close>: the subscription groups, with the tables and the redaction of
  \<open>src/cli/output.rs\<close>.  Dates depend on the time zone, so chrono's local date of a timestamp is a function
  of the environment.
\<close>

section \<open>Output\<close>

definition cli_redact_url :: "string \<Rightarrow> string" where
  "cli_redact_url url =
     (case split_once_str ''://'' url of
        None \<Rightarrow> ellipsis
      | Some (scheme, rest) \<Rightarrow>
          if scheme = ''ss'' \<and> CHR ''@'' \<notin> set rest then ''ss://'' @ ellipsis
          else
            (let authority = takeWhile (\<lambda>b. b \<notin> {CHR ''/'', CHR ''?'', CHR ''#''}) rest;
                 host = (case rsplit_once (CHR ''@'') authority of Some (_, h) \<Rightarrow> h | None \<Rightarrow> authority)
             in if host = [] then scheme @ ''://'' @ ellipsis
                else scheme @ ''://'' @ host @ ''/'' @ ellipsis))"

definition format_interval :: "int \<Rightarrow> string" where
  "format_interval secs =
     (if secs \<le> 0 then em_dash
      else if secs < 3600 then show_int (secs div 60) @ ''m''
      else (let hours = secs div 3600
            in if hours mod 24 = 0 then show_int (hours div 24) @ ''d'' else show_int hours @ ''h''))"

text \<open>The command line writes an interval as the interface does.\<close>

lemma format_interval_same: "format_interval secs = format_interval_secs secs"
  by (simp add: format_interval_def format_interval_secs_def)

text \<open>\<open>ce\_date\<close> is the date of a timestamp, if chrono has a single one for it.\<close>

definition format_epoch :: "CliEnv \<Rightarrow> int \<Rightarrow> string" where
  "format_epoch env ts =
     (if ts \<le> 0 then em_dash else (case ce_date env ts of Some t \<Rightarrow> t | None \<Rightarrow> em_dash))"

definition widen :: "nat list \<Rightarrow> string list \<Rightarrow> nat list" where
  "widen widths row =
     map (\<lambda>i. if i < length row then max (widths ! i) (char_count (row ! i)) else widths ! i)
       [0..<length widths]"

fun render_row :: "nat list \<Rightarrow> string list \<Rightarrow> string" where
  "render_row ws [] = []"
| "render_row ws [c] = c"
| "render_row [] (c # cs) = c @ ''  '' @ render_row [] cs"
| "render_row (w # ws) (c # cs) =
     c @ replicate (w - char_count c) (CHR '' '') @ ''  '' @ render_row ws cs"

definition print_table :: "string list \<Rightarrow> string list list \<Rightarrow> unit cli" where
  "print_table headers rows =
     (let widths = fold (\<lambda>row ws. widen ws row) rows (map char_count headers)
      in print_lines (map (render_row widths) (headers # rows)))"

section \<open>Listing\<close>

definition effective_interval :: "Group \<Rightarrow> i64" where
  "effective_interval gr =
     (if g_sub_update_interval_override gr > 0 then g_sub_update_interval_override gr
      else g_sub_update_interval gr)"

definition auto_label :: "Group \<Rightarrow> string" where
  "auto_label gr =
     (if g_sub_auto_update_disabled gr then ''off''
      else (let secs = effective_interval gr
            in if secs > 0 then ''on '' @ format_interval secs else ''on '' @ em_dash))"

definition auto_detail :: "Group \<Rightarrow> string" where
  "auto_detail gr =
     (if g_sub_auto_update_disabled gr then ''off''
      else if g_sub_update_interval_override gr > 0
      then ''on (manual '' @ format_interval (g_sub_update_interval_override gr) @ '')''
      else if g_sub_update_interval gr > 0
      then ''on (provider '' @ format_interval (g_sub_update_interval gr) @ '')''
      else ''on (no interval)'')"

definition in_use :: "ApplicationState \<Rightarrow> i32 \<Rightarrow> bool" where
  "in_use st gid \<longleftrightarrow> is_connected_state st \<and>
     (case ps_profile (as_connection_status st) of None \<Rightarrow> False | Some p \<Rightarrow> p_group_id p = gid)"

definition group_json :: "ApplicationState \<Rightarrow> GroupWithProfiles \<Rightarrow> bool \<Rightarrow> json" where
  "group_json st grp reveal =
     (let gr = gw_group grp in JObj
       [(''id'', JInt (g_id gr)), (''name'', JStr (g_name gr)),
        (''profiles_count'', JInt (int (length (gw_profiles grp)))),
        (''subscription_url'', if reveal then JStr (g_subscription_url gr) else JNull),
        (''last_updated'', JInt (g_sub_last_updated gr)),
        (''auto_update'', JBool (\<not> g_sub_auto_update_disabled gr)),
        (''update_interval'', JInt (effective_interval gr)),
        (''update_interval_override'', JInt (g_sub_update_interval_override gr)),
        (''update_interval_provider'', JInt (g_sub_update_interval gr)),
        (''expires'', JInt (g_sub_expires gr)), (''upload'', JInt (g_sub_upload gr)),
        (''download'', JInt (g_sub_download gr)), (''total'', JInt (g_sub_total gr)),
        (''routing_mode'', JStr (g_routing_mode gr)),
        (''manual_routing_mode'', JStr (g_manual_routing_mode gr)),
        (''subscription_format'', JStr (g_subscription_format gr)),
        (''active'', JBool (in_use st (g_id gr))),
        (''routing_profiles'', JArr (map enc_routing_profile (gw_routing_profiles grp)))])"

definition shown_name :: "Group \<Rightarrow> string" where
  "shown_name gr =
     (if g_subscription_format gr = ''json'' then g_name gr @ '' [JSON]'' else g_name gr)"

definition used_of_total :: "Group \<Rightarrow> string" where
  "used_of_total gr =
     cli_format_bytes (i64_add (g_sub_upload gr) (g_sub_download gr)) @ '' / '' @ cli_format_bytes (g_sub_total gr)"

definition sub_row :: "CliEnv \<Rightarrow> GroupWithProfiles \<Rightarrow> string list" where
  "sub_row env grp =
     (let gr = gw_group grp in
       [show_int (g_id gr), shown_name gr, show_nat (length (gw_profiles grp)), auto_label gr,
        format_epoch env (g_sub_last_updated gr), format_epoch env (g_sub_expires gr), used_of_total gr])"

definition sub_list :: "CliEnv \<Rightarrow> GlobalArgs \<Rightarrow> bool \<Rightarrow> unit cli" where
  "sub_list env g reveal =
     andThen (session_open env g) (\<lambda>_.
     andThen (session_state env) (\<lambda>st.
     if gl_json g then out_json (JArr (map (\<lambda>x. group_json st x reveal) (as_groups st)))
     else print_table [''ID'', ''NAME'', ''PROFILES'', ''AUTO'', ''UPDATED'', ''EXPIRES'', ''USED / TOTAL'']
            (map (sub_row env) (as_groups st))))"

definition routing_profile_line :: "RoutingProfileInfo \<Rightarrow> string" where
  "routing_profile_line rp =
     ''    '' @ (if rp_active rp then ''*'' else '' '') @ '' '' @ rp_name rp @ '' ('' @
     show_nat (rp_rules_count rp) @ '' rules'' @ (if rp_fake_dns_enabled rp then '', fake-dns'' else []) @ '')''"

definition sub_lines :: "CliEnv \<Rightarrow> GroupWithProfiles \<Rightarrow> bool \<Rightarrow> string list" where
  "sub_lines env grp reveal =
     (let gr = gw_group grp in
       [''Group #'' @ show_int (g_id gr) @ '': '' @ shown_name gr,
        ''  profiles:  '' @ show_nat (length (gw_profiles grp)),
        ''  updated:   '' @ format_epoch env (g_sub_last_updated gr), ''  auto:      '' @ auto_detail gr,
        ''  expires:   '' @ format_epoch env (g_sub_expires gr), ''  traffic:   '' @ used_of_total gr,
        ''  routing:   '' @ g_routing_mode gr @ '' / '' @ g_manual_routing_mode gr]
       @ (if g_subscription_format gr \<noteq> [] then [''  format:    '' @ g_subscription_format gr] else [])
       @ (if reveal then [''  url:       '' @ g_subscription_url gr]
          else if g_subscription_url gr \<noteq> []
          then [''  url:       '' @ cli_redact_url (g_subscription_url gr) @ '' (use --reveal)''] else [])
       @ (if gw_routing_profiles grp \<noteq> []
          then ''  routing profiles:'' # map routing_profile_line (gw_routing_profiles grp) else []))"

text \<open>The first group with the id that was resolved; there is one, since the id is that of a group.\<close>

definition group_data :: "ApplicationState \<Rightarrow> i32 \<Rightarrow> GroupWithProfiles option" where
  "group_data st gid = find (\<lambda>x. g_id (gw_group x) = gid) (as_groups st)"

definition with_group ::
  "CliEnv \<Rightarrow> ApplicationState \<Rightarrow> string \<Rightarrow> (Group \<Rightarrow> 'a cli) \<Rightarrow> 'a cli" where
  "with_group env st selector f = andThen (lift (find_group (ce_lc env) (as_groups st) selector)) f"

definition sub_show :: "CliEnv \<Rightarrow> GlobalArgs \<Rightarrow> string \<Rightarrow> bool \<Rightarrow> unit cli" where
  "sub_show env g selector reveal =
     andThen (session_open env g) (\<lambda>_.
     andThen (session_state env) (\<lambda>st.
     with_group env st selector (\<lambda>gr.
     (case group_data st (g_id gr) of
        None \<Rightarrow> ret ()
      | Some grp \<Rightarrow> if gl_json g then out_json (group_json st grp reveal)
                    else print_lines (sub_lines env grp reveal)))))"

section \<open>Adding, removing, refreshing\<close>

definition http_url :: "string \<Rightarrow> bool" where
  "http_url url \<longleftrightarrow> starts_with ''http://'' url \<or> starts_with ''https://'' url"

definition bad_url :: CliError where
  "bad_url = Usage ''subscription URL must start with http:// or https://''"

definition imported_json :: "SubscriptionUpdated \<Rightarrow> json" where
  "imported_json u = JObj [(''group_id'', JInt (su_group_id u)),
     (''profiles'', JInt (int (length (su_profiles u))))]"

definition update_reply :: Reply where
  "update_reply = ReplyId [''subscription-updated''] [''update-subscription-failed'', ''command-ignored'']"

definition finish_add :: "GlobalArgs \<Rightarrow> GroupAdded \<Rightarrow> string \<Rightarrow> unit cli" where
  "finish_add g added i s =
     (case session_wait dec_subscription_updated i update_reply s of
        (Inr u, s) \<Rightarrow>
          out_ok g (''Subscription '' @ quoted (g_name (su_group u)) @ '' added ('' @
            show_nat (length (su_profiles u)) @ '' profiles imported).'') (imported_json u) s
      | (Inl (CoreError m), s) \<Rightarrow>
          out_ok g (''Subscription '' @ quoted (ga_name added) @ '' added (#'' @ show_int (ga_id added) @
            ''), but update failed: '' @ m)
            (JObj [(''group_id'', JInt (ga_id added)), (''updated'', JBool False), (''error'', JStr m)]) s
      | (Inl e, s) \<Rightarrow> (Inl e, s))"

definition sub_add :: "CliEnv \<Rightarrow> GlobalArgs \<Rightarrow> string \<Rightarrow> string option \<Rightarrow> bool \<Rightarrow> unit cli" where
  "sub_add env g url name no_wait =
     andThen (require (http_url url) bad_url) (\<lambda>_.
     andThen (open_or_spawn env g) (\<lambda>_.
     andThen (out_note g ''Adding subscription...'') (\<lambda>_.
     andThen (session_send env ''add-group''
       (enc_add_group_data \<lparr>ag_name = (case name of Some n \<Rightarrow> n | None \<Rightarrow> []), ag_subscription_url = url\<rparr>)) (\<lambda>i.
     andThen (session_wait dec_group_added i (ReplyId [''group-added''] [''add-group-failed''])) (\<lambda>added.
     if no_wait
     then out_ok g (''Subscription '' @ quoted (ga_name added) @ '' added (#'' @ show_int (ga_id added) @ '').'')
            (JObj [(''group_id'', JInt (ga_id added)), (''updated'', JBool False)])
     else andThen (set_timeout (arg_timeout g 60)) (\<lambda>_. finish_add g added i))))))"

definition sub_remove :: "CliEnv \<Rightarrow> GlobalArgs \<Rightarrow> string \<Rightarrow> bool \<Rightarrow> unit cli" where
  "sub_remove env g selector yes =
     andThen (require yes (Usage ''sub rm deletes the group and its profiles; pass --yes to confirm'')) (\<lambda>_.
     andThen (open_or_spawn env g) (\<lambda>_.
     andThen (session_state env) (\<lambda>st.
     with_group env st selector (\<lambda>gr.
     andThen (if in_use st (g_id gr)
              then out_note g (''warning: group '' @ quoted (g_name gr) @ '' is currently connected'')
              else ret ()) (\<lambda>_.
     andThen (session_request env ''delete-group'' (enc_delete_group_data \<lparr>dg_id = g_id gr\<rparr>) dec_group_deleted
       (ReplyId [''group-deleted''] [''delete-group-failed''])) (\<lambda>_.
     out_ok g (''Deleted subscription '' @ quoted (g_name gr) @ '' (#'' @ show_int (g_id gr) @ '').'')
       (JObj [(''group_id'', JInt (g_id gr)), (''deleted'', JBool True)])))))))"

definition option_list :: "'a option \<Rightarrow> 'a list" where
  "option_list x = (case x of None \<Rightarrow> [] | Some y \<Rightarrow> [y])"

definition refresh_targets ::
  "CliEnv \<Rightarrow> ApplicationState \<Rightarrow> AppConfig \<Rightarrow> string option \<Rightarrow> bool \<Rightarrow> CliError + Group list" where
  "refresh_targets env st cfg selector all_groups =
     (if all_groups then Inr (map gw_group (as_groups st))
      else (case selector of
              Some sel \<Rightarrow>
                (case find_group (ce_lc env) (as_groups st) sel of Inl e \<Rightarrow> Inl e | Inr gr \<Rightarrow> Inr [gr])
            | None \<Rightarrow>
                Inr (if is_connected_state st
                     then option_list (map_option gw_group
                            (Option.bind (ps_profile (as_connection_status st))
                               (\<lambda>p. group_data st (p_group_id p))))
                     else option_list (map_option gw_group (group_data st (c_last_group_id cfg))))))"

fun refresh_all :: "CliEnv \<Rightarrow> GlobalArgs \<Rightarrow> bool \<Rightarrow> Group list \<Rightarrow> unit cli" where
  "refresh_all env g no_wait [] = ret ()"
| "refresh_all env g no_wait (gr # rest) =
     andThen (session_send env ''update-subscription''
       (enc_update_subscription_data \<lparr>us_group_id = g_id gr\<rparr>)) (\<lambda>i.
     andThen
       (if no_wait
        then out_ok g (''Refreshing '' @ quoted (g_name gr) @ '' (#'' @ show_int (g_id gr) @ '')...'')
               (JObj [(''group_id'', JInt (g_id gr)), (''refreshing'', JBool True)])
        else andThen (set_timeout (arg_timeout g 60)) (\<lambda>_.
             andThen (session_wait dec_subscription_updated i update_reply) (\<lambda>u.
             out_ok g (''Refreshed '' @ quoted (g_name gr) @ '' (#'' @ show_int (g_id gr) @ ''): '' @
               show_nat (length (su_profiles u)) @ '' profiles.'') (imported_json u)))) (\<lambda>_.
     refresh_all env g no_wait rest))"

definition sub_refresh ::
  "CliEnv \<Rightarrow> GlobalArgs \<Rightarrow> string option \<Rightarrow> bool \<Rightarrow> bool \<Rightarrow> unit cli" where
  "sub_refresh env g selector all_groups no_wait =
     andThen (open_or_spawn env g) (\<lambda>_.
     andThen (session_state env) (\<lambda>st.
     andThen (get_cli cl_cfg) (\<lambda>cfg.
     andThen (lift (refresh_targets env st cfg selector all_groups)) (\<lambda>targets.
     andThen (require (targets \<noteq> []) (Usage ''no subscription selected; pass a group or --all'')) (\<lambda>_.
     refresh_all env g no_wait targets)))))"

section \<open>Changing a group\<close>

definition update_group ::
  "CliEnv \<Rightarrow> i32 \<Rightarrow> string \<Rightarrow> string \<Rightarrow> bool option \<Rightarrow> i64 option \<Rightarrow> Group cli" where
  "update_group env gid name url auto ival =
     session_request env ''update-group''
       (enc_update_group_data \<lparr>ugd_id = gid, ugd_name = name, ugd_subscription_url = url,
          ugd_auto_update = auto, ugd_update_interval = ival\<rparr>) dec_group
       (ReplyId [''group-updated''] [''update-group-failed''])"

definition sub_rename :: "CliEnv \<Rightarrow> GlobalArgs \<Rightarrow> string \<Rightarrow> string option \<Rightarrow> unit cli" where
  "sub_rename env g selector new_name =
     andThen (open_or_spawn env g) (\<lambda>_.
     andThen (session_state env) (\<lambda>st.
     with_group env st selector (\<lambda>gr.
     andThen (update_group env (g_id gr) (case new_name of Some n \<Rightarrow> n | None \<Rightarrow> [])
       (g_subscription_url gr) None None) (\<lambda>u.
     out_ok g ((case new_name of Some _ \<Rightarrow> ''Renamed'' | None \<Rightarrow> ''Reset'') @ '' group #'' @
         show_int (g_id u) @ '': '' @ quoted (g_name u) @ ''.'')
       (JObj [(''group_id'', JInt (g_id u)), (''name'', JStr (g_name u))])))))"

definition sub_url :: "CliEnv \<Rightarrow> GlobalArgs \<Rightarrow> string \<Rightarrow> string option \<Rightarrow> bool \<Rightarrow> unit cli" where
  "sub_url env g selector set_to reveal =
     andThen (open_or_spawn env g) (\<lambda>_.
     andThen (session_state env) (\<lambda>st.
     with_group env st selector (\<lambda>gr.
     (case set_to of
        Some new_url \<Rightarrow>
          andThen (require (http_url new_url) bad_url) (\<lambda>_.
          andThen (update_group env (g_id gr) (g_name gr) new_url None None) (\<lambda>u.
          out_ok g (''Updated subscription URL for '' @ quoted (g_name u) @ '' (#'' @ show_int (g_id u) @ '').'')
            (JObj [(''group_id'', JInt (g_id u)), (''updated'', JBool True)])))
      | None \<Rightarrow>
          (let shown = (if reveal then g_subscription_url gr else cli_redact_url (g_subscription_url gr))
           in if gl_json g then out_json (JObj [(''group_id'', JInt (g_id gr)), (''url'', JStr shown)])
              else println shown)))))"

text \<open>\<open>remove(from)\<close>, then \<open>insert\<close> at the wanted place (counted from one), at most at the end.\<close>

definition insert_at :: "nat \<Rightarrow> 'a \<Rightarrow> 'a list \<Rightarrow> 'a list" where
  "insert_at i x xs = take i xs @ x # drop i xs"

definition remove_at :: "nat \<Rightarrow> 'a list \<Rightarrow> 'a list" where
  "remove_at i xs = take i xs @ drop (Suc i) xs"

definition reordered_ids :: "i32 list \<Rightarrow> nat \<Rightarrow> nat \<Rightarrow> i32 list" where
  "reordered_ids ids from new_index =
     (let rest = remove_at from ids
      in insert_at (min (new_index - 1) (length rest)) (ids ! from) rest)"

definition sub_reorder :: "CliEnv \<Rightarrow> GlobalArgs \<Rightarrow> string \<Rightarrow> nat \<Rightarrow> unit cli" where
  "sub_reorder env g selector new_index =
     andThen (open_or_spawn env g) (\<lambda>_.
     andThen (session_state env) (\<lambda>st.
     with_group env st selector (\<lambda>gr.
     (let ids = map (\<lambda>x. g_id (gw_group x)) (as_groups st)
      in (case position (\<lambda>i. i = g_id gr) ids of
            None \<Rightarrow> fail (Usage ''group not found'')
          | Some from \<Rightarrow>
              andThen (session_request env ''reorder-groups''
                (enc_reorder_groups_data \<lparr>rgd_group_ids = reordered_ids ids from new_index\<rparr>)
                dec_groups_reordered (ReplyId [''groups-reordered''] [''reorder-groups-failed''])) (\<lambda>_.
              out_ok g ''Groups reordered.'' (JObj [(''reordered'', JBool True)])))))))"

definition patch_group ::
  "CliEnv \<Rightarrow> GlobalArgs \<Rightarrow> string \<Rightarrow> bool option \<Rightarrow> i64 option \<Rightarrow> Group cli" where
  "patch_group env g selector auto ival =
     andThen (open_or_spawn env g) (\<lambda>_.
     andThen (session_state env) (\<lambda>st.
     andThen (require (as_protocol_version st = EXPECTED_CORE_PROTOCOL_VERSION)
       (Offline (''whoisthat-core protocol '' @ show_int (as_protocol_version st) @
          '' does not support auto-update settings; restart the core''))) (\<lambda>_.
     with_group env st selector (\<lambda>gr.
     update_group env (g_id gr) (g_name gr) (g_subscription_url gr) auto ival))))"

definition parse_on_off :: "string \<Rightarrow> bool option" where
  "parse_on_off t =
     (if eq_ignore_ascii_case t ''on'' then Some True
      else if eq_ignore_ascii_case t ''off'' then Some False else None)"

definition sub_auto :: "CliEnv \<Rightarrow> GlobalArgs \<Rightarrow> string \<Rightarrow> string \<Rightarrow> unit cli" where
  "sub_auto env g selector t =
     (case parse_on_off t of
        None \<Rightarrow> fail (Usage (''sub auto expects '' @ quoted ''on'' @ '' or '' @ quoted ''off''))
      | Some enabled \<Rightarrow>
          andThen (patch_group env g selector (Some enabled) None) (\<lambda>u.
          out_ok g (''Auto-update for '' @ quoted (g_name u) @ '' (#'' @ show_int (g_id u) @ ''): '' @
              (if enabled then ''on'' else ''off'') @ ''.'')
            (JObj [(''group_id'', JInt (g_id u)), (''auto_update'', JBool enabled)])))"

definition parse_interval :: "string \<Rightarrow> i64 option" where
  "parse_interval hours =
     (if eq_ignore_ascii_case hours ''none'' then Some 0
      else (case parse_unsigned 64 hours of
              None \<Rightarrow> None
            | Some n \<Rightarrow> if 1 \<le> n \<and> n \<le> 8760 then Some (int n * 3600) else None))"

definition sub_interval :: "CliEnv \<Rightarrow> GlobalArgs \<Rightarrow> string \<Rightarrow> string \<Rightarrow> unit cli" where
  "sub_interval env g selector hours =
     (case parse_interval hours of
        None \<Rightarrow> fail (Usage (''interval must be hours (1..8760) or '' @ quoted ''none''))
      | Some secs \<Rightarrow>
          andThen (patch_group env g selector None (Some secs)) (\<lambda>u.
          out_ok g (''Manual update interval for '' @ quoted (g_name u) @ '' (#'' @ show_int (g_id u) @ ''): '' @
              (if secs = 0 then ''cleared'' else show_int (secs div 3600) @ ''h'') @ ''.'')
            (JObj [(''group_id'', JInt (g_id u)), (''update_interval'', JInt secs)])))"

fun cli_sub :: "CliEnv \<Rightarrow> GlobalArgs \<Rightarrow> SubCmd \<Rightarrow> unit cli" where
  "cli_sub env g (SubList reveal) = sub_list env g reveal"
| "cli_sub env g (SubShow sel reveal) = sub_show env g sel reveal"
| "cli_sub env g (SubAdd url name name_flag no_wait) =
     sub_add env g url (case name_flag of Some n \<Rightarrow> Some n | None \<Rightarrow> name) no_wait"
| "cli_sub env g (SubRm sel yes) = sub_remove env g sel yes"
| "cli_sub env g (SubRefresh sel all_groups no_wait) = sub_refresh env g sel all_groups no_wait"
| "cli_sub env g (SubRename sel name) = sub_rename env g sel name"
| "cli_sub env g (SubUrl sel set_to reveal) = sub_url env g sel set_to reveal"
| "cli_sub env g (SubReorder sel i) = sub_reorder env g sel i"
| "cli_sub env g (SubAuto sel t) = sub_auto env g sel t"
| "cli_sub env g (SubInterval sel hours) = sub_interval env g sel hours"

end
