(* ===== verification/CliProfiles.thy ===== *)
theory CliProfiles
  imports CliSubs
begin

text \<open>\<open>src/cli/commands/profiles.rs\<close> and \<open>tests.rs\<close>: the profiles of the groups and their tests.\<close>

section \<open>Listing\<close>

definition is_active :: "ApplicationState \<Rightarrow> Profile \<Rightarrow> bool" where
  "is_active st p \<longleftrightarrow> is_connected_state st \<and>
     (case ps_profile (as_connection_status st) of
        None \<Rightarrow> False | Some q \<Rightarrow> p_id q = p_id p \<and> p_group_id q = p_group_id p)"

definition ping_label :: "i32 \<Rightarrow> string" where
  "ping_label ms = (if ms < 0 then ''fail'' else if ms = 0 then em_dash else show_int ms @ '' ms'')"

definition profile_json :: "ApplicationState \<Rightarrow> GroupWithProfiles \<Rightarrow> Profile \<Rightarrow> bool \<Rightarrow> json" where
  "profile_json st grp p reveal = JObj
     [(''id'', JInt (p_id p)), (''group_id'', JInt (g_id (gw_group grp))),
      (''group_name'', JStr (g_name (gw_group grp))), (''name'', JStr (p_name p)),
      (''protocol'', JStr (p_protocol p)), (''address'', JStr (p_address p)), (''port'', JInt (p_port p)),
      (''host'', JStr (p_host p)), (''managed'', JBool (p_managed p)),
      (''test_result'', JInt (p_test_result p)), (''loss_pct'', JInt (p_loss_pct p)),
      (''jitter_ms'', JInt (p_jitter_ms p)), (''tested_at'', JInt (p_tested_at p)),
      (''active'', JBool (is_active st p)), (''uri'', if reveal then JStr (p_uri p) else JNull)]"

definition profile_row :: "ApplicationState \<Rightarrow> GroupWithProfiles \<Rightarrow> Profile \<Rightarrow> string list" where
  "profile_row st grp p =
     [show_int (g_id (gw_group grp)) @ '':'' @ show_int (p_id p), g_name (gw_group grp), p_name p,
      p_protocol p, ping_label (p_test_result p),
      (if p_loss_pct p > 0 then show_int (p_loss_pct p) @ ''%'' else em_dash),
      (if is_active st p then ''ACTIVE'' else [])]"

definition profile_list :: "CliEnv \<Rightarrow> GlobalArgs \<Rightarrow> string option \<Rightarrow> bool \<Rightarrow> unit cli" where
  "profile_list env g group_filter reveal =
     andThen (session_open env g) (\<lambda>_.
     andThen (session_state env) (\<lambda>st.
     andThen (lift (scoped_groups (ce_lc env) (as_groups st) group_filter)) (\<lambda>groups.
     if gl_json g
     then out_json (JArr (concat (map (\<lambda>x. map (\<lambda>p. profile_json st x p reveal) (gw_profiles x)) groups)))
     else print_table [''ID'', ''GROUP'', ''NAME'', ''PROTO'', ''PING'', ''LOSS'', ''ACTIVE'']
            (concat (map (\<lambda>x. map (profile_row st x) (gw_profiles x)) groups)))))"

definition bool_text :: "bool \<Rightarrow> string" where
  "bool_text b = (if b then ''true'' else ''false'')"

definition profile_lines :: "ApplicationState \<Rightarrow> Group \<Rightarrow> Profile \<Rightarrow> bool \<Rightarrow> string list" where
  "profile_lines st gr p reveal =
     [''Profile: '' @ p_name p, ''  id:       '' @ show_int (g_id gr) @ '':'' @ show_int (p_id p),
      ''  group:    '' @ g_name gr, ''  protocol: '' @ p_protocol p, ''  address:  '' @ p_address p]
     @ (if p_host p \<noteq> [] then [''  host:     '' @ p_host p] else [])
     @ [''  ping:     '' @ ping_label (p_test_result p)]
     @ (if p_loss_pct p > 0 \<or> p_jitter_ms p > 0
        then [''  loss:     '' @ show_int (p_loss_pct p) @ ''%  jitter: '' @ show_int (p_jitter_ms p) @ '' ms'']
        else [])
     @ [''  active:   '' @ bool_text (is_active st p)]
     @ (if p_managed p then [''  config:   provider JSON (routing read-only)'']
        else if reveal then [''  uri:      '' @ p_uri p]
        else [''  uri:      '' @ cli_redact_url (p_uri p) @ '' (use --reveal)''])"

definition profile_show :: "CliEnv \<Rightarrow> GlobalArgs \<Rightarrow> string \<Rightarrow> string option \<Rightarrow> bool \<Rightarrow> unit cli" where
  "profile_show env g selector grp reveal =
     andThen (session_open env g) (\<lambda>_.
     andThen (session_state env) (\<lambda>st.
     andThen (lift (find_profile (ce_lc env) (as_groups st) selector grp)) (\<lambda>(gr, p).
     (case group_data st (g_id gr) of
        None \<Rightarrow> ret ()
      | Some x \<Rightarrow> if gl_json g then out_json (profile_json st x p reveal)
                  else print_lines (profile_lines st gr p reveal)))))"

section \<open>Adding\<close>

text \<open>A lone dash stands for the lines of the standard input; blank entries are left out.\<close>

fun uri_payload :: "string + string list \<Rightarrow> string list \<Rightarrow> CliError + string list" where
  "uri_payload stdin [] = Inr []"
| "uri_payload stdin (u # us) =
     (if u = ''-''
      then (case stdin of
              Inl e \<Rightarrow> Inl (IoFailed e)
            | Inr ls \<Rightarrow>
                (case uri_payload (Inr []) us of
                   Inl e \<Rightarrow> Inl e
                 | Inr rest \<Rightarrow> Inr (filter (\<lambda>l. l \<noteq> []) (map trim ls) @ rest)))
      else (case uri_payload stdin us of
              Inl e \<Rightarrow> Inl e
            | Inr rest \<Rightarrow> Inr ((if trim u \<noteq> [] then [trim u] else []) @ rest)))"

definition exact_group :: "GroupWithProfiles list \<Rightarrow> string \<Rightarrow> Group option" where
  "exact_group groups sel =
     map_option gw_group
       (case parse_i32 sel of
          Some i \<Rightarrow> find (\<lambda>x. g_id (gw_group x) = i) groups
        | None \<Rightarrow> find (\<lambda>x. eq_ignore_ascii_case (g_name (gw_group x)) sel) groups)"

definition target_group :: "CliEnv \<Rightarrow> GlobalArgs \<Rightarrow> ApplicationState \<Rightarrow> string option \<Rightarrow> i32 cli" where
  "target_group env g st grp =
     (case grp of
        Some sel \<Rightarrow>
          (case exact_group (as_groups st) sel of
             Some gr \<Rightarrow> ret (g_id gr)
           | None \<Rightarrow>
               andThen (out_note g (''Creating group '' @ quoted sel @ ''...'')) (\<lambda>_.
               andThen (session_send env ''add-group''
                 (enc_add_group_data \<lparr>ag_name = sel, ag_subscription_url = []\<rparr>)) (\<lambda>i.
               andThen (session_wait dec_group_added i (ReplyId [''group-added''] [''add-group-failed'']))
                 (\<lambda>added. ret (ga_id added)))))
      | None \<Rightarrow>
          (case as_groups st of
             [] \<Rightarrow> fail (Usage ''no groups yet; run `whoisthat sub add <url>`'')
           | x # _ \<Rightarrow> ret (g_id (gw_group x))))"

definition profile_add :: "CliEnv \<Rightarrow> GlobalArgs \<Rightarrow> string list \<Rightarrow> string option \<Rightarrow> unit cli" where
  "profile_add env g uris grp =
     andThen (open_or_spawn env g) (\<lambda>_.
     andThen (session_state env) (\<lambda>st.
     andThen (lift (uri_payload (ce_stdin env) uris)) (\<lambda>payload.
     andThen (require (payload \<noteq> []) (Usage ''no profile URIs given'')) (\<lambda>_.
     andThen (target_group env g st grp) (\<lambda>gid.
     andThen (session_send env ''add-profiles''
       (enc_add_profiles_data \<lparr>ap_uris = join [CHR 0x0A] payload, ap_group_id = gid\<rparr>)) (\<lambda>i.
     andThen (session_wait dec_profiles_added i (ReplyId [''profiles-added''] [])) (\<lambda>added.
     andThen (require (pa_profiles added \<noteq> [])
       (CoreError ''no valid profiles were imported (check the URI syntax)'')) (\<lambda>_.
     out_ok g (''Imported '' @ show_nat (length (pa_profiles added)) @ '' profile(s) into group #'' @
         show_int gid @ ''.'')
       (JObj [(''group_id'', JInt gid), (''imported'', JInt (int (length (pa_profiles added))))])))))))))"

section \<open>Removing, renaming, moving\<close>

fun resolve_all ::
  "(string \<Rightarrow> string) \<Rightarrow> GroupWithProfiles list \<Rightarrow> string option \<Rightarrow> string list
   \<Rightarrow> CliError + (Group \<times> Profile) list" where
  "resolve_all lc groups f [] = Inr []"
| "resolve_all lc groups f (sel # sels) =
     (case find_profile lc groups sel f of
        Inl e \<Rightarrow> Inl e
      | Inr gp \<Rightarrow>
          (case resolve_all lc groups f sels of Inl e \<Rightarrow> Inl e | Inr gps \<Rightarrow> Inr (gp # gps)))"

definition ref_of :: "Group \<times> Profile \<Rightarrow> ProfileID" where
  "ref_of gp = \<lparr>pid_id = p_id (snd gp), pid_group_id = g_id (fst gp)\<rparr>"

definition profile_remove :: "CliEnv \<Rightarrow> GlobalArgs \<Rightarrow> string list \<Rightarrow> bool \<Rightarrow> unit cli" where
  "profile_remove env g selectors yes =
     andThen (require yes (Usage ''profile rm is destructive; pass --yes to confirm'')) (\<lambda>_.
     andThen (open_or_spawn env g) (\<lambda>_.
     andThen (session_state env) (\<lambda>st.
     andThen (lift (resolve_all (ce_lc env) (as_groups st) None selectors)) (\<lambda>gps.
     andThen (session_send env ''delete-profiles''
       (enc_delete_profiles_data \<lparr>dp_profiles = map ref_of gps\<rparr>)) (\<lambda>i.
     andThen (session_wait dec_profiles_deleted i (ReplyId [''profiles-deleted''] [])) (\<lambda>d.
     andThen (require (length (pdl_deleted_profiles d) = length gps)
       (CoreError (''deleted '' @ show_nat (length (pdl_deleted_profiles d)) @ '' of '' @
          show_nat (length gps) @ '' profiles''))) (\<lambda>_.
     out_ok g (''Deleted '' @ show_nat (length gps) @ '' profile(s).'')
       (JObj [(''deleted'', JInt (int (length gps)))]))))))))"

definition profile_rename :: "CliEnv \<Rightarrow> GlobalArgs \<Rightarrow> string \<Rightarrow> string \<Rightarrow> unit cli" where
  "profile_rename env g selector new_name =
     andThen (open_or_spawn env g) (\<lambda>_.
     andThen (session_state env) (\<lambda>st.
     andThen (lift (find_profile (ce_lc env) (as_groups st) selector None)) (\<lambda>gp.
     andThen (session_request env ''update-profile''
       (enc_update_profile_data \<lparr>upd_profile = ref_of gp, upd_name = new_name\<rparr>) dec_profile_updated
       (ReplyId [''profile-updated''] [''update-profile-failed''])) (\<lambda>u.
     out_ok g (''Renamed to '' @ quoted (p_name (pu_profile u)) @ ''.'')
       (JObj [(''profile'', enc_profile (pu_profile u))])))))"

definition profile_move :: "CliEnv \<Rightarrow> GlobalArgs \<Rightarrow> string \<Rightarrow> string \<Rightarrow> unit cli" where
  "profile_move env g selector to_group =
     andThen (open_or_spawn env g) (\<lambda>_.
     andThen (session_state env) (\<lambda>st.
     andThen (lift (find_profile (ce_lc env) (as_groups st) selector None)) (\<lambda>(from_group, p).
     with_group env st to_group (\<lambda>target.
     andThen (require (g_id from_group \<noteq> g_id target) (Usage ''profile is already in that group'')) (\<lambda>_.
     andThen (session_request env ''move-profile''
       (enc_move_profile_data \<lparr>mpd_profile_id = p_id p, mpd_from_group_id = g_id from_group,
          mpd_to_group_id = g_id target\<rparr>) dec_profile_moved
       (ReplyId [''profile-moved''] [''move-profile-failed''])) (\<lambda>m.
     out_ok g (''Moved '' @ quoted (p_name (pm_new_profile m)) @ '' to group #'' @ show_int (g_id target) @ ''.'')
       (JObj [(''profile'', enc_profile (pm_new_profile m)), (''group_id'', JInt (g_id target))])))))))"

section \<open>Reordering\<close>

fun parse_ids :: "string list \<Rightarrow> CliError + i32 list" where
  "parse_ids [] = Inr []"
| "parse_ids (part # rest) =
     (case parse_i32 (trim part) of
        None \<Rightarrow> Inl (Usage (''invalid profile id in --order: '' @ quoted part))
      | Some i \<Rightarrow> (case parse_ids rest of Inl e \<Rightarrow> Inl e | Inr is \<Rightarrow> Inr (i # is)))"

definition wanted_order ::
  "(string \<Rightarrow> string) \<Rightarrow> GroupWithProfiles list \<Rightarrow> string \<Rightarrow> string list \<Rightarrow> string option
   \<Rightarrow> CliError + i32 list" where
  "wanted_order lc groups group_sel selectors order =
     (case order of
        Some l \<Rightarrow> parse_ids (filter (\<lambda>t. trim t \<noteq> []) (split_on (\<lambda>b. b = CHR '','') l))
      | None \<Rightarrow>
          (case resolve_all lc groups (Some group_sel) selectors of
             Inl e \<Rightarrow> Inl e
           | Inr gps \<Rightarrow> Inr (map (\<lambda>gp. p_id (snd gp)) gps)))"

text \<open>The two hash sets are compared.\<close>

definition same_profiles :: "i32 list \<Rightarrow> GroupWithProfiles \<Rightarrow> bool" where
  "same_profiles desired grp \<longleftrightarrow> set (map p_id (gw_profiles grp)) = set desired"

definition profile_reorder ::
  "CliEnv \<Rightarrow> GlobalArgs \<Rightarrow> string \<Rightarrow> string list \<Rightarrow> string option \<Rightarrow> unit cli" where
  "profile_reorder env g group_sel selectors order =
     andThen (open_or_spawn env g) (\<lambda>_.
     andThen (session_state env) (\<lambda>st.
     with_group env st group_sel (\<lambda>gr.
     (case group_data st (g_id gr) of
        None \<Rightarrow> ret ()
      | Some grp \<Rightarrow>
          andThen (lift (wanted_order (ce_lc env) (as_groups st) group_sel selectors order)) (\<lambda>desired.
          andThen (require (same_profiles desired grp)
            (Usage ''the new order must contain exactly the profiles of the group'')) (\<lambda>_.
          andThen (session_request env ''reorder-profiles''
            (enc_reorder_profiles_data \<lparr>rpd_group_id = g_id gr, rpd_profile_ids = desired\<rparr>)
            dec_profiles_reordered (ReplyId [''profiles-reordered''] [''reorder-profiles-failed''])) (\<lambda>_.
          out_ok g ''Profiles reordered.'' (JObj [(''group_id'', JInt (g_id gr)),
            (''profile_ids'', JArr (map JInt desired))]))))))))"

fun cli_profile :: "CliEnv \<Rightarrow> GlobalArgs \<Rightarrow> ProfileCmd \<Rightarrow> unit cli" where
  "cli_profile env g (ProfileList grp reveal) = profile_list env g grp reveal"
| "cli_profile env g (ProfileShow sel grp reveal) = profile_show env g sel grp reveal"
| "cli_profile env g (ProfileAdd uris grp) = profile_add env g uris grp"
| "cli_profile env g (ProfileRm sels yes) = profile_remove env g sels yes"
| "cli_profile env g (ProfileRename sel name) = profile_rename env g sel name"
| "cli_profile env g (ProfileMove sel to_group) = profile_move env g sel to_group"
| "cli_profile env g (ProfileReorder grp sels order) = profile_reorder env g grp sels order"

section \<open>Tests\<close>

definition text_or_empty :: "string option \<Rightarrow> string" where
  "text_or_empty m = (case m of Some t \<Rightarrow> t | None \<Rightarrow> [])"

definition profile_updated_is :: "i32 \<Rightarrow> i32 \<Rightarrow> TcpMessage \<Rightarrow> bool" where
  "profile_updated_is gid pid m \<longleftrightarrow> tm_msg m = ''profile-updated'' \<and>
     (case dec_profile_updated (tm_data m) of
        None \<Rightarrow> False
      | Some u \<Rightarrow> p_id (pu_profile u) = pid \<and> p_group_id (pu_profile u) = gid)"

definition print_profile :: "GlobalArgs \<Rightarrow> Profile \<Rightarrow> unit cli" where
  "print_profile g p =
     (if gl_json g then out_json (enc_profile p)
      else print_lines ([p_name p @ '': '' @ ping_label (p_test_result p)]
        @ (if p_loss_pct p > 0 \<or> p_jitter_ms p > 0
           then [''loss: '' @ show_int (p_loss_pct p) @ ''%  jitter: '' @ show_int (p_jitter_ms p) @ '' ms''] else [])))"

definition test_profile_cmd :: "CliEnv \<Rightarrow> GlobalArgs \<Rightarrow> string \<Rightarrow> string option \<Rightarrow> bool \<Rightarrow> unit cli" where
  "test_profile_cmd env g selector meth wait =
     andThen (open_or_spawn env g) (\<lambda>_.
     andThen (session_state env) (\<lambda>st.
     andThen (lift (find_profile (ce_lc env) (as_groups st) selector None)) (\<lambda>(gr, p).
     andThen (session_send env ''test-profile''
       (enc_test_profile_data \<lparr>tpd_profile = ref_of (gr, p), tpd_method = text_or_empty meth,
          tpd_sample_count = 0\<rparr>)) (\<lambda>i.
     if \<not> wait
     then out_ok g (''Testing '' @ quoted (p_name p) @ ''...'')
            (JObj [(''queued'', JBool True), (''group_id'', JInt (g_id gr)), (''profile_id'', JInt (p_id p))])
     else
       andThen (set_timeout (arg_timeout g 120)) (\<lambda>_.
       andThen (session_wait dec_profile_updated i
         (Broadcast (profile_updated_is (g_id gr) (p_id p)) [''test-failed''])) (\<lambda>u.
       print_profile g (pu_profile u)))))))"

definition tests_done :: "i32 \<Rightarrow> TcpMessage \<Rightarrow> bool" where
  "tests_done gid m \<longleftrightarrow> tm_msg m = ''test-progress'' \<and>
     (case dec_test_progress (tm_data m) of
        None \<Rightarrow> False
      | Some p \<Rightarrow> tp_group_id p = gid \<and> (tp_total p = 0 \<or> tp_tested p \<ge> tp_total p))"

definition result_json :: "Profile \<Rightarrow> json" where
  "result_json p = JObj [(''id'', JInt (p_id p)), (''name'', JStr (p_name p)),
     (''test_result'', JInt (p_test_result p)), (''loss_pct'', JInt (p_loss_pct p)),
     (''jitter_ms'', JInt (p_jitter_ms p))]"

definition print_group_results :: "CliEnv \<Rightarrow> GlobalArgs \<Rightarrow> i32 \<Rightarrow> string \<Rightarrow> unit cli" where
  "print_group_results env g gid name =
     andThen (session_state env) (\<lambda>st.
     (case group_data st gid of
        None \<Rightarrow> fail (CoreError ''group disappeared'')
      | Some grp \<Rightarrow>
          if gl_json g then out_json (JArr (map result_json (gw_profiles grp)))
          else andThen (println (''Results for '' @ quoted name @ '':'')) (\<lambda>_.
               print_table [''NAME'', ''PING'', ''LOSS'', ''JITTER'']
                 (map (\<lambda>p. [p_name p, ping_label (p_test_result p), show_int (p_loss_pct p) @ ''%'',
                    show_int (p_jitter_ms p) @ '' ms'']) (gw_profiles grp)))))"

definition test_group_cmd :: "CliEnv \<Rightarrow> GlobalArgs \<Rightarrow> string \<Rightarrow> string option \<Rightarrow> bool \<Rightarrow> unit cli" where
  "test_group_cmd env g selector meth wait =
     andThen (open_or_spawn env g) (\<lambda>_.
     andThen (session_state env) (\<lambda>st.
     with_group env st selector (\<lambda>gr.
     andThen (session_send env ''test-group''
       (enc_test_group_data \<lparr>tgd_group_id = g_id gr, tgd_method = text_or_empty meth,
          tgd_sample_count = 0\<rparr>)) (\<lambda>i.
     if \<not> wait
     then out_ok g (''Testing group '' @ quoted (g_name gr) @ ''...'')
            (JObj [(''queued'', JBool True), (''group_id'', JInt (g_id gr))])
     else
       andThen (set_timeout (arg_timeout g 120)) (\<lambda>_.
       andThen (session_wait dec_test_progress i
         (Broadcast (tests_done (g_id gr)) [''test-group-failed'', ''command-ignored''])) (\<lambda>p.
       andThen (require (tp_total p \<noteq> 0)
         (CoreError ''no tests were queued (all profiles are already being tested)'')) (\<lambda>_.
       print_group_results env g (g_id gr) (g_name gr))))))))"

fun test_groups :: "CliEnv \<Rightarrow> GlobalArgs \<Rightarrow> string option \<Rightarrow> bool \<Rightarrow> GroupWithProfiles list \<Rightarrow> unit cli" where
  "test_groups env g meth wait [] = ret ()"
| "test_groups env g meth wait (x # xs) =
     andThen (test_group_cmd env g (show_int (g_id (gw_group x))) meth wait) (\<lambda>_.
     test_groups env g meth wait xs)"

definition test_all :: "CliEnv \<Rightarrow> GlobalArgs \<Rightarrow> string option \<Rightarrow> bool \<Rightarrow> unit cli" where
  "test_all env g meth wait =
     andThen (open_or_spawn env g) (\<lambda>_.
     andThen (session_state env) (\<lambda>st. test_groups env g meth wait (as_groups st)))"

definition test_cancel :: "CliEnv \<Rightarrow> GlobalArgs \<Rightarrow> unit cli" where
  "test_cancel env g =
     andThen (open_or_spawn env g) (\<lambda>_.
     andThen (session_send env ''cancel-tests'' (JObj [])) (\<lambda>_.
     out_ok g ''Cancelled pending and active tests.'' (JObj [(''cancelled'', JBool True)])))"

definition parse_switch :: "string \<Rightarrow> bool option" where
  "parse_switch v =
     (if v = ''on'' \<or> v = ''true'' \<or> v = ''1'' then Some True
      else if v = ''off'' \<or> v = ''false'' \<or> v = ''0'' then Some False else None)"

definition merge_test_config :: "TestConfigArgs \<Rightarrow> TestConfig \<Rightarrow> CliError + (TestConfig \<times> bool)" where
  "merge_test_config a c =
     (let c = (case ta_concurrency a of Some v \<Rightarrow> c\<lparr>tc_concurrency := v\<rparr> | None \<Rightarrow> c);
          c = (case ta_test_timeout a of Some v \<Rightarrow> c\<lparr>tc_timeout_seconds := v\<rparr> | None \<Rightarrow> c);
          c = (case ta_samples a of Some v \<Rightarrow> c\<lparr>tc_samples_per_test := v\<rparr> | None \<Rightarrow> c);
          c = (case ta_endpoint a of Some v \<Rightarrow> c\<lparr>tc_test_endpoint := v\<rparr> | None \<Rightarrow> c);
          changed = (ta_concurrency a \<noteq> None \<or> ta_test_timeout a \<noteq> None \<or> ta_samples a \<noteq> None
                     \<or> ta_endpoint a \<noteq> None \<or> ta_auto_on_subscribe a \<noteq> None)
      in (case ta_auto_on_subscribe a of
            None \<Rightarrow> Inr (c, changed)
          | Some v \<Rightarrow>
              (case parse_switch v of
                 None \<Rightarrow> Inl (Usage ''expected on|off'')
               | Some b \<Rightarrow> Inr (c\<lparr>tc_auto_test_on_subscribe := b\<rparr>, changed))))"

definition check_test_config :: "TestConfig \<Rightarrow> CliError option" where
  "check_test_config c =
     (if tc_concurrency c < 1 \<or> tc_concurrency c > 64 then Some (Usage ''concurrency must be 1..64'')
      else if tc_timeout_seconds c < 1 \<or> tc_timeout_seconds c > 120 then Some (Usage ''timeout must be 1..120'')
      else if tc_samples_per_test c < 1 \<or> tc_samples_per_test c > 10 then Some (Usage ''samples must be 1..10'')
      else None)"

definition mirror_test_config :: "TestConfig \<Rightarrow> AppConfig \<Rightarrow> AppConfig" where
  "mirror_test_config t c =
     c\<lparr>c_test_concurrency := tc_concurrency t, c_test_timeout_seconds := tc_timeout_seconds t,
       c_test_samples := tc_samples_per_test t, c_test_endpoint := tc_test_endpoint t,
       c_auto_test_on_subscribe := tc_auto_test_on_subscribe t\<rparr>"

definition store_test_config :: "CliEnv \<Rightarrow> TestConfig \<Rightarrow> TestConfig cli" where
  "store_test_config env c =
     andThen (session_request env ''set-test-config'' (enc_set_test_config_data \<lparr>stc_config = c\<rparr>)
       dec_test_config_updated (ReplyId [''test-config-updated''] [])) (\<lambda>_.
     andThen (session_state env) (\<lambda>st.
     andThen (save_cfg env (mirror_test_config (as_test_config st))) (\<lambda>_.
     ret (as_test_config st))))"

definition test_configure :: "CliEnv \<Rightarrow> GlobalArgs \<Rightarrow> TestConfigArgs \<Rightarrow> unit cli" where
  "test_configure env g a =
     andThen (open_or_spawn env g) (\<lambda>_.
     andThen (session_state env) (\<lambda>st.
     andThen (lift (merge_test_config a (as_test_config st))) (\<lambda>(c, changed).
     andThen
       (if changed
        then (case check_test_config c of Some e \<Rightarrow> fail e | None \<Rightarrow> store_test_config env c)
        else ret c) (\<lambda>c.
     if gl_json g then out_json (enc_test_config c)
     else print_lines
       [''concurrency:          '' @ show_int (tc_concurrency c),
        ''timeout:              '' @ show_int (tc_timeout_seconds c) @ '' s'',
        ''samples:              '' @ show_int (tc_samples_per_test c),
        ''endpoint:             '' @ tc_test_endpoint c,
        ''auto-test on refresh: '' @ bool_text (tc_auto_test_on_subscribe c)]))))"

fun cli_test :: "CliEnv \<Rightarrow> GlobalArgs \<Rightarrow> TestCmd \<Rightarrow> unit cli" where
  "cli_test env g (TestOneProfile sel meth wait) = test_profile_cmd env g sel meth wait"
| "cli_test env g (TestOneGroup sel meth wait) = test_group_cmd env g sel meth wait"
| "cli_test env g (TestAll meth wait) = test_all env g meth wait"
| "cli_test env g TestCancel = test_cancel env g"
| "cli_test env g (TestConfigure a) = test_configure env g a"

end
