(* ===== verification/Traffic.thy ===== *)
theory Traffic
  imports Protocol Complex_Main "HOL-Library.Word"
begin

text \<open>
  \<open>src/ui/traffic.rs\<close>: the bandwidth history.  The totals are \<open>i64\<close> values and add with
  wrap-around, as in the release build.  The conversion of a byte count to \<open>f64\<close> is the
  parameter \<open>rnd\<close> (rounding to the nearest double); the lemmas only use that it is monotone.
\<close>

definition DEFAULT_HISTORY_LEN :: nat where
  "DEFAULT_HISTORY_LEN = 60"

record TrafficPoint =
  t_proxy_down :: real
  t_proxy_up :: real
  t_direct_down :: real
  t_direct_up :: real

definition zero_point :: TrafficPoint where
  "zero_point = \<lparr>t_proxy_down = 0, t_proxy_up = 0, t_direct_down = 0, t_direct_up = 0\<rparr>"

record TrafficHistory =
  h_history :: "TrafficPoint list"
  h_total_proxy_down :: "64 word"
  h_total_proxy_up :: "64 word"
  h_total_direct_down :: "64 word"
  h_total_direct_up :: "64 word"
  h_peak_down :: real
  h_peak_up :: real
  h_max_history :: nat

definition history_new :: TrafficHistory where
  "history_new =
     \<lparr>h_history = replicate DEFAULT_HISTORY_LEN zero_point, h_total_proxy_down = 0,
      h_total_proxy_up = 0, h_total_direct_down = 0, h_total_direct_up = 0, h_peak_down = 0,
      h_peak_up = 0, h_max_history = DEFAULT_HISTORY_LEN\<rparr>"

text \<open>\<open>pop\_front\<close> when the window is full, then \<open>push\_back\<close>.\<close>

definition push_point :: "TrafficPoint \<Rightarrow> TrafficHistory \<Rightarrow> TrafficHistory" where
  "push_point p h =
     h\<lparr>h_history := (if length (h_history h) \<ge> h_max_history h then tl (h_history h)
                     else h_history h) @ [p]\<rparr>"

definition history_push :: "(int \<Rightarrow> real) \<Rightarrow> TrafficStats \<Rightarrow> TrafficHistory \<Rightarrow> TrafficHistory" where
  "history_push rnd stats h =
     (let down = rnd (max (ts_proxy_down stats) 0);
          up = rnd (max (ts_proxy_up stats) 0);
          dir_down = rnd (max (ts_direct_down stats) 0);
          dir_up = rnd (max (ts_direct_up stats) 0);
          h = (if down > h_peak_down h then h\<lparr>h_peak_down := down\<rparr> else h);
          h = (if up > h_peak_up h then h\<lparr>h_peak_up := up\<rparr> else h);
          h = h\<lparr>h_total_proxy_down := h_total_proxy_down h + word_of_int (max (ts_proxy_down stats) 0),
                h_total_proxy_up := h_total_proxy_up h + word_of_int (max (ts_proxy_up stats) 0),
                h_total_direct_down := h_total_direct_down h + word_of_int (max (ts_direct_down stats) 0),
                h_total_direct_up := h_total_direct_up h + word_of_int (max (ts_direct_up stats) 0)\<rparr>
      in push_point \<lparr>t_proxy_down = down, t_proxy_up = up, t_direct_down = dir_down,
                     t_direct_up = dir_up\<rparr> h)"

definition history_push_zero :: "TrafficHistory \<Rightarrow> TrafficHistory" where
  "history_push_zero h = push_point zero_point h"

text \<open>The chart's x coordinates place the window's points at its right end.\<close>

definition chart_points :: "TrafficHistory \<Rightarrow> (nat \<times> real) list \<times> (nat \<times> real) list" where
  "chart_points h =
     (let offset = h_max_history h - length (h_history h);
          xs = map (\<lambda>i. offset + i) [0..<length (h_history h)]
      in (zip xs (map t_proxy_down (h_history h)), zip xs (map t_proxy_up (h_history h))))"

section \<open>The window and the totals\<close>

definition full_window :: "TrafficHistory \<Rightarrow> bool" where
  "full_window h \<longleftrightarrow> length (h_history h) = h_max_history h \<and> 0 < h_max_history h"

lemma full_window_push_point: "full_window h \<Longrightarrow> full_window (push_point p h)"
  by (simp add: full_window_def push_point_def)

lemma push_point_window:
  "full_window h \<Longrightarrow> h_history (push_point p h) = tl (h_history h) @ [p]"
  by (simp add: full_window_def push_point_def)

lemma push_point_fields [simp]:
  "h_total_proxy_down (push_point p h) = h_total_proxy_down h"
  "h_peak_down (push_point p h) = h_peak_down h"
  "h_peak_up (push_point p h) = h_peak_up h"
  "h_max_history (push_point p h) = h_max_history h"
  by (simp_all add: push_point_def)

lemma full_window_new: "full_window history_new"
  by (simp add: full_window_def history_new_def DEFAULT_HISTORY_LEN_def)

lemma history_push_down:
  "h_total_proxy_down (history_push rnd s h)
     = h_total_proxy_down h + word_of_int (max (ts_proxy_down s) 0)"
  by (simp add: history_push_def Let_def)

lemma history_push_peak:
  "h_peak_down (history_push rnd s h) = max (h_peak_down h) (rnd (max (ts_proxy_down s) 0))"
  by (simp add: history_push_def Let_def)

lemma full_window_push: "full_window h \<Longrightarrow> full_window (history_push rnd s h)"
  unfolding history_push_def Let_def
  by (rule full_window_push_point) (simp add: full_window_def)

definition sum_down :: "TrafficStats list \<Rightarrow> int" where
  "sum_down samples = (\<Sum>s\<leftarrow>samples. max (ts_proxy_down s) 0)"

lemma sum_down_nonneg: "0 \<le> sum_down samples"
  by (induction samples) (auto simp: sum_down_def)

lemma fold_push_window: "full_window h \<Longrightarrow>
    full_window (fold (history_push rnd) samples h)
    \<and> h_max_history (fold (history_push rnd) samples h) = h_max_history h"
proof (induction samples arbitrary: h)
  case (Cons s samples)
  have "h_max_history (history_push rnd s h) = h_max_history h"
    by (simp add: history_push_def Let_def)
  then show ?case using Cons.IH [OF full_window_push [OF Cons.prems]] by simp
qed simp

lemma fold_push_total:
  "h_total_proxy_down (fold (history_push rnd) samples h)
     = h_total_proxy_down h + word_of_int (sum_down samples)"
  by (induction samples arbitrary: h)
    (simp_all add: sum_down_def history_push_down add.assoc)

lemma fold_push_peak:
  "h_peak_down h \<le> h_peak_down (fold (history_push rnd) samples h)
   \<and> (\<forall>s\<in>set samples. rnd (max (ts_proxy_down s) 0) \<le> h_peak_down (fold (history_push rnd) samples h))"
proof (induction samples arbitrary: h)
  case (Cons s samples)
  show ?case using Cons.IH [of "history_push rnd s h"] by (auto simp: history_push_peak)
qed simp

text \<open>after any sequence of samples the window holds exactly sixty points, and as long as the
  non-negative samples sum to less than \<open>2^63\<close> the wrapping \<open>i64\<close> total is that sum.\<close>

theorem history_run_total:
  assumes "sum_down samples < 2 ^ 63"
  shows "length (h_history (fold (history_push rnd) samples history_new)) = 60
    \<and> sint (h_total_proxy_down (fold (history_push rnd) samples history_new)) = sum_down samples"
proof -
  have "sint (word_of_int (sum_down samples) :: 64 word) = sum_down samples"
    using assms sum_down_nonneg [of samples]
    by (simp add: sint_sbintrunc' signed_take_bit_int_eq_self)
  then show ?thesis
    using fold_push_window [OF full_window_new, of rnd samples]
    by (simp add: fold_push_total full_window_def history_new_def DEFAULT_HISTORY_LEN_def)
qed

theorem history_run_total_witness:
  "sint (h_total_proxy_down (fold (history_push of_int)
     [\<lparr>ts_proxy_up = 0, ts_proxy_down = 700, ts_direct_up = 0, ts_direct_down = 0\<rparr>,
      \<lparr>ts_proxy_up = 0, ts_proxy_down = -5, ts_direct_up = 0, ts_direct_down = 0\<rparr>] history_new)) = 700"
  using history_run_total [of "[\<lparr>ts_proxy_up = 0, ts_proxy_down = 700, ts_direct_up = 0, ts_direct_down = 0\<rparr>,
      \<lparr>ts_proxy_up = 0, ts_proxy_down = -5, ts_direct_up = 0, ts_direct_down = 0\<rparr>]" of_int]
  by (simp add: sum_down_def)

end
