(* ===== verification/RoutingRules.thy ===== *)
theory RoutingRules
  imports Protocol
begin

text \<open>
  \<open>src/ui/routing/form.rs\<close>, \<open>presets.rs\<close> and the types of \<open>mod.rs\<close>: routing rules as the
  edit form shows them, and the one-click presets.
\<close>

section \<open>Popups of the routing tab\<close>

datatype RoutingPopup =
    RAdd (ra_match_type: nat) (ra_value: string) (ra_outbound: nat) (ra_cursor: nat) (ra_field: nat)
  | REdit nat nat string nat nat nat
  | RConfirmDelete nat
  | RPresets nat
  | RHappProfiles nat

section \<open>The rule form\<close>

definition OUTBOUND_LABELS :: "string list" where
  "OUTBOUND_LABELS = [''proxy'', ''direct'', ''block'']"

definition rule_type_label :: "RoutingRule \<Rightarrow> string" where
  "rule_type_label r =
     (if starts_with ''geosite:'' (r_domain r) then ''geosite''
      else if r_domain r \<noteq> [] then ''domain''
      else if starts_with ''geoip:'' (r_ip r) then ''geoip''
      else if r_ip r \<noteq> [] then ''ip''
      else if r_protocol r \<noteq> [] then ''protocol''
      else if r_port r \<noteq> [] then ''port''
      else [])"

definition rule_value :: "RoutingRule \<Rightarrow> string" where
  "rule_value r =
     (if starts_with ''geosite:'' (r_domain r) then drop 8 (r_domain r)
      else if r_domain r \<noteq> [] then r_domain r
      else if starts_with ''geoip:'' (r_ip r) then drop 6 (r_ip r)
      else if r_ip r \<noteq> [] then r_ip r
      else if r_protocol r \<noteq> [] then r_protocol r
      else if r_port r \<noteq> [] then r_port r
      else [])"

definition rule_outbound_label :: "RoutingRule \<Rightarrow> string" where
  "rule_outbound_label r = (if r_outbound_tag r = [] then ''proxy'' else r_outbound_tag r)"

definition rule_to_form :: "RoutingRule \<Rightarrow> nat \<times> string \<times> nat" where
  "rule_to_form r =
     (let (match_type, value) =
            (if starts_with ''geosite:'' (r_domain r) then (5, r_domain r)
             else if starts_with ''geoip:'' (r_ip r) then (4, r_ip r)
             else if r_domain r \<noteq> [] then (0, r_domain r)
             else if r_ip r \<noteq> [] then (1, r_ip r)
             else if r_protocol r \<noteq> [] then (2, r_protocol r)
             else (3, r_port r));
          outbound = (if r_outbound_tag r = ''direct'' then 1
                      else if r_outbound_tag r = ''block'' then 2 else 0)
      in (match_type, value, outbound))"

text \<open>\<open>None\<close> is the panic of \<open>OUTBOUND\_LABELS[outbound]\<close>.\<close>

definition form_to_rule :: "nat \<Rightarrow> string \<Rightarrow> nat \<Rightarrow> RoutingRule option" where
  "form_to_rule match_type value outbound =
     do { tag \<leftarrow> get_at OUTBOUND_LABELS outbound;
          let rule = default_rule\<lparr>r_type := ''field'', r_outbound_tag := tag, r_enabled := True\<rparr>;
          Some (if match_type = 0 then rule\<lparr>r_domain := value\<rparr>
                else if match_type = 1 then rule\<lparr>r_ip := value\<rparr>
                else if match_type = 2 then rule\<lparr>r_protocol := value\<rparr>
                else if match_type = 3 then rule\<lparr>r_port := value\<rparr>
                else if match_type = 4 then rule\<lparr>r_ip := value\<rparr>
                else if match_type = 5 then rule\<lparr>r_domain := value\<rparr>
                else rule) }"

text \<open>A form whose value carries the prefix its type asks for.\<close>

definition form_ok :: "nat \<Rightarrow> string \<Rightarrow> nat \<Rightarrow> bool" where
  "form_ok mt v ob \<longleftrightarrow> mt < 6 \<and> ob < 3 \<and> (v = [] \<longrightarrow> mt = 3)
     \<and> (mt = 0 \<longrightarrow> \<not> starts_with ''geosite:'' v) \<and> (mt = 5 \<longrightarrow> starts_with ''geosite:'' v)
     \<and> (mt = 1 \<longrightarrow> \<not> starts_with ''geoip:'' v) \<and> (mt = 4 \<longrightarrow> starts_with ''geoip:'' v)"

lemma less_6_cases: "(n::nat) < 6 \<Longrightarrow> n = 0 \<or> n = 1 \<or> n = 2 \<or> n = 3 \<or> n = 4 \<or> n = 5"
  by arith

lemma less_3_cases: "(n::nat) < 3 \<Longrightarrow> n = 0 \<or> n = 1 \<or> n = 2"
  by arith

lemma starts_with_Nil: "p \<noteq> [] \<Longrightarrow> \<not> starts_with p []"
  by (simp add: starts_with_def)

lemma outbound_of_label:
  "ob < 3 \<Longrightarrow> (if OUTBOUND_LABELS ! ob = ''direct'' then 1
     else if OUTBOUND_LABELS ! ob = ''block'' then 2 else 0) = ob"
  by (auto dest!: less_3_cases simp: OUTBOUND_LABELS_def)

lemma form_to_rule_Some:
  assumes "ob < 3"
  shows "\<exists>r. form_to_rule mt v ob = Some r \<and> r_outbound_tag r = OUTBOUND_LABELS ! ob
    \<and> r_domain r = (if mt = 0 \<or> mt = 5 then v else [])
    \<and> r_ip r = (if mt = 1 \<or> mt = 4 then v else [])
    \<and> r_protocol r = (if mt = 2 then v else []) \<and> r_port r = (if mt = 3 then v else [])"
proof -
  have "get_at OUTBOUND_LABELS ob = Some (OUTBOUND_LABELS ! ob)"
    using assms by (simp add: get_at_def OUTBOUND_LABELS_def)
  then show ?thesis by (simp add: form_to_rule_def default_rule_def)
qed

text \<open>opening the edit form on a rule made from a consistent form shows that form again.\<close>

theorem form_roundtrip:
  assumes "form_ok mt v ob"
  shows "\<exists>r. form_to_rule mt v ob = Some r \<and> rule_to_form r = (mt, v, ob)"
proof -
  have mt: "mt < 6" and ob: "ob < 3" using assms by (simp_all add: form_ok_def)
  obtain r where r: "form_to_rule mt v ob = Some r" "r_outbound_tag r = OUTBOUND_LABELS ! ob"
    "r_domain r = (if mt = 0 \<or> mt = 5 then v else [])"
    "r_ip r = (if mt = 1 \<or> mt = 4 then v else [])"
    "r_protocol r = (if mt = 2 then v else [])" "r_port r = (if mt = 3 then v else [])"
    using form_to_rule_Some [OF ob] by blast
  have "rule_to_form r = (mt, v, ob)"
    unfolding rule_to_form_def r(2) outbound_of_label [OF ob] r(3-6)
    using less_6_cases [OF mt] assms
    by (elim disjE) (simp_all add: form_ok_def starts_with_Nil split: if_splits)
  with r(1) show ?thesis by blast
qed

theorem form_roundtrip_witness:
  "\<exists>r. form_to_rule 5 ''geosite:ru'' 1 = Some r \<and> rule_to_form r = (5, ''geosite:ru'', 1)"
  by (rule form_roundtrip) (simp add: form_ok_def starts_with_def)

text \<open>A rule as the form can produce it, whether enabled or not.\<close>

definition form_rule :: "RoutingRule \<Rightarrow> bool" where
  "form_rule r \<longleftrightarrow> r_type r = ''field'' \<and> r_network r = []
     \<and> r_outbound_tag r \<in> set OUTBOUND_LABELS
     \<and> (\<exists>d i p q. r_domain r = d \<and> r_ip r = i \<and> r_protocol r = p \<and> r_port r = q
          \<and> (i = [] \<and> p = [] \<and> q = [] \<or> d = [] \<and> p = [] \<and> q = []
             \<or> d = [] \<and> i = [] \<and> q = [] \<or> d = [] \<and> i = [] \<and> p = []))"

text \<open>saving the edit form without changing it keeps every field of the rule except that the
  rule comes back enabled: editing a disabled rule silently enables it.\<close>

theorem edit_form_reenables:
  assumes "form_rule r"
  shows "(case rule_to_form r of (mt, v, ob) \<Rightarrow> form_to_rule mt v ob) = Some (r\<lparr>r_enabled := True\<rparr>)"
proof -
  obtain ty d i p q n tag en where
    r: "r = \<lparr>r_type = ty, r_domain = d, r_ip = i, r_protocol = p, r_port = q, r_network = n,
             r_outbound_tag = tag, r_enabled = en\<rparr>" by (cases r) simp
  have tag: "tag = ''proxy'' \<or> tag = ''direct'' \<or> tag = ''block''"
    using assms by (auto simp: form_rule_def r OUTBOUND_LABELS_def)
  have one: "i = [] \<and> p = [] \<and> q = [] \<or> d = [] \<and> p = [] \<and> q = []
      \<or> d = [] \<and> i = [] \<and> q = [] \<or> d = [] \<and> i = [] \<and> p = []"
    and ty: "ty = ''field''" "n = []" using assms by (auto simp: form_rule_def r)
  show ?thesis
    using tag one
    by (auto simp: r ty rule_to_form_def form_to_rule_def default_rule_def get_at_def
        OUTBOUND_LABELS_def starts_with_Nil)
qed

theorem edit_form_reenables_witness:
  "(case rule_to_form (default_rule\<lparr>r_type := ''field'', r_ip := ''geoip:ru'',
        r_outbound_tag := ''direct''\<rparr>) of (mt, v, ob) \<Rightarrow> form_to_rule mt v ob)
    = Some (default_rule\<lparr>r_type := ''field'', r_ip := ''geoip:ru'', r_outbound_tag := ''direct'',
        r_enabled := True\<rparr>)"
  using edit_form_reenables [of "default_rule\<lparr>r_type := ''field'', r_ip := ''geoip:ru'',
        r_outbound_tag := ''direct''\<rparr>"]
  by (simp add: form_rule_def default_rule_def OUTBOUND_LABELS_def)

section \<open>Presets\<close>

record PresetRule =
  pr_match_type :: string
  pr_value :: string
  pr_outbound :: string

definition to_routing_rule :: "PresetRule \<Rightarrow> RoutingRule" where
  "to_routing_rule pr =
     (let rule = default_rule\<lparr>r_type := ''field'', r_outbound_tag := pr_outbound pr,
                              r_enabled := True\<rparr>;
          t = pr_match_type pr
      in if t = ''geoip'' \<or> t = ''ip'' then rule\<lparr>r_ip := pr_value pr\<rparr>
         else if t = ''geosite'' \<or> t = ''domain'' then rule\<lparr>r_domain := pr_value pr\<rparr>
         else if t = ''protocol'' then rule\<lparr>r_protocol := pr_value pr\<rparr>
         else if t = ''port'' then rule\<lparr>r_port := pr_value pr\<rparr>
         else rule)"

definition matches_rule :: "PresetRule \<Rightarrow> RoutingRule \<Rightarrow> bool" where
  "matches_rule pr r \<longleftrightarrow>
     (let t = pr_match_type pr
      in if r_outbound_tag r \<noteq> pr_outbound pr then False
         else if t = ''geoip'' \<or> t = ''ip'' then r_ip r = pr_value pr
         else if t = ''geosite'' \<or> t = ''domain'' then r_domain r = pr_value pr
         else if t = ''protocol'' then r_protocol r = pr_value pr
         else if t = ''port'' then r_port r = pr_value pr
         else False)"

record RoutingPreset =
  ps_id :: string
  ps_title :: string
  ps_desc :: string
  ps_rules :: "PresetRule list"

definition is_applied :: "RoutingPreset \<Rightarrow> RoutingConfig \<Rightarrow> bool" where
  "is_applied preset config \<longleftrightarrow>
     list_all (\<lambda>pr. list_ex (\<lambda>r. r_enabled r \<and> matches_rule pr r) (rc_rules config)) (ps_rules preset)"

definition preset_rule :: "string \<Rightarrow> string \<Rightarrow> string \<Rightarrow> PresetRule" where
  "preset_rule t v ob = \<lparr>pr_match_type = t, pr_value = v, pr_outbound = ob\<rparr>"

definition ROUTING_PRESETS :: "RoutingPreset list" where
  "ROUTING_PRESETS =
    [\<lparr>ps_id = ''bypass_ru'', ps_title = [CHR 0xF0, CHR 0x9F, CHR 0x87, CHR 0xB7, CHR 0xF0, CHR 0x9F, CHR 0x87, CHR 0xBA] @ '' Bypass Russia'',
       ps_desc = ''Direct access to Russian domains, banks, government & services bypassing VPN'',
       ps_rules = [preset_rule ''geosite'' ''geosite:category-ru'' ''direct'',
         preset_rule ''geoip'' ''geoip:ru'' ''direct'']\<rparr>,
     \<lparr>ps_id = ''block_ads'', ps_title = [CHR 0xF0, CHR 0x9F, CHR 0x9B, CHR 0xA1, CHR 0xEF, CHR 0xB8, CHR 0x8F] @ '' Block Ads & Trackers'',
       ps_desc = ''Global ad, tracker and telemetry blocking via Xray blackhole'',
       ps_rules = [preset_rule ''geosite'' ''geosite:category-ads-all'' ''block'']\<rparr>,
     \<lparr>ps_id = ''bypass_lan'', ps_title = [CHR 0xF0, CHR 0x9F, CHR 0x8F, CHR 0xA0] @ '' Bypass LAN / Local'',
       ps_desc = ''Direct access to local network, router and RFC1918 subnets without proxying'',
       ps_rules = [preset_rule ''geoip'' ''geoip:private'' ''direct'']\<rparr>,
     \<lparr>ps_id = ''proxy_media'', ps_title = [CHR 0xF0, CHR 0x9F, CHR 0x93, CHR 0xBA] @ '' Proxy Media (YouTube, Discord, Twitch)'',
       ps_desc = ''Route video streaming and voice communication platforms through proxy'',
       ps_rules = [preset_rule ''geosite'' ''geosite:youtube'' ''proxy'',
         preset_rule ''geosite'' ''geosite:discord'' ''proxy'',
         preset_rule ''geosite'' ''geosite:twitch'' ''proxy'']\<rparr>,
     \<lparr>ps_id = ''proxy_telegram'', ps_title = [CHR 0xF0, CHR 0x9F, CHR 0x92, CHR 0xAC] @ '' Proxy Telegram'',
       ps_desc = ''Route all Telegram domains and official IP CIDR ranges through proxy'',
       ps_rules = [preset_rule ''geosite'' ''geosite:telegram'' ''proxy'',
         preset_rule ''geoip'' ''geoip:telegram'' ''proxy'']\<rparr>,
     \<lparr>ps_id = ''proxy_ai'', ps_title = [CHR 0xF0, CHR 0x9F, CHR 0xA4, CHR 0x96] @ '' Proxy AI Services (OpenAI, Claude)'',
       ps_desc = ''Route ChatGPT, Claude, and major AI platforms through proxy'',
       ps_rules = [preset_rule ''geosite'' ''geosite:openai'' ''proxy'',
         preset_rule ''geosite'' ''geosite:anthropic'' ''proxy'']\<rparr>,
     \<lparr>ps_id = ''proxy_socials'', ps_title = [CHR 0xF0, CHR 0x9F, CHR 0x93, CHR 0xB8] @ '' Proxy Blocked Socials (X/Twitter, Instagram, Meta)'',
       ps_desc = ''Route blocked social media platforms through proxy'',
       ps_rules = [preset_rule ''geosite'' ''geosite:twitter'' ''proxy'',
         preset_rule ''geosite'' ''geosite:instagram'' ''proxy'',
         preset_rule ''geosite'' ''geosite:facebook'' ''proxy'']\<rparr>,
     \<lparr>ps_id = ''block_torrent'', ps_title = [CHR 0xF0, CHR 0x9F, CHR 0x9B, CHR 0x91] @ '' Block BitTorrent / P2P'',
       ps_desc = ''Block P2P torrent protocol to protect VPS from DMCA/ISP abuse complaints'',
       ps_rules = [preset_rule ''protocol'' ''bittorrent'' ''block'']\<rparr>,
     \<lparr>ps_id = ''direct_torrent'', ps_title = [CHR 0xE2, CHR 0x9A, CHR 0xA1] @ '' Direct BitTorrent / P2P'',
       ps_desc = ''Download torrents directly at maximum ISP speed bypassing VPN'',
       ps_rules = [preset_rule ''protocol'' ''bittorrent'' ''direct'']\<rparr>,
     \<lparr>ps_id = ''bypass_cn'', ps_title = [CHR 0xF0, CHR 0x9F, CHR 0x87, CHR 0xA8, CHR 0xF0, CHR 0x9F, CHR 0x87, CHR 0xB3] @ '' Bypass China'',
       ps_desc = ''Direct access to Chinese websites and services (geosite:cn + geoip:cn)'',
       ps_rules = [preset_rule ''geosite'' ''geosite:cn'' ''direct'',
         preset_rule ''geoip'' ''geoip:cn'' ''direct'']\<rparr>,
     \<lparr>ps_id = ''proxy_steam'', ps_title = [CHR 0xF0, CHR 0x9F, CHR 0x8E, CHR 0xAE] @ '' Proxy Gaming (Steam Community)'',
       ps_desc = ''Route Steam Community and gaming services through proxy'',
       ps_rules = [preset_rule ''geosite'' ''geosite:steam'' ''proxy'']\<rparr>]"

fun apply_rules :: "PresetRule list \<Rightarrow> RoutingRule list \<Rightarrow> RoutingRule list" where
  "apply_rules [] rules = rules"
| "apply_rules (pr # prs) rules =
     apply_rules prs
       (if find (matches_rule pr) rules \<noteq> None
        then update_first (matches_rule pr) (\<lambda>r. r\<lparr>r_enabled := True\<rparr>) rules
        else rules @ [to_routing_rule pr])"

definition apply_preset :: "RoutingConfig \<Rightarrow> RoutingPreset \<Rightarrow> RoutingConfig" where
  "apply_preset config preset =
     config\<lparr>rc_rules := apply_rules (ps_rules preset) (rc_rules config)\<rparr>"

definition remove_preset :: "RoutingConfig \<Rightarrow> RoutingPreset \<Rightarrow> RoutingConfig" where
  "remove_preset config preset =
     config\<lparr>rc_rules := filter (\<lambda>r. \<not> list_ex (\<lambda>pr. matches_rule pr r) (ps_rules preset)) (rc_rules config)\<rparr>"

definition toggle_preset :: "RoutingConfig \<Rightarrow> RoutingPreset \<Rightarrow> RoutingConfig \<times> bool" where
  "toggle_preset config preset =
     (if is_applied preset config then (remove_preset config preset, False)
      else (apply_preset config preset, True))"

section \<open>Applying and removing a preset\<close>

text \<open>A preset is well formed when it has rules and each rule's type is one the code knows.\<close>

definition preset_ok :: "RoutingPreset \<Rightarrow> bool" where
  "preset_ok p \<longleftrightarrow> ps_rules p \<noteq> [] \<and> list_all (\<lambda>pr. pr_match_type pr \<in>
     {''geoip'', ''ip'', ''geosite'', ''domain'', ''protocol'', ''port''}) (ps_rules p)"

lemma presets_ok: "list_all preset_ok ROUTING_PRESETS"
  by (simp add: ROUTING_PRESETS_def preset_ok_def preset_rule_def)

lemma matches_enabled [simp]: "matches_rule pr (r\<lparr>r_enabled := b\<rparr>) = matches_rule pr r"
  by (simp add: matches_rule_def)

lemma matches_to_routing_rule:
  "pr_match_type pr \<in> {''geoip'', ''ip'', ''geosite'', ''domain'', ''protocol'', ''port''}
   \<Longrightarrow> matches_rule pr (to_routing_rule pr)"
  by (auto simp: matches_rule_def to_routing_rule_def default_rule_def Let_def)

text \<open>One step of \<open>apply\_preset\<close>: the rule's own match is enabled, and nothing enabled before
  is lost.\<close>

definition on :: "PresetRule \<Rightarrow> RoutingRule list \<Rightarrow> bool" where
  "on pr rules \<longleftrightarrow> list_ex (\<lambda>r. r_enabled r \<and> matches_rule pr r) rules"

definition apply_one :: "PresetRule \<Rightarrow> RoutingRule list \<Rightarrow> RoutingRule list" where
  "apply_one pr rules =
     (if find (matches_rule pr) rules \<noteq> None
      then update_first (matches_rule pr) (\<lambda>r. r\<lparr>r_enabled := True\<rparr>) rules
      else rules @ [to_routing_rule pr])"

lemma apply_rules_Cons: "apply_rules (pr # prs) rules = apply_rules prs (apply_one pr rules)"
  by (simp add: apply_one_def)

lemma on_update_first:
  "on q rules \<Longrightarrow> on q (update_first p (\<lambda>r. r\<lparr>r_enabled := True\<rparr>) rules)"
  unfolding on_def by (induction rules) auto

lemma on_enable: "find (matches_rule pr) rules \<noteq> None \<Longrightarrow>
    on pr (update_first (matches_rule pr) (\<lambda>r. r\<lparr>r_enabled := True\<rparr>) rules)"
  unfolding on_def by (induction rules) auto

lemma apply_one_keeps: "on q rules \<Longrightarrow> on q (apply_one pr rules)"
  by (auto simp: apply_one_def on_update_first) (simp add: on_def)

lemma to_routing_rule_enabled: "r_enabled (to_routing_rule pr)"
  by (simp add: to_routing_rule_def Let_def)

lemma apply_one_on:
  "pr_match_type pr \<in> {''geoip'', ''ip'', ''geosite'', ''domain'', ''protocol'', ''port''}
   \<Longrightarrow> on pr (apply_one pr rules)"
  using matches_to_routing_rule [of pr] on_enable [of pr rules]
  by (auto simp: apply_one_def on_def to_routing_rule_enabled)

lemma apply_rules_keeps: "on q rules \<Longrightarrow> on q (apply_rules prs rules)"
  by (induction prs arbitrary: rules) (simp_all add: apply_rules_Cons apply_one_keeps del: apply_rules.simps(2))

lemma apply_rules_on:
  "list_all (\<lambda>pr. pr_match_type pr \<in>
     {''geoip'', ''ip'', ''geosite'', ''domain'', ''protocol'', ''port''}) prs
   \<Longrightarrow> list_all (\<lambda>pr. on pr (apply_rules prs rules)) prs"
proof (induction prs arbitrary: rules)
  case (Cons pr prs)
  then show ?case
    using apply_one_on [of pr rules]
    by (simp add: apply_rules_Cons apply_rules_keeps del: apply_rules.simps(2))
qed simp

lemma is_applied_on: "is_applied p c = list_all (\<lambda>pr. on pr (rc_rules c)) (ps_rules p)"
  by (simp add: is_applied_def on_def)

lemma is_applied_apply: "preset_ok p \<Longrightarrow> is_applied p (apply_preset c p)"
  by (simp add: is_applied_on apply_preset_def preset_ok_def apply_rules_on)

lemma not_applied_remove: "preset_ok p \<Longrightarrow> \<not> is_applied p (remove_preset c p)"
  by (cases "ps_rules p")
    (auto simp: is_applied_def remove_preset_def preset_ok_def list_ex_iff)

text \<open>Rules that no rule of the preset matches are neither changed nor reordered.\<close>

definition others :: "RoutingPreset \<Rightarrow> RoutingRule list \<Rightarrow> RoutingRule list" where
  "others p rules = filter (\<lambda>r. \<not> list_ex (\<lambda>pr. matches_rule pr r) (ps_rules p)) rules"

lemma filter_update_first:
  "(\<And>x. p x \<Longrightarrow> \<not> Q x \<and> \<not> Q (f x)) \<Longrightarrow> filter Q (update_first p f xs) = filter Q xs"
  by (induction xs) auto

lemma filter_apply_rules:
  assumes "set prs \<subseteq> set (ps_rules p)" and "preset_ok p"
  shows "others p (apply_rules prs rules) = others p rules"
  using assms(1)
proof (induction prs arbitrary: rules)
  case (Cons pr prs)
  have mem: "pr \<in> set (ps_rules p)" using Cons.prems by simp
  have "matches_rule pr (to_routing_rule pr)"
    using mem assms(2) by (intro matches_to_routing_rule) (auto simp: preset_ok_def list_all_iff)
  then have "others p (apply_one pr rules) = others p rules"
    using mem unfolding apply_one_def others_def
    by (auto simp: list_ex_iff intro!: filter_update_first)
  with Cons show ?case by (simp add: apply_rules_Cons del: apply_rules.simps(2))
qed simp

text \<open>Toggling a built-in preset on any rule list reports its new state truthfully, and
  leaves all other rules, their flags and their order alone.\<close>

theorem toggle_preset_correct:
  assumes "p \<in> set ROUTING_PRESETS" and "toggle_preset c p = (c', b)"
  shows "is_applied p c' = b \<and> others p (rc_rules c') = others p (rc_rules c)"
proof -
  have ok: "preset_ok p" using assms(1) presets_ok by (simp add: list_all_iff)
  have "others p (rc_rules (apply_preset c p)) = others p (rc_rules c)"
    by (simp add: apply_preset_def filter_apply_rules [OF subset_refl ok])
  moreover have "others p (rc_rules (remove_preset c p)) = others p (rc_rules c)"
    by (simp add: remove_preset_def others_def)
  ultimately show ?thesis
    using assms(2) is_applied_apply [OF ok] not_applied_remove [OF ok]
    by (auto simp: toggle_preset_def split: if_splits)
qed

theorem toggle_preset_correct_witness:
  "is_applied (ROUTING_PRESETS ! 1) (fst (toggle_preset default_routing_config (ROUTING_PRESETS ! 1)))"
proof -
  have "toggle_preset default_routing_config (ROUTING_PRESETS ! 1)
      = (apply_preset default_routing_config (ROUTING_PRESETS ! 1), True)"
    by (simp add: toggle_preset_def is_applied_def default_routing_config_def ROUTING_PRESETS_def)
  moreover have "ROUTING_PRESETS ! 1 \<in> set ROUTING_PRESETS"
    by (simp add: ROUTING_PRESETS_def)
  ultimately show ?thesis using toggle_preset_correct by fastforce
qed

lemma others_all: "list_all (\<lambda>r. \<not> list_ex (\<lambda>pr. matches_rule pr r) (ps_rules p)) rules
    \<Longrightarrow> others p rules = rules"
  by (simp add: others_def list_all_iff)

text \<open>toggling a built-in preset twice on a rule list that has none of its rules gives the
  list back.\<close>

theorem toggle_preset_twice:
  assumes "p \<in> set ROUTING_PRESETS"
    and "\<not> list_ex (\<lambda>r. list_ex (\<lambda>pr. matches_rule pr r) (ps_rules p)) (rc_rules c)"
  shows "toggle_preset (fst (toggle_preset c p)) p = (c, False)"
proof -
  have ok: "preset_ok p" using assms(1) presets_ok by (simp add: list_all_iff)
  have none: "others p (rc_rules c) = rc_rules c"
    using assms(2) by (intro others_all) (simp add: list_all_iff list_ex_iff)
  have "\<not> is_applied p c"
    using assms(2) ok by (cases "ps_rules p") (auto simp: is_applied_def preset_ok_def list_ex_iff)
  then have "fst (toggle_preset c p) = apply_preset c p" by (simp add: toggle_preset_def)
  moreover have "remove_preset (apply_preset c p) p = c"
    using filter_apply_rules [OF subset_refl ok, of "rc_rules c"] none
    by (simp add: remove_preset_def apply_preset_def others_def)
  ultimately show ?thesis
    using is_applied_apply [OF ok] by (simp add: toggle_preset_def)
qed

theorem toggle_preset_twice_witness:
  "toggle_preset (fst (toggle_preset default_routing_config (ROUTING_PRESETS ! 0))) (ROUTING_PRESETS ! 0)
    = (default_routing_config, False)"
  by (rule toggle_preset_twice)
    (simp_all add: ROUTING_PRESETS_def default_routing_config_def)

end
