(* ===== verification/Uri.thy ===== *)
theory Uri
  imports UrlDecode Json
begin

text \<open>
  \<open>src/ui/uri.rs\<close>: share links taken apart for display.  The base64 engines and the JSON
  parser are third-party code and appear as the parameters \<open>b64\<close> (the first engine that
  decodes) and \<open>from_slice\<close>; \<open>b64_std\<close> is the strict standard engine.
\<close>

record ParsedUri =
  u_host :: string
  u_port :: string
  u_sni :: string
  u_transport :: string
  u_security :: string
  u_flow :: string
  u_name :: string
  u_protocol :: string
  u_params :: "(string \<times> string) list"

definition empty_uri :: ParsedUri where
  "empty_uri = \<lparr>u_host = [], u_port = [], u_sni = [], u_transport = [], u_security = [],
     u_flow = [], u_name = [], u_protocol = [], u_params = []\<rparr>"

text \<open>First non-empty value for any of the keys.\<close>

fun param :: "ParsedUri \<Rightarrow> string list \<Rightarrow> string option" where
  "param u [] = None"
| "param u (key # keys) =
     (case find (\<lambda>(k, v). k = key) (u_params u) of
        Some (_, v) \<Rightarrow> if v \<noteq> [] then Some v else param u keys
      | None \<Rightarrow> param u keys)"

definition strip_or :: "string \<Rightarrow> string \<Rightarrow> string" where
  "strip_or p s = (case strip_prefix p s of Some r \<Rightarrow> r | None \<Rightarrow> s)"

section \<open>VMess links\<close>

definition obj_get :: "fields \<Rightarrow> string \<Rightarrow> string option" where
  "obj_get fs key = (case map_of fs key of
       Some (JStr s) \<Rightarrow> Some s
     | Some (JInt n) \<Rightarrow> Some (show_int n)
     | Some (JFloat t) \<Rightarrow> Some t
     | _ \<Rightarrow> None)"

definition vmess_keys :: "string list" where
  "vmess_keys = [''path'', ''host'', ''alpn'', ''fp'', ''type'', ''scy'', ''pbk'', ''sid'', ''spx'']"

definition vmess_of_obj :: "fields \<Rightarrow> string \<Rightarrow> ParsedUri" where
  "vmess_of_obj fs fragment =
     (let get = obj_get fs;
          or_empty = (\<lambda>v. case v of Some s \<Rightarrow> s | None \<Rightarrow> [])
      in empty_uri\<lparr>
           u_protocol := ''vmess'',
           u_name := url_decode fragment,
           u_host := or_empty (get ''add''),
           u_port := or_empty (get ''port''),
           u_sni := or_empty (case get ''sni'' of
               Some s \<Rightarrow> if s \<noteq> [] then Some s else get ''host''
             | None \<Rightarrow> get ''host''),
           u_transport := or_empty (get ''net''),
           u_security := or_empty (get ''tls''),
           u_params := List.map_filter
             (\<lambda>key. case get key of Some v \<Rightarrow> if v \<noteq> [] then Some (key, v) else None | None \<Rightarrow> None)
             vmess_keys\<rparr>)"

definition parse_vmess ::
  "(string \<Rightarrow> string option) \<Rightarrow> (string \<Rightarrow> json option) \<Rightarrow> string \<Rightarrow> ParsedUri option" where
  "parse_vmess b64 from_slice uri =
     do { payload \<leftarrow> strip_prefix ''vmess://'' uri;
          let (raw, fragment) = (case rsplit_once (CHR 0x23) payload of
              Some (r, f) \<Rightarrow> (r, f) | None \<Rightarrow> (payload, []));
          let raw = hd (split_on (\<lambda>b. b = CHR ''?'') raw);
          bytes \<leftarrow> b64 (trim raw);
          j \<leftarrow> from_slice bytes;
          fs \<leftarrow> dec_obj j;
          Some (vmess_of_obj fs fragment) }"

section \<open>The other links\<close>

definition uri_schemes :: "string list" where
  "uri_schemes = [''vless://'', ''vmess://'', ''trojan://'', ''ss://'', ''socks://'',
     ''hysteria2://'', ''hy2://'']"

definition uri_protocol :: "string \<Rightarrow> string" where
  "uri_protocol uri =
     (if starts_with ''vless://'' uri then ''vless''
      else if starts_with ''vmess://'' uri then ''vmess''
      else if starts_with ''trojan://'' uri then ''trojan''
      else if starts_with ''ss://'' uri then ''shadowsocks''
      else if starts_with ''socks://'' uri then ''socks''
      else if starts_with ''hysteria2://'' uri \<or> starts_with ''hy2://'' uri then ''hysteria2''
      else [])"

definition query_pairs :: "string \<Rightarrow> string list" where
  "query_pairs q = filter (\<lambda>s. s \<noteq> []) (split_on (\<lambda>b. b = CHR ''&'') q)"

text \<open>Collecting pairs into a \<open>HashMap\<close>: a later pair overrides an earlier one.\<close>

definition query_get :: "string \<Rightarrow> string \<Rightarrow> string option" where
  "query_get q key = map_of (rev (List.map_filter (split_once (CHR ''='')) (query_pairs q))) key"

definition query_params :: "string \<Rightarrow> (string \<times> string) list" where
  "query_params q =
     map (\<lambda>pair. case split_once (CHR ''='') pair of
            Some (k, v) \<Rightarrow> (url_decode k, url_decode v)
          | None \<Rightarrow> (url_decode pair, url_decode []))
       (query_pairs q)"

definition split_authority :: "string \<Rightarrow> string \<times> string" where
  "split_authority authority =
     (case rsplit_once (CHR '':'') authority of
        Some (h, p) \<Rightarrow> if h \<noteq> [] \<and> list_all is_digit p then (h, p) else (authority, [])
      | None \<Rightarrow> (authority, []))"

definition parse_uri ::
  "(string \<Rightarrow> string option) \<Rightarrow> (string \<Rightarrow> json option) \<Rightarrow> string \<Rightarrow> ParsedUri" where
  "parse_uri b64 from_slice uri =
     (case parse_vmess b64 from_slice uri of
        Some vmess \<Rightarrow> vmess
      | None \<Rightarrow>
          let without_scheme = fold strip_or uri_schemes uri;
              (rest, fragment) = (case rsplit_once (CHR 0x23) without_scheme of
                  Some (r, f) \<Rightarrow> (r, f) | None \<Rightarrow> (without_scheme, []));
              (before_query, query_str) = (case split_once (CHR ''?'') rest of
                  Some (b, q) \<Rightarrow> (b, q) | None \<Rightarrow> (rest, []));
              get = query_get query_str;
              or_empty = (\<lambda>v. case v of Some s \<Rightarrow> s | None \<Rightarrow> []);
              authority = (case rsplit_once (CHR ''@'') before_query of
                  Some (_, a) \<Rightarrow> a | None \<Rightarrow> before_query);
              (host, port) = split_authority authority
          in \<lparr>u_host = host, u_port = port,
              u_sni = or_empty (get ''sni''),
              u_transport = (case get ''type'' of Some s \<Rightarrow> s | None \<Rightarrow> or_empty (get ''network'')),
              u_security = or_empty (get ''security''),
              u_flow = or_empty (get ''flow''),
              u_name = url_decode fragment,
              u_protocol = uri_protocol uri,
              u_params = query_params query_str\<rparr>)"

section \<open>Shadowsocks ciphers\<close>

definition parse_ss_method ::
  "(string \<Rightarrow> string option) \<Rightarrow> string \<Rightarrow> string option" where
  "parse_ss_method b64_std uri =
     do { without_scheme \<leftarrow> strip_prefix ''ss://'' uri;
          let without_fragment = hd (split_on (\<lambda>b. b = CHR 0x23) without_scheme);
          let without_query = hd (split_on (\<lambda>b. b = CHR ''?'') without_fragment);
          let userinfo = hd (split_on (\<lambda>b. b = CHR ''@'') without_query);
          decoded \<leftarrow> b64_std userinfo;
          (if utf8_valid decoded then Some (hd (split_on (\<lambda>b. b = CHR '':'') decoded)) else None) }"

definition is_insecure_ss_cipher :: "string \<Rightarrow> bool" where
  "is_insecure_ss_cipher m \<longleftrightarrow> m \<in> set
     [''none'', ''table'', ''rc4'', ''rc4-md5'', ''aes-128-cfb'', ''aes-192-cfb'', ''aes-256-cfb'',
      ''aes-128-ctr'', ''aes-192-ctr'', ''aes-256-ctr'', ''des-cfb'', ''rc2-cfb'', ''idea-cfb'',
      ''seed-cfb'', ''camellia-128-cfb'', ''camellia-192-cfb'', ''camellia-256-cfb'', ''bf-cfb'',
      ''salsa20'', ''chacha20'']"

section \<open>Properties\<close>

lemma obj_get_cong: "map_of fs k = map_of fs' k \<Longrightarrow> obj_get fs k = obj_get fs' k"
  by (simp add: obj_get_def)

text \<open>the credential of a VMess link never reaches the display: two link payloads that
  differ only in their \<open>id\<close> are shown identically, under any name.\<close>

theorem vmess_hides_id:
  assumes "\<And>k. k \<noteq> ''id'' \<Longrightarrow> map_of fs k = map_of fs' k"
  shows "vmess_of_obj fs fragment = vmess_of_obj fs' fragment"
proof -
  have get: "obj_get fs k = obj_get fs' k" if "k \<noteq> ''id''" for k
    by (rule obj_get_cong) (rule assms, rule that)
  have keys: "''id'' \<notin> set vmess_keys" by (simp add: vmess_keys_def)
  have "List.map_filter (\<lambda>key. case obj_get fs key of
        Some v \<Rightarrow> if v \<noteq> [] then Some (key, v) else None | None \<Rightarrow> None) vmess_keys
      = List.map_filter (\<lambda>key. case obj_get fs' key of
        Some v \<Rightarrow> if v \<noteq> [] then Some (key, v) else None | None \<Rightarrow> None) vmess_keys"
  proof (rule map_filter_cong)
    fix key assume "key \<in> set vmess_keys"
    with keys have "key \<noteq> ''id''" by blast
    then show "(case obj_get fs key of
        Some v \<Rightarrow> if v \<noteq> [] then Some (key, v) else None | None \<Rightarrow> None)
      = (case obj_get fs' key of Some v \<Rightarrow> if v \<noteq> [] then Some (key, v) else None | None \<Rightarrow> None)"
      by (simp add: get)
  qed
  moreover have "obj_get fs ''host'' = obj_get fs' ''host''" by (rule get) simp
  ultimately show ?thesis
    unfolding vmess_of_obj_def Let_def by (simp add: get split: option.split)
qed

theorem vmess_hides_id_witness:
  "vmess_of_obj [(''add'', JStr ''h''), (''id'', JStr ''secret'')] ''n''
    = vmess_of_obj [(''add'', JStr ''h'')] ''n''"
  by (rule vmess_hides_id) auto

text \<open>A link in the usual shape, without query: \<open>scheme://user@host:port#name\<close>.\<close>

definition link_parts_ok :: "string \<Rightarrow> string \<Rightarrow> string \<Rightarrow> bool" where
  "link_parts_ok user host port \<longleftrightarrow>
     set user \<inter> {CHR 0x23, CHR ''?'', CHR ''/''} = {}
     \<and> set host \<inter> {CHR 0x23, CHR ''?'', CHR ''@'', CHR ''/''} = {} \<and> host \<noteq> []
     \<and> list_all is_digit port"

definition render_link :: "string \<Rightarrow> string \<Rightarrow> string \<Rightarrow> string \<Rightarrow> string \<Rightarrow> string" where
  "render_link scheme user host port name =
     scheme @ user @ ''@'' @ host @ '':'' @ port @ [CHR 0x23] @ percent_encode name"

lemma strip_or_no_slash:
  assumes "CHR ''/'' \<notin> set (takeWhile (\<lambda>b. b \<noteq> CHR 0x23) s)"
    and "\<exists>q. p = q @ ''://'' \<and> CHR 0x23 \<notin> set p"
  shows "strip_or p s = s"
proof -
  have False if "starts_with p s"
  proof -
    from that obtain r where s: "s = p @ r" by (auto simp: starts_with_iff)
    have "CHR ''/'' \<in> set p" and h: "CHR 0x23 \<notin> set p" using assms(2) by auto
    moreover have "takeWhile (\<lambda>b. b \<noteq> CHR 0x23) s = p @ takeWhile (\<lambda>b. b \<noteq> CHR 0x23) r"
      unfolding s using h by (intro takeWhile_append2) auto
    ultimately show False using assms(1) by simp
  qed
  then show ?thesis by (auto simp: strip_or_def strip_prefix_def)
qed

lemma schemes_shape: "p \<in> set uri_schemes \<Longrightarrow> \<exists>q. p = q @ ''://'' \<and> CHR 0x23 \<notin> set p"
  unfolding uri_schemes_def by auto

lemma scheme_prefix:
  assumes "CHR '':'' \<notin> set p" and "CHR '':'' \<notin> set q"
  shows "starts_with (p @ ''://'') (q @ ''://'' @ s) \<longleftrightarrow> p = q"
proof
  assume "starts_with (p @ ''://'') (q @ ''://'' @ s)"
  then obtain r where "q @ ''://'' @ s = p @ ''://'' @ r"
    by (auto simp: starts_with_iff)
  then have "takeWhile (\<lambda>b. b \<noteq> CHR '':'') (q @ ''://'' @ s)
    = takeWhile (\<lambda>b. b \<noteq> CHR '':'') (p @ ''://'' @ r)" by simp
  moreover have "takeWhile (\<lambda>b. b \<noteq> CHR '':'') (x @ ''://'' @ y) = x" if "CHR '':'' \<notin> set x" for x y
    using that by (subst takeWhile_append2) auto
  ultimately show "p = q" using assms by metis
qed (auto simp: starts_with_iff)

lemma scheme_name:
  assumes "scheme \<in> set uri_schemes"
  obtains q where "scheme = q @ ''://''" "CHR '':'' \<notin> set q"
proof -
  have "scheme = takeWhile (\<lambda>b. b \<noteq> CHR '':'') scheme @ ''://''"
    using assms unfolding uri_schemes_def by auto
  moreover have "CHR '':'' \<notin> set (takeWhile (\<lambda>b. b \<noteq> CHR '':'') scheme)"
    by (auto dest: set_takeWhileD)
  ultimately show thesis using that by blast
qed

lemma starts_with_scheme:
  assumes "p \<in> set uri_schemes" and "q \<in> set uri_schemes"
  shows "starts_with p (q @ s) \<longleftrightarrow> p = q"
proof -
  from assms(1) obtain a where a: "p = a @ ''://''" "CHR '':'' \<notin> set a" by (rule scheme_name)
  from assms(2) obtain b where b: "q = b @ ''://''" "CHR '':'' \<notin> set b" by (rule scheme_name)
  show ?thesis using scheme_prefix [OF a(2) b(2)] by (simp add: a(1) b(1))
qed

lemma uri_protocol_scheme:
  assumes "q \<in> set uri_schemes"
  shows "uri_protocol (q @ s) = uri_protocol q"
proof -
  have *: "starts_with p (q @ s) = starts_with p q" if "p \<in> set uri_schemes" for p
    using starts_with_scheme [OF that assms, of s] starts_with_scheme [OF that assms, of "[]"] by simp
  show ?thesis unfolding uri_protocol_def by (simp add: * uri_schemes_def)
qed

lemma fold_strip_none:
  "(\<And>p. p \<in> set ps \<Longrightarrow> strip_or p s = s) \<Longrightarrow> fold strip_or ps s = s"
  by (induction ps) auto

lemma strip_or_same: "strip_or p (p @ s) = s"
  by (simp add: strip_or_def strip_prefix_def starts_with_iff)

text \<open>The seven strippings remove the link's own scheme and nothing else.\<close>

lemma fold_strip_fixed:
  assumes "scheme \<in> set uri_schemes" and rest: "\<And>p. p \<in> set uri_schemes \<Longrightarrow> strip_or p s = s"
  shows "fold strip_or uri_schemes (scheme @ s) = s"
proof -
  obtain before after where split: "uri_schemes = before @ scheme # after"
    using assms(1) by (meson split_list)
  have "distinct uri_schemes" by (simp add: uri_schemes_def)
  then have "scheme \<notin> set before" unfolding split by simp
  have other: "strip_or p (scheme @ s) = scheme @ s" if "p \<in> set uri_schemes" "p \<noteq> scheme" for p
    using that assms(1) by (simp add: strip_or_def strip_prefix_def starts_with_scheme)
  have "fold strip_or before (scheme @ s) = scheme @ s"
  proof (rule fold_strip_none)
    fix p assume "p \<in> set before"
    then show "strip_or p (scheme @ s) = scheme @ s"
      using other [of p] split \<open>scheme \<notin> set before\<close> by (metis Un_iff set_append)
  qed
  moreover have "fold strip_or after s = s"
    by (intro fold_strip_none rest) (simp add: split)
  ultimately show ?thesis by (simp add: split strip_or_same)
qed

lemma fold_strip_scheme:
  assumes "scheme \<in> set uri_schemes" and "CHR ''/'' \<notin> set (takeWhile (\<lambda>b. b \<noteq> CHR 0x23) s)"
  shows "fold strip_or uri_schemes (scheme @ s) = s"
  by (rule fold_strip_fixed [OF assms(1)]) (rule strip_or_no_slash [OF assms(2) schemes_shape])

text \<open>A user part without a slash hides every scheme that could follow.\<close>

lemma strip_or_user:
  assumes "CHR ''/'' \<notin> set u" "p \<in> set uri_schemes"
  shows "strip_or p (u @ CHR ''@'' # r) = u @ CHR ''@'' # r"
proof -
  have p: "CHR ''/'' \<in> set p" "CHR ''@'' \<notin> set p"
    using assms(2) unfolding uri_schemes_def by auto
  have "\<not> starts_with p (u @ CHR ''@'' # r)"
  proof
    assume "starts_with p (u @ CHR ''@'' # r)"
    then obtain t where "u @ CHR ''@'' # r = p @ t" by (auto simp: starts_with_iff)
    then show False using p assms(1) by (auto simp: append_eq_append_conv2 Cons_eq_append_conv)
  qed
  then show ?thesis by (simp add: strip_or_def strip_prefix_def)
qed

lemmas fold_strip_user = fold_strip_fixed [OF _ strip_or_user]

lemma split_once_skip: "c \<notin> set u \<Longrightarrow> split_once c (u @ r) = map_option (\<lambda>(a, b). (u @ a, b)) (split_once c r)"
proof (cases "split_once c r")
  case None
  moreover assume "c \<notin> set u"
  ultimately have "split_once c (u @ r) = None" by (simp add: split_once_None)
  with None show ?thesis by simp
qed (auto simp: split_once_Some)

lemma rsplit_once_skip:
  "c \<notin> set u \<Longrightarrow> rsplit_once c (u @ r) = map_option (\<lambda>(a, b). (u @ a, b)) (rsplit_once c r)"
proof (cases "rsplit_once c r")
  case None
  moreover assume "c \<notin> set u"
  ultimately have "rsplit_once c (u @ r) = None" by (simp add: rsplit_once_None)
  with None show ?thesis by simp
qed (auto simp: rsplit_once_Some)

lemma rsplit_once_last: "map_option snd (rsplit_once c (u @ c # r)) = Some (case rsplit_once c r of Some (_, b) \<Rightarrow> b | None \<Rightarrow> r)"
proof (cases "rsplit_once c r")
  case None
  then have "rsplit_once c (u @ c # r) = Some (u, r)" by (simp add: rsplit_once_None rsplit_once_Some)
  then show ?thesis using None by simp
next
  case (Some ab)
  then obtain a b where ab: "ab = (a, b)" "r = a @ c # b" "c \<notin> set b" by (cases ab) (auto simp: rsplit_once_Some)
  then have "rsplit_once c (u @ c # r) = Some (u @ c # a, b)" by (simp add: rsplit_once_Some)
  then show ?thesis using Some ab(1) by simp
qed

text \<open>The user part of a link does not reach what is parsed for display.\<close>

lemma parse_uri_user:
  assumes "scheme \<in> set uri_schemes" "scheme \<noteq> ''vmess://''"
    and "set u \<inter> {CHR 0x23, CHR ''?'', CHR ''/''} = {}" "set v \<inter> {CHR 0x23, CHR ''?'', CHR ''/''} = {}"
  shows "parse_uri b64 from_slice (scheme @ u @ CHR ''@'' # r) = parse_uri b64 from_slice (scheme @ v @ CHR ''@'' # r)"
proof -
  have authority: "(case rsplit_once (CHR ''@'') (w @ CHR ''@'' # b) of Some (_, a) \<Rightarrow> a | None \<Rightarrow> w @ CHR ''@'' # b) =
      (case rsplit_once (CHR ''@'') b of Some (_, a) \<Rightarrow> a | None \<Rightarrow> b)" for w b
    using rsplit_once_last [of "CHR ''@''" w b] by (auto split: option.splits)
  have "''vmess://'' \<in> set uri_schemes" by (simp add: uri_schemes_def)
  then have vm: "parse_vmess b64 from_slice (scheme @ s) = None" for s
    using assms(1,2) by (simp add: parse_vmess_def strip_prefix_def starts_with_scheme)
  obtain before frag where rf: "(case rsplit_once (CHR 0x23) r of Some (a, f) \<Rightarrow> (a, f) | None \<Rightarrow> (r, [])) = (before, frag)"
    by force
  obtain path query where bq: "(case split_once (CHR ''?'') before of Some (b, q) \<Rightarrow> (b, q) | None \<Rightarrow> (before, [])) = (path, query)"
    by force
  have parts: "(case rsplit_once (CHR 0x23) (w @ CHR ''@'' # r) of Some (a, f) \<Rightarrow> (a, f) | None \<Rightarrow> (w @ CHR ''@'' # r, []))
        = (w @ CHR ''@'' # before, frag)"
      "(case split_once (CHR ''?'') (w @ CHR ''@'' # before) of Some (b, q) \<Rightarrow> (b, q) | None \<Rightarrow> (w @ CHR ''@'' # before, []))
        = (w @ CHR ''@'' # path, query)"
    if w: "set w \<inter> {CHR 0x23, CHR ''?'', CHR ''/''} = {}" for w
  proof -
    have "CHR 0x23 \<notin> set (w @ [CHR ''@''])" "CHR ''?'' \<notin> set (w @ [CHR ''@''])" using w by auto
    then show "(case rsplit_once (CHR 0x23) (w @ CHR ''@'' # r) of Some (a, f) \<Rightarrow> (a, f) | None \<Rightarrow> (w @ CHR ''@'' # r, []))
        = (w @ CHR ''@'' # before, frag)"
      "(case split_once (CHR ''?'') (w @ CHR ''@'' # before) of Some (b, q) \<Rightarrow> (b, q) | None \<Rightarrow> (w @ CHR ''@'' # before, []))
        = (w @ CHR ''@'' # path, query)"
      using rsplit_once_skip [of "CHR 0x23" "w @ [CHR ''@'']" r] split_once_skip [of "CHR ''?''" "w @ [CHR ''@'']" before] rf bq
      by (auto split: option.splits)
  qed
  have "parse_uri b64 from_slice (scheme @ w @ CHR ''@'' # r) =
      (let get = query_get query; or_empty = (\<lambda>v. case v of Some s \<Rightarrow> s | None \<Rightarrow> []);
           (host, port) = split_authority (case rsplit_once (CHR ''@'') path of Some (_, a) \<Rightarrow> a | None \<Rightarrow> path)
       in \<lparr>u_host = host, u_port = port, u_sni = or_empty (get ''sni''),
           u_transport = (case get ''type'' of Some s \<Rightarrow> s | None \<Rightarrow> or_empty (get ''network'')),
           u_security = or_empty (get ''security''), u_flow = or_empty (get ''flow''),
           u_name = url_decode frag, u_protocol = uri_protocol scheme, u_params = query_params query\<rparr>)"
    if w: "set w \<inter> {CHR 0x23, CHR ''?'', CHR ''/''} = {}" for w
  proof -
    have "CHR ''/'' \<notin> set w" using w by auto
    then have s: "fold strip_or uri_schemes (scheme @ w @ CHR ''@'' # r) = w @ CHR ''@'' # r"
      by (rule fold_strip_user [OF assms(1)])
    show ?thesis
      unfolding parse_uri_def vm s Let_def option.case
      by (simp only: parts [OF w] prod.case authority uri_protocol_scheme [OF assms(1)])
  qed
  then show ?thesis using assms(3,4) by simp
qed

lemma percent_encode_no_hash: "CHR 0x23 \<notin> set (percent_encode s)"
  using set_percent_encode [of "CHR 0x23" s] by auto

text \<open>The display of an ordinary share link shows the protocol, host, port and decoded name
  the link was made from; the user part (the credential) is dropped.\<close>

theorem parse_uri_link:
  assumes "scheme \<in> set uri_schemes" and "scheme \<noteq> ''vmess://''"
    and "link_parts_ok user host port" and "utf8_valid name"
  shows "parse_uri b64 from_slice (render_link scheme user host port name)
    = empty_uri\<lparr>u_host := host, u_port := port, u_name := name,
                u_protocol := uri_protocol scheme\<rparr>"
proof -
  let ?body = "user @ ''@'' @ host @ '':'' @ port"
  let ?link = "render_link scheme user host port name"
  have ok: "CHR 0x23 \<notin> set ?body" "CHR ''?'' \<notin> set ?body" "CHR ''/'' \<notin> set ?body"
    "host \<noteq> []" "list_all is_digit port" "CHR ''@'' \<notin> set host"
    using assms(3) by (auto simp: link_parts_ok_def list_all_iff is_digit_def)
  have port: "CHR '':'' \<notin> set port" "CHR ''@'' \<notin> set port"
    using ok(5) by (auto simp: list_all_iff is_digit_def)
  have link: "?link = scheme @ (?body @ CHR 0x23 # percent_encode name)"
    by (simp add: render_link_def)
  have "''vmess://'' \<in> set uri_schemes" by (simp add: uri_schemes_def)
  then have vm: "parse_vmess b64 from_slice ?link = None"
    using assms(1,2) unfolding link parse_vmess_def
    by (simp add: strip_prefix_def starts_with_scheme)
  have tw: "takeWhile (\<lambda>b. b \<noteq> CHR 0x23) (?body @ CHR 0x23 # percent_encode name) = ?body"
    using ok(1) by (subst takeWhile_append2) auto
  have strip: "fold strip_or uri_schemes ?link = ?body @ CHR 0x23 # percent_encode name"
    unfolding link by (rule fold_strip_scheme [OF assms(1)]) (use tw ok(3) in simp)
  have frag: "rsplit_once (CHR 0x23) (?body @ CHR 0x23 # percent_encode name)
      = Some (?body, percent_encode name)"
    using percent_encode_no_hash by (simp add: rsplit_once_Some)
  have q: "split_once (CHR ''?'') ?body = None" using ok(2) by (simp add: split_once_None)
  have auth: "rsplit_once (CHR ''@'') ?body = Some (user, host @ '':'' @ port)"
    using ok(6) port by (simp add: rsplit_once_Some)
  have hp: "split_authority (host @ '':'' @ port) = (host, port)"
    using ok(4,5) port rsplit_once_Some [of "CHR '':''" "host @ '':'' @ port" host port]
    by (simp add: split_authority_def)
  have proto: "uri_protocol ?link = uri_protocol scheme"
    unfolding link by (rule uri_protocol_scheme [OF assms(1)])
  have no_query: "query_get [] k = None" "query_params [] = []" for k
    by (simp_all add: query_get_def query_params_def query_pairs_def List.map_filter_simps)
  show ?thesis
    unfolding parse_uri_def vm strip Let_def frag option.case prod.case q auth hp proto no_query
    using assms(4) by (simp add: empty_uri_def url_decode_encode_valid)
qed

theorem parse_uri_link_witness:
  "parse_uri (\<lambda>_. None) (\<lambda>_. None) (render_link ''vless://'' ''uuid'' ''example.com'' ''443'' ''Node'')
    = empty_uri\<lparr>u_host := ''example.com'', u_port := ''443'', u_name := ''Node'',
                u_protocol := uri_protocol ''vless://''\<rparr>"
  by (rule parse_uri_link)
    (simp_all add: uri_schemes_def link_parts_ok_def is_digit_def utf8_valid_ascii)

end
