(* ===== verification/Layout.thy ===== *)
theory Layout
  imports Prelude
begin

text \<open>
  \<open>src/ui/layout.rs\<close> and the rectangle helpers of \<open>src/ui/app/helpers.rs\<close>.  Rectangles
  carry their 16-bit fields as natural numbers: \<open>popup_inside\<close> shows that the sums the code
  computes stay inside the terminal's rectangle, so none of them overflows.  ratatui's constraint
  solver is the parameter \<open>split\<close>.
\<close>

record Rect =
  rx :: nat
  ry :: nat
  rwidth :: nat
  rheight :: nat

definition default_rect :: Rect where
  "default_rect = \<lparr>rx = 0, ry = 0, rwidth = 0, rheight = 0\<rparr>"

datatype Direction = Vertical | Horizontal

datatype Constraint = CLength nat | CMin nat | CPercentage nat | CRatio nat nat

type_synonym splitter = "Direction \<Rightarrow> Constraint list \<Rightarrow> Rect \<Rightarrow> Rect list"

datatype WidthTier = Compact | Medium | Wide | UltraWide

definition from_width :: "nat \<Rightarrow> WidthTier" where
  "from_width w = (if w < 80 then Compact else if w \<le> 125 then Medium
     else if w \<le> 160 then Wide else UltraWide)"

datatype HeightTier = Tiny | Short | Normal | Tall

definition from_height :: "nat \<Rightarrow> HeightTier" where
  "from_height h = (if h < 16 then Tiny else if h \<le> 24 then Short
     else if h \<le> 42 then Normal else Tall)"

datatype ProfilesLayoutMode = SideBySide | Stacked | SinglePanel

datatype TrafficLayoutMode = Row3 | Stack3

record LayoutGeometry =
  lg_area :: Rect
  lg_width_tier :: WidthTier
  lg_height_tier :: HeightTier
  lg_is_too_small :: bool
  lg_top_bar :: Rect
  lg_main_area :: Rect
  lg_bottom_bar :: Rect
  lg_profiles_mode :: ProfilesLayoutMode
  lg_tree_area :: Rect
  lg_details_area :: Rect
  lg_traffic_cards_area :: Rect
  lg_traffic_cards :: "Rect list"
  lg_traffic_chart_area :: Rect
  lg_traffic_footer_area :: Rect
  lg_traffic_layout_mode :: TrafficLayoutMode
  lg_show_traffic_footer :: bool

definition default_layout :: LayoutGeometry where
  "default_layout = \<lparr>lg_area = default_rect, lg_width_tier = Medium, lg_height_tier = Normal,
     lg_is_too_small = False, lg_top_bar = default_rect, lg_main_area = default_rect,
     lg_bottom_bar = default_rect, lg_profiles_mode = SideBySide, lg_tree_area = default_rect,
     lg_details_area = default_rect, lg_traffic_cards_area = default_rect,
     lg_traffic_cards = replicate 3 default_rect, lg_traffic_chart_area = default_rect,
     lg_traffic_footer_area = default_rect, lg_traffic_layout_mode = Row3,
     lg_show_traffic_footer = True\<rparr>"

definition bar_heights :: "HeightTier \<Rightarrow> nat \<times> nat" where
  "bar_heights t = (case t of Tiny \<Rightarrow> (1, 1) | Short \<Rightarrow> (3, 2) | _ \<Rightarrow> (4, 3))"

definition profiles_layout ::
  "splitter \<Rightarrow> WidthTier \<Rightarrow> Rect \<Rightarrow> ProfilesLayoutMode \<times> Rect \<times> Rect" where
  "profiles_layout split w main =
     (case w of
        Compact \<Rightarrow>
          if 18 \<le> rheight main
          then (let s = split Vertical [CPercentage 60, CPercentage 40] main
                in (Stacked, s ! 0, s ! 1))
          else (SinglePanel, main, default_rect)
      | Medium \<Rightarrow>
          (let s = split Horizontal [CPercentage 55, CPercentage 45] main
           in (SideBySide, s ! 0, s ! 1))
      | _ \<Rightarrow>
          (let s = split Horizontal [CPercentage 45, CPercentage 55] main
           in (SideBySide, s ! 0, s ! 1)))"

definition compute :: "splitter \<Rightarrow> Rect \<Rightarrow> LayoutGeometry" where
  "compute split area =
     (let w = from_width (rwidth area);
          h = from_height (rheight area);
          (top_h, bottom_h) = bar_heights h;
          v = split Vertical [CLength top_h, CMin 0, CLength bottom_h] area;
          main = v ! 1;
          (mode, tree, details) = profiles_layout split w main;
          footer = (h \<noteq> Tiny \<and> 14 \<le> rheight main);
          tmode = (if w = Compact then Stack3 else Row3);
          cards_h = (if tmode = Stack3 then (if rheight main < 18 then 3 else 6) else 4);
          chunks = (if footer then split Vertical [CLength cards_h, CMin 6, CLength 3] main
                    else split Vertical [CLength cards_h, CMin 4] main);
          cards = (case tmode of
              Row3 \<Rightarrow> split Horizontal [CPercentage 33, CPercentage 33, CPercentage 34] (chunks ! 0)
            | Stack3 \<Rightarrow> split Vertical [CRatio 1 3, CRatio 1 3, CRatio 1 3] (chunks ! 0))
      in \<lparr>lg_area = area, lg_width_tier = w, lg_height_tier = h,
          lg_is_too_small = (rwidth area < 45 \<or> rheight area < 8),
          lg_top_bar = v ! 0, lg_main_area = main, lg_bottom_bar = v ! 2,
          lg_profiles_mode = mode, lg_tree_area = tree, lg_details_area = details,
          lg_traffic_cards_area = chunks ! 0, lg_traffic_cards = [cards ! 0, cards ! 1, cards ! 2],
          lg_traffic_chart_area = chunks ! 1,
          lg_traffic_footer_area =
            (if footer \<and> 2 < length chunks then chunks ! 2 else default_rect),
          lg_traffic_layout_mode = tmode, lg_show_traffic_footer = footer\<rparr>)"

section \<open>Popups\<close>

definition centered_rect_fixed :: "nat \<Rightarrow> nat \<Rightarrow> Rect \<Rightarrow> Rect" where
  "centered_rect_fixed width height r =
     (let w = min width (rwidth r - 2);
          h = min height (rheight r - 2)
      in \<lparr>rx = rx r + (rwidth r - w) div 2, ry = ry r + (rheight r - h) div 2,
          rwidth = w, rheight = h\<rparr>)"

definition clamp :: "nat \<Rightarrow> nat \<Rightarrow> nat \<Rightarrow> nat" where
  "clamp lo hi v = (if v < lo then lo else if hi < v then hi else v)"

definition responsive_rect :: "nat \<Rightarrow> nat \<Rightarrow> nat \<Rightarrow> nat \<Rightarrow> Rect \<Rightarrow> Rect" where
  "responsive_rect preferred_w preferred_h max_pct_w max_pct_h screen =
     (let max_w = (rwidth screen * clamp 10 100 max_pct_w) div 100 mod 2 ^ 16;
          max_h = (rheight screen * clamp 10 100 max_pct_h) div 100 mod 2 ^ 16;
          available_w = max (rwidth screen - 2) 1;
          available_h = max (rheight screen - 2) 1;
          w = max (min (min preferred_w max_w) available_w) 1;
          h = max (min (min preferred_h max_h) available_h) 1
      in \<lparr>rx = rx screen + (rwidth screen - w) div 2, ry = ry screen + (rheight screen - h) div 2,
          rwidth = w, rheight = h\<rparr>)"

text \<open>Containment, and a rectangle that a terminal can have.\<close>

definition inside :: "Rect \<Rightarrow> Rect \<Rightarrow> bool" where
  "inside r s \<longleftrightarrow> rx s \<le> rx r \<and> rx r + rwidth r \<le> rx s + rwidth s
     \<and> ry s \<le> ry r \<and> ry r + rheight r \<le> ry s + rheight s"

definition u16_rect :: "Rect \<Rightarrow> bool" where
  "u16_rect r \<longleftrightarrow> rx r + rwidth r < 2 ^ 16 \<and> ry r + rheight r < 2 ^ 16"

lemma inside_u16: "inside r s \<Longrightarrow> u16_rect s \<Longrightarrow> u16_rect r"
  by (auto simp: inside_def u16_rect_def)

lemma centered_span: "w \<le> (n :: nat) \<Longrightarrow> (n - w) div 2 + w \<le> n"
  by presburger

text \<open>On any terminal with at least one cell, a popup is at least one cell large, no larger than
  asked for (but for that cell), and inside the screen, so its coordinates fit in 16 bits.\<close>

theorem popup_inside:
  assumes "u16_rect screen" and "0 < rwidth screen" and "0 < rheight screen"
  shows "inside (responsive_rect pw ph mw mh screen) screen
    \<and> u16_rect (responsive_rect pw ph mw mh screen)
    \<and> 0 < rwidth (responsive_rect pw ph mw mh screen)
    \<and> 0 < rheight (responsive_rect pw ph mw mh screen)
    \<and> rwidth (responsive_rect pw ph mw mh screen) \<le> max pw 1
    \<and> rheight (responsive_rect pw ph mw mh screen) \<le> max ph 1"
proof -
  let ?r = "responsive_rect pw ph mw mh screen"
  have fit: "max (min a (max (n - 2) 1)) 1 \<le> n" if "0 < n" for a n :: nat
    using that by simp
  have at: "rx ?r = rx screen + (rwidth screen - rwidth ?r) div 2"
    "ry ?r = ry screen + (rheight screen - rheight ?r) div 2"
    by (simp_all only: responsive_rect_def Let_def Rect.select_convs)
  have "rwidth ?r \<le> rwidth screen" "rheight ?r \<le> rheight screen"
    unfolding responsive_rect_def Let_def Rect.select_convs
    by (rule fit [OF assms(2)], rule fit [OF assms(3)])
  then have inside: "inside ?r screen"
    unfolding inside_def at using centered_span by (simp add: add.assoc)
  have size: "0 < rwidth ?r" "0 < rheight ?r" "rwidth ?r \<le> max pw 1" "rheight ?r \<le> max ph 1"
    unfolding responsive_rect_def Let_def Rect.select_convs
    by (simp, simp, (rule max.mono [OF min.coboundedI1 [OF min.cobounded1] order_refl])+)
  from inside size inside_u16 [OF inside assms(1)] show ?thesis by blast
qed

theorem popup_inside_witness:
  "let screen = \<lparr>rx = 0, ry = 0, rwidth = 50, rheight = 15\<rparr>
   in inside (responsive_rect 70 20 95 90 screen) screen
    \<and> u16_rect (responsive_rect 70 20 95 90 screen)
    \<and> 0 < rwidth (responsive_rect 70 20 95 90 screen)
    \<and> 0 < rheight (responsive_rect 70 20 95 90 screen)
    \<and> rwidth (responsive_rect 70 20 95 90 screen) \<le> max 70 1
    \<and> rheight (responsive_rect 70 20 95 90 screen) \<le> max 20 1"
  unfolding Let_def by (rule popup_inside) (simp_all add: u16_rect_def)

end
