(* ===== verification/Settings.thy ===== *)
theory Settings
  imports Prelude
begin

text \<open>
  The state of the settings tab (\<open>src/ui/settings.rs\<close>): rows, the cursor over the items and
  its position among the rows.  ratatui's \<open>ListState\<close> is the selected row.
\<close>

datatype SettingsKind = SToggle | SCycle | SEditable | SAction | SDisplay

datatype SettingsRow = Header string | Item string SettingsKind

definition settings_layout :: "SettingsRow list" where
  "settings_layout =
     [Header ''Startup'', Item ''Autoconnect'' SToggle, Item ''Autostart mode'' SCycle,
      Item ''Systemd autostart'' SToggle,
      Header ''Display'', Item ''Theme'' SCycle, Item ''Show IP'' SToggle,
      Item ''Verbose TUI log'' SToggle, Item ''Log level'' SCycle,
      Header ''Network'', Item ''TUN name'' SEditable, Item ''Kill Switch'' SToggle,
      Item ''Split tunnel'' SCycle,
      Header ''Diagnostics'', Item ''Test method'' SCycle, Item ''Test samples'' SCycle,
      Item ''Test concurrency'' SCycle, Item ''Test timeout'' SCycle, Item ''Test endpoint'' SCycle,
      Item ''Auto-test on refresh'' SToggle,
      Header ''Hardware'', Item ''HWID: Enabled'' SToggle, Item ''HWID'' SDisplay,
      Item ''Reset HWID'' SAction, Item ''User-Agent'' SEditable,
      Header ''Updates'', Item ''Check for updates'' SToggle]"

fun is_item :: "SettingsRow \<Rightarrow> bool" where
  "is_item (Item _ _) = True"
| "is_item (Header _) = False"

definition split_tunnel_label :: "string \<Rightarrow> string" where
  "split_tunnel_label mode =
     (if mode = ''exclude'' then ''exclude (apps bypass)''
      else if mode = ''include'' then ''include (only apps)'' else ''off'')"

definition next_split_tunnel_mode :: "string \<Rightarrow> string" where
  "next_split_tunnel_mode mode =
     (if mode = ''off'' then ''exclude'' else if mode = ''exclude'' then ''include'' else ''off'')"

definition item_count :: nat where
  "item_count = length (filter is_item settings_layout)"

record SettingsState =
  st_selected :: "nat option"
  st_item_cursor :: nat
  st_scroll :: nat

definition settings_new :: SettingsState where
  "settings_new = \<lparr>st_selected = Some 1, st_item_cursor = 0, st_scroll = 0\<rparr>"

definition settings_up :: "SettingsState \<Rightarrow> SettingsState" where
  "settings_up s = (if 0 < st_item_cursor s then s\<lparr>st_item_cursor := st_item_cursor s - 1\<rparr> else s)"

definition settings_down :: "SettingsState \<Rightarrow> SettingsState" where
  "settings_down s =
     (if st_item_cursor s < item_count - 1 then s\<lparr>st_item_cursor := st_item_cursor s + 1\<rparr> else s)"

text \<open>The row of the item under the cursor, 0 when there is none.\<close>

fun nth_item_row :: "SettingsRow list \<Rightarrow> nat \<Rightarrow> nat option" where
  "nth_item_row [] n = None"
| "nth_item_row (r # rs) n =
     (if is_item r then (case n of 0 \<Rightarrow> Some 0 | Suc m \<Rightarrow> map_option Suc (nth_item_row rs m))
      else map_option Suc (nth_item_row rs n))"

definition flat_index :: "SettingsState \<Rightarrow> nat" where
  "flat_index s =
     (case nth_item_row settings_layout (st_item_cursor s) of Some i \<Rightarrow> i | None \<Rightarrow> 0)"

definition settings_ok :: "SettingsState \<Rightarrow> bool" where
  "settings_ok s \<longleftrightarrow> st_item_cursor s < item_count"

lemma item_count_value [simp]: "item_count = 21"
  by (simp add: item_count_def settings_layout_def)

lemma settings_ops_ok [simp]:
  "settings_ok settings_new"
  "settings_ok s \<Longrightarrow> settings_ok (settings_up s)"
  "settings_ok s \<Longrightarrow> settings_ok (settings_down s)"
  by (auto simp: settings_ok_def settings_new_def settings_up_def settings_down_def)

lemma nth_item_row_filter:
  "n < length (filter is_item rs) \<Longrightarrow>
   \<exists>i. nth_item_row rs n = Some i \<and> i < length rs \<and> rs ! i = filter is_item rs ! n"
proof (induction rs arbitrary: n)
  case (Cons r rs)
  show ?case
  proof (cases "is_item r")
    case True
    then show ?thesis using Cons by (cases n) fastforce+
  next
    case False
    then show ?thesis using Cons.IH [of n] Cons.prems by auto
  qed
qed simp

text \<open>the highlighted row is always the row of the item the cursor is on, never a header.\<close>

lemma flat_index_correct:
  assumes "settings_ok s"
  shows "flat_index s < length settings_layout
    \<and> settings_layout ! flat_index s = filter is_item settings_layout ! st_item_cursor s
    \<and> is_item (settings_layout ! flat_index s)"
proof -
  have n: "st_item_cursor s < length (filter is_item settings_layout)"
    using assms by (simp only: settings_ok_def item_count_def)
  from nth_item_row_filter [OF this] obtain i where
    "nth_item_row settings_layout (st_item_cursor s) = Some i" "i < length settings_layout"
    "settings_layout ! i = filter is_item settings_layout ! st_item_cursor s" by blast
  moreover have "is_item (filter is_item settings_layout ! st_item_cursor s)"
    using nth_mem [OF n] by simp
  ultimately show ?thesis by (simp add: flat_index_def)
qed

end
