(* ===== verification/App.thy ===== *)
theory App
  imports Protocol Logs Traffic RoutingRules Uri UpdateCheck Layout Settings Labels
begin

text \<open>
  \<open>src/ui/app/types.rs\<close> and \<open>src/ui/app/state/mod.rs\<close>: the state of the terminal
  interface and the profile tree.  Hash maps are maps, hash sets are sets; the cache in the
  \<open>RefCell\<close> is a field like the others.  The cursor counts the visible nodes of the tree;
  \<open>visible_nodes\<close> is the list it counts.
\<close>

datatype ActiveTab = TabProfiles | TabRouting | TabTraffic | TabLogs | TabSettings

datatype Focus = LeftPanel | RightPanel | PopupFocus

datatype Popup =
    Import string nat
  | ConfirmDelete i32 i32 string
  | ConfirmDeleteGroup i32 string
  | ConfirmClearLogs LogSource
  | AddGroup string nat
  | EditSubscription (es_name: string) (es_url: string) (es_group_id: i32) (es_cursor: nat)
      (es_field: nat) (es_auto_update: bool) (es_interval_hours: string) (es_provider_interval: i64)
  | EditUserAgent string nat
  | EditTunName string nat
  | EditProfileName string nat i32 i32
  | Help
  | TabSwitcher nat
  | UpdatePopup UpdateInfo
  | Recovery bool bool string

datatype ItemMoveAction =
    ReorderProfiles i32 "i32 list" string bool
  | ReorderGroups "i32 list" string bool

datatype TreeNode = GroupNode nat | ProfileNode nat nat

record GroupRoutingView =
  gv_effective :: RoutingConfig
  gv_custom :: "RoutingConfig option"

record App =
  groups :: "GroupWithProfiles list"
  connection_status :: ProxyStatus
  tun_enabled :: bool
  last_msg :: "string option"
  show_ip :: bool
  check_updates :: bool
  log_enabled :: bool
  log_level :: string
  test_method :: string
  tun_name :: string
  hwid_info :: "HwidData option"
  kill_switch_enabled :: bool
  kill_switch_armed :: bool
  split_tunnel :: string
  autoconnect_enabled :: bool
  autostart_mode :: string
  systemd_enabled :: bool
  public_ip :: string
  public_ipv6 :: string
  tab :: ActiveTab
  focus :: Focus
  cursor :: nat
  tree_scroll :: nat
  details_scroll :: nat
  popup :: "Popup option"
  help_scroll :: nat
  pending_update :: "UpdateInfo option"
  recovery_prompted :: bool
  settings_state :: SettingsState
  logs_state :: LogsState
  traffic_stats :: TrafficStats
  traffic_history :: TrafficHistory
  routing :: RoutingConfig
  profile_details :: "i32 \<times> i32 \<rightharpoonup> ProfileDetails"
  profile_details_pending :: "(i32 \<times> i32) set"
  group_routing :: "i32 \<rightharpoonup> GroupRoutingView"
  routing_cursor :: nat
  routing_group_index :: nat
  routing_popup :: "RoutingPopup option"
  search_query :: "string option"
  search_input :: string
  search_mode :: bool
  test_progress :: "TestProgress option"
  test_config :: TestConfig
  collapsed_groups :: "i32 set"
  last_area :: Rect
  layout :: LayoutGeometry
  xray_status :: "XrayStatusInfo option"
  core_version :: string
  core_protocol_version :: u32
  uri_cache :: "(i32 \<times> i32 \<times> ParsedUri) option"

definition app_new ::
  "LogsState \<Rightarrow> bool \<Rightarrow> bool \<Rightarrow> string \<Rightarrow> string \<Rightarrow> string \<Rightarrow> bool \<Rightarrow> TestConfig \<Rightarrow> App" where
  "app_new logs sip log_on level tmethod tun ks tconf =
    \<lparr>groups = [], connection_status = default_status, tun_enabled = False, last_msg = None,
     show_ip = sip, check_updates = False, log_enabled = log_on, log_level = level,
     test_method = tmethod, tun_name = tun, hwid_info = None, kill_switch_enabled = ks,
     kill_switch_armed = False, split_tunnel = ''off'', autoconnect_enabled = False,
     autostart_mode = ''proxy'', systemd_enabled = False, public_ip = [], public_ipv6 = [],
     tab = TabProfiles, focus = LeftPanel, cursor = 0, tree_scroll = 0, details_scroll = 0,
     popup = None, help_scroll = 0, pending_update = None, recovery_prompted = False,
     settings_state = settings_new, logs_state = logs, traffic_stats = default_traffic,
     traffic_history = history_new, routing = default_routing_config,
     profile_details = Map.empty, profile_details_pending = {}, group_routing = Map.empty,
     routing_cursor = 0, routing_group_index = 0, routing_popup = None, search_query = None,
     search_input = [], search_mode = False, test_progress = None, test_config = tconf,
     collapsed_groups = {}, last_area = default_rect, layout = default_layout,
     xray_status = None, core_version = [], core_protocol_version = 0, uri_cache = None\<rparr>"

definition promote_pending_update :: "App \<Rightarrow> App" where
  "promote_pending_update app =
     (if popup app \<noteq> None \<or> routing_popup app \<noteq> None \<or> search_mode app then app
      else case pending_update app of
        Some info \<Rightarrow> app\<lparr>pending_update := None, popup := Some (UpdatePopup info), focus := PopupFocus\<rparr>
      | None \<Rightarrow> app)"

section \<open>The tree\<close>

abbreviation gid :: "GroupWithProfiles \<Rightarrow> i32" where
  "gid g \<equiv> g_id (gw_group g)"

definition profile_matches :: "(string \<Rightarrow> string) \<Rightarrow> string \<Rightarrow> Profile \<Rightarrow> bool" where
  "profile_matches lc query p \<longleftrightarrow>
     str_contains query (lc (p_name p)) \<or> str_contains query (lc (p_protocol p))
     \<or> str_contains query (lc (p_address p)) \<or> str_contains query (lc (p_host p))"

fun count_tree :: "i32 set \<Rightarrow> GroupWithProfiles list \<Rightarrow> nat" where
  "count_tree collapsed [] = 0"
| "count_tree collapsed (g # gs) =
     1 + (if gid g \<in> collapsed then 0 else length (gw_profiles g)) + count_tree collapsed gs"

fun count_matches :: "(Profile \<Rightarrow> bool) \<Rightarrow> GroupWithProfiles list \<Rightarrow> nat" where
  "count_matches m [] = 0"
| "count_matches m (g # gs) = length (filter m (gw_profiles g)) + count_matches m gs"

definition tree_len :: "(string \<Rightarrow> string) \<Rightarrow> App \<Rightarrow> nat" where
  "tree_len lc app =
     (case search_query app of
        None \<Rightarrow> count_tree (collapsed_groups app) (groups app)
      | Some q \<Rightarrow> count_matches (profile_matches lc (lc q)) (groups app))"

text \<open>The loops over the groups, with the running position \<open>pos\<close> and the index \<open>gi\<close>.\<close>

fun node_at :: "i32 set \<Rightarrow> nat \<Rightarrow> nat \<Rightarrow> nat \<Rightarrow> GroupWithProfiles list \<Rightarrow> TreeNode option" where
  "node_at collapsed cur pos gi [] = None"
| "node_at collapsed cur pos gi (g # gs) =
     (if pos = cur then Some (GroupNode gi)
      else if gid g \<in> collapsed then node_at collapsed cur (pos + 1) (gi + 1) gs
      else if cur < pos + 1 + length (gw_profiles g) then Some (ProfileNode gi (cur - (pos + 1)))
      else node_at collapsed cur (pos + 1 + length (gw_profiles g)) (gi + 1) gs)"

fun match_in :: "(Profile \<Rightarrow> bool) \<Rightarrow> nat \<Rightarrow> nat \<Rightarrow> nat \<Rightarrow> nat \<Rightarrow> Profile list \<Rightarrow> nat + TreeNode" where
  "match_in m cur pos gi pj [] = Inl pos"
| "match_in m cur pos gi pj (p # ps) =
     (if m p then (if pos = cur then Inr (ProfileNode gi pj) else match_in m cur (pos + 1) gi (pj + 1) ps)
      else match_in m cur pos gi (pj + 1) ps)"

fun match_at :: "(Profile \<Rightarrow> bool) \<Rightarrow> nat \<Rightarrow> nat \<Rightarrow> nat \<Rightarrow> GroupWithProfiles list \<Rightarrow> TreeNode option" where
  "match_at m cur pos gi [] = None"
| "match_at m cur pos gi (g # gs) =
     (case match_in m cur pos gi 0 (gw_profiles g) of
        Inr n \<Rightarrow> Some n
      | Inl pos' \<Rightarrow> match_at m cur pos' (gi + 1) gs)"

definition tree_node_at :: "(string \<Rightarrow> string) \<Rightarrow> App \<Rightarrow> nat \<Rightarrow> TreeNode option" where
  "tree_node_at lc app cur =
     (case search_query app of
        None \<Rightarrow> node_at (collapsed_groups app) cur 0 0 (groups app)
      | Some q \<Rightarrow> match_at (profile_matches lc (lc q)) cur 0 0 (groups app))"

definition clamp_cursor :: "(string \<Rightarrow> string) \<Rightarrow> App \<Rightarrow> App" where
  "clamp_cursor lc app =
     (let len = tree_len lc app
      in if len = 0 then app\<lparr>cursor := 0\<rparr>
         else if len \<le> cursor app then app\<lparr>cursor := len - 1\<rparr> else app)"

definition current_group :: "(string \<Rightarrow> string) \<Rightarrow> App \<Rightarrow> GroupWithProfiles option" where
  "current_group lc app =
     (case tree_node_at lc app (cursor app) of
        None \<Rightarrow> None
      | Some (GroupNode gi) \<Rightarrow> get_at (groups app) gi
      | Some (ProfileNode gi _) \<Rightarrow> get_at (groups app) gi)"

definition selected_profile :: "(string \<Rightarrow> string) \<Rightarrow> App \<Rightarrow> Profile option" where
  "selected_profile lc app =
     (case tree_node_at lc app (cursor app) of
        Some (ProfileNode gi pj) \<Rightarrow>
          do { g \<leftarrow> get_at (groups app) gi; get_at (gw_profiles g) pj }
      | _ \<Rightarrow> None)"

definition on_group :: "(string \<Rightarrow> string) \<Rightarrow> App \<Rightarrow> bool" where
  "on_group lc app =
     (case tree_node_at lc app (cursor app) of Some (GroupNode _) \<Rightarrow> True | _ \<Rightarrow> False)"

section \<open>Tabs, focus, status\<close>

fun tab_index :: "ActiveTab \<Rightarrow> nat" where
  "tab_index TabProfiles = 0"
| "tab_index TabRouting = 1"
| "tab_index TabTraffic = 2"
| "tab_index TabLogs = 3"
| "tab_index TabSettings = 4"

definition tab_from_index :: "nat \<Rightarrow> ActiveTab" where
  "tab_from_index i = (if i = 1 then TabRouting else if i = 2 then TabTraffic
     else if i = 3 then TabLogs else if i = 4 then TabSettings else TabProfiles)"

definition next_tab :: "App \<Rightarrow> App" where
  "next_tab app = app\<lparr>tab := tab_from_index ((tab_index (tab app) + 1) mod 5)\<rparr>"

definition prev_tab :: "App \<Rightarrow> App" where
  "prev_tab app =
     (let cur = tab_index (tab app)
      in app\<lparr>tab := tab_from_index (if cur = 0 then 4 else cur - 1)\<rparr>)"

definition toggle_focus :: "(string \<Rightarrow> string) \<Rightarrow> App \<Rightarrow> App" where
  "toggle_focus lc app =
     (if tab app = TabProfiles
      then app\<lparr>focus := (case focus app of
           LeftPanel \<Rightarrow> if tree_node_at lc app (cursor app) \<noteq> None then RightPanel else LeftPanel
         | RightPanel \<Rightarrow> LeftPanel
         | PopupFocus \<Rightarrow> PopupFocus)\<rparr>
      else app)"

definition is_connected :: "App \<Rightarrow> bool" where
  "is_connected app \<longleftrightarrow> ps_connection (connection_status app) = ''connected''"

definition connected_id :: "App \<Rightarrow> (i32 \<times> i32) option" where
  "connected_id app =
     map_option (\<lambda>p. (p_group_id p, p_id p)) (ps_profile (connection_status app))"

definition connected_profile_name :: "App \<Rightarrow> string option" where
  "connected_profile_name app = map_option p_name (ps_profile (connection_status app))"

definition clear_msg :: "App \<Rightarrow> App" where
  "clear_msg app = app\<lparr>last_msg := None\<rparr>"

definition set_msg :: "string \<Rightarrow> App \<Rightarrow> App" where
  "set_msg text app = app\<lparr>last_msg := Some (clean_label text)\<rparr>"

section \<open>What the cursor counts\<close>

fun visible_from :: "i32 set \<Rightarrow> nat \<Rightarrow> GroupWithProfiles list \<Rightarrow> TreeNode list" where
  "visible_from collapsed gi [] = []"
| "visible_from collapsed gi (g # gs) =
     GroupNode gi #
     (if gid g \<in> collapsed then [] else map (ProfileNode gi) [0..<length (gw_profiles g)])
     @ visible_from collapsed (gi + 1) gs"

fun matches_from :: "(Profile \<Rightarrow> bool) \<Rightarrow> nat \<Rightarrow> GroupWithProfiles list \<Rightarrow> TreeNode list" where
  "matches_from m gi [] = []"
| "matches_from m gi (g # gs) =
     map (ProfileNode gi) (filter (\<lambda>i. m (gw_profiles g ! i)) [0..<length (gw_profiles g)])
     @ matches_from m (gi + 1) gs"

definition visible_nodes :: "(string \<Rightarrow> string) \<Rightarrow> App \<Rightarrow> TreeNode list" where
  "visible_nodes lc app =
     (case search_query app of
        None \<Rightarrow> visible_from (collapsed_groups app) 0 (groups app)
      | Some q \<Rightarrow> matches_from (profile_matches lc (lc q)) 0 (groups app))"

lemma length_visible_from [simp]: "length (visible_from c gi gs) = count_tree c gs"
  by (induction gs arbitrary: gi) auto

lemma length_filter_index:
  "length (filter (\<lambda>i. m (xs ! i)) [0..<length xs]) = length (filter m xs)"
proof (induction xs)
  case (Cons x xs)
  have "filter (\<lambda>i. m ((x # xs) ! i)) [0..<length (x # xs)]
      = filter (\<lambda>i. m ((x # xs) ! i)) (0 # map Suc [0..<length xs])"
    by (simp add: map_Suc_upt upt_conv_Cons del: upt_Suc)
  then show ?case using Cons by (simp add: filter_map comp_def del: upt_Suc)
qed simp

lemma length_matches_from [simp]: "length (matches_from m gi gs) = count_matches m gs"
  by (induction gs arbitrary: gi) (auto simp: length_filter_index)

lemma tree_len_visible: "tree_len lc app = length (visible_nodes lc app)"
  by (simp add: tree_len_def visible_nodes_def split: option.split)

lemma get_at_Cons: "get_at (x # xs) n = (if n = 0 then Some x else get_at xs (n - 1))"
  by (cases n) (auto simp: get_at_def)

lemma get_at_append:
  "get_at (xs @ ys) n = (if n < length xs then Some (xs ! n) else get_at ys (n - length xs))"
  by (auto simp: get_at_def nth_append)

lemma node_at_visible:
  "pos \<le> cur \<Longrightarrow> node_at c cur pos gi gs = get_at (visible_from c gi gs) (cur - pos)"
proof (induction gs arbitrary: pos gi)
  case (Cons g gs)
  show ?case
  proof (cases "pos = cur")
    case False
    with Cons.prems have "Suc pos \<le> cur" by simp
    then show ?thesis
      using Cons.IH [of "Suc pos" "Suc gi"] False
        Cons.IH [of "Suc (pos + length (gw_profiles g))" "Suc gi"]
      by (auto simp: get_at_Cons get_at_append not_less diff_diff_left add.commute less_diff_conv2)
  qed (simp add: get_at_Cons)
qed (simp add: get_at_def)

lemma match_in_visible:
  "pos \<le> cur \<Longrightarrow> match_in m cur pos gi pj ps =
     (let ns = filter (\<lambda>i. m (ps ! (i - pj))) [pj..<pj + length ps]
      in if cur - pos < length ns then Inr (ProfileNode gi (ns ! (cur - pos)))
         else Inl (pos + length ns))"
proof (induction ps arbitrary: pos pj)
  case (Cons p ps)
  have ns: "filter (\<lambda>i. m ((p # ps) ! (i - pj))) [pj..<pj + length (p # ps)]
      = (if m p then [pj] else []) @ filter (\<lambda>i. m (ps ! (i - Suc pj))) [Suc pj..<Suc pj + length ps]"
  proof -
    have "[pj..<pj + length (p # ps)] = pj # [Suc pj..<Suc pj + length ps]"
      by (simp add: upt_conv_Cons del: upt_Suc)
    moreover have "filter (\<lambda>i. m ((p # ps) ! (i - pj))) [Suc pj..<Suc pj + length ps]
        = filter (\<lambda>i. m (ps ! (i - Suc pj))) [Suc pj..<Suc pj + length ps]"
    proof (rule filter_cong)
      fix i assume "i \<in> set [Suc pj..<Suc pj + length ps]"
      then have "i - pj = Suc (i - Suc pj)" by auto
      then show "m ((p # ps) ! (i - pj)) = m (ps ! (i - Suc pj))" by simp
    qed simp
    ultimately show ?thesis by (simp del: upt_Suc)
  qed
  show ?case
  proof (cases "m p \<and> pos \<noteq> cur")
    case True
    with Cons.prems have "Suc pos \<le> cur" by simp
    from Cons.IH [OF this, of "Suc pj"] True Cons.prems show ?thesis
      unfolding ns by (auto simp: Let_def nth_Cons' simp del: upt_Suc)
  next
    case False
    then show ?thesis
      unfolding ns using Cons.IH [OF Cons.prems, of "Suc pj"] by (auto simp: Let_def simp del: upt_Suc)
  qed
qed (simp add: Let_def)

lemma match_at_visible:
  "pos \<le> cur \<Longrightarrow> match_at m cur pos gi gs = get_at (matches_from m gi gs) (cur - pos)"
proof (induction gs arbitrary: pos gi)
  case (Cons g gs)
  let ?ns = "filter (\<lambda>i. m (gw_profiles g ! i)) [0..<length (gw_profiles g)]"
  have step: "match_in m cur pos gi 0 (gw_profiles g) =
      (if cur - pos < length ?ns then Inr (ProfileNode gi (?ns ! (cur - pos))) else Inl (pos + length ?ns))"
    using match_in_visible [OF Cons.prems, of m gi 0 "gw_profiles g"] by (simp add: Let_def)
  show ?case
  proof (cases "cur - pos < length ?ns")
    case True
    then show ?thesis by (simp add: step get_at_append)
  next
    case False
    with Cons.prems have "pos + length ?ns \<le> cur" by simp
    from Cons.IH [OF this, of "Suc gi"] False show ?thesis by (simp add: step get_at_append)
  qed
qed (simp add: get_at_def)

lemma tree_node_at_visible: "tree_node_at lc app c = get_at (visible_nodes lc app) c"
  by (simp add: tree_node_at_def visible_nodes_def node_at_visible match_at_visible split: option.split)

end
