(* ===== verification/AppTree.thy ===== *)
theory AppTree
  imports App
begin

text \<open>
  \<open>src/ui/app/state/tree.rs\<close>: moving the cursor over the visible nodes, collapsing groups and
  reordering profiles and groups.  The indices of a node come from \<open>tree_node_at\<close>, so they are
  in range (\<open>tree_node_at_in_range\<close>) and the indexing of the source cannot panic.
\<close>

section \<open>Cursors over a list\<close>

text \<open>A cursor is in range when it is on an element, or at 0 in an empty list.\<close>

definition cursor_ok :: "nat \<Rightarrow> nat \<Rightarrow> bool" where
  "cursor_ok n c \<longleftrightarrow> c < n \<or> n = 0 \<and> c = 0"

definition clamped :: "nat \<Rightarrow> nat \<Rightarrow> nat" where
  "clamped n c = (if n = 0 then 0 else if n \<le> c then n - 1 else c)"

lemma clamped_ok [simp]: "cursor_ok n (clamped n c)"
  by (auto simp: cursor_ok_def clamped_def)

lemma clamped_id: "cursor_ok n c \<Longrightarrow> clamped n c = c"
  by (auto simp: cursor_ok_def clamped_def)

text \<open>What a clamping operation promises: the list is untouched, the cursor ends in range, and a
  cursor in range stays where it is.\<close>

locale clamped_cursor =
  fixes len :: "'s \<Rightarrow> nat"
    and cur :: "'s \<Rightarrow> nat"
    and clamp :: "'s \<Rightarrow> 's"
  assumes len_clamp: "len (clamp s) = len s"
    and cur_clamp: "cur (clamp s) = clamped (len s) (cur s)"
begin

lemma clamp_in_range: "cursor_ok (len (clamp s)) (cur (clamp s))"
  by (simp add: len_clamp cur_clamp)

lemma clamp_keeps: "cursor_ok (len s) (cur s) \<Longrightarrow> cur (clamp s) = cur s"
  by (simp add: cur_clamp clamped_id)

lemma clamp_twice: "cur (clamp (clamp s)) = cur (clamp s)"
  by (rule clamp_keeps) (rule clamp_in_range)

lemma clamp_after:
  "len t = len s \<Longrightarrow> cur t \<le> cur s \<Longrightarrow> cursor_ok (len s) (cur s) \<Longrightarrow> cursor_ok (len t) (cur t)"
  by (auto simp: cursor_ok_def)

end

lemma tree_len_simps [simp]:
  "tree_len lc (app\<lparr>cursor := c\<rparr>) = tree_len lc app"
  "tree_len lc (app\<lparr>details_scroll := d\<rparr>) = tree_len lc app"
  "tree_len lc (app\<lparr>tree_scroll := t\<rparr>) = tree_len lc app"
  by (simp_all add: tree_len_def split: option.split)

lemma clamp_cursor_eq: "clamp_cursor lc app = app\<lparr>cursor := clamped (tree_len lc app) (cursor app)\<rparr>"
  by (simp add: clamp_cursor_def clamped_def Let_def)

interpretation tree_cursor: clamped_cursor "tree_len lc" cursor "clamp_cursor lc"
  by unfold_locales (simp_all add: clamp_cursor_eq)

definition tree_ok :: "(string \<Rightarrow> string) \<Rightarrow> App \<Rightarrow> bool" where
  "tree_ok lc app \<longleftrightarrow> cursor_ok (tree_len lc app) (cursor app)"

lemma tree_ok_clamp [simp]: "tree_ok lc (clamp_cursor lc app)"
  unfolding tree_ok_def by (rule tree_cursor.clamp_in_range)

section \<open>Moving the cursor\<close>

definition cursor_down :: "(string \<Rightarrow> string) \<Rightarrow> App \<Rightarrow> App" where
  "cursor_down lc app =
     (let len = tree_len lc app
      in if len = 0 \<or> len \<le> cursor app + 1 then app
         else app\<lparr>cursor := cursor app + 1, details_scroll := 0\<rparr>)"

definition cursor_up :: "App \<Rightarrow> App" where
  "cursor_up app =
     (if 0 < cursor app then app\<lparr>cursor := cursor app - 1, details_scroll := 0\<rparr> else app)"

definition cursor_top :: "App \<Rightarrow> App" where
  "cursor_top app = app\<lparr>cursor := 0, tree_scroll := 0, details_scroll := 0\<rparr>"

definition cursor_bottom :: "(string \<Rightarrow> string) \<Rightarrow> App \<Rightarrow> App" where
  "cursor_bottom lc app =
     (let len = tree_len lc app
      in if 0 < len then app\<lparr>cursor := len - 1, details_scroll := 0\<rparr> else app)"

definition cursor_page_down :: "(string \<Rightarrow> string) \<Rightarrow> nat \<Rightarrow> App \<Rightarrow> App" where
  "cursor_page_down lc step app =
     (let len = tree_len lc app
      in if len = 0 then app
         else app\<lparr>cursor := min (cursor app + step) (len - 1), details_scroll := 0\<rparr>)"

definition cursor_page_up :: "nat \<Rightarrow> App \<Rightarrow> App" where
  "cursor_page_up step app = app\<lparr>cursor := cursor app - step, details_scroll := 0\<rparr>"

section \<open>Collapsing\<close>

definition toggle_group_collapsed :: "(string \<Rightarrow> string) \<Rightarrow> i32 \<Rightarrow> App \<Rightarrow> App" where
  "toggle_group_collapsed lc g app =
     clamp_cursor lc
       (if g \<in> collapsed_groups app then app\<lparr>collapsed_groups := collapsed_groups app - {g}\<rparr>
        else app\<lparr>collapsed_groups := insert g (collapsed_groups app)\<rparr>)"

definition collapse_group :: "(string \<Rightarrow> string) \<Rightarrow> i32 \<Rightarrow> App \<Rightarrow> App" where
  "collapse_group lc g app =
     (if g \<in> collapsed_groups app then app
      else clamp_cursor lc (app\<lparr>collapsed_groups := insert g (collapsed_groups app)\<rparr>))"

definition expand_group :: "(string \<Rightarrow> string) \<Rightarrow> i32 \<Rightarrow> App \<Rightarrow> App" where
  "expand_group lc g app =
     (if g \<in> collapsed_groups app
      then clamp_cursor lc (app\<lparr>collapsed_groups := collapsed_groups app - {g}\<rparr>)
      else app)"

fun pos_of_group :: "i32 set \<Rightarrow> nat \<Rightarrow> nat \<Rightarrow> nat \<Rightarrow> GroupWithProfiles list \<Rightarrow> nat option" where
  "pos_of_group collapsed pos gi target [] = None"
| "pos_of_group collapsed pos gi target (g # gs) =
     (if gi = target then Some pos
      else pos_of_group collapsed
        (pos + 1 + (if gid g \<in> collapsed then 0 else length (gw_profiles g))) (gi + 1) target gs)"

definition cursor_for_group :: "App \<Rightarrow> nat \<Rightarrow> nat option" where
  "cursor_for_group app target =
     (if search_query app \<noteq> None then None
      else pos_of_group (collapsed_groups app) 0 0 target (groups app))"

fun pos_of_node :: "i32 set \<Rightarrow> nat \<Rightarrow> nat \<Rightarrow> TreeNode \<Rightarrow> GroupWithProfiles list \<Rightarrow> nat option" where
  "pos_of_node collapsed pos gi target [] = None"
| "pos_of_node collapsed pos gi target (g # gs) =
     (let plen = length (gw_profiles g);
          next_open = pos_of_node collapsed (pos + 1 + plen) (gi + 1) target gs
      in if target = GroupNode gi then Some pos
         else if gid g \<in> collapsed then pos_of_node collapsed (pos + 1) (gi + 1) target gs
         else case target of
           ProfileNode tgi tpi \<Rightarrow>
             if tgi = gi then (if tpi < plen then Some (pos + 1 + tpi) else None) else next_open
         | GroupNode _ \<Rightarrow> next_open)"

definition cursor_for_node :: "App \<Rightarrow> TreeNode \<Rightarrow> nat option" where
  "cursor_for_node app target =
     (if search_query app \<noteq> None then None
      else pos_of_node (collapsed_groups app) 0 0 target (groups app))"

definition parent_group_cursor :: "(string \<Rightarrow> string) \<Rightarrow> App \<Rightarrow> nat option" where
  "parent_group_cursor lc app =
     (case tree_node_at lc app (cursor app) of
        None \<Rightarrow> None
      | Some (GroupNode gi) \<Rightarrow> cursor_for_group app gi
      | Some (ProfileNode gi _) \<Rightarrow> cursor_for_group app gi)"

section \<open>Reordering\<close>

definition set_cursor :: "nat option \<Rightarrow> App \<Rightarrow> App" where
  "set_cursor pos app = (case pos of Some p \<Rightarrow> app\<lparr>cursor := p\<rparr> | None \<Rightarrow> app)"

definition move_group :: "nat \<Rightarrow> nat \<Rightarrow> bool \<Rightarrow> App \<Rightarrow> App \<times> ItemMoveAction option" where
  "move_group gi gj up app =
     (let app = app\<lparr>groups := swap_at gi gj (groups app)\<rparr>;
          app = set_cursor (cursor_for_group app gj) app
      in (app, Some (ReorderGroups (map gid (groups app)) (g_name (gw_group (groups app ! gj))) up)))"

definition move_profile :: "nat \<Rightarrow> nat \<Rightarrow> nat \<Rightarrow> bool \<Rightarrow> App \<Rightarrow> App \<times> ItemMoveAction option" where
  "move_profile gi pj pk up app =
     (let g = groups app ! gi;
          g = g\<lparr>gw_profiles := swap_at pj pk (gw_profiles g)\<rparr>;
          app = app\<lparr>groups := (groups app)[gi := g]\<rparr>;
          app = set_cursor (cursor_for_node app (ProfileNode gi pk)) app
      in (app, Some (ReorderProfiles (gid g) (map p_id (gw_profiles g))
            (p_name (gw_profiles g ! pk)) up)))"

definition move_item_up :: "(string \<Rightarrow> string) \<Rightarrow> App \<Rightarrow> App \<times> ItemMoveAction option" where
  "move_item_up lc app =
     (if search_query app \<noteq> None then (app, None)
      else case tree_node_at lc app (cursor app) of
        None \<Rightarrow> (app, None)
      | Some (GroupNode gi) \<Rightarrow> if gi = 0 then (app, None) else move_group gi (gi - 1) True app
      | Some (ProfileNode gi pj) \<Rightarrow>
          if pj = 0 then (app, None) else move_profile gi pj (pj - 1) True app)"

definition move_item_down :: "(string \<Rightarrow> string) \<Rightarrow> App \<Rightarrow> App \<times> ItemMoveAction option" where
  "move_item_down lc app =
     (if search_query app \<noteq> None then (app, None)
      else case tree_node_at lc app (cursor app) of
        None \<Rightarrow> (app, None)
      | Some (GroupNode gi) \<Rightarrow>
          if length (groups app) \<le> gi + 1 then (app, None) else move_group gi (gi + 1) False app
      | Some (ProfileNode gi pj) \<Rightarrow>
          if length (gw_profiles (groups app ! gi)) \<le> pj + 1 then (app, None)
          else move_profile gi pj (pj + 1) False app)"

section \<open>Nodes and positions\<close>

lemma visible_from_group:
  "GroupNode j \<in> set (visible_from c gi gs) \<longleftrightarrow> gi \<le> j \<and> j < gi + length gs"
proof (induction gs arbitrary: gi)
  case (Cons g gs)
  have "GroupNode j \<in> set (visible_from c gi (g # gs)) \<longleftrightarrow> j = gi \<or> Suc gi \<le> j \<and> j < Suc gi + length gs"
    using Cons.IH [of "Suc gi"] by (cases "gid g \<in> c") (simp_all add: image_iff)
  then show ?case by (simp del: visible_from.simps) arith
qed simp

lemma visible_from_profile:
  "ProfileNode j k \<in> set (visible_from c gi gs) \<longleftrightarrow>
     gi \<le> j \<and> j < gi + length gs \<and> gid (gs ! (j - gi)) \<notin> c \<and> k < length (gw_profiles (gs ! (j - gi)))"
proof (induction gs arbitrary: gi)
  case (Cons g gs)
  show ?case
    by (cases "j = gi") (use Cons [of "Suc gi"] in \<open>auto simp: nth_Cons' Suc_le_eq\<close>)
qed simp

lemma distinct_visible_from: "distinct (visible_from c gi gs)"
proof (induction gs arbitrary: gi)
  case (Cons g gs)
  have "x \<notin> set (visible_from c (Suc gi) gs)" if "x = GroupNode gi \<or> (\<exists>k. x = ProfileNode gi k)" for x
    using that by (auto simp: visible_from_group visible_from_profile)
  then show ?case
    using Cons [of "Suc gi"] by (auto simp: distinct_map inj_on_def)
qed simp

lemma matches_from_profile:
  "n \<in> set (matches_from m gi gs) \<Longrightarrow>
   \<exists>j k. n = ProfileNode j k \<and> gi \<le> j \<and> j < gi + length gs \<and> k < length (gw_profiles (gs ! (j - gi)))
     \<and> m (gw_profiles (gs ! (j - gi)) ! k)"
proof (induction gs arbitrary: gi)
  case (Cons g gs)
  consider "n \<in> ProfileNode gi ` {i. i < length (gw_profiles g) \<and> m (gw_profiles g ! i)}"
    | "n \<in> set (matches_from m (Suc gi) gs)"
    using Cons.prems by auto
  then show ?case
  proof cases
    case 2
    from Cons.IH [OF this] obtain j k where "n = ProfileNode j k" "Suc gi \<le> j" "j < Suc gi + length gs"
      "k < length (gw_profiles (gs ! (j - Suc gi)))" "m (gw_profiles (gs ! (j - Suc gi)) ! k)" by blast
    then show ?thesis by (auto simp: nth_Cons')
  qed auto
qed simp

lemma tree_node_at_in_range:
  assumes "tree_node_at lc app c = Some n"
  shows "(\<exists>gi. n = GroupNode gi \<and> gi < length (groups app))
    \<or> (\<exists>gi pj. n = ProfileNode gi pj \<and> gi < length (groups app)
         \<and> pj < length (gw_profiles (groups app ! gi)))"
proof -
  have n: "n \<in> set (visible_nodes lc app)"
    using assms by (auto simp: tree_node_at_visible get_at_Some_iff)
  show ?thesis
  proof (cases "search_query app")
    case None
    with n have "n \<in> set (visible_from (collapsed_groups app) 0 (groups app))"
      by (simp add: visible_nodes_def)
    then show ?thesis
      by - (cases n, simp_all add: visible_from_group visible_from_profile)
  next
    case (Some q)
    with n show ?thesis by (auto simp: visible_nodes_def dest: matches_from_profile)
  qed
qed

lemma position_append:
  "position p (xs @ ys) = (case position p xs of Some i \<Rightarrow> Some i
     | None \<Rightarrow> map_option ((+) (length xs)) (position p ys))"
  by (induction xs) (auto simp: option.map_comp comp_def map_option_case split: option.split)

lemma position_map_profile:
  "position (\<lambda>n. n = ProfileNode gi k) (map (ProfileNode gi) [0..<n]) = (if k < n then Some k else None)"
proof (induction n)
  case (Suc n)
  then show ?case by (auto simp: position_append)
qed simp

lemma pos_of_node_position:
  "pos_of_node c pos gi t gs = map_option ((+) pos) (position (\<lambda>n. n = t) (visible_from c gi gs))"
proof (induction gs arbitrary: pos gi)
  case (Cons g gs)
  let ?ps = "map (ProfileNode gi) [0..<length (gw_profiles g)]"
  have other: "position (\<lambda>n. n = t) ?ps = None" if "\<forall>k. t \<noteq> ProfileNode gi k"
    using that by (auto simp: position_None)
  have here: "position (\<lambda>n. n = t) (visible_from c (Suc gi) gs) = None" if "t = ProfileNode gi k" for k
    using that by (auto simp: position_None visible_from_profile)
  show ?case
  proof (cases t)
    case (GroupNode j)
    note IH = Cons.IH [unfolded GroupNode]
    show ?thesis using other unfolding GroupNode
      by (auto simp: Let_def IH position_append option.map_comp comp_def add.assoc)
  next
    case (ProfileNode j k)
    note IH = Cons.IH [unfolded ProfileNode]
    show ?thesis
    proof (cases "j = gi")
      case True
      note IH = IH [unfolded True]
      show ?thesis using here [of k] unfolding ProfileNode True
        by (auto simp: Let_def IH position_append position_map_profile)
    next
      case False
      then show ?thesis using other unfolding ProfileNode
        by (auto simp: Let_def IH position_append option.map_comp comp_def add.assoc)
    qed
  qed
qed simp

lemma pos_of_group_node: "pos_of_group c pos gi j gs = pos_of_node c pos gi (GroupNode j) gs"
  by (induction gs arbitrary: pos gi) (auto simp: Let_def)

lemma position_distinct:
  "distinct xs \<Longrightarrow> position (\<lambda>n. n = t) xs = Some i \<longleftrightarrow> get_at xs i = Some t"
proof (induction xs arbitrary: i)
  case (Cons x xs)
  then show ?case
    by (cases i) (auto simp: get_at_def)
qed (simp add: get_at_def)

lemma cursor_for_node_iff:
  "search_query app = None \<Longrightarrow> cursor_for_node app n = Some i \<longleftrightarrow> tree_node_at lc app i = Some n"
  by (simp add: cursor_for_node_def pos_of_node_position tree_node_at_visible visible_nodes_def
      position_distinct [OF distinct_visible_from] option.map_ident)

lemma cursor_for_group_node: "cursor_for_group app j = cursor_for_node app (GroupNode j)"
  by (simp add: cursor_for_group_def cursor_for_node_def pos_of_group_node)

lemma cursor_for_node_visible:
  assumes "search_query app = None" and "n \<in> set (visible_nodes lc app)"
  obtains i where "cursor_for_node app n = Some i" and "i < tree_len lc app"
proof -
  from assms(2) obtain i where "i < length (visible_nodes lc app)" "visible_nodes lc app ! i = n"
    by (auto simp: in_set_conv_nth)
  then show thesis
    using that cursor_for_node_iff [OF assms(1), of n i lc]
    by (auto simp: tree_node_at_visible get_at_def tree_len_visible)
qed

text \<open>C1: the tree under the cursor is the list of visible nodes: its length is the tree's length,
  position \<open>i\<close> shows its \<open>i\<close>-th node, there is a node exactly at the positions below
  the length, and without a search the position computed for a node is the one that shows it.\<close>

theorem tree_is_visible_list:
  "tree_len lc app = length (visible_nodes lc app)
   \<and> (\<forall>i. tree_node_at lc app i = get_at (visible_nodes lc app) i)
   \<and> (\<forall>i. tree_node_at lc app i = None \<longleftrightarrow> tree_len lc app \<le> i)
   \<and> (search_query app = None \<longrightarrow>
        (\<forall>n i. cursor_for_node app n = Some i \<longleftrightarrow> tree_node_at lc app i = Some n))"
  by (auto simp: tree_len_visible tree_node_at_visible get_at_def cursor_for_node_iff [of _ _ _ lc])

definition sample_app :: App where
  "sample_app = (app_new (logs_new id empty_fs)
     True False ''warn'' ''http-get'' ''tun0'' False default_test_config)
     \<lparr>groups :=
        [\<lparr>gw_group = default_group\<lparr>g_id := 1, g_name := ''a''\<rparr>,
          gw_profiles = [default_profile\<lparr>p_id := 1, p_group_id := 1\<rparr>,
                         default_profile\<lparr>p_id := 2, p_group_id := 1\<rparr>],
          gw_routing_profiles = []\<rparr>,
         \<lparr>gw_group = default_group\<lparr>g_id := 2, g_name := ''b''\<rparr>, gw_profiles = [],
          gw_routing_profiles = []\<rparr>]\<rparr>"

theorem tree_is_visible_list_witness:
  "tree_node_at id sample_app 2 = Some (ProfileNode 0 1) \<and> tree_node_at id sample_app 4 = None"
proof -
  have "tree_node_at id sample_app i = get_at (visible_nodes id sample_app) i" for i
    using tree_is_visible_list [of id sample_app] by blast
  then show ?thesis
    by (simp add: visible_nodes_def sample_app_def app_new_def default_group_def default_profile_def
        get_at_def numeral_2_eq_2 upt_rec)
qed

section \<open>Moving items\<close>

lemma tree_node_at_simps [simp]:
  "tree_node_at lc (app\<lparr>cursor := c\<rparr>) = tree_node_at lc app"
  "tree_node_at lc (app\<lparr>details_scroll := d\<rparr>) = tree_node_at lc app"
  "visible_nodes lc (app\<lparr>cursor := c\<rparr>) = visible_nodes lc app"
  "cursor_for_node (app\<lparr>cursor := c\<rparr>) = cursor_for_node app"
  "cursor_for_group (app\<lparr>cursor := c\<rparr>) = cursor_for_group app"
  by (simp_all add: tree_node_at_def visible_nodes_def cursor_for_node_def cursor_for_group_def
      fun_eq_iff split: option.split)

lemma set_cursor_node:
  assumes "search_query app = None" and "n \<in> set (visible_nodes lc app)"
  shows "tree_node_at lc (set_cursor (cursor_for_node app n) app)
           (cursor (set_cursor (cursor_for_node app n) app)) = Some n
    \<and> set_cursor (cursor_for_node app n) app
      = app\<lparr>cursor := cursor (set_cursor (cursor_for_node app n) app)\<rparr>"
proof -
  obtain i where "cursor_for_node app n = Some i"
    using cursor_for_node_visible [OF assms] by metis
  then show ?thesis
    using cursor_for_node_iff [OF assms(1)] by (simp add: set_cursor_def)
qed

lemma set_cursor_back:
  assumes "search_query app = None" and "tree_node_at lc app c = Some n"
  shows "set_cursor (cursor_for_node app n) app = app\<lparr>cursor := c\<rparr>"
  using assms cursor_for_node_iff [OF assms(1)] by (simp add: set_cursor_def)

lemma group_visible:
  "search_query app = None \<Longrightarrow> GroupNode j \<in> set (visible_nodes lc app) \<longleftrightarrow> j < length (groups app)"
  by (simp add: visible_nodes_def visible_from_group)

lemma profile_visible:
  "search_query app = None \<Longrightarrow> ProfileNode j k \<in> set (visible_nodes lc app) \<longleftrightarrow>
     j < length (groups app) \<and> gid (groups app ! j) \<notin> collapsed_groups app
     \<and> k < length (gw_profiles (groups app ! j))"
  by (simp add: visible_nodes_def visible_from_profile)

lemma tree_node_at_visible_set: "tree_node_at lc app c = Some n \<Longrightarrow> n \<in> set (visible_nodes lc app)"
  by (auto simp: tree_node_at_visible get_at_Some_iff)

lemma move_group_node:
  assumes "search_query app = None" and "gi < length (groups app)" and "gj < length (groups app)"
    and "move_group gi gj up app = (app', act)"
  shows "tree_node_at lc app' (cursor app') = Some (GroupNode gj)
    \<and> app' = app\<lparr>groups := swap_at gi gj (groups app), cursor := cursor app'\<rparr>"
proof -
  let ?a = "app\<lparr>groups := swap_at gi gj (groups app)\<rparr>"
  have "search_query ?a = None" "GroupNode gj \<in> set (visible_nodes lc ?a)"
    using assms(1,3) group_visible [of ?a] by simp_all
  from set_cursor_node [OF this] show ?thesis
    using assms(4) by (auto simp: move_group_def Let_def cursor_for_group_node)
qed

lemma move_group_back:
  assumes "search_query app = None" and "tree_node_at lc app (cursor app) = Some (GroupNode gi)"
    and "gi < length (groups app)" and "gj < length (groups app)"
    and "move_group gi gj up app = (app', act)"
  shows "\<exists>act'. move_group gj gi up' app' = (app, Some act')"
proof -
  have app': "app' = app\<lparr>groups := swap_at gi gj (groups app), cursor := cursor app'\<rparr>"
    using move_group_node [OF assms(1,3,4,5)] by blast
  have undo: "app'\<lparr>groups := swap_at gj gi (groups app')\<rparr> = app\<lparr>cursor := cursor app'\<rparr>"
    by (subst (1 2) app') (simp add: swap_at_invol assms(3,4))
  have "set_cursor (cursor_for_node (app\<lparr>cursor := cursor app'\<rparr>) (GroupNode gi)) (app\<lparr>cursor := cursor app'\<rparr>)
      = app"
    using set_cursor_back [of "app\<lparr>cursor := cursor app'\<rparr>" lc "cursor app" "GroupNode gi"] assms(1,2) by simp
  then show ?thesis
    by (simp only: move_group_def Let_def undo cursor_for_group_node) simp
qed

lemma move_profile_node:
  assumes "search_query app = None" and "ProfileNode gi pj \<in> set (visible_nodes lc app)"
    and "pk < length (gw_profiles (groups app ! gi))"
    and "move_profile gi pj pk up app = (app', act)"
  shows "tree_node_at lc app' (cursor app') = Some (ProfileNode gi pk)
    \<and> app' = app\<lparr>groups := (groups app)[gi := (groups app ! gi)
               \<lparr>gw_profiles := swap_at pj pk (gw_profiles (groups app ! gi))\<rparr>], cursor := cursor app'\<rparr>"
proof -
  let ?a = "app\<lparr>groups := (groups app)[gi := (groups app ! gi)
    \<lparr>gw_profiles := swap_at pj pk (gw_profiles (groups app ! gi))\<rparr>]\<rparr>"
  have "search_query ?a = None" "ProfileNode gi pk \<in> set (visible_nodes lc ?a)"
    using assms(1-3) profile_visible [of app] profile_visible [of ?a] by simp_all
  from set_cursor_node [OF this] show ?thesis
    using assms(4) by (auto simp: move_profile_def Let_def)
qed

lemma move_profile_back:
  assumes "search_query app = None" and "tree_node_at lc app (cursor app) = Some (ProfileNode gi pj)"
    and "pk < length (gw_profiles (groups app ! gi))"
    and "move_profile gi pj pk up app = (app', act)"
  shows "\<exists>act'. move_profile gi pk pj up' app' = (app, Some act')"
proof -
  note visible = tree_node_at_visible_set [OF assms(2)]
  have range: "gi < length (groups app)" "pj < length (gw_profiles (groups app ! gi))"
    using visible profile_visible [OF assms(1)] by auto
  have app': "app' = app\<lparr>groups := (groups app)[gi := (groups app ! gi)
      \<lparr>gw_profiles := swap_at pj pk (gw_profiles (groups app ! gi))\<rparr>], cursor := cursor app'\<rparr>"
    using move_profile_node [OF assms(1) visible assms(3,4)] by blast
  have g: "groups app' ! gi = (groups app ! gi)\<lparr>gw_profiles := swap_at pj pk (gw_profiles (groups app ! gi))\<rparr>"
    by (subst app') (simp add: range)
  have "(groups app' ! gi)\<lparr>gw_profiles := swap_at pk pj (gw_profiles (groups app' ! gi))\<rparr> = groups app ! gi"
    unfolding g by (simp add: swap_at_invol range assms(3))
  then have undo: "app'\<lparr>groups := (groups app')[gi := (groups app' ! gi)
      \<lparr>gw_profiles := swap_at pk pj (gw_profiles (groups app' ! gi))\<rparr>]\<rparr> = app\<lparr>cursor := cursor app'\<rparr>"
    by (simp only:) (subst (1 2) app', simp)
  have "set_cursor (cursor_for_node (app\<lparr>cursor := cursor app'\<rparr>) (ProfileNode gi pj)) (app\<lparr>cursor := cursor app'\<rparr>)
      = app"
    using set_cursor_back [of "app\<lparr>cursor := cursor app'\<rparr>" lc "cursor app" "ProfileNode gi pj"] assms(1,2)
    by simp
  then show ?thesis
    by (simp only: move_profile_def Let_def undo) simp
qed

text \<open>moving an item up and then down is the identity on the whole state, cursor included:
  the cursor follows the item, nothing is lost or duplicated.\<close>

theorem move_up_down:
  assumes "move_item_up lc app = (app', Some act)"
  shows "\<exists>act'. move_item_down lc app' = (app, Some act')"
proof -
  have search: "search_query app = None"
    using assms by (auto simp: move_item_up_def split: if_splits)
  then obtain n where n: "tree_node_at lc app (cursor app) = Some n"
    using assms by (auto simp: move_item_up_def split: option.splits)
  show ?thesis
  proof (cases n)
    case (GroupNode gi)
    have up: "move_group gi (gi - 1) True app = (app', Some act)" and "0 < gi"
      using assms search n GroupNode by (auto simp: move_item_up_def split: if_splits)
    have range: "gi < length (groups app)" "gi - 1 < length (groups app)"
      using tree_node_at_in_range [OF n] GroupNode by auto
    have app': "app' = app\<lparr>groups := swap_at gi (gi - 1) (groups app), cursor := cursor app'\<rparr>"
      and node: "tree_node_at lc app' (cursor app') = Some (GroupNode (gi - 1))"
      using move_group_node [OF search range up] by blast+
    have "search_query app' = None" "length (groups app') = length (groups app)"
      by (subst app', simp add: search)+
    then have "move_item_down lc app' = move_group (gi - 1) gi False app'"
      using node range \<open>0 < gi\<close> by (simp add: move_item_down_def)
    then show ?thesis
      using move_group_back [OF search n [unfolded GroupNode] range up] by metis
  next
    case (ProfileNode gi pj)
    have up: "move_profile gi pj (pj - 1) True app = (app', Some act)" and "0 < pj"
      using assms search n ProfileNode by (auto simp: move_item_up_def split: if_splits)
    have range: "gi < length (groups app)" "pj < length (gw_profiles (groups app ! gi))"
      "pj - 1 < length (gw_profiles (groups app ! gi))"
      using tree_node_at_in_range [OF n] ProfileNode by auto
    note visible = tree_node_at_visible_set [OF n [unfolded ProfileNode]]
    have app': "app' = app\<lparr>groups := (groups app)[gi := (groups app ! gi)
          \<lparr>gw_profiles := swap_at pj (pj - 1) (gw_profiles (groups app ! gi))\<rparr>], cursor := cursor app'\<rparr>"
      and node: "tree_node_at lc app' (cursor app') = Some (ProfileNode gi (pj - 1))"
      using move_profile_node [OF search visible range(3) up] by blast+
    have "search_query app' = None"
      "length (gw_profiles (groups app' ! gi)) = length (gw_profiles (groups app ! gi))"
      by (subst app', simp add: search range)+
    then have "move_item_down lc app' = move_profile gi (pj - 1) pj False app'"
      using node range \<open>0 < pj\<close> by (simp add: move_item_down_def)
    then show ?thesis
      using move_profile_back [OF search n [unfolded ProfileNode] range(3) up] by metis
  qed
qed

theorem move_up_down_witness:
  "\<exists>act'. move_item_down id (fst (move_item_up id (sample_app\<lparr>cursor := 3\<rparr>)))
     = (sample_app\<lparr>cursor := 3\<rparr>, Some act')"
proof (rule move_up_down)
  have "tree_node_at id (sample_app\<lparr>cursor := 3\<rparr>) 3 = Some (GroupNode 1)"
    by (simp add: tree_node_at_def sample_app_def app_new_def default_group_def)
  moreover have "search_query sample_app = None" by (simp add: sample_app_def app_new_def)
  ultimately show "move_item_up id (sample_app\<lparr>cursor := 3\<rparr>)
    = (fst (move_item_up id (sample_app\<lparr>cursor := 3\<rparr>)),
       Some (the (snd (move_item_up id (sample_app\<lparr>cursor := 3\<rparr>)))))"
    by (simp add: move_item_up_def move_group_def Let_def)
qed

section \<open>The cursor stays on the tree\<close>

datatype TreeOp =
    Down | Up | Top | Bottom | PageDown nat | PageUp nat
  | ToggleCollapse i32 | Collapse i32 | Expand i32 | MoveUp | MoveDown

fun tree_step :: "(string \<Rightarrow> string) \<Rightarrow> TreeOp \<Rightarrow> App \<Rightarrow> App" where
  "tree_step lc Down app = cursor_down lc app"
| "tree_step lc Up app = cursor_up app"
| "tree_step lc Top app = cursor_top app"
| "tree_step lc Bottom app = cursor_bottom lc app"
| "tree_step lc (PageDown n) app = cursor_page_down lc n app"
| "tree_step lc (PageUp n) app = cursor_page_up n app"
| "tree_step lc (ToggleCollapse g) app = toggle_group_collapsed lc g app"
| "tree_step lc (Collapse g) app = collapse_group lc g app"
| "tree_step lc (Expand g) app = expand_group lc g app"
| "tree_step lc MoveUp app = fst (move_item_up lc app)"
| "tree_step lc MoveDown app = fst (move_item_down lc app)"

lemma tree_ok_at: "tree_node_at lc app (cursor app) = Some n \<Longrightarrow> tree_ok lc app"
  by (auto simp: tree_ok_def cursor_ok_def tree_node_at_visible get_at_Some_iff tree_len_visible)

lemma tree_ok_move_group:
  "search_query app = None \<Longrightarrow> gi < length (groups app) \<Longrightarrow> gj < length (groups app) \<Longrightarrow>
   tree_ok lc (fst (move_group gi gj up app))"
  using move_group_node [of app gi gj up] tree_ok_at by (metis prod.collapse)

lemma tree_ok_move_profile:
  "search_query app = None \<Longrightarrow> tree_node_at lc app (cursor app) = Some (ProfileNode gi pj) \<Longrightarrow>
   pk < length (gw_profiles (groups app ! gi)) \<Longrightarrow> tree_ok lc (fst (move_profile gi pj pk up app))"
  using move_profile_node [of app gi pj lc pk up] tree_node_at_visible_set tree_ok_at
  by (metis prod.collapse)

lemma tree_ok_move_up: "tree_ok lc app \<Longrightarrow> tree_ok lc (fst (move_item_up lc app))"
proof (cases "tree_node_at lc app (cursor app)")
  case (Some n)
  assume "tree_ok lc app"
  then show ?thesis
    using Some tree_node_at_in_range [OF Some]
    by (cases n)
      (auto simp: move_item_up_def intro: tree_ok_move_group tree_ok_move_profile split: if_splits)
qed (simp add: move_item_up_def)

lemma tree_ok_move_down: "tree_ok lc app \<Longrightarrow> tree_ok lc (fst (move_item_down lc app))"
proof (cases "tree_node_at lc app (cursor app)")
  case (Some n)
  assume "tree_ok lc app"
  then show ?thesis
    using Some tree_node_at_in_range [OF Some]
    by (cases n)
      (auto simp: move_item_down_def intro: tree_ok_move_group tree_ok_move_profile split: if_splits)
qed (simp add: move_item_down_def)

lemma tree_step_ok: "tree_ok lc app \<Longrightarrow> tree_ok lc (tree_step lc op app)"
proof (cases op)
  case Up
  moreover assume "tree_ok lc app"
  ultimately show ?thesis
    by (auto simp: cursor_up_def tree_ok_def cursor_ok_def)
next
  case (PageUp n)
  moreover assume "tree_ok lc app"
  ultimately show ?thesis
    by (auto simp: cursor_page_up_def tree_ok_def cursor_ok_def)
qed (auto simp: cursor_down_def cursor_top_def cursor_bottom_def cursor_page_down_def
    toggle_group_collapsed_def collapse_group_def expand_group_def Let_def tree_ok_move_up tree_ok_move_down
    split: if_splits, auto simp: tree_ok_def cursor_ok_def)

text \<open>Whatever sequence of cursor movements, collapses and reorderings the user performs, the
  cursor stays on a visible node (or at 0 in an empty tree).\<close>

theorem tree_run_ok:
  assumes "tree_ok lc app"
  shows "tree_ok lc (fold (tree_step lc) ops app)"
  using assms by (induction ops arbitrary: app) (simp_all add: tree_step_ok)

theorem tree_run_ok_witness:
  "tree_ok id (fold (tree_step id) [Down, Down, Down, MoveUp, Collapse 1, PageDown 9] sample_app)"
  by (rule tree_run_ok) (simp add: tree_ok_def cursor_ok_def sample_app_def app_new_def tree_len_def)

text \<open>a reordering request sent to the core carries the new order and names exactly the items
  that were there, in the group the cursor is in.\<close>

theorem move_request:
  assumes "move_item_up lc app = (app', Some act) \<or> move_item_down lc app = (app', Some act)"
  shows "case act of
      ReorderGroups ids _ _ \<Rightarrow> ids = map gid (groups app') \<and> mset (groups app') = mset (groups app)
    | ReorderProfiles g ids _ _ \<Rightarrow>
        \<exists>gi < length (groups app). g = gid (groups app ! gi) \<and> ids = map p_id (gw_profiles (groups app' ! gi))
          \<and> mset (gw_profiles (groups app' ! gi)) = mset (gw_profiles (groups app ! gi))"
proof -
  have search: "search_query app = None" using assms
    by (auto simp: move_item_up_def move_item_down_def split: if_splits)
  obtain n where n: "tree_node_at lc app (cursor app) = Some n" using assms
    by (auto simp: move_item_up_def move_item_down_def split: option.splits if_splits)
  have groups_set: "groups (set_cursor c a) = groups a" for c a
    by (simp add: set_cursor_def split: option.split)
  show ?thesis
  proof (cases n)
    case (GroupNode gi)
    then obtain gj up where "move_group gi gj up app = (app', Some act)" "gj < length (groups app)"
      using assms search n tree_node_at_in_range [OF n]
      by (auto simp: move_item_up_def move_item_down_def split: if_splits)
    moreover have "gi < length (groups app)" using tree_node_at_in_range [OF n] GroupNode by auto
    ultimately show ?thesis
      by (auto simp: move_group_def Let_def groups_set mset_swap_at)
  next
    case (ProfileNode gi pj)
    have range: "gi < length (groups app)" "pj < length (gw_profiles (groups app ! gi))"
      using tree_node_at_in_range [OF n] ProfileNode by auto
    obtain pk up where "move_profile gi pj pk up app = (app', Some act)"
      "pk < length (gw_profiles (groups app ! gi))"
      using assms search n ProfileNode range(2)
      by (auto simp: move_item_up_def move_item_down_def split: if_splits)
    then show ?thesis using range
      by (auto simp: move_profile_def Let_def groups_set mset_swap_at intro!: exI [of _ gi])
  qed
qed

theorem move_request_witness:
  "\<exists>act. move_item_up id (sample_app\<lparr>cursor := 3\<rparr>)
      = (fst (move_item_up id (sample_app\<lparr>cursor := 3\<rparr>)), Some act)
    \<and> (case act of
      ReorderGroups ids _ _ \<Rightarrow> ids = map gid (groups (fst (move_item_up id (sample_app\<lparr>cursor := 3\<rparr>))))
        \<and> mset (groups (fst (move_item_up id (sample_app\<lparr>cursor := 3\<rparr>)))) = mset (groups (sample_app\<lparr>cursor := 3\<rparr>))
    | ReorderProfiles g ids _ _ \<Rightarrow>
        \<exists>gi < length (groups (sample_app\<lparr>cursor := 3\<rparr>)). g = gid (groups (sample_app\<lparr>cursor := 3\<rparr>) ! gi)
          \<and> ids = map p_id (gw_profiles (groups (fst (move_item_up id (sample_app\<lparr>cursor := 3\<rparr>))) ! gi))
          \<and> mset (gw_profiles (groups (fst (move_item_up id (sample_app\<lparr>cursor := 3\<rparr>))) ! gi))
            = mset (gw_profiles (groups (sample_app\<lparr>cursor := 3\<rparr>) ! gi)))"
proof -
  have "tree_node_at id (sample_app\<lparr>cursor := 3\<rparr>) 3 = Some (GroupNode 1)"
    by (simp add: tree_node_at_def sample_app_def app_new_def default_group_def)
  moreover have "search_query sample_app = None" by (simp add: sample_app_def app_new_def)
  ultimately obtain act where act: "move_item_up id (sample_app\<lparr>cursor := 3\<rparr>)
    = (fst (move_item_up id (sample_app\<lparr>cursor := 3\<rparr>)), Some act)"
    by (simp add: move_item_up_def move_group_def Let_def)
  then show ?thesis using move_request [OF disjI1 [OF act]] by blast
qed

end
