(* ===== verification/AppEvents.thy ===== *)
theory AppEvents
  imports AppTree
begin

text \<open>
  \<open>src/ui/app/state/events.rs\<close>: what the core reports is written into the state.  Labels that
  come from a provider pass \<open>clean_label\<close>.  Where the source drains a \<open>HashMap\<close>, the
  order in which the rest comes out is the parameter \<open>ord\<close>, of which only that it loses and
  invents nothing is used.
\<close>

section \<open>Cleaning\<close>

definition clean_group :: "Group \<Rightarrow> Group" where
  "clean_group g = g\<lparr>g_name := clean_label (g_name g)\<rparr>"

definition clean_profile :: "Profile \<Rightarrow> Profile" where
  "clean_profile p = p\<lparr>p_name := clean_label (p_name p), p_address := clean_label (p_address p),
     p_host := clean_label (p_host p)\<rparr>"

definition clean_routing_profile :: "RoutingProfileInfo \<Rightarrow> RoutingProfileInfo" where
  "clean_routing_profile r = r\<lparr>rp_name := clean_label (rp_name r),
     rp_last_error := clean_label (rp_last_error r), rp_remote_dns := clean_label (rp_remote_dns r),
     rp_domestic_dns := clean_label (rp_domestic_dns r)\<rparr>"

definition clean_tree_group :: "GroupWithProfiles \<Rightarrow> GroupWithProfiles" where
  "clean_tree_group g = \<lparr>gw_group = clean_group (gw_group g),
     gw_profiles = map clean_profile (gw_profiles g),
     gw_routing_profiles = map clean_routing_profile (gw_routing_profiles g)\<rparr>"

section \<open>Events\<close>

definition apply_state :: "(string \<Rightarrow> string) \<Rightarrow> ApplicationState \<Rightarrow> App \<Rightarrow> App" where
  "apply_state lc s app =
     clamp_cursor lc
      (app\<lparr>groups := map clean_tree_group (as_groups s),
           connection_status := (as_connection_status s)
             \<lparr>ps_profile := map_option clean_profile (ps_profile (as_connection_status s))\<rparr>,
           tun_enabled := as_tun_status s,
           kill_switch_enabled := as_kill_switch s,
           kill_switch_armed := as_kill_switch_armed s,
           split_tunnel := (if as_split_tunnel s = [] then ''off'' else as_split_tunnel s),
           autoconnect_enabled := ac_enabled (as_autoconnect s),
           autostart_mode := ac_mode (as_autoconnect s),
           hwid_info := as_hwid_info s,
           xray_status := as_xray_status s,
           core_version := (if as_core_version s \<noteq> [] then as_core_version s else core_version app),
           core_protocol_version :=
             (if as_protocol_version s \<noteq> 0 then as_protocol_version s else core_protocol_version app),
           tun_name := (if as_tun_name s \<noteq> [] then as_tun_name s else tun_name app),
           test_config := (if tc_test_endpoint (as_test_config s) \<noteq> [] then as_test_config s
                           else test_config app)\<rparr>)"

definition invalidate_uri_cache :: "App \<Rightarrow> App" where
  "invalidate_uri_cache app = app\<lparr>uri_cache := None\<rparr>"

abbreviation update_group ::
  "i32 \<Rightarrow> (GroupWithProfiles \<Rightarrow> GroupWithProfiles) \<Rightarrow> App \<Rightarrow> App" where
  "update_group i f app \<equiv> app\<lparr>groups := update_first (\<lambda>g. gid g = i) f (groups app)\<rparr>"

definition push_profile :: "Profile \<Rightarrow> GroupWithProfiles \<Rightarrow> GroupWithProfiles" where
  "push_profile p g = g\<lparr>gw_profiles := gw_profiles g @ [p]\<rparr>"

definition drop_profile :: "i32 \<Rightarrow> GroupWithProfiles \<Rightarrow> GroupWithProfiles" where
  "drop_profile i g = g\<lparr>gw_profiles := filter (\<lambda>p. p_id p \<noteq> i) (gw_profiles g)\<rparr>"

definition apply_profiles_added :: "Profile list \<Rightarrow> App \<Rightarrow> App" where
  "apply_profiles_added ps app =
     fold (\<lambda>p. update_group (p_group_id p) (push_profile (clean_profile p))) ps
       (invalidate_uri_cache app)"

definition apply_profiles_deleted :: "(string \<Rightarrow> string) \<Rightarrow> ProfileID list \<Rightarrow> App \<Rightarrow> App" where
  "apply_profiles_deleted lc deleted app =
     clamp_cursor lc
       (fold (\<lambda>d. update_group (pid_group_id d) (drop_profile (pid_id d))) deleted
         (invalidate_uri_cache app))"

definition apply_subscription_updated ::
  "(string \<Rightarrow> string) \<Rightarrow> Group \<Rightarrow> Profile list \<Rightarrow> RoutingProfileInfo list \<Rightarrow> App \<Rightarrow> App" where
  "apply_subscription_updated lc g ps rs app =
     clamp_cursor lc
       (update_group (g_id g)
         (\<lambda>_. \<lparr>gw_group = clean_group g, gw_profiles = map clean_profile ps,
               gw_routing_profiles = map clean_routing_profile rs\<rparr>)
         (invalidate_uri_cache app))"

definition replace_profile :: "Profile \<Rightarrow> GroupWithProfiles \<Rightarrow> GroupWithProfiles" where
  "replace_profile p g =
     g\<lparr>gw_profiles := update_first (\<lambda>q. p_id q = p_id p) (\<lambda>_. p) (gw_profiles g)\<rparr>"

definition apply_profile_updated :: "Profile \<Rightarrow> App \<Rightarrow> App" where
  "apply_profile_updated p app =
     update_group (p_group_id p) (replace_profile (clean_profile p)) (invalidate_uri_cache app)"

definition mark_pending :: "i32 \<Rightarrow> i32 \<Rightarrow> App \<Rightarrow> App" where
  "mark_pending g p app =
     update_group g
       (\<lambda>gw. gw\<lparr>gw_profiles :=
          update_first (\<lambda>q. p_id q = p) (\<lambda>q. q\<lparr>p_test_result := - 2\<rparr>) (gw_profiles gw)\<rparr>) app"

definition apply_group_added :: "Group \<Rightarrow> App \<Rightarrow> App" where
  "apply_group_added g app =
     app\<lparr>groups := groups app @
       [\<lparr>gw_group = clean_group g, gw_profiles = [], gw_routing_profiles = []\<rparr>]\<rparr>"

definition apply_group_deleted :: "(string \<Rightarrow> string) \<Rightarrow> i32 \<Rightarrow> App \<Rightarrow> App" where
  "apply_group_deleted lc i app =
     (let gs = filter (\<lambda>g. gid g \<noteq> i) (groups app)
      in clamp_cursor lc
        (app\<lparr>groups := gs,
             collapsed_groups := collapsed_groups app - {i},
             group_routing := (group_routing app)(i := None),
             routing_group_index := (if length gs < routing_group_index app then length gs
                                     else routing_group_index app),
             routing_cursor := 0\<rparr>))"

definition apply_group_updated :: "Group \<Rightarrow> App \<Rightarrow> App" where
  "apply_group_updated g app = update_group (g_id g) (\<lambda>gw. gw\<lparr>gw_group := clean_group g\<rparr>) app"

section \<open>Reordering through a hash map\<close>

text \<open>The map built by inserting the elements in order: the last one of each key stays.\<close>

fun last_by :: "('a \<Rightarrow> i32) \<Rightarrow> 'a list \<Rightarrow> 'a list" where
  "last_by key [] = []"
| "last_by key (x # xs) = (if key x \<in> key ` set xs then last_by key xs else x # last_by key xs)"

text \<open>Removing the requested keys one after the other.\<close>

fun pick :: "('a \<Rightarrow> i32) \<Rightarrow> i32 list \<Rightarrow> 'a list \<Rightarrow> 'a list \<times> 'a list" where
  "pick key [] rest = ([], rest)"
| "pick key (i # ids) rest =
     (case find (\<lambda>x. key x = i) rest of
        Some x \<Rightarrow> (let (ps, r) = pick key ids (filter (\<lambda>y. key y \<noteq> i) rest) in (x # ps, r))
      | None \<Rightarrow> pick key ids rest)"

definition reorder_by ::
  "('a list \<Rightarrow> 'a list) \<Rightarrow> ('a \<Rightarrow> i32) \<Rightarrow> i32 list \<Rightarrow> 'a list \<Rightarrow> 'a list" where
  "reorder_by ord key ids xs = (let (ps, r) = pick key ids (last_by key xs) in ps @ ord r)"

definition apply_profiles_reordered ::
  "(string \<Rightarrow> string) \<Rightarrow> (Profile list \<Rightarrow> Profile list) \<Rightarrow> i32 \<Rightarrow> i32 list \<Rightarrow> App \<Rightarrow> App" where
  "apply_profiles_reordered lc ord g ids app =
     clamp_cursor lc
       (update_group g (\<lambda>gw. gw\<lparr>gw_profiles := reorder_by ord p_id ids (gw_profiles gw)\<rparr>)
         (invalidate_uri_cache app))"

definition apply_groups_reordered ::
  "(string \<Rightarrow> string) \<Rightarrow> (GroupWithProfiles list \<Rightarrow> GroupWithProfiles list) \<Rightarrow> i32 list \<Rightarrow> App \<Rightarrow> App" where
  "apply_groups_reordered lc ord ids app =
     clamp_cursor lc (app\<lparr>groups := reorder_by ord gid ids (groups app)\<rparr>)"

definition apply_profile_moved ::
  "(string \<Rightarrow> string) \<Rightarrow> ProfileID \<Rightarrow> Profile \<Rightarrow> App \<Rightarrow> App" where
  "apply_profile_moved lc old new_p app =
     (let app = update_group (pid_group_id old) (drop_profile (pid_id old)) (invalidate_uri_cache app);
          app = update_group (p_group_id new_p) (push_profile new_p) app;
          st = connection_status app;
          app = (case ps_profile st of
              Some cur_p \<Rightarrow>
                if p_group_id cur_p = pid_group_id old \<and> p_id cur_p = pid_id old
                then app\<lparr>connection_status := st\<lparr>ps_profile := Some new_p\<rparr>\<rparr> else app
            | None \<Rightarrow> app)
      in clamp_cursor lc app)"

section \<open>Profile details\<close>

text \<open>\<open>src/ui/app/state/details.rs\<close>.\<close>

definition details_scroll_down :: "nat \<Rightarrow> nat \<Rightarrow> App \<Rightarrow> App" where
  "details_scroll_down lines visible app =
     (if visible < lines then app\<lparr>details_scroll := min (details_scroll app + 1) (lines - visible)\<rparr>
      else app)"

definition details_scroll_up :: "App \<Rightarrow> App" where
  "details_scroll_up app = app\<lparr>details_scroll := details_scroll app - 1\<rparr>"

definition details_scroll_top :: "App \<Rightarrow> App" where
  "details_scroll_top app = app\<lparr>details_scroll := 0\<rparr>"

definition details_scroll_bottom :: "nat \<Rightarrow> nat \<Rightarrow> App \<Rightarrow> App" where
  "details_scroll_bottom lines visible app =
     (if visible < lines then app\<lparr>details_scroll := lines - visible\<rparr> else app)"

definition details_visible :: "App \<Rightarrow> nat" where
  "details_visible app =
     (let area = (if lg_profiles_mode (layout app) = SinglePanel then lg_tree_area (layout app)
                  else lg_details_area (layout app))
      in rheight area - 2)"

definition profile_details_request :: "(string \<Rightarrow> string) \<Rightarrow> App \<Rightarrow> (i32 \<times> i32) option" where
  "profile_details_request lc app =
     do { p \<leftarrow> selected_profile lc app;
          let key = (p_group_id p, p_id p);
          (if \<not> p_managed p then None
           else if profile_details app key \<noteq> None \<or> key \<in> profile_details_pending app then None
           else Some key) }"

definition mark_profile_details_pending :: "i32 \<times> i32 \<Rightarrow> App \<Rightarrow> App" where
  "mark_profile_details_pending key app =
     app\<lparr>profile_details_pending := insert key (profile_details_pending app)\<rparr>"

definition apply_profile_details :: "ProfileDetails \<Rightarrow> App \<Rightarrow> App" where
  "apply_profile_details d app =
     (let key = (pd_group_id d, pd_id d)
      in app\<lparr>profile_details_pending := profile_details_pending app - {key},
             profile_details := (profile_details app)(key \<mapsto> d)\<rparr>)"

definition clear_profile_details :: "App \<Rightarrow> App" where
  "clear_profile_details app =
     app\<lparr>profile_details := Map.empty, profile_details_pending := {}\<rparr>"

definition profile_details_for :: "App \<Rightarrow> Profile \<Rightarrow> ProfileDetails option" where
  "profile_details_for app p = profile_details app (p_group_id p, p_id p)"

text \<open>The parsed link shown, and the state with the cache filled.\<close>

definition cached_uri_params :: "(string \<Rightarrow> ParsedUri) \<Rightarrow> Profile \<Rightarrow> App \<Rightarrow> ParsedUri \<times> App" where
  "cached_uri_params parse_link p app =
     (let fresh = parse_link (p_uri p);
          miss = (fresh, app\<lparr>uri_cache := Some (p_group_id p, p_id p, fresh)\<rparr>)
      in case uri_cache app of
           Some (g, i, params) \<Rightarrow> if g = p_group_id p \<and> i = p_id p then (params, app) else miss
         | None \<Rightarrow> miss)"

section \<open>Reordering loses nothing\<close>

lemma find_remove_mset:
  "distinct (map key xs) \<Longrightarrow> find (\<lambda>x. key x = i) xs = Some x \<Longrightarrow>
   mset xs = add_mset x (mset (filter (\<lambda>y. key y \<noteq> i) xs))"
proof (induction xs)
  case (Cons y ys)
  then show ?case
  proof (cases "key y = i")
    case True
    then have "\<forall>z \<in> set ys. key z \<noteq> i" using Cons.prems(1) by (force simp: image_iff)
    then have "filter (\<lambda>z. key z \<noteq> i) ys = ys" by (simp add: filter_id_conv)
    then show ?thesis using True Cons.prems(2) by simp
  next
    case False
    then show ?thesis using Cons by auto
  qed
qed simp

lemma distinct_map_filter_key: "distinct (map key xs) \<Longrightarrow> distinct (map key (filter P xs))"
  by (simp add: distinct_map_filter)

lemma pick_mset:
  "distinct (map key rest) \<Longrightarrow> pick key ids rest = (ps, r) \<Longrightarrow> mset ps + mset r = mset rest"
proof (induction ids arbitrary: rest ps)
  case (Cons i ids)
  show ?case
  proof (cases "find (\<lambda>x. key x = i) rest")
    case (Some x)
    then obtain qs where qs: "pick key ids (filter (\<lambda>y. key y \<noteq> i) rest) = (qs, r)" "ps = x # qs"
      using Cons.prems(2) by (auto split: prod.splits)
    have "mset ps + mset r = add_mset x (mset qs + mset r)" by (simp add: qs(2))
    also have "\<dots> = add_mset x (mset (filter (\<lambda>y. key y \<noteq> i) rest))"
      by (simp only: Cons.IH [OF distinct_map_filter_key [OF Cons.prems(1)] qs(1)])
    also have "\<dots> = mset rest" by (rule find_remove_mset [OF Cons.prems(1) Some, symmetric])
    finally show ?thesis .
  qed (use Cons in simp)
qed simp

lemma last_by_distinct: "distinct (map key xs) \<Longrightarrow> last_by key xs = xs"
  by (induction xs) auto

lemma pick_keys:
  "distinct ids \<Longrightarrow> map key (fst (pick key ids rest)) = filter (\<lambda>i. i \<in> key ` set rest) ids"
proof (induction ids arbitrary: rest)
  case (Cons i ids)
  show ?case
  proof (cases "find (\<lambda>x. key x = i) rest")
    case None
    then have "i \<notin> key ` set rest" by (auto simp: find_None_iff)
    then show ?thesis using None Cons by simp
  next
    case (Some x)
    then have x: "key x = i" "i \<in> key ` set rest" by (auto simp: find_Some_iff)
    have "filter (\<lambda>j. j \<in> key ` {y \<in> set rest. key y \<noteq> i}) ids = filter (\<lambda>j. j \<in> key ` set rest) ids"
      using Cons.prems by (intro filter_cong) auto
    then show ?thesis
      using Some x Cons.IH [of "filter (\<lambda>y. key y \<noteq> i) rest"] Cons.prems
      by (simp add: case_prod_beta)
  qed
qed simp

lemma reorder_by_mset:
  assumes "distinct (map key xs)" and "\<And>ys. mset (ord ys) = mset ys"
  shows "mset (reorder_by ord key ids xs) = mset xs"
  using pick_mset [of key "last_by key xs" ids] assms
  by (cases "pick key ids (last_by key xs)") (simp add: reorder_by_def last_by_distinct)

text \<open>When the core reports a new order of a group's profiles (ids it knows once each), the group
  keeps exactly its profiles whatever order the hash map yields, and the ids listed that exist
  come first, in the order listed.\<close>

theorem reorder_correct:
  assumes "distinct (map key xs)" and "distinct ids" and "\<And>ys. mset (ord ys) = mset ys"
  shows "mset (reorder_by ord key ids xs) = mset xs
    \<and> take (length (filter (\<lambda>i. i \<in> key ` set xs) ids)) (map key (reorder_by ord key ids xs))
      = filter (\<lambda>i. i \<in> key ` set xs) ids"
proof -
  obtain ps r where pick: "pick key ids xs = (ps, r)" by (cases "pick key ids xs")
  have ids: "filter (\<lambda>i. i \<in> key ` set xs) ids = map key ps"
    using pick_keys [OF assms(2), of key xs] pick by simp
  have "reorder_by ord key ids xs = ps @ ord r"
    by (simp add: reorder_by_def last_by_distinct [OF assms(1)] pick)
  then have "take (length (map key ps)) (map key (reorder_by ord key ids xs)) = map key ps" by simp
  moreover have "mset (reorder_by ord key ids xs) = mset xs"
    by (rule reorder_by_mset [OF assms(1,3)])
  ultimately show ?thesis unfolding ids by blast
qed

theorem reorder_correct_witness:
  "mset (reorder_by rev id [3, 7, 1] [1, 2, 3 :: i32]) = mset [1, 2, 3]
    \<and> take (length (filter (\<lambda>i. i \<in> id ` set [1, 2, 3 :: i32]) [3, 7, 1]))
        (map id (reorder_by rev id [3, 7, 1] [1, 2, 3 :: i32]))
      = filter (\<lambda>i. i \<in> id ` set [1, 2, 3 :: i32]) [3, 7, 1]"
  by (rule reorder_correct) simp_all

section \<open>Labels\<close>

definition safe_profile :: "Profile \<Rightarrow> bool" where
  "safe_profile p \<longleftrightarrow> safe_label (p_name p) \<and> safe_label (p_address p) \<and> safe_label (p_host p)"

definition safe_routing_profile :: "RoutingProfileInfo \<Rightarrow> bool" where
  "safe_routing_profile r \<longleftrightarrow> safe_label (rp_name r) \<and> safe_label (rp_last_error r)
     \<and> safe_label (rp_remote_dns r) \<and> safe_label (rp_domestic_dns r)"

definition safe_group :: "GroupWithProfiles \<Rightarrow> bool" where
  "safe_group g \<longleftrightarrow> safe_label (g_name (gw_group g)) \<and> list_all safe_profile (gw_profiles g)
     \<and> list_all safe_routing_profile (gw_routing_profiles g)"

definition labels_safe :: "App \<Rightarrow> bool" where
  "labels_safe app \<longleftrightarrow> list_all safe_group (groups app)
     \<and> (case ps_profile (connection_status app) of Some p \<Rightarrow> safe_profile p | None \<Rightarrow> True)
     \<and> (case last_msg app of Some m \<Rightarrow> safe_label m | None \<Rightarrow> True)"

text \<open>Texts that came through the JSON parser are valid UTF-8.\<close>

definition utf8_profile :: "Profile \<Rightarrow> bool" where
  "utf8_profile p \<longleftrightarrow> str_ok (p_name p) \<and> str_ok (p_address p) \<and> str_ok (p_host p)"

definition utf8_routing_profile :: "RoutingProfileInfo \<Rightarrow> bool" where
  "utf8_routing_profile r \<longleftrightarrow> str_ok (rp_name r) \<and> str_ok (rp_last_error r)
     \<and> str_ok (rp_remote_dns r) \<and> str_ok (rp_domestic_dns r)"

definition utf8_tree_group :: "GroupWithProfiles \<Rightarrow> bool" where
  "utf8_tree_group g \<longleftrightarrow> str_ok (g_name (gw_group g)) \<and> list_all utf8_profile (gw_profiles g)
     \<and> list_all utf8_routing_profile (gw_routing_profiles g)"

lemma safe_clean_profile [simp]: "utf8_profile p \<Longrightarrow> safe_profile (clean_profile p)"
  by (simp add: utf8_profile_def safe_profile_def clean_profile_def)

lemma safe_clean_routing_profile [simp]:
  "utf8_routing_profile r \<Longrightarrow> safe_routing_profile (clean_routing_profile r)"
  by (simp add: utf8_routing_profile_def safe_routing_profile_def clean_routing_profile_def)

lemma safe_clean_tree_group [simp]: "utf8_tree_group g \<Longrightarrow> safe_group (clean_tree_group g)"
  by (auto simp: utf8_tree_group_def safe_group_def clean_tree_group_def clean_group_def list_all_iff)

lemma labels_safe_clamp [simp]: "labels_safe (clamp_cursor lc app) = labels_safe app"
  by (simp add: labels_safe_def clamp_cursor_eq)

lemma labels_safe_uri [simp]: "labels_safe (invalidate_uri_cache app) = labels_safe app"
  by (simp add: labels_safe_def invalidate_uri_cache_def)

lemma labels_safe_details [simp]: "labels_safe (clear_profile_details app) = labels_safe app"
  by (simp add: labels_safe_def clear_profile_details_def)

lemma labels_safe_msg [simp]: "str_ok m \<Longrightarrow> labels_safe app \<Longrightarrow> labels_safe (set_msg m app)"
  by (simp add: labels_safe_def set_msg_def)

lemma labels_safe_clear [simp]: "labels_safe app \<Longrightarrow> labels_safe (clear_msg app)"
  by (simp add: labels_safe_def clear_msg_def)

lemma labels_safe_update_group:
  "labels_safe app \<Longrightarrow> (\<And>g. safe_group g \<Longrightarrow> safe_group (f g)) \<Longrightarrow> labels_safe (update_group i f app)"
  by (auto simp: labels_safe_def intro: list_all_update_first)

lemma safe_push: "safe_profile p \<Longrightarrow> safe_group g \<Longrightarrow> safe_group (push_profile p g)"
  by (simp add: safe_group_def push_profile_def)

lemma safe_drop: "safe_group g \<Longrightarrow> safe_group (drop_profile i g)"
  by (auto simp: safe_group_def drop_profile_def list_all_iff)

lemma safe_replace: "safe_profile p \<Longrightarrow> safe_group g \<Longrightarrow> safe_group (replace_profile p g)"
  by (auto simp: safe_group_def replace_profile_def intro: list_all_update_first)

lemma labels_safe_added:
  "labels_safe app \<Longrightarrow> list_all utf8_profile ps \<Longrightarrow> labels_safe (apply_profiles_added ps app)"
proof -
  have "labels_safe a \<Longrightarrow> list_all utf8_profile ps \<Longrightarrow>
    labels_safe (fold (\<lambda>p. update_group (p_group_id p) (push_profile (clean_profile p))) ps a)" for a
  proof (induction ps arbitrary: a)
    case (Cons p ps)
    have "labels_safe (update_group (p_group_id p) (push_profile (clean_profile p)) a)"
      by (rule labels_safe_update_group [OF Cons.prems(1)]) (use Cons.prems(2) in \<open>simp add: safe_push\<close>)
    then show ?case using Cons by simp
  qed simp
  then show "labels_safe app \<Longrightarrow> list_all utf8_profile ps \<Longrightarrow> labels_safe (apply_profiles_added ps app)"
    by (simp add: apply_profiles_added_def)
qed

lemma labels_safe_deleted: "labels_safe app \<Longrightarrow> labels_safe (apply_profiles_deleted lc ds app)"
proof -
  have "labels_safe a \<Longrightarrow>
    labels_safe (fold (\<lambda>d. update_group (pid_group_id d) (drop_profile (pid_id d))) ds a)" for a
  proof (induction ds arbitrary: a)
    case (Cons d ds)
    have "labels_safe (update_group (pid_group_id d) (drop_profile (pid_id d)) a)"
      by (rule labels_safe_update_group [OF Cons.prems]) (rule safe_drop)
    then show ?case using Cons by simp
  qed simp
  then show "labels_safe app \<Longrightarrow> labels_safe (apply_profiles_deleted lc ds app)"
    by (simp add: apply_profiles_deleted_def)
qed

lemma labels_safe_subscription:
  "labels_safe app \<Longrightarrow> str_ok (g_name g) \<Longrightarrow> list_all utf8_profile ps \<Longrightarrow> list_all utf8_routing_profile rs
   \<Longrightarrow> labels_safe (apply_subscription_updated lc g ps rs app)"
  unfolding apply_subscription_updated_def labels_safe_clamp
  by (rule labels_safe_update_group) (auto simp: safe_group_def clean_group_def list_all_iff)

lemma labels_safe_updated:
  "labels_safe app \<Longrightarrow> utf8_profile p \<Longrightarrow> labels_safe (apply_profile_updated p app)"
  unfolding apply_profile_updated_def
  by (rule labels_safe_update_group) (simp_all add: safe_replace)

lemma labels_safe_group_added:
  "labels_safe app \<Longrightarrow> str_ok (g_name g) \<Longrightarrow> labels_safe (apply_group_added g app)"
  by (simp add: labels_safe_def apply_group_added_def safe_group_def clean_group_def)

lemma labels_safe_group_deleted: "labels_safe app \<Longrightarrow> labels_safe (apply_group_deleted lc i app)"
  unfolding apply_group_deleted_def Let_def labels_safe_clamp
  by (simp add: labels_safe_def list_all_iff)

lemma labels_safe_group_updated:
  "labels_safe app \<Longrightarrow> str_ok (g_name g) \<Longrightarrow> labels_safe (apply_group_updated g app)"
  unfolding apply_group_updated_def
  by (rule labels_safe_update_group) (simp_all add: safe_group_def clean_group_def)

lemma set_pick: "set (fst (pick key ids xs)) \<union> set (snd (pick key ids xs)) \<subseteq> set xs"
proof (induction ids arbitrary: xs)
  case (Cons i ids)
  show ?case
  proof (cases "find (\<lambda>x. key x = i) xs")
    case (Some x)
    then have "x \<in> set xs" by (auto dest: find_Some_set)
    then show ?thesis using Some Cons.IH [of "filter (\<lambda>y. key y \<noteq> i) xs"]
      by (auto simp: case_prod_beta)
  qed (use Cons in simp)
qed simp

lemma set_last_by: "set (last_by key xs) \<subseteq> set xs"
  by (induction xs) auto

lemma set_reorder_by:
  assumes "\<And>ys. mset (ord ys) = mset ys"
  shows "set (reorder_by ord key ids xs) \<subseteq> set xs"
proof -
  have "set (ord ys) = set ys" for ys using assms by (metis set_mset_mset)
  then show ?thesis
    using set_pick [of key ids "last_by key xs"] set_last_by [of key xs]
    by (auto simp: reorder_by_def case_prod_beta)
qed

lemma list_all_subset: "list_all P ys \<Longrightarrow> set xs \<subseteq> set ys \<Longrightarrow> list_all P xs"
  by (auto simp: list_all_iff)

lemma labels_safe_profiles_reordered:
  assumes "labels_safe app" and "\<And>ys. mset (ord ys) = mset ys"
  shows "labels_safe (apply_profiles_reordered lc ord g ids app)"
  unfolding apply_profiles_reordered_def labels_safe_clamp
  by (rule labels_safe_update_group)
    (auto simp: safe_group_def assms(1) intro: list_all_subset [OF _ set_reorder_by [OF assms(2)]])

lemma labels_safe_groups_reordered:
  assumes "labels_safe app" and "\<And>ys. mset (ord ys) = mset ys"
  shows "labels_safe (apply_groups_reordered lc ord ids app)"
  unfolding apply_groups_reordered_def labels_safe_clamp
  using assms(1) set_reorder_by [OF assms(2), of gid ids "groups app"]
  by (auto simp: labels_safe_def intro: list_all_subset)

text \<open>After a full synchronisation every label shown is safe, whatever was there before.\<close>

definition utf8_state :: "ApplicationState \<Rightarrow> bool" where
  "utf8_state s \<longleftrightarrow> list_all utf8_tree_group (as_groups s)
     \<and> (case ps_profile (as_connection_status s) of Some p \<Rightarrow> utf8_profile p | None \<Rightarrow> True)"

lemma labels_safe_state:
  "utf8_state s \<Longrightarrow> (case last_msg app of Some m \<Rightarrow> safe_label m | None \<Rightarrow> True) \<Longrightarrow>
   labels_safe (apply_state lc s app)"
  unfolding apply_state_def labels_safe_clamp
  by (auto simp: labels_safe_def utf8_state_def list_all_iff split: option.splits)

end
