(* ===== verification/AppRouting.thy ===== *)
theory AppRouting
  imports AppEvents
begin

text \<open>
  \<open>src/ui/app/state/routing.rs\<close>: the pages of the routing tab.  Page 0 is the global rule set,
  page \<open>i\<close> the \<open>i\<close>-th group, which inherits the global rules or has its own.  The
  \<open>&mut\<close> that \<open>active_routing_config_mut\<close> returns is modelled by the update made
  through it.
\<close>

definition routing_page_group_id :: "App \<Rightarrow> i32" where
  "routing_page_group_id app =
     (if routing_group_index app = 0 then 0
      else case get_at (groups app) (routing_group_index app - 1) of Some g \<Rightarrow> gid g | None \<Rightarrow> 0)"

definition routing_selected_group :: "App \<Rightarrow> GroupWithProfiles option" where
  "routing_selected_group app =
     (if routing_group_index app = 0 then None
      else get_at (groups app) (routing_group_index app - 1))"

definition routing_source :: "App \<Rightarrow> string" where
  "routing_source app =
     (case routing_selected_group app of
        Some g \<Rightarrow> if g_manual_routing_mode (gw_group g) = ''custom'' then ''custom'' else ''global''
      | None \<Rightarrow> ''global'')"

definition active_routing_config :: "App \<Rightarrow> RoutingConfig" where
  "active_routing_config app =
     (let g = routing_page_group_id app
      in if g \<noteq> 0 \<and> routing_source app = ''custom''
         then (case group_routing app g of Some view \<Rightarrow> gv_effective view | None \<Rightarrow> routing app)
         else routing app)"

definition active_routing_config_mut :: "(RoutingConfig \<Rightarrow> RoutingConfig) \<Rightarrow> App \<Rightarrow> App" where
  "active_routing_config_mut f app =
     (let g = routing_page_group_id app
      in if g = 0 then app\<lparr>routing := f (routing app)\<rparr>
         else let view = (case group_routing app g of
                  Some v \<Rightarrow> v
                | None \<Rightarrow> \<lparr>gv_effective = routing app, gv_custom = None\<rparr>)
              in app\<lparr>group_routing := (group_routing app)
                       (g \<mapsto> view\<lparr>gv_effective := f (gv_effective view)\<rparr>)\<rparr>)"

definition set_custom_mode :: "GroupWithProfiles \<Rightarrow> GroupWithProfiles" where
  "set_custom_mode g = g\<lparr>gw_group := (gw_group g)\<lparr>g_manual_routing_mode := ''custom''\<rparr>\<rparr>"

text \<open>The group id returned, and the state.\<close>

definition ensure_custom_routing :: "App \<Rightarrow> i32 \<times> App" where
  "ensure_custom_routing app =
     (let g = routing_page_group_id app
      in if g = 0 then (0, app)
         else if (case routing_selected_group app of
                Some gw \<Rightarrow> g_manual_routing_mode (gw_group gw) = ''custom'' | None \<Rightarrow> False)
         then (g, app)
         else let seed = (case group_routing app g of
                  Some v \<Rightarrow> (case gv_custom v of Some c \<Rightarrow> c | None \<Rightarrow> routing app)
                | None \<Rightarrow> routing app)
              in (g, update_group g set_custom_mode
                   (app\<lparr>group_routing := (group_routing app)
                       (g \<mapsto> \<lparr>gv_effective = seed, gv_custom = None\<rparr>)\<rparr>)))"

definition clamp_routing_cursor :: "App \<Rightarrow> App" where
  "clamp_routing_cursor app =
     (let len = length (rc_rules (active_routing_config app))
      in if len = 0 then app\<lparr>routing_cursor := 0\<rparr>
         else if len \<le> routing_cursor app then app\<lparr>routing_cursor := len - 1\<rparr> else app)"

definition apply_routing_updated ::
  "i32 \<Rightarrow> RoutingConfig \<Rightarrow> string \<Rightarrow> RoutingConfig option \<Rightarrow> App \<Rightarrow> App" where
  "apply_routing_updated g config source custom app =
     (let app = (if g = 0 then app\<lparr>routing := config\<rparr>
          else let custom = (if source = ''custom''
                   then (case custom of Some c \<Rightarrow> Some c | None \<Rightarrow> Some config) else custom)
               in app\<lparr>group_routing := (group_routing app)
                        (g \<mapsto> \<lparr>gv_effective = config, gv_custom = custom\<rparr>)\<rparr>)
      in if g = 0 \<or> g = routing_page_group_id app then clamp_routing_cursor app else app)"

definition routing_group_next :: "App \<Rightarrow> App" where
  "routing_group_next app =
     app\<lparr>routing_group_index := (routing_group_index app + 1) mod (length (groups app) + 1),
         routing_cursor := 0\<rparr>"

definition routing_group_prev :: "App \<Rightarrow> App" where
  "routing_group_prev app =
     app\<lparr>routing_group_index := (if routing_group_index app = 0 then length (groups app) + 1 - 1
                                 else routing_group_index app - 1),
         routing_cursor := 0\<rparr>"

definition sync_routing_group_to_connected :: "App \<Rightarrow> App" where
  "sync_routing_group_to_connected app =
     (case ps_profile (connection_status app) of
        None \<Rightarrow> app
      | Some p \<Rightarrow>
          (case position (\<lambda>g. gid g = p_group_id p) (groups app) of
             Some idx \<Rightarrow> app\<lparr>routing_group_index := idx + 1\<rparr>
           | None \<Rightarrow> app))"

section \<open>The routing cursor\<close>

definition routing_len :: "App \<Rightarrow> nat" where
  "routing_len app = length (rc_rules (active_routing_config app))"

lemma active_routing_config_cursor [simp]:
  "active_routing_config (app\<lparr>routing_cursor := c\<rparr>) = active_routing_config app"
  "routing_page_group_id (app\<lparr>routing_cursor := c\<rparr>) = routing_page_group_id app"
  by (simp_all add: active_routing_config_def routing_page_group_id_def routing_source_def
      routing_selected_group_def Let_def cong: option.case_cong)

lemma clamp_routing_cursor_eq:
  "clamp_routing_cursor app = app\<lparr>routing_cursor := clamped (routing_len app) (routing_cursor app)\<rparr>"
  by (simp add: clamp_routing_cursor_def clamped_def routing_len_def Let_def)

interpretation routing_list: clamped_cursor routing_len routing_cursor clamp_routing_cursor
  by unfold_locales (simp_all add: clamp_routing_cursor_eq routing_len_def)

text \<open>after a routing update for the page on screen (or for the global rules) the rule cursor
  is on a rule of the page's list, and it moves, to the last rule, only if its rule is gone.\<close>

theorem routing_update_cursor:
  assumes "g = 0 \<or> g = routing_page_group_id app"
  shows "cursor_ok (routing_len (apply_routing_updated g config source custom app))
           (routing_cursor (apply_routing_updated g config source custom app))
    \<and> routing_cursor (apply_routing_updated g config source custom app)
      = clamped (routing_len (apply_routing_updated g config source custom app)) (routing_cursor app)"
proof -
  have page: "routing_page_group_id (app\<lparr>group_routing := m\<rparr>) = routing_page_group_id app" for m
    by (simp add: routing_page_group_id_def)
  have "\<exists>app'. apply_routing_updated g config source custom app = clamp_routing_cursor app'
      \<and> routing_cursor app' = routing_cursor app"
    using assms by (auto simp: apply_routing_updated_def Let_def page)
  then obtain app' where app': "apply_routing_updated g config source custom app = clamp_routing_cursor app'"
    "routing_cursor app' = routing_cursor app" by blast
  show ?thesis
    unfolding app'(1)
    using routing_list.clamp_in_range [of app'] routing_list.cur_clamp [of app']
      routing_list.len_clamp [of app'] app'(2) by simp
qed

theorem routing_update_cursor_witness:
  "cursor_ok (routing_len (apply_routing_updated 0 default_routing_config ''global'' None sample_app))
       (routing_cursor (apply_routing_updated 0 default_routing_config ''global'' None sample_app))
    \<and> routing_cursor (apply_routing_updated 0 default_routing_config ''global'' None sample_app)
      = clamped (routing_len (apply_routing_updated 0 default_routing_config ''global'' None sample_app))
          (routing_cursor sample_app)"
  by (rule routing_update_cursor) simp

section \<open>Editing a page\<close>

definition distinct_groups :: "App \<Rightarrow> bool" where
  "distinct_groups app \<longleftrightarrow> distinct (map gid (groups app))"

lemma update_first_nth:
  "i < length xs \<Longrightarrow> p (xs ! i) \<Longrightarrow> (\<And>j. j < i \<Longrightarrow> \<not> p (xs ! j)) \<Longrightarrow>
   update_first p f xs = xs[i := f (xs ! i)]"
proof (induction xs arbitrary: i)
  case (Cons x xs)
  show ?case
  proof (cases i)
    case 0
    then show ?thesis using Cons.prems by simp
  next
    case (Suc j)
    then have "\<not> p x" using Cons.prems(3) [of 0] by simp
    moreover have "update_first p f xs = xs[j := f (xs ! j)]"
    proof (rule Cons.IH)
      show "j < length xs" "p (xs ! j)" using Cons.prems Suc by simp_all
      show "\<not> p (xs ! k)" if "k < j" for k using Cons.prems(3) [of "Suc k"] Suc that by simp
    qed
    ultimately show ?thesis using Suc by simp
  qed
qed simp

lemma update_group_index:
  assumes "distinct_groups app" and "i < length (groups app)"
  shows "update_first (\<lambda>g. gid g = gid (groups app ! i)) f (groups app)
    = (groups app)[i := f (groups app ! i)]"
  using assms
  by (intro update_first_nth) (auto simp: distinct_groups_def distinct_conv_nth)

text \<open>On a group's page, after \<open>ensure_custom_routing\<close> the page shows the group's own rules.\<close>

lemma ensure_custom_page:
  assumes "distinct_groups app" and "routing_page_group_id app \<noteq> 0"
    and "ensure_custom_routing app = (g, app')"
  shows "g = routing_page_group_id app \<and> routing_page_group_id app' = g
    \<and> routing_source app' = ''custom'' \<and> routing app' = routing app"
proof -
  obtain i where i: "routing_group_index app = Suc i" "i < length (groups app)"
    "routing_page_group_id app = gid (groups app ! i)"
    using assms(2)
    by (cases "routing_group_index app") (auto simp: routing_page_group_id_def get_at_def split: if_splits)
  have sel: "routing_selected_group app = Some (groups app ! i)"
    using i by (simp add: routing_selected_group_def get_at_def)
  show ?thesis
  proof (cases "g_manual_routing_mode (gw_group (groups app ! i)) = ''custom''")
    case True
    then show ?thesis
      using assms(2,3) sel by (auto simp: ensure_custom_routing_def Let_def routing_source_def)
  next
    case False
    then obtain m where app': "app' = app\<lparr>group_routing := m, groups := (groups app)[i := set_custom_mode (groups app ! i)]\<rparr>"
      and "g = gid (groups app ! i)"
      using assms(2,3) sel i update_group_index [OF assms(1) i(2), of set_custom_mode]
      by (auto simp: ensure_custom_routing_def Let_def)
    then show ?thesis
      using i by (simp add: routing_page_group_id_def routing_source_def routing_selected_group_def
          get_at_def set_custom_mode_def)
  qed
qed

text \<open>C17: an edit on a group's page is shown on that page and changes nothing else: the global
  rules and the rules of every other group stay as they are, even when the group inherited its
  rules until then.\<close>

theorem group_edit_isolated:
  assumes "distinct_groups app" and "routing_page_group_id app \<noteq> 0"
    and "ensure_custom_routing app = (g, app')"
  shows "active_routing_config (active_routing_config_mut f app') = f (active_routing_config app')
    \<and> routing (active_routing_config_mut f app') = routing app
    \<and> (\<forall>h. h \<noteq> g \<longrightarrow> group_routing (active_routing_config_mut f app') h = group_routing app h)"
proof -
  have page: "g = routing_page_group_id app" "routing_page_group_id app' = g"
      "routing_source app' = ''custom''" "routing app' = routing app"
    using ensure_custom_page [OF assms] by auto
  obtain view where view: "view = (case group_routing app' g of
      Some v \<Rightarrow> v | None \<Rightarrow> \<lparr>gv_effective = routing app', gv_custom = None\<rparr>)" by blast
  have shown: "active_routing_config app' = gv_effective view"
    using page assms(2) by (simp add: active_routing_config_def Let_def view split: option.split)
  have edited: "active_routing_config_mut f app'
      = app'\<lparr>group_routing := (group_routing app')(g \<mapsto> view\<lparr>gv_effective := f (gv_effective view)\<rparr>)\<rparr>"
    using page assms(2) by (simp add: active_routing_config_mut_def Let_def view)
  have kept: "routing_page_group_id (app'\<lparr>group_routing := m\<rparr>) = routing_page_group_id app'"
    "routing_source (app'\<lparr>group_routing := m\<rparr>) = routing_source app'" for m
    by (simp_all add: routing_page_group_id_def routing_source_def routing_selected_group_def)
  have others: "group_routing app' h = group_routing app h" if "h \<noteq> g" for h
    using assms(3) that
    by (auto simp: ensure_custom_routing_def Let_def split: if_splits option.splits)
  show ?thesis
    using page assms(2) others
    by (simp add: edited shown active_routing_config_def [of "app'\<lparr>group_routing := m\<rparr>" for m] kept Let_def)
qed

definition routing_sample :: App where
  "routing_sample = sample_app\<lparr>routing_group_index := 1, routing := default_routing_config\<rparr>"

theorem group_edit_isolated_witness:
  "let app' = snd (ensure_custom_routing routing_sample); f = rc_rules_update (\<lambda>_. [default_rule])
   in active_routing_config (active_routing_config_mut f app') = f (active_routing_config app')
    \<and> routing (active_routing_config_mut f app') = routing routing_sample
    \<and> group_routing (active_routing_config_mut f app') 2 = group_routing routing_sample 2"
proof -
  have "ensure_custom_routing routing_sample = (1, snd (ensure_custom_routing routing_sample))"
    by (simp add: ensure_custom_routing_def routing_page_group_id_def routing_selected_group_def
        routing_sample_def sample_app_def app_new_def get_at_def default_group_def Let_def)
  moreover have "distinct_groups routing_sample" "routing_page_group_id routing_sample \<noteq> 0"
    by (simp_all add: distinct_groups_def routing_page_group_id_def routing_sample_def sample_app_def
        app_new_def get_at_def default_group_def)
  ultimately show ?thesis
    using group_edit_isolated [of routing_sample 1 "snd (ensure_custom_routing routing_sample)"
        "rc_rules_update (\<lambda>_. [default_rule])"] by (simp add: Let_def)
qed

end
