(* ===== verification/Commands.thy ===== *)
theory Commands
  imports Requests
begin

text \<open>
  \<open>src/core_client/commands.rs\<close>: what the client can ask of the core.  Each method of
  \<open>CoreClient\<close> is one \<open>client_\<dots>\<close> definition, the message name and the payload it hands to the
  writer; \<open>Command\<close> has one constructor per method, the form in which the handlers of the
  model record the calls they make.
\<close>

datatype (plugins only: code size) Command =
    GetApplicationState
  | GetProfileDetails i32 i32
  | ConnectTo i32 i32
  | DisconnectCore
  | SetLogLevel string
  | AddProfiles string i32
  | DeleteProfiles "ProfileID list"
  | TestProfile i32 i32 string
  | TestGroup i32 string i32
  | CancelTests
  | SetTestConfig TestConfig
  | EnableTun
  | DisableTun
  | SetTunName string
  | IsRoot
  | RepairConfig
  | RestoreDb
  | RenameProfile i32 i32 string
  | Die
  | UpdateSubscription i32
  | ReorderProfilesCmd i32 "i32 list"
  | ReorderGroupsCmd "i32 list"
  | DeleteGroupCmd i32
  | AddGroupCmd string string
  | UpdateGroupCmd i32 string string "bool option" "i64 option"
  | GetRouting i32
  | UpdateRouting i32 RoutingConfig
  | SetManualRoutingSource i32 string
  | SetHwid SetHwidData
  | SetKillSwitch bool
  | SetSplitTunnel string
  | SetAutoconnect bool i32 i32 string
  | ImportHappRoutingCmd i32 string
  | SetGroupRoutingMode i32 string
  | SetActiveRoutingProfile i32 string
  | DeleteRoutingProfile i32 string

type_synonym request = "string \<times> json"

section \<open>The methods\<close>

definition client_get_application_state :: request where
  "client_get_application_state = (''get-application-state'', JObj [])"

definition client_get_profile_details :: "i32 \<Rightarrow> i32 \<Rightarrow> request" where
  "client_get_profile_details group_id profile_id =
     (''get-profile-details'',
      enc_profile_ref \<lparr>pid_id = profile_id, pid_group_id = group_id\<rparr>)"

definition client_connect :: "i32 \<Rightarrow> i32 \<Rightarrow> request" where
  "client_connect group_id profile_id =
     (''connect'',
      enc_connect_data \<lparr>cd_profile = \<lparr>pid_id = profile_id,
        pid_group_id = group_id\<rparr>\<rparr>)"

definition client_disconnect :: request where
  "client_disconnect = (''disconnect'', JObj [])"

definition client_set_log_level :: "string \<Rightarrow> request" where
  "client_set_log_level level =
     (''set-log-level'', enc_set_log_level_data \<lparr>sll_level = level\<rparr>)"

definition client_add_profiles :: "string \<Rightarrow> i32 \<Rightarrow> request" where
  "client_add_profiles uris group_id =
     (''add-profiles'',
      enc_add_profiles_data \<lparr>ap_uris = uris, ap_group_id = group_id\<rparr>)"

definition client_delete_profiles :: "ProfileID list \<Rightarrow> request" where
  "client_delete_profiles profiles =
     (''delete-profiles'', enc_delete_profiles_data \<lparr>dp_profiles = profiles\<rparr>)"

definition client_test_profile ::
  "i32 \<Rightarrow> i32 \<Rightarrow> string \<Rightarrow> request" where
  "client_test_profile group_id profile_id meth =
     (''test-profile'',
      enc_test_profile_data \<lparr>tpd_profile = \<lparr>pid_id = profile_id,
        pid_group_id = group_id\<rparr>, tpd_method = meth, tpd_sample_count = 0\<rparr>)"

definition client_test_group ::
  "i32 \<Rightarrow> string \<Rightarrow> i32 \<Rightarrow> request" where
  "client_test_group group_id meth sample_count =
     (''test-group'',
      enc_test_group_data \<lparr>tgd_group_id = group_id, tgd_method = meth,
        tgd_sample_count = sample_count\<rparr>)"

definition client_cancel_tests :: request where
  "client_cancel_tests = (''cancel-tests'', JObj [])"

definition client_set_test_config :: "TestConfig \<Rightarrow> request" where
  "client_set_test_config config =
     (''set-test-config'', enc_set_test_config_data \<lparr>stc_config = config\<rparr>)"

definition client_enable_tun :: request where
  "client_enable_tun = (''enable-tun'', JObj [])"

definition client_disable_tun :: request where
  "client_disable_tun = (''disable-tun'', JObj [])"

definition client_set_tun_name :: "string \<Rightarrow> request" where
  "client_set_tun_name name =
     (''set-tun-name'', enc_set_tun_name_data \<lparr>stn_tun_name = name\<rparr>)"

definition client_is_root :: request where
  "client_is_root = (''is-root'', JObj [])"

definition client_repair_config :: request where
  "client_repair_config = (''repair-config'', JNull)"

definition client_restore_db :: request where
  "client_restore_db = (''restore-db'', JNull)"

definition client_rename_profile ::
  "i32 \<Rightarrow> i32 \<Rightarrow> string \<Rightarrow> request" where
  "client_rename_profile group_id profile_id name =
     (''update-profile'',
      enc_update_profile_data \<lparr>upd_profile = \<lparr>pid_id = profile_id,
        pid_group_id = group_id\<rparr>, upd_name = name\<rparr>)"

definition client_die :: request where
  "client_die = (''die'', JObj [])"

definition client_update_subscription :: "i32 \<Rightarrow> request" where
  "client_update_subscription group_id =
     (''update-subscription'', enc_update_subscription_data \<lparr>us_group_id = group_id\<rparr>)"

definition client_reorder_profiles :: "i32 \<Rightarrow> i32 list \<Rightarrow> request" where
  "client_reorder_profiles group_id profile_ids =
     (''reorder-profiles'',
      enc_reorder_profiles_data \<lparr>rpd_group_id = group_id,
        rpd_profile_ids = profile_ids\<rparr>)"

definition client_reorder_groups :: "i32 list \<Rightarrow> request" where
  "client_reorder_groups group_ids =
     (''reorder-groups'', enc_reorder_groups_data \<lparr>rgd_group_ids = group_ids\<rparr>)"

definition client_delete_group :: "i32 \<Rightarrow> request" where
  "client_delete_group i = (''delete-group'', enc_delete_group_data \<lparr>dg_id = i\<rparr>)"

definition client_add_group :: "string \<Rightarrow> string \<Rightarrow> request" where
  "client_add_group name url =
     (''add-group'', enc_add_group_data \<lparr>ag_name = name, ag_subscription_url = url\<rparr>)"

definition client_update_group ::
  "i32 \<Rightarrow> string \<Rightarrow> string \<Rightarrow> bool option \<Rightarrow> i64 option \<Rightarrow> request" where
  "client_update_group i name url auto ival =
     (''update-group'',
      enc_update_group_data \<lparr>ugd_id = i, ugd_name = name, ugd_subscription_url = url,
        ugd_auto_update = auto, ugd_update_interval = ival\<rparr>)"

definition client_get_routing :: "i32 \<Rightarrow> request" where
  "client_get_routing group_id =
     (''get-routing'', enc_get_routing_data \<lparr>grd_group_id = group_id\<rparr>)"

definition client_update_routing :: "i32 \<Rightarrow> RoutingConfig \<Rightarrow> request" where
  "client_update_routing group_id config =
     (''update-routing'',
      enc_update_routing_data \<lparr>urd_group_id = group_id, urd_config = config\<rparr>)"

definition client_set_manual_routing_source ::
  "i32 \<Rightarrow> string \<Rightarrow> request" where
  "client_set_manual_routing_source group_id source =
     (''set-manual-routing-source'',
      enc_set_manual_routing_source_data \<lparr>smr_group_id = group_id,
        smr_source = source\<rparr>)"

definition client_set_hwid :: "SetHwidData \<Rightarrow> request" where
  "client_set_hwid d = (''set-hwid'', enc_set_hwid_data d)"

definition client_set_kill_switch :: "bool \<Rightarrow> request" where
  "client_set_kill_switch enabled =
     (''set-kill-switch'',
      enc_set_kill_switch_data \<lparr>sks_enabled = enabled, sks_force = False,
        sks_armed = False\<rparr>)"

definition client_set_split_tunnel :: "string \<Rightarrow> request" where
  "client_set_split_tunnel mode =
     (''set-split-tunnel'', enc_set_split_tunnel_data \<lparr>sst_mode = mode\<rparr>)"

definition client_set_autoconnect ::
  "bool \<Rightarrow> i32 \<Rightarrow> i32 \<Rightarrow> string \<Rightarrow> request" where
  "client_set_autoconnect enabled group_id profile_id mode =
     (''set-autoconnect'',
      enc_set_autoconnect_data \<lparr>sad_enabled = enabled, sad_group_id = group_id,
        sad_profile_id = profile_id, sad_mode = mode\<rparr>)"

definition client_import_happ_routing :: "i32 \<Rightarrow> string \<Rightarrow> request" where
  "client_import_happ_routing group_id link =
     (''import-happ-routing'',
      enc_import_happ_routing_data \<lparr>ihr_group_id = group_id, ihr_link = link\<rparr>)"

definition client_set_group_routing_mode :: "i32 \<Rightarrow> string \<Rightarrow> request" where
  "client_set_group_routing_mode group_id mode =
     (''set-group-routing-mode'',
      enc_set_group_routing_mode_data \<lparr>sgr_group_id = group_id, sgr_mode = mode\<rparr>)"

definition client_set_active_routing_profile ::
  "i32 \<Rightarrow> string \<Rightarrow> request" where
  "client_set_active_routing_profile group_id profile_id =
     (''set-active-routing-profile'',
      enc_set_active_routing_profile_data \<lparr>sar_group_id = group_id,
        sar_profile_id = profile_id\<rparr>)"

definition client_delete_routing_profile :: "i32 \<Rightarrow> string \<Rightarrow> request" where
  "client_delete_routing_profile group_id profile_id =
     (''delete-routing-profile'',
      enc_delete_routing_profile_data \<lparr>drp_group_id = group_id,
        drp_profile_id = profile_id\<rparr>)"

fun command_msg :: "Command \<Rightarrow> request" where
  "command_msg GetApplicationState = client_get_application_state"
| "command_msg (GetProfileDetails group_id profile_id) =
     client_get_profile_details group_id profile_id"
| "command_msg (ConnectTo group_id profile_id) = client_connect group_id profile_id"
| "command_msg DisconnectCore = client_disconnect"
| "command_msg (SetLogLevel level) = client_set_log_level level"
| "command_msg (AddProfiles uris group_id) = client_add_profiles uris group_id"
| "command_msg (DeleteProfiles profiles) = client_delete_profiles profiles"
| "command_msg (TestProfile group_id profile_id meth) =
     client_test_profile group_id profile_id meth"
| "command_msg (TestGroup group_id meth sample_count) =
     client_test_group group_id meth sample_count"
| "command_msg CancelTests = client_cancel_tests"
| "command_msg (SetTestConfig config) = client_set_test_config config"
| "command_msg EnableTun = client_enable_tun"
| "command_msg DisableTun = client_disable_tun"
| "command_msg (SetTunName name) = client_set_tun_name name"
| "command_msg IsRoot = client_is_root"
| "command_msg RepairConfig = client_repair_config"
| "command_msg RestoreDb = client_restore_db"
| "command_msg (RenameProfile group_id profile_id name) =
     client_rename_profile group_id profile_id name"
| "command_msg Die = client_die"
| "command_msg (UpdateSubscription group_id) = client_update_subscription group_id"
| "command_msg (ReorderProfilesCmd group_id profile_ids) =
     client_reorder_profiles group_id profile_ids"
| "command_msg (ReorderGroupsCmd group_ids) = client_reorder_groups group_ids"
| "command_msg (DeleteGroupCmd i) = client_delete_group i"
| "command_msg (AddGroupCmd name url) = client_add_group name url"
| "command_msg (UpdateGroupCmd i name url auto ival) = client_update_group i name url auto ival"
| "command_msg (GetRouting group_id) = client_get_routing group_id"
| "command_msg (UpdateRouting group_id config) = client_update_routing group_id config"
| "command_msg (SetManualRoutingSource group_id source) =
     client_set_manual_routing_source group_id source"
| "command_msg (SetHwid d) = client_set_hwid d"
| "command_msg (SetKillSwitch enabled) = client_set_kill_switch enabled"
| "command_msg (SetSplitTunnel mode) = client_set_split_tunnel mode"
| "command_msg (SetAutoconnect enabled group_id profile_id mode) =
     client_set_autoconnect enabled group_id profile_id mode"
| "command_msg (ImportHappRoutingCmd group_id link) = client_import_happ_routing group_id link"
| "command_msg (SetGroupRoutingMode group_id mode) = client_set_group_routing_mode group_id mode"
| "command_msg (SetActiveRoutingProfile group_id profile_id) =
     client_set_active_routing_profile group_id profile_id"
| "command_msg (DeleteRoutingProfile group_id profile_id) =
     client_delete_routing_profile group_id profile_id"

lemmas client_defs =
  client_get_application_state_def
  client_get_profile_details_def
  client_connect_def
  client_disconnect_def
  client_set_log_level_def
  client_add_profiles_def
  client_delete_profiles_def
  client_test_profile_def
  client_test_group_def
  client_cancel_tests_def
  client_set_test_config_def
  client_enable_tun_def
  client_disable_tun_def
  client_set_tun_name_def
  client_is_root_def
  client_repair_config_def
  client_restore_db_def
  client_rename_profile_def
  client_die_def
  client_update_subscription_def
  client_reorder_profiles_def
  client_reorder_groups_def
  client_delete_group_def
  client_add_group_def
  client_update_group_def
  client_get_routing_def
  client_update_routing_def
  client_set_manual_routing_source_def
  client_set_hwid_def
  client_set_kill_switch_def
  client_set_split_tunnel_def
  client_set_autoconnect_def
  client_import_happ_routing_def
  client_set_group_routing_mode_def
  client_set_active_routing_profile_def
  client_delete_routing_profile_def

section \<open>Values in range\<close>

fun ok_command :: "Command \<Rightarrow> bool" where
  "ok_command GetApplicationState \<longleftrightarrow> True"
| "ok_command (GetProfileDetails group_id profile_id) \<longleftrightarrow>
     in_i32 group_id \<and> in_i32 profile_id"
| "ok_command (ConnectTo group_id profile_id) \<longleftrightarrow>
     in_i32 group_id \<and> in_i32 profile_id"
| "ok_command DisconnectCore \<longleftrightarrow> True"
| "ok_command (SetLogLevel _) \<longleftrightarrow> True"
| "ok_command (AddProfiles _ group_id) \<longleftrightarrow> in_i32 group_id"
| "ok_command (DeleteProfiles profiles) \<longleftrightarrow> list_all ok_profile_ref profiles"
| "ok_command (TestProfile group_id profile_id _) \<longleftrightarrow>
     in_i32 group_id \<and> in_i32 profile_id"
| "ok_command (TestGroup group_id _ sample_count) \<longleftrightarrow>
     in_i32 group_id \<and> in_i32 sample_count"
| "ok_command CancelTests \<longleftrightarrow> True"
| "ok_command (SetTestConfig config) \<longleftrightarrow> ok_test_config config"
| "ok_command EnableTun \<longleftrightarrow> True"
| "ok_command DisableTun \<longleftrightarrow> True"
| "ok_command (SetTunName _) \<longleftrightarrow> True"
| "ok_command IsRoot \<longleftrightarrow> True"
| "ok_command RepairConfig \<longleftrightarrow> True"
| "ok_command RestoreDb \<longleftrightarrow> True"
| "ok_command (RenameProfile group_id profile_id _) \<longleftrightarrow>
     in_i32 group_id \<and> in_i32 profile_id"
| "ok_command Die \<longleftrightarrow> True"
| "ok_command (UpdateSubscription group_id) \<longleftrightarrow> in_i32 group_id"
| "ok_command (ReorderProfilesCmd group_id profile_ids) \<longleftrightarrow>
     in_i32 group_id \<and> list_all in_i32 profile_ids"
| "ok_command (ReorderGroupsCmd group_ids) \<longleftrightarrow> list_all in_i32 group_ids"
| "ok_command (DeleteGroupCmd i) \<longleftrightarrow> in_i32 i"
| "ok_command (AddGroupCmd _ _) \<longleftrightarrow> True"
| "ok_command (UpdateGroupCmd i _ _ _ ival) \<longleftrightarrow>
     in_i32 i \<and> pred_option in_i64 ival"
| "ok_command (GetRouting group_id) \<longleftrightarrow> in_i32 group_id"
| "ok_command (UpdateRouting group_id config) \<longleftrightarrow>
     in_i32 group_id \<and> ok_routing config"
| "ok_command (SetManualRoutingSource group_id _) \<longleftrightarrow> in_i32 group_id"
| "ok_command (SetHwid d) \<longleftrightarrow> ok_set_hwid_data d"
| "ok_command (SetKillSwitch _) \<longleftrightarrow> True"
| "ok_command (SetSplitTunnel _) \<longleftrightarrow> True"
| "ok_command (SetAutoconnect _ group_id profile_id _) \<longleftrightarrow>
     in_i32 group_id \<and> in_i32 profile_id"
| "ok_command (ImportHappRoutingCmd group_id _) \<longleftrightarrow> in_i32 group_id"
| "ok_command (SetGroupRoutingMode group_id _) \<longleftrightarrow> in_i32 group_id"
| "ok_command (SetActiveRoutingProfile group_id _) \<longleftrightarrow> in_i32 group_id"
| "ok_command (DeleteRoutingProfile group_id _) \<longleftrightarrow> in_i32 group_id"

section \<open>Reading a request back\<close>

text \<open>The receiver's view: which command a message name and a payload stand for.  The payloads are
  read with the decoders that the structs of \<open>protocol.rs\<close> derive.\<close>

definition command_readers :: "(string \<times> (json \<Rightarrow> Command option)) list" where
  "command_readers = [
     (''get-application-state'', \<lambda>_. Some GetApplicationState),
     (''get-profile-details'', \<lambda>j. map_option (\<lambda>x. GetProfileDetails (pid_group_id x) (pid_id x))
        (dec_profile_ref j)),
     (''connect'', \<lambda>j. map_option (\<lambda>x. ConnectTo (pid_group_id (cd_profile x)) (pid_id (cd_profile x)))
        (dec_connect_data j)),
     (''disconnect'', \<lambda>_. Some DisconnectCore),
     (''set-log-level'', \<lambda>j. map_option (\<lambda>x. SetLogLevel (sll_level x))
        (dec_set_log_level_data j)),
     (''add-profiles'', \<lambda>j. map_option (\<lambda>x. AddProfiles (ap_uris x) (ap_group_id x))
        (dec_add_profiles_data j)),
     (''delete-profiles'', \<lambda>j. map_option (\<lambda>x. DeleteProfiles (dp_profiles x))
        (dec_delete_profiles_data j)),
     (''test-profile'', \<lambda>j. map_option (\<lambda>x. TestProfile (pid_group_id (tpd_profile x)) (pid_id (tpd_profile x)) (tpd_method x))
        (dec_test_profile_data j)),
     (''test-group'', \<lambda>j. map_option (\<lambda>x. TestGroup (tgd_group_id x) (tgd_method x) (tgd_sample_count x))
        (dec_test_group_data j)),
     (''cancel-tests'', \<lambda>_. Some CancelTests),
     (''set-test-config'', \<lambda>j. map_option (\<lambda>x. SetTestConfig (stc_config x))
        (dec_set_test_config_data j)),
     (''enable-tun'', \<lambda>_. Some EnableTun),
     (''disable-tun'', \<lambda>_. Some DisableTun),
     (''set-tun-name'', \<lambda>j. map_option (\<lambda>x. SetTunName (stn_tun_name x))
        (dec_set_tun_name_data j)),
     (''is-root'', \<lambda>_. Some IsRoot),
     (''repair-config'', \<lambda>_. Some RepairConfig),
     (''restore-db'', \<lambda>_. Some RestoreDb),
     (''update-profile'', \<lambda>j. map_option (\<lambda>x. RenameProfile (pid_group_id (upd_profile x)) (pid_id (upd_profile x)) (upd_name x))
        (dec_update_profile_data j)),
     (''die'', \<lambda>_. Some Die),
     (''update-subscription'', \<lambda>j. map_option (\<lambda>x. UpdateSubscription (us_group_id x))
        (dec_update_subscription_data j)),
     (''reorder-profiles'', \<lambda>j. map_option (\<lambda>x. ReorderProfilesCmd (rpd_group_id x) (rpd_profile_ids x))
        (dec_reorder_profiles_data j)),
     (''reorder-groups'', \<lambda>j. map_option (\<lambda>x. ReorderGroupsCmd (rgd_group_ids x))
        (dec_reorder_groups_data j)),
     (''delete-group'', \<lambda>j. map_option (\<lambda>x. DeleteGroupCmd (dg_id x))
        (dec_delete_group_data j)),
     (''add-group'', \<lambda>j. map_option (\<lambda>x. AddGroupCmd (ag_name x) (ag_subscription_url x))
        (dec_add_group_data j)),
     (''update-group'', \<lambda>j. map_option (\<lambda>x. UpdateGroupCmd (ugd_id x) (ugd_name x) (ugd_subscription_url x) (ugd_auto_update x) (ugd_update_interval x))
        (dec_update_group_data j)),
     (''get-routing'', \<lambda>j. map_option (\<lambda>x. GetRouting (grd_group_id x))
        (dec_get_routing_data j)),
     (''update-routing'', \<lambda>j. map_option (\<lambda>x. UpdateRouting (urd_group_id x) (urd_config x))
        (dec_update_routing_data j)),
     (''set-manual-routing-source'', \<lambda>j. map_option (\<lambda>x. SetManualRoutingSource (smr_group_id x) (smr_source x))
        (dec_set_manual_routing_source_data j)),
     (''set-hwid'', \<lambda>j. map_option (\<lambda>x. SetHwid x)
        (dec_set_hwid_data j)),
     (''set-kill-switch'', \<lambda>j. map_option (\<lambda>x. SetKillSwitch (sks_enabled x))
        (dec_set_kill_switch_data j)),
     (''set-split-tunnel'', \<lambda>j. map_option (\<lambda>x. SetSplitTunnel (sst_mode x))
        (dec_set_split_tunnel_data j)),
     (''set-autoconnect'', \<lambda>j. map_option (\<lambda>x. SetAutoconnect (sad_enabled x) (sad_group_id x) (sad_profile_id x) (sad_mode x))
        (dec_set_autoconnect_data j)),
     (''import-happ-routing'', \<lambda>j. map_option (\<lambda>x. ImportHappRoutingCmd (ihr_group_id x) (ihr_link x))
        (dec_import_happ_routing_data j)),
     (''set-group-routing-mode'', \<lambda>j. map_option (\<lambda>x. SetGroupRoutingMode (sgr_group_id x) (sgr_mode x))
        (dec_set_group_routing_mode_data j)),
     (''set-active-routing-profile'', \<lambda>j. map_option (\<lambda>x. SetActiveRoutingProfile (sar_group_id x) (sar_profile_id x))
        (dec_set_active_routing_profile_data j)),
     (''delete-routing-profile'', \<lambda>j. map_option (\<lambda>x. DeleteRoutingProfile (drp_group_id x) (drp_profile_id x))
        (dec_delete_routing_profile_data j))]"

fun command_of :: "request \<Rightarrow> Command option" where
  "command_of (m, j) = (case map_of command_readers m of None \<Rightarrow> None | Some r \<Rightarrow> r j)"

lemma in_i32_zero: "in_i32 0"
  by (simp add: in_i32_def)

lemmas request_codecs =
  add_group_data_codec.dec_enc
  add_profiles_data_codec.dec_enc
  connect_data_codec.dec_enc
  delete_group_data_codec.dec_enc
  delete_profiles_data_codec.dec_enc
  delete_routing_profile_data_codec.dec_enc
  get_routing_data_codec.dec_enc
  import_happ_routing_data_codec.dec_enc
  profile_ref_codec.dec_enc
  reorder_groups_data_codec.dec_enc
  reorder_profiles_data_codec.dec_enc
  set_active_routing_profile_data_codec.dec_enc
  set_autoconnect_data_codec.dec_enc
  set_group_routing_mode_data_codec.dec_enc
  set_hwid_data_codec.dec_enc
  set_kill_switch_data_codec.dec_enc
  set_log_level_data_codec.dec_enc
  set_manual_routing_source_data_codec.dec_enc
  set_split_tunnel_data_codec.dec_enc
  set_test_config_data_codec.dec_enc
  set_tun_name_data_codec.dec_enc
  test_group_data_codec.dec_enc
  test_profile_data_codec.dec_enc
  update_group_data_codec.dec_enc
  update_profile_data_codec.dec_enc
  update_routing_data_codec.dec_enc
  update_subscription_data_codec.dec_enc

lemmas request_oks =
  ok_add_group_data_def
  ok_add_profiles_data_def
  ok_connect_data_def
  ok_delete_group_data_def
  ok_delete_profiles_data_def
  ok_delete_routing_profile_data_def
  ok_get_routing_data_def
  ok_import_happ_routing_data_def
  ok_profile_ref_def
  ok_reorder_groups_data_def
  ok_reorder_profiles_data_def
  ok_set_active_routing_profile_data_def
  ok_set_autoconnect_data_def
  ok_set_group_routing_mode_data_def
  ok_set_kill_switch_data_def
  ok_set_log_level_data_def
  ok_set_manual_routing_source_data_def
  ok_set_split_tunnel_data_def
  ok_set_test_config_data_def
  ok_set_tun_name_data_def
  ok_test_group_data_def
  ok_test_profile_data_def
  ok_update_group_data_def
  ok_update_profile_data_def
  ok_update_routing_data_def
  ok_update_subscription_data_def

lemma command_of_command_msg: "ok_command c \<Longrightarrow> command_of (command_msg c) = Some c"
  by (cases c) (simp_all add: client_defs command_readers_def request_codecs request_oks in_i32_zero)

text \<open>C19: no two different calls of \<open>CoreClient\<close> send the same request, and a receiver that reads the
  request with the derived decoders gets back the method that was called and its arguments; so
  nothing the interface asks for is lost or confused on the way to the core.\<close>

theorem command_roundtrip:
  assumes "ok_command c"
  shows "command_of (command_msg c) = Some c"
  using assms by (rule command_of_command_msg)

definition sample_command :: Command where
  "sample_command = UpdateGroupCmd 3 ''fr'' ''http://x'' (Some True) None"

theorem command_roundtrip_witness:
  "command_of (command_msg sample_command) = Some sample_command"
  by (rule command_roundtrip) (simp add: sample_command_def in_i32_def)

end
