(* ===== verification/Keys.thy ===== *)
theory Keys
  imports Prelude
begin

text \<open>
  The terminal input the program matches on: crossterm's key codes and modifiers as far as
  the source names them.  Every other code (function keys, media keys, Insert, \<dots>) is
  \<open>OtherKey\<close>.  A \<open>Char\<close> carries the UTF-8 encoding of one character.
\<close>

datatype KeyCode =
    Char string
  | Backspace | Delete | Enter | Esc | Tab | BackTab
  | KLeft | KRight | KUp | KDown | Home | End | PageUp | PageDown
  | OtherKey nat

record KeyModifiers =
  ctrl :: bool
  alt :: bool
  shift :: bool
  other_mods :: bool

record KeyEvent =
  code :: KeyCode
  modifiers :: KeyModifiers

definition no_mods :: KeyModifiers where
  "no_mods = \<lparr>ctrl = False, alt = False, shift = False, other_mods = False\<rparr>"

definition control_only :: KeyModifiers where
  "control_only = \<lparr>ctrl = True, alt = False, shift = False, other_mods = False\<rparr>"

definition plain_key :: "KeyCode \<Rightarrow> KeyEvent" where
  "plain_key k = \<lparr>code = k, modifiers = no_mods\<rparr>"

definition key_ok :: "KeyEvent \<Rightarrow> bool" where
  "key_ok k \<longleftrightarrow> (case code k of Char c \<Rightarrow> uchar c | _ \<Rightarrow> True)"

lemma key_ok_simps [simp]:
  "key_ok \<lparr>code = Char c, modifiers = m\<rparr> \<longleftrightarrow> uchar c"
  "(\<And>c. kc \<noteq> Char c) \<Longrightarrow> key_ok \<lparr>code = kc, modifiers = m\<rparr>"
  by (auto simp: key_ok_def split: KeyCode.splits)

end
