(* ===== verification/Keymap.thy ===== *)
theory Keymap
  imports Keys
begin

text \<open>
  \<open>src/keymap/\<close>: which action a key means in a context.  A Rust \<open>match\<close> on the key code with
  constant patterns is a table, searched in order.
\<close>

datatype (plugins only: code size) AppAction =
    AQuit | ADetach | AHelp | ATabSwitcherModal | ASwitchTab nat | ANextTab | APrevTab
  | AToggleTun | ADisconnect | ADismiss
  | ACursorUp | ACursorDown | ACursorLeft | ACursorRight | AToggleFocus | AScrollTop
  | AScrollBottom | APageUp | APageDown
  | AConnect | AToggleGroup | ATestFocused | ATestAll | ACancelTests | AAddProfile | AAddGroup
  | AUpdateSubscription | AEditItem | ACopyUri | ADeleteItem | ADeleteGroup | AMoveItemUp
  | AMoveItemDown | AStartSearch
  | AAddRoutingRule | AEditRoutingRule | ADeleteRoutingRule | AToggleRuleEnabled | AOpenPresets
  | AOpenHappProfiles | ACycleRoutingMode | AToggleManualRoutingSource | AImportHappLink
  | ARoutingGroupPrev | ARoutingGroupNext
  | ASettingsActivate | ASettingsPrev | ASettingsNext
  | ALogsCycleFilter | ALogsCycleSource | ALogsStartSearch | ALogsClear
  | ANone

datatype KeyContext =
    CGlobal | CProfilesTree | CProfilesDetails | CRouting | CSettings | CLogs | CTraffic

type_synonym key_table = "(KeyCode \<times> AppAction) list"

definition lookup :: "key_table \<Rightarrow> KeyCode \<Rightarrow> AppAction" where
  "lookup t k = (case map_of t k of Some a \<Rightarrow> a | None \<Rightarrow> ANone)"

definition paging_keys :: key_table where
  "paging_keys = [(Char ''d'', APageDown), (Char ''u'', APageUp)]"

definition tree_keys :: key_table where
  "tree_keys =
     [(Char ''j'', ACursorDown), (KDown, ACursorDown), (Char ''k'', ACursorUp), (KUp, ACursorUp),
      (Char ''h'', ACursorLeft), (KLeft, ACursorLeft), (Char ''l'', ACursorRight), (KRight, ACursorRight),
      (Tab, AToggleFocus), (BackTab, AToggleFocus), (PageDown, APageDown), (PageUp, APageUp),
      (Char ''g'', AScrollTop), (Char ''G'', AScrollBottom), (Char ''/'', AStartSearch),
      (Esc, ADismiss), (Enter, AConnect), (Char ''c'', AConnect), (Char '' '', AToggleGroup),
      (Char ''t'', ATestFocused), (Char ''T'', ATestAll), (Char ''C'', ACancelTests),
      (Char ''u'', AUpdateSubscription), (Char ''r'', AUpdateSubscription), (Char ''a'', AAddProfile),
      (Char ''A'', AAddGroup), (Char ''n'', AAddGroup), (Char ''e'', AEditItem), (Char ''y'', ACopyUri),
      (Char ''x'', ADeleteItem), (Delete, ADeleteItem), (Char ''X'', ADeleteGroup)]"

definition resolve_profiles_tree :: "KeyEvent \<Rightarrow> AppAction" where
  "resolve_profiles_tree key =
     (let c = ctrl (modifiers key); a = alt (modifiers key); s = shift (modifiers key)
      in if c then lookup paging_keys (code key)
         else if code key = Char ''J'' \<and> \<not> a \<and> \<not> c
                 \<or> (code key = KDown \<or> code key = Char ''j'') \<and> (a \<or> s) then AMoveItemDown
         else if code key = Char ''K'' \<and> \<not> a \<and> \<not> c
                 \<or> (code key = KUp \<or> code key = Char ''k'') \<and> (a \<or> s) then AMoveItemUp
         else lookup tree_keys (code key))"

definition details_keys :: key_table where
  "details_keys =
     [(Char ''h'', ACursorLeft), (KLeft, ACursorLeft), (Esc, ACursorLeft), (Tab, AToggleFocus),
      (BackTab, AToggleFocus), (Char ''j'', ACursorDown), (KDown, ACursorDown), (Char ''k'', ACursorUp),
      (KUp, ACursorUp), (PageDown, APageDown), (PageUp, APageUp), (Char ''g'', AScrollTop),
      (Char ''G'', AScrollBottom), (Enter, AConnect), (Char ''c'', AConnect), (Char ''t'', ATestFocused),
      (Char ''T'', ATestAll), (Char ''y'', ACopyUri), (Char ''u'', AUpdateSubscription),
      (Char ''r'', AUpdateSubscription), (Char ''e'', AEditItem), (Char ''x'', ADeleteItem),
      (Delete, ADeleteItem), (Char ''X'', ADeleteGroup)]"

definition resolve_profiles_details :: "KeyEvent \<Rightarrow> AppAction" where
  "resolve_profiles_details key =
     (if ctrl (modifiers key) then lookup paging_keys (code key) else lookup details_keys (code key))"

definition routing_keys :: key_table where
  "routing_keys =
     [(Char ''j'', ACursorDown), (KDown, ACursorDown), (Char ''k'', ACursorUp), (KUp, ACursorUp),
      (Char ''h'', ARoutingGroupPrev), (KLeft, ARoutingGroupPrev), (Char ''l'', ARoutingGroupNext),
      (KRight, ARoutingGroupNext), (Char ''a'', AAddRoutingRule), (Char ''e'', AEditRoutingRule),
      (Enter, AEditRoutingRule), (Char ''x'', ADeleteRoutingRule), (Delete, ADeleteRoutingRule),
      (Char '' '', AToggleRuleEnabled), (Char ''p'', AOpenPresets), (Char ''P'', AOpenPresets),
      (Char ''H'', AOpenHappProfiles), (Char ''m'', ACycleRoutingMode), (Char ''M'', ACycleRoutingMode),
      (Char ''g'', AToggleManualRoutingSource), (Char ''G'', AToggleManualRoutingSource),
      (Char ''i'', AImportHappLink), (Char ''I'', AImportHappLink), (Esc, ADismiss)]"

definition resolve_routing :: "KeyEvent \<Rightarrow> AppAction" where
  "resolve_routing key = lookup routing_keys (code key)"

definition settings_keys :: key_table where
  "settings_keys =
     [(Char ''j'', ACursorDown), (KDown, ACursorDown), (Char ''k'', ACursorUp), (KUp, ACursorUp),
      (Char ''h'', ASettingsPrev), (KLeft, ASettingsPrev), (Char ''l'', ASettingsNext),
      (KRight, ASettingsNext), (Enter, ASettingsActivate), (Char '' '', ASettingsActivate), (Esc, ADismiss)]"

definition resolve_settings :: "KeyEvent \<Rightarrow> AppAction" where
  "resolve_settings key = lookup settings_keys (code key)"

definition logs_keys :: key_table where
  "logs_keys =
     [(Char ''j'', ACursorDown), (KDown, ACursorDown), (Char ''k'', ACursorUp), (KUp, ACursorUp),
      (PageDown, APageDown), (PageUp, APageUp), (Char ''g'', AScrollTop), (Char ''G'', AScrollBottom),
      (Char ''f'', ALogsCycleFilter), (Char ''F'', ALogsCycleFilter), (Char ''s'', ALogsCycleSource),
      (Char ''S'', ALogsCycleSource), (Char ''/'', ALogsStartSearch), (Char ''c'', ALogsClear),
      (Char ''C'', ALogsClear), (Esc, ADismiss)]"

definition resolve_logs :: "KeyEvent \<Rightarrow> AppAction" where
  "resolve_logs key =
     (if ctrl (modifiers key) then lookup paging_keys (code key) else lookup logs_keys (code key))"

definition traffic_keys :: key_table where
  "traffic_keys = [(Char ''d'', ADisconnect), (Char ''v'', AToggleTun), (Esc, ADismiss)]"

definition resolve_traffic :: "KeyEvent \<Rightarrow> AppAction" where
  "resolve_traffic key = lookup traffic_keys (code key)"

definition global_keys :: key_table where
  "global_keys =
     [(Char ''q'', ADetach), (Char ''?'', AHelp), (Char ''1'', ASwitchTab 0), (Char ''2'', ASwitchTab 1),
      (Char ''3'', ASwitchTab 2), (Char ''4'', ASwitchTab 3), (Char ''5'', ASwitchTab 4),
      (Char ''['', APrevTab), (Char '']'', ANextTab), (Char ''w'', ATabSwitcherModal),
      (Char ''v'', AToggleTun), (Char ''d'', ADisconnect)]"

definition resolve_global :: "KeyEvent \<Rightarrow> AppAction" where
  "resolve_global key =
     (if ctrl (modifiers key) \<or> alt (modifiers key) then ANone else lookup global_keys (code key))"

fun resolve_context :: "KeyContext \<Rightarrow> KeyEvent \<Rightarrow> AppAction" where
  "resolve_context CProfilesTree key = resolve_profiles_tree key"
| "resolve_context CProfilesDetails key = resolve_profiles_details key"
| "resolve_context CRouting key = resolve_routing key"
| "resolve_context CSettings key = resolve_settings key"
| "resolve_context CLogs key = resolve_logs key"
| "resolve_context CTraffic key = resolve_traffic key"
| "resolve_context CGlobal key = ANone"

definition is_quit_key :: "KeyEvent \<Rightarrow> bool" where
  "is_quit_key key \<longleftrightarrow>
     (code key = Char ''Q'' \<or> code key = Char ''c'' \<and> ctrl (modifiers key)) \<and> \<not> alt (modifiers key)"

definition resolve_action :: "KeyContext \<Rightarrow> KeyEvent \<Rightarrow> AppAction" where
  "resolve_action ctx key =
     (if is_quit_key key then AQuit
      else let a = resolve_context ctx key in if a \<noteq> ANone then a else resolve_global key)"

section \<open>No context hides a global key\<close>

definition all_contexts :: "KeyContext list" where
  "all_contexts = [CGlobal, CProfilesTree, CProfilesDetails, CRouting, CSettings, CLogs, CTraffic]"

lemma all_contexts [simp]: "ctx \<in> set all_contexts"
  by (cases ctx) (simp_all add: all_contexts_def)

lemma globals_checked:
  "\<forall>ctx \<in> set all_contexts. \<forall>(k, a) \<in> set global_keys. resolve_action ctx (plain_key k) = a"
  by (simp add: all_contexts_def global_keys_def resolve_action_def is_quit_key_def plain_key_def
      no_mods_def resolve_global_def Let_def lookup_def resolve_profiles_tree_def tree_keys_def
      resolve_profiles_details_def details_keys_def resolve_routing_def routing_keys_def
      resolve_settings_def settings_keys_def resolve_logs_def logs_keys_def resolve_traffic_def
      traffic_keys_def)

text \<open>in every panel every global key keeps its global meaning, and the two quit keys quit.\<close>

theorem global_keys_everywhere:
  "(\<forall>(k, a) \<in> set global_keys. resolve_action ctx (plain_key k) = a)
   \<and> resolve_action ctx (plain_key (Char ''Q'')) = AQuit
   \<and> resolve_action ctx \<lparr>code = Char ''c'', modifiers = control_only\<rparr> = AQuit"
proof (intro conjI)
  show "\<forall>(k, a) \<in> set global_keys. resolve_action ctx (plain_key k) = a"
    by (rule bspec [OF globals_checked all_contexts])
qed (simp_all add: resolve_action_def is_quit_key_def plain_key_def no_mods_def control_only_def)

theorem global_keys_everywhere_witness:
  "resolve_action CLogs (plain_key (Char ''w'')) = ATabSwitcherModal"
proof -
  have "(Char ''w'', ATabSwitcherModal) \<in> set global_keys" by (simp add: global_keys_def)
  then show ?thesis using global_keys_everywhere [of CLogs] by fast
qed

end
