(* ===== verification/TextEdit.thy ===== *)
theory TextEdit
  imports Keys
begin

text \<open>
  \<open>src/text_edit.rs\<close>: one keystroke on a text field.  The field is a byte string and a
  cursor that counts characters; insertion and removal go through byte indices, and
  \<open>String::insert\<close>, \<open>insert_str\<close> and \<open>remove\<close> panic off a character boundary.  The
  abstract editor \<open>spec_edit\<close> works on the list of characters; the lemmas show that the
  byte-level code implements it and never panics.
\<close>

section \<open>The standard library's operations\<close>

definition is_char_boundary :: "string \<Rightarrow> nat \<Rightarrow> bool" where
  "is_char_boundary s i \<longleftrightarrow> i = 0 \<or> i = length s \<or> i < length s \<and> \<not> is_cont (s ! i)"

definition str_insert :: "nat \<Rightarrow> string \<Rightarrow> string \<Rightarrow> string option" where
  "str_insert i c s = (if is_char_boundary s i then Some (take i s @ c @ drop i s) else None)"

definition str_remove :: "nat \<Rightarrow> string \<Rightarrow> string option" where
  "str_remove i s =
     (if is_char_boundary s i \<and> i < length s
      then Some (take i s @ dropWhile is_cont (drop (Suc i) s)) else None)"

definition char_indices :: "string \<Rightarrow> nat list" where
  "char_indices s = map (\<lambda>k. length (concat (take k (uchars s)))) [0..<char_count s]"

section \<open>The code\<close>

definition char_to_byte_idx :: "string \<Rightarrow> nat \<Rightarrow> nat" where
  "char_to_byte_idx s char_idx =
     (case get_at (char_indices s) char_idx of Some b \<Rightarrow> b | None \<Rightarrow> length s)"

text \<open>
  The clipboard is the parameter \<open>clip\<close>.  The result is the new text, the new cursor and
  the returned flag, or \<open>None\<close> for a panic.
\<close>

definition edit_text_field ::
  "string option \<Rightarrow> string \<Rightarrow> nat \<Rightarrow> KeyEvent \<Rightarrow> (string \<times> nat \<times> bool) option" where
  "edit_text_field clip s cursor key =
     (case code key of
        Char c \<Rightarrow>
          if c = ''v'' \<and> modifiers key = control_only
          then (case clip of
              None \<Rightarrow> Some (s, cursor, False)
            | Some text \<Rightarrow>
                let c_idx = min cursor (char_count s);
                    byte_idx = char_to_byte_idx s c_idx
                in do { s' \<leftarrow> str_insert byte_idx text s;
                        Some (s', c_idx + char_count text, False) })
          else (let c_idx = min cursor (char_count s);
                    byte_idx = char_to_byte_idx s c_idx
                in do { s' \<leftarrow> str_insert byte_idx c s; Some (s', c_idx + 1, False) })
      | Backspace \<Rightarrow>
          let cursor = (if cursor > char_count s then char_count s else cursor)
          in if cursor > 0 \<and> s \<noteq> []
             then do { s' \<leftarrow> str_remove (char_to_byte_idx s (cursor - 1)) s;
                       Some (s', cursor - 1, False) }
             else Some (s, cursor, False)
      | Delete \<Rightarrow>
          if cursor < char_count s
          then do { s' \<leftarrow> str_remove (char_to_byte_idx s cursor) s; Some (s', cursor, False) }
          else Some (s, cursor, False)
      | KLeft \<Rightarrow> Some (s, cursor - 1, False)
      | KRight \<Rightarrow> Some (s, if cursor < char_count s then cursor + 1 else cursor, False)
      | Home \<Rightarrow> Some (s, 0, False)
      | End \<Rightarrow> Some (s, char_count s, False)
      | _ \<Rightarrow> Some (s, cursor, False))"

section \<open>The abstract editor\<close>

definition spec_insert :: "'c list \<Rightarrow> nat \<Rightarrow> 'c list \<Rightarrow> 'c list \<times> nat" where
  "spec_insert new i cs =
     (let j = min i (length cs) in (take j cs @ new @ drop j cs, j + length new))"

definition spec_edit ::
  "string list option \<Rightarrow> string list \<Rightarrow> nat \<Rightarrow> KeyEvent \<Rightarrow> string list \<times> nat" where
  "spec_edit clip cs i key =
     (case code key of
        Char c \<Rightarrow>
          if c = ''v'' \<and> modifiers key = control_only
          then (case clip of None \<Rightarrow> (cs, i) | Some new \<Rightarrow> spec_insert new i cs)
          else spec_insert [c] i cs
      | Backspace \<Rightarrow>
          let j = min i (length cs)
          in if 0 < j then (take (j - 1) cs @ drop j cs, j - 1) else (cs, j)
      | Delete \<Rightarrow> (take i cs @ drop (Suc i) cs, i)
      | KLeft \<Rightarrow> (cs, i - 1)
      | KRight \<Rightarrow> (cs, if i < length cs then i + 1 else i)
      | Home \<Rightarrow> (cs, 0)
      | End \<Rightarrow> (cs, length cs)
      | _ \<Rightarrow> (cs, i))"

section \<open>Byte indices of character positions\<close>

lemma char_to_byte_idx_eq: "char_to_byte_idx s i = length (concat (take i (uchars s)))"
  by (cases "i < char_count s")
    (auto simp: char_to_byte_idx_def char_indices_def get_at_def char_count_def)

text \<open>Cutting at that index cuts the character list.\<close>

lemma take_char_idx: "take (char_to_byte_idx s i) s = concat (take i (uchars s))"
  and drop_char_idx: "drop (char_to_byte_idx s i) s = concat (drop i (uchars s))"
proof -
  have s: "s = concat (take i (uchars s)) @ concat (drop i (uchars s))"
    by (metis append_take_drop_id concat_append concat_uchars)
  show "take (char_to_byte_idx s i) s = concat (take i (uchars s))"
    and "drop (char_to_byte_idx s i) s = concat (drop i (uchars s))"
    using s unfolding char_to_byte_idx_eq by (metis append_eq_conv_conj)+
qed

lemma list_all_take_drop:
  "list_all P xs \<Longrightarrow> list_all P (take n xs)" "list_all P xs \<Longrightarrow> list_all P (drop n xs)"
  by (auto simp: list_all_iff dest: in_set_takeD in_set_dropD)

lemma boundary_char_idx:
  assumes "str_ok s"
  shows "is_char_boundary s (char_to_byte_idx s i)"
proof -
  let ?b = "char_to_byte_idx s i"
  have le: "?b \<le> length s"
    by (metis char_to_byte_idx_eq length_append append_take_drop_id concat_append
        concat_uchars le_add1)
  have "str_ok (drop ?b s)"
    unfolding drop_char_idx using uchars_ok [OF assms] by (simp add: list_all_take_drop)
  then show ?thesis
    using le by (cases "?b < length s")
      (auto simp: is_char_boundary_def Cons_nth_drop_Suc [symmetric])
qed

lemma str_insert_chars:
  assumes "str_ok s" and "list_all uchar new"
  shows "str_insert (char_to_byte_idx s i) (concat new) s
           = Some (concat (take i (uchars s) @ new @ drop i (uchars s)))"
  using boundary_char_idx [OF assms(1)]
  by (simp add: str_insert_def take_char_idx drop_char_idx)

lemma str_remove_chars:
  assumes "str_ok s" and "i < char_count s"
  shows "str_remove (char_to_byte_idx s i) s
           = Some (concat (take i (uchars s) @ drop (Suc i) (uchars s)))"
proof -
  let ?b = "char_to_byte_idx s i"
  define c where "c = uchars s ! i"
  have dr: "drop ?b s = c @ concat (drop (Suc i) (uchars s))"
    using assms(2) by (simp add: drop_char_idx c_def char_count_def Cons_nth_drop_Suc [symmetric])
  have ok: "list_all uchar (uchars s)" by (rule uchars_ok) fact
  then have "uchar c" using assms(2) by (simp add: c_def char_count_def list_all_length)
  then obtain b bs where c: "c = b # bs" "list_all is_cont bs" by (cases c) auto
  have rest: "dropWhile is_cont (concat (drop (Suc i) (uchars s))) = concat (drop (Suc i) (uchars s))"
    using takeWhile_concat_uchar list_all_take_drop(2) [OF ok] by blast
  have lt: "?b < length s"
    using dr c by (metis Cons_eq_appendI drop_all leI list.distinct(1))
  have "drop (Suc ?b) s = bs @ concat (drop (Suc i) (uchars s))"
    using dr c by (metis append_Cons drop_Suc list.sel(3) tl_drop)
  then have "dropWhile is_cont (drop (Suc ?b) s) = concat (drop (Suc i) (uchars s))"
    using c(2) rest by (simp add: list_all_iff)
  then show ?thesis
    using lt boundary_char_idx [OF assms(1)] by (simp add: str_remove_def take_char_idx)
qed

section \<open>The code implements the abstract editor\<close>

lemma uchars_Nil_iff: "uchars s = [] \<longleftrightarrow> s = []"
  by (cases s) auto

lemmas edit_defs = edit_text_field_def spec_edit_def spec_insert_def Let_def

lemma edit_insert_chars:
  assumes "str_ok s" and "list_all uchar new"
  shows "str_insert (char_to_byte_idx s (min i (char_count s))) (concat new) s
           = Some (concat (fst (spec_insert new i (uchars s))))"
    and "uchars (concat (fst (spec_insert new i (uchars s)))) = fst (spec_insert new i (uchars s))"
  using str_insert_chars [OF assms] uchars_ok [OF assms(1)] assms(2)
  by (simp_all add: spec_insert_def Let_def char_count_def list_all_take_drop del: concat_append)

lemma edit_text_field_chars:
  assumes "str_ok s" and "key_ok key" and "\<And>t. clip = Some t \<Longrightarrow> str_ok t"
  shows "edit_text_field clip s i key
    = (case spec_edit (map_option uchars clip) (uchars s) i key of
         (cs, j) \<Rightarrow> Some (concat cs, j, False))
    \<and> uchars (concat (fst (spec_edit (map_option uchars clip) (uchars s) i key)))
      = fst (spec_edit (map_option uchars clip) (uchars s) i key)"
proof (cases "code key")
  case (Char c)
  then have c: "list_all uchar [c]" using assms(2) by (simp add: key_ok_def)
  have snd: "snd (spec_insert new i (uchars s)) = min i (char_count s) + length new" for new :: "string list"
    by (simp add: spec_insert_def Let_def char_count_def)
  show ?thesis
  proof (cases "c = ''v'' \<and> modifiers key = control_only")
    case False
    with Char edit_insert_chars [OF assms(1) c] snd [of "[c]"] show ?thesis
      by (auto simp: edit_text_field_def spec_edit_def Let_def split: prod.splits)
  next
    case True
    show ?thesis
    proof (cases clip)
      case None
      with True Char show ?thesis by (simp add: edit_text_field_def spec_edit_def)
    next
      case (Some t)
      then have t: "list_all uchar (uchars t)" using assms(3) by (simp add: uchars_ok)
      from True Char Some edit_insert_chars [OF assms(1) t] snd [of "uchars t"] show ?thesis
        by (auto simp: edit_text_field_def spec_edit_def Let_def char_count_def split: prod.splits)
    qed
  qed
next
  case Backspace
  let ?j = "min i (char_count s)"
  have ok: "list_all uchar (uchars s)" by (rule uchars_ok) fact
  show ?thesis
  proof (cases "0 < ?j")
    case True
    then have lt: "?j - 1 < char_count s" by linarith
    then have ne: "s \<noteq> []" by (auto simp: char_count_def)
    have rm: "str_remove (char_to_byte_idx s (?j - 1)) s
        = Some (concat (take (?j - 1) (uchars s) @ drop ?j (uchars s)))"
      using str_remove_chars [OF assms(1) lt] True by simp
    have j: "(if i > char_count s then char_count s else i) = ?j" by simp
    show ?thesis
      using rm True ne ok
      by (simp add: Backspace edit_text_field_def spec_edit_def Let_def j list_all_take_drop
          flip: char_count_def del: concat_append)
  next
    case False
    then have "i = 0 \<or> s = []" by (auto simp: char_count_def uchars_Nil_iff)
    with Backspace show ?thesis
      by (auto simp: edit_text_field_def spec_edit_def Let_def char_count_def)
  qed
next
  case Delete
  have ok: "list_all uchar (uchars s)" by (rule uchars_ok) fact
  then show ?thesis
    using str_remove_chars [OF assms(1), of i]
    by (cases "i < char_count s")
      (simp_all add: Delete edit_text_field_def spec_edit_def list_all_take_drop char_count_def
        del: concat_append)
qed (simp_all add: edit_text_field_def spec_edit_def char_count_def)

lemma spec_edit_chars:
  assumes "list_all uchar cs" and "key_ok key" and "\<And>new. clip = Some new \<Longrightarrow> list_all uchar new"
  shows "list_all uchar (fst (spec_edit clip cs i key))"
  using assms
  by (auto simp: spec_edit_def spec_insert_def Let_def key_ok_def list_all_take_drop
      split: KeyCode.splits option.splits)

lemma edit_text_field_total:
  assumes "str_ok s" and "key_ok key" and "\<And>t. clip = Some t \<Longrightarrow> str_ok t"
  obtains s' j where "edit_text_field clip s i key = Some (s', j, False)" and "str_ok s'"
proof -
  have "list_all uchar (fst (spec_edit (map_option uchars clip) (uchars s) i key))"
    using assms by (intro spec_edit_chars) (auto simp: uchars_ok)
  then show ?thesis
    using edit_text_field_chars [where i = i, OF assms] that
    by (cases "spec_edit (map_option uchars clip) (uchars s) i key")
      (simp del: uchars_concat concat_uchars)
qed

text \<open>
  C39: on valid UTF-8 text, with a valid key and clipboard, one keystroke never panics,
  returns false, and acts on the characters exactly as the abstract editor does.
\<close>

theorem edit_text_field_refines:
  assumes "str_ok s" and "key_ok key" and "\<And>t. clip = Some t \<Longrightarrow> str_ok t"
  shows "edit_text_field clip s i key
    = (case spec_edit (map_option uchars clip) (uchars s) i key of
         (cs, j) \<Rightarrow> Some (concat cs, j, False))
    \<and> uchars (concat (fst (spec_edit (map_option uchars clip) (uchars s) i key)))
      = fst (spec_edit (map_option uchars clip) (uchars s) i key)"
  by (rule edit_text_field_chars [OF assms])

theorem edit_text_field_refines_witness:
  "edit_text_field (Some ''b'') ''ac'' 1 \<lparr>code = Char ''v'', modifiers = control_only\<rparr>
    = (case spec_edit (map_option uchars (Some ''b'')) (uchars ''ac'') 1
         \<lparr>code = Char ''v'', modifiers = control_only\<rparr> of (cs, j) \<Rightarrow> Some (concat cs, j, False))
    \<and> uchars (concat (fst (spec_edit (map_option uchars (Some ''b'')) (uchars ''ac'') 1
          \<lparr>code = Char ''v'', modifiers = control_only\<rparr>)))
      = fst (spec_edit (map_option uchars (Some ''b'')) (uchars ''ac'') 1
          \<lparr>code = Char ''v'', modifiers = control_only\<rparr>)"
  by (rule edit_text_field_refines) (auto simp: key_ok_def is_cont_def)

end
