(* ===== verification/World.thy ===== *)
theory World
  imports AppRouting Config Commands Keymap TextEdit
begin

text \<open>
  What the handlers of keyboard, mouse and core events work on: the interface state, the
  configuration, the current theme, and the outputs in the order they are made (commands sent to
  the core, files written, clipboard).  What the outside answers is the record \<open>Env\<close>; a result
  of \<open>Some e\<close> is the error \<open>e\<close>; the last three fields are the rounding of floats and the
  iteration order of hash maps.  A handler that can panic returns \<open>None\<close> for it.
\<close>

datatype Output =
    Send Command
  | SaveConfig AppConfig
  | SetClipboard string
  | RefreshPublicIp nat
  | ConfigureLogger bool string
  | ClearTuiLog
  | ClearCoreLogs
  | SetupSystemd
  | TeardownSystemd

datatype ClipResult = ClipOk | ClipSetFailed string | ClipUnavailable string

record Env =
  e_lc :: "string \<Rightarrow> string"
  e_fs :: LogFs
  e_clipboard :: "string option"
  e_set_clipboard :: "string \<Rightarrow> ClipResult"
  e_save :: "AppConfig \<Rightarrow> string option"
  e_send :: "Command \<Rightarrow> string option"
  e_details_lines :: "App \<Rightarrow> nat"
  e_setup_systemd :: "string option"
  e_teardown_systemd :: "string option"
  e_clear_tui :: "string option"
  e_clear_core_failed :: nat
  e_core_path :: string
  e_has_cap_net :: bool
  e_rnd :: "int \<Rightarrow> real"
  e_profile_order :: "Profile list \<Rightarrow> Profile list"
  e_group_order :: "GroupWithProfiles list \<Rightarrow> GroupWithProfiles list"

record World =
  w_app :: App
  w_cfg :: AppConfig
  w_theme :: nat
  w_out :: "Output list"

definition on_app :: "(App \<Rightarrow> App) \<Rightarrow> World \<Rightarrow> World" where
  "on_app f w = w\<lparr>w_app := f (w_app w)\<rparr>"

definition on_cfg :: "(AppConfig \<Rightarrow> AppConfig) \<Rightarrow> World \<Rightarrow> World" where
  "on_cfg f w = w\<lparr>w_cfg := f (w_cfg w)\<rparr>"

definition emit :: "Output \<Rightarrow> World \<Rightarrow> World" where
  "emit ev w = w\<lparr>w_out := w_out w @ [ev]\<rparr>"

abbreviation send :: "Command \<Rightarrow> World \<Rightarrow> World" where
  "send c \<equiv> emit (Send c)"

definition msg :: "string \<Rightarrow> World \<Rightarrow> World" where
  "msg text = on_app (set_msg text)"

text \<open>\<open>config::save\_config\<close> only logs a failure, \<open>save\<close> of \<open>input/settings.rs\<close> tells the user.\<close>

definition save_config :: "World \<Rightarrow> World" where
  "save_config w = emit (SaveConfig (w_cfg w)) w"

definition save :: "Env \<Rightarrow> World \<Rightarrow> bool \<times> World" where
  "save env w =
     (case e_save env (w_cfg w) of
        None \<Rightarrow> (True, save_config w)
      | Some e \<Rightarrow> (False, msg (''Config not saved: '' @ e) (save_config w)))"

definition open_popup :: "Popup \<Rightarrow> World \<Rightarrow> World" where
  "open_popup p = on_app (\<lambda>a. a\<lparr>popup := Some p, focus := PopupFocus\<rparr>)"

definition set_popup :: "Popup option \<Rightarrow> World \<Rightarrow> World" where
  "set_popup p = on_app (\<lambda>a. a\<lparr>popup := p\<rparr>)"

definition set_focus :: "Focus \<Rightarrow> World \<Rightarrow> World" where
  "set_focus f = on_app (\<lambda>a. a\<lparr>focus := f\<rparr>)"

definition close_popup :: "World \<Rightarrow> World" where
  "close_popup = on_app (\<lambda>a. a\<lparr>popup := None, focus := LeftPanel\<rparr>)"

definition set_routing_popup :: "RoutingPopup option \<Rightarrow> World \<Rightarrow> World" where
  "set_routing_popup p = on_app (\<lambda>a. a\<lparr>routing_popup := p\<rparr>)"

lemmas world_defs = on_app_def on_cfg_def emit_def msg_def save_config_def open_popup_def
  set_popup_def set_focus_def close_popup_def set_routing_popup_def

section \<open>Themes\<close>

text \<open>Ids and names of \<open>THEMES\<close> in \<open>src/ui/theme.rs\<close>; their colours are in \<open>Draw\<close>.\<close>

definition THEMES :: "(string \<times> string) list" where
  "THEMES = [(''graphite-dark'', ''Graphite Dark''), (''graphite-light'', ''Graphite Light''),
     (''tokyo-night'', ''Tokyo Night''), (''dracula'', ''Dracula'')]"

definition current_theme :: "nat \<Rightarrow> string \<times> string" where
  "current_theme idx = THEMES ! min idx (length THEMES - 1)"

definition set_theme :: "string \<Rightarrow> nat \<Rightarrow> bool \<times> nat" where
  "set_theme name idx =
     (case position (\<lambda>t. eq_ignore_ascii_case (fst t) name \<or> eq_ignore_ascii_case (snd t) name) THEMES of
        Some i \<Rightarrow> (True, i)
      | None \<Rightarrow> (False, idx))"

definition cycle_theme :: "nat \<Rightarrow> nat" where
  "cycle_theme cur = (cur + 1) mod length THEMES"

definition cycle_theme_prev :: "nat \<Rightarrow> nat" where
  "cycle_theme_prev cur = (if cur = 0 then length THEMES - 1 else cur - 1)"

end
