(* ===== verification/CliSettings.thy ===== *)
theory CliSettings
  imports CliProfiles World
begin

text \<open>
  \<open>src/cli/commands/settings.rs\<close>: the settings of the client and of the core under one set of names.
  All assignments are checked before the first one is carried out; the ones of the core come before
  the local ones, which are written in one go.
\<close>

section \<open>Names and values\<close>

definition CORE_KEYS :: "string list" where
  "CORE_KEYS =
     [''kill-switch'', ''split-tunnel'', ''autoconnect'', ''autoconnect-profile'', ''autoconnect-mode'',
      ''tun-name'', ''hwid-enabled'', ''user-agent'', ''test.concurrency'', ''test.timeout'',
      ''test.samples'', ''test.endpoint'', ''test.auto-on-subscribe'']"

definition READONLY_KEYS :: "string list" where
  "READONLY_KEYS = [''kill-switch-armed'']"

definition LOCAL_KEYS :: "string list" where
  "LOCAL_KEYS =
     [''theme'', ''show-ip'', ''log-enabled'', ''log-level'', ''terminal'', ''test-method'',
      ''check-updates'', ''core.host'', ''core.port'', ''core.use-tcp'', ''core.socket'']"

definition is_core_key :: "string \<Rightarrow> bool" where
  "is_core_key k \<longleftrightarrow> k \<in> set CORE_KEYS"

definition BOOL_KEYS :: "string list" where
  "BOOL_KEYS =
     [''kill-switch'', ''autoconnect'', ''hwid-enabled'', ''test.auto-on-subscribe'', ''show-ip'',
      ''log-enabled'', ''check-updates'', ''core.use-tcp'']"

definition is_bool_key :: "string \<Rightarrow> bool" where
  "is_bool_key k \<longleftrightarrow> k \<in> set BOOL_KEYS"

definition canonical_key :: "string \<Rightarrow> CliError + string" where
  "canonical_key key =
     (let key = trim key;
          key = (if key = ''killswitch'' \<or> key = ''kill_switch'' then ''kill-switch'' else key)
      in if is_core_key key \<or> key \<in> set READONLY_KEYS \<or> key \<in> set LOCAL_KEYS then Inr key
         else Inl (Usage (''unknown setting '' @ quoted key @
           (case find (\<lambda>k. str_contains key k \<or> str_contains k key) (CORE_KEYS @ LOCAL_KEYS) of
              Some k \<Rightarrow> ''; did you mean '' @ quoted k @ ''?'' | None \<Rightarrow> []))))"

definition parse_bool :: "(string \<Rightarrow> string) \<Rightarrow> string \<Rightarrow> CliError + bool" where
  "parse_bool lc value =
     (let v = lc value
      in if v \<in> {''true'', ''on'', ''1'', ''yes''} then Inr True
         else if v \<in> {''false'', ''off'', ''0'', ''no''} then Inr False
         else Inl (Usage (''expected a boolean, got '' @ quoted value)))"

definition validate_int :: "string \<Rightarrow> int \<Rightarrow> int \<Rightarrow> string \<Rightarrow> CliError option" where
  "validate_int value lo hi key =
     (case parse_i64 value of
        None \<Rightarrow> Some (Usage (key @ '' must be an integer''))
      | Some n \<Rightarrow>
          if n < lo \<or> n > hi
          then Some (Usage (key @ '' must be in '' @ show_int lo @ ''..'' @ show_int hi)) else None)"

definition is_alpha :: "char \<Rightarrow> bool" where
  "is_alpha b \<longleftrightarrow> (65::nat) \<le> of_char b \<and> of_char b \<le> (90::nat) \<or> (97::nat) \<le> of_char b \<and> of_char b \<le> (122::nat)"

definition tun_name_ok :: "string \<Rightarrow> bool" where
  "tun_name_ok v \<longleftrightarrow> v \<noteq> [] \<and> length v \<le> 15 \<and> is_alpha (hd v) \<and>
     list_all (\<lambda>b. is_alpha b \<or> is_digit b \<or> b = CHR ''_'' \<or> b = CHR ''-'') v"

definition theme_known :: "string \<Rightarrow> bool" where
  "theme_known v \<longleftrightarrow> list_ex (\<lambda>t. fst t = v \<or> eq_ignore_ascii_case (snd t) v) THEMES"

definition LOG_LEVELS :: "string list" where
  "LOG_LEVELS = [''error'', ''warn'', ''info'', ''debug'', ''trace'']"

definition TEST_METHODS :: "string list" where
  "TEST_METHODS = [''tcp'', ''http-get'', ''http-head'']"

definition one_of :: "string list \<Rightarrow> string \<Rightarrow> string \<Rightarrow> CliError option" where
  "one_of vs v err = (if v \<in> set vs then None else Some (Usage err))"

definition bool_error :: "(string \<Rightarrow> string) \<Rightarrow> string \<Rightarrow> CliError option" where
  "bool_error lc v = (case parse_bool lc v of Inl e \<Rightarrow> Some e | Inr _ \<Rightarrow> None)"

definition validate :: "(string \<Rightarrow> string) \<Rightarrow> string \<Rightarrow> string \<Rightarrow> CliError option" where
  "validate lc key v =
     (if is_bool_key key then bool_error lc v
      else if key = ''split-tunnel'' then
        one_of [''off'', ''exclude'', ''include''] v (''split-tunnel must be off|exclude|include, got '' @ quoted v)
      else if key = ''autoconnect-mode'' then
        one_of [''proxy'', ''tun''] v (''autoconnect-mode must be proxy|tun, got '' @ quoted v)
      else if key = ''tun-name'' then
        (if tun_name_ok v then None
         else Some (Usage ''tun-name must start with a letter and match [a-zA-Z0-9_-]{0,14}''))
      else if key = ''test.concurrency'' then validate_int v 1 64 key
      else if key = ''test.timeout'' then validate_int v 1 120 key
      else if key = ''test.samples'' then validate_int v 1 10 key
      else if key = ''test.endpoint'' then
        (if starts_with ''http://'' v \<or> starts_with ''https://'' v then None
         else Some (Usage ''test.endpoint must be an http(s) URL''))
      else if key = ''theme'' then
        (if theme_known v then None else Some (Usage (''unknown theme '' @ quoted v)))
      else if key = ''log-level'' then one_of LOG_LEVELS v (''invalid log level '' @ quoted v)
      else if key = ''test-method'' then one_of TEST_METHODS v (''invalid test method '' @ quoted v)
      else if key = ''core.port'' then validate_int v 1 65535 key
      else if key \<in> {''autoconnect-profile'', ''user-agent'', ''core.host'', ''core.socket'', ''terminal''}
        then None
      else Some (Usage (''unknown setting '' @ quoted key)))"

section \<open>Reading\<close>

definition local_value :: "AppConfig \<Rightarrow> string \<Rightarrow> json option" where
  "local_value c key =
     (if key = ''theme'' then Some (JStr (c_theme c))
      else if key = ''show-ip'' then Some (JBool (c_show_ip c))
      else if key = ''log-enabled'' then Some (JBool (c_log_enabled c))
      else if key = ''log-level'' then Some (JStr (c_log_level c))
      else if key = ''terminal'' then Some (JStr (c_terminal c))
      else if key = ''test-method'' then Some (JStr (c_test_method c))
      else if key = ''check-updates'' then Some (JBool (c_check_updates c))
      else if key = ''core.host'' then Some (JStr (c_core_host c))
      else if key = ''core.port'' then Some (JInt (int (c_core_tcp_port c)))
      else if key = ''core.use-tcp'' then Some (JBool (c_use_tcp c))
      else if key = ''core.socket'' then Some (JStr (c_ipc_socket_path c))
      else None)"

fun json_get :: "string \<Rightarrow> json \<Rightarrow> json option" where
  "json_get k (JObj fs) = map_of fs k"
| "json_get k _ = None"

text \<open>\<open>as i32\<close> keeps the low 32 bits.\<close>

definition wrap_i32 :: "int \<Rightarrow> i32" where
  "wrap_i32 n = (n + 2 ^ 31) mod 2 ^ 32 - 2 ^ 31"

text \<open>The file \<open>config.json\<close> of the core: \<open>None\<close> when it cannot be read or is not JSON.\<close>

definition autoconnect_config_json :: "json option \<Rightarrow> bool \<times> i32 \<times> i32 \<times> string" where
  "autoconnect_config_json file =
     (case file of
        None \<Rightarrow> (False, 0, 0, ''proxy'')
      | Some v \<Rightarrow>
          (let field = (\<lambda>d k e. case Option.bind (json_get k v) d of None \<Rightarrow> e | Some x \<Rightarrow> x)
           in ((case Option.bind (json_get ''autoconnect-enabled'' v) dec_bool of None \<Rightarrow> False | Some b \<Rightarrow> b),
               wrap_i32 (field dec_i64 ''autoconnect-group-id'' 0),
               wrap_i32 (field dec_i64 ''autoconnect-profile-id'' 0),
               (case Option.bind (json_get ''autoconnect-mode'' v) dec_str of
                  None \<Rightarrow> ''proxy'' | Some m \<Rightarrow> m))))"

definition core_value :: "json option \<Rightarrow> ApplicationState \<Rightarrow> string \<Rightarrow> json option" where
  "core_value file st key =
     (case autoconnect_config_json file of (_, grp, profile, _) \<Rightarrow>
     (let tc = as_test_config st in
      if key = ''kill-switch'' then Some (JBool (as_kill_switch st))
      else if key = ''kill-switch-armed'' then Some (JBool (as_kill_switch_armed st))
      else if key = ''split-tunnel'' then Some (JStr (as_split_tunnel st))
      else if key = ''autoconnect'' then Some (JBool (ac_enabled (as_autoconnect st)))
      else if key = ''autoconnect-profile'' then
        Some (if grp = 0 \<or> profile = 0 then JNull else JStr (show_int grp @ '':'' @ show_int profile))
      else if key = ''autoconnect-mode'' then Some (JStr (ac_mode (as_autoconnect st)))
      else if key = ''tun-name'' then Some (JStr (as_tun_name st))
      else if key = ''hwid-enabled'' then
        Some (JBool (case as_hwid_info st of None \<Rightarrow> False | Some h \<Rightarrow> hw_enabled h))
      else if key = ''user-agent'' then
        Some (JStr (case as_hwid_info st of None \<Rightarrow> [] | Some h \<Rightarrow> hw_user_agent h))
      else if key = ''test.concurrency'' then Some (JInt (tc_concurrency tc))
      else if key = ''test.timeout'' then Some (JInt (tc_timeout_seconds tc))
      else if key = ''test.samples'' then Some (JInt (tc_samples_per_test tc))
      else if key = ''test.endpoint'' then Some (JStr (tc_test_endpoint tc))
      else if key = ''test.auto-on-subscribe'' then Some (JBool (tc_auto_test_on_subscribe tc))
      else None))"

definition source_of :: "string \<Rightarrow> string" where
  "source_of key = (if key = ''autoconnect-profile'' then ''core-config'' else ''core'')"

fun value_label :: "json \<Rightarrow> string" where
  "value_label (JStr s) = s"
| "value_label JNull = em_dash"
| "value_label (JBool b) = bool_text b"
| "value_label (JInt n) = show_int n"
| "value_label (JFloat t) = t"
| "value_label (JArr _) = []"
| "value_label (JObj _) = []"

definition setting_json :: "string \<times> json \<times> string \<Rightarrow> json" where
  "setting_json e = JObj [(''key'', JStr (fst e)), (''value'', fst (snd e)), (''source'', JStr (snd (snd e)))]"

definition entries :: "(string \<Rightarrow> json option) \<Rightarrow> (string \<Rightarrow> string) \<Rightarrow> string list \<Rightarrow> (string \<times> json \<times> string) list" where
  "entries value src keys =
     List.map_filter (\<lambda>k. map_option (\<lambda>v. (k, v, src k)) (value k)) keys"

definition core_entries :: "CliEnv \<Rightarrow> GlobalArgs \<Rightarrow> (string \<times> json \<times> string) list cli" where
  "core_entries env g s =
     (case session_open env g s of
        (Inl _, s) \<Rightarrow> (Inr (map (\<lambda>k. (k, JStr ''unknown'', ''core'')) (CORE_KEYS @ READONLY_KEYS)), s)
      | (Inr (), s) \<Rightarrow>
          andThen (session_state env) (\<lambda>st.
            ret (entries (core_value (ce_config_json env) st) source_of CORE_KEYS
                 @ entries (core_value (ce_config_json env) st) (\<lambda>_. ''core'') READONLY_KEYS)) s)"

definition settings_list :: "CliEnv \<Rightarrow> GlobalArgs \<Rightarrow> unit cli" where
  "settings_list env g =
     andThen (get_cli cl_file) (\<lambda>cfg.
     andThen (core_entries env g) (\<lambda>core.
     (let all = entries (local_value cfg) (\<lambda>_. ''local'') LOCAL_KEYS @ core
      in if gl_json g then out_json (JArr (map setting_json all))
         else print_lines (map (\<lambda>(k, v, src). k @ ''='' @ value_label v @ ''  # '' @ src) all))))"

definition no_value :: "string \<Rightarrow> CliError" where
  "no_value key = Usage (''no value for '' @ quoted key)"

definition show_setting :: "GlobalArgs \<Rightarrow> string \<Rightarrow> json option \<Rightarrow> string \<Rightarrow> unit cli" where
  "show_setting g key value src =
     (case value of
        None \<Rightarrow> fail (no_value key)
      | Some v \<Rightarrow> if gl_json g then out_json (setting_json (key, v, src)) else println (value_label v))"

definition settings_get :: "CliEnv \<Rightarrow> GlobalArgs \<Rightarrow> string \<Rightarrow> unit cli" where
  "settings_get env g key =
     andThen (lift (canonical_key key)) (\<lambda>key.
     andThen (get_cli cl_file) (\<lambda>cfg.
     if key \<in> set LOCAL_KEYS then show_setting g key (local_value cfg key) ''local''
     else
       andThen (session_open env g) (\<lambda>_.
       andThen (session_state env) (\<lambda>st.
       show_setting g key (core_value (ce_config_json env) st key) (source_of key)))))"

section \<open>Settings of the core\<close>

definition apply_kill_switch :: "CliEnv \<Rightarrow> GlobalArgs \<Rightarrow> string \<Rightarrow> bool \<Rightarrow> unit cli" where
  "apply_kill_switch env g v force =
     andThen (lift (parse_bool (ce_lc env) v)) (\<lambda>want.
     andThen (require (\<not> (force \<and> want)) (Usage ''--force only applies to `kill-switch=false`'')) (\<lambda>_.
     andThen (session_request env ''set-kill-switch''
       (enc_set_kill_switch_data \<lparr>sks_enabled = want, sks_force = force, sks_armed = False\<rparr>)
       dec_set_kill_switch_data (ReplyId [''kill-switch-updated''] [])) (\<lambda>reply.
     if sks_enabled reply \<noteq> want then
       andThen (flush_warnings g) (\<lambda>_.
       fail (CoreError (if want then ''kill-switch was not armed; see core.log''
                        else ''kill-switch was not disarmed; see core.log'')))
     else
       andThen (save_cfg env (\<lambda>c. c\<lparr>c_kill_switch_enabled := sks_enabled reply\<rparr>)) (\<lambda>_.
       out_line g (''kill-switch='' @ bool_text (sks_enabled reply) @ '' armed='' @ bool_text (sks_armed reply))))))"

definition apply_split_tunnel :: "CliEnv \<Rightarrow> GlobalArgs \<Rightarrow> string \<Rightarrow> unit cli" where
  "apply_split_tunnel env g v =
     andThen (session_request env ''set-split-tunnel'' (enc_set_split_tunnel_data \<lparr>sst_mode = v\<rparr>)
       dec_set_split_tunnel_data (ReplyId [''split-tunnel-updated''] [])) (\<lambda>reply.
     if sst_mode reply \<noteq> v then
       andThen (flush_warnings g) (\<lambda>_.
       fail (CoreError (''split-tunnel was not applied; current mode is '' @ quoted (sst_mode reply))))
     else out_line g (''split-tunnel='' @ sst_mode reply))"

definition autoconnect_current ::
  "json option \<Rightarrow> AppConfig \<Rightarrow> ApplicationState \<Rightarrow> bool \<times> i32 \<times> i32 \<times> string" where
  "autoconnect_current file cfg st =
     (case autoconnect_config_json file of (_, grp, profile, mode) \<Rightarrow>
       (ac_enabled (as_autoconnect st),
        (if grp \<noteq> 0 then grp else c_last_group_id cfg),
        (if profile \<noteq> 0 then profile else c_last_profile_id cfg),
        (if mode = [] then (if ac_mode (as_autoconnect st) = [] then ''proxy'' else ac_mode (as_autoconnect st))
         else mode)))"

definition autoconnect_wanted ::
  "(string \<Rightarrow> string) \<Rightarrow> ApplicationState \<Rightarrow> string \<Rightarrow> string \<Rightarrow> bool \<times> i32 \<times> i32 \<times> string
   \<Rightarrow> CliError + bool \<times> i32 \<times> i32 \<times> string" where
  "autoconnect_wanted lc st key v cur =
     (case cur of (enabled, gi, pr, mode) \<Rightarrow>
       if key = ''autoconnect'' then
         (case parse_bool lc v of Inl e \<Rightarrow> Inl e | Inr b \<Rightarrow> Inr (b, gi, pr, mode))
       else if key = ''autoconnect-mode'' then Inr (enabled, gi, pr, v)
       else (case find_profile lc (as_groups st) v None of
               Inl e \<Rightarrow> Inl e
             | Inr (gr, p) \<Rightarrow> Inr (enabled, g_id gr, p_id p, mode)))"

definition apply_autoconnect :: "CliEnv \<Rightarrow> GlobalArgs \<Rightarrow> string \<Rightarrow> string \<Rightarrow> unit cli" where
  "apply_autoconnect env g key v =
     andThen (session_state env) (\<lambda>st.
     andThen (get_cli cl_cfg) (\<lambda>cfg.
     andThen (lift (autoconnect_wanted (ce_lc env) st key v
       (autoconnect_current (ce_config_json env) cfg st))) (\<lambda>(enabled, gid, pid, mode).
     andThen (require (\<not> (enabled \<and> (gid = 0 \<or> pid = 0)))
       (Usage ''autoconnect needs a profile; set autoconnect-profile=<selector>'')) (\<lambda>_.
     andThen (session_request env ''set-autoconnect''
       (enc_set_autoconnect_data
          \<lparr>sad_enabled = enabled, sad_group_id = gid, sad_profile_id = pid, sad_mode = mode\<rparr>)
       dec_autoconnect_info (ReplyId [''autoconnect-updated''] [])) (\<lambda>reply.
     andThen (require (ac_enabled reply = enabled) (CoreError ''autoconnect was not applied'')) (\<lambda>_.
     andThen (save_cfg env (\<lambda>c. c\<lparr>c_autoconnect := ac_enabled reply\<rparr>)) (\<lambda>_.
     out_line g (''autoconnect='' @ bool_text (ac_enabled reply) @ '' profile='' @ show_int gid @ '':'' @
       show_int pid @ '' mode='' @ ac_mode reply))))))))"

definition apply_tun_name :: "CliEnv \<Rightarrow> GlobalArgs \<Rightarrow> string \<Rightarrow> unit cli" where
  "apply_tun_name env g v =
     andThen (session_request env ''set-tun-name'' (enc_set_tun_name_data \<lparr>stn_tun_name = v\<rparr>)
       dec_set_tun_name_data (ReplyId [''tun-name-updated''] [''set-tun-name-failed''])) (\<lambda>reply.
     andThen (save_cfg env (\<lambda>c. c\<lparr>c_tun_name := stn_tun_name reply\<rparr>)) (\<lambda>_.
     out_line g (''tun-name='' @ stn_tun_name reply)))"

definition set_hwid_request :: "CliEnv \<Rightarrow> bool option \<Rightarrow> string option \<Rightarrow> HwidData cli" where
  "set_hwid_request env enabled ua =
     session_request env ''set-hwid''
       (enc_set_hwid_data \<lparr>sh_enabled = enabled, sh_user_agent = ua, sh_reset = False\<rparr>)
       dec_hwid (ReplyId [''hwid-updated''] [])"

definition apply_hwid_enabled :: "CliEnv \<Rightarrow> GlobalArgs \<Rightarrow> string \<Rightarrow> unit cli" where
  "apply_hwid_enabled env g v =
     andThen (lift (parse_bool (ce_lc env) v)) (\<lambda>want.
     andThen (set_hwid_request env (Some want) None) (\<lambda>reply.
     out_line g (''hwid-enabled='' @ bool_text (hw_enabled reply))))"

definition apply_user_agent :: "CliEnv \<Rightarrow> GlobalArgs \<Rightarrow> string \<Rightarrow> unit cli" where
  "apply_user_agent env g v =
     andThen (set_hwid_request env None (Some v)) (\<lambda>reply.
     out_line g (''user-agent='' @ hw_user_agent reply))"

definition int_field :: "string \<Rightarrow> string \<Rightarrow> CliError + i32" where
  "int_field key v = (case parse_i32 v of None \<Rightarrow> Inl (Usage (key @ '' must be an integer'')) | Some n \<Rightarrow> Inr n)"

definition map_ok :: "('a \<Rightarrow> 'b) \<Rightarrow> 'e + 'a \<Rightarrow> 'e + 'b" where
  "map_ok f r = (case r of Inl e \<Rightarrow> Inl e | Inr x \<Rightarrow> Inr (f x))"

definition changed_test_config ::
  "(string \<Rightarrow> string) \<Rightarrow> string \<Rightarrow> string \<Rightarrow> TestConfig \<Rightarrow> CliError + TestConfig" where
  "changed_test_config lc key v c =
     (if key = ''test.concurrency'' then map_ok (\<lambda>n. c\<lparr>tc_concurrency := n\<rparr>) (int_field key v)
      else if key = ''test.timeout'' then map_ok (\<lambda>n. c\<lparr>tc_timeout_seconds := n\<rparr>) (int_field key v)
      else if key = ''test.samples'' then map_ok (\<lambda>n. c\<lparr>tc_samples_per_test := n\<rparr>) (int_field key v)
      else if key = ''test.endpoint'' then Inr (c\<lparr>tc_test_endpoint := v\<rparr>)
      else map_ok (\<lambda>b. c\<lparr>tc_auto_test_on_subscribe := b\<rparr>) (parse_bool lc v))"

definition apply_test_setting :: "CliEnv \<Rightarrow> GlobalArgs \<Rightarrow> string \<Rightarrow> string \<Rightarrow> unit cli" where
  "apply_test_setting env g key v =
     andThen (session_state env) (\<lambda>st.
     andThen (lift (changed_test_config (ce_lc env) key v (as_test_config st))) (\<lambda>c.
     andThen (store_test_config env c) (\<lambda>_.
     out_line g (key @ ''='' @ v))))"

definition apply_core :: "CliEnv \<Rightarrow> GlobalArgs \<Rightarrow> bool \<Rightarrow> string \<Rightarrow> string \<Rightarrow> unit cli" where
  "apply_core env g force key v =
     (if key = ''kill-switch'' then apply_kill_switch env g v force
      else if key = ''split-tunnel'' then apply_split_tunnel env g v
      else if key \<in> {''autoconnect'', ''autoconnect-profile'', ''autoconnect-mode''}
        then apply_autoconnect env g key v
      else if key = ''tun-name'' then apply_tun_name env g v
      else if key = ''hwid-enabled'' then apply_hwid_enabled env g v
      else if key = ''user-agent'' then apply_user_agent env g v
      else if key \<in> {''test.concurrency'', ''test.timeout'', ''test.samples'', ''test.endpoint'',
                      ''test.auto-on-subscribe''}
        then apply_test_setting env g key v
      else fail (Usage (''unknown core setting '' @ quoted key)))"

section \<open>Settings of the client\<close>

definition apply_local :: "(string \<Rightarrow> string) \<Rightarrow> string \<Rightarrow> string \<Rightarrow> AppConfig \<Rightarrow> CliError + AppConfig" where
  "apply_local lc key v c =
     (if key = ''theme'' then
        (if theme_known v then Inr (c\<lparr>c_theme := v\<rparr>) else Inl (Usage (''unknown theme '' @ quoted v)))
      else if key = ''show-ip'' then map_ok (\<lambda>b. c\<lparr>c_show_ip := b\<rparr>) (parse_bool lc v)
      else if key = ''log-enabled'' then map_ok (\<lambda>b. c\<lparr>c_log_enabled := b\<rparr>) (parse_bool lc v)
      else if key = ''log-level'' then
        (if v \<in> set LOG_LEVELS then Inr (c\<lparr>c_log_level := v\<rparr>) else Inl (Usage (''invalid log level '' @ quoted v)))
      else if key = ''terminal'' then Inr (c\<lparr>c_terminal := trim v\<rparr>)
      else if key = ''check-updates'' then map_ok (\<lambda>b. c\<lparr>c_check_updates := b\<rparr>) (parse_bool lc v)
      else if key = ''test-method'' then
        (if v \<in> set TEST_METHODS then Inr (c\<lparr>c_test_method := v\<rparr>)
         else Inl (Usage (''invalid test method '' @ quoted v)))
      else if key = ''core.host'' then Inr (c\<lparr>c_core_host := v\<rparr>)
      else if key = ''core.port'' then
        (case parse_unsigned 16 v of
           None \<Rightarrow> Inl (Usage ''core.port must be 1..65535'') | Some p \<Rightarrow> Inr (c\<lparr>c_core_tcp_port := p\<rparr>))
      else if key = ''core.use-tcp'' then map_ok (\<lambda>b. c\<lparr>c_use_tcp := b\<rparr>) (parse_bool lc v)
      else if key = ''core.socket'' then Inr (c\<lparr>c_ipc_socket_path := v\<rparr>)
      else Inl (Usage (''unknown local setting '' @ quoted key)))"

fun apply_locals :: "(string \<Rightarrow> string) \<Rightarrow> (string \<times> string) list \<Rightarrow> AppConfig \<Rightarrow> CliError + AppConfig" where
  "apply_locals lc [] c = Inr c"
| "apply_locals lc ((k, v) # kvs) c =
     (case apply_local lc k v c of Inl e \<Rightarrow> Inl e | Inr c \<Rightarrow> apply_locals lc kvs c)"

text \<open>\<open>config::try\_save\_config\<close> on the configuration that was read just before.\<close>

definition try_save :: "CliEnv \<Rightarrow> AppConfig \<Rightarrow> unit cli" where
  "try_save env cfg s =
     (case ce_save env cfg of
        Some e \<Rightarrow> (Inl (IoFailed e), s) | None \<Rightarrow> (Inr (), s\<lparr>cl_file := cfg\<rparr>))"

section \<open>The command\<close>

definition parse_assignment :: "(string \<Rightarrow> string) \<Rightarrow> string \<Rightarrow> CliError + (string \<times> string)" where
  "parse_assignment lc pair =
     (case split_once (CHR ''='') pair of
        None \<Rightarrow> Inl (Usage (''expected KEY=VALUE, got '' @ quoted pair))
      | Some (key, v) \<Rightarrow>
          (case canonical_key key of
             Inl e \<Rightarrow> Inl e
           | Inr key \<Rightarrow>
               if key \<in> set READONLY_KEYS then Inl (Usage (quoted key @ '' is read-only''))
               else (case validate lc key v of Some e \<Rightarrow> Inl e | None \<Rightarrow> Inr (key, v))))"

fun parse_assignments :: "(string \<Rightarrow> string) \<Rightarrow> string list \<Rightarrow> CliError + (string \<times> string) list" where
  "parse_assignments lc [] = Inr []"
| "parse_assignments lc (a # as) =
     (case parse_assignment lc a of
        Inl e \<Rightarrow> Inl e
      | Inr kv \<Rightarrow> map_ok ((#) kv) (parse_assignments lc as))"

fun each :: "('a \<Rightarrow> unit cli) \<Rightarrow> 'a list \<Rightarrow> unit cli" where
  "each f [] = ret ()"
| "each f (x # xs) = andThen (f x) (\<lambda>_. each f xs)"

definition apply_core_jobs :: "CliEnv \<Rightarrow> GlobalArgs \<Rightarrow> bool \<Rightarrow> (string \<times> string) list \<Rightarrow> unit cli" where
  "apply_core_jobs env g force jobs =
     (if jobs = [] then ret ()
      else andThen (open_or_spawn env g) (\<lambda>_.
           andThen (each (\<lambda>(k, v). apply_core env g force k v) jobs) (\<lambda>_.
           flush_warnings g)))"

definition apply_local_jobs :: "CliEnv \<Rightarrow> GlobalArgs \<Rightarrow> (string \<times> string) list \<Rightarrow> unit cli" where
  "apply_local_jobs env g jobs =
     (if jobs = [] then ret ()
      else andThen (get_cli cl_file) (\<lambda>cfg.
           andThen (lift (apply_locals (ce_lc env) jobs cfg)) (\<lambda>cfg.
           andThen (try_save env cfg) (\<lambda>_.
           each (\<lambda>(k, v). out_line g (k @ ''='' @ v)) jobs))))"

definition set_values :: "CliEnv \<Rightarrow> GlobalArgs \<Rightarrow> string list \<Rightarrow> bool \<Rightarrow> unit cli" where
  "set_values env g assignments force =
     andThen (require (assignments \<noteq> []) (Usage ''expected KEY=VALUE (see `whoisthat settings list`)'')) (\<lambda>_.
     andThen (require (\<not> (force \<and> length assignments \<noteq> 1))
       (Usage ''--force only applies to a single `kill-switch=false` assignment'')) (\<lambda>_.
     andThen (lift (parse_assignments (ce_lc env) assignments)) (\<lambda>parsed.
     andThen (require (\<not> (force \<and> parsed \<noteq> [(''kill-switch'', ''false'')]))
       (Usage ''--force only applies to `kill-switch=false`'')) (\<lambda>_.
     andThen (apply_core_jobs env g force (filter (\<lambda>kv. is_core_key (fst kv)) parsed)) (\<lambda>_.
     andThen (apply_local_jobs env g (filter (\<lambda>kv. \<not> is_core_key (fst kv)) parsed)) (\<lambda>_.
     if gl_json g
     then out_json (JObj [(''ok'', JBool True), (''applied'',
            JArr (map (\<lambda>(k, v). JObj [(''key'', JStr k), (''value'', JStr v)]) parsed))])
     else ret ()))))))"

definition as_bool :: "json option \<Rightarrow> bool" where
  "as_bool j = (case Option.bind j dec_bool of None \<Rightarrow> False | Some b \<Rightarrow> b)"

definition settings_toggle :: "CliEnv \<Rightarrow> GlobalArgs \<Rightarrow> string \<Rightarrow> unit cli" where
  "settings_toggle env g key =
     andThen (lift (canonical_key key)) (\<lambda>key.
     andThen (require (is_bool_key key) (Usage (quoted key @ '' is not a boolean setting''))) (\<lambda>_.
     andThen
       (if key \<in> set LOCAL_KEYS
        then andThen (get_cli cl_file) (\<lambda>cfg. ret (as_bool (local_value cfg key)))
        else andThen (session_open env g) (\<lambda>_.
             andThen (session_state env) (\<lambda>st.
             ret (as_bool (core_value (ce_config_json env) st key))))) (\<lambda>cur.
     set_values env g [key @ ''='' @ bool_text (\<not> cur)] False)))"

fun cli_settings :: "CliEnv \<Rightarrow> GlobalArgs \<Rightarrow> SettingsCmd option \<Rightarrow> string list \<Rightarrow> bool \<Rightarrow> unit cli" where
  "cli_settings env g (Some SettingsList) sets force = settings_list env g"
| "cli_settings env g (Some (SettingsGet key)) sets force = settings_get env g key"
| "cli_settings env g (Some (SettingsSet assignments forced)) sets force = set_values env g assignments forced"
| "cli_settings env g (Some (SettingsToggle key)) sets force = settings_toggle env g key"
| "cli_settings env g None sets force =
     (if sets = [] then settings_list env g else set_values env g sets force)"

end
