(* ===== verification/CliRouting.thy ===== *)
theory CliRouting
  imports CliSubs RoutingRules
begin

text \<open>
  \<open>src/cli/commands/routing/\<close>: the routing that is in effect for a group, and the commands on rules,
  modes, presets and routing profiles.
\<close>

section \<open>The routing in effect\<close>

record EffectiveRouting =
  er_mode :: string
  er_source :: string
  er_manual_source :: string
  er_profile :: "string option"
  er_rules :: nat
  er_json :: bool

definition manual_effective :: "string \<Rightarrow> EffectiveRouting" where
  "manual_effective mode = \<lparr>er_mode = mode, er_source = ''manual'', er_manual_source = ''global'',
     er_profile = None, er_rules = 0, er_json = False\<rparr>"

definition group_mode :: "Group \<Rightarrow> string" where
  "group_mode gr =
     (if g_routing_mode gr = ''manual'' then ''manual''
      else if g_routing_mode gr = ''subscription'' then ''subscription'' else ''auto'')"

definition usable_profile :: "RoutingProfileInfo option \<Rightarrow> RoutingProfileInfo option" where
  "usable_profile active =
     (case active of
        None \<Rightarrow> None
      | Some p \<Rightarrow> if rp_state p \<noteq> ''error'' \<and> rp_rules_count p > 0 then Some p else None)"

definition effective_routing :: "GroupWithProfiles list \<Rightarrow> i32 \<Rightarrow> EffectiveRouting" where
  "effective_routing groups gid =
     (if gid = 0 then manual_effective ''global''
      else (case find (\<lambda>x. g_id (gw_group x) = gid) groups of
        None \<Rightarrow> manual_effective ''auto''
      | Some x \<Rightarrow>
          (let gr = gw_group x;
               mode = group_mode gr;
               active = find (\<lambda>p. rp_id p = g_active_routing_profile_id gr) (gw_routing_profiles x);
               usable = usable_profile active;
               js = (g_subscription_format gr = ''json'');
               src = (if js then ''manual''
                      else if mode = ''manual'' then ''manual''
                      else if mode = ''subscription'' then (if usable \<noteq> None then ''happ'' else ''lan'')
                      else (if usable \<noteq> None then ''happ'' else ''manual''))
           in \<lparr>er_mode = mode, er_source = src,
               er_manual_source = (if g_manual_routing_mode gr = ''custom'' then ''custom'' else ''global''),
               er_profile = (if js then None else map_option rp_name active),
               er_rules = (if js then 0 else (case usable of None \<Rightarrow> 0 | Some p \<Rightarrow> rp_rules_count p)),
               er_json = js\<rparr>)))"

definition manual_shadowed :: "EffectiveRouting \<Rightarrow> bool" where
  "manual_shadowed e \<longleftrightarrow>
     \<not> er_json e \<and> (er_mode e = ''subscription'' \<or> er_mode e = ''auto'' \<and> er_source e = ''happ'')"

definition global_shadowed_groups :: "GroupWithProfiles list \<Rightarrow> string list" where
  "global_shadowed_groups groups =
     map (\<lambda>x. g_name (gw_group x))
       (filter (\<lambda>x. g_subscription_format (gw_group x) \<noteq> ''json''
                  \<and> g_manual_routing_mode (gw_group x) \<noteq> ''custom''
                  \<and> manual_shadowed (effective_routing groups (g_id (gw_group x)))) groups)"

definition dquoted :: "string \<Rightarrow> string" where
  "dquoted s = [CHR 0x22] @ s @ [CHR 0x22]"

definition describe_effective :: "EffectiveRouting \<Rightarrow> string" where
  "describe_effective e =
     (if er_json e then ''Provider JSON baseline + manual rules (manual first)''
      else if er_source e = ''happ''
      then ''Happ '' @ dquoted (case er_profile e of Some n \<Rightarrow> n | None \<Rightarrow> ''?'') @ '' (rules: '' @
           show_nat (er_rules e) @ '')''
      else if er_source e = ''lan''
      then (case er_profile e of
              Some n \<Rightarrow> ''Happ '' @ dquoted n @ '' '' @ em_dash @ '' LAN only (profile not usable)''
            | None \<Rightarrow> ''LAN only (no active Happ profile)'')
      else ''manual ('' @ er_manual_source e @ '' rules)'')"

definition shadow_label :: "EffectiveRouting \<Rightarrow> string" where
  "shadow_label e =
     (if er_source e = ''happ'' then ''Happ '' @ dquoted (case er_profile e of Some n \<Rightarrow> n | None \<Rightarrow> ''?'')
      else if er_source e = ''lan'' then ''Happ routing'' else ''manual routing'')"

definition shadow_warning :: "GroupWithProfiles list \<Rightarrow> i32 \<Rightarrow> string option" where
  "shadow_warning groups gid =
     (if gid = 0
      then (let names = global_shadowed_groups groups
            in if names = [] then None
               else Some (''warning: global manual rules are shadowed in groups with active Happ routing: '' @
                      join '', '' names @ ''; edits are saved but will not affect them''))
      else
        (let e = effective_routing groups gid
         in if \<not> manual_shadowed e then None
            else
              (let name = (case find (\<lambda>x. g_id (gw_group x) = gid) groups of
                             Some x \<Rightarrow> g_name (gw_group x) | None \<Rightarrow> ''GROUP'');
                   off = ''use '' @ quoted (''whoisthat route mode '' @ name @ '' manual'');
                   hint = (if er_mode e = ''subscription'' then off @ '' to apply them''
                           else off @ '' or '' @ quoted (''whoisthat route profile off '' @ name))
               in Some (''warning: manual rules are shadowed by '' @ shadow_label e @ '' (mode '' @ er_mode e @
                    ''); edits are saved but will not affect traffic '' @ em_dash @ '' '' @ hint))))"

definition manual_shadowed_for_edit :: "GroupWithProfiles list \<Rightarrow> i32 \<Rightarrow> bool" where
  "manual_shadowed_for_edit groups gid \<longleftrightarrow>
     (if gid = 0 then global_shadowed_groups groups \<noteq> []
      else manual_shadowed (effective_routing groups gid))"

section \<open>Which group\<close>

definition group_id_for ::
  "(string \<Rightarrow> string) \<Rightarrow> ApplicationState \<Rightarrow> string option \<Rightarrow> CliError + i32" where
  "group_id_for lc st grp =
     (case grp of
        None \<Rightarrow> Inr 0
      | Some sel \<Rightarrow> (case find_group lc (as_groups st) sel of Inl e \<Rightarrow> Inl e | Inr gr \<Rightarrow> Inr (g_id gr)))"

definition profile_group_id_for ::
  "(string \<Rightarrow> string) \<Rightarrow> ApplicationState \<Rightarrow> string option \<Rightarrow> CliError + i32" where
  "profile_group_id_for lc st grp =
     (case grp of
        Some sel \<Rightarrow> (case find_group lc (as_groups st) sel of Inl e \<Rightarrow> Inl e | Inr gr \<Rightarrow> Inr (g_id gr))
      | None \<Rightarrow>
          (case (if is_connected_state st then ps_profile (as_connection_status st) else None) of
             Some p \<Rightarrow> Inr (p_group_id p)
           | None \<Rightarrow>
               (case as_groups st of
                  [] \<Rightarrow> Inl (Usage ''no groups yet'')
                | x # _ \<Rightarrow> Inr (g_id (gw_group x)))))"

section \<open>Rules\<close>

definition routing_fatal :: "string list" where
  "routing_fatal = [''get-routing-failed'', ''update-routing-failed'']"

definition get_config :: "CliEnv \<Rightarrow> i32 \<Rightarrow> RoutingConfig cli" where
  "get_config env gid =
     andThen (session_request env ''get-routing'' (enc_get_routing_data \<lparr>grd_group_id = gid\<rparr>) dec_routing_updated
       (ReplyId [''routing-updated''] routing_fatal)) (\<lambda>u. ret (ru_config u))"

definition update_config :: "CliEnv \<Rightarrow> i32 \<Rightarrow> RoutingConfig \<Rightarrow> unit cli" where
  "update_config env gid c =
     andThen (session_request env ''update-routing''
       (enc_update_routing_data \<lparr>urd_group_id = gid, urd_config = c\<rparr>) dec_routing_updated
       (ReplyId [''routing-updated''] routing_fatal)) (\<lambda>_. ret ())"

definition rule_field :: "RoutingRule \<Rightarrow> string" where
  "rule_field r =
     (if r_domain r \<noteq> [] then r_domain r
      else if r_ip r \<noteq> [] then r_ip r
      else if r_protocol r \<noteq> [] then ''protocol:'' @ r_protocol r
      else if r_port r \<noteq> [] then ''port:'' @ r_port r
      else em_dash)"

definition effective_json :: "EffectiveRouting \<Rightarrow> json" where
  "effective_json e = JObj
     [(''mode'', JStr (er_mode e)), (''source'', JStr (er_source e)),
      (''manual_source'', JStr (er_manual_source e)),
      (''profile'', (case er_profile e of None \<Rightarrow> JNull | Some n \<Rightarrow> JStr n)),
      (''profile_rules'', JInt (int (er_rules e))), (''json'', JBool (er_json e))]"

fun add_fields :: "json \<Rightarrow> fields \<Rightarrow> json" where
  "add_fields (JObj fs) extra = JObj (fs @ extra)"
| "add_fields j extra = j"

definition rule_rows :: "RoutingRule list \<Rightarrow> string list list" where
  "rule_rows rules =
     map (\<lambda>(i, r). [show_nat (i + 1), rule_field r, r_outbound_tag r, if r_enabled r then ''on'' else ''off''])
       (enumerate 0 rules)"

definition route_list :: "CliEnv \<Rightarrow> GlobalArgs \<Rightarrow> string option \<Rightarrow> unit cli" where
  "route_list env g grp =
     andThen (session_open env g) (\<lambda>_.
     andThen (session_state env) (\<lambda>st.
     andThen (lift (group_id_for (ce_lc env) st grp)) (\<lambda>gid.
     andThen (get_config env gid) (\<lambda>c.
     (let e = effective_routing (as_groups st) gid
      in if gl_json g
         then out_json (add_fields (enc_routing c)
                ([(''effective'', effective_json e),
                  (''manual_shadowed'', JBool (manual_shadowed_for_edit (as_groups st) gid))]
                 @ (if gid = 0
                    then [(''shadowed_groups'', JArr (map JStr (global_shadowed_groups (as_groups st))))] else [])))
         else
           andThen (out_line g (''Effective: '' @ describe_effective e)) (\<lambda>_.
           andThen (case shadow_warning (as_groups st) gid of Some w \<Rightarrow> out_line g w | None \<Rightarrow> ret ()) (\<lambda>_.
           if rc_rules c = [] then out_line g ''No routing rules.''
           else print_table [''#'', ''MATCH'', ''OUTBOUND'', ''ENABLED''] (rule_rows (rc_rules c)))))))))"

definition warn_shadow :: "GlobalArgs \<Rightarrow> ApplicationState \<Rightarrow> i32 \<Rightarrow> unit cli" where
  "warn_shadow g st gid =
     (case shadow_warning (as_groups st) gid of Some w \<Rightarrow> out_note g w | None \<Rightarrow> ret ())"

text \<open>The opening every editing command shares: the state, the group, the warning, whether the manual
  rules are shadowed.\<close>

definition start_edit ::
  "CliEnv \<Rightarrow> GlobalArgs \<Rightarrow> string option \<Rightarrow> (i32 \<Rightarrow> bool \<Rightarrow> unit cli) \<Rightarrow> unit cli" where
  "start_edit env g grp f =
     andThen (open_or_spawn env g) (\<lambda>_.
     andThen (session_state env) (\<lambda>st.
     andThen (lift (group_id_for (ce_lc env) st grp)) (\<lambda>gid.
     andThen (warn_shadow g st gid) (\<lambda>_.
     f gid (manual_shadowed_for_edit (as_groups st) gid)))))"

definition rule_of_args :: "string \<Rightarrow> string \<Rightarrow> string \<Rightarrow> CliError + RoutingRule" where
  "rule_of_args match_type value outbound =
     (if outbound \<notin> {''proxy'', ''direct'', ''block''} then Inl (Usage ''outbound must be proxy|direct|block'')
      else
        (let r = default_rule\<lparr>r_type := ''field'', r_outbound_tag := outbound, r_enabled := True\<rparr>
         in if match_type = ''domain'' \<or> match_type = ''geosite'' then Inr (r\<lparr>r_domain := value\<rparr>)
            else if match_type = ''ip'' \<or> match_type = ''geoip'' then Inr (r\<lparr>r_ip := value\<rparr>)
            else if match_type = ''protocol'' then Inr (r\<lparr>r_protocol := value\<rparr>)
            else if match_type = ''port'' then Inr (r\<lparr>r_port := value\<rparr>)
            else Inl (Usage ''type must be domain|ip|protocol|port|geoip|geosite'')))"

definition inherits :: "ApplicationState \<Rightarrow> i32 \<Rightarrow> bool" where
  "inherits st gid \<longleftrightarrow> gid \<noteq> 0 \<and>
     (case group_data st gid of
        None \<Rightarrow> False
      | Some x \<Rightarrow> g_manual_routing_mode (gw_group x) = [] \<or> g_manual_routing_mode (gw_group x) = ''inherit'')"

definition route_add ::
  "CliEnv \<Rightarrow> GlobalArgs \<Rightarrow> string \<Rightarrow> string \<Rightarrow> string \<Rightarrow> string option \<Rightarrow> unit cli" where
  "route_add env g match_type value outbound grp =
     andThen (open_or_spawn env g) (\<lambda>_.
     andThen (session_state env) (\<lambda>st.
     andThen (lift (group_id_for (ce_lc env) st grp)) (\<lambda>gid.
     andThen (if inherits st gid
              then out_note g ''note: editing rules switches this group from inherit to custom'' else ret ()) (\<lambda>_.
     andThen (warn_shadow g st gid) (\<lambda>_.
     andThen (lift (rule_of_args match_type value outbound)) (\<lambda>r.
     andThen (get_config env gid) (\<lambda>c.
     andThen (update_config env gid (c\<lparr>rc_rules := rc_rules c @ [r]\<rparr>)) (\<lambda>_.
     out_ok g ''Routing rule added.''
       (JObj [(''added'', JBool True),
              (''manual_shadowed'', JBool (manual_shadowed_for_edit (as_groups st) gid))])))))))))"

datatype RuleAction = RemoveRules | EnableRules | DisableRules

text \<open>Sorted without duplicates, then removed from the last one down.\<close>

definition remove_indexes :: "nat list \<Rightarrow> 'a list \<Rightarrow> 'a list" where
  "remove_indexes indexes xs = fold (\<lambda>i xs. remove_at (i - 1) xs) (rev (remdups_adj (sort indexes))) xs"

definition enable_indexes :: "bool \<Rightarrow> nat list \<Rightarrow> RoutingRule list \<Rightarrow> RoutingRule list" where
  "enable_indexes b indexes rules =
     fold (\<lambda>i rs. rs[i - 1 := (rs ! (i - 1))\<lparr>r_enabled := b\<rparr>]) indexes rules"

definition bad_index :: "nat \<Rightarrow> nat list \<Rightarrow> nat option" where
  "bad_index len indexes = find (\<lambda>i. i = 0 \<or> i > len) indexes"

definition act_on :: "RuleAction \<Rightarrow> nat list \<Rightarrow> RoutingRule list \<Rightarrow> RoutingRule list" where
  "act_on action indexes rules =
     (case action of
        RemoveRules \<Rightarrow> remove_indexes indexes rules
      | EnableRules \<Rightarrow> enable_indexes True indexes rules
      | DisableRules \<Rightarrow> enable_indexes False indexes rules)"

definition act_text :: "RuleAction \<Rightarrow> string" where
  "act_text action =
     (case action of
        RemoveRules \<Rightarrow> ''Routing rule(s) removed.'' | EnableRules \<Rightarrow> ''Routing rule(s) enabled.''
      | DisableRules \<Rightarrow> ''Routing rule(s) disabled.'')"

definition act_json :: "RuleAction \<Rightarrow> nat list \<Rightarrow> bool \<Rightarrow> json" where
  "act_json action indexes shadowed = JObj
     ([(''indexes'', JArr (map (\<lambda>i. JInt (int i)) indexes))]
      @ (if action = RemoveRules then [] else [(''enabled'', JBool (action = EnableRules))])
      @ [(''manual_shadowed'', JBool shadowed)])"

definition route_mutate ::
  "CliEnv \<Rightarrow> GlobalArgs \<Rightarrow> nat list \<Rightarrow> string option \<Rightarrow> RuleAction \<Rightarrow> unit cli" where
  "route_mutate env g indexes grp action =
     start_edit env g grp (\<lambda>gid shadowed.
     andThen (get_config env gid) (\<lambda>c.
     (case bad_index (length (rc_rules c)) indexes of
        Some i \<Rightarrow> fail (Usage (''rule index '' @ show_nat i @ '' out of range 1..'' @ show_nat (length (rc_rules c))))
      | None \<Rightarrow>
          andThen (update_config env gid (c\<lparr>rc_rules := act_on action indexes (rc_rules c)\<rparr>)) (\<lambda>_.
          out_ok g (act_text action) (act_json action indexes shadowed)))))"

definition moved_rule :: "nat \<Rightarrow> nat \<Rightarrow> 'a list \<Rightarrow> 'a list" where
  "moved_rule i j rules = insert_at (j - 1) (rules ! (i - 1)) (remove_at (i - 1) rules)"

definition route_move :: "CliEnv \<Rightarrow> GlobalArgs \<Rightarrow> nat \<Rightarrow> nat \<Rightarrow> string option \<Rightarrow> unit cli" where
  "route_move env g i j grp =
     start_edit env g grp (\<lambda>gid shadowed.
     andThen (get_config env gid) (\<lambda>c.
     (let len = length (rc_rules c)
      in if i = 0 \<or> i > len \<or> j = 0 \<or> j > len
         then fail (Usage (''rule indexes must be in 1..'' @ show_nat len))
         else
           andThen (update_config env gid (c\<lparr>rc_rules := moved_rule i j (rc_rules c)\<rparr>)) (\<lambda>_.
           out_ok g ''Routing rule moved.'' (JObj [(''from'', JInt (int i)), (''to'', JInt (int j)),
             (''manual_shadowed'', JBool shadowed)])))))"

definition route_mode :: "CliEnv \<Rightarrow> GlobalArgs \<Rightarrow> string \<Rightarrow> string \<Rightarrow> unit cli" where
  "route_mode env g selector mode =
     andThen (open_or_spawn env g) (\<lambda>_.
     andThen (session_state env) (\<lambda>st.
     with_group env st selector (\<lambda>gr.
     andThen
       (if mode = ''inherit'' \<or> mode = ''custom''
        then (if g_id gr = 0
              then fail (Usage ''global routing cannot inherit; use auto|manual|subscription'')
              else andThen (session_request env ''set-manual-routing-source''
                     (enc_set_manual_routing_source_data \<lparr>smr_group_id = g_id gr, smr_source = mode\<rparr>)
                     dec_routing_updated
                     (ReplyId [''routing-updated''] [''set-manual-routing-source-failed''])) (\<lambda>_. ret ()))
        else if mode = ''auto'' \<or> mode = ''manual'' \<or> mode = ''subscription''
        then andThen (session_request env ''set-group-routing-mode''
               (enc_set_group_routing_mode_data \<lparr>sgr_group_id = g_id gr, sgr_mode = mode\<rparr>) dec_group
               (ReplyId [''group-updated''] [''set-group-routing-mode-failed''])) (\<lambda>_. ret ())
        else fail (Usage ''mode must be inherit|custom|auto|manual|subscription'')) (\<lambda>_.
     out_ok g (''Routing mode set to '' @ mode @ ''.'') (JObj [(''mode'', JStr mode)])))))"

section \<open>Presets and links\<close>

definition route_import :: "CliEnv \<Rightarrow> GlobalArgs \<Rightarrow> string \<Rightarrow> string option \<Rightarrow> unit cli" where
  "route_import env g link grp =
     andThen (open_or_spawn env g) (\<lambda>_.
     andThen (session_state env) (\<lambda>st.
     andThen (lift (profile_group_id_for (ce_lc env) st grp)) (\<lambda>gid.
     andThen (set_timeout (arg_timeout g 30)) (\<lambda>_.
     andThen (session_request env ''import-happ-routing''
       (enc_import_happ_routing_data \<lparr>ihr_group_id = gid, ihr_link = link\<rparr>) Some
       (ReplyId [''subscription-updated'', ''group-updated''] [''import-happ-routing-failed''])) (\<lambda>_.
     out_ok g ''Happ routing imported.'' (JObj [(''imported'', JBool True)]))))))"

definition same_rule :: "RoutingRule \<Rightarrow> RoutingRule \<Rightarrow> bool" where
  "same_rule x r \<longleftrightarrow> r_outbound_tag x = r_outbound_tag r \<and> r_domain x = r_domain r \<and> r_ip x = r_ip r
     \<and> r_protocol x = r_protocol r \<and> r_port x = r_port r"

definition add_missing :: "RoutingRule \<Rightarrow> RoutingRule list \<Rightarrow> RoutingRule list" where
  "add_missing r rules = (if list_ex (\<lambda>x. same_rule x r) rules then rules else rules @ [r])"

definition with_preset :: "bool \<Rightarrow> RoutingPreset \<Rightarrow> RoutingRule list \<Rightarrow> RoutingRule list" where
  "with_preset apply preset rules =
     (if apply then fold (\<lambda>pr. add_missing (to_routing_rule pr)) (ps_rules preset) rules
      else filter (\<lambda>x. \<not> list_ex (\<lambda>pr. matches_rule pr x) (ps_rules preset)) rules)"

definition preset_apply :: "CliEnv \<Rightarrow> GlobalArgs \<Rightarrow> string \<Rightarrow> string option \<Rightarrow> bool \<Rightarrow> unit cli" where
  "preset_apply env g i grp apply =
     (case find (\<lambda>p. ps_id p = i) ROUTING_PRESETS of
        None \<Rightarrow> fail (Usage (''unknown preset '' @ quoted i))
      | Some preset \<Rightarrow>
          start_edit env g grp (\<lambda>gid shadowed.
          andThen (get_config env gid) (\<lambda>c.
          andThen (update_config env gid (c\<lparr>rc_rules := with_preset apply preset (rc_rules c)\<rparr>)) (\<lambda>_.
          out_ok g (''Preset '' @ quoted (ps_title preset) @ (if apply then '' applied.'' else '' removed.''))
            (JObj [(''preset'', JStr (ps_id preset)), (''applied'', JBool apply),
              (''manual_shadowed'', JBool shadowed)])))))"

definition preset_json :: "RoutingPreset \<Rightarrow> json" where
  "preset_json p = JObj [(''id'', JStr (ps_id p)), (''title'', JStr (ps_title p)),
     (''description'', JStr (ps_desc p)), (''rules'', JInt (int (length (ps_rules p))))]"

fun route_preset :: "CliEnv \<Rightarrow> GlobalArgs \<Rightarrow> RoutePresetCmd \<Rightarrow> unit cli" where
  "route_preset env g RoutePresetList =
     (if gl_json g then out_json (JArr (map preset_json ROUTING_PRESETS))
      else print_lines (concat (map (\<lambda>p. [ps_id p @ ''  '' @ ps_title p, ''    '' @ ps_desc p]) ROUTING_PRESETS)))"
| "route_preset env g (RoutePresetApply i grp) = preset_apply env g i grp True"
| "route_preset env g (RoutePresetRemove i grp) = preset_apply env g i grp False"

section \<open>Routing profiles\<close>

definition profile_line :: "RoutingProfileInfo \<Rightarrow> string" where
  "profile_line rp =
     (if rp_active rp then ''*'' else '' '') @ '' '' @ rp_name rp @ '' ['' @ rp_state rp @ ''] rules='' @
     show_nat (rp_rules_count rp) @ (if rp_fake_dns_enabled rp then '' fake-dns'' else [])"

definition with_routing_group ::
  "CliEnv \<Rightarrow> string option \<Rightarrow> (GroupWithProfiles \<Rightarrow> i32 \<Rightarrow> unit cli) \<Rightarrow> unit cli" where
  "with_routing_group env grp f =
     andThen (session_state env) (\<lambda>st.
     andThen (lift (profile_group_id_for (ce_lc env) st grp)) (\<lambda>gid.
     (case group_data st gid of
        None \<Rightarrow> fail (Usage ''group not found'')
      | Some x \<Rightarrow> f x gid)))"

definition set_active_profile :: "CliEnv \<Rightarrow> i32 \<Rightarrow> string \<Rightarrow> unit cli" where
  "set_active_profile env gid pid =
     andThen (session_request env ''set-active-routing-profile''
       (enc_set_active_routing_profile_data \<lparr>sar_group_id = gid, sar_profile_id = pid\<rparr>) dec_group
       (ReplyId [''group-updated''] [''set-active-routing-profile-failed''])) (\<lambda>_. ret ())"

fun route_profile :: "CliEnv \<Rightarrow> GlobalArgs \<Rightarrow> RouteProfileCmd \<Rightarrow> unit cli" where
  "route_profile env g (RouteProfileList grp) =
     andThen (session_open env g) (\<lambda>_.
     with_routing_group env grp (\<lambda>x gid.
     if gl_json g then out_json (JArr (map enc_routing_profile (gw_routing_profiles x)))
     else print_lines (map profile_line (gw_routing_profiles x))))"
| "route_profile env g (RouteProfileActivate sel grp) =
     andThen (open_or_spawn env g) (\<lambda>_.
     with_routing_group env grp (\<lambda>x gid.
     andThen (lift (find_routing_profile (ce_lc env) x sel)) (\<lambda>rp.
     andThen (set_active_profile env gid (rp_id rp)) (\<lambda>_.
     out_ok g (''Activated routing profile '' @ quoted (rp_name rp) @ ''.'')
       (JObj [(''routing_profile'', JStr (rp_name rp))])))))"
| "route_profile env g (RouteProfileOff grp) =
     andThen (open_or_spawn env g) (\<lambda>_.
     andThen (session_state env) (\<lambda>st.
     andThen (lift (profile_group_id_for (ce_lc env) st grp)) (\<lambda>gid.
     andThen (set_active_profile env gid ''off'') (\<lambda>_.
     out_ok g ''Routing profile deactivated.'' (JObj [(''active'', JBool False)])))))"
| "route_profile env g (RouteProfileRm sel grp) =
     andThen (open_or_spawn env g) (\<lambda>_.
     with_routing_group env grp (\<lambda>x gid.
     andThen (lift (find_routing_profile (ce_lc env) x sel)) (\<lambda>rp.
     andThen (set_timeout (arg_timeout g 30)) (\<lambda>_.
     andThen (session_request env ''delete-routing-profile''
       (enc_delete_routing_profile_data \<lparr>drp_group_id = gid, drp_profile_id = rp_id rp\<rparr>)
       dec_subscription_updated (ReplyId [''subscription-updated''] [''delete-routing-profile-failed''])) (\<lambda>_.
     out_ok g (''Deleted routing profile '' @ quoted (rp_name rp) @ ''.'')
       (JObj [(''deleted'', JStr (rp_name rp))]))))))"

fun cli_route :: "CliEnv \<Rightarrow> GlobalArgs \<Rightarrow> RouteCmd \<Rightarrow> unit cli" where
  "cli_route env g (RouteList grp) = route_list env g grp"
| "cli_route env g (RouteAdd t v out grp) = route_add env g t v out grp"
| "cli_route env g (RouteRm is grp) = route_mutate env g is grp RemoveRules"
| "cli_route env g (RouteEnable is grp) = route_mutate env g is grp EnableRules"
| "cli_route env g (RouteDisable is grp) = route_mutate env g is grp DisableRules"
| "cli_route env g (RouteMove i j grp) = route_move env g i j grp"
| "cli_route env g (RouteMode sel mode) = route_mode env g sel mode"
| "cli_route env g (RouteProfile c) = route_profile env g c"
| "cli_route env g (RouteImport link grp) = route_import env g link grp"
| "cli_route env g (RoutePreset c) = route_preset env g c"

end
