(* ===== verification/CliStatus.thy ===== *)
theory CliStatus
  imports CliSession
begin

text \<open>
  \<open>src/cli/commands/status.rs\<close>: the status that scripts and bars read, once or as a stream.  The
  command has a connection of its own, and never starts the daemon.
\<close>

section \<open>The status\<close>

record CliStatus =
  st_core_running :: bool
  st_connected :: bool
  st_status :: string
  st_mode :: string
  st_tun_enabled :: bool
  st_group_id :: "i32 option"
  st_group_name :: "string option"
  st_profile_id :: "i32 option"
  st_profile_name :: "string option"
  st_protocol :: "string option"
  st_xray_version :: "string option"
  st_rx :: i64
  st_tx :: i64
  st_rx_human :: string
  st_tx_human :: string

definition non_empty :: "string \<Rightarrow> string option" where
  "non_empty s = (if s = [] then None else Some s)"

definition status_offline :: CliStatus where
  "status_offline =
     \<lparr>st_core_running = False, st_connected = False, st_status = ''offline'', st_mode = [],
      st_tun_enabled = False, st_group_id = None, st_group_name = None, st_profile_id = None,
      st_profile_name = None, st_protocol = None, st_xray_version = None, st_rx = 0, st_tx = 0,
      st_rx_human = ''0 B/s'', st_tx_human = ''0 B/s''\<rparr>"

definition mode_name :: "bool \<Rightarrow> string" where
  "mode_name tun = (if tun then ''tun'' else ''proxy'')"

definition from_app_state :: "ApplicationState \<Rightarrow> CliStatus" where
  "from_app_state st =
     (let conn = ps_connection (as_connection_status st) = ''connected'';
          prof = ps_profile (as_connection_status st)
      in \<lparr>st_core_running = True, st_connected = conn,
          st_status = ps_connection (as_connection_status st),
          st_mode = (if conn then mode_name (as_tun_status st) else []),
          st_tun_enabled = as_tun_status st,
          st_group_id = map_option p_group_id prof,
          st_group_name = Option.bind prof (\<lambda>p. map_option (\<lambda>x. g_name (gw_group x))
             (find (\<lambda>x. g_id (gw_group x) = p_group_id p) (as_groups st))),
          st_profile_id = map_option p_id prof,
          st_profile_name = Option.bind prof (\<lambda>p. non_empty (p_name p)),
          st_protocol = Option.bind prof (\<lambda>p. non_empty (p_protocol p)),
          st_xray_version = Option.bind (as_xray_status st) (\<lambda>x.
             if xs_version x \<noteq> [] then Some (xs_version x) else non_empty (xs_target_version x)),
          st_rx = 0, st_tx = 0, st_rx_human = ''0 B/s'', st_tx_human = ''0 B/s''\<rparr>)"

text \<open>Sums of 64 bit integers wrap in the release build.\<close>

definition wrap_i64 :: "int \<Rightarrow> i64" where
  "wrap_i64 n = (n + 2 ^ 63) mod 2 ^ 64 - 2 ^ 63"

definition format_speed_bytes :: "i64 \<Rightarrow> string" where
  "format_speed_bytes bytes_per_sec =
     (let bytes = as_f64 (nat bytes_per_sec)
      in if bytes < 1024 then show_nat bytes @ '' B/s''
         else if bytes < 1024 ^ 2 then one_decimal bytes 1024 @ '' KB/s''
         else if bytes < 1024 ^ 3 then one_decimal bytes (1024 ^ 2) @ '' MB/s''
         else two_decimals bytes (1024 ^ 3) @ '' GB/s'')"

definition update_traffic :: "(i64 \<Rightarrow> string) \<Rightarrow> TrafficStats \<Rightarrow> CliStatus \<Rightarrow> CliStatus" where
  "update_traffic speed t c =
     (let rx = wrap_i64 (ts_proxy_down t + ts_direct_down t);
          tx = wrap_i64 (ts_proxy_up t + ts_direct_up t)
      in c\<lparr>st_rx := rx, st_tx := tx, st_rx_human := speed rx, st_tx_human := speed tx\<rparr>)"

definition update_tun_status :: "bool \<Rightarrow> CliStatus \<Rightarrow> CliStatus" where
  "update_tun_status enabled c =
     (let c = c\<lparr>st_tun_enabled := enabled\<rparr>
      in if st_connected c then c\<lparr>st_mode := mode_name enabled\<rparr> else c)"

definition update_status :: "ProxyStatus \<Rightarrow> CliStatus \<Rightarrow> CliStatus" where
  "update_status p c =
     (let c = c\<lparr>st_connected := (ps_connection p = ''connected''), st_status := ps_connection p\<rparr>
      in (case ps_profile p of
            Some q \<Rightarrow> c\<lparr>st_profile_id := Some (p_id q), st_group_id := Some (p_group_id q),
                       st_profile_name := non_empty (p_name q), st_protocol := non_empty (p_protocol q)\<rparr>
          | None \<Rightarrow>
              if st_connected c then c
              else c\<lparr>st_profile_id := None, st_group_id := None, st_profile_name := None,
                     st_protocol := None, st_rx := 0, st_tx := 0,
                     st_rx_human := ''0 B/s'', st_tx_human := ''0 B/s''\<rparr>))"

definition update_state :: "(i64 \<Rightarrow> string) \<Rightarrow> ApplicationState \<Rightarrow> CliStatus \<Rightarrow> CliStatus" where
  "update_state speed st c =
     (from_app_state st)\<lparr>st_rx := st_rx c, st_tx := st_tx c,
        st_rx_human := speed (st_rx c), st_tx_human := speed (st_tx c)\<rparr>"

section \<open>Output\<close>

definition arrow_down :: string where
  "arrow_down = [CHR 0xE2, CHR 0x86, CHR 0x93]"

definition arrow_up :: string where
  "arrow_up = [CHR 0xE2, CHR 0x86, CHR 0x91]"

definition speeds :: "CliStatus \<Rightarrow> string" where
  "speeds c = arrow_down @ '' '' @ st_rx_human c @ '' '' @ arrow_up @ '' '' @ st_tx_human c"

definition mode_tag :: "CliStatus \<Rightarrow> string" where
  "mode_tag c = (if st_tun_enabled c then ''TUN'' else ''Proxy'')"

definition format_short :: "CliStatus \<Rightarrow> string" where
  "format_short c =
     (if \<not> st_core_running c then ''[Offline]''
      else if \<not> st_connected c then ''[Disconnected]''
      else ''[Connected] ['' @ mode_tag c @ ''] '' @ speeds c)"

definition format_pretty :: "CliStatus \<Rightarrow> string" where
  "format_pretty c =
     (if \<not> st_core_running c then ''WhoisThat: Core is offline''
      else if \<not> st_connected c then ''WhoisThat: Disconnected''
      else ''WhoisThat: [Connected] ['' @ mode_tag c @ ''] ('' @
           (case st_profile_name c of None \<Rightarrow> ''connected'' | Some n \<Rightarrow> n) @ '') '' @ speeds c)"

definition opt_field :: "string \<Rightarrow> ('a \<Rightarrow> json) \<Rightarrow> 'a option \<Rightarrow> fields" where
  "opt_field k f x = (case x of None \<Rightarrow> [] | Some v \<Rightarrow> [(k, f v)])"

definition enc_status_report :: "CliStatus \<Rightarrow> json" where
  "enc_status_report c = JObj
     ([(''core_running'', JBool (st_core_running c)), (''connected'', JBool (st_connected c)),
       (''status'', JStr (st_status c)), (''mode'', JStr (st_mode c)),
       (''tun_enabled'', JBool (st_tun_enabled c))]
      @ opt_field ''group_id'' JInt (st_group_id c)
      @ opt_field ''group_name'' JStr (st_group_name c)
      @ opt_field ''profile_id'' JInt (st_profile_id c)
      @ opt_field ''profile_name'' JStr (st_profile_name c)
      @ opt_field ''protocol'' JStr (st_protocol c)
      @ opt_field ''xray_version'' JStr (st_xray_version c)
      @ [(''rx_speed_bytes'', JInt (st_rx c)), (''tx_speed_bytes'', JInt (st_tx c)),
         (''rx_speed_human'', JStr (st_rx_human c)), (''tx_speed_human'', JStr (st_tx_human c))])"

definition print_status :: "GlobalArgs \<Rightarrow> bool \<Rightarrow> CliStatus \<Rightarrow> unit cli" where
  "print_status g short c =
     (if gl_json g then out_json (enc_status_report c)
      else println (if short then format_short c else format_pretty c))"

section \<open>The command\<close>

text \<open>The first frame that says \<open>name\<close> and can be read, with one limit for the whole wait.\<close>

datatype 'a Awaited = Got 'a | TimedOut | Closed

fun await :: "string \<Rightarrow> (json \<Rightarrow> 'a option) \<Rightarrow> nat \<Rightarrow> arrivals \<Rightarrow> 'a Awaited \<times> arrivals" where
  "await name d left [] = (TimedOut, [])"
| "await name d left ((gap, r) # rest) =
     (if left < gap then (TimedOut, (gap - left, r) # rest)
      else (case r of
              Inl e \<Rightarrow> (Closed, rest)
            | Inr m \<Rightarrow>
                (case (if tm_msg m = name then d (tm_data m) else None) of
                   Some x \<Rightarrow> (Got x, rest)
                 | None \<Rightarrow> await name d (left - gap) rest)))"

definition await_frames :: "string \<Rightarrow> (json \<Rightarrow> 'a option) \<Rightarrow> nat \<Rightarrow> 'a Awaited cli" where
  "await_frames name d limit s =
     (case await name d limit (cl_arrivals s) of (r, rest) \<Rightarrow> (Inr r, s\<lparr>cl_arrivals := rest\<rparr>))"

text \<open>What a frame makes of the status; \<open>None\<close> when nothing is printed for it.\<close>

definition watch_step :: "(i64 \<Rightarrow> string) \<Rightarrow> TcpMessage \<Rightarrow> CliStatus \<Rightarrow> CliStatus option" where
  "watch_step speed m c =
     (if tm_msg m = ''traffic-stats'' then map_option (\<lambda>t. update_traffic speed t c) (dec_traffic (tm_data m))
      else if tm_msg m = ''status-changed'' then map_option (\<lambda>p. update_status p c) (dec_status (tm_data m))
      else if tm_msg m = ''tun-status-changed''
        then map_option (\<lambda>b. update_tun_status b c) (dec_bool (tm_data m))
      else if tm_msg m = ''application-state''
        then map_option (\<lambda>st. update_state speed st c) (dec_app_state (tm_data m))
      else None)"

text \<open>The statuses that are printed until the connection ends, or until the frames known so far are
  used up: then the process goes on waiting.\<close>

fun watch_trace :: "(i64 \<Rightarrow> string) \<Rightarrow> CliStatus \<Rightarrow> (string + TcpMessage) list \<Rightarrow> CliStatus list" where
  "watch_trace speed c [] = []"
| "watch_trace speed c (Inl e # rest) = []"
| "watch_trace speed c (Inr m # rest) =
     (case watch_step speed m c of
        None \<Rightarrow> watch_trace speed c rest
      | Some c \<Rightarrow> c # watch_trace speed c rest)"

fun print_all :: "GlobalArgs \<Rightarrow> bool \<Rightarrow> CliStatus list \<Rightarrow> unit cli" where
  "print_all g short [] = ret ()"
| "print_all g short (c # cs) = andThen (print_status g short c) (\<lambda>_. print_all g short cs)"

definition send_plain_request :: "CliEnv \<Rightarrow> string \<Rightarrow> json \<Rightarrow> unit cli" where
  "send_plain_request env name data s =
     (let t = s\<lparr>cl_seq := cl_seq s + 1\<rparr>
      in (case ce_write env (cl_seq s) of
            Some e \<Rightarrow> (Inl (IoFailed e), t)
          | None \<Rightarrow> (Inr (), t\<lparr>cl_sent := cl_sent t @ [([], name, data)]\<rparr>)))"

definition first_status :: "CliEnv \<Rightarrow> GlobalArgs \<Rightarrow> bool \<Rightarrow> CliStatus cli" where
  "first_status env g watch =
     andThen (send_plain_request env ''get-application-state'' (JObj [])) (\<lambda>_.
     andThen (await_frames ''application-state'' dec_app_state (seconds (arg_timeout g 3))) (\<lambda>r.
     (case r of
        TimedOut \<Rightarrow> fail (Timeout ''waiting for application-state'')
      | Closed \<Rightarrow> fail (CoreError ''failed to receive application state'')
      | Got st \<Rightarrow>
          (let c = from_app_state st
           in if st_connected c \<and> \<not> watch then
                andThen (await_frames ''traffic-stats'' dec_traffic 1100) (\<lambda>r.
                (case r of Got t \<Rightarrow> ret (update_traffic format_speed_bytes t c) | _ \<Rightarrow> ret c))
              else ret c))))"

definition cli_status :: "CliEnv \<Rightarrow> GlobalArgs \<Rightarrow> bool \<Rightarrow> bool \<Rightarrow> unit cli" where
  "cli_status env g short watch =
     andThen (get_cli cl_file) (\<lambda>cfg.
     andThen (lift (cli_endpoint env g cfg)) (\<lambda>_.
     andThen take_conn (\<lambda>conn.
     (case conn of
        Inl _ \<Rightarrow> print_status g short status_offline
      | Inr frames \<Rightarrow>
          andThen (modify (\<lambda>s. s\<lparr>cl_arrivals := frames\<rparr>)) (\<lambda>_.
          andThen (first_status env g watch) (\<lambda>c.
          andThen (print_status g short c) (\<lambda>_.
          if \<not> watch then ret ()
          else andThen (get_cli cl_arrivals) (\<lambda>rest.
               print_all g short (watch_trace format_speed_bytes c (map snd rest))))))))))"

end
