(* ===== verification/DeepLink.thy ===== *)
theory DeepLink
  imports UrlDecode
begin

text \<open>
  \<open>src/deeplink/parse.rs\<close>: \<open>wit://\<close> links become actions.  The \<open>HashMap\<close> of the
  query parameters is a lookup in which a later pair overrides an earlier one; the error
  strings are constructors.  \<open>lc\<close> stands for \<open>str::to_lowercase\<close>.
\<close>

datatype DeepLinkAction =
    AddSubscription (as_name: string) (as_url: string)
  | AddProfile string "string option"
  | Connect
  | Disconnect
  | Toggle
  | ImportHappRouting string "string option"

datatype DeepLinkError =
    EmptyLink
  | InvalidScheme string
  | MissingLink
  | MissingUrl
  | BadSubscriptionUrl string
  | MissingUri
  | UnknownAction string

definition is_http :: "string \<Rightarrow> bool" where
  "is_http url \<longleftrightarrow> starts_with ''http://'' url \<or> starts_with ''https://'' url"

definition is_happ :: "string \<Rightarrow> bool" where
  "is_happ s \<longleftrightarrow> starts_with ''happ://routing/'' s \<or> starts_with ''happ:routing/'' s"

definition derive_name_from_url :: "string \<Rightarrow> string" where
  "derive_name_from_url url =
     (let trimmed = (case strip_prefix ''https://'' url of
            Some r \<Rightarrow> r
          | None \<Rightarrow> (case strip_prefix ''http://'' url of Some r \<Rightarrow> r | None \<Rightarrow> url));
          host = hd (split_on (\<lambda>b. b \<in> {CHR ''/'', CHR ''?'', CHR 0x23, CHR '':''}) trimmed)
      in if host = [] then ''Subscription'' else host)"

definition profile_schemes :: "string list" where
  "profile_schemes = [''vless://'', ''vmess://'', ''trojan://'', ''ss://'', ''socks://'',
     ''socks5://'', ''hysteria2://'', ''hy2://'']"

definition trim_end_slashes :: "string \<Rightarrow> string" where
  "trim_end_slashes s = rev (dropWhile (\<lambda>b. b = CHR ''/'') (rev s))"

definition split_action :: "string \<Rightarrow> string \<times> string" where
  "split_action s =
     (case split_once (CHR ''?'') s of
        Some (a, q) \<Rightarrow> (trim_end_slashes a, q)
      | None \<Rightarrow> (trim_end_slashes s, []))"

definition link_query :: "(string \<Rightarrow> string) \<Rightarrow> string \<Rightarrow> string \<Rightarrow> string option" where
  "link_query lc q key =
     map_of (rev (List.map_filter
        (\<lambda>pair. map_option (\<lambda>(k, v). (lc k, url_decode v)) (split_once (CHR ''='') pair))
        (filter (\<lambda>s. s \<noteq> []) (split_on (\<lambda>b. b = CHR ''&'') q)))) key"

text \<open>\<open>get(a).or_else(|| get(b))\<close> \<open>...\<close>\<close>

fun first_of :: "(string \<Rightarrow> string option) \<Rightarrow> string list \<Rightarrow> string option" where
  "first_of get [] = None"
| "first_of get (k # ks) = (case get k of Some v \<Rightarrow> Some v | None \<Rightarrow> first_of get ks)"

definition routing_actions :: "string list" where
  "routing_actions = [''routing'', ''happ'', ''happ-routing'', ''import-routing'']"

definition sub_actions :: "string list" where
  "sub_actions = [''sub'', ''subscription'', ''add-sub'', ''install-sub'', ''import-sub'']"

definition import_actions :: "string list" where
  "import_actions = [''import'', ''add'', ''profile'', ''node'']"

definition known_actions :: "string list" where
  "known_actions = [''connect'', ''disconnect'', ''toggle''] @ routing_actions @ sub_actions
     @ import_actions"

definition routing_link :: "(string \<Rightarrow> string option) \<Rightarrow> DeepLinkError + DeepLinkAction" where
  "routing_link get =
     (case first_of get [''link'', ''url'', ''uri''] of
        Some link \<Rightarrow> Inr (ImportHappRouting link (get ''group''))
      | None \<Rightarrow> Inl MissingLink)"

definition sub_link :: "(string \<Rightarrow> string option) \<Rightarrow> DeepLinkError + DeepLinkAction" where
  "sub_link get =
     (case first_of get [''url'', ''link'', ''sub''] of
        None \<Rightarrow> Inl MissingUrl
      | Some url \<Rightarrow>
          if \<not> is_http url then Inl (BadSubscriptionUrl url)
          else Inr (AddSubscription
            (case first_of get [''name'', ''title''] of
               Some n \<Rightarrow> n | None \<Rightarrow> derive_name_from_url url) url))"

definition import_link :: "(string \<Rightarrow> string option) \<Rightarrow> DeepLinkError + DeepLinkAction" where
  "import_link get =
     (case first_of get [''uri'', ''link'', ''url''] of
        Some uri \<Rightarrow> Inr (AddProfile uri (get ''group''))
      | None \<Rightarrow> Inl MissingUri)"

definition fallback_link ::
  "(string \<Rightarrow> string) \<Rightarrow> string \<Rightarrow> (string \<Rightarrow> string option) \<Rightarrow> DeepLinkError + DeepLinkAction" where
  "fallback_link lc action get =
     (let rest =
        (case first_of get [''url'', ''sub''] of
           Some url \<Rightarrow> Inr (AddSubscription
             (case get ''name'' of Some n \<Rightarrow> n | None \<Rightarrow> derive_name_from_url url) url)
         | None \<Rightarrow>
             (case get ''uri'' of
                Some uri \<Rightarrow> Inr (AddProfile uri (get ''group''))
              | None \<Rightarrow> Inl (UnknownAction action)))
      in case get ''link'' of
           Some link \<Rightarrow>
             if is_happ (lc link) then Inr (ImportHappRouting link (get ''group'')) else rest
         | None \<Rightarrow> rest)"

definition dispatch_action ::
  "(string \<Rightarrow> string) \<Rightarrow> string \<Rightarrow> (string \<Rightarrow> string option) \<Rightarrow> DeepLinkError + DeepLinkAction" where
  "dispatch_action lc action get =
     (if action = ''connect'' then Inr Connect
      else if action = ''disconnect'' then Inr Disconnect
      else if action = ''toggle'' then Inr Toggle
      else if action \<in> set routing_actions then routing_link get
      else if action \<in> set sub_actions then sub_link get
      else if action \<in> set import_actions then import_link get
      else fallback_link lc action get)"

text \<open>The text after the scheme, and its leading slashes.\<close>

definition link_body :: "string \<Rightarrow> string option" where
  "link_body raw =
     map_option (dropWhile (\<lambda>b. b = CHR ''/''))
       (case strip_prefix ''wit://'' raw of
          Some r \<Rightarrow> Some r
        | None \<Rightarrow> strip_prefix ''wit:'' raw)"

definition sub_path :: "string \<Rightarrow> string option" where
  "sub_path s =
     (case strip_prefix ''sub/'' s of Some r \<Rightarrow> Some r | None \<Rightarrow>
       (case strip_prefix ''subscription/'' s of Some r \<Rightarrow> Some r | None \<Rightarrow>
          strip_prefix ''add-sub/'' s))"

definition sub_path_url :: "string \<Rightarrow> string" where
  "sub_path_url rest =
     (if is_http rest then rest
      else if starts_with ''https%3A%2F%2F'' rest \<or> starts_with ''http%3A%2F%2F'' rest
      then url_decode rest
      else ''https://'' @ rest)"

definition parse_body :: "(string \<Rightarrow> string) \<Rightarrow> string \<Rightarrow> DeepLinkError + DeepLinkAction" where
  "parse_body lc s =
     (if is_happ (lc s) then Inr (ImportHappRouting s None)
      else if list_ex (\<lambda>p. starts_with p s) profile_schemes then Inr (AddProfile s None)
      else if is_http s then Inr (AddSubscription (derive_name_from_url s) s)
      else case sub_path s of
        Some rest \<Rightarrow>
          (let url = sub_path_url rest in Inr (AddSubscription (derive_name_from_url url) url))
      | None \<Rightarrow>
          (let (action, q) = split_action s in dispatch_action lc action (link_query lc q)))"

definition parse_deeplink :: "(string \<Rightarrow> string) \<Rightarrow> string \<Rightarrow> DeepLinkError + DeepLinkAction" where
  "parse_deeplink lc raw0 =
     (let raw = trim raw0
      in if raw = [] then Inl EmptyLink
         else if is_happ (lc raw) then Inr (ImportHappRouting raw None)
         else case link_body raw of
           None \<Rightarrow> Inl (InvalidScheme raw)
         | Some s \<Rightarrow> parse_body lc s)"

section \<open>Properties\<close>

text \<open>The documented behaviour of \<open>to_lowercase\<close> on ASCII text.\<close>

definition ascii_lc :: "(string \<Rightarrow> string) \<Rightarrow> bool" where
  "ascii_lc lc \<longleftrightarrow> (\<forall>s. list_all (\<lambda>b. \<not> digit7 b) s \<longrightarrow> lc s = map ascii_lower s)"

lemma ascii_lcD: "ascii_lc lc \<Longrightarrow> list_all (\<lambda>b. \<not> digit7 b) s \<Longrightarrow> lc s = map ascii_lower s"
  by (simp add: ascii_lc_def)

lemma split_on_none: "list_all (\<lambda>b. \<not> p b) s \<Longrightarrow> split_on p s = [s]"
  by (induction s) auto

lemma split_on_sep:
  "list_all (\<lambda>b. \<not> p b) s \<Longrightarrow> p b \<Longrightarrow> split_on p (s @ b # t) = s # split_on p t"
  by (induction s) auto

lemma query_two:
  assumes "list_all (\<lambda>b. b \<noteq> CHR ''&'') v1" and "list_all (\<lambda>b. b \<noteq> CHR ''&'') v2"
    and "list_all (\<lambda>b. b \<noteq> CHR ''='' \<and> b \<noteq> CHR ''&'') k1"
    and "list_all (\<lambda>b. b \<noteq> CHR ''='' \<and> b \<noteq> CHR ''&'') k2"
    and "lc k1 \<noteq> lc k2"
  shows "link_query lc (k1 @ CHR ''='' # v1 @ CHR ''&'' # k2 @ CHR ''='' # v2)
    = [lc k1 \<mapsto> url_decode v1, lc k2 \<mapsto> url_decode v2]"
proof -
  let ?q = "k1 @ CHR ''='' # v1 @ CHR ''&'' # k2 @ CHR ''='' # v2"
  have no_amp: "list_all (\<lambda>b. \<not> b = CHR ''&'') (k1 @ CHR ''='' # v1)"
    "list_all (\<lambda>b. \<not> b = CHR ''&'') (k2 @ CHR ''='' # v2)"
    using assms(1-4) by (simp_all add: list_all_iff ball_Un)
  have "split_on (\<lambda>b. b = CHR ''&'') ?q
    = split_on (\<lambda>b. b = CHR ''&'') ((k1 @ CHR ''='' # v1) @ CHR ''&'' # (k2 @ CHR ''='' # v2))" by simp
  also have "\<dots> = [k1 @ CHR ''='' # v1, k2 @ CHR ''='' # v2]"
    by (simp only: split_on_sep [OF no_amp(1)] split_on_none [OF no_amp(2)])
  finally have pairs: "split_on (\<lambda>b. b = CHR ''&'') ?q = [k1 @ CHR ''='' # v1, k2 @ CHR ''='' # v2]" .
  have once: "split_once (CHR ''='') (k @ CHR ''='' # v) = Some (k, v)"
    if "list_all (\<lambda>b. b \<noteq> CHR ''='' \<and> b \<noteq> CHR ''&'') k" for k v
    using that by (auto simp: split_once_Some list_all_iff)
  show ?thesis
    using assms(5) by (auto simp: link_query_def pairs once assms(3,4) List.map_filter_simps)
qed

lemma decoded_url_is_http:
  assumes "starts_with ''https%3A%2F%2F'' r \<or> starts_with ''http%3A%2F%2F'' r"
  shows "is_http (url_decode r)"
proof -
  from assms obtain t where "r = ''https%3A%2F%2F'' @ t \<or> r = ''http%3A%2F%2F'' @ t"
    by (auto simp: starts_with_iff)
  moreover have "char_of (58::nat) = CHR '':''" "char_of (47::nat) = CHR ''/''"
    by code_simp+
  ultimately have "url_decode_bytes r = ''https://'' @ url_decode_bytes t
      \<or> url_decode_bytes r = ''http://'' @ url_decode_bytes t"
    by (auto simp: url_decode_bytes.simps(2) radix16_2_def hex_digit_def)
  then show ?thesis
    by (auto simp: url_decode_def lossy_ascii is_http_def starts_with_iff)
qed

text \<open>A subscription link as the documentation writes it, with both parameters percent
  encoded, yields exactly the subscription it was made for.\<close>

theorem parse_deeplink_subscription:
  assumes "ascii_lc lc" and "is_http url" and "utf8_valid url" and "utf8_valid name"
    and "name \<noteq> []"
  shows "parse_deeplink lc (''wit://sub?url='' @ percent_encode url @ ''&name='' @ percent_encode name)
    = Inr (AddSubscription name url)"
proof -
  let ?q = "''url='' @ percent_encode url @ ''&name='' @ percent_encode name"
  let ?s = "''sub?'' @ ?q" and ?raw = "''wit://sub?'' @ ?q"
  note enc = percent_encode_ascii [of url] percent_encode_ascii [of name]
  have ascii: "list_all (\<lambda>b. \<not> digit7 b) ?raw" "list_all (\<lambda>b. \<not> digit7 b) ?s"
    using enc by simp_all
  have ne: "percent_encode name \<noteq> []" using assms(5) by (cases name) (auto simp: percent_encode_def)
  have "last (percent_encode name) \<in> set ''%0123456789ABCDEF''"
    by (rule set_percent_encode [OF last_in_set [OF ne]])
  then have "\<not> is_whitespace [last ?raw]" using ne by (auto simp: is_whitespace_def)
  then have trim: "trim ?raw = ?raw"
    using ascii by (intro trim_ascii) (simp_all add: is_whitespace_def)
  have lower: "lc ?raw = map ascii_lower ?raw" "lc ?s = map ascii_lower ?s"
    using ascii assms(1) by (simp_all add: ascii_lcD)
  have no_happ: "\<not> is_happ (lc ?raw)" "\<not> is_happ (lc ?s)"
    unfolding lower by (simp_all add: is_happ_def starts_with_simps ascii_lower_def)
  have body: "link_body ?raw = Some ?s"
    by (simp add: link_body_def strip_prefix_def starts_with_simps)
  have amp: "list_all (\<lambda>b. b \<noteq> CHR ''&'') (percent_encode v)" for v
    using set_percent_encode [of "CHR ''&''" v] by (auto simp: list_all_iff)
  have keys: "lc ''url'' = ''url''" "lc ''name'' = ''name''"
    using assms(1) by (simp_all add: ascii_lcD ascii_lower_def)
  have "link_query lc (''url'' @ CHR ''='' # percent_encode url @ CHR ''&'' # ''name'' @ CHR ''='' # percent_encode name)
      = [lc ''url'' \<mapsto> url_decode (percent_encode url), lc ''name'' \<mapsto> url_decode (percent_encode name)]"
    by (rule query_two) (simp_all add: amp keys)
  then have query: "link_query lc ?q = [''url'' \<mapsto> url, ''name'' \<mapsto> name]"
    using assms(3,4) by (simp add: keys url_decode_encode_valid)
  have split: "split_action ?s = (''sub'', ?q)"
    by (simp add: split_action_def trim_end_slashes_def)
  have dispatch: "dispatch_action lc ''sub'' [''url'' \<mapsto> url, ''name'' \<mapsto> name]
      = Inr (AddSubscription name url)"
    using assms(2) by (simp add: dispatch_action_def routing_actions_def sub_actions_def sub_link_def)
  have "\<not> is_http ?s" "sub_path ?s = None" "\<not> list_ex (\<lambda>p. starts_with p ?s) profile_schemes"
    by (simp_all add: is_http_def sub_path_def strip_prefix_def profile_schemes_def starts_with_simps)
  then have "parse_body lc ?s = Inr (AddSubscription name url)"
    using no_happ(2) dispatch by (simp only: parse_body_def if_False option.case split Let_def prod.case query)
  then have "parse_deeplink lc ?raw = Inr (AddSubscription name url)"
    unfolding parse_deeplink_def Let_def trim using no_happ(1) body by simp
  then show ?thesis by simp
qed

theorem parse_deeplink_subscription_witness:
  "parse_deeplink (map ascii_lower)
     (''wit://sub?url='' @ percent_encode ''https://a.b/c'' @ ''&name='' @ percent_encode ''My VPN'')
   = Inr (AddSubscription ''My VPN'' ''https://a.b/c'')"
  by (rule parse_deeplink_subscription)
    (simp_all add: ascii_lc_def is_http_def starts_with_simps utf8_valid_ascii)

lemma dispatch_subscription:
  assumes "dispatch_action lc action get = Inr (AddSubscription name url)" and "\<not> is_http url"
  shows "action \<notin> set known_actions \<and> (get ''url'' = Some url \<or> get ''sub'' = Some url)"
  using assms
  by (auto simp: dispatch_action_def known_actions_def routing_link_def sub_link_def import_link_def
      fallback_link_def Let_def split: if_splits option.splits)

text \<open>a deep link can only add a subscription whose address is http or https; the single
  exception is a link with an action the program does not know, whose \<open>url\<close> or \<open>sub\<close>
  parameter is taken unchecked.\<close>

theorem parse_deeplink_http:
  assumes "parse_deeplink lc raw = Inr (AddSubscription name url)" and "\<not> is_http url"
  shows "\<exists>s action q. link_body (trim raw) = Some s \<and> split_action s = (action, q)
    \<and> action \<notin> set known_actions
    \<and> (link_query lc q ''url'' = Some url \<or> link_query lc q ''sub'' = Some url)"
proof -
  from assms(1) obtain s where s: "link_body (trim raw) = Some s"
    and body: "parse_body lc s = Inr (AddSubscription name url)"
    by (auto simp: parse_deeplink_def Let_def split: if_splits option.splits)
  have path: "is_http (sub_path_url rest)" for rest
    using decoded_url_is_http [of rest]
    by (auto simp: sub_path_url_def) (simp add: is_http_def starts_with_simps)
  obtain action q where split: "split_action s = (action, q)" by (cases "split_action s")
  have "dispatch_action lc action (link_query lc q) = Inr (AddSubscription name url)"
    using body assms(2) split path
    by (auto simp: parse_body_def Let_def split: if_splits option.splits)
  from dispatch_subscription [OF this assms(2)] show ?thesis using s split by blast
qed

theorem parse_deeplink_http_witness:
  "\<exists>s action q. link_body (trim ''wit://x?url=file:///e'') = Some s \<and> split_action s = (action, q)
    \<and> action \<notin> set known_actions
    \<and> (link_query (map ascii_lower) q ''url'' = Some ''file:///e''
       \<or> link_query (map ascii_lower) q ''sub'' = Some ''file:///e'')"
proof (rule parse_deeplink_http)
  show "parse_deeplink (map ascii_lower) ''wit://x?url=file:///e''
    = Inr (AddSubscription ''file'' ''file:///e'')" by code_simp
qed (simp add: is_http_def starts_with_simps)

end
