(* ===== verification/CliLinks.thy ===== *)
theory CliLinks
  imports CliConnection CliStatus DeepLink
begin

text \<open>
  \<open>src/deeplink/actions.rs\<close> and \<open>src/cli/commands/links.rs\<close>: carrying out a deep link.  The
  actions use a plain connection: the frames they send carry no id, and an answer is recognised by
  its name, by the group it is about, or by the key of a warning.
\<close>

section \<open>Frames\<close>

definition is_warn_key :: "string \<Rightarrow> TcpMessage \<Rightarrow> bool" where
  "is_warn_key key m \<longleftrightarrow> tm_msg m = ''warn'' \<and>
     (case dec_warning (tm_data m) of None \<Rightarrow> False | Some w \<Rightarrow> w_key w = key)"

definition warn_content :: "TcpMessage \<Rightarrow> string" where
  "warn_content m =
     (case dec_warning (tm_data m) of None \<Rightarrow> ''core reported a warning'' | Some w \<Rightarrow> w_content w)"

definition check_mark :: string where
  "check_mark = [CHR 0xE2, CHR 0x9C, CHR 0x93]"

definition warning_mark :: string where
  "warning_mark = [CHR 0xE2, CHR 0x9A, CHR 0xA0]"

definition notify_desktop :: "string \<Rightarrow> string \<Rightarrow> unit cli" where
  "notify_desktop title text = say (Notify title text)"

definition recv_named :: "string \<Rightarrow> (json \<Rightarrow> 'a option) \<Rightarrow> 'a cli" where
  "recv_named name d =
     andThen (recv_until_cli 3000 (\<lambda>m. tm_msg m = name)) (\<lambda>m. lift (decode d (tm_data m)))"

definition recv_state :: "ApplicationState cli" where
  "recv_state = recv_named ''application-state'' dec_app_state"

definition ask_state :: "CliEnv \<Rightarrow> ApplicationState cli" where
  "ask_state env =
     andThen (send_plain_request env ''get-application-state'' (JObj [])) (\<lambda>_. recv_state)"

fun retry_conn :: "nat \<Rightarrow> unit cli" where
  "retry_conn 0 s = (Inl (CoreError ''Timed out waiting for whoisthat-core to start''), s)"
| "retry_conn (Suc n) s =
     (case take_conn s of
        (Inr (Inr frames), s) \<Rightarrow> (Inr (), s\<lparr>cl_arrivals := frames\<rparr>)
      | (_, s) \<Rightarrow> retry_conn n s)"

definition ensure_core_connected :: "CliEnv \<Rightarrow> unit cli" where
  "ensure_core_connected env s =
     (case take_conn s of
        (Inr (Inr frames), s) \<Rightarrow> (Inr (), s\<lparr>cl_arrivals := frames\<rparr>)
      | (_, s) \<Rightarrow>
          (case ce_spawn env (c_log_level (cl_file s)) of
             Some e \<Rightarrow> (Inl (IoFailed e), s)
           | None \<Rightarrow> retry_conn 30 (s\<lparr>cl_spawned := cl_spawned s + 1\<rparr>)))"

section \<open>Adding a subscription\<close>

datatype SubOutcome = Imported nat | Reported string | Quiet

text \<open>The frames until the answer, with one limit for the whole wait; the first component is the id
  the core gave to the group.\<close>

fun sub_progress :: "nat \<Rightarrow> i32 option \<Rightarrow> arrivals \<Rightarrow> i32 option \<times> SubOutcome" where
  "sub_progress left gr [] = (gr, Quiet)"
| "sub_progress left gr ((gap, r) # rest) =
     (if left = 0 \<or> left < gap then (gr, Quiet)
      else (case r of
              Inl e \<Rightarrow> (gr, Quiet)
            | Inr m \<Rightarrow>
                if tm_msg m = ''group-added'' then
                  (case dec_group_added (tm_data m) of
                     Some a \<Rightarrow> sub_progress (left - gap) (Some (ga_id a)) rest
                   | None \<Rightarrow> sub_progress (left - gap) gr rest)
                else if tm_msg m = ''subscription-updated'' then
                  (case dec_subscription_updated (tm_data m) of
                     Some u \<Rightarrow>
                       if gr = None \<or> gr = Some (su_group_id u) then (gr, Imported (length (su_profiles u)))
                       else sub_progress (left - gap) gr rest
                   | None \<Rightarrow> sub_progress (left - gap) gr rest)
                else if tm_msg m = ''warn'' then
                  (case dec_warning (tm_data m) of
                     Some w \<Rightarrow>
                       if str_contains ''subscription'' (w_key w) \<or> str_contains ''add-group'' (w_key w)
                       then (gr, Reported (w_content w))
                       else sub_progress (left - gap) gr rest
                   | None \<Rightarrow> sub_progress (left - gap) gr rest)
                else sub_progress (left - gap) gr rest))"

definition sub_report :: "string \<Rightarrow> i32 option \<times> SubOutcome \<Rightarrow> unit cli" where
  "sub_report name r =
     (let sub = ''Subscription '' @ quoted name;
          good = (\<lambda>title t. andThen (println (check_mark @ '' '' @ t)) (\<lambda>_. notify_desktop title t))
      in (case r of
            (_, Imported n) \<Rightarrow>
              good ''WhoisThat: Subscription Added'' (sub @ '' added ('' @ show_nat n @ '' profiles imported)'')
          | (_, Reported w) \<Rightarrow>
              (let t = sub @ '' added, but update reported: '' @ w
               in andThen (println (warning_mark @ '' '' @ t)) (\<lambda>_. notify_desktop ''WhoisThat: Warning'' t))
          | (Some _, Quiet) \<Rightarrow>
              good ''WhoisThat: Subscription Added'' (sub @ '' added (updating in background...)'')
          | (None, Quiet) \<Rightarrow>
              good ''WhoisThat'' (''Request sent to core to add subscription '' @ quoted name)))"

definition link_add_subscription :: "CliEnv \<Rightarrow> string \<Rightarrow> string \<Rightarrow> unit cli" where
  "link_add_subscription env name url =
     andThen (println (''Adding subscription '' @ quoted name @ ''...'')) (\<lambda>_.
     andThen (ensure_core_connected env) (\<lambda>_.
     andThen (send_plain_request env ''add-group''
       (enc_add_group_data \<lparr>ag_name = name, ag_subscription_url = url\<rparr>)) (\<lambda>_.
     andThen (get_cli cl_arrivals) (\<lambda>frames.
     sub_report name (sub_progress 12000 None frames)))))"

section \<open>Adding profiles\<close>

definition link_target_group :: "CliEnv \<Rightarrow> GroupWithProfiles list \<Rightarrow> string option \<Rightarrow> i32 cli" where
  "link_target_group env groups name =
     (case name of
        Some desired \<Rightarrow>
          (case find (\<lambda>x. eq_ignore_ascii_case (g_name (gw_group x)) desired) groups of
             Some x \<Rightarrow> ret (g_id (gw_group x))
           | None \<Rightarrow>
               andThen (send_plain_request env ''add-group''
                 (enc_add_group_data \<lparr>ag_name = desired, ag_subscription_url = []\<rparr>)) (\<lambda>_.
               andThen (recv_until_cli 3000
                 (\<lambda>m. tm_msg m = ''group-added'' \<or> is_warn_key ''add-group-failed'' m)) (\<lambda>m.
               if tm_msg m = ''group-added''
               then andThen (lift (decode dec_group_added (tm_data m))) (\<lambda>a. ret (ga_id a))
               else fail (CoreError (warn_content m)))))
      | None \<Rightarrow> (case groups of [] \<Rightarrow> ret 1 | x # _ \<Rightarrow> ret (g_id (gw_group x))))"

definition link_add_profile :: "CliEnv \<Rightarrow> string \<Rightarrow> string option \<Rightarrow> unit cli" where
  "link_add_profile env uri name =
     andThen (println ''Importing profile URI...'') (\<lambda>_.
     andThen (ensure_core_connected env) (\<lambda>_.
     andThen (ask_state env) (\<lambda>st.
     andThen (link_target_group env (as_groups st) name) (\<lambda>gi.
     andThen (send_plain_request env ''add-profiles''
       (enc_add_profiles_data \<lparr>ap_uris = uri, ap_group_id = gi\<rparr>)) (\<lambda>_.
     andThen (recv_named ''profiles-added'' dec_profiles_added) (\<lambda>a.
     (let t = ''Imported '' @ show_nat (length (pa_profiles a)) @ '' profile(s) into group #'' @ show_int gi
      in andThen (println (check_mark @ '' '' @ t)) (\<lambda>_.
         notify_desktop ''WhoisThat: Profile Imported'' t))))))))"

section \<open>Importing a routing\<close>

definition group_items :: "GroupWithProfiles list \<Rightarrow> string" where
  "group_items groups =
     join [CHR 0x0A] (map (\<lambda>x. ''  - ['' @ show_int (g_id (gw_group x)) @ ''] '' @ g_name (gw_group x)) groups)"

definition routing_target :: "GroupWithProfiles list \<Rightarrow> string option \<Rightarrow> CliError + (i32 \<times> string)" where
  "routing_target groups name =
     (case name of
        Some desired \<Rightarrow>
          (case (case Option.bind (parse_i32 desired) (\<lambda>i. find (\<lambda>x. g_id (gw_group x) = i) groups) of
                   Some x \<Rightarrow> Some x
                 | None \<Rightarrow> find (\<lambda>x. eq_ignore_ascii_case (g_name (gw_group x)) desired) groups) of
             Some x \<Rightarrow> Inr (g_id (gw_group x), g_name (gw_group x))
           | None \<Rightarrow> Inl (CoreError (''Group '' @ quoted desired @ '' not found. Available groups:'' @
                                   [CHR 0x0A] @ group_items groups)))
      | None \<Rightarrow>
          (case groups of
             [x] \<Rightarrow> Inr (g_id (gw_group x), g_name (gw_group x))
           | _ \<Rightarrow> Inl (CoreError (''Multiple groups exist. Please specify target group with --group <id|name>:'' @
                                [CHR 0x0A] @ group_items groups))))"

datatype RoutingOutcome = RoutingDone "string option" | RoutingWarned string | RoutingQuiet

fun routing_progress :: "nat \<Rightarrow> i32 \<Rightarrow> arrivals \<Rightarrow> RoutingOutcome" where
  "routing_progress left gi [] = RoutingQuiet"
| "routing_progress left gi ((gap, r) # rest) =
     (if left = 0 \<or> left < gap then RoutingQuiet
      else (case r of
              Inl e \<Rightarrow> RoutingQuiet
            | Inr m \<Rightarrow>
                if tm_msg m = ''subscription-updated'' then
                  (case dec_subscription_updated (tm_data m) of
                     Some u \<Rightarrow>
                       if su_group_id u = gi
                       then RoutingDone (map_option rp_name (find rp_active (su_routing_profiles u)))
                       else routing_progress (left - gap) gi rest
                   | None \<Rightarrow> routing_progress (left - gap) gi rest)
                else if tm_msg m = ''group-updated'' then
                  (case dec_group (tm_data m) of
                     Some gr \<Rightarrow> if g_id gr = gi then RoutingDone None else routing_progress (left - gap) gi rest
                   | None \<Rightarrow> routing_progress (left - gap) gi rest)
                else if tm_msg m = ''warn'' then
                  (case dec_warning (tm_data m) of
                     Some w \<Rightarrow>
                       if str_contains ''happ'' (w_key w) \<or> str_contains ''routing'' (w_key w)
                       then RoutingWarned (w_content w) else routing_progress (left - gap) gi rest
                   | None \<Rightarrow> routing_progress (left - gap) gi rest)
                else routing_progress (left - gap) gi rest))"

definition routing_report :: "i32 \<times> string \<Rightarrow> RoutingOutcome \<Rightarrow> unit cli" where
  "routing_report target r =
     (case r of
        RoutingWarned w \<Rightarrow>
          (let t = ''Failed to import Happ routing: '' @ w
           in andThen (say (Stderr (warning_mark @ '' '' @ t))) (\<lambda>_.
              andThen (notify_desktop ''WhoisThat: Routing Import Failed'' t) (\<lambda>_.
              fail (CoreError t))))
      | RoutingDone active \<Rightarrow>
          (let t = ''Happ routing imported into group '' @ quoted (snd target) @ '' (#'' @
                   show_int (fst target) @ '')'' @
                   (case active of None \<Rightarrow> [] | Some n \<Rightarrow> '' (active: '' @ n @ '')'')
           in andThen (println (check_mark @ '' '' @ t)) (\<lambda>_.
              notify_desktop ''WhoisThat: Routing Imported'' t))
      | RoutingQuiet \<Rightarrow>
          (let t = ''Import command sent for group '' @ quoted (snd target) @ '' (#'' @ show_int (fst target) @ '')''
           in andThen (println (check_mark @ '' '' @ t)) (\<lambda>_.
              notify_desktop ''WhoisThat: Routing Import Sent'' t)))"

definition link_import_routing :: "CliEnv \<Rightarrow> string \<Rightarrow> string option \<Rightarrow> unit cli" where
  "link_import_routing env lnk name =
     andThen (println ''Importing Happ routing link...'') (\<lambda>_.
     andThen (ensure_core_connected env) (\<lambda>_.
     andThen (ask_state env) (\<lambda>st.
     andThen (require (as_groups st \<noteq> [])
       (CoreError ''No groups found in core. Please add a group first.'')) (\<lambda>_.
     andThen (lift (routing_target (as_groups st) name)) (\<lambda>target.
     andThen (send_plain_request env ''import-happ-routing''
       (enc_import_happ_routing_data \<lparr>ihr_group_id = fst target, ihr_link = lnk\<rparr>)) (\<lambda>_.
     andThen (get_cli cl_arrivals) (\<lambda>frames.
     routing_report target (routing_progress 10000 (fst target) frames))))))))"

section \<open>The commands\<close>

fun run_deeplink_action :: "CliEnv \<Rightarrow> DeepLinkAction \<Rightarrow> unit cli" where
  "run_deeplink_action env (AddSubscription name url) = link_add_subscription env name url"
| "run_deeplink_action env (AddProfile uri name) = link_add_profile env uri name"
| "run_deeplink_action env DeepLink.Connect =
     andThen (println ''Connecting via deep link...'') (\<lambda>_.
     andThen (cli_connect env default_args None None False) (\<lambda>_.
     notify_desktop ''WhoisThat'' ''Connecting to VPN...''))"
| "run_deeplink_action env DeepLink.Disconnect =
     andThen (println ''Disconnecting via deep link...'') (\<lambda>_.
     andThen (cli_disconnect env default_args False) (\<lambda>_.
     notify_desktop ''WhoisThat'' ''Disconnected from VPN.''))"
| "run_deeplink_action env DeepLink.Toggle =
     andThen (println ''Toggling connection via deep link...'') (\<lambda>_.
     cli_toggle env default_args False)"
| "run_deeplink_action env (ImportHappRouting lnk name) = link_import_routing env lnk name"

definition deeplink_error_text :: "DeepLinkError \<Rightarrow> string" where
  "deeplink_error_text e =
     (case e of
        EmptyLink \<Rightarrow> ''Empty deep link''
      | InvalidScheme raw \<Rightarrow> ''Invalid scheme in deep link (expected wit:// or happ://routing/...): '' @ raw
      | MissingLink \<Rightarrow> ''Missing '' @ quoted ''link'' @ '' parameter in routing deep link''
      | MissingUrl \<Rightarrow> ''Missing '' @ quoted ''url'' @ '' parameter in subscription deep link''
      | BadSubscriptionUrl url \<Rightarrow> ''Subscription URL must use http:// or https://: '' @ url
      | MissingUri \<Rightarrow> ''Missing '' @ quoted ''uri'' @ '' parameter in profile deep link''
      | UnknownAction a \<Rightarrow> ''Unknown deep link action: '' @ quoted a)"

fun with_link_group :: "string option \<Rightarrow> DeepLinkAction \<Rightarrow> DeepLinkAction" where
  "with_link_group (Some grp) (ImportHappRouting lnk _) = ImportHappRouting lnk (Some grp)"
| "with_link_group (Some grp) (AddProfile uri _) = AddProfile uri (Some grp)"
| "with_link_group _ a = a"

definition core_errors :: "unit cli \<Rightarrow> unit cli" where
  "core_errors m s =
     (case m s of (Inl e, s) \<Rightarrow> (Inl (CoreError (cli_error_text e)), s) | r \<Rightarrow> r)"

definition link_handle :: "CliEnv \<Rightarrow> GlobalArgs \<Rightarrow> string \<Rightarrow> string option \<Rightarrow> unit cli" where
  "link_handle env g url grp =
     andThen (if gl_json g
              then say (Stderr ''note: progress output is textual; JSON is not supported for link handle'')
              else ret ()) (\<lambda>_.
     (case parse_deeplink (ce_lc env) url of
        Inl e \<Rightarrow> fail (Usage (deeplink_error_text e))
      | Inr a \<Rightarrow> core_errors (run_deeplink_action env (with_link_group grp a))))"

definition link_register :: "CliEnv \<Rightarrow> GlobalArgs \<Rightarrow> unit cli" where
  "link_register env g =
     andThen (if gl_json g
              then say (Stderr ''note: progress output is textual; JSON is not supported for link register'')
              else ret ()) (\<lambda>_.
     (case ce_register_desktop env of Some e \<Rightarrow> fail (CoreError e) | None \<Rightarrow> ret ()))"

fun cli_link :: "CliEnv \<Rightarrow> GlobalArgs \<Rightarrow> LinkCmd \<Rightarrow> unit cli" where
  "cli_link env g (LinkHandle url grp) = link_handle env g url grp"
| "cli_link env g LinkRegister = link_register env g"

section \<open>The service\<close>

definition service_state :: "bool \<Rightarrow> json" where
  "service_state b = JObj [(''enabled'', JBool b)]"

definition systemd_set :: "CliEnv \<Rightarrow> GlobalArgs \<Rightarrow> bool \<Rightarrow> unit cli" where
  "systemd_set env g enable =
     (if enable then
        (if ce_systemd_enabled env
         then out_ok g ''Systemd user service is already enabled.'' (service_state True)
         else (case ce_setup_systemd env of
                 Some e \<Rightarrow> fail (CoreError e)
               | None \<Rightarrow> out_ok g ''Systemd user service enabled (whoisthat-core.service).'' (service_state True)))
      else if \<not> ce_systemd_enabled env
        then out_ok g ''Systemd user service is already disabled.'' (service_state False)
      else (case ce_teardown_systemd env of
              Some e \<Rightarrow> fail (CoreError e)
            | None \<Rightarrow> out_ok g ''Systemd user service disabled.'' (service_state False)))"

fun cli_systemd :: "CliEnv \<Rightarrow> GlobalArgs \<Rightarrow> SystemdCmd \<Rightarrow> unit cli" where
  "cli_systemd env g SystemdStatus =
     (if gl_json g
      then out_json (JObj [(''unit'', JStr ''whoisthat-core.service''), (''path'', JStr (ce_unit_path env)),
             (''enabled'', JBool (ce_systemd_enabled env)), (''linger'', JBool (ce_linger env))])
      else print_lines
        [''Systemd user service (whoisthat-core.service): '' @
           (if ce_systemd_enabled env then ''ENABLED'' else ''DISABLED''),
         ''Unit file: '' @ ce_unit_path env,
         ''Linger:    '' @ (if ce_linger env then ''enabled'' else ''disabled'')])"
| "cli_systemd env g SystemdEnable = systemd_set env g True"
| "cli_systemd env g SystemdDisable = systemd_set env g False"
| "cli_systemd env g SystemdToggle = systemd_set env g (\<not> ce_systemd_enabled env)"

end
