(* ===== verification/CliLogs.thy ===== *)
theory CliLogs
  imports CliSession
begin

text \<open>
  \<open>src/cli/commands/logs.rs\<close>: showing, following and clearing the logs.  Times are local times, in
  seconds since a midnight; \<open>ce\_parse\_time\<close> is chrono's parser for a format.
\<close>

section \<open>Lines\<close>

record ParsedLine =
  pl_timestamp :: "string option"
  pl_at :: "int option"
  pl_time :: string
  pl_level :: "Level option"
  pl_tag :: "string option"
  pl_message :: string
  pl_raw :: string

definition parse_log_line :: "CliEnv \<Rightarrow> string \<Rightarrow> ParsedLine" where
  "parse_log_line env l =
     (let p = LogFmt.parse l
      in \<lparr>pl_timestamp = ll_timestamp p,
          pl_at = Option.bind (ll_timestamp p) (ce_parse_time env ''%Y/%m/%d %H:%M:%S''),
          pl_time = ll_time p, pl_level = ll_level p, pl_tag = ll_tag p, pl_message = ll_message p,
          pl_raw = l\<rparr>)"

definition log_line_json :: "ParsedLine \<Rightarrow> json" where
  "log_line_json l = JObj
     [(''time'', JStr (pl_time l)), (''timestamp'', enc_option JStr (pl_timestamp l)),
      (''level'', enc_option (\<lambda>t. JStr (map ascii_lower t)) (pl_tag l)), (''message'', JStr (pl_message l))]"

section \<open>The time to start from\<close>

text \<open>\<open>None\<close> is a panic: \<open>split\_at\<close> on an index that is not a character boundary.  The inner option
  is the one of the source.\<close>

definition relative :: "string \<Rightarrow> (int \<times> char) option option" where
  "relative s =
     (if s = [] then Some None
      else if is_cont (last s) then None
      else if last s \<notin> {CHR ''m'', CHR ''h'', CHR ''d''} then Some None
      else (case parse_i64 (butlast s) of
              None \<Rightarrow> Some None
            | Some n \<Rightarrow> Some (if n > 0 then Some (n, last s) else None)))"

definition start_of_day :: "int \<Rightarrow> int" where
  "start_of_day now = now - now mod 86400"

definition unit_seconds :: "char \<Rightarrow> int" where
  "unit_seconds u = (if u = CHR ''m'' then 60 else if u = CHR ''h'' then 3600 else 86400)"

text \<open>A duration is kept in milliseconds and a time ends with chrono's first and last year; going
  beyond either is a panic.\<close>

definition minus_duration :: "int \<Rightarrow> int \<Rightarrow> int \<Rightarrow> int option" where
  "minus_duration earliest now secs =
     (if 1000 * secs \<ge> 2 ^ 63 \<or> now - secs < earliest then None else Some (now - secs))"

definition earliest_time :: int where
  "earliest_time = - 8334601228800"

definition absolute_formats :: "string list" where
  "absolute_formats =
     [''%Y-%m-%d %H:%M:%S'', ''%Y-%m-%dT%H:%M:%S'', ''%Y-%m-%d %H:%M'', ''%Y-%m-%dT%H:%M'', ''%Y-%m-%d'']"

fun parse_formats :: "(string \<Rightarrow> string \<Rightarrow> int option) \<Rightarrow> string list \<Rightarrow> string \<Rightarrow> int option" where
  "parse_formats p [] s = None"
| "parse_formats p (f # fs) s = (case p f s of Some t \<Rightarrow> Some t | None \<Rightarrow> parse_formats p fs s)"

definition or_panic :: "'a option \<Rightarrow> CliError + 'a" where
  "or_panic x = (case x of None \<Rightarrow> Inl Panicked | Some v \<Rightarrow> Inr v)"

text \<open>The text of the error names the formats that are accepted; it is cut short here.\<close>

definition parse_since :: "(string \<Rightarrow> string \<Rightarrow> int option) \<Rightarrow> int \<Rightarrow> string \<Rightarrow> CliError + int" where
  "parse_since p now value =
     (let s = trim value in
      if eq_ignore_ascii_case s ''today'' then Inr (start_of_day now)
      else if eq_ignore_ascii_case s ''yesterday'' then Inr (start_of_day (now - 86400))
      else (case relative s of
              None \<Rightarrow> Inl Panicked
            | Some (Some (amount, unit)) \<Rightarrow> or_panic (minus_duration earliest_time now (amount * unit_seconds unit))
            | Some None \<Rightarrow>
                (case parse_formats p absolute_formats s of
                   Some t \<Rightarrow> Inr t
                 | None \<Rightarrow> Inl (Usage ''invalid --since value''))))"

section \<open>Filtering\<close>

record LineFilter =
  lf_min :: "Level option"
  lf_since :: "int option"
  lf_grep :: "string option"

definition passes :: "(string \<Rightarrow> string) \<Rightarrow> LineFilter \<Rightarrow> ParsedLine \<Rightarrow> bool" where
  "passes lc f l \<longleftrightarrow>
     (case lf_min f of None \<Rightarrow> True
      | Some m \<Rightarrow> (case pl_level l of None \<Rightarrow> False | Some v \<Rightarrow> v \<le> m)) \<and>
     (case lf_since f of None \<Rightarrow> True
      | Some t \<Rightarrow> (case pl_at l of None \<Rightarrow> True | Some a \<Rightarrow> a \<ge> t)) \<and>
     (case lf_grep f of None \<Rightarrow> True | Some w \<Rightarrow> str_contains w (lc (pl_raw l)))"

definition new_filter :: "CliEnv \<Rightarrow> LogsArgs \<Rightarrow> CliError + LineFilter" where
  "new_filter env a =
     (let f = (\<lambda>since. \<lparr>lf_min = map_option arg_level (la_level a), lf_since = since,
                  lf_grep = map_option (ce_lc env) (la_grep a)\<rparr>)
      in (case la_since a of
            None \<Rightarrow> Inr (f None)
          | Some v \<Rightarrow> (case parse_since (ce_parse_time env) (ce_now env) v of
                         Inl e \<Rightarrow> Inl e | Inr t \<Rightarrow> Inr (f (Some t)))))"

section \<open>Showing and following\<close>

definition source_paths :: "CliEnv \<Rightarrow> LogSourceArg \<Rightarrow> string list" where
  "source_paths env src = (case src of SourceCore \<Rightarrow> core_log_paths (ce_dirs env) | SourceTui \<Rightarrow> tui_log_paths (ce_dirs env))"

definition first_existing :: "Disk \<Rightarrow> string list \<Rightarrow> string" where
  "first_existing d paths = (case find (\<lambda>p. lookup_file d p \<noteq> None) paths of Some p \<Rightarrow> p | None \<Rightarrow> hd paths)"

definition tail_budget :: "nat \<Rightarrow> nat" where
  "tail_budget n = max (min (max n 1 * 512) (2 ^ 64 - 1)) (64 * 1024)"

definition last_lines :: "nat \<Rightarrow> 'a list \<Rightarrow> 'a list" where
  "last_lines n xs = drop (length xs - n) xs"

fun emit_lines :: "GlobalArgs \<Rightarrow> ParsedLine list \<Rightarrow> unit cli" where
  "emit_lines g [] = ret ()"
| "emit_lines g (l # ls) =
     andThen (if gl_json g then out_json (log_line_json l) else println (pl_raw l)) (\<lambda>_. emit_lines g ls)"

text \<open>The loop of \<open>--follow\<close> has no end of its own: \<open>ce\_follow\<close> is what the polls so far find.\<close>

definition follow_from :: "CliEnv \<Rightarrow> GlobalArgs \<Rightarrow> LineFilter \<Rightarrow> LogFileData \<Rightarrow> nat \<Rightarrow> unit cli" where
  "follow_from env g f file offset =
     emit_lines g (filter (passes (ce_lc env) f)
       (map (parse_log_line env) (fst (poll_all (open_at file offset) (ce_follow env)))))"

definition shown_tail :: "CliEnv \<Rightarrow> LineFilter \<Rightarrow> nat \<Rightarrow> string list \<Rightarrow> ParsedLine list" where
  "shown_tail env f n ls =
     filter (passes (ce_lc env) f) (last_lines n (map (parse_log_line env) ls))"

definition open_log :: "string \<Rightarrow> LogFileData cli" where
  "open_log path s =
     (case dk_fail (cl_disk s) OpenRead path of
        Some e \<Rightarrow> (Inl (IoFailed e), s)
      | None \<Rightarrow>
          (case lookup_file (cl_disk s) path of
             None \<Rightarrow> (Inl (IoFailed ''No such file or directory''), s)
           | Some f \<Rightarrow> (Inr f, s)))"

definition show_logs :: "CliEnv \<Rightarrow> GlobalArgs \<Rightarrow> LogsArgs \<Rightarrow> unit cli" where
  "show_logs env g a =
     andThen (lift (resolve_source (la_source a) (la_tui a))) (\<lambda>src.
     andThen (get_cli (\<lambda>s. first_existing (cl_disk s) (source_paths env src))) (\<lambda>path.
     andThen (lift (new_filter env a)) (\<lambda>f.
     andThen (get_cli (\<lambda>s. lookup_file (cl_disk s) path \<noteq> None)) (\<lambda>there.
     if \<not> there then out_note g (''log file not found: '' @ path)
     else
       andThen (open_log path) (\<lambda>file.
       (case read_tail (fi_content file) (tail_budget (la_lines a)) of
          (raw, offset) \<Rightarrow>
            (let ls = shown_tail env f (la_lines a) raw
             in if la_follow a then
                  andThen (emit_lines g ls) (\<lambda>_. follow_from env g f file offset)
                else if gl_json g then out_json (JArr (map log_line_json ls))
                else emit_lines g ls)))))))"

section \<open>Clearing\<close>

definition action_text :: "ClearAction \<Rightarrow> string" where
  "action_text a = (case a of Truncated \<Rightarrow> ''truncated'' | Removed \<Rightarrow> ''removed'' | Missing \<Rightarrow> ''missing''
     | Failed \<Rightarrow> ''failed'')"

definition cleared_json :: "Cleared \<Rightarrow> json" where
  "cleared_json c = JObj
     ([(''path'', JStr (cd_path c)), (''action'', JStr (action_text (cd_action c))),
       (''bytes'', JInt (int (cd_bytes c)))]
      @ (case cd_error c of None \<Rightarrow> [] | Some e \<Rightarrow> [(''error'', JStr e)]))"

definition cleared_line :: "CliEnv \<Rightarrow> Cleared \<Rightarrow> string" where
  "cleared_line env c =
     action_text (cd_action c) @ '' '' @ cd_path c @
     (case cd_action c of
        Failed \<Rightarrow> '': '' @ (case cd_error c of None \<Rightarrow> ''unknown error'' | Some e \<Rightarrow> e)
      | Missing \<Rightarrow> []
      | _ \<Rightarrow> '' ('' @ cli_format_bytes (int (cd_bytes c)) @ '')'')"

definition clear_chosen :: "CliEnv \<Rightarrow> ClearSource \<Rightarrow> clearing \<Rightarrow> clearing" where
  "clear_chosen env src c =
     (let c = (if src = ClearCore \<or> src = ClearAll
               then clear_crash (data_dir (ce_dirs env)) (clear_core (core_log_paths (ce_dirs env)) c) else c)
      in if src = ClearTui \<or> src = ClearAll then clear_tui (tui_log_paths (ce_dirs env)) c else c)"

definition run_clear :: "CliEnv \<Rightarrow> ClearSource \<Rightarrow> Cleared list cli" where
  "run_clear env src s =
     (case clear_chosen env src ([], cl_disk s) of (rs, d) \<Rightarrow> (Inr rs, s\<lparr>cl_disk := d\<rparr>))"

fun out_lines :: "GlobalArgs \<Rightarrow> string list \<Rightarrow> unit cli" where
  "out_lines g [] = ret ()"
| "out_lines g (t # ts) = andThen (out_line g t) (\<lambda>_. out_lines g ts)"

definition logs_clear :: "CliEnv \<Rightarrow> GlobalArgs \<Rightarrow> ClearSource \<Rightarrow> bool \<Rightarrow> unit cli" where
  "logs_clear env g src yes =
     andThen (require yes (Usage ''logs clear is destructive; pass --yes to confirm'')) (\<lambda>_.
     andThen (run_clear env src) (\<lambda>rs.
     andThen
       (if gl_json g then out_json (JArr (map cleared_json rs))
        else out_lines g (map (cleared_line env) (filter (\<lambda>r. cd_action r \<noteq> Missing) rs))) (\<lambda>_.
     (let failed = length (filter (\<lambda>r. cd_action r = Failed) rs)
      in require (failed = 0) (CoreError (''failed to clear '' @ show_nat failed @ '' file(s)''))))))"

definition cli_logs :: "CliEnv \<Rightarrow> GlobalArgs \<Rightarrow> LogsArgs \<Rightarrow> unit cli" where
  "cli_logs env g a =
     (case la_clear a of Some (src, yes) \<Rightarrow> logs_clear env g src yes | None \<Rightarrow> show_logs env g a)"

section \<open>What the reading does\<close>

text \<open>A value that ends inside a character, or one that goes back too far, aborts the program, whatever
  the parser of times accepts.\<close>

lemma since_panics_on_boundary: "parse_since p now (''3'' @ [CHR 0xD0, CHR 0xB4]) = Inl Panicked"
proof -
  have "trim (''3'' @ [CHR 0xD0, CHR 0xB4]) = ''3'' @ [CHR 0xD0, CHR 0xB4]" by code_simp
  then show ?thesis
    by (simp add: parse_since_def relative_def eq_ignore_ascii_case_def is_cont_def)
qed

lemma since_panics_on_range: "parse_since p 0 ''99999999999999999d'' = Inl Panicked"
proof -
  have trim: "trim ''99999999999999999d'' = ''99999999999999999d''" by code_simp
  have digits: "list_all is_digit ''99999999999999999''" by code_simp
  have val: "digits_value ''99999999999999999'' = 99999999999999999" by (simp add: digits_value_def)
  have "parse_i64 ''99999999999999999'' = Some 99999999999999999"
    using digits val by (simp add: parse_i64_def parse_nat_def)
  then have "relative ''99999999999999999d'' = Some (Some (99999999999999999, CHR ''d''))"
    by (simp add: relative_def is_cont_def)
  then show ?thesis unfolding parse_since_def trim
    by (simp add: eq_ignore_ascii_case_def minus_duration_def unit_seconds_def or_panic_def)
qed

text \<open>The level and the search words only ever take lines away, and lines without a date are kept.\<close>

lemma passes_undated:
  "pl_at l = None \<Longrightarrow> passes lc f l = passes lc (f\<lparr>lf_since := None\<rparr>) l"
  by (simp add: passes_def split: option.splits)

end
