(* ===== verification/Cli.thy ===== *)
theory Cli
  imports DoctorDns CliSettings CliRouting CliLinks CliLogs
begin

text \<open>
  \<open>src/cli/mod.rs\<close>, \<open>src/cli/commands/doctor.rs\<close> and \<open>src/launcher.rs\<close>: the commands together, the
  outcome of a call, and starting a program in the split tunnel.  The parser of the arguments is
  clap's, so a call starts from what it returned.
\<close>

section \<open>Diagnostics\<close>

text \<open>The report is made from the saved configuration and the log files of the call's own state.\<close>

definition cli_doctor :: "DoctorEnv \<Rightarrow> GlobalArgs \<Rightarrow> bool \<Rightarrow> unit cli" where
  "cli_doctor doctor g with_logs =
     andThen (get_cli (\<lambda>s. run_doctor doctor (cl_disk s) (cl_file s) with_logs)) (\<lambda>report.
     andThen (if gl_json g then out_json (enc_report report)
              else print_lines (report_lines (he_var (de_host doctor) ''NO_COLOR'' = None) report)) (\<lambda>_.
     require (ds_is_healthy (dr_summary report)) (CoreError ''diagnostics found failures'')))"

section \<open>Starting a program in the split tunnel\<close>

definition slice_name :: string where
  "slice_name = ''whoisthat_split.slice''"

definition detach_flags :: "string list" where
  "detach_flags = [''-d'', ''--detach'', ''-b'', ''--background'']"

definition session_vars :: "string list" where
  "session_vars = [''DISPLAY'', ''WAYLAND_DISPLAY'', ''XDG_CURRENT_DESKTOP'']"

record LaunchEnv =
  le_systemd_run :: bool
  le_var :: "string \<Rightarrow> string option"
  le_status :: "string list \<Rightarrow> string + int option"

definition split_launch_args :: "string list \<Rightarrow> bool \<times> string list" where
  "split_launch_args args =
     (case args of
        first # rest \<Rightarrow>
          if first \<in> set detach_flags
          then (True, case rest of a # r \<Rightarrow> if a = ''--'' then r else rest | [] \<Rightarrow> [])
          else (False, args)
      | [] \<Rightarrow> (False, []))"

definition launch_command :: "(string \<Rightarrow> string option) \<Rightarrow> bool \<Rightarrow> string list \<Rightarrow> string list" where
  "launch_command var detach target =
     [''--user'', ''--collect'', ''--slice='' @ slice_name]
     @ (if detach
        then ''--same-dir'' # List.map_filter (\<lambda>v. map_option (\<lambda>x. ''-E'' @ v @ ''='' @ x) (var v)) session_vars
        else [''--scope''])
     @ ''--'' # target"

definition run_in_split_slice :: "LaunchEnv \<Rightarrow> string list \<Rightarrow> int" where
  "run_in_split_slice env args =
     (case split_launch_args args of (detach, target) \<Rightarrow>
        if target = [] then 2
        else if \<not> le_systemd_run env then 127
        else (case le_status env (launch_command (le_var env) detach target) of
                Inl e \<Rightarrow> 1
              | Inr r \<Rightarrow> (case r of None \<Rightarrow> 1 | Some c \<Rightarrow> c)))"

section \<open>The commands\<close>

definition or_status :: "ModeCmd option \<Rightarrow> ModeCmd" where
  "or_status cmd = (case cmd of None \<Rightarrow> ModeStatus | Some c \<Rightarrow> c)"

text \<open>\<open>CmdRun\<close> never gets here: \<open>run\<close> handles it.\<close>

fun cli_dispatch :: "DoctorEnv \<Rightarrow> CliEnv \<Rightarrow> GlobalArgs \<Rightarrow> CliCommand \<Rightarrow> unit cli" where
  "cli_dispatch doctor env g (CmdStatus short watch) = cli_status env g short watch"
| "cli_dispatch doctor env g (CmdConnect target grp wait) = cli_connect env g target grp wait"
| "cli_dispatch doctor env g (CmdDisconnect wait) = cli_disconnect env g wait"
| "cli_dispatch doctor env g (CmdToggle wait) = cli_toggle env g wait"
| "cli_dispatch doctor env g (CmdMode cmd) = cli_mode env g (or_status cmd)"
| "cli_dispatch doctor env g (CmdCore cmd) = cli_core env g cmd"
| "cli_dispatch doctor env g (CmdProfile cmd) = cli_profile env g cmd"
| "cli_dispatch doctor env g (CmdSub cmd) = cli_sub env g cmd"
| "cli_dispatch doctor env g (CmdRoute cmd) = cli_route env g cmd"
| "cli_dispatch doctor env g (CmdTest cmd) = cli_test env g cmd"
| "cli_dispatch doctor env g (CmdSettings cmd sets force) = cli_settings env g cmd sets force"
| "cli_dispatch doctor env g (CmdHwid cmd) = cli_hwid env g cmd"
| "cli_dispatch doctor env g (CmdLogs a) = cli_logs env g a"
| "cli_dispatch doctor env g (CmdSystemd cmd) = cli_systemd env g cmd"
| "cli_dispatch doctor env g (CmdLink cmd) = cli_link env g cmd"
| "cli_dispatch doctor env g (CmdDoctor with_logs) = cli_doctor doctor g with_logs"
| "cli_dispatch doctor env g CmdIp = cli_ip env g"
| "cli_dispatch doctor env g CmdVersion = cli_version env g"
| "cli_dispatch doctor env g (CmdRun detach argv) = fail Panicked"

section \<open>The outcome\<close>

datatype Outcome = Tui | Exit int

definition finish :: "(CliError + unit) \<times> Cli \<Rightarrow> Outcome \<times> Cli" where
  "finish r =
     (case r of
        (Inr (), s) \<Rightarrow> (Exit 0, s)
      | (Inl e, s) \<Rightarrow>
          (Exit (exit_code e),
           if e = Panicked then s
           else s\<lparr>cl_out := cl_out s @ [Stderr (''Error: '' @ cli_error_text e)]\<rparr>))"

text \<open>What clap makes of the arguments: an exit code (0 for help), or the options, whether the version
  is asked for, and the command.\<close>

type_synonym clap = "string list \<Rightarrow> int + GlobalArgs \<times> bool \<times> CliCommand option"

definition cli_run ::
  "clap \<Rightarrow> LaunchEnv \<Rightarrow> DoctorEnv \<Rightarrow> CliEnv \<Rightarrow> string list \<Rightarrow> Cli \<Rightarrow> Outcome \<times> Cli" where
  "cli_run clap launch doctor env args s =
     (if args = [] then (Tui, s)
      else (case clap (normalize_legacy args) of
              Inl n \<Rightarrow> (Exit n, s)
            | Inr (g, version, cmd) \<Rightarrow>
                if version then finish (cli_version env g s)
                else (case cmd of
                        None \<Rightarrow> (Exit 2, s\<lparr>cl_out := cl_out s @
                                   [Stderr ''whoisthat: no command given (try --help)'']\<rparr>)
                      | Some (CmdRun detach argv) \<Rightarrow>
                          (Exit (run_in_split_slice launch ((if detach then [''-d''] else []) @ argv)), s)
                      | Some c \<Rightarrow> finish (cli_dispatch doctor env g c s))))"

end
