(* ===== verification/Logger.thy ===== *)
theory Logger
  imports LogFile
begin

text \<open>
  \<open>src/logger.rs\<close>: the file logger of the terminal interface.  Its file can be renamed away under the
  open descriptor, so the file system has names, inodes and the content of the inodes.  Which system
  calls fail is part of each call's input.
\<close>

section \<open>The file system under the logger\<close>

record LoggerFs =
  ls_dir :: "string \<Rightarrow> nat option"
  ls_data :: "nat \<Rightarrow> string"
  ls_mode :: "nat \<Rightarrow> nat"
  ls_next :: nat

text \<open>What the calls of one operation do: \<open>fl\_write\<close> is \<open>None\<close> when \<open>write\_all\<close> succeeds and the number of
  bytes that reached the file when it fails.\<close>

record Faults =
  fl_reopen :: bool
  fl_write :: "nat option"
  fl_rename :: bool
  fl_open :: bool
  fl_truncate :: bool
  fl_unlink :: bool
  fl_chmod :: bool

definition no_faults :: Faults where
  "no_faults = \<lparr>fl_reopen = False, fl_write = None, fl_rename = False, fl_open = False,
     fl_truncate = False, fl_unlink = False, fl_chmod = False\<rparr>"

definition chmod_owner :: "bool \<Rightarrow> nat \<Rightarrow> LoggerFs \<Rightarrow> LoggerFs" where
  "chmod_owner fails i s = (if fails then s else s\<lparr>ls_mode := (ls_mode s)(i := 384)\<rparr>)"

text \<open>Mode \<open>0600\<close> is 384.  A new file is created empty with it; a file that is there keeps its content.\<close>

definition open_log_file :: "bool \<Rightarrow> bool \<Rightarrow> string \<Rightarrow> LoggerFs \<Rightarrow> nat option \<times> LoggerFs" where
  "open_log_file fails chmod_fails path s =
     (if fails then (None, s)
      else (case ls_dir s path of
              Some i \<Rightarrow> (Some i, chmod_owner chmod_fails i s)
            | None \<Rightarrow>
                (let i = ls_next s
                 in (Some i, s\<lparr>ls_dir := (ls_dir s)(path \<mapsto> i), ls_data := (ls_data s)(i := []),
                               ls_mode := (ls_mode s)(i := 384), ls_next := i + 1\<rparr>))))"

definition append_to :: "nat \<Rightarrow> string \<Rightarrow> LoggerFs \<Rightarrow> LoggerFs" where
  "append_to i t s = s\<lparr>ls_data := (ls_data s)(i := ls_data s i @ t)\<rparr>"

definition remove_name :: "bool \<Rightarrow> string \<Rightarrow> LoggerFs \<Rightarrow> LoggerFs" where
  "remove_name fails path s = (if fails then s else s\<lparr>ls_dir := (ls_dir s)(path := None)\<rparr>)"

section \<open>The logger\<close>

definition MAX_LOG_BYTES :: nat where
  "MAX_LOG_BYTES = 10 * 1024 * 1024"

definition BACKUP_MAX_AGE :: nat where
  "BACKUP_MAX_AGE = 7 * 24 * 60 * 60"

record LogInner =
  in_file :: nat
  in_path :: string
  in_written :: nat
  in_degraded :: bool

text \<open>\<open>rename\<close> fails with a name that is not there.\<close>

definition rotate_log :: "Faults \<Rightarrow> LogInner \<Rightarrow> LoggerFs \<Rightarrow> LogInner \<times> LoggerFs" where
  "rotate_log fl inner s =
     (if in_degraded inner then (inner, s)
      else (case ls_dir s (in_path inner) of
              None \<Rightarrow> (inner, s)
            | Some i \<Rightarrow>
                if fl_rename fl then (inner, s)
                else
                  (let backup = backup_path (in_path inner);
                       s = chmod_owner (fl_chmod fl) i
                             (s\<lparr>ls_dir := (ls_dir s)(backup \<mapsto> i, in_path inner := None)\<rparr>)
                   in case open_log_file (fl_open fl) (fl_chmod fl) (in_path inner) s of
                        (Some file, s) \<Rightarrow> (inner\<lparr>in_file := file, in_written := 0, in_degraded := False\<rparr>, s)
                      | (None, s) \<Rightarrow> (inner\<lparr>in_degraded := True\<rparr>, s))))"

text \<open>The first statement of \<open>clear\<close> and of \<open>write\_locked\<close>.\<close>

definition leave_degraded :: "Faults \<Rightarrow> LogInner \<Rightarrow> LoggerFs \<Rightarrow> LogInner \<times> LoggerFs" where
  "leave_degraded fl inner s =
     (if in_degraded inner
      then (case open_log_file (fl_reopen fl) (fl_chmod fl) (in_path inner) s of
              (Some file, s) \<Rightarrow>
                (inner\<lparr>in_file := file, in_written := length (ls_data s file), in_degraded := False\<rparr>, s)
            | (None, s) \<Rightarrow> (inner, s))
      else (inner, s))"

definition log_line :: "string \<Rightarrow> Level \<Rightarrow> string \<Rightarrow> string" where
  "log_line ts level args = format_line ts level args @ [CHR 0x0A]"

definition write_line :: "Faults \<Rightarrow> string \<Rightarrow> LogInner \<Rightarrow> LoggerFs \<Rightarrow> LogInner \<times> LoggerFs" where
  "write_line fl line inner s =
     (case fl_write fl of
        Some n \<Rightarrow> (inner, append_to (in_file inner) (take n line) s)
      | None \<Rightarrow>
          (let s = append_to (in_file inner) line s;
               inner = inner\<lparr>in_written := in_written inner + length line\<rparr>
           in if in_written inner \<ge> MAX_LOG_BYTES then rotate_log fl inner s else (inner, s)))"

definition write_locked :: "Faults \<Rightarrow> string \<Rightarrow> Level \<Rightarrow> string \<Rightarrow> LogInner \<Rightarrow> LoggerFs \<Rightarrow> LogInner \<times> LoggerFs" where
  "write_locked fl ts level args inner s =
     (case leave_degraded fl inner s of (inner, s) \<Rightarrow> write_line fl (log_line ts level args) inner s)"

text \<open>\<open>emergency\_write\<close> opens the path anew and appends; \<open>log\_always\<close> uses it when the lock is held.\<close>

definition emergency_write :: "Faults \<Rightarrow> string \<Rightarrow> string \<Rightarrow> Level \<Rightarrow> string \<Rightarrow> LoggerFs \<Rightarrow> LoggerFs" where
  "emergency_write fl path ts level args s =
     (case open_log_file (fl_open fl) True path s of
        (None, s) \<Rightarrow> s
      | (Some i, s) \<Rightarrow>
          (let line = log_line ts level args
           in append_to i (case fl_write fl of None \<Rightarrow> line | Some n \<Rightarrow> take n line) s))"

definition log_always ::
  "bool \<Rightarrow> Faults \<Rightarrow> string \<Rightarrow> string \<Rightarrow> Level \<Rightarrow> string \<Rightarrow> LogInner \<Rightarrow> LoggerFs \<Rightarrow> LogInner \<times> LoggerFs" where
  "log_always locked fl path ts level args inner s =
     (if locked then (inner, emergency_write fl path ts level args s)
      else write_locked fl ts level args inner s)"

definition clear_log :: "Faults \<Rightarrow> LogInner \<Rightarrow> LoggerFs \<Rightarrow> nat option \<times> LogInner \<times> LoggerFs" where
  "clear_log fl inner s =
     (case leave_degraded fl inner s of
        (inner, s) \<Rightarrow>
          (if fl_truncate fl then (None, inner, s)
           else (Some (length (ls_data s (in_file inner))), inner\<lparr>in_written := 0\<rparr>,
                 remove_name (fl_unlink fl) (backup_path (in_path inner))
                   (s\<lparr>ls_data := (ls_data s)(in_file inner := [])\<rparr>))))"

section \<open>Levels\<close>

datatype LevelFilter = FOff | FError | FWarn | FInfo | FDebug | FTrace

fun record_rank :: "Level \<Rightarrow> nat" where
  "record_rank Error = 1"
| "record_rank Warn = 2"
| "record_rank Info = 3"
| "record_rank Debug = 4"
| "record_rank Trace = 5"

fun filter_rank :: "LevelFilter \<Rightarrow> nat" where
  "filter_rank FOff = 0"
| "filter_rank FError = 1"
| "filter_rank FWarn = 2"
| "filter_rank FInfo = 3"
| "filter_rank FDebug = 4"
| "filter_rank FTrace = 5"

definition filter_from_rank :: "nat \<Rightarrow> LevelFilter" where
  "filter_from_rank r =
     (if r = 0 then FOff else if r = 1 then FError else if r = 2 then FWarn
      else if r = 3 then FInfo else if r = 4 then FDebug else FTrace)"

fun filter_name :: "LevelFilter \<Rightarrow> string" where
  "filter_name FOff = ''off''"
| "filter_name FError = ''error''"
| "filter_name FWarn = ''warn''"
| "filter_name FInfo = ''info''"
| "filter_name FDebug = ''debug''"
| "filter_name FTrace = ''trace''"

definition parse_level :: "string \<Rightarrow> LevelFilter option" where
  "parse_level level =
     (let l = map ascii_lower (trim level)
      in if l = ''error'' then Some FError
         else if l = ''warn'' then Some FWarn
         else if l = ''info'' then Some FInfo
         else if l = ''debug'' then Some FDebug
         else if l = ''trace'' then Some FTrace
         else None)"

definition log_enabled_for :: "Level \<Rightarrow> nat \<Rightarrow> bool" where
  "log_enabled_for level rank \<longleftrightarrow> record_rank level \<le> rank"

text \<open>The rank stored in the logger; the crate's own maximum becomes the same level.\<close>

definition configure_logger :: "bool \<Rightarrow> string \<Rightarrow> nat" where
  "configure_logger enabled level =
     (let rank = filter_rank (case parse_level level of None \<Rightarrow> FWarn | Some l \<Rightarrow> l)
      in if enabled then rank else min rank (filter_rank FWarn))"

definition env_part_level :: "string \<Rightarrow> LevelFilter option" where
  "env_part_level part =
     (let part = trim part
      in if part = [] then None
         else
           (let (target, level) = (case rsplit_once (CHR ''='') part of
                  Some (target, level) \<Rightarrow> (trim target, trim level) | None \<Rightarrow> ([], part))
            in if target \<noteq> [] \<and> \<not> starts_with ''whoisthat'' target then None else parse_level level))"

fun first_some :: "('a \<Rightarrow> 'b option) \<Rightarrow> 'a list \<Rightarrow> 'b option" where
  "first_some f [] = None"
| "first_some f (x # xs) = (case f x of None \<Rightarrow> first_some f xs | Some y \<Rightarrow> Some y)"

definition parse_env_level :: "string \<Rightarrow> LevelFilter option" where
  "parse_env_level v = first_some env_part_level (split_on (\<lambda>c. c = CHR '','') v)"

text \<open>\<open>var\<close> reads the environment.\<close>

definition env_log_level :: "(string \<Rightarrow> string option) \<Rightarrow> (LevelFilter \<times> string) option" where
  "env_log_level var =
     first_some (\<lambda>name. case var name of
         None \<Rightarrow> None
       | Some v \<Rightarrow> if trim v = [] then None else map_option (\<lambda>l. (l, name)) (parse_env_level v))
       [''RUST_LOG'', ''WHOISTHAT_LOG_LEVEL'']"

definition log_record ::
  "nat \<Rightarrow> Faults \<Rightarrow> string \<Rightarrow> Level \<Rightarrow> string \<Rightarrow> LogInner \<Rightarrow> LoggerFs \<Rightarrow> LogInner \<times> LoggerFs" where
  "log_record rank fl ts level args inner s =
     (if log_enabled_for level rank then write_locked fl ts level args inner s else (inner, s))"

section \<open>Start\<close>

text \<open>\<open>age\<close> is how old a file is, if that can be told; the old shared file under \<open>/tmp\<close> is removed when it
  is the user's own.\<close>

definition cleanup_logs :: "Faults \<Rightarrow> (nat \<Rightarrow> nat option) \<Rightarrow> bool \<Rightarrow> string \<Rightarrow> string \<Rightarrow> LoggerFs \<Rightarrow> LoggerFs" where
  "cleanup_logs fl age own legacy path s =
     (let backup = backup_path path;
          s = (case ls_dir s backup of
                 None \<Rightarrow> s
               | Some i \<Rightarrow>
                   (let s = chmod_owner (fl_chmod fl) i s
                    in case age i of
                         Some a \<Rightarrow> if a \<ge> BACKUP_MAX_AGE then remove_name (fl_unlink fl) backup s else s
                       | None \<Rightarrow> s))
      in if ls_dir s legacy \<noteq> None \<and> own then remove_name (fl_unlink fl) legacy s else s)"

text \<open>\<open>devnull\<close> is the inode of \<open>/dev/null\<close>, which is opened when neither path can be.\<close>

definition init_logger ::
  "Faults \<Rightarrow> nat \<Rightarrow> (nat \<Rightarrow> nat option) \<Rightarrow> bool \<Rightarrow> string \<Rightarrow> string \<Rightarrow> string \<Rightarrow> LoggerFs \<Rightarrow> LogInner \<times> LoggerFs" where
  "init_logger fl devnull age own legacy primary fallback s =
     (let (file, path, s) =
        (case open_log_file (fl_open fl) (fl_chmod fl) primary s of
           (Some i, s) \<Rightarrow> (i, primary, s)
         | (None, s) \<Rightarrow>
             (case open_log_file (fl_reopen fl) (fl_chmod fl) fallback s of
                (Some i, s) \<Rightarrow> (i, fallback, s)
              | (None, s) \<Rightarrow> (devnull, primary, s)));
          s = cleanup_logs fl age own legacy path s
      in (\<lparr>in_file = file, in_path = path, in_written = length (ls_data s file), in_degraded = False\<rparr>, s))"

text \<open>The panic hook: the message on one line, at the error level, whatever level is configured.\<close>

definition panic_message :: "string \<Rightarrow> string" where
  "panic_message info =
     ''panic: '' @ concat (map (\<lambda>c. if c = CHR 0x0A then '' | '' else [c]) info)"

section \<open>What is kept across rotations\<close>

text \<open>The old lines followed by the current ones, as a reader of the two files sees them.\<close>

definition content_of :: "LoggerFs \<Rightarrow> nat option \<Rightarrow> string" where
  "content_of s i = (case i of None \<Rightarrow> [] | Some i \<Rightarrow> ls_data s i)"

definition visible_log :: "string \<Rightarrow> LoggerFs \<Rightarrow> string" where
  "visible_log path s = content_of s (ls_dir s (backup_path path)) @ content_of s (ls_dir s path)"

definition landed :: "Faults \<Rightarrow> string \<Rightarrow> string" where
  "landed fl line = (case fl_write fl of None \<Rightarrow> line | Some n \<Rightarrow> take n line)"

text \<open>In the degraded state the open file is the backup and the log has no file of its own.\<close>

definition log_ok :: "LogInner \<Rightarrow> LoggerFs \<Rightarrow> bool" where
  "log_ok inner s \<longleftrightarrow>
     (\<forall>p i. ls_dir s p = Some i \<longrightarrow> i < ls_next s) \<and>
     (if in_degraded inner
      then ls_dir s (in_path inner) = None \<and> ls_dir s (backup_path (in_path inner)) = Some (in_file inner)
      else ls_dir s (in_path inner) = Some (in_file inner) \<and>
           ls_dir s (backup_path (in_path inner)) \<noteq> Some (in_file inner) \<and>
           in_written inner \<le> length (ls_data s (in_file inner)))"

lemma backup_path_neq [simp]: "backup_path p \<noteq> p" "p \<noteq> backup_path p"
  by (simp_all add: backup_path_def)

lemma chmod_owner_simps [simp]:
  "ls_dir (chmod_owner b i s) = ls_dir s" "ls_data (chmod_owner b i s) = ls_data s" "ls_next (chmod_owner b i s) = ls_next s"
  by (simp_all add: chmod_owner_def)

lemma append_to_simps [simp]:
  "ls_dir (append_to i t s) = ls_dir s" "ls_next (append_to i t s) = ls_next s"
  "ls_data (append_to i t s) j = (if j = i then ls_data s i @ t else ls_data s j)"
  by (simp_all add: append_to_def)

lemma log_ok_fresh: "log_ok inner s \<Longrightarrow> ls_dir s p \<noteq> Some (ls_next s) \<and> in_file inner \<noteq> ls_next s"
  by (fastforce simp: log_ok_def split: if_splits)

lemma leave_degraded_ok:
  assumes "log_ok inner s" "leave_degraded fl inner s = (inner', s')"
  shows "log_ok inner' s'" "visible_log (in_path inner) s' = visible_log (in_path inner) s" "in_path inner' = in_path inner"
  using assms log_ok_fresh [OF assms(1)]
  by (auto simp: leave_degraded_def open_log_file_def log_ok_def visible_log_def content_of_def Let_def less_SucI
      split: if_splits option.splits)

lemma rotate_log_ok:
  assumes "log_ok inner s" "rotate_log fl inner s = (inner', s')"
  shows "log_ok inner' s'" "in_path inner' = in_path inner"
    "visible_log (in_path inner) s' = visible_log (in_path inner) s \<or>
     visible_log (in_path inner) s' = ls_data s (in_file inner) \<and> \<not> in_degraded inner"
  using assms log_ok_fresh [OF assms(1)]
  by (auto simp: rotate_log_def open_log_file_def log_ok_def visible_log_def content_of_def Let_def less_SucI
      split: if_splits option.splits)

text \<open>What a write leaves visible: everything that was and what it wrote, or a new backup that is full.\<close>

definition recent :: "string \<Rightarrow> string \<Rightarrow> bool" where
  "recent history v \<longleftrightarrow> (\<exists>lost. history = lost @ v \<and> (lost = [] \<or> MAX_LOG_BYTES \<le> length v))"

lemma recent_trans: "recent h v \<Longrightarrow> recent (v @ t) w \<Longrightarrow> recent (h @ t) w"
  unfolding recent_def
proof (elim exE conjE)
  fix l l'
  assume a: "h = l @ v" "l = [] \<or> MAX_LOG_BYTES \<le> length v"
    and b: "v @ t = l' @ w" "l' = [] \<or> MAX_LOG_BYTES \<le> length w"
  have "h @ t = (l @ l') @ w" using a(1) b(1) by simp
  moreover have "l @ l' = [] \<or> MAX_LOG_BYTES \<le> length w"
    using a(2) b by (cases "l' = []") (auto simp flip: b(1))
  ultimately show "\<exists>lost. h @ t = lost @ w \<and> (lost = [] \<or> MAX_LOG_BYTES \<le> length w)" by blast
qed

lemma append_visible:
  assumes "log_ok inner s"
  shows "visible_log (in_path inner) (append_to (in_file inner) t s) = visible_log (in_path inner) s @ t"
  using assms by (auto simp: log_ok_def visible_log_def content_of_def split: if_splits option.splits)

lemma append_ok: "log_ok inner s \<Longrightarrow> log_ok inner (append_to (in_file inner) t s)"
  by (auto simp: log_ok_def split: if_splits)

lemma write_line_ok:
  assumes "log_ok inner s" "write_line fl line inner s = (inner', s')"
  shows "log_ok inner' s' \<and> in_path inner' = in_path inner \<and>
    recent (visible_log (in_path inner) s @ landed fl line) (visible_log (in_path inner) s')"
proof (cases "fl_write fl")
  case (Some n)
  then show ?thesis
    using assms append_ok [OF assms(1)] append_visible [OF assms(1)]
    by (auto simp: write_line_def landed_def recent_def)
next
  case None
  let ?s = "append_to (in_file inner) line s"
  let ?inner = "inner\<lparr>in_written := in_written inner + length line\<rparr>"
  have ok: "log_ok ?inner ?s" using assms(1) by (auto simp: log_ok_def split: if_splits)
  have v: "visible_log (in_path inner) ?s = visible_log (in_path inner) s @ line"
    by (rule append_visible [OF assms(1)])
  show ?thesis
  proof (cases "MAX_LOG_BYTES \<le> in_written ?inner")
    case True
    then have r: "rotate_log fl ?inner ?s = (inner', s')"
      using assms(2) None by (simp add: write_line_def Let_def)
    have full: "\<not> in_degraded inner \<Longrightarrow> MAX_LOG_BYTES \<le> length (ls_data ?s (in_file inner))"
      using ok True by (auto simp: log_ok_def)
    have suf: "\<not> in_degraded inner \<Longrightarrow>
        \<exists>l. visible_log (in_path inner) s @ line = l @ ls_data ?s (in_file inner)"
      using assms(1) by (auto simp: log_ok_def visible_log_def content_of_def split: option.splits)
    show ?thesis
      using rotate_log_ok [OF ok r] full suf v None by (auto simp: recent_def landed_def)
  next
    case False
    then show ?thesis
      using assms(2) None ok v by (auto simp: write_line_def landed_def recent_def Let_def)
  qed
qed

lemma write_locked_ok:
  assumes "log_ok inner s" "write_locked fl ts level args inner s = (inner', s')"
  shows "log_ok inner' s' \<and> in_path inner' = in_path inner \<and>
    recent (visible_log (in_path inner) s @ landed fl (log_line ts level args)) (visible_log (in_path inner) s')"
proof -
  obtain i1 s1 where d: "leave_degraded fl inner s = (i1, s1)" by force
  with assms(2) have w: "write_line fl (log_line ts level args) i1 s1 = (inner', s')"
    by (simp add: write_locked_def)
  show ?thesis
    using leave_degraded_ok [OF assms(1) d] write_line_ok [OF leave_degraded_ok(1) [OF assms(1) d] w] by simp
qed

text \<open>A run of records, each with what the system calls did.\<close>

type_synonym LogRequest = "Faults \<times> string \<times> Level \<times> string"

fun log_run :: "LogRequest list \<Rightarrow> LogInner \<Rightarrow> LoggerFs \<Rightarrow> LogInner \<times> LoggerFs" where
  "log_run [] inner s = (inner, s)"
| "log_run ((fl, ts, level, args) # rs) inner s =
     (case write_locked fl ts level args inner s of (inner, s) \<Rightarrow> log_run rs inner s)"

definition landed_all :: "LogRequest list \<Rightarrow> string" where
  "landed_all rs = concat (map (\<lambda>(fl, ts, level, args). landed fl (log_line ts level args)) rs)"

text \<open>C15: The file logger never loses recent records, whatever fails: after any run of records, with writes
  that are cut short, renames that fail and new files that cannot be created, the backup followed by the
  log is exactly the end of what was there and what the writes put into the file since, in order; and if
  anything older has been dropped, at least the last 10 MiB are still there.\<close>

theorem log_keeps_recent_records:
  assumes "log_ok inner s" "log_run rs inner s = (inner', s')"
  shows "\<exists>lost. visible_log (in_path inner) s @ landed_all rs = lost @ visible_log (in_path inner) s' \<and>
    (lost = [] \<or> MAX_LOG_BYTES \<le> length (visible_log (in_path inner) s'))"
proof -
  have "log_ok inner' s' \<and> recent (visible_log (in_path inner) s @ landed_all rs) (visible_log (in_path inner) s')"
    using assms
  proof (induction rs arbitrary: inner s)
    case Nil
    then show ?case by (simp add: landed_all_def recent_def)
  next
    case (Cons r rs)
    obtain fl ts level args where r: "r = (fl, ts, level, args)" by (cases r)
    obtain i1 s1 where w: "write_locked fl ts level args inner s = (i1, s1)" by force
    have one: "log_ok i1 s1 \<and> in_path i1 = in_path inner \<and>
      recent (visible_log (in_path inner) s @ landed fl (log_line ts level args)) (visible_log (in_path inner) s1)"
      by (rule write_locked_ok [OF Cons.prems(1) w])
    have "log_ok inner' s' \<and> recent (visible_log (in_path i1) s1 @ landed_all rs) (visible_log (in_path i1) s')"
      using Cons.IH [of i1 s1] one Cons.prems(2) w by (simp add: r)
    with one show ?case
      using recent_trans [of "visible_log (in_path inner) s @ landed fl (log_line ts level args)"
          "visible_log (in_path inner) s1" "landed_all rs" "visible_log (in_path inner) s'"]
      by (simp add: landed_all_def r)
  qed
  then show ?thesis by (simp add: recent_def)
qed

text \<open>A log of one byte less than the limit, a record that fills it, and one more.\<close>

definition sample_log :: "LogInner \<times> LoggerFs" where
  "sample_log =
     (\<lparr>in_file = 0, in_path = ''tui.log'', in_written = 0, in_degraded = False\<rparr>,
      \<lparr>ls_dir = [''tui.log'' \<mapsto> 0], ls_data = (\<lambda>_. []), ls_mode = (\<lambda>_. 384), ls_next = 1\<rparr>)"

theorem log_keeps_recent_records_witness:
  "\<exists>lost. visible_log ''tui.log'' (snd sample_log) @ landed_all [(no_faults, ''t'', Warn, ''m'')] =
      lost @ visible_log ''tui.log'' (snd (log_run [(no_faults, ''t'', Warn, ''m'')] (fst sample_log) (snd sample_log)))
    \<and> (lost = [] \<or> MAX_LOG_BYTES \<le>
        length (visible_log ''tui.log'' (snd (log_run [(no_faults, ''t'', Warn, ''m'')] (fst sample_log) (snd sample_log)))))"
proof -
  have "log_ok (fst sample_log) (snd sample_log)"
    by (simp add: log_ok_def sample_log_def backup_path_def)
  then show ?thesis
    using log_keeps_recent_records [of "fst sample_log" "snd sample_log" "[(no_faults, ''t'', Warn, ''m'')]"]
    by (cases "log_run [(no_faults, ''t'', Warn, ''m'')] (fst sample_log) (snd sample_log)")
      (simp add: sample_log_def)
qed

section \<open>How large the files grow\<close>

text \<open>As long as rotation succeeds the log stays below the limit and the backup below the limit and one
  record.\<close>

definition log_small :: "nat \<Rightarrow> LogInner \<Rightarrow> LoggerFs \<Rightarrow> bool" where
  "log_small m inner s \<longleftrightarrow> log_ok inner s \<and> \<not> in_degraded inner \<and>
     in_written inner = length (ls_data s (in_file inner)) \<and> in_written inner < MAX_LOG_BYTES \<and>
     length (content_of s (ls_dir s (backup_path (in_path inner)))) < MAX_LOG_BYTES + m"

definition rotation_works :: "LogRequest \<Rightarrow> bool" where
  "rotation_works r \<longleftrightarrow> fl_write (fst r) = None \<and> \<not> fl_rename (fst r) \<and> \<not> fl_open (fst r)"

lemma write_locked_small:
  assumes "log_small m inner s" "rotation_works (fl, ts, level, args)" "length (log_line ts level args) \<le> m"
    "write_locked fl ts level args inner s = (inner', s')"
  shows "log_small m inner' s' \<and> in_path inner' = in_path inner"
proof -
  let ?line = "log_line ts level args"
  have w: "write_line fl ?line inner s = (inner', s')"
    using assms(1,4) by (simp add: write_locked_def leave_degraded_def log_small_def)
  have ok: "log_ok inner' s'" and p: "in_path inner' = in_path inner"
    using write_line_ok [OF _ w] assms(1) by (simp_all add: log_small_def)
  have q: "ls_dir s (in_path inner) = Some (in_file inner)"
    "ls_dir s (backup_path (in_path inner)) \<noteq> Some (in_file inner)"
    using assms(1) by (auto simp: log_small_def log_ok_def)
  have f: "in_file inner \<noteq> ls_next s"
    using assms(1) log_ok_fresh by (auto simp: log_small_def)
  show ?thesis
    using w assms(1-3) ok p q f
    by (auto simp: write_line_def log_small_def rotation_works_def rotate_log_def open_log_file_def content_of_def
        Let_def MAX_LOG_BYTES_def split: if_splits option.splits)
qed

lemma log_run_small:
  assumes "log_small m inner s" "list_all rotation_works rs"
    "list_all (\<lambda>(fl, ts, level, args). length (log_line ts level args) \<le> m) rs"
    "log_run rs inner s = (inner', s')"
  shows "log_small m inner' s'"
  using assms
proof (induction rs arbitrary: inner s)
  case (Cons r rs)
  obtain fl ts level args where r: "r = (fl, ts, level, args)" by (cases r)
  obtain i1 s1 where w: "write_locked fl ts level args inner s = (i1, s1)" by force
  show ?case
    using Cons.IH [of i1 s1] Cons.prems write_locked_small [OF Cons.prems(1) _ _ w] w by (simp add: r)
qed simp

section \<open>Levels\<close>

text \<open>The switch never silences warnings and errors: with logging off the level that is configured is only
  lowered, down to warnings; an unknown level means warnings.\<close>

lemma configured_level:
  "configure_logger enabled level =
     (case parse_level level of
        None \<Rightarrow> 2
      | Some l \<Rightarrow> if enabled \<or> l = FError then filter_rank l else 2)"
  by (cases "parse_level level")
    (auto simp: configure_logger_def parse_level_def Let_def split: if_splits)

lemma errors_always_logged: "log_enabled_for Error (configure_logger enabled level)"
  by (auto simp: configured_level log_enabled_for_def parse_level_def Let_def split: if_splits)

lemma filter_round_trip: "filter_from_rank (filter_rank l) = l"
  by (cases l) (simp_all add: filter_from_rank_def)

lemma filter_name_parses: "l \<noteq> FOff \<Longrightarrow> parse_level (filter_name l) = Some l"
  by (cases l) (simp_all add: parse_level_def ascii_lower_def, code_simp+)

text \<open>A panic is one record: its message has no line end.\<close>

lemma panic_one_line: "CHR 0x0A \<notin> set (panic_message info)"
  by (auto simp: panic_message_def split: if_splits)

end
