(* ===== verification/Testing.thy ===== *)
theory Testing
  imports World
begin

text \<open>
  \<open>src/testing.rs\<close>: which profiles a test run covers, the commands that start it, and the
  saving of the test settings.  A profile is named by the pair of its group's id and its own.
\<close>

text \<open>The closure \<open>add\_profile\<close> on the list and the set \<open>seen\<close>.\<close>

definition add_profile ::
  "i32 \<times> i32 \<Rightarrow> (i32 \<times> i32) list \<times> (i32 \<times> i32) set \<Rightarrow> (i32 \<times> i32) list \<times> (i32 \<times> i32) set" where
  "add_profile x acc =
     (if x \<in> snd acc then acc else (fst acc @ [x], insert x (snd acc)))"

definition group_pairs :: "GroupWithProfiles \<Rightarrow> (i32 \<times> i32) list" where
  "group_pairs g = map (\<lambda>p. (gid g, p_id p)) (gw_profiles g)"

definition build_test_list :: "(string \<Rightarrow> string) \<Rightarrow> App \<Rightarrow> bool \<Rightarrow> (i32 \<times> i32) list" where
  "build_test_list lc app focused_only =
     (if focused_only
      then fst (if on_group lc app
         then (case current_group lc app of
             Some g \<Rightarrow> fold add_profile (group_pairs g) ([], {}) | None \<Rightarrow> ([], {}))
         else (case selected_profile lc app of
             Some p \<Rightarrow> add_profile (p_group_id p, p_id p) ([], {}) | None \<Rightarrow> ([], {})))
      else let acc = (case selected_profile lc app of
             Some p \<Rightarrow> add_profile (p_group_id p, p_id p) ([], {})
           | None \<Rightarrow>
               (case current_group lc app of
                  Some g \<Rightarrow> fold add_profile (group_pairs g) ([], {}) | None \<Rightarrow> ([], {})))
        in fst (fold (\<lambda>g. fold add_profile (group_pairs g)) (groups app) acc))"

definition test_commands :: "App \<Rightarrow> (i32 \<times> i32) list \<Rightarrow> Command list" where
  "test_commands app xs =
     (let single = (\<lambda>(g, p). TestProfile g p (test_method app))
      in if length xs = 1 then map single xs
         else let first_gid = fst (hd xs);
                  count = (case find (\<lambda>g. gid g = first_gid) (groups app) of
                      Some g \<Rightarrow> length (gw_profiles g) | None \<Rightarrow> 0)
              in if list_all (\<lambda>x. fst x = first_gid) xs \<and> length xs = count
                 then [TestGroup first_gid (test_method app) (tc_samples_per_test (test_config app))]
                 else map single xs)"

definition run_test_batch :: "(i32 \<times> i32) list \<Rightarrow> World \<Rightarrow> World" where
  "run_test_batch xs w =
     (if xs = [] then w
      else let w = on_app (fold (\<lambda>(g, p). mark_pending g p) xs) w;
               w = fold send (test_commands (w_app w) xs) w
           in msg (''Testing '' @ show_nat (length xs) @ '' profiles...'') w)"

definition persist_and_sync_test_config :: "Env \<Rightarrow> World \<Rightarrow> World" where
  "persist_and_sync_test_config env w =
     (let t = test_config (w_app w);
          w = on_cfg (\<lambda>c. c\<lparr>c_test_concurrency := tc_concurrency t,
                c_test_timeout_seconds := tc_timeout_seconds t, c_test_samples := tc_samples_per_test t,
                c_test_endpoint := tc_test_endpoint t,
                c_auto_test_on_subscribe := tc_auto_test_on_subscribe t\<rparr>) w;
          w = snd (save env w)
      in send (SetTestConfig (test_config (w_app w))) w)"

section \<open>The list\<close>

definition acc_ok :: "(i32 \<times> i32) list \<times> (i32 \<times> i32) set \<Rightarrow> bool" where
  "acc_ok acc \<longleftrightarrow> distinct (fst acc) \<and> set (fst acc) = snd acc"

lemma acc_ok_empty [simp]: "acc_ok ([], {})"
  by (simp add: acc_ok_def)

lemma add_profile_ok: "acc_ok acc \<Longrightarrow>
   acc_ok (add_profile x acc) \<and> set (fst (add_profile x acc)) = insert x (set (fst acc))"
  by (auto simp: acc_ok_def add_profile_def)

lemma fold_add_ok: "acc_ok acc \<Longrightarrow>
   acc_ok (fold add_profile xs acc) \<and> set (fst (fold add_profile xs acc)) = set (fst acc) \<union> set xs"
  by (induction xs arbitrary: acc) (auto simp: add_profile_ok)

lemma fold_groups_ok: "acc_ok acc \<Longrightarrow>
   acc_ok (fold (\<lambda>g. fold add_profile (group_pairs g)) gs acc)
   \<and> set (fst (fold (\<lambda>g. fold add_profile (group_pairs g)) gs acc))
     = set (fst acc) \<union> (\<Union>g\<in>set gs. set (group_pairs g))"
  by (induction gs arbitrary: acc) (auto simp: fold_add_ok)

lemma hd_add: "fst acc \<noteq> [] \<Longrightarrow>
   fst (add_profile x acc) \<noteq> [] \<and> hd (fst (add_profile x acc)) = hd (fst acc)"
  by (simp add: add_profile_def)

lemma hd_fold_add: "fst acc \<noteq> [] \<Longrightarrow>
   fst (fold add_profile xs acc) \<noteq> [] \<and> hd (fst (fold add_profile xs acc)) = hd (fst acc)"
  by (induction xs arbitrary: acc) (simp_all add: hd_add)

lemma hd_fold_groups: "fst acc \<noteq> [] \<Longrightarrow>
   fst (fold (\<lambda>g. fold add_profile (group_pairs g)) gs acc) \<noteq> []
   \<and> hd (fst (fold (\<lambda>g. fold add_profile (group_pairs g)) gs acc)) = hd (fst acc)"
  by (induction gs arbitrary: acc) (simp_all add: hd_fold_add)

definition all_pairs :: "App \<Rightarrow> (i32 \<times> i32) set" where
  "all_pairs app = (\<Union>g\<in>set (groups app). set (group_pairs g))"

definition selected_pairs :: "(string \<Rightarrow> string) \<Rightarrow> App \<Rightarrow> (i32 \<times> i32) list" where
  "selected_pairs lc app =
     (case selected_profile lc app of Some p \<Rightarrow> [(p_group_id p, p_id p)] | None \<Rightarrow> [])"

lemma current_group_in: "current_group lc app = Some g \<Longrightarrow> g \<in> set (groups app)"
  by (auto simp: current_group_def get_at_def split: option.splits TreeNode.splits if_splits)

definition test_start :: "(string \<Rightarrow> string) \<Rightarrow> App \<Rightarrow> (i32 \<times> i32) list \<times> (i32 \<times> i32) set" where
  "test_start lc app = (case selected_profile lc app of
             Some p \<Rightarrow> add_profile (p_group_id p, p_id p) ([], {})
           | None \<Rightarrow>
               (case current_group lc app of
                  Some g \<Rightarrow> fold add_profile (group_pairs g) ([], {}) | None \<Rightarrow> ([], {})))"

lemma build_test_list_all: "build_test_list lc app False
    = fst (fold (\<lambda>g. fold add_profile (group_pairs g)) (groups app) (test_start lc app))"
  by (simp add: build_test_list_def test_start_def Let_def)

lemma test_start_ok:
  "acc_ok (test_start lc app)"
  "set (selected_pairs lc app) \<subseteq> set (fst (test_start lc app))"
  "set (fst (test_start lc app)) \<subseteq> set (selected_pairs lc app) \<union> all_pairs app"
  by (auto simp: test_start_def selected_pairs_def all_pairs_def add_profile_ok fold_add_ok
      split: option.splits dest: current_group_in)

lemma set_all_list:
  "set (build_test_list lc app False) = set (selected_pairs lc app) \<union> all_pairs app"
  using fold_groups_ok [OF test_start_ok(1), of "groups app" lc app] test_start_ok [of lc app]
  by (auto simp: build_test_list_all all_pairs_def simp del: set_empty)

lemma set_focused_list:
  "set (build_test_list lc app True)
     = (if on_group lc app then set (case current_group lc app of Some g \<Rightarrow> group_pairs g | None \<Rightarrow> [])
        else set (selected_pairs lc app))"
  by (simp add: build_test_list_def selected_pairs_def add_profile_ok fold_add_ok
      split: option.split)

lemmas build_test_list_sets = set_all_list set_focused_list

lemma distinct_build_test_list: "distinct (build_test_list lc app focused)"
proof (cases focused)
  case True
  have "acc_ok (if on_group lc app
       then (case current_group lc app of
           Some g \<Rightarrow> fold add_profile (group_pairs g) ([], {}) | None \<Rightarrow> ([], {}))
       else (case selected_profile lc app of
           Some p \<Rightarrow> add_profile (p_group_id p, p_id p) ([], {}) | None \<Rightarrow> ([], {})))"
    by (simp add: add_profile_ok fold_add_ok split: option.split)
  with True show ?thesis by (simp add: build_test_list_def acc_ok_def)
next
  case False
  then show ?thesis
    using fold_groups_ok [OF test_start_ok(1), of "groups app" lc app]
    by (simp add: build_test_list_all acc_ok_def)
qed

text \<open>testing everything lists every profile exactly once, and the one under the cursor
  first; testing the focused node lists the profiles of the group under the cursor, or the one
  profile under it.\<close>

theorem build_test_list_correct:
  "distinct (build_test_list lc app focused)
   \<and> set (build_test_list lc app False) = set (selected_pairs lc app) \<union> all_pairs app
   \<and> take (length (selected_pairs lc app)) (build_test_list lc app False) = selected_pairs lc app
   \<and> set (build_test_list lc app True)
     = (if on_group lc app then set (case current_group lc app of Some g \<Rightarrow> group_pairs g | None \<Rightarrow> [])
        else set (selected_pairs lc app))"
proof -
  have "take (length (selected_pairs lc app)) (build_test_list lc app False) = selected_pairs lc app"
  proof (cases "selected_profile lc app")
    case (Some p)
    then have "fst (test_start lc app) = selected_pairs lc app" "length (selected_pairs lc app) = 1"
      by (auto simp: test_start_def selected_pairs_def add_profile_def)
    moreover from this have "fst (test_start lc app) \<noteq> []" by auto
    ultimately show ?thesis
      using hd_fold_groups [of "test_start lc app" "groups app"]
      by (cases "selected_pairs lc app") (auto simp: build_test_list_all take_Suc)
  qed (simp add: selected_pairs_def)
  then show ?thesis
    by (intro conjI distinct_build_test_list build_test_list_sets)
qed

section \<open>The commands\<close>

text \<open>What a command tests, by the groups of the tree.\<close>

fun tested_by :: "GroupWithProfiles list \<Rightarrow> Command \<Rightarrow> (i32 \<times> i32) set" where
  "tested_by gs (TestProfile g p m) = {(g, p)}"
| "tested_by gs (TestGroup i m n) = (\<Union>g \<in> set (filter (\<lambda>g. gid g = i) gs). set (group_pairs g))"
| "tested_by gs _ = {}"

text \<open>Group ids are unique, and every profile carries the id of its group.\<close>

definition tree_ids_ok :: "App \<Rightarrow> bool" where
  "tree_ids_ok app \<longleftrightarrow> distinct (map gid (groups app))
     \<and> list_all (\<lambda>g. list_all (\<lambda>p. p_group_id p = gid g) (gw_profiles g)) (groups app)"

lemma map_update_first: "map f (update_first p h xs) = map f xs" if "\<And>x. f (h x) = f x"
  by (induction xs) (auto simp: that)

lemma mark_pending_shape:
  "map gid (groups (mark_pending g p app)) = map gid (groups app)"
  "map group_pairs (groups (mark_pending g p app)) = map group_pairs (groups app)"
  by (simp_all add: mark_pending_def group_pairs_def comp_def map_update_first)

lemma fold_mark_shape:
  "map group_pairs (groups (fold (\<lambda>(g, p). mark_pending g p) xs app)) = map group_pairs (groups app)
   \<and> map gid (groups (fold (\<lambda>(g, p). mark_pending g p) xs app)) = map gid (groups app)"
  by (induction xs arbitrary: app) (auto simp: mark_pending_shape)

lemma set_group_pairs: "x \<in> set (group_pairs g) \<Longrightarrow> fst x = gid g"
  by (auto simp: group_pairs_def)

lemma length_group_pairs [simp]: "length (group_pairs g) = length (gw_profiles g)"
  by (simp add: group_pairs_def)

lemma find_unique_group:
  assumes "distinct (map gid gs)" and "g \<in> set gs"
  shows "find (\<lambda>h. gid h = gid g) gs = Some g \<and> filter (\<lambda>h. gid h = gid g) gs = [g]"
  using assms
proof (induction gs)
  case (Cons h gs)
  show ?case
  proof (cases "gid h = gid g")
    case True
    from Cons.prems(1) have out: "gid h \<notin> gid ` set gs" by simp
    with True have "g \<notin> set gs" by (metis image_eqI)
    with Cons.prems(2) have "h = g" by simp
    moreover have "\<forall>k\<in>set gs. gid k \<noteq> gid g" using out True by (metis image_eqI)
    ultimately show ?thesis by (simp add: filter_empty_conv)
  qed (use Cons in auto)
qed simp

lemma test_commands_exact:
  assumes ids: "distinct (map gid (groups app))" and xs: "set xs \<subseteq> all_pairs app"
    and d: "distinct xs" and ne: "xs \<noteq> []"
  shows "(\<Union>c \<in> set (test_commands app xs). tested_by (groups app) c) = set xs"
proof -
  have single: "(\<Union>c \<in> set (map (\<lambda>(g, p). TestProfile g p m) xs). tested_by (groups app) c) = set xs" for m
    by auto
  show ?thesis
  proof (cases "length xs \<noteq> 1 \<and> list_all (\<lambda>x. fst x = fst (hd xs)) xs
      \<and> length xs = (case find (\<lambda>g. gid g = fst (hd xs)) (groups app) of
            Some g \<Rightarrow> length (gw_profiles g) | None \<Rightarrow> 0)")
    case True
    from ne xs have "hd xs \<in> all_pairs app" by auto
    then obtain g where g: "g \<in> set (groups app)" "hd xs \<in> set (group_pairs g)"
      by (auto simp: all_pairs_def)
    have hd: "fst (hd xs) = gid g" by (rule set_group_pairs [OF g(2)])
    note uniq = find_unique_group [OF ids g(1)]
    have len: "length xs = length (group_pairs g)" using True by (simp add: hd uniq)
    have sub: "set xs \<subseteq> set (group_pairs g)"
    proof
      fix x assume x: "x \<in> set xs"
      then obtain h where h: "h \<in> set (groups app)" "x \<in> set (group_pairs h)"
        using xs by (auto simp: all_pairs_def)
      have "gid h = gid g"
        using True x set_group_pairs [OF h(2)] by (auto simp: hd list_all_iff)
      then have "h = g" using ids h(1) g(1) by (auto simp: distinct_map inj_on_def)
      with h(2) show "x \<in> set (group_pairs g)" by simp
    qed
    have "set xs = set (group_pairs g)"
    proof (rule card_subset_eq [OF _ sub])
      show "card (set xs) = card (set (group_pairs g))"
        using card_mono [OF _ sub] distinct_card [OF d] card_length [of "group_pairs g"] len by simp
    qed simp
    then show ?thesis using True by (simp add: test_commands_def Let_def hd uniq)
  qed (use single in \<open>auto simp: test_commands_def Let_def\<close>)
qed

lemma build_test_list_pairs:
  assumes "tree_ids_ok app"
  shows "set (build_test_list lc app focused) \<subseteq> all_pairs app"
proof -
  have "set (selected_pairs lc app) \<subseteq> all_pairs app"
    using assms
    by (auto simp: selected_pairs_def selected_profile_def tree_ids_ok_def all_pairs_def get_at_def
        group_pairs_def list_all_iff split: option.splits TreeNode.splits if_splits
        intro!: bexI [OF _ nth_mem])
  moreover have "set (case current_group lc app of Some g \<Rightarrow> group_pairs g | None \<Rightarrow> []) \<subseteq> all_pairs app"
    by (cases "current_group lc app") (auto simp: all_pairs_def dest: current_group_in)
  ultimately show ?thesis
    by (cases focused) (auto simp: build_test_list_sets split: if_splits)
qed

lemma w_out_fold_send: "w_out (fold send cs w) = w_out w @ map Send cs \<and> w_app (fold send cs w) = w_app w"
  by (induction cs arbitrary: w) (auto simp: emit_def)

lemma tested_by_groups:
  assumes "map group_pairs gs = map group_pairs hs" and "map gid gs = map gid hs"
  shows "tested_by gs c = tested_by hs c"
proof -
  have "(\<Union>g \<in> set (filter (\<lambda>g. gid g = i) gs). set (group_pairs g))
      = (\<Union>g \<in> set (filter (\<lambda>g. gid g = i) hs). set (group_pairs g))" for i
    using assms
  proof (induction gs arbitrary: hs)
    case (Cons g gs)
    then obtain h hs' where "hs = h # hs'" by (cases hs) auto
    with Cons.prems Cons.IH [of hs'] show ?case by auto
  qed simp
  then show ?thesis by (cases c) simp_all
qed

lemma run_test_batch_out:
  "w_out (run_test_batch xs w)
   = w_out w @ (if xs = [] then []
       else map Send (test_commands (fold (\<lambda>(g, p). mark_pending g p) xs (w_app w)) xs))"
  by (simp add: run_test_batch_def msg_def on_app_def w_out_fold_send Let_def)

text \<open>The commands a test run sends make the core test exactly the listed profiles, whether
  they go out one by one or as one command for a whole group, and nothing else.\<close>

theorem run_test_batch_exact:
  assumes "tree_ids_ok (w_app w)"
    and xs_def: "xs = build_test_list lc (w_app w) focused"
  shows "\<exists>cs. w_out (run_test_batch xs w) = w_out w @ map Send cs
    \<and> (\<Union>c \<in> set cs. tested_by (groups (w_app w)) c) = set xs"
proof (cases "xs = []")
  case True
  then show ?thesis by (auto simp: run_test_batch_def)
next
  case False
  define app where "app = fold (\<lambda>(g, p). mark_pending g p) xs (w_app w)"
  have shape: "map group_pairs (groups app) = map group_pairs (groups (w_app w))"
    "map gid (groups app) = map gid (groups (w_app w))"
    using fold_mark_shape [of xs "w_app w"] by (simp_all add: app_def)
  have pairs: "all_pairs app = all_pairs (w_app w)"
    using arg_cong [OF shape(1), of "\<lambda>ps. \<Union>p\<in>set ps. set p"] by (simp add: all_pairs_def)
  have "(\<Union>c \<in> set (test_commands app xs). tested_by (groups app) c) = set xs"
    using assms build_test_list_pairs [OF assms(1), of lc focused] False
    by (intro test_commands_exact)
      (simp_all add: shape pairs tree_ids_ok_def xs_def distinct_build_test_list)
  then have "(\<Union>c \<in> set (test_commands app xs). tested_by (groups (w_app w)) c) = set xs"
    by (simp add: tested_by_groups [OF shape])
  then show ?thesis
    using False by (auto simp: run_test_batch_out app_def)
qed

definition sample_world :: World where
  "sample_world = \<lparr>w_app = sample_app, w_cfg = default_config, w_theme = 0, w_out = []\<rparr>"

definition quiet_env :: Env where
  "quiet_env = \<lparr>e_lc = id, e_fs = empty_fs, e_clipboard = None, e_set_clipboard = (\<lambda>_. ClipOk),
     e_save = (\<lambda>_. None), e_send = (\<lambda>_. None), e_details_lines = (\<lambda>_. 0),
     e_setup_systemd = None, e_teardown_systemd = None, e_clear_tui = None,
     e_clear_core_failed = 0, e_core_path = ''/usr/bin/whoisthat-core'', e_has_cap_net = True,
     e_rnd = of_int, e_profile_order = id, e_group_order = id\<rparr>"

theorem run_test_batch_exact_witness:
  "\<exists>cs. w_out (run_test_batch (build_test_list id sample_app False) sample_world) = map Send cs
    \<and> (\<Union>c \<in> set cs. tested_by (groups sample_app) c) = set (build_test_list id sample_app False)"
proof -
  have "tree_ids_ok (w_app sample_world)"
    by (simp add: tree_ids_ok_def sample_world_def sample_app_def app_new_def default_group_def
        default_profile_def)
  from run_test_batch_exact [OF this, of _ id False] show ?thesis
    by (simp add: sample_world_def)
qed

end
