(* ===== verification/Navigation.thy ===== *)
theory Navigation
  imports World
begin

text \<open>\<open>src/input/navigation.rs\<close>: the actions every panel shares.  \<open>None\<close> means the action is
  not handled here; the Boolean is whether to quit.\<close>

definition enter_routing :: "World \<Rightarrow> World" where
  "enter_routing w =
     (let w = on_app (\<lambda>a. sync_routing_group_to_connected (a\<lparr>routing_popup := None\<rparr>)) w
      in send (GetRouting (routing_page_group_id (w_app w))) w)"

definition switch_tab :: "ActiveTab \<Rightarrow> World \<Rightarrow> World" where
  "switch_tab target w =
     (let w = on_app (\<lambda>a. a\<lparr>tab := target, focus := LeftPanel\<rparr>) w
      in if target = TabRouting then enter_routing w else w)"

definition toggle_tun :: "World \<Rightarrow> World" where
  "toggle_tun w =
     (if tun_enabled (w_app w) then send DisableTun w
      else msg ''Checking root...'' (send IsRoot w))"

definition dismiss :: "Env \<Rightarrow> App \<Rightarrow> App" where
  "dismiss env a =
     (if focus a = RightPanel then a\<lparr>focus := LeftPanel\<rparr>
      else if search_query a \<noteq> None
      then clamp_cursor (e_lc env) (a\<lparr>search_query := None, search_input := [], cursor := 0\<rparr>)
      else a)"

definition details_down :: "Env \<Rightarrow> App \<Rightarrow> App" where
  "details_down env a = details_scroll_down (e_details_lines env a) (details_visible a) a"

definition routing_down :: "App \<Rightarrow> App" where
  "routing_down a =
     (let len = length (rc_rules (active_routing_config a))
      in if 0 < len \<and> routing_cursor a + 1 < len then a\<lparr>routing_cursor := routing_cursor a + 1\<rparr> else a)"

definition on_settings :: "(SettingsState \<Rightarrow> SettingsState) \<Rightarrow> App \<Rightarrow> App" where
  "on_settings f a = a\<lparr>settings_state := f (settings_state a)\<rparr>"

definition on_logs :: "(LogsState \<Rightarrow> LogsState) \<Rightarrow> App \<Rightarrow> App" where
  "on_logs f a = a\<lparr>logs_state := f (logs_state a)\<rparr>"

definition move_down :: "Env \<Rightarrow> App \<Rightarrow> App" where
  "move_down env a =
     (case tab a of
        TabProfiles \<Rightarrow>
          (case focus a of LeftPanel \<Rightarrow> cursor_down (e_lc env) a
           | RightPanel \<Rightarrow> details_down env a | PopupFocus \<Rightarrow> a)
      | TabRouting \<Rightarrow> routing_down a
      | TabSettings \<Rightarrow> on_settings settings_down a
      | TabLogs \<Rightarrow> on_logs (scroll_down (e_lc env)) a
      | TabTraffic \<Rightarrow> a)"

definition move_up :: "App \<Rightarrow> App" where
  "move_up a =
     (case tab a of
        TabProfiles \<Rightarrow>
          (case focus a of LeftPanel \<Rightarrow> cursor_up a
           | RightPanel \<Rightarrow> details_scroll_up a | PopupFocus \<Rightarrow> a)
      | TabRouting \<Rightarrow> a\<lparr>routing_cursor := routing_cursor a - 1\<rparr>
      | TabSettings \<Rightarrow> on_settings settings_up a
      | TabLogs \<Rightarrow> on_logs scroll_up a
      | TabTraffic \<Rightarrow> a)"

definition move_left :: "Env \<Rightarrow> App \<Rightarrow> App" where
  "move_left env a =
     (if tab a \<noteq> TabProfiles then a
      else case focus a of
        LeftPanel \<Rightarrow>
          (case tree_node_at (e_lc env) a (cursor a) of
             Some (GroupNode gi) \<Rightarrow>
               (case get_at (groups a) gi of
                  Some g \<Rightarrow> collapse_group (e_lc env) (gid g) a | None \<Rightarrow> a)
           | _ \<Rightarrow>
               (case parent_group_cursor (e_lc env) a of
                  Some pos \<Rightarrow> a\<lparr>cursor := pos\<rparr> | None \<Rightarrow> a))
      | RightPanel \<Rightarrow> a\<lparr>focus := LeftPanel\<rparr>
      | PopupFocus \<Rightarrow> a)"

definition move_right :: "Env \<Rightarrow> App \<Rightarrow> App" where
  "move_right env a =
     (if tab a \<noteq> TabProfiles then a
      else case focus a of
        LeftPanel \<Rightarrow>
          (case tree_node_at (e_lc env) a (cursor a) of
             Some (GroupNode gi) \<Rightarrow>
               (case get_at (groups a) gi of
                  Some g \<Rightarrow>
                    if gid g \<in> collapsed_groups a then expand_group (e_lc env) (gid g) a
                    else if gw_profiles g \<noteq> [] then cursor_down (e_lc env) a else a
                | None \<Rightarrow> a)
           | _ \<Rightarrow>
               if selected_profile (e_lc env) a \<noteq> None then a\<lparr>focus := RightPanel\<rparr> else a)
      | RightPanel \<Rightarrow> a
      | PopupFocus \<Rightarrow> a)"

definition move_top :: "App \<Rightarrow> App" where
  "move_top a =
     (case tab a of
        TabProfiles \<Rightarrow>
          (case focus a of LeftPanel \<Rightarrow> cursor_top a
           | RightPanel \<Rightarrow> details_scroll_top a | PopupFocus \<Rightarrow> a)
      | TabLogs \<Rightarrow> on_logs scroll_top a
      | _ \<Rightarrow> a)"

definition move_bottom :: "Env \<Rightarrow> App \<Rightarrow> App" where
  "move_bottom env a =
     (case tab a of
        TabProfiles \<Rightarrow>
          (case focus a of LeftPanel \<Rightarrow> cursor_bottom (e_lc env) a
           | RightPanel \<Rightarrow> details_scroll_bottom (e_details_lines env a) (details_visible a) a
           | PopupFocus \<Rightarrow> a)
      | TabLogs \<Rightarrow> on_logs (scroll_bottom (e_lc env)) a
      | _ \<Rightarrow> a)"

definition page_down :: "Env \<Rightarrow> App \<Rightarrow> App" where
  "page_down env a =
     (case tab a of
        TabProfiles \<Rightarrow>
          (case focus a of LeftPanel \<Rightarrow> cursor_page_down (e_lc env) 10 a
           | RightPanel \<Rightarrow> (details_down env ^^ 10) a
           | PopupFocus \<Rightarrow> a)
      | TabLogs \<Rightarrow> on_logs (scroll_page_down (e_lc env) 10) a
      | _ \<Rightarrow> a)"

definition page_up :: "App \<Rightarrow> App" where
  "page_up a =
     (case tab a of
        TabProfiles \<Rightarrow>
          (case focus a of LeftPanel \<Rightarrow> cursor_page_up 10 a
           | RightPanel \<Rightarrow> (details_scroll_up ^^ 10) a
           | PopupFocus \<Rightarrow> a)
      | TabLogs \<Rightarrow> on_logs (scroll_page_up 10) a
      | _ \<Rightarrow> a)"

definition navigation :: "Env \<Rightarrow> AppAction \<Rightarrow> World \<Rightarrow> (bool \<times> World) option" where
  "navigation env action w =
     (let a = w_app w; stay = (\<lambda>w. Some (False, w))
      in case action of
        AQuit \<Rightarrow> Some (True, send Die w)
      | ADetach \<Rightarrow> Some (True, w)
      | AHelp \<Rightarrow> stay (open_popup Help (on_app (\<lambda>a. a\<lparr>help_scroll := 0\<rparr>) w))
      | ATabSwitcherModal \<Rightarrow> stay (open_popup (TabSwitcher (tab_index (tab a))) w)
      | ASwitchTab idx \<Rightarrow> stay (switch_tab (tab_from_index idx) w)
      | ANextTab \<Rightarrow> stay (switch_tab (tab (next_tab a)) w)
      | APrevTab \<Rightarrow> stay (switch_tab (tab (prev_tab a)) w)
      | AToggleTun \<Rightarrow> stay (toggle_tun w)
      | ADisconnect \<Rightarrow> stay (msg ''Disconnecting...'' (send DisconnectCore w))
      | ADismiss \<Rightarrow> stay (on_app (dismiss env) w)
      | AToggleFocus \<Rightarrow> stay (on_app (toggle_focus (e_lc env)) w)
      | ACursorDown \<Rightarrow> stay (on_app (move_down env) w)
      | ACursorUp \<Rightarrow> stay (on_app move_up w)
      | ACursorLeft \<Rightarrow> stay (on_app (move_left env) w)
      | ACursorRight \<Rightarrow> stay (on_app (move_right env) w)
      | AScrollTop \<Rightarrow> stay (on_app move_top w)
      | AScrollBottom \<Rightarrow> stay (on_app (move_bottom env) w)
      | APageDown \<Rightarrow> stay (on_app (page_down env) w)
      | APageUp \<Rightarrow> stay (on_app page_up w)
      | _ \<Rightarrow> None)"

end
