(* ===== verification/InputSettings.thy ===== *)
theory InputSettings
  imports Testing Navigation
begin

text \<open>
  \<open>src/input/settings.rs\<close>: what the rows of the settings tab do.  Values the core owns are only
  requested; values of the client are changed, saved and, where the core needs them, sent.
\<close>

text \<open>The value after the current one in a fixed list, and from entry \<open>start\<close> when the current
  one is not in it.\<close>

definition cycle_from :: "'a list \<Rightarrow> nat \<Rightarrow> 'a \<Rightarrow> 'a" where
  "cycle_from opts start cur =
     opts ! (((case position (\<lambda>v. v = cur) opts of Some i \<Rightarrow> i | None \<Rightarrow> start) + 1) mod length opts)"

definition change_theme :: "Env \<Rightarrow> (nat \<Rightarrow> nat) \<Rightarrow> World \<Rightarrow> World" where
  "change_theme env next w =
     (let w = w\<lparr>w_theme := next (w_theme w)\<rparr>;
          w = on_cfg (\<lambda>c. c\<lparr>c_theme := fst (THEMES ! w_theme w)\<rparr>) w;
          (ok, w) = save env w
      in if ok then msg (''Theme: '' @ snd (current_theme (w_theme w))) w else w)"

definition toggle_systemd :: "Env \<Rightarrow> World \<Rightarrow> World" where
  "toggle_systemd env w =
     (let on = systemd_enabled (w_app w);
          w = msg (if on then ''Disabling systemd autostart...'' else ''Enabling systemd autostart...'') w;
          w = emit (if on then TeardownSystemd else SetupSystemd) w
      in case (if on then e_teardown_systemd env else e_setup_systemd env) of
           None \<Rightarrow>
             msg (if on then ''Systemd autostart disabled'' else ''Systemd autostart enabled'')
               (on_app (\<lambda>a. a\<lparr>systemd_enabled := \<not> on\<rparr>) w)
         | Some e \<Rightarrow> msg (''Error: '' @ e) w)"

definition toggle_show_ip :: "Env \<Rightarrow> World \<Rightarrow> World" where
  "toggle_show_ip env w =
     (let v = (\<not> show_ip (w_app w));
          w = on_cfg (\<lambda>c. c\<lparr>c_show_ip := v\<rparr>) (on_app (\<lambda>a. a\<lparr>show_ip := v\<rparr>) w);
          w = (if \<not> v then on_app (\<lambda>a. a\<lparr>public_ip := [], public_ipv6 := []\<rparr>) w
               else emit (RefreshPublicIp 0) w)
      in snd (save env w))"

definition toggle_log_enabled :: "Env \<Rightarrow> World \<Rightarrow> World" where
  "toggle_log_enabled env w =
     (let v = (\<not> log_enabled (w_app w));
          w = on_cfg (\<lambda>c. c\<lparr>c_log_enabled := v\<rparr>) (on_app (\<lambda>a. a\<lparr>log_enabled := v\<rparr>) w);
          w = emit (ConfigureLogger v (c_log_level (w_cfg w))) w;
          (ok, w) = save env w
      in if ok then msg (if v then ''Verbose TUI logging enabled''
           else ''TUI logging: warnings and errors only'') w
         else w)"

definition LOG_LEVELS :: "string list" where
  "LOG_LEVELS = [''error'', ''warn'', ''info'', ''debug'', ''trace'']"

definition cycle_log_level :: "Env \<Rightarrow> World \<Rightarrow> World" where
  "cycle_log_level env w =
     (let l = cycle_from LOG_LEVELS 1 (log_level (w_app w));
          w = on_cfg (\<lambda>c. c\<lparr>c_log_level := l\<rparr>) (on_app (\<lambda>a. a\<lparr>log_level := l\<rparr>) w);
          (saved, w) = save env w;
          w = emit (ConfigureLogger (c_log_enabled (w_cfg w)) l) w;
          w = send (SetLogLevel l) w
      in case e_send env (SetLogLevel l) of
           Some e \<Rightarrow> if saved then msg (''Core log level not applied: '' @ e) w else w
         | None \<Rightarrow> if saved then msg (''Log level: '' @ l) w else w)"

definition send_or_tell :: "Env \<Rightarrow> Command \<Rightarrow> World \<Rightarrow> World" where
  "send_or_tell env c w =
     (case e_send env c of
        Some e \<Rightarrow> msg (''Error: '' @ e) (send c w) | None \<Rightarrow> send c w)"

definition cycle_test_method :: "Env \<Rightarrow> World \<Rightarrow> World" where
  "cycle_test_method env w =
     (let m = cycle_from [''tcp'', ''http-get'', ''http-head''] 1 (test_method (w_app w))
      in snd (save env (on_cfg (\<lambda>c. c\<lparr>c_test_method := m\<rparr>) (on_app (\<lambda>a. a\<lparr>test_method := m\<rparr>) w))))"

definition on_test_config :: "(TestConfig \<Rightarrow> TestConfig) \<Rightarrow> World \<Rightarrow> World" where
  "on_test_config f = on_app (\<lambda>a. a\<lparr>test_config := f (test_config a)\<rparr>)"

text \<open>Each sets the field of the configuration too, which \<open>persist_and_sync_test_config\<close>
  sets again from the state.\<close>

definition cycle_samples :: "Env \<Rightarrow> World \<Rightarrow> World" where
  "cycle_samples env w =
     (let n = cycle_from [1, 3, 5, 10] 1 (tc_samples_per_test (test_config (w_app w)))
      in persist_and_sync_test_config env
           (on_cfg (\<lambda>c. c\<lparr>c_test_samples := n\<rparr>) (on_test_config (\<lambda>t. t\<lparr>tc_samples_per_test := n\<rparr>) w)))"

definition cycle_concurrency :: "Env \<Rightarrow> World \<Rightarrow> World" where
  "cycle_concurrency env w =
     (let n = cycle_from [4, 8, 16, 32, 64] 2 (tc_concurrency (test_config (w_app w)))
      in persist_and_sync_test_config env
           (on_cfg (\<lambda>c. c\<lparr>c_test_concurrency := n\<rparr>) (on_test_config (\<lambda>t. t\<lparr>tc_concurrency := n\<rparr>) w)))"

definition cycle_timeout :: "Env \<Rightarrow> World \<Rightarrow> World" where
  "cycle_timeout env w =
     (let n = cycle_from [3, 5, 10, 15] 1 (tc_timeout_seconds (test_config (w_app w)))
      in persist_and_sync_test_config env
           (on_cfg (\<lambda>c. c\<lparr>c_test_timeout_seconds := n\<rparr>) (on_test_config (\<lambda>t. t\<lparr>tc_timeout_seconds := n\<rparr>) w)))"

definition TEST_ENDPOINTS :: "string list" where
  "TEST_ENDPOINTS = [''https://cp.cloudflare.com/generate_204'',
     ''https://www.gstatic.com/generate_204'', ''https://www.bing.com/'']"

definition cycle_endpoint :: "Env \<Rightarrow> World \<Rightarrow> World" where
  "cycle_endpoint env w =
     (let u = cycle_from TEST_ENDPOINTS 0 (tc_test_endpoint (test_config (w_app w)))
      in persist_and_sync_test_config env
           (on_cfg (\<lambda>c. c\<lparr>c_test_endpoint := u\<rparr>) (on_test_config (\<lambda>t. t\<lparr>tc_test_endpoint := u\<rparr>) w)))"

definition toggle_auto_test :: "Env \<Rightarrow> World \<Rightarrow> World" where
  "toggle_auto_test env w =
     (let v = (\<not> tc_auto_test_on_subscribe (test_config (w_app w)))
      in persist_and_sync_test_config env
           (on_cfg (\<lambda>c. c\<lparr>c_auto_test_on_subscribe := v\<rparr>)
              (on_test_config (\<lambda>t. t\<lparr>tc_auto_test_on_subscribe := v\<rparr>) w)))"

definition toggle_check_updates :: "Env \<Rightarrow> World \<Rightarrow> World" where
  "toggle_check_updates env w =
     (let v = (\<not> check_updates (w_app w));
          (ok, w) = save env (on_cfg (\<lambda>c. c\<lparr>c_check_updates := v\<rparr>) (on_app (\<lambda>a. a\<lparr>check_updates := v\<rparr>) w))
      in if ok then msg (if v then ''Update check enabled'' else ''Update check disabled'') w else w)"

definition default_set_hwid :: SetHwidData where
  "default_set_hwid = \<lparr>sh_enabled = None, sh_user_agent = None, sh_reset = False\<rparr>"

definition settings_activate :: "Env \<Rightarrow> nat \<Rightarrow> World \<Rightarrow> World" where
  "settings_activate env row w =
     (let a = w_app w; c = w_cfg w
      in if row = 0 then
           send (SetAutoconnect (\<not> autoconnect_enabled a) (c_last_group_id c) (c_last_profile_id c)
             (autostart_mode a)) w
         else if row = 1 then
           send (SetAutoconnect (autoconnect_enabled a) (c_last_group_id c) (c_last_profile_id c)
             (cycle_from [''proxy'', ''tun''] 0 (autostart_mode a))) w
         else if row = 2 then toggle_systemd env w
         else if row = 3 then change_theme env cycle_theme w
         else if row = 4 then toggle_show_ip env w
         else if row = 5 then toggle_log_enabled env w
         else if row = 6 then cycle_log_level env w
         else if row = 7 then open_popup (EditTunName (tun_name a) (char_count (tun_name a))) w
         else if row = 8 then send_or_tell env (SetKillSwitch (\<not> kill_switch_enabled a)) w
         else if row = 9 then send_or_tell env (SetSplitTunnel (next_split_tunnel_mode (split_tunnel a))) w
         else if row = 10 then cycle_test_method env w
         else if row = 11 then cycle_samples env w
         else if row = 12 then cycle_concurrency env w
         else if row = 13 then cycle_timeout env w
         else if row = 14 then cycle_endpoint env w
         else if row = 15 then toggle_auto_test env w
         else if row = 16 then
           (case hwid_info a of
              Some hw \<Rightarrow> send (SetHwid (default_set_hwid\<lparr>sh_enabled := Some (\<not> hw_enabled hw)\<rparr>)) w
            | None \<Rightarrow> w)
         else if row = 18 then send (SetHwid (default_set_hwid\<lparr>sh_reset := True\<rparr>)) w
         else if row = 19 then
           (case hwid_info a of
              Some hw \<Rightarrow> open_popup (EditUserAgent (hw_user_agent hw) (char_count (hw_user_agent hw))) w
            | None \<Rightarrow> w)
         else if row = 20 then toggle_check_updates env w
         else w)"

definition settings_handle :: "Env \<Rightarrow> AppAction \<Rightarrow> World \<Rightarrow> (bool \<times> World) option" where
  "settings_handle env action w =
     (let row = st_item_cursor (settings_state (w_app w))
      in case action of
        ASettingsPrev \<Rightarrow> Some (False, if row = 3 then change_theme env cycle_theme_prev w else w)
      | ASettingsNext \<Rightarrow> Some (False, if row = 3 then change_theme env cycle_theme w else w)
      | ASettingsActivate \<Rightarrow> Some (False, settings_activate env row w)
      | _ \<Rightarrow> None)"

section \<open>Screen, configuration and file agree\<close>

text \<open>The settings the client owns: what the state shows is what the configuration holds.\<close>

definition cfg_synced :: "World \<Rightarrow> bool" where
  "cfg_synced w \<longleftrightarrow> (let a = w_app w; c = w_cfg w; t = test_config a in
     c_show_ip c = show_ip a \<and> c_log_enabled c = log_enabled a \<and> c_log_level c = log_level a
     \<and> c_test_method c = test_method a \<and> c_check_updates c = check_updates a
     \<and> c_test_concurrency c = tc_concurrency t \<and> c_test_timeout_seconds c = tc_timeout_seconds t
     \<and> c_test_samples c = tc_samples_per_test t \<and> c_test_endpoint c = tc_test_endpoint t
     \<and> c_auto_test_on_subscribe c = tc_auto_test_on_subscribe t
     \<and> c_theme c = fst (THEMES ! w_theme w))"

text \<open>The configuration last written, \<open>c\<close> when none of the outputs writes one.\<close>

fun last_saved :: "AppConfig \<Rightarrow> Output list \<Rightarrow> AppConfig" where
  "last_saved c [] = c"
| "last_saved c (ev # evs) = last_saved (case ev of SaveConfig c' \<Rightarrow> c' | _ \<Rightarrow> c) evs"

lemma last_saved_append [simp]: "last_saved c (xs @ ys) = last_saved (last_saved c xs) ys"
  by (induction xs arbitrary: c) simp_all

lemma set_msg_sel [simp]:
  "show_ip (set_msg m a) = show_ip a" "log_enabled (set_msg m a) = log_enabled a"
  "log_level (set_msg m a) = log_level a" "test_method (set_msg m a) = test_method a"
  "check_updates (set_msg m a) = check_updates a" "test_config (set_msg m a) = test_config a"
  by (simp_all add: set_msg_def)

lemma save_sel [simp]:
  "w_cfg (snd (save env w)) = w_cfg w" "w_theme (snd (save env w)) = w_theme w"
  "w_out (snd (save env w)) = w_out w @ [SaveConfig (w_cfg w)]"
  "test_config (w_app (snd (save env w))) = test_config (w_app w)"
  "cfg_synced (snd (save env w)) = cfg_synced w"
  by (simp_all add: save_def world_defs cfg_synced_def Let_def split: option.split)

lemma save_failed [simp]: "e_save env (w_cfg w) = Some e \<Longrightarrow>
   last_msg (w_app (snd (save env w))) = Some (clean_label (''Config not saved: '' @ e))"
  by (simp add: save_def world_defs set_msg_def)

lemma synced_msg [simp]: "cfg_synced (msg m w) = cfg_synced w"
  "w_cfg (msg m w) = w_cfg w" "w_out (msg m w) = w_out w"
  by (simp_all add: cfg_synced_def world_defs Let_def)

lemma synced_emit [simp]: "cfg_synced (emit ev w) = cfg_synced w"
  "w_cfg (emit ev w) = w_cfg w" "w_out (emit ev w) = w_out w @ [ev]"
  by (simp_all add: cfg_synced_def world_defs Let_def)

text \<open>What every row keeps: agreement, what was written is what is in force, and a
  change that could not be written is announced.\<close>

definition kept :: "Env \<Rightarrow> World \<Rightarrow> World \<Rightarrow> bool" where
  "kept env w w' \<longleftrightarrow> (cfg_synced w \<longrightarrow> cfg_synced w')
     \<and> (\<forall>c. last_saved c (w_out w) = w_cfg w \<longrightarrow> last_saved c (w_out w') = w_cfg w')
     \<and> (w_cfg w' \<noteq> w_cfg w \<longrightarrow>
          (case e_save env (w_cfg w') of
             Some e \<Rightarrow> last_msg (w_app w') = Some (clean_label (''Config not saved: '' @ e))
           | None \<Rightarrow> True))"

lemma kept_refl [simp]: "kept env w w"
  by (simp add: kept_def)

lemma kept_same_cfg:
  "w_cfg w' = w_cfg w \<Longrightarrow> (cfg_synced w \<Longrightarrow> cfg_synced w') \<Longrightarrow>
   (\<And>c. last_saved c (w_out w') = last_saved c (w_out w)) \<Longrightarrow> kept env w w'"
  by (simp add: kept_def)

lemma kept_saved:
  assumes "w_cfg w' = w_cfg u" and "last_saved (w_cfg u) outs = w_cfg u"
    and "w_out w' = w_out w @ pre @ SaveConfig (w_cfg u) # outs"
    and "cfg_synced w \<Longrightarrow> cfg_synced w'"
    and "\<And>e. e_save env (w_cfg u) = Some e \<Longrightarrow>
           last_msg (w_app w') = Some (clean_label (''Config not saved: '' @ e))"
  shows "kept env w w'"
  using assms by (simp add: kept_def split: option.split)

lemma save_cases:
  assumes "save env w = (ok, w')"
  shows "w_cfg w' = w_cfg w" "w_theme w' = w_theme w" "w_out w' = w_out w @ [SaveConfig (w_cfg w)]"
    "cfg_synced w' = cfg_synced w"
    "e_save env (w_cfg w) = Some e \<Longrightarrow>
       last_msg (w_app w') = Some (clean_label (''Config not saved: '' @ e))"
    "ok \<longleftrightarrow> e_save env (w_cfg w) = None"
proof -
  have w': "w' = snd (save env w)" and ok: "ok = fst (save env w)" using assms by simp_all
  show "w_cfg w' = w_cfg w" "w_theme w' = w_theme w" "w_out w' = w_out w @ [SaveConfig (w_cfg w)]"
    "cfg_synced w' = cfg_synced w"
    "e_save env (w_cfg w) = Some e \<Longrightarrow>
       last_msg (w_app w') = Some (clean_label (''Config not saved: '' @ e))"
    unfolding w' by simp_all
  show "ok \<longleftrightarrow> e_save env (w_cfg w) = None"
    by (simp add: ok save_def split: option.split)
qed

lemmas row_defs = on_app_def on_cfg_def on_test_config_def Let_def case_prod_beta

lemma kept_theme: "kept env w (change_theme env f w)"
proof -
  define u where "u = on_cfg (\<lambda>c. c\<lparr>c_theme := fst (THEMES ! f (w_theme w))\<rparr>) (w\<lparr>w_theme := f (w_theme w)\<rparr>)"
  obtain ok v where v: "save env u = (ok, v)" by (cases "save env u")
  have "change_theme env f w = (if ok then msg (''Theme: '' @ snd (current_theme (w_theme v))) v else v)"
    using v by (simp add: change_theme_def u_def Let_def on_cfg_def)
  moreover have "cfg_synced w \<Longrightarrow> cfg_synced u"
    by (simp add: cfg_synced_def u_def on_cfg_def Let_def)
  moreover have "w_out u = w_out w" by (simp add: u_def on_cfg_def)
  ultimately show ?thesis
    using save_cases [OF v]
    by (intro kept_saved [where u = u and pre = "[]" and outs = "[]"]) auto
qed

lemma kept_show_ip: "kept env w (toggle_show_ip env w)"
proof -
  define u where "u = (let v = (\<not> show_ip (w_app w));
          w = on_cfg (\<lambda>c. c\<lparr>c_show_ip := v\<rparr>) (on_app (\<lambda>a. a\<lparr>show_ip := v\<rparr>) w)
      in if \<not> v then on_app (\<lambda>a. a\<lparr>public_ip := [], public_ipv6 := []\<rparr>) w
               else emit (RefreshPublicIp 0) w)"
  have op: "toggle_show_ip env w = snd (save env u)"
    by (simp add: toggle_show_ip_def u_def Let_def)
  have "cfg_synced w \<Longrightarrow> cfg_synced u"
    by (simp add: cfg_synced_def u_def row_defs emit_def)
  moreover have "w_out u = w_out w @ (if show_ip (w_app w) then [] else [RefreshPublicIp 0])"
    by (simp add: u_def row_defs emit_def)
  ultimately show ?thesis
    unfolding op
    by (intro kept_saved [where u = u and outs = "[]"]) auto
qed

lemma kept_log_enabled: "kept env w (toggle_log_enabled env w)"
proof -
  define u where "u = (let v = (\<not> log_enabled (w_app w));
          w = on_cfg (\<lambda>c. c\<lparr>c_log_enabled := v\<rparr>) (on_app (\<lambda>a. a\<lparr>log_enabled := v\<rparr>) w)
      in emit (ConfigureLogger v (c_log_level (w_cfg w))) w)"
  obtain ok v where v: "save env u = (ok, v)" by (cases "save env u")
  have op: "\<exists>m. toggle_log_enabled env w = (if ok then msg m v else v)"
    using v by (auto simp: toggle_log_enabled_def u_def Let_def)
  have "cfg_synced w \<Longrightarrow> cfg_synced u"
    by (simp add: cfg_synced_def u_def row_defs emit_def)
  moreover have "w_out u = w_out w @ [ConfigureLogger (\<not> log_enabled (w_app w)) (c_log_level (w_cfg w))]"
    by (simp add: u_def row_defs emit_def)
  ultimately show ?thesis
    using save_cases [OF v] op
    by (elim exE) (intro kept_saved [where u = u and outs = "[]"], auto)
qed

lemma kept_log_level: "kept env w (cycle_log_level env w)"
proof -
  define l where "l = cycle_from LOG_LEVELS 1 (log_level (w_app w))"
  define u where "u = on_cfg (\<lambda>c. c\<lparr>c_log_level := l\<rparr>) (on_app (\<lambda>a. a\<lparr>log_level := l\<rparr>) w)"
  obtain ok v where v: "save env u = (ok, v)" by (cases "save env u")
  define x where "x = send (SetLogLevel l) (emit (ConfigureLogger (c_log_enabled (w_cfg v)) l) v)"
  have op: "\<exists>m. cycle_log_level env w = (if ok then msg m x else x)"
    using v by (cases ok) (auto simp: cycle_log_level_def l_def u_def x_def Let_def split: option.split)
  have "cfg_synced w \<Longrightarrow> cfg_synced u"
    by (simp add: cfg_synced_def u_def row_defs)
  moreover have "w_out u = w_out w" by (simp add: u_def row_defs)
  moreover have "w_app x = w_app v" by (simp add: x_def emit_def)
  ultimately show ?thesis
    using save_cases [OF v] op
    by (elim exE)
      (intro kept_saved [where u = u and pre = "[]"
          and outs = "[ConfigureLogger (c_log_enabled (w_cfg v)) l, Send (SetLogLevel l)]"],
        auto simp: x_def)
qed

lemma kept_persist:
  assumes "cfg_synced w \<Longrightarrow> cfg_synced (persist_and_sync_test_config env u)" and "w_out u = w_out w"
  shows "kept env w (persist_and_sync_test_config env u)"
proof -
  define x where "x = on_cfg (\<lambda>c. c\<lparr>c_test_concurrency := tc_concurrency (test_config (w_app u)),
                c_test_timeout_seconds := tc_timeout_seconds (test_config (w_app u)),
                c_test_samples := tc_samples_per_test (test_config (w_app u)),
                c_test_endpoint := tc_test_endpoint (test_config (w_app u)),
                c_auto_test_on_subscribe := tc_auto_test_on_subscribe (test_config (w_app u))\<rparr>) u"
  have op: "persist_and_sync_test_config env u
      = send (SetTestConfig (test_config (w_app (snd (save env x))))) (snd (save env x))"
    by (simp add: persist_and_sync_test_config_def x_def Let_def)
  have out: "w_out x = w_out w" using assms(2) by (simp add: x_def on_cfg_def)
  show ?thesis
    using assms(1) out unfolding op
    by (intro kept_saved [where u = x and pre = "[]"
          and outs = "[Send (SetTestConfig (test_config (w_app (snd (save env x)))))]"])
      (auto simp: emit_def)
qed

lemma synced_persist:
  assumes "cfg_synced w" and "test_config (w_app u) = t"
    and "w_app u = (w_app w)\<lparr>test_config := t\<rparr>"
    and "\<And>f. c_show_ip (w_cfg u) = c_show_ip (w_cfg w) \<and> c_log_enabled (w_cfg u) = c_log_enabled (w_cfg w)
      \<and> c_log_level (w_cfg u) = c_log_level (w_cfg w) \<and> c_test_method (w_cfg u) = c_test_method (w_cfg w)
      \<and> c_check_updates (w_cfg u) = c_check_updates (w_cfg w) \<and> c_theme (w_cfg u) = c_theme (w_cfg w)
      \<and> w_theme u = w_theme w"
  shows "cfg_synced (persist_and_sync_test_config env u)"
  using assms by (simp add: persist_and_sync_test_config_def cfg_synced_def on_cfg_def Let_def)
    (simp add: save_def world_defs set_msg_def split: option.split)

lemma kept_test_rows:
  "kept env w (cycle_samples env w)" "kept env w (cycle_concurrency env w)"
  "kept env w (cycle_timeout env w)" "kept env w (cycle_endpoint env w)"
  "kept env w (toggle_auto_test env w)"
  unfolding cycle_samples_def cycle_concurrency_def cycle_timeout_def cycle_endpoint_def
    toggle_auto_test_def Let_def
  by (rule kept_persist; (rule synced_persist)?; simp add: row_defs)+

lemma kept_test_method: "kept env w (cycle_test_method env w)"
proof -
  define u where "u = (let m = cycle_from [''tcp'', ''http-get'', ''http-head''] 1 (test_method (w_app w))
      in on_cfg (\<lambda>c. c\<lparr>c_test_method := m\<rparr>) (on_app (\<lambda>a. a\<lparr>test_method := m\<rparr>) w))"
  have op: "cycle_test_method env w = snd (save env u)"
    by (simp add: cycle_test_method_def u_def Let_def)
  have "cfg_synced w \<Longrightarrow> cfg_synced u" "w_out u = w_out w"
    by (simp_all add: cfg_synced_def u_def row_defs)
  then show ?thesis
    unfolding op by (intro kept_saved [where u = u and pre = "[]" and outs = "[]"]) auto
qed

lemma kept_check_updates: "kept env w (toggle_check_updates env w)"
proof -
  define u where "u = (let v = (\<not> check_updates (w_app w))
      in on_cfg (\<lambda>c. c\<lparr>c_check_updates := v\<rparr>) (on_app (\<lambda>a. a\<lparr>check_updates := v\<rparr>) w))"
  obtain ok v where v: "save env u = (ok, v)" by (cases "save env u")
  have op: "\<exists>m. toggle_check_updates env w = (if ok then msg m v else v)"
    using v by (auto simp: toggle_check_updates_def u_def Let_def)
  have "cfg_synced w \<Longrightarrow> cfg_synced u" "w_out u = w_out w"
    by (simp_all add: cfg_synced_def u_def row_defs)
  then show ?thesis
    using save_cases [OF v] op
    by (elim exE) (intro kept_saved [where u = u and pre = "[]" and outs = "[]"], auto)
qed

lemma kept_systemd: "kept env w (toggle_systemd env w)"
  by (rule kept_same_cfg)
    (auto simp: toggle_systemd_def cfg_synced_def world_defs Let_def split: option.split)

lemma kept_open [simp]: "kept env w (open_popup p w)"
  by (rule kept_same_cfg) (auto simp: cfg_synced_def world_defs Let_def)

lemma kept_send [simp]: "kept env w (send c w)"
  by (rule kept_same_cfg) auto

lemma kept_send_or_tell [simp]: "kept env w (send_or_tell env c w)"
  by (rule kept_same_cfg) (auto simp: send_or_tell_def split: option.split)

lemmas kept_rows = kept_theme kept_show_ip kept_log_enabled kept_log_level kept_test_rows
  kept_test_method kept_check_updates kept_systemd

lemma kept_if: "kept env w x \<Longrightarrow> kept env w y \<Longrightarrow> kept env w (if c then x else y)"
  by simp

lemma kept_activate: "kept env w (settings_activate env row w)"
  unfolding settings_activate_def Let_def
  by (intro kept_if; simp add: kept_rows split: option.split)


definition full_disk :: Env where
  "full_disk = quiet_env\<lparr>e_save := (\<lambda>_. Some ''disk full'')\<rparr>"

definition theme_row :: World where
  "theme_row = sample_world\<lparr>w_app := sample_app\<lparr>settings_state := settings_new\<lparr>st_item_cursor := 3\<rparr>\<rparr>\<rparr>"


end
