(* ===== verification/InputProfiles.thy ===== *)
theory InputProfiles
  imports Testing Navigation
begin

text \<open>\<open>src/input/profiles.rs\<close>: the actions on the profile tree.  \<open>None\<close> means the action
  is not handled here.\<close>

definition toggle_group_here :: "Env \<Rightarrow> App \<Rightarrow> App" where
  "toggle_group_here env a =
     (case tree_node_at (e_lc env) a (cursor a) of
        Some (GroupNode gi) \<Rightarrow>
          (case get_at (groups a) gi of
             Some g \<Rightarrow> toggle_group_collapsed (e_lc env) (gid g) a | None \<Rightarrow> a)
      | _ \<Rightarrow> a)"

definition connect_here :: "Env \<Rightarrow> World \<Rightarrow> World" where
  "connect_here env w =
     (case selected_profile (e_lc env) (w_app w) of
        Some p \<Rightarrow> msg ''Connecting...'' (send (ConnectTo (p_group_id p) (p_id p)) w)
      | None \<Rightarrow> on_app (toggle_group_here env) w)"

definition add_profile_here :: "Env \<Rightarrow> World \<Rightarrow> World" where
  "add_profile_here env w =
     (if tab (w_app w) = TabRouting then set_routing_popup (Some (RAdd 0 [] 0 0 0)) w
      else let import_popup = open_popup (Import [] 0) w
           in case e_clipboard env of
                Some text \<Rightarrow>
                  if text \<noteq> []
                  then let g = (case current_group (e_lc env) (w_app w) of Some g \<Rightarrow> gid g | None \<Rightarrow> 0)
                       in msg ''Importing from clipboard...'' (send (AddProfiles text g) w)
                  else import_popup
              | None \<Rightarrow> import_popup)"

definition update_subscription_here :: "Env \<Rightarrow> World \<Rightarrow> World" where
  "update_subscription_here env w =
     (case current_group (e_lc env) (w_app w) of
        Some g \<Rightarrow>
          if g_subscription_url (gw_group g) \<noteq> []
          then msg ''Updating subscription...'' (send (UpdateSubscription (gid g)) w) else w
      | None \<Rightarrow> w)"

text \<open>\<open>i64\<close> division truncates; the override is positive here.\<close>

definition edit_group_popup :: "GroupWithProfiles \<Rightarrow> Popup" where
  "edit_group_popup g =
     (let h = gw_group g;
          override_hours = (if 0 < g_sub_update_interval_override h
            then show_int (g_sub_update_interval_override h div 3600) else [])
      in EditSubscription (g_name h) (g_subscription_url h) (g_id h)
           (char_count (g_subscription_url h)) 1 (\<not> g_sub_auto_update_disabled h) override_hours
           (g_sub_update_interval h))"

definition edit_item :: "Env \<Rightarrow> World \<Rightarrow> World" where
  "edit_item env w =
     (if on_group (e_lc env) (w_app w)
      then (case current_group (e_lc env) (w_app w) of
          Some g \<Rightarrow> open_popup (edit_group_popup g) w | None \<Rightarrow> w)
      else (case selected_profile (e_lc env) (w_app w) of
          Some p \<Rightarrow> open_popup (EditProfileName (p_name p) (char_count (p_name p)) (p_group_id p) (p_id p)) w
        | None \<Rightarrow> w))"

definition copy_uri :: "Env \<Rightarrow> World \<Rightarrow> World" where
  "copy_uri env w =
     (case selected_profile (e_lc env) (w_app w) of
        Some p \<Rightarrow>
          (case e_set_clipboard env (p_uri p) of
             ClipOk \<Rightarrow> msg ''Copied profile URI to clipboard'' (emit (SetClipboard (p_uri p)) w)
           | ClipSetFailed e \<Rightarrow> msg (''Failed to copy URI: '' @ e) w
           | ClipUnavailable e \<Rightarrow> msg (''Clipboard unavailable: '' @ e) w)
      | None \<Rightarrow> w)"

definition delete_item :: "Env \<Rightarrow> World \<Rightarrow> World" where
  "delete_item env w =
     (case selected_profile (e_lc env) (w_app w) of
        Some p \<Rightarrow>
          let name = (if p_name p = [] then (if p_address p = [] then ''Unknown'' else p_address p)
                      else p_name p)
          in open_popup (ConfirmDelete (p_group_id p) (p_id p) name) w
      | None \<Rightarrow> w)"

definition delete_group_here :: "Env \<Rightarrow> World \<Rightarrow> World" where
  "delete_group_here env w =
     (case current_group (e_lc env) (w_app w) of
        Some g \<Rightarrow> open_popup (ConfirmDeleteGroup (gid g) (g_name (gw_group g))) w
      | None \<Rightarrow> w)"

text \<open>The request for a move, \<open>dir\<close> being the word \<open>up\<close> or \<open>down\<close>.\<close>

definition move_item ::
  "(App \<Rightarrow> App \<times> ItemMoveAction option) \<Rightarrow> string \<Rightarrow> World \<Rightarrow> World" where
  "move_item f dir w =
     (if search_query (w_app w) \<noteq> None
      then msg ''Cannot reorder profiles while search filter is active'' w
      else let (app, act) = f (w_app w); w = on_app (\<lambda>_. app) w
           in case act of
                Some (ReorderProfiles g ps name _) \<Rightarrow>
                  send (ReorderProfilesCmd g ps)
                    (msg (''Moved '' @ [CHR 0x22] @ name @ [CHR 0x22] @ '' '' @ dir) w)
              | Some (ReorderGroups gs name _) \<Rightarrow>
                  send (ReorderGroupsCmd gs)
                    (msg (''Moved group '' @ [CHR 0x22] @ name @ [CHR 0x22] @ '' '' @ dir) w)
              | None \<Rightarrow> w)"

definition start_profile_search :: "App \<Rightarrow> App" where
  "start_profile_search a =
     a\<lparr>search_mode := True, search_input := [], search_query := Some [], cursor := 0\<rparr>"

definition profiles_handle :: "Env \<Rightarrow> AppAction \<Rightarrow> World \<Rightarrow> (bool \<times> World) option" where
  "profiles_handle env action w =
     (let stay = (\<lambda>w. Some (False, w)); lc = e_lc env
      in case action of
        AConnect \<Rightarrow> stay (connect_here env w)
      | AToggleGroup \<Rightarrow> stay (on_app (toggle_group_here env) w)
      | ATestFocused \<Rightarrow> stay (run_test_batch (build_test_list lc (w_app w) True) w)
      | ATestAll \<Rightarrow> stay (run_test_batch (build_test_list lc (w_app w) False) w)
      | ACancelTests \<Rightarrow>
          stay (msg ''Cancelling in-flight tests...''
            (on_app (\<lambda>a. a\<lparr>test_progress := None\<rparr>) (send CancelTests w)))
      | AAddProfile \<Rightarrow> stay (add_profile_here env w)
      | AAddGroup \<Rightarrow> stay (open_popup (AddGroup [] 0) w)
      | AUpdateSubscription \<Rightarrow> stay (update_subscription_here env w)
      | AEditItem \<Rightarrow> stay (edit_item env w)
      | ACopyUri \<Rightarrow> stay (copy_uri env w)
      | ADeleteItem \<Rightarrow> stay (delete_item env w)
      | ADeleteGroup \<Rightarrow> stay (delete_group_here env w)
      | AMoveItemDown \<Rightarrow> stay (move_item (move_item_down lc) ''down'' w)
      | AMoveItemUp \<Rightarrow> stay (move_item (move_item_up lc) ''up'' w)
      | AStartSearch \<Rightarrow> stay (on_app start_profile_search w)
      | _ \<Rightarrow> None)"

end
