(* ===== verification/InputRouting.thy ===== *)
theory InputRouting
  imports Navigation
begin

text \<open>
  \<open>src/input/routing.rs\<close>: the actions of the routing tab.  An edit first gives the page rules of
  its own (\<open>ensure\_custom\_routing\<close>), changes them through \<open>active\_routing\_config\_mut\<close>, and
  sends the page's rules to the core.
\<close>

text \<open>The configuration \<open>active\_routing\_config\_mut\<close> points at.\<close>

definition mut_target :: "App \<Rightarrow> RoutingConfig" where
  "mut_target app =
     (let g = routing_page_group_id app
      in if g = 0 then routing app
         else case group_routing app g of Some v \<Rightarrow> gv_effective v | None \<Rightarrow> routing app)"

definition ensure_custom :: "World \<Rightarrow> World" where
  "ensure_custom = on_app (\<lambda>a. snd (ensure_custom_routing a))"

definition edit_rules :: "(RoutingRule list \<Rightarrow> RoutingRule list) \<Rightarrow> World \<Rightarrow> World" where
  "edit_rules f = on_app (active_routing_config_mut (\<lambda>c. c\<lparr>rc_rules := f (rc_rules c)\<rparr>))"

definition push_routing :: "World \<Rightarrow> World" where
  "push_routing w =
     send (UpdateRouting (routing_page_group_id (w_app w)) (active_routing_config (w_app w))) w"

definition toggle_rule :: "RoutingRule \<Rightarrow> RoutingRule" where
  "toggle_rule r = r\<lparr>r_enabled := \<not> r_enabled r\<rparr>"

definition toggle_rule_at :: "bool \<Rightarrow> nat \<Rightarrow> World \<Rightarrow> World" where
  "toggle_rule_at announce idx w =
     (let w = ensure_custom w
      in case get_at (rc_rules (mut_target (w_app w))) idx of
           None \<Rightarrow> edit_rules id w
         | Some r \<Rightarrow>
             let w = edit_rules (\<lambda>rs. rs[idx := toggle_rule r]) w;
                 act = (if r_enabled r then ''disabled'' else ''enabled'')
             in push_routing (if announce then msg (''Rule '' @ act) w else w))"

definition is_json_group :: "App \<Rightarrow> bool" where
  "is_json_group app \<longleftrightarrow>
     (case routing_selected_group app of
        Some g \<Rightarrow> g_subscription_format (gw_group g) = ''json'' | None \<Rightarrow> False)"

definition next_routing_mode :: "string \<Rightarrow> string" where
  "next_routing_mode m =
     (if m = ''manual'' then ''subscription'' else if m = ''subscription'' then ''auto'' else ''manual'')"

definition edit_rule_popup :: "App \<Rightarrow> RoutingPopup option" where
  "edit_rule_popup app =
     map_option (\<lambda>r. let (mt, val, ob) = rule_to_form r
                     in REdit (routing_cursor app) mt val ob (char_count val) 0)
       (get_at (rc_rules (active_routing_config app)) (routing_cursor app))"

text \<open>\<open>split\_whitespace().next()\<close>.\<close>

definition first_word :: "string \<Rightarrow> string option" where
  "first_word s =
     (let cs = dropWhile is_whitespace (uchars s)
      in if cs = [] then None else Some (concat (takeWhile (\<lambda>c. \<not> is_whitespace c) cs)))"

definition happ_link :: "string \<Rightarrow> string" where
  "happ_link text =
     (let cut = (\<lambda>idx. let sub = drop idx text in
            case first_word sub of Some s \<Rightarrow> s | None \<Rightarrow> sub)
      in case str_find ''happ://routing/'' text of
           Some idx \<Rightarrow> cut idx
         | None \<Rightarrow> (case str_find ''wit://'' text of Some idx \<Rightarrow> cut idx | None \<Rightarrow> text))"

definition import_happ :: "Env \<Rightarrow> World \<Rightarrow> World" where
  "import_happ env w =
     (let text = trim (case e_clipboard env of Some t \<Rightarrow> t | None \<Rightarrow> []);
          g = routing_page_group_id (w_app w)
      in if text = [] then msg ''Clipboard is empty'' w
         else if g = 0 then msg ''Select a subscription group to import Happ routing'' w
         else if is_json_group (w_app w)
         then msg ''Provider routing is immutable for JSON subscriptions'' w
         else msg ''Importing Happ routing from clipboard...'' (send (ImportHappRoutingCmd g (happ_link text)) w))"

definition cycle_routing_mode :: "World \<Rightarrow> World" where
  "cycle_routing_mode w =
     (if is_json_group (w_app w)
      then msg ''Routing mode is provider-managed for JSON subscriptions'' w
      else case routing_selected_group (w_app w) of
        Some g \<Rightarrow>
          let m = next_routing_mode (g_routing_mode (gw_group g))
          in msg (''Group routing mode: '' @ m) (send (SetGroupRoutingMode (gid g) m) w)
      | None \<Rightarrow> msg ''Select a subscription group to change its routing mode'' w)"

definition toggle_routing_source :: "World \<Rightarrow> World" where
  "toggle_routing_source w =
     (let g = routing_page_group_id (w_app w)
      in if g = 0
         then msg ''Global rules are the shared base; select a group to override them'' w
         else let custom = routing_source (w_app w) \<noteq> ''custom'';
                  w = send (SetManualRoutingSource g (if custom then ''custom'' else ''inherit'')) w;
                  w = send (GetRouting g) w
              in msg (''Manual routing source: ''
                   @ (if custom then ''custom group rules'' else ''global rules'')) w)"

definition open_happ_profiles :: "World \<Rightarrow> World" where
  "open_happ_profiles w =
     (if is_json_group (w_app w)
      then msg ''Provider routing is immutable for JSON subscriptions'' w
      else if routing_selected_group (w_app w) \<noteq> None then set_routing_popup (Some (RHappProfiles 0)) w
      else msg ''Select a subscription group to manage Happ profiles'' w)"

definition ask_routing :: "World \<Rightarrow> World" where
  "ask_routing w = send (GetRouting (routing_page_group_id (w_app w))) w"

definition routing_handle :: "Env \<Rightarrow> AppAction \<Rightarrow> World \<Rightarrow> (bool \<times> World) option" where
  "routing_handle env action w =
     (let stay = (\<lambda>w. Some (False, w)); a = w_app w
      in case action of
        AAddRoutingRule \<Rightarrow> stay (set_routing_popup (Some (RAdd 0 [] 0 0 0)) w)
      | AEditRoutingRule \<Rightarrow>
          stay (case edit_rule_popup a of Some p \<Rightarrow> set_routing_popup (Some p) w | None \<Rightarrow> w)
      | ADeleteRoutingRule \<Rightarrow>
          stay (if get_at (rc_rules (active_routing_config a)) (routing_cursor a) \<noteq> None
                then set_routing_popup (Some (RConfirmDelete (routing_cursor a))) w else w)
      | AToggleRuleEnabled \<Rightarrow> stay (toggle_rule_at True (routing_cursor a) w)
      | AOpenPresets \<Rightarrow> stay (set_routing_popup (Some (RPresets 0)) w)
      | AOpenHappProfiles \<Rightarrow> stay (open_happ_profiles w)
      | ACycleRoutingMode \<Rightarrow> stay (cycle_routing_mode w)
      | AToggleManualRoutingSource \<Rightarrow> stay (toggle_routing_source w)
      | AImportHappLink \<Rightarrow> stay (import_happ env w)
      | ARoutingGroupPrev \<Rightarrow> stay (ask_routing (on_app routing_group_prev w))
      | ARoutingGroupNext \<Rightarrow> stay (ask_routing (on_app routing_group_next w))
      | _ \<Rightarrow> None)"

end
