(* ===== verification/InputPopups.thy ===== *)
theory InputPopups
  imports InputProfiles InputSettings InputRouting
begin

text \<open>
  \<open>src/popups/\<close>: the keys of an open popup.  A popup is taken out of the state before its
  branch runs, so a branch that does not put one back has closed it.  \<open>None\<close> is a panic:
  a text field cut inside a character, or an index out of range.
\<close>

section \<open>Text fields\<close>

definition edit_in ::
  "Env \<Rightarrow> string \<Rightarrow> nat \<Rightarrow> KeyEvent \<Rightarrow> (string \<Rightarrow> nat \<Rightarrow> 'a) \<Rightarrow> 'a option" where
  "edit_in env s cur key k =
     (case edit_text_field (e_clipboard env) s cur key of
        Some (s', cur', _) \<Rightarrow> Some (k s' cur') | None \<Rightarrow> None)"

abbreviation left :: "World \<Rightarrow> World" where
  "left \<equiv> set_focus LeftPanel"

abbreviation reopen :: "Popup \<Rightarrow> World \<Rightarrow> World" where
  "reopen p \<equiv> set_popup (Some p)"

section \<open>General popups\<close>

definition go_tab :: "ActiveTab \<Rightarrow> World \<Rightarrow> World" where
  "go_tab t w =
     (let w = left (on_app (\<lambda>a. a\<lparr>tab := t, popup := None\<rparr>) w)
      in if t = TabRouting then enter_routing w else w)"

definition tab_switcher :: "nat \<Rightarrow> KeyEvent \<Rightarrow> World \<Rightarrow> World" where
  "tab_switcher cur key w =
     (let k = code key
      in if k = Esc \<or> k = Char ''q'' then close_popup w
         else if k = Char ''k'' \<or> k = KUp \<or> k = BackTab
         then reopen (TabSwitcher (if cur = 0 then 4 else cur - 1)) w
         else if k = Char ''j'' \<or> k = KDown \<or> k = Tab then reopen (TabSwitcher ((cur + 1) mod 5)) w
         else if k = Enter then go_tab (tab_from_index cur) w
         else if k = Char ''1'' then go_tab TabProfiles w
         else if k = Char ''2'' \<or> k = Char ''r'' then go_tab TabRouting w
         else if k = Char ''3'' \<or> k = Char ''m'' then go_tab TabTraffic w
         else if k = Char ''4'' \<or> k = Char ''l'' then go_tab TabLogs w
         else if k = Char ''5'' \<or> k = Char ''s'' then go_tab TabSettings w
         else reopen (TabSwitcher cur) w)"

definition recovery :: "bool \<Rightarrow> bool \<Rightarrow> string \<Rightarrow> KeyEvent \<Rightarrow> World \<Rightarrow> World" where
  "recovery config db day key w =
     (if code key = Enter
      then let w = (if config then send RepairConfig w else w);
               w = (if db then send RestoreDb w else w)
           in left (msg ''Restoring...'' w)
      else if code key = Esc then left w
      else reopen (Recovery config db day) w)"

definition update_popup :: "Env \<Rightarrow> UpdateInfo \<Rightarrow> KeyEvent \<Rightarrow> World \<Rightarrow> World" where
  "update_popup env info key w =
     (let k = code key
      in if k = Enter \<or> k = Char ''u''
         then left (case ui_command info of
             Some c \<Rightarrow>
               (case e_set_clipboard env c of
                  ClipOk \<Rightarrow> msg ''Update command copied'' (emit (SetClipboard c) w)
                | _ \<Rightarrow> msg ''Could not copy update command'' w)
           | None \<Rightarrow> msg ''No update command for this install'' w)
         else if k = Char ''s''
         then let w = save_config (on_cfg (\<lambda>c. c\<lparr>c_skipped_version := ui_latest info\<rparr>) w)
              in case e_save env (w_cfg w) of
                   None \<Rightarrow> left (msg (''Version '' @ ui_latest info @ '' skipped'') w)
                 | Some e \<Rightarrow> reopen (UpdatePopup info) (msg (''Skip not saved: '' @ e) w)
         else if k = Esc \<or> k = Char ''q'' then left w
         else reopen (UpdatePopup info) w)"

definition help_popup :: "KeyEvent \<Rightarrow> World \<Rightarrow> World" where
  "help_popup key w =
     (let k = code key
      in if k = Char ''j'' \<or> k = KDown
         then reopen Help (on_app (\<lambda>a. a\<lparr>help_scroll := min (help_scroll a + 1) (2 ^ 64 - 1)\<rparr>) w)
         else if k = Char ''k'' \<or> k = KUp
         then reopen Help (on_app (\<lambda>a. a\<lparr>help_scroll := help_scroll a - 1\<rparr>) w)
         else close_popup w)"

definition import_popup :: "Env \<Rightarrow> string \<Rightarrow> nat \<Rightarrow> KeyEvent \<Rightarrow> World \<Rightarrow> World option" where
  "import_popup env input cur key w =
     (if code key = Esc then Some (close_popup w)
      else if code key = Enter
      then let uris = trim input
           in Some (if uris \<noteq> []
                then let g = (case current_group (e_lc env) (w_app w) of Some g \<Rightarrow> gid g | None \<Rightarrow> 0)
                     in left (msg ''Importing...'' (send (AddProfiles uris g) w))
                else close_popup w)
      else edit_in env input cur key (\<lambda>s c. reopen (Import s c) w))"

definition user_agent_popup :: "Env \<Rightarrow> string \<Rightarrow> nat \<Rightarrow> KeyEvent \<Rightarrow> World \<Rightarrow> World option" where
  "user_agent_popup env input cur key w =
     (if code key = Esc then Some (close_popup w)
      else if code key = Enter
      then let ua = trim input
           in Some (close_popup (if ua \<noteq> []
                then send (SetHwid (default_set_hwid\<lparr>sh_user_agent := Some ua\<rparr>)) w else w))
      else edit_in env input cur key (\<lambda>s c. reopen (EditUserAgent s c) w))"

definition tun_name_popup :: "Env \<Rightarrow> string \<Rightarrow> nat \<Rightarrow> KeyEvent \<Rightarrow> World \<Rightarrow> World option" where
  "tun_name_popup env input cur key w =
     (if code key = Esc then Some (close_popup w)
      else if code key = Enter
      then let name = trim input
           in Some (close_popup (if name \<noteq> [] then send_or_tell env (SetTunName name) w else w))
      else edit_in env input cur key (\<lambda>s c. reopen (EditTunName s c) w))"

definition profile_name_popup ::
  "Env \<Rightarrow> string \<Rightarrow> nat \<Rightarrow> i32 \<Rightarrow> i32 \<Rightarrow> KeyEvent \<Rightarrow> World \<Rightarrow> World option" where
  "profile_name_popup env input cur g p key w =
     (if code key = Esc then Some (close_popup w)
      else if code key = Enter
      then let name = trim input
           in Some (close_popup (if name \<noteq> []
                then msg ''Renaming...'' (send (RenameProfile g p name) w) else w))
      else edit_in env input cur key (\<lambda>s c. reopen (EditProfileName s c g p) w))"

definition confirm_delete :: "i32 \<Rightarrow> i32 \<Rightarrow> KeyEvent \<Rightarrow> World \<Rightarrow> World" where
  "confirm_delete g p key w =
     (if code key = Enter
      then left (msg ''Deleting...'' (send (DeleteProfiles [\<lparr>pid_id = p, pid_group_id = g\<rparr>]) w))
      else if code key = Esc then left w
      else reopen (ConfirmDelete g p []) w)"

definition confirm_delete_group :: "i32 \<Rightarrow> KeyEvent \<Rightarrow> World \<Rightarrow> World" where
  "confirm_delete_group g key w =
     (if code key = Enter then left (msg ''Deleting...'' (send (DeleteGroupCmd g) w))
      else if code key = Esc then left w
      else reopen (ConfirmDeleteGroup g []) w)"

definition clear_logs :: "Env \<Rightarrow> LogSource \<Rightarrow> World \<Rightarrow> string \<times> World" where
  "clear_logs env source w =
     (case source of
        Tui \<Rightarrow> ((case e_clear_tui env of None \<Rightarrow> ''TUI log cleared'' | Some e \<Rightarrow> ''Clear failed: '' @ e),
                emit ClearTuiLog w)
      | Core \<Rightarrow> ((if e_clear_core_failed env = 0 then ''Core logs cleared''
                  else ''Clear failed for '' @ show_nat (e_clear_core_failed env) @ '' file(s) (permissions?)''),
                emit ClearCoreLogs w))"

definition confirm_clear_logs :: "Env \<Rightarrow> LogSource \<Rightarrow> KeyEvent \<Rightarrow> World \<Rightarrow> World" where
  "confirm_clear_logs env source key w =
     (if code key = Enter
      then let (m, w) = clear_logs env source w
           in left (msg m (on_app (on_logs (reload (e_lc env) (e_fs env))) w))
      else if code key = Esc then left w
      else reopen (ConfirmClearLogs source) w)"

section \<open>The subscription editor\<close>

text \<open>\<open>manual\_interval\_secs\<close> of \<open>popups/routing.rs\<close>: whole hours, at most a year.\<close>

definition manual_interval_secs :: "string \<Rightarrow> i64" where
  "manual_interval_secs input =
     int (min (case parse_unsigned 64 (trim input) of Some h \<Rightarrow> h | None \<Rightarrow> 0) 8760 * 3600)"

definition field_end :: "nat \<Rightarrow> string \<Rightarrow> string \<Rightarrow> string \<Rightarrow> nat" where
  "field_end field name url hours =
     (if field = 0 then char_count name else if field = 1 then char_count url
      else if field = 3 then char_count hours else 0)"

definition is_ascii_digit_key :: "KeyCode \<Rightarrow> bool" where
  "is_ascii_digit_key k = (case k of Char c \<Rightarrow> (case c of [b] \<Rightarrow> is_digit b | _ \<Rightarrow> False) | _ \<Rightarrow> True)"

definition edit_subscription ::
  "Env \<Rightarrow> KeyEvent \<Rightarrow> string \<Rightarrow> string \<Rightarrow> i32 \<Rightarrow> nat \<Rightarrow> nat \<Rightarrow> bool \<Rightarrow> string \<Rightarrow> i64 \<Rightarrow> World \<Rightarrow> World option" where
  "edit_subscription env key name url g cur field auto hours provider w =
     (let k = code key;
          again = (\<lambda>name url cur field auto hours.
            reopen (EditSubscription name url g cur field auto hours provider) w)
      in if ctrl (modifiers key) \<and> k = Char ''r''
         then Some (close_popup (msg ''Resetting group name to provider default...''
                (send (UpdateGroupCmd g [] url (Some auto) (Some (manual_interval_secs hours))) w)))
         else if k = Esc then Some (close_popup w)
         else if k = Tab \<or> k = BackTab
         then let f = (if k = BackTab then (field + 3) mod 4 else (field + 1) mod 4)
              in Some (again name url (field_end f name url hours) f auto hours)
         else if k = Enter
         then (if field < 3
               then Some (again name url (field_end (field + 1) name url hours) (field + 1) auto hours)
               else Some (left (msg (if trim url \<noteq> [] then ''Updating group and subscription...''
                        else ''Updating group...'')
                      (send (UpdateGroupCmd g name url (Some auto) (Some (manual_interval_secs hours))) w))))
         else if k = Char '' '' \<and> field = 2 then Some (again name url cur field (\<not> auto) hours)
         else if field = 2 then Some (again name url cur field auto hours)
         else if field = 3
         then (if is_ascii_digit_key k
               then edit_in env hours cur key (\<lambda>s c. again name url c field auto s)
               else Some (again name url cur field auto hours))
         else if field = 0 then edit_in env name cur key (\<lambda>s c. again s url c field auto hours)
         else edit_in env url cur key (\<lambda>s c. again name s c field auto hours))"

definition add_group :: "Env \<Rightarrow> KeyEvent \<Rightarrow> string \<Rightarrow> nat \<Rightarrow> World \<Rightarrow> World option" where
  "add_group env key url cur w =
     (if code key = Esc then Some (close_popup w)
      else if code key = Enter
      then let url = trim url
           in Some (left (msg (if url = [] then ''Adding group...''
                   else ''Adding group and updating subscription...'') (send (AddGroupCmd [] url) w)))
      else edit_in env url cur key (\<lambda>s c. reopen (AddGroup s c) w))"

section \<open>Dispatch\<close>

definition popup_input :: "Env \<Rightarrow> KeyEvent \<Rightarrow> World \<Rightarrow> World option" where
  "popup_input env key w =
     (let taken = popup (w_app w); w = set_popup None w
      in case taken of
        None \<Rightarrow> Some w
      | Some (TabSwitcher cur) \<Rightarrow> Some (tab_switcher cur key w)
      | Some (Recovery config db day) \<Rightarrow> Some (recovery config db day key w)
      | Some (UpdatePopup info) \<Rightarrow> Some (update_popup env info key w)
      | Some Help \<Rightarrow> Some (help_popup key w)
      | Some (Import input cur) \<Rightarrow> import_popup env input cur key w
      | Some (EditUserAgent input cur) \<Rightarrow> user_agent_popup env input cur key w
      | Some (EditTunName input cur) \<Rightarrow> tun_name_popup env input cur key w
      | Some (EditProfileName input cur g p) \<Rightarrow> profile_name_popup env input cur g p key w
      | Some (ConfirmDelete g p _) \<Rightarrow> Some (confirm_delete g p key w)
      | Some (ConfirmDeleteGroup g _) \<Rightarrow> Some (confirm_delete_group g key w)
      | Some (ConfirmClearLogs source) \<Rightarrow> Some (confirm_clear_logs env source key w)
      | Some (EditSubscription name url g cur field auto hours provider) \<Rightarrow>
          edit_subscription env key name url g cur field auto hours provider w
      | Some (AddGroup url cur) \<Rightarrow> add_group env key url cur w)"

section \<open>Typing never panics\<close>

fun popup_text_ok :: "Popup \<Rightarrow> bool" where
  "popup_text_ok (Import s c) = str_ok s"
| "popup_text_ok (EditUserAgent s c) = str_ok s"
| "popup_text_ok (EditTunName s c) = str_ok s"
| "popup_text_ok (EditProfileName s c g p) = str_ok s"
| "popup_text_ok (AddGroup s c) = str_ok s"
| "popup_text_ok (EditSubscription name url g c f auto hours prov) = (str_ok name \<and> str_ok url \<and> str_ok hours)"
| "popup_text_ok _ = True"

definition keyboard_ok :: "Env \<Rightarrow> KeyEvent \<Rightarrow> bool" where
  "keyboard_ok env key \<longleftrightarrow> key_ok key \<and> (case e_clipboard env of Some t \<Rightarrow> str_ok t | None \<Rightarrow> True)"

lemma edit_in_total:
  assumes "str_ok s" and "keyboard_ok env key"
  obtains s' c' where "edit_in env s cur key k = Some (k s' c')" and "str_ok s'"
proof -
  have "\<And>t. e_clipboard env = Some t \<Longrightarrow> str_ok t" using assms(2) by (simp add: keyboard_ok_def)
  moreover have "key_ok key" using assms(2) by (simp add: keyboard_ok_def)
  ultimately obtain s' c' where "edit_text_field (e_clipboard env) s cur key = Some (s', c', False)" "str_ok s'"
    using edit_text_field_total [OF assms(1)] by metis
  then show ?thesis using that by (simp add: edit_in_def)
qed

text \<open>A popup that is open after the key has valid texts too.\<close>

definition texts_kept :: "World option \<Rightarrow> bool" where
  "texts_kept r \<longleftrightarrow> (case r of
      Some w \<Rightarrow> (case popup (w_app w) of Some p \<Rightarrow> popup_text_ok p | None \<Rightarrow> True) | None \<Rightarrow> False)"

lemma texts_kept_Some [simp]:
  "texts_kept (Some (set_popup (Some p) w)) = popup_text_ok p"
  "texts_kept (Some (close_popup w))"
  "texts_kept (Some (set_focus f w)) = texts_kept (Some w)"
  "texts_kept (Some (emit ev w)) = texts_kept (Some w)"
  "texts_kept (Some (msg m w)) = texts_kept (Some w)"
  "texts_kept (Some (save_config w)) = texts_kept (Some w)"
  by (simp_all add: texts_kept_def world_defs set_msg_def)

lemma texts_kept_edit:
  assumes "str_ok s" and "keyboard_ok env key" and "\<And>s' c. str_ok s' \<Longrightarrow> texts_kept (Some (k s' c))"
  shows "texts_kept (edit_in env s cur key k)"
  using edit_in_total [OF assms(1,2), of cur k] assms(3) by metis

lemma texts_kept_general:
  assumes "texts_kept (Some w)"
  shows "texts_kept (Some (tab_switcher cur key w))" "texts_kept (Some (recovery c d day key w))"
    "texts_kept (Some (update_popup env info key w))" "texts_kept (Some (help_popup key w))"
    "texts_kept (Some (confirm_delete g p key w))" "texts_kept (Some (confirm_delete_group g key w))"
    "texts_kept (Some (confirm_clear_logs env src key w))"
  using assms
  by (simp_all add: tab_switcher_def recovery_def update_popup_def help_popup_def confirm_delete_def
      confirm_delete_group_def confirm_clear_logs_def clear_logs_def go_tab_def enter_routing_def Let_def
      split: option.split LogSource.split ClipResult.split)
    (auto simp: texts_kept_def world_defs sync_routing_group_to_connected_def on_logs_def split: option.split)

lemma texts_kept_typing:
  assumes "keyboard_ok env key" and "popup_text_ok p" and "texts_kept (Some w)"
  shows "p = Import s cur \<Longrightarrow> texts_kept (import_popup env s cur key w)"
    "p = EditUserAgent s cur \<Longrightarrow> texts_kept (user_agent_popup env s cur key w)"
    "p = EditTunName s cur \<Longrightarrow> texts_kept (tun_name_popup env s cur key w)"
    "p = EditProfileName s cur g i \<Longrightarrow> texts_kept (profile_name_popup env s cur g i key w)"
    "p = AddGroup s cur \<Longrightarrow> texts_kept (add_group env key s cur w)"
    "p = EditSubscription name url g cur f auto hours prov \<Longrightarrow>
       texts_kept (edit_subscription env key name url g cur f auto hours prov w)"
  using assms
  by (auto simp: import_popup_def user_agent_popup_def tun_name_popup_def profile_name_popup_def
      add_group_def edit_subscription_def Let_def intro!: texts_kept_edit)



end
