(* ===== verification/CoreEvents.thy ===== *)
theory CoreEvents
  imports Dispatch InputSettings InputPopups
begin

text \<open>
  \<open>src/core_events.rs\<close>: how an event of the core (\<open>CoreEvent\<close> of \<open>core_client/dispatch.rs\<close>)
  changes the state, the configuration and the file, and what it asks of the core.  The two
  flags the main loop keeps are the record \<open>Flags\<close>.
\<close>

record Flags =
  f_first_state :: bool
  f_do_autoconnect :: bool

section \<open>The full state\<close>

definition damaged :: "string \<Rightarrow> bool" where
  "damaged st \<longleftrightarrow> st = ''corrupt'' \<or> st = ''orphaned''"

definition note_core_version :: "ApplicationState \<Rightarrow> World \<Rightarrow> World" where
  "note_core_version s w =
     (if as_core_version s \<noteq> [] \<and> c_core_version (w_cfg w) \<noteq> as_core_version s
      then save_config (on_cfg (\<lambda>c. c\<lparr>c_core_version := as_core_version s\<rparr>) w) else w)"

definition prompt_recovery :: "ApplicationState \<Rightarrow> App \<Rightarrow> App" where
  "prompt_recovery s a =
     (let needs_config = damaged (cs_state (as_config_status s));
          needs_db = ds_state (as_db_status s) \<noteq> [] \<and> ds_state (as_db_status s) \<noteq> ''ok''
      in if \<not> recovery_prompted a \<and> (needs_config \<or> needs_db)
         then a\<lparr>recovery_prompted := True,
                popup := Some (Recovery needs_config needs_db (ds_snapshot_at (as_db_status s)))\<rparr>
         else a)"

text \<open>Each field that differs is copied, and the file is written if any did: the same as copying
  all of them and writing if the result differs.\<close>

definition mirrored :: "App \<Rightarrow> AppConfig \<Rightarrow> AppConfig" where
  "mirrored a c =
     c\<lparr>c_tun_name := tun_name a, c_kill_switch_enabled := kill_switch_enabled a,
       c_test_concurrency := tc_concurrency (test_config a),
       c_test_timeout_seconds := tc_timeout_seconds (test_config a),
       c_test_samples := tc_samples_per_test (test_config a),
       c_test_endpoint := tc_test_endpoint (test_config a),
       c_auto_test_on_subscribe := tc_auto_test_on_subscribe (test_config a)\<rparr>"

definition mirror_settings :: "World \<Rightarrow> World" where
  "mirror_settings w =
     (let c = mirrored (w_app w) (w_cfg w)
      in if c \<noteq> w_cfg w then save_config (w\<lparr>w_cfg := c\<rparr>) else w)"

definition migrate_autoconnect :: "bool \<Rightarrow> bool \<Rightarrow> World \<Rightarrow> World" where
  "migrate_autoconnect config_usable already w =
     (let c = w_cfg w
      in if config_usable \<and> \<not> c_autoconnect_migrated c \<and> c_autoconnect c \<and> c_last_profile_id c \<noteq> 0
            \<and> \<not> already
         then save_config (on_cfg (\<lambda>c. c\<lparr>c_autoconnect_migrated := True\<rparr>)
                (send (SetAutoconnect True (c_last_group_id c) (c_last_profile_id c) ''proxy'') w))
         else w)"

definition autoconnect :: "bool \<Rightarrow> World \<Rightarrow> World" where
  "autoconnect now w =
     (let g = c_last_group_id (w_cfg w); p = c_last_profile_id (w_cfg w)
      in if now \<and> (g \<noteq> 0 \<or> p \<noteq> 0) then msg ''Autoconnecting...'' (send (ConnectTo g p) w) else w)"

definition tun_autostart_failed :: "Env \<Rightarrow> World \<Rightarrow> World" where
  "tun_autostart_failed env w =
     (let a = w_app w
      in if autoconnect_enabled a \<and> autostart_mode a = ''tun'' \<and> is_connected a \<and> \<not> tun_enabled a
         then (if \<not> e_has_cap_net env
               then msg (''TUN autostart failed: core binary missing capabilities. Fix: sudo setcap ''
                      @ ''cap_net_admin,cap_net_raw,cap_setpcap=+ep '' @ e_core_path env) w
               else msg ''TUN autostart failed. Check core.log for details.'' w)
         else w)"

definition on_state :: "Env \<Rightarrow> ApplicationState \<Rightarrow> Flags \<times> World \<Rightarrow> Flags \<times> World" where
  "on_state env s fw =
     (case fw of (fl, w) \<Rightarrow>
       let was_connected = ps_connection (as_connection_status s) = ''connected'';
           already_migrated = autoconnect_enabled (w_app w);
           config_usable = (\<not> damaged (cs_state (as_config_status s)));
           w = note_core_version s w;
           w = on_app (apply_state (e_lc env) s) w;
           w = on_app (prompt_recovery s) w;
           w = (if config_usable then mirror_settings w else w)
       in if f_first_state fl
          then let w = migrate_autoconnect config_usable already_migrated w;
                   now = (f_do_autoconnect fl \<and> \<not> was_connected);
                   w = autoconnect now w
               in (fl\<lparr>f_first_state := False, f_do_autoconnect := f_do_autoconnect fl \<and> \<not> now\<rparr>,
                   tun_autostart_failed env w)
          else (fl, w))"

section \<open>Other events\<close>

definition refresh_ip :: "nat \<Rightarrow> bool \<Rightarrow> World \<Rightarrow> World" where
  "refresh_ip delay cond w = (if cond then emit (RefreshPublicIp delay) w else w)"

definition on_status :: "ProxyStatus \<Rightarrow> World \<Rightarrow> World" where
  "on_status s w =
     (let was = is_connected (w_app w);
          w = on_app (\<lambda>a. a\<lparr>connection_status := s\<rparr>) w;
          changed = (was \<noteq> is_connected (w_app w));
          w = (if changed then refresh_ip 1000 (show_ip (w_app w)) (on_app clear_msg w) else w)
      in case (is_connected (w_app w), ps_profile s) of
           (True, Some p) \<Rightarrow>
             let w = save_config (on_cfg (\<lambda>c. c\<lparr>c_last_group_id := p_group_id p, c_last_profile_id := p_id p\<rparr>) w)
             in if autoconnect_enabled (w_app w)
                then send (SetAutoconnect True (p_group_id p) (p_id p) (autostart_mode (w_app w))) w else w
         | _ \<Rightarrow> w)"

definition on_test_progress :: "TestProgress \<Rightarrow> World \<Rightarrow> World" where
  "on_test_progress p w =
     (if tp_total p = 0 \<or> tp_total p \<le> tp_tested p
      then let w = on_app (\<lambda>a. a\<lparr>test_progress := None\<rparr>) w
           in if 0 < tp_total p then msg (''Tested '' @ show_int (tp_total p) @ '' profiles'') w else w
      else on_app (\<lambda>a. a\<lparr>test_progress := Some p\<rparr>) w)"

definition on_xray_progress :: "XrayProgressNotification \<Rightarrow> World \<Rightarrow> World" where
  "on_xray_progress p w =
     (let ver = (if xp_version p = [] then ''core'' else xp_version p);
          w = (if xp_status p = ''downloading''
               then msg (''Downloading Xray '' @ ver @ '' ('' @ show_int (xp_progress p) @ ''%)...'') w
               else if xp_status p = ''ready'' then msg (''Xray '' @ ver @ '' ready'') w
               else if xp_status p = ''error'' \<and> xp_error p \<noteq> []
               then msg (''Xray download error: '' @ xp_error p) w else w);
          target = (case xray_status (w_app w) of Some st \<Rightarrow> xs_target_version st | None \<Rightarrow> [])
      in on_app (\<lambda>a. a\<lparr>xray_status := Some
           \<lparr>xs_version = xp_version p, xs_target_version = target, xs_status = xp_status p,
            xs_progress = xp_progress p, xs_bytes_downloaded = xp_bytes_downloaded p,
            xs_total_bytes = xp_total_bytes p, xs_error = xp_error p\<rparr>\<rparr>) w)"

definition on_reconnected :: "World \<Rightarrow> World" where
  "on_reconnected w =
     (let w = msg ''Core reconnected. Re-syncing state...'' (on_app clear_profile_details w)
      in send (GetRouting 0) (send GetApplicationState (send (SetLogLevel (c_log_level (w_cfg w))) w)))"

definition on_kill_switch :: "bool \<Rightarrow> bool \<Rightarrow> World \<Rightarrow> World" where
  "on_kill_switch enabled armed w =
     (let w = on_app (\<lambda>a. a\<lparr>kill_switch_enabled := enabled, kill_switch_armed := armed\<rparr>) w
      in if c_kill_switch_enabled (w_cfg w) \<noteq> enabled
         then save_config (on_cfg (\<lambda>c. c\<lparr>c_kill_switch_enabled := enabled\<rparr>) w) else w)"

definition drop_popup :: "App \<Rightarrow> App" where
  "drop_popup a = a\<lparr>popup := None\<rparr>"

fun on_event :: "Env \<Rightarrow> CoreEvent \<Rightarrow> World \<Rightarrow> World" where
  "on_event env (EvApplicationState s) w = w"
| "on_event env (EvStatusChanged s) w = on_status s w"
| "on_event env (EvProfilesAdded ps) w =
     msg ''Ok'' (on_app (drop_popup \<circ> clear_profile_details \<circ> apply_profiles_added ps) w)"
| "on_event env (EvProfilesDeleted ds) w =
     msg ''Ok'' (on_app (drop_popup \<circ> clear_profile_details \<circ> apply_profiles_deleted (e_lc env) ds) w)"
| "on_event env (EvProfileUpdated p) w =
     on_app (apply_profile_updated p) (if p_test_result p \<noteq> - 2 then on_app clear_msg w else w)"
| "on_event env (EvProfileDetails d) w = on_app (apply_profile_details d) w"
| "on_event env (EvGroupAdded g) w = on_app (apply_group_added g) w"
| "on_event env (EvGroupDeleted i) w =
     msg ''Group deleted'' (on_app (drop_popup \<circ> clear_profile_details \<circ> apply_group_deleted (e_lc env) i) w)"
| "on_event env (EvGroupUpdated g) w = msg ''Group updated'' (on_app (apply_group_updated g) w)"
| "on_event env (EvSubscriptionUpdated g ps rs auto) w =
     (let w = on_app (clear_profile_details \<circ> apply_subscription_updated (e_lc env) g ps rs) w
      in if auto then w else msg ''Subscription updated'' w)"
| "on_event env (EvTunStatusChanged e) w =
     (let w = msg (if e then ''Warning: TUN mode active'' else ''Ok'') (on_app (\<lambda>a. a\<lparr>tun_enabled := e\<rparr>) w)
      in refresh_ip 1000 (show_ip (w_app w)) w)"
| "on_event env (EvIsRootAnswer is_root) w =
     (if is_root then send EnableTun (msg ''Ok'' w)
      else msg (''Error: no TUN permission. Run: sudo setcap cap_net_admin,cap_net_raw,''
             @ ''cap_setpcap=+ep /path/to/whoisthat-core'') w)"
| "on_event env (EvWarning k content) w = msg (''Warning: '' @ content) w"
| "on_event env (EvError e) w = msg (''Error: '' @ e) w"
| "on_event env (EvTrafficStats ts) w =
     on_app (\<lambda>a. a\<lparr>traffic_history := history_push (e_rnd env) ts (traffic_history a), traffic_stats := ts\<rparr>) w"
| "on_event env (EvRoutingUpdated g config source custom) w =
     (let w = on_app (apply_routing_updated g config source custom) w
      in refresh_ip 600 (is_connected (w_app w) \<and> show_ip (w_app w)) w)"
| "on_event env (EvHwidUpdated hw) w = on_app (\<lambda>a. a\<lparr>hwid_info := Some hw\<rparr>) w"
| "on_event env (EvTunNameUpdated name) w =
     save_config (on_cfg (\<lambda>c. c\<lparr>c_tun_name := name\<rparr>) (on_app (\<lambda>a. a\<lparr>tun_name := name\<rparr>) w))"
| "on_event env (EvKillSwitchUpdated enabled armed) w = on_kill_switch enabled armed w"
| "on_event env (EvSplitTunnelUpdated mode) w =
     on_app (\<lambda>a. a\<lparr>split_tunnel := if mode = [] then ''off'' else mode\<rparr>) w"
| "on_event env (EvAutoconnectUpdated info) w =
     on_app (\<lambda>a. a\<lparr>autoconnect_enabled := ac_enabled info, autostart_mode := ac_mode info\<rparr>) w"
| "on_event env (EvTestProgress p) w = on_test_progress p w"
| "on_event env (EvTestConfigUpdated c) w = on_app (\<lambda>a. a\<lparr>test_config := c\<rparr>) w"
| "on_event env (EvXrayProgress p) w = on_xray_progress p w"
| "on_event env (EvProfilesReordered g ids) w =
     on_app (apply_profiles_reordered (e_lc env) (e_profile_order env) g ids) w"
| "on_event env (EvGroupsReordered ids) w =
     on_app (apply_groups_reordered (e_lc env) (e_group_order env) ids) w"
| "on_event env (EvProfileMoved old new_p) w =
     on_app (drop_popup \<circ> clear_profile_details \<circ> apply_profile_moved (e_lc env) old new_p) w"
| "on_event env EvReconnected w = on_reconnected w"
| "on_event env EvDisconnected w =
     msg ''Error: Core disconnected and recovery failed. Press q to quit.'' w"

text \<open>The state event changes the flags too; no event ends the program.\<close>

definition handle_core_event :: "Env \<Rightarrow> CoreEvent \<Rightarrow> Flags \<times> World \<Rightarrow> bool \<times> Flags \<times> World" where
  "handle_core_event env ev fw =
     (False, case ev of
        EvApplicationState s \<Rightarrow> on_state env s fw
      | _ \<Rightarrow> (fst fw, on_event env ev (snd fw)))"

section \<open>Outputs\<close>

text \<open>Every step only appends to the outputs; \<open>adds P w w'\<close> says all that \<open>w'\<close> adds satisfies
  \<open>P\<close>.\<close>

definition adds :: "(Output \<Rightarrow> bool) \<Rightarrow> World \<Rightarrow> World \<Rightarrow> bool" where
  "adds P w w' \<longleftrightarrow> (\<exists>outs. w_out w' = w_out w @ outs \<and> list_all P outs)"

lemma adds_refl [simp]: "adds P w w"
  by (simp add: adds_def)

lemma adds_trans: "adds P w v \<Longrightarrow> adds P v u \<Longrightarrow> adds P w u"
  by (auto simp: adds_def)

lemma adds_emit [simp]: "P ev \<Longrightarrow> adds P w v \<Longrightarrow> adds P w (emit ev v)"
  by (auto simp: adds_def emit_def)

lemma adds_same [simp]:
  "adds P w v \<Longrightarrow> adds P w (on_app f v)" "adds P w v \<Longrightarrow> adds P w (msg m v)"
  "adds P w v \<Longrightarrow> adds P w (on_cfg g v)" "adds P w v \<Longrightarrow> adds P w (v\<lparr>w_cfg := c\<rparr>)"
  by (auto simp: adds_def world_defs)

lemma adds_save [simp]: "(\<And>c. P (SaveConfig c)) \<Longrightarrow> adds P w v \<Longrightarrow> adds P w (save_config v)"
  by (simp add: save_config_def)

fun is_connect :: "Output \<Rightarrow> bool" where
  "is_connect (Send (ConnectTo g p)) = True"
| "is_connect _ = False"

lemma on_event_no_connect: "adds (\<lambda>ev. \<not> is_connect ev) w (on_event env ev w)"
  by (cases ev)
    (simp_all add: on_status_def refresh_ip_def on_kill_switch_def on_test_progress_def
      on_xray_progress_def on_reconnected_def Let_def split: option.split bool.split)

definition connects :: "World \<Rightarrow> nat" where
  "connects w = length (filter is_connect (w_out w))"

lemma connects_adds: "adds (\<lambda>ev. \<not> is_connect ev) w w' \<Longrightarrow> connects w' = connects w"
  by (auto simp: adds_def connects_def list_all_iff)

lemmas state_defs = note_core_version_def mirror_settings_def migrate_autoconnect_def
  tun_autostart_failed_def

lemma before_autoconnect:
  "adds (\<lambda>ev. \<not> is_connect ev) w (note_core_version s w)"
  "adds (\<lambda>ev. \<not> is_connect ev) w (mirror_settings w)"
  "adds (\<lambda>ev. \<not> is_connect ev) w (migrate_autoconnect u al w)"
  "adds (\<lambda>ev. \<not> is_connect ev) w (tun_autostart_failed env w)"
  by (simp_all add: state_defs Let_def)

lemma connects_steps [simp]:
  "connects (note_core_version s w) = connects w" "connects (mirror_settings w) = connects w"
  "connects (migrate_autoconnect u al w) = connects w" "connects (tun_autostart_failed env w) = connects w"
  "connects (on_app f w) = connects w" "connects (msg m w) = connects w"
  by (rule connects_adds; simp add: before_autoconnect)+

lemma connects_autoconnect: "connects (autoconnect now w) \<le> connects w + (if now then 1 else 0)"
  by (simp add: autoconnect_def Let_def) (simp add: connects_def emit_def)

definition may_autoconnect :: "Flags \<Rightarrow> nat" where
  "may_autoconnect fl = (if f_first_state fl \<and> f_do_autoconnect fl then 1 else 0)"

lemma on_state_connects:
  "connects (snd (on_state env s (fl, w))) + may_autoconnect (fst (on_state env s (fl, w)))
   \<le> connects w + may_autoconnect fl"
proof -
  define v where "v = (let v = on_app (prompt_recovery s) (on_app (apply_state (e_lc env) s)
      (note_core_version s w))
    in if damaged (cs_state (as_config_status s)) then v else mirror_settings v)"
  have v: "connects v = connects w" by (simp add: v_def Let_def)
  show ?thesis
  proof (cases "f_first_state fl")
    case True
    define m where "m = migrate_autoconnect (\<not> damaged (cs_state (as_config_status s)))
        (autoconnect_enabled (w_app w)) v"
    define now where "now = (f_do_autoconnect fl \<and> ps_connection (as_connection_status s) \<noteq> ''connected'')"
    have "on_state env s (fl, w)
        = (fl\<lparr>f_first_state := False, f_do_autoconnect := f_do_autoconnect fl \<and> \<not> now\<rparr>,
           tun_autostart_failed env (autoconnect now m))"
      using True by (simp add: on_state_def m_def v_def now_def Let_def)
    moreover have "connects m = connects w" by (simp add: m_def v)
    ultimately show ?thesis
      using connects_autoconnect [of now m] True by (auto simp: may_autoconnect_def now_def split: if_splits)
  next
    case False
    then have "on_state env s (fl, w) = (fl, v)"
      by (simp add: on_state_def v_def Let_def)
    then show ?thesis by (simp add: v)
  qed
qed

definition run_core :: "Env \<Rightarrow> CoreEvent list \<Rightarrow> Flags \<times> World \<Rightarrow> Flags \<times> World" where
  "run_core env evs fw = fold (\<lambda>ev fw. snd (handle_core_event env ev fw)) evs fw"

lemma handle_connects:
  "connects (snd (snd (handle_core_event env ev (fl, w)))) + may_autoconnect (fst (snd (handle_core_event env ev (fl, w))))
   \<le> connects w + may_autoconnect fl"
  by (cases ev) (simp_all add: handle_core_event_def on_state_connects
      connects_adds [OF on_event_no_connect] del: on_event.simps)

text \<open>C21: however many states and other events the core sends, the client asks for a connection of
  its own accord at most once, and never when it was not started to do so.\<close>

theorem autoconnect_once:
  "connects (snd (run_core env evs (fl, w)))
   \<le> connects w + (if f_first_state fl \<and> f_do_autoconnect fl then 1 else 0)"
proof -
  have "connects (snd (run_core env evs fw)) + may_autoconnect (fst (run_core env evs fw))
      \<le> connects (snd fw) + may_autoconnect (fst fw)" for fw
  proof (induction evs arbitrary: fw)
    case (Cons ev evs)
    have "connects (snd (snd (handle_core_event env ev fw)))
        + may_autoconnect (fst (snd (handle_core_event env ev fw))) \<le> connects (snd fw) + may_autoconnect (fst fw)"
      using handle_connects [of env ev "fst fw" "snd fw"] by simp
    then show ?case
      using Cons.IH [of "snd (handle_core_event env ev fw)"] by (simp add: run_core_def)
  qed (simp add: run_core_def)
  from this [of "(fl, w)"] show ?thesis by (simp add: may_autoconnect_def split: if_splits)
qed

section \<open>A damaged core configuration\<close>

fun is_set_autoconnect :: "Output \<Rightarrow> bool" where
  "is_set_autoconnect (Send (SetAutoconnect e g p m)) = True"
| "is_set_autoconnect _ = False"

lemma cfg_steps [simp]:
  "w_cfg (on_app f w) = w_cfg w" "w_cfg (msg m w) = w_cfg w" "w_cfg (emit ev w) = w_cfg w"
  "w_cfg (save_config w) = w_cfg w" "w_cfg (on_cfg g w) = g (w_cfg w)"
  "w_cfg (tun_autostart_failed env w) = w_cfg w" "w_cfg (autoconnect now w) = w_cfg w"
  by (simp_all add: world_defs tun_autostart_failed_def autoconnect_def Let_def)

text \<open>C22: a state whose configuration the core reports as corrupt or orphaned never reaches the
  client's own file: nothing but the core's version changes there, and the core is not asked
  to store an autoconnect.\<close>

theorem damaged_config_kept:
  assumes "damaged (cs_state (as_config_status s))"
  shows "(\<exists>v. w_cfg (snd (on_state env s (fl, w))) = (w_cfg w)\<lparr>c_core_version := v\<rparr>)
    \<and> (\<exists>outs. w_out (snd (on_state env s (fl, w))) = w_out w @ outs \<and> filter is_set_autoconnect outs = [])"
proof
  have "migrate_autoconnect False al v = v" for al v
    by (simp add: migrate_autoconnect_def Let_def)
  then show "\<exists>v. w_cfg (snd (on_state env s (fl, w))) = (w_cfg w)\<lparr>c_core_version := v\<rparr>"
    using assms
    by (simp add: on_state_def note_core_version_def Let_def)
      (metis AppConfig.surjective AppConfig.update_convs(6))
  have "adds (\<lambda>ev. \<not> is_set_autoconnect ev) w (snd (on_state env s (fl, w)))"
    using assms
    by (simp add: on_state_def note_core_version_def migrate_autoconnect_def autoconnect_def
        tun_autostart_failed_def Let_def)
  then show "\<exists>outs. w_out (snd (on_state env s (fl, w))) = w_out w @ outs \<and> filter is_set_autoconnect outs = []"
    by (auto simp: adds_def list_all_iff filter_empty_conv)
qed

definition empty_state :: ApplicationState where
  "empty_state = \<lparr>as_groups = [], as_connection_status = default_status, as_tun_status = False,
     as_hwid_info = None, as_kill_switch = False, as_kill_switch_armed = False, as_split_tunnel = [],
     as_autoconnect = \<lparr>ac_enabled = False, ac_mode = ''proxy''\<rparr>, as_xray_status = None,
     as_core_version = ''2'', as_protocol_version = 5, as_tun_name = ''other'',
     as_test_config = default_test_config, as_config_status = \<lparr>cs_state = ''ok'', cs_error = []\<rparr>,
     as_db_status = \<lparr>ds_state = ''ok'', ds_error = [], ds_snapshot_at = []\<rparr>\<rparr>"

theorem damaged_config_kept_witness:
  "\<exists>v. w_cfg (snd (on_state quiet_env (empty_state\<lparr>as_config_status := \<lparr>cs_state = ''corrupt'', cs_error = []\<rparr>\<rparr>)
        (\<lparr>f_first_state = True, f_do_autoconnect = False\<rparr>, sample_world))) = default_config\<lparr>c_core_version := v\<rparr>"
  using damaged_config_kept [of "empty_state\<lparr>as_config_status := \<lparr>cs_state = ''corrupt'', cs_error = []\<rparr>\<rparr>"
      quiet_env "\<lparr>f_first_state = True, f_do_autoconnect = False\<rparr>" sample_world]
  by (simp add: damaged_def empty_state_def sample_world_def)

section \<open>What the interface shows\<close>

text \<open>The texts of an event that went through the JSON parser, and the two events whose profile
  goes into the state without \<open>clean\_profile\<close>.\<close>

fun utf8_event :: "CoreEvent \<Rightarrow> bool" where
  "utf8_event (EvApplicationState s) = utf8_state s"
| "utf8_event (EvProfilesAdded ps) = list_all utf8_profile ps"
| "utf8_event (EvProfileUpdated p) = utf8_profile p"
| "utf8_event (EvGroupAdded g) = str_ok (g_name g)"
| "utf8_event (EvGroupUpdated g) = str_ok (g_name g)"
| "utf8_event (EvSubscriptionUpdated g ps rs auto) =
     (str_ok (g_name g) \<and> list_all utf8_profile ps \<and> list_all utf8_routing_profile rs)"
| "utf8_event _ = True"

fun cleaned_event :: "CoreEvent \<Rightarrow> bool" where
  "cleaned_event (EvStatusChanged s) = (ps_profile s = None)"
| "cleaned_event (EvProfileMoved old new_p) = False"
| "cleaned_event _ = True"

lemma labels_safe_same:
  "groups a = groups b \<Longrightarrow> ps_profile (connection_status a) = ps_profile (connection_status b) \<Longrightarrow>
   last_msg a = last_msg b \<Longrightarrow> labels_safe a = labels_safe b"
  by (simp add: labels_safe_def)

lemma labels_safe_fields [simp]:
  "labels_safe (a\<lparr>profile_details := m\<rparr>) = labels_safe a"
  "labels_safe (a\<lparr>profile_details_pending := ks\<rparr>) = labels_safe a"
  "labels_safe (a\<lparr>traffic_history := h\<rparr>) = labels_safe a"
  "labels_safe (a\<lparr>traffic_stats := ts\<rparr>) = labels_safe a"
  "labels_safe (a\<lparr>kill_switch_enabled := b\<rparr>) = labels_safe a"
  "labels_safe (a\<lparr>kill_switch_armed := b\<rparr>) = labels_safe a"
  "labels_safe (a\<lparr>autoconnect_enabled := b\<rparr>) = labels_safe a"
  "labels_safe (a\<lparr>autostart_mode := s\<rparr>) = labels_safe a"
  "labels_safe (a\<lparr>tun_enabled := b\<rparr>) = labels_safe a"
  "labels_safe (a\<lparr>tun_name := s\<rparr>) = labels_safe a"
  "labels_safe (a\<lparr>hwid_info := hw\<rparr>) = labels_safe a"
  "labels_safe (a\<lparr>split_tunnel := s\<rparr>) = labels_safe a"
  "labels_safe (a\<lparr>test_progress := tp\<rparr>) = labels_safe a"
  "labels_safe (a\<lparr>test_config := tc\<rparr>) = labels_safe a"
  "labels_safe (a\<lparr>xray_status := x\<rparr>) = labels_safe a"
  by (simp_all add: labels_safe_def)

lemma w_app_steps [simp]:
  "w_app (on_app f w) = f (w_app w)" "w_app (msg m w) = set_msg m (w_app w)"
  "w_app (emit ev w) = w_app w" "w_app (save_config w) = w_app w" "w_app (on_cfg g w) = w_app w"
  by (simp_all add: world_defs)

definition shows_safe :: "World \<Rightarrow> bool" where
  "shows_safe w \<longleftrightarrow> labels_safe (w_app w)"

lemma shows_safe_steps [simp]:
  "shows_safe (on_cfg g w) = shows_safe w" "shows_safe (emit ev w) = shows_safe w"
  "shows_safe (save_config w) = shows_safe w" "shows_safe (w\<lparr>w_cfg := c\<rparr>) = shows_safe w"
  "shows_safe w \<Longrightarrow> str_ok m \<Longrightarrow> shows_safe (msg m w)"
  "shows_safe (on_app f w) = labels_safe (f (w_app w))"
  by (simp_all add: shows_safe_def world_defs)

lemma shows_safe_refresh [simp]: "shows_safe (refresh_ip d c w) = shows_safe w"
  by (simp add: refresh_ip_def)

lemma labels_safe_drop [simp]: "labels_safe (drop_popup a) = labels_safe a"
  by (rule labels_safe_same) (simp_all add: drop_popup_def)

lemma labels_safe_routing: "labels_safe a \<Longrightarrow> labels_safe (apply_routing_updated g c src cu a)"
  by (auto simp: apply_routing_updated_def clamp_routing_cursor_eq Let_def labels_safe_def)

lemma prompt_recovery_safe: "labels_safe (prompt_recovery s a) = labels_safe a"
  by (rule labels_safe_same) (simp_all add: prompt_recovery_def Let_def)

lemma msg_ok: "labels_safe a \<Longrightarrow> case last_msg a of Some m \<Rightarrow> safe_label m | None \<Rightarrow> True"
  by (simp add: labels_safe_def)

lemma is_cont_literal [simp]: "is_cont (String.char.Char b0 b1 b2 b3 b4 b5 b6 b7) \<longleftrightarrow> b7 \<and> \<not> b6"
  by (simp add: is_cont_def)

lemma shows_safe_state_steps [simp]:
  "shows_safe (mirror_settings w) = shows_safe w"
  "shows_safe (migrate_autoconnect u al w) = shows_safe w"
  "shows_safe w \<Longrightarrow> shows_safe (autoconnect now w)"
  "shows_safe w \<Longrightarrow> shows_safe (tun_autostart_failed env w)"
  by (simp_all add: mirror_settings_def migrate_autoconnect_def autoconnect_def
      tun_autostart_failed_def Let_def)

lemma on_state_safe:
  assumes "shows_safe w" and "utf8_state s"
  shows "shows_safe (snd (on_state env s (fl, w)))"
proof -
  define v where "v = on_app (prompt_recovery s) (on_app (apply_state (e_lc env) s) (note_core_version s w))"
  have "shows_safe v"
    using assms
    by (simp add: v_def note_core_version_def prompt_recovery_safe)
      (simp add: shows_safe_def world_defs labels_safe_state msg_ok)
  then show ?thesis
    by (simp add: on_state_def flip: v_def) (simp add: Let_def)
qed



section \<open>What the code does not do\<close>

text \<open>A status takes the profile over as it is, so its name reaches the screen uncleaned.\<close>

lemma status_not_cleaned:
  "connected_profile_name (w_app (on_status \<lparr>ps_connection = ''connected'',
       ps_profile = Some (default_profile\<lparr>p_name := [CHR 0x1B]\<rparr>), ps_connected_at = 0, ps_reason = []\<rparr>
     sample_world)) = Some [CHR 0x1B]"
  by (simp add: on_status_def world_defs connected_profile_name_def is_connected_def Let_def
      refresh_ip_def clear_msg_def)

text \<open>An event that deletes or adds items closes the popup the user is in and leaves the focus on
  it: the panel's own keys are dead until the focus is moved by other means.\<close>

lemma focus_left_on_popup:
  assumes "focus (w_app w) = PopupFocus"
  shows "popup (w_app (on_event env (EvProfilesAdded []) w)) = None
    \<and> focus (w_app (on_event env (EvProfilesAdded []) w)) = PopupFocus"
  using assms by (simp add: world_defs drop_popup_def clear_profile_details_def apply_profiles_added_def
      invalidate_uri_cache_def set_msg_def)

text \<open>The migration looks at the state the interface started with, not at the one that just
  arrived: a core that already autoconnects in TUN mode is switched to proxy mode.\<close>

lemma migration_overwrites_mode:
  assumes "as_autoconnect s = \<lparr>ac_enabled = True, ac_mode = ''tun''\<rparr>"
    and "\<not> damaged (cs_state (as_config_status s))" and "\<not> autoconnect_enabled (w_app w)"
    and "f_first_state fl"
    and "c_autoconnect (w_cfg w)" "\<not> c_autoconnect_migrated (w_cfg w)" "c_last_profile_id (w_cfg w) \<noteq> 0"
  shows "Send (SetAutoconnect True (c_last_group_id (w_cfg w)) (c_last_profile_id (w_cfg w)) ''proxy'')
    \<in> set (w_out (snd (on_state env s (fl, w))))"
proof -
  define v where "v = mirror_settings (on_app (prompt_recovery s) (on_app (apply_state (e_lc env) s) (note_core_version s w)))"
  have c: "c_autoconnect (w_cfg v) = c_autoconnect (w_cfg w)" "c_autoconnect_migrated (w_cfg v) = c_autoconnect_migrated (w_cfg w)"
    "c_last_profile_id (w_cfg v) = c_last_profile_id (w_cfg w)" "c_last_group_id (w_cfg v) = c_last_group_id (w_cfg w)"
    by (simp_all add: v_def mirror_settings_def mirrored_def note_core_version_def Let_def world_defs)
  have "\<exists>now. snd (on_state env s (fl, w)) = tun_autostart_failed env (autoconnect now (migrate_autoconnect True False v))"
    using assms by (auto simp: on_state_def v_def Let_def)
  moreover have "ev \<in> set (w_out u) \<Longrightarrow> ev \<in> set (w_out (tun_autostart_failed env (autoconnect now u)))" for ev u now
    by (simp add: tun_autostart_failed_def autoconnect_def world_defs Let_def)
  moreover have "Send (SetAutoconnect True (c_last_group_id (w_cfg w)) (c_last_profile_id (w_cfg w)) ''proxy'')
      \<in> set (w_out (migrate_autoconnect True False v))"
    using assms c by (simp add: migrate_autoconnect_def world_defs Let_def)
  ultimately show ?thesis by auto
qed

end
