(* ===== verification/RoutingPopups.thy ===== *)
theory RoutingPopups
  imports InputPopups
begin

text \<open>
  \<open>src/popups/routing.rs\<close>: the popups of the routing tab: the rule form, the deletion of a rule,
  the presets and the provider's routing profiles.  \<open>None\<close> is a panic.
\<close>

section \<open>The rule form\<close>

datatype FormResult = FormSave | FormCancel | FormContinue

text \<open>The form's fields: match type, value, outbound, cursor, field.\<close>

type_synonym form = "nat \<times> string \<times> nat \<times> nat \<times> nat"

definition form_cursor :: "nat \<Rightarrow> string \<Rightarrow> nat" where
  "form_cursor field value = (if field = 1 then char_count value else 0)"

definition handle_routing_form :: "Env \<Rightarrow> KeyEvent \<Rightarrow> form \<Rightarrow> (form \<times> FormResult) option" where
  "handle_routing_form env key f =
     (case f of (mt, value, ob, cur, field) \<Rightarrow>
       let k = code key;
           type_in = edit_in env value cur key (\<lambda>s c. ((mt, s, ob, c, field), FormContinue));
           move = (\<lambda>fl. Some ((mt, value, ob, form_cursor fl value, fl), FormContinue))
       in if k = Esc then Some (f, FormCancel)
          else if k = Tab then move ((field + 1) mod 3)
          else if k = BackTab then move (if field = 0 then 2 else field - 1)
          else if k = Enter then (if field < 2 then move (field + 1) else Some (f, FormSave))
          else if k = KLeft
          then (if field = 0 then Some ((if mt = 0 then 5 else mt - 1, value, ob, cur, field), FormContinue)
                else if field = 1 then type_in
                else if field = 2 then Some ((mt, value, if ob = 0 then 2 else ob - 1, cur, field), FormContinue)
                else Some (f, FormContinue))
          else if k = KRight
          then (if field = 0 then Some (((mt + 1) mod 6, value, ob, cur, field), FormContinue)
                else if field = 1 then type_in
                else if field = 2 then Some ((mt, value, (ob + 1) mod 3, cur, field), FormContinue)
                else Some (f, FormContinue))
          else if field = 1 then type_in
          else Some (f, FormContinue))"

section \<open>The popups\<close>

definition rconfirm_delete :: "nat \<Rightarrow> KeyEvent \<Rightarrow> World \<Rightarrow> World option" where
  "rconfirm_delete index key w =
     (if code key = Enter
      then let w = ensure_custom w
           in case vec_remove index (rc_rules (mut_target (w_app w))) of
                None \<Rightarrow> None
              | Some rules \<Rightarrow>
                  let w = edit_rules (\<lambda>_. rules) w;
                      len = length (rc_rules (active_routing_config (w_app w)));
                      w = on_app (\<lambda>a. if len \<le> routing_cursor a \<and> 0 < routing_cursor a
                                      then a\<lparr>routing_cursor := routing_cursor a - 1\<rparr> else a) w
                  in Some (push_routing (msg ''Rule deleted'' w))
      else if code key = Esc then Some w
      else Some (set_routing_popup (Some (RConfirmDelete index)) w))"

definition radd :: "Env \<Rightarrow> form \<Rightarrow> KeyEvent \<Rightarrow> World \<Rightarrow> World option" where
  "radd env f key w =
     do { ((mt, value, ob, cur, field), r) \<leftarrow> handle_routing_form env key f;
          case r of
            FormSave \<Rightarrow>
              do { rule \<leftarrow> form_to_rule mt value ob;
                   let w = edit_rules (\<lambda>rs. rs @ [rule]) (ensure_custom w);
                   Some (push_routing (msg ''Rule added'' w)) }
          | FormCancel \<Rightarrow> Some (set_routing_popup None w)
          | FormContinue \<Rightarrow> Some (set_routing_popup (Some (RAdd mt value ob cur field)) w) }"

definition redit :: "Env \<Rightarrow> nat \<Rightarrow> form \<Rightarrow> KeyEvent \<Rightarrow> World \<Rightarrow> World option" where
  "redit env index f key w =
     do { ((mt, value, ob, cur, field), r) \<leftarrow> handle_routing_form env key f;
          case r of
            FormSave \<Rightarrow>
              do { rule \<leftarrow> form_to_rule mt value ob;
                   let w = ensure_custom w;
                   (if index < length (rc_rules (active_routing_config (w_app w)))
                    then (if index < length (rc_rules (mut_target (w_app w)))
                          then Some (push_routing (msg ''Rule saved'' (edit_rules (\<lambda>rs. rs[index := rule]) w)))
                          else None)
                    else Some w) }
          | FormCancel \<Rightarrow> Some (set_routing_popup None w)
          | FormContinue \<Rightarrow> Some (set_routing_popup (Some (REdit index mt value ob cur field)) w) }"

definition toggle_preset_at :: "nat \<Rightarrow> World \<Rightarrow> World" where
  "toggle_preset_at idx w =
     (case get_at ROUTING_PRESETS idx of
        None \<Rightarrow> w
      | Some preset \<Rightarrow>
          let w = ensure_custom w;
              now_applied = snd (toggle_preset (mut_target (w_app w)) preset);
              w = on_app (active_routing_config_mut (\<lambda>c. fst (toggle_preset c preset))) w
          in push_routing (msg (''Preset '' @ (if now_applied then ''applied'' else ''removed'') @ '': ''
               @ ps_title preset) w))"

definition rpresets :: "nat \<Rightarrow> KeyEvent \<Rightarrow> World \<Rightarrow> World" where
  "rpresets cur key w =
     (let k = code key; last_idx = length ROUTING_PRESETS - 1;
          again = (\<lambda>c. set_routing_popup (Some (RPresets c)))
      in if k = Esc then w
         else if k = Char ''j'' \<or> k = KDown then again (if cur < last_idx then cur + 1 else cur) w
         else if k = Char ''k'' \<or> k = KUp then again (cur - 1) w
         else if k = Home then again 0 w
         else if k = End then again last_idx w
         else if k = Enter \<or> k = Char '' '' then again cur (toggle_preset_at cur w)
         else again cur w)"

definition happ_count :: "App \<Rightarrow> nat" where
  "happ_count app = (case routing_selected_group app of
     Some g \<Rightarrow> length (gw_routing_profiles g) | None \<Rightarrow> 0)"

definition happ_profile :: "App \<Rightarrow> nat \<Rightarrow> (GroupWithProfiles \<times> RoutingProfileInfo) option" where
  "happ_profile app cur =
     do { g \<leftarrow> routing_selected_group app; p \<leftarrow> get_at (gw_routing_profiles g) cur; Some (g, p) }"

definition rhapp :: "nat \<Rightarrow> KeyEvent \<Rightarrow> World \<Rightarrow> World" where
  "rhapp cur key w =
     (let k = code key; a = w_app w; again = (\<lambda>c. set_routing_popup (Some (RHappProfiles c)))
      in if k = Esc then w
         else if k = Char ''j'' \<or> k = KDown
         then again (if 0 < happ_count a \<and> cur + 1 < happ_count a then cur + 1 else cur) w
         else if k = Char ''k'' \<or> k = KUp then again (cur - 1) w
         else if k = Home then again 0 w
         else if k = End then again (happ_count a - 1) w
         else if k = Enter
         then again cur (case happ_profile a cur of
             Some (g, p) \<Rightarrow> msg (''Activating Happ routing: '' @ rp_name p)
               (send (SetActiveRoutingProfile (gid g) (rp_id p)) w)
           | None \<Rightarrow> w)
         else if k = Char ''o'' \<or> k = Char ''O''
         then again cur (case routing_selected_group a of
             Some g \<Rightarrow> msg ''Happ routing deactivated (off)'' (send (SetActiveRoutingProfile (gid g) ''off'') w)
           | None \<Rightarrow> w)
         else if k = Char ''d'' \<or> k = Char ''D'' \<or> k = Char ''x'' \<or> k = Delete
         then (case happ_profile a cur of
             Some (g, p) \<Rightarrow>
               again (if length (gw_routing_profiles g) - 1 \<le> cur \<and> 0 < cur then cur - 1 else cur)
                 (msg (''Deleted Happ routing: '' @ rp_name p) (send (DeleteRoutingProfile (gid g) (rp_id p)) w))
           | None \<Rightarrow> again cur w)
         else if k = Char ''m'' \<or> k = Char ''M''
         then again cur (case routing_selected_group a of
             Some g \<Rightarrow>
               let m = next_routing_mode (g_routing_mode (gw_group g))
               in msg (''Group routing mode: '' @ m) (send (SetGroupRoutingMode (gid g) m) w)
           | None \<Rightarrow> w)
         else again cur w)"

definition routing_popup_input :: "Env \<Rightarrow> KeyEvent \<Rightarrow> World \<Rightarrow> World option" where
  "routing_popup_input env key w =
     (let taken = routing_popup (w_app w); w = set_routing_popup None w
      in case taken of
        None \<Rightarrow> Some w
      | Some (RConfirmDelete index) \<Rightarrow> rconfirm_delete index key w
      | Some (RAdd mt value ob cur field) \<Rightarrow> radd env (mt, value, ob, cur, field) key w
      | Some (REdit index mt value ob cur field) \<Rightarrow> redit env index (mt, value, ob, cur, field) key w
      | Some (RPresets cur) \<Rightarrow> Some (rpresets cur key w)
      | Some (RHappProfiles cur) \<Rightarrow> Some (rhapp cur key w))"

end
