(* ===== verification/Mouse.thy ===== *)
theory Mouse
  imports RoutingPopups
begin

text \<open>
  \<open>src/input/mouse.rs\<close>.  Positions and sizes are \<open>u16\<close> in the source; they are natural numbers
  here, and agree with the source wherever a rectangle ends within the \<open>u16\<close> range, which a
  terminal's does.
\<close>

datatype MouseKind = ScrollDown | ScrollUp | LeftDown | OtherMouse

record MouseEvent =
  me_kind :: MouseKind
  me_column :: nat
  me_row :: nat

definition right_edge :: "Rect \<Rightarrow> nat" where
  "right_edge r = rx r + rwidth r"

definition bottom_edge :: "Rect \<Rightarrow> nat" where
  "bottom_edge r = ry r + rheight r"

definition inside :: "nat \<Rightarrow> nat \<Rightarrow> Rect \<Rightarrow> bool" where
  "inside col row r \<longleftrightarrow> rx r \<le> col \<and> col < right_edge r \<and> ry r \<le> row \<and> row < bottom_edge r"

text \<open>The first visible row and column inside a border.\<close>

definition inner :: "Rect \<Rightarrow> Rect" where
  "inner r = \<lparr>rx = rx r + 1, ry = ry r + 1, rwidth = rwidth r - 2, rheight = rheight r - 2\<rparr>"

definition mouse_tab_switcher :: "MouseEvent \<Rightarrow> World \<Rightarrow> World" where
  "mouse_tab_switcher m w =
     (if me_kind m \<noteq> LeftDown then w
      else let pa = centered_rect_fixed 56 9 (last_area (w_app w))
           in if inside (me_column m) (me_row m) pa
              then (let y = ry pa + 1
                    in if y \<le> me_row m \<and> me_row m < y + 5
                       then let t = tab_from_index (me_row m - y);
                                w = left (on_app (\<lambda>a. a\<lparr>tab := t, popup := None\<rparr>) w)
                            in if t = TabRouting then ask_routing (set_routing_popup None w) else w
                       else w)
              else close_popup w)"

definition presets_area :: "App \<Rightarrow> Rect" where
  "presets_area a =
     (let s = last_area a; h = min 22 (rheight s - 2); wd = min 84 (rwidth s - 4)
      in \<lparr>rx = (rwidth s - wd) div 2 + rx s, ry = (rheight s - h) div 2 + ry s, rwidth = wd, rheight = h\<rparr>)"

definition mouse_presets :: "nat \<Rightarrow> MouseEvent \<Rightarrow> World \<Rightarrow> World" where
  "mouse_presets cur m w =
     (case me_kind m of
        ScrollDown \<Rightarrow>
          if cur < length ROUTING_PRESETS - 1 then set_routing_popup (Some (RPresets (cur + 1))) w else w
      | ScrollUp \<Rightarrow> set_routing_popup (Some (RPresets (cur - 1))) w
      | OtherMouse \<Rightarrow> w
      | LeftDown \<Rightarrow>
          let r = presets_area (w_app w)
          in if inside (me_column m) (me_row m) r
             then (let y = ry r + 1; list_h = rheight r - 3
                   in if y \<le> me_row m \<and> me_row m < y + list_h
                      then let visible = list_h div 2;
                               scroll_item = (if 0 < visible \<and> visible \<le> cur then cur - visible + 1 else 0);
                               clicked = scroll_item + (me_row m - y) div 2
                           in if clicked < length ROUTING_PRESETS
                              then set_routing_popup (Some (RPresets clicked)) (toggle_preset_at clicked w)
                              else w
                      else w)
             else set_routing_popup None w)"

definition mouse_scroll_down :: "Env \<Rightarrow> App \<Rightarrow> App" where
  "mouse_scroll_down env a =
     (case tab a of
        TabProfiles \<Rightarrow> cursor_down (e_lc env) a
      | TabLogs \<Rightarrow> on_logs (scroll_down (e_lc env)) a
      | TabSettings \<Rightarrow> on_settings settings_down a
      | TabRouting \<Rightarrow>
          if routing_cursor a < length (rc_rules (active_routing_config a)) - 1
          then a\<lparr>routing_cursor := routing_cursor a + 1\<rparr> else a
      | TabTraffic \<Rightarrow> a)"

definition mouse_scroll_up :: "App \<Rightarrow> App" where
  "mouse_scroll_up a =
     (case tab a of
        TabProfiles \<Rightarrow> cursor_up a
      | TabLogs \<Rightarrow> on_logs scroll_up a
      | TabSettings \<Rightarrow> on_settings settings_up a
      | TabRouting \<Rightarrow>
          if 0 < routing_cursor a then a\<lparr>routing_cursor := routing_cursor a - 1\<rparr> else a
      | TabTraffic \<Rightarrow> a)"

text \<open>A click on the top bar; the Boolean is whether to quit.\<close>

definition click_top :: "Env \<Rightarrow> nat \<Rightarrow> World \<Rightarrow> bool \<times> World" where
  "click_top env col w =
     (let a = w_app w; bar = lg_top_bar (layout a);
          compact = (lg_width_tier (layout a) = Compact);
          actions_len = (if compact then 28 else 62);
          start_x = rx bar + (rwidth bar - (actions_len + 2));
          (quit_limit, help_limit) = (if compact then (8, 16) else (18, 33));
          from_right = right_edge bar - col
      in if start_x \<le> col
         then (if from_right \<le> quit_limit then (True, w)
               else if from_right \<le> help_limit
               then (False, open_popup Help (on_app (\<lambda>a. a\<lparr>help_scroll := 0\<rparr>) w))
               else (False, open_popup (TabSwitcher (tab_index (tab a))) w))
         else (False,
           if rx bar + 2 \<le> col \<and> col \<le> rx bar + 32
           then (if is_connected a then msg ''Disconnecting...'' (send DisconnectCore w)
                 else case selected_profile (e_lc env) a of
                   Some p \<Rightarrow> msg ''Connecting...'' (send (ConnectTo (p_group_id p) (p_id p)) w)
                 | None \<Rightarrow> w)
           else w))"

definition click_tree :: "Env \<Rightarrow> nat \<Rightarrow> nat \<Rightarrow> World \<Rightarrow> World" where
  "click_tree env col row w =
     (let a = w_app w; r = inner (lg_tree_area (layout a)); idx = tree_scroll a + (row - ry r)
      in if inside col row r \<and> idx < tree_len (e_lc env) a
         then (if cursor a = idx then connect_here env w else on_app (\<lambda>a. a\<lparr>cursor := idx\<rparr>) w)
         else w)"

definition click_profiles :: "Env \<Rightarrow> nat \<Rightarrow> nat \<Rightarrow> World \<Rightarrow> World" where
  "click_profiles env col row w =
     (let lay = layout (w_app w); d = lg_details_area lay
      in if inside col row (lg_tree_area lay) then click_tree env col row (left w)
         else if 0 < rwidth d \<and> inside col row d then set_focus RightPanel w
         else w)"

definition item_index :: "nat \<Rightarrow> nat option" where
  "item_index flat =
     (case get_at settings_layout flat of
        Some row \<Rightarrow>
          if is_item row then Some (length (filter is_item (take (flat + 1) settings_layout)) - 1) else None
      | None \<Rightarrow> None)"

definition click_settings :: "nat \<Rightarrow> App \<Rightarrow> App" where
  "click_settings row a =
     (let main = lg_main_area (layout a); y = ry main + 1; st = settings_state a
      in if y \<le> row \<and> row < y + (rheight main - 2)
         then (case item_index (st_scroll st + (row - y)) of
             Some i \<Rightarrow> a\<lparr>settings_state := st\<lparr>st_item_cursor := i\<rparr>\<rparr> | None \<Rightarrow> a)
         else a)"

definition click_routing :: "nat \<Rightarrow> World \<Rightarrow> World" where
  "click_routing row w =
     (let a = w_app w; main = lg_main_area (layout a); start_row = ry main + 2;
          list_end = bottom_edge main - 2; idx = row - start_row
      in if start_row \<le> row \<and> row < list_end
         then (if idx < length (rc_rules (active_routing_config a))
               then (if routing_cursor a = idx then toggle_rule_at False idx w
                     else on_app (\<lambda>a. a\<lparr>routing_cursor := idx\<rparr>) w)
               else w)
         else if list_end \<le> row \<and> row < bottom_edge main
         then set_routing_popup (Some (RPresets 0)) w
         else w)"

definition left_click :: "Env \<Rightarrow> nat \<Rightarrow> nat \<Rightarrow> World \<Rightarrow> bool \<times> World" where
  "left_click env col row w =
     (let a = w_app w; top = lg_top_bar (layout a); main = lg_main_area (layout a);
          bot = lg_bottom_bar (layout a)
      in if ry top \<le> row \<and> row < bottom_edge top then click_top env col w
         else if ry main \<le> row \<and> row < bottom_edge main
         then (False, case tab a of
               TabProfiles \<Rightarrow> click_profiles env col row w
             | TabSettings \<Rightarrow> on_app (click_settings row) (left w)
             | TabRouting \<Rightarrow> click_routing row (left w)
             | TabLogs \<Rightarrow> left w
             | TabTraffic \<Rightarrow> w)
         else if ry bot \<le> row \<and> row < bottom_edge bot
         then (False, if rx bot + 12 \<le> col \<and> col \<le> rx bot + 35 then toggle_tun w else w)
         else (False, w))"

definition handle_mouse_input :: "Env \<Rightarrow> MouseEvent \<Rightarrow> World \<Rightarrow> bool \<times> World" where
  "handle_mouse_input env m w =
     (let a = w_app w
      in case (popup a, routing_popup a) of
           (Some (TabSwitcher _), _) \<Rightarrow> (False, mouse_tab_switcher m w)
         | (_, Some (RPresets cur)) \<Rightarrow> (False, mouse_presets cur m w)
         | (Some _, _) \<Rightarrow> (False, w)
         | (None, Some _) \<Rightarrow> (False, w)
         | (None, None) \<Rightarrow>
             (case me_kind m of
                ScrollDown \<Rightarrow> (False, on_app (mouse_scroll_down env) w)
              | ScrollUp \<Rightarrow> (False, on_app mouse_scroll_up w)
              | LeftDown \<Rightarrow> left_click env (me_column m) (me_row m) w
              | OtherMouse \<Rightarrow> (False, w)))"

section \<open>Rows and items\<close>

text \<open>a click on a settings row puts the cursor on the item drawn there: the clicked row is the
  one that \<open>flat_index\<close> gives for the new cursor, and only items can be clicked.\<close>

theorem item_index_correct:
  "(case item_index flat of
      Some i \<Rightarrow> i < item_count \<and> flat_index (settings_new\<lparr>st_item_cursor := i\<rparr>) = flat
    | None \<Rightarrow> get_at settings_layout flat = None \<or> map_option is_item (get_at settings_layout flat) = Some False)"
proof (cases "flat < length settings_layout")
  case True
  have "length settings_layout = 27" by (simp add: settings_layout_def)
  moreover have "list_all (\<lambda>flat. case item_index flat of
      Some i \<Rightarrow> i < item_count \<and> flat_index (settings_new\<lparr>st_item_cursor := i\<rparr>) = flat
    | None \<Rightarrow> get_at settings_layout flat = None \<or> map_option is_item (get_at settings_layout flat) = Some False)
     [0..<27]"
    by (simp add: upt_rec item_index_def settings_layout_def get_at_def flat_index_def settings_new_def)
  ultimately show ?thesis using True by (simp add: list_all_iff)
qed (simp add: item_index_def get_at_def)

end
