(* ===== verification/Input.thy ===== *)
theory Input
  imports Mouse CoreEvents
begin

text \<open>
  \<open>src/input/mod.rs\<close> and the events of \<open>src/event_loop.rs\<close>: what a key, a mouse event, a tick
  or a finished background task does.  The Boolean is whether to quit, \<open>None\<close> a panic.
\<close>

datatype InputEvent =
    KeyPress KeyEvent
  | KeyRelease KeyEvent
  | MouseInput MouseEvent
  | OtherInput

datatype AppEvent =
    EvInput InputEvent
  | Tick
  | PublicIp string
  | PublicIpv6 string
  | UpdateAvailable UpdateInfo

definition is_edit_key :: "KeyCode \<Rightarrow> bool" where
  "is_edit_key k \<longleftrightarrow> (case k of Char _ \<Rightarrow> True | Backspace \<Rightarrow> True | _ \<Rightarrow> False)"

text \<open>Typing in the search line of the profile tree.\<close>

definition profile_search_key :: "Env \<Rightarrow> KeyEvent \<Rightarrow> App \<Rightarrow> App option" where
  "profile_search_key env key a =
     (if code key = Esc
      then Some (clamp_cursor (e_lc env)
             (a\<lparr>search_mode := False, search_query := None, search_input := [], cursor := 0\<rparr>))
      else if code key = Enter
      then (let a = a\<lparr>search_mode := False\<rparr>
            in Some (if search_input a = []
                     then clamp_cursor (e_lc env) (a\<lparr>search_query := None, cursor := 0\<rparr>) else a))
      else if code key = KDown then Some (cursor_down (e_lc env) a)
      else if code key = KUp then Some (cursor_up a)
      else if is_edit_key (code key)
      then edit_in env (search_input a) (char_count (search_input a)) key
             (\<lambda>s _. a\<lparr>search_input := s, search_query := Some s, cursor := 0\<rparr>)
      else Some a)"

definition logs_search_key :: "Env \<Rightarrow> KeyEvent \<Rightarrow> LogsState \<Rightarrow> LogsState option" where
  "logs_search_key env key s =
     (let lc = e_lc env
      in if code key = Esc then Some (clear_search lc s)
         else if code key = Enter then Some (finish_search s)
         else if code key = KDown then Some (scroll_down lc s)
         else if code key = KUp then Some (scroll_up s)
         else if is_edit_key (code key)
         then edit_in env (l_search_input s) (char_count (l_search_input s)) key
                (\<lambda>t _. search_changed lc (s\<lparr>l_search_input := t\<rparr>))
         else Some s)"

definition key_context :: "App \<Rightarrow> KeyContext" where
  "key_context a =
     (case tab a of
        TabProfiles \<Rightarrow>
          (case focus a of LeftPanel \<Rightarrow> CProfilesTree | RightPanel \<Rightarrow> CProfilesDetails
           | PopupFocus \<Rightarrow> CGlobal)
      | TabRouting \<Rightarrow> CRouting
      | TabSettings \<Rightarrow> CSettings
      | TabLogs \<Rightarrow> CLogs
      | TabTraffic \<Rightarrow> CTraffic)"

definition logs_handle :: "Env \<Rightarrow> AppAction \<Rightarrow> World \<Rightarrow> bool \<times> World" where
  "logs_handle env action w =
     (case action of
        ALogsCycleFilter \<Rightarrow>
          (let w = on_app (on_logs (cycle_filter (e_lc env))) w
           in (False, msg (''Log filter: '' @ filter_label (l_filter (logs_state (w_app w)))) w))
      | ALogsCycleSource \<Rightarrow>
          (let w = on_app (on_logs (cycle_source (e_lc env) (e_fs env))) w
           in (False, msg (''Log source: '' @ source_label (l_source (logs_state (w_app w)))) w))
      | ALogsStartSearch \<Rightarrow> (False, on_app (on_logs (start_search (e_lc env))) w)
      | ALogsClear \<Rightarrow> (False, open_popup (ConfirmClearLogs (l_source (logs_state (w_app w)))) w)
      | _ \<Rightarrow> (False, w))"

text \<open>The handlers are tried in order.\<close>

definition run_action :: "Env \<Rightarrow> AppAction \<Rightarrow> World \<Rightarrow> bool \<times> World" where
  "run_action env action w =
     (case navigation env action w of Some r \<Rightarrow> r | None \<Rightarrow>
      case profiles_handle env action w of Some r \<Rightarrow> r | None \<Rightarrow>
      case routing_handle env action w of Some r \<Rightarrow> r | None \<Rightarrow>
      case settings_handle env action w of Some r \<Rightarrow> r | None \<Rightarrow> logs_handle env action w)"

definition normal_input :: "Env \<Rightarrow> KeyEvent \<Rightarrow> World \<Rightarrow> (bool \<times> World) option" where
  "normal_input env key w =
     (let w = on_app clear_msg w; a = w_app w
      in if routing_popup a \<noteq> None then map_option (Pair False) (routing_popup_input env key w)
         else if search_mode a \<and> focus a = LeftPanel \<and> tab a = TabProfiles
         then map_option (\<lambda>a. (False, w\<lparr>w_app := a\<rparr>)) (profile_search_key env key a)
         else if tab a = TabLogs \<and> l_search_active (logs_state a)
         then map_option (\<lambda>s. (False, w\<lparr>w_app := a\<lparr>logs_state := s\<rparr>\<rparr>)) (logs_search_key env key (logs_state a))
         else Some (run_action env (resolve_action (key_context a) key) w))"

definition tick :: "Env \<Rightarrow> App \<Rightarrow> App" where
  "tick env a =
     (let a = promote_pending_update (on_logs (poll (e_lc env) (e_fs env)) a)
      in if is_connected a then a else a\<lparr>traffic_history := history_push_zero (traffic_history a)\<rparr>)"

definition update_available :: "UpdateInfo \<Rightarrow> World \<Rightarrow> World" where
  "update_available info w =
     (let w = (if c_latest_version (w_cfg w) \<noteq> ui_latest info
               then save_config (on_cfg (\<lambda>c. c\<lparr>c_latest_version := ui_latest info\<rparr>) w) else w)
      in on_app (\<lambda>a. a\<lparr>pending_update := Some info\<rparr>) w)"

definition handle_input :: "Env \<Rightarrow> AppEvent \<Rightarrow> World \<Rightarrow> (bool \<times> World) option" where
  "handle_input env ev w =
     (case ev of
        Tick \<Rightarrow> Some (False, on_app (tick env) w)
      | PublicIp ip \<Rightarrow>
          Some (False, on_app (\<lambda>a. if show_ip a then a\<lparr>public_ip := ip\<rparr> else a) w)
      | PublicIpv6 ip \<Rightarrow>
          Some (False, on_app (\<lambda>a. if show_ip a then a\<lparr>public_ipv6 := ip\<rparr> else a) w)
      | UpdateAvailable info \<Rightarrow> Some (False, update_available info w)
      | EvInput (KeyPress key) \<Rightarrow>
          if popup (w_app w) \<noteq> None then map_option (Pair False) (popup_input env key w)
          else normal_input env key w
      | EvInput (MouseInput m) \<Rightarrow> Some (handle_mouse_input env m w)
      | EvInput (KeyRelease _) \<Rightarrow> Some (False, w)
      | EvInput OtherInput \<Rightarrow> Some (False, w))"

text \<open>\<open>request_selected_profile_details\<close>, which the main loop runs before each event.\<close>

definition request_details :: "Env \<Rightarrow> World \<Rightarrow> World" where
  "request_details env w =
     (case profile_details_request (e_lc env) (w_app w) of
        None \<Rightarrow> w
      | Some (g, p) \<Rightarrow>
          let w = send (GetProfileDetails g p) w
          in if e_send env (GetProfileDetails g p) = None
             then on_app (mark_profile_details_pending (g, p)) w else w)"

end
