(* ===== verification/Startup.thy ===== *)
theory Startup
  imports Logger CoreEvents Input
begin

text \<open>
  \<open>src/main.rs\<close> and the loop of \<open>src/event\_loop.rs\<close>: how the terminal interface comes up, which core it
  works with, and the events it then handles until it ends.  Every answer of the outside is in
  \<open>BootEnv\<close>: the n-th query of a core, the n-th attempt to connect, and so on.
\<close>

section \<open>Starting\<close>

datatype BootAction =
    RelaunchIn string
  | BootSave AppConfig
  | ConfigureLog nat
  | RegisterDesktop
  | QueryCore
  | ConnectCore
  | SendDie
  | SleepMs nat
  | AskCapabilities
  | SpawnCore string
  | BootSend Command
  | CheckUpdates bool
  | PollPublicIp

record BootEnv =
  bo_stdin_tty :: bool
  bo_stdout_tty :: bool
  bo_var :: "string \<Rightarrow> string option"
  bo_query :: "nat \<Rightarrow> ApplicationState option"
  bo_connect :: "nat \<Rightarrow> string option"
  bo_die_sent :: bool
  bo_spawn :: "string \<Rightarrow> string option"
  bo_autoconnect_tun :: bool
  bo_send :: "Command \<Rightarrow> string option"
  bo_logs :: LogsState
  bo_systemd_enabled :: bool
  bo_now :: int
  bo_dev_build :: bool
  bo_version :: string

record Boot =
  bt_cfg :: AppConfig
  bt_theme :: nat
  bt_done :: "BootAction list"

definition act :: "BootAction \<Rightarrow> Boot \<Rightarrow> Boot" where
  "act a b = b\<lparr>bt_done := bt_done b @ [a]\<rparr>"

definition boot_save :: "Boot \<Rightarrow> Boot" where
  "boot_save b = act (BootSave (bt_cfg b)) b"

definition count_of :: "(BootAction \<Rightarrow> bool) \<Rightarrow> Boot \<Rightarrow> nat" where
  "count_of p b = length (filter p (bt_done b))"

text \<open>The next query of \<open>query\_core\_state\<close>, and the next \<open>connect\_endpoint\<close>.\<close>

definition query_core_state :: "BootEnv \<Rightarrow> Boot \<Rightarrow> ApplicationState option \<times> Boot" where
  "query_core_state env b = (bo_query env (count_of (\<lambda>a. a = QueryCore) b), act QueryCore b)"

definition connect_core :: "BootEnv \<Rightarrow> Boot \<Rightarrow> string option \<times> Boot" where
  "connect_core env b = (bo_connect env (count_of (\<lambda>a. a = ConnectCore) b), act ConnectCore b)"

definition override_level :: "BootEnv \<Rightarrow> Boot \<Rightarrow> Boot" where
  "override_level env b =
     (case env_log_level (bo_var env) of
        None \<Rightarrow> b
      | Some (level, _) \<Rightarrow>
          b\<lparr>bt_cfg := (bt_cfg b)\<lparr>c_log_enabled := True, c_log_level := filter_name level\<rparr>\<rparr>)"

definition choose_theme :: "Boot \<Rightarrow> Boot" where
  "choose_theme b =
     (case set_theme (c_theme (bt_cfg b)) (bt_theme b) of
        (True, i) \<Rightarrow> b\<lparr>bt_theme := i\<rparr>
      | (False, i) \<Rightarrow>
          boot_save (b\<lparr>bt_cfg := (bt_cfg b)\<lparr>c_theme := fst (current_theme (bt_theme b))\<rparr>\<rparr>))"

definition remember_version :: "bool \<Rightarrow> ApplicationState \<Rightarrow> Boot \<Rightarrow> Boot" where
  "remember_version only_new st b =
     (if as_core_version st \<noteq> [] \<and> (only_new \<longrightarrow> c_core_version (bt_cfg b) \<noteq> as_core_version st)
      then boot_save (b\<lparr>bt_cfg := (bt_cfg b)\<lparr>c_core_version := as_core_version st\<rparr>\<rparr>) else b)"

text \<open>Whether a running core can be kept; one of another protocol is told to end.\<close>

definition attach :: "BootEnv \<Rightarrow> Boot \<Rightarrow> bool \<times> Boot" where
  "attach env b =
     (case query_core_state env b of
        (None, b) \<Rightarrow> (False, b)
      | (Some st, b) \<Rightarrow>
          if core_protocol_matches (as_protocol_version st) then (True, remember_version True st b)
          else (False, act (SleepMs 500)
                 (case connect_core env b of
                    (None, b) \<Rightarrow> if bo_die_sent env then act SendDie b else b
                  | (Some _, b) \<Rightarrow> b)))"

fun await_core :: "BootEnv \<Rightarrow> nat \<Rightarrow> Boot \<Rightarrow> bool \<times> Boot" where
  "await_core env 0 b =
     (case connect_core env b of (None, b) \<Rightarrow> (True, b) | (Some _, b) \<Rightarrow> (False, b))"
| "await_core env (Suc n) b =
     (case connect_core env b of
        (None, b) \<Rightarrow> (True, b)
      | (Some _, b) \<Rightarrow> await_core env n (act (SleepMs 1000) b))"

definition spawn_fresh :: "BootEnv \<Rightarrow> Boot \<Rightarrow> string option \<times> Boot" where
  "spawn_fresh env b =
     (let b = (if bo_stdin_tty env \<and> bo_autoconnect_tun env then act AskCapabilities b else b);
          b = act (SpawnCore (c_log_level (bt_cfg b))) b
      in case bo_spawn env (c_log_level (bt_cfg b)) of
           Some e \<Rightarrow> (Some e, b)
         | None \<Rightarrow>
             (case await_core env 30 b of
                (False, b) \<Rightarrow> (Some ''Core failed to start within 30s'', b)
              | (True, b) \<Rightarrow>
                  (case query_core_state env b of
                     (None, b) \<Rightarrow> (None, b)
                   | (Some st, b) \<Rightarrow> (None, remember_version False st b))))"

definition send_boot :: "BootEnv \<Rightarrow> Command \<Rightarrow> Boot \<Rightarrow> string option \<times> Boot" where
  "send_boot env c b = (bo_send env c, act (BootSend c) b)"

text \<open>Up to the connection the interface works with; \<open>Some e\<close> ends the program with the error.\<close>

definition reach_core :: "BootEnv \<Rightarrow> Boot \<Rightarrow> string option \<times> Boot" where
  "reach_core env b =
     (let (alive, b) = attach env b;
          (failed, b) = (if alive then (None, b) else spawn_fresh env b)
      in case failed of
           Some e \<Rightarrow> (Some e, b)
         | None \<Rightarrow>
             (case connect_core env b of
                (Some e, b) \<Rightarrow> (Some (''Failed to connect to core: '' @ e), b)
              | (None, b) \<Rightarrow>
                  (case send_boot env (SetLogLevel (c_log_level (bt_cfg b))) b of (_, b) \<Rightarrow>
                     (case send_boot env GetApplicationState b of
                        (Some e, b) \<Rightarrow> (Some e, b)
                      | (None, b) \<Rightarrow> (case send_boot env (GetRouting 0) b of (_, b) \<Rightarrow> (None, b))))))"

definition check_sudo_env :: "(string \<Rightarrow> string option) \<Rightarrow> string option" where
  "check_sudo_env var =
     (if var ''SUDO_UID'' \<noteq> None \<and> var ''HOME'' = Some ''/root'' then Some ''Restart with: sudo -E whoisthat'' else None)"

definition first_app :: "BootEnv \<Rightarrow> AppConfig \<Rightarrow> App" where
  "first_app env c =
     (let a = app_new (bo_logs env) (c_show_ip c) (c_log_enabled c) (c_log_level c) (c_test_method c) (c_tun_name c)
            (c_kill_switch_enabled c)
            \<lparr>tc_concurrency = c_test_concurrency c, tc_timeout_seconds = c_test_timeout_seconds c,
             tc_samples_per_test = c_test_samples c, tc_test_endpoint = c_test_endpoint c,
             tc_auto_test_on_subscribe = c_auto_test_on_subscribe c\<rparr>;
          a = a\<lparr>systemd_enabled := bo_systemd_enabled env, check_updates := c_check_updates c\<rparr>
      in case check_sudo_env (bo_var env) of Some text \<Rightarrow> set_msg text a | None \<Rightarrow> a)"

definition plan_update_check :: "BootEnv \<Rightarrow> Boot \<Rightarrow> Boot" where
  "plan_update_check env b =
     (let c = bt_cfg b;
          allowed = c_check_updates c \<and> \<not> bo_dev_build env \<and> bo_var env ''WHOISTHAT_NO_UPDATE_CHECK'' \<noteq> Some ''1'' \<and>
            bo_var env ''WHOISTHAT_TEST_MODE'' \<noteq> Some ''1''
      in if allowed \<and> should_check_cheap True (bo_now env) (c_last_update_check c) False False
         then act (CheckUpdates True) (boot_save (b\<lparr>bt_cfg := c\<lparr>c_last_update_check := bo_now env\<rparr>\<rparr>))
         else if allowed \<and> c_latest_version c \<noteq> [] \<and>
              should_prompt (c_latest_version c) (bo_version env) (c_skipped_version c)
         then act (CheckUpdates False) b
         else b)"

text \<open>Started: the state the loop begins with.  \<open>Inl\<close> is how the program ends before.\<close>

datatype BootEnd = Relaunched | BootFailed string

definition boot :: "BootEnv \<Rightarrow> AppConfig \<Rightarrow> (BootEnd + Flags \<times> World) \<times> Boot" where
  "boot env cfg =
     (let b = \<lparr>bt_cfg = cfg, bt_theme = 0, bt_done = []\<rparr>
      in if \<not> bo_stdin_tty env \<and> \<not> bo_stdout_tty env then (Inl Relaunched, act (RelaunchIn (c_terminal cfg)) b)
         else
           (let b = choose_theme (override_level env b);
                b = act (ConfigureLog (configure_logger (c_log_enabled (bt_cfg b)) (c_log_level (bt_cfg b)))) b;
                b = act RegisterDesktop b
            in case reach_core env b of
                 (Some e, b) \<Rightarrow> (Inl (BootFailed e), b)
               | (None, b) \<Rightarrow>
                   (let a = first_app env (bt_cfg b);
                        b = plan_update_check env b;
                        c = bt_cfg b;
                        b = (if c_show_ip c then act PollPublicIp b else b)
                    in (Inr (\<lparr>f_first_state = True,
                              f_do_autoconnect = (c_autoconnect c \<and> c_last_profile_id c \<noteq> 0 \<and> \<not> c_autoconnect_migrated c)\<rparr>,
                             \<lparr>w_app = a, w_cfg = c, w_theme = bt_theme b, w_out = []\<rparr>), b))))"

section \<open>The loop\<close>

text \<open>Events in the order they are taken from the two channels; the end of the list is both channels
  closed.  \<open>draw\<close> is \<open>App::render\<close>, which adapts layout and scrolling and may fail.  The outcome is \<open>None\<close>
  for a panic.\<close>

datatype LoopEvent = FromCore CoreEvent | FromInput AppEvent

fun run_loop ::
  "Env \<Rightarrow> (App \<Rightarrow> string + App) \<Rightarrow> LoopEvent list \<Rightarrow> Flags \<times> World \<Rightarrow> (string option \<times> Flags \<times> World) option" where
  "run_loop env draw evs (fl, w) =
     (let w = request_details env w
      in case draw (w_app w) of
           Inl e \<Rightarrow> Some (Some e, fl, w)
         | Inr a \<Rightarrow>
             (let w = w\<lparr>w_app := a\<rparr>
              in case evs of
                   [] \<Rightarrow> Some (None, fl, w)
                 | FromCore ev # evs \<Rightarrow>
                     (case handle_core_event env ev (fl, w) of
                        (True, fl, w) \<Rightarrow> Some (None, fl, w)
                      | (False, fw) \<Rightarrow> run_loop env draw evs fw)
                 | FromInput ev # evs \<Rightarrow>
                     (case handle_input env ev w of
                        None \<Rightarrow> None
                      | Some (True, w) \<Rightarrow> Some (None, fl, w)
                      | Some (False, w) \<Rightarrow> run_loop env draw evs (fl, w))))"

text \<open>The whole program: how it ended before the loop, or the exit status and what it leaves behind.\<close>

definition run_tui ::
  "Env \<Rightarrow> (App \<Rightarrow> string + App) \<Rightarrow> BootEnv \<Rightarrow> LoopEvent list \<Rightarrow> AppConfig \<Rightarrow> (BootEnd + int \<times> World) option" where
  "run_tui env draw boot_env evs cfg =
     (case fst (boot boot_env cfg) of
        Inl e \<Rightarrow> Some (Inl e)
      | Inr fw \<Rightarrow>
          map_option (\<lambda>(e, fl, w). Inr (case e of None \<Rightarrow> 0 | Some _ \<Rightarrow> 1, save_config w)) (run_loop env draw evs fw))"

section \<open>Which core the interface ends up with\<close>

fun core_control :: "BootAction \<Rightarrow> bool" where
  "core_control SendDie = True"
| "core_control (SpawnCore _) = True"
| "core_control _ = False"

abbreviation controls :: "Boot \<Rightarrow> BootAction list" where
  "controls b \<equiv> filter core_control (bt_done b)"

lemma act_simps [simp]:
  "bt_done (act a b) = bt_done b @ [a]" "bt_cfg (act a b) = bt_cfg b" "bt_theme (act a b) = bt_theme b"
  by (simp_all add: act_def)

lemma connect_simps [simp]:
  "connect_core env b = (bo_connect env (count_of (\<lambda>a. a = ConnectCore) b), act ConnectCore b)"
  "query_core_state env b = (bo_query env (count_of (\<lambda>a. a = QueryCore) b), act QueryCore b)"
  by (simp_all add: connect_core_def query_core_state_def)

lemma controls_quiet [simp]:
  "controls (boot_save b) = controls b" "controls (remember_version only_new st b) = controls b"
  "controls (choose_theme b) = controls b" "controls (override_level env b) = controls b"
  "controls (plan_update_check env b) = controls b" "controls (snd (await_core env n b)) = controls b"
proof -
  show "controls (snd (await_core env n b)) = controls b"
    by (induction n arbitrary: b) (simp_all split: option.split)
qed (simp_all add: boot_save_def remember_version_def choose_theme_def override_level_def plan_update_check_def Let_def
    split: option.split prod.split bool.split)

lemma await_core_cfg [simp]: "bt_cfg (snd (await_core env n b)) = bt_cfg b"
  by (induction n arbitrary: b) (simp_all split: option.split)

definition no_queries :: "Boot \<Rightarrow> bool" where
  "no_queries b \<longleftrightarrow> QueryCore \<notin> set (bt_done b) \<and> ConnectCore \<notin> set (bt_done b)"

lemma counts_none: "no_queries b \<Longrightarrow> count_of (\<lambda>a. a = QueryCore) b = 0 \<and> count_of (\<lambda>a. a = ConnectCore) b = 0"
  by (auto simp: no_queries_def count_of_def filter_empty_conv)

text \<open>What is done about a core that is already there, from its answer to the first query.\<close>

definition wanted_controls :: "BootEnv \<Rightarrow> string \<Rightarrow> BootAction list" where
  "wanted_controls env level =
     (case bo_query env 0 of
        Some st \<Rightarrow>
          if core_protocol_matches (as_protocol_version st) then []
          else (if bo_connect env 0 = None \<and> bo_die_sent env then [SendDie] else []) @ [SpawnCore level]
      | None \<Rightarrow> [SpawnCore level])"

lemma attach_controls:
  assumes "no_queries b"
  shows "controls (snd (attach env b)) = controls b @
      filter (\<lambda>a. a = SendDie) (wanted_controls env level) \<and>
    (fst (attach env b) \<longleftrightarrow> wanted_controls env level = []) \<and>
    (\<not> fst (attach env b) \<longrightarrow> bt_cfg (snd (attach env b)) = bt_cfg b)"
  using counts_none [OF assms]
  by (simp add: attach_def wanted_controls_def count_of_def split: option.split)

lemma spawn_fresh_controls: "controls (snd (spawn_fresh env b)) = controls b @ [SpawnCore (c_log_level (bt_cfg b))]"
proof -
  let ?b = "act (SpawnCore (c_log_level (bt_cfg b))) (if bo_stdin_tty env \<and> bo_autoconnect_tun env then act AskCapabilities b else b)"
  have "controls (snd (await_core env 30 ?b)) = controls b @ [SpawnCore (c_log_level (bt_cfg b))]" by simp
  then show ?thesis
    unfolding spawn_fresh_def Let_def
    by (cases "await_core env 30 ?b") (auto split: option.split bool.split if_splits)
qed

lemma reach_core_controls:
  assumes "no_queries b"
  shows "controls (snd (reach_core env b)) = controls b @ wanted_controls env (c_log_level (bt_cfg b))"
proof -
  define level where "level = c_log_level (bt_cfg b)"
  obtain alive b1 where a: "attach env b = (alive, b1)" by force
  obtain failed b2 where f: "(if alive then (None, b1) else spawn_fresh env b1) = (failed, b2)" by force
  have "controls b2 = controls b @ wanted_controls env level"
  proof (cases alive)
    case True
    then show ?thesis using attach_controls [OF assms, of env level] a f by auto
  next
    case False
    have "bt_cfg b1 = bt_cfg b" using attach_controls [OF assms, of env level] a False by simp
    then have "controls b2 = controls b1 @ [SpawnCore level]"
      using spawn_fresh_controls [of env b1] f False by (simp add: level_def)
    moreover have "wanted_controls env level \<noteq> []" "controls b1 = controls b @ filter (\<lambda>a. a = SendDie) (wanted_controls env level)"
      using attach_controls [OF assms, of env level] a False by simp_all
    ultimately show ?thesis by (auto simp: wanted_controls_def split: option.splits if_splits)
  qed
  moreover have "controls (snd (reach_core env b)) = controls b2"
    unfolding reach_core_def Let_def a using f
    by (simp add: send_boot_def split: option.split)
  ultimately show ?thesis by (simp add: level_def)
qed

text \<open>C3: Starting the interface controls the core exactly as its answer demands, whatever else fails: a core
  that speaks the expected protocol is kept, and neither ended nor joined by a second one; one that speaks
  another protocol is told to end, as far as it can be reached, before a new one is started; and where no
  core answers one is started.  Never is more than one core started, always with the log level that is in
  effect, and without a terminal nothing is done to a core at all.\<close>

theorem startup_controls_core:
  "filter core_control (bt_done (snd (boot env cfg))) =
     (if \<not> bo_stdin_tty env \<and> \<not> bo_stdout_tty env then []
      else wanted_controls env (case env_log_level (bo_var env) of
             Some (level, _) \<Rightarrow> filter_name level | None \<Rightarrow> c_log_level cfg))"
proof (cases "\<not> bo_stdin_tty env \<and> \<not> bo_stdout_tty env")
  case True
  then show ?thesis by (simp add: boot_def Let_def)
next
  case False
  define b0 where "b0 = choose_theme (override_level env \<lparr>bt_cfg = cfg, bt_theme = 0, bt_done = []\<rparr>)"
  define b1 where "b1 = act RegisterDesktop
    (act (ConfigureLog (configure_logger (c_log_enabled (bt_cfg b0)) (c_log_level (bt_cfg b0)))) b0)"
  have c: "c_log_level (bt_cfg b1) = (case env_log_level (bo_var env) of
      Some (level, _) \<Rightarrow> filter_name level | None \<Rightarrow> c_log_level cfg)"
    by (simp add: b1_def b0_def choose_theme_def override_level_def boot_save_def split: option.split prod.split bool.split)
  have n: "no_queries b1" "controls b1 = []"
    by (auto simp: no_queries_def b1_def b0_def choose_theme_def override_level_def boot_save_def
        split: option.split prod.split bool.split)
  have "controls (snd (boot env cfg)) = controls (snd (reach_core env b1))"
    using False
    by (cases "reach_core env b1")
      (auto simp: boot_def Let_def split: option.split simp flip: b0_def b1_def)
  then show ?thesis using reach_core_controls [OF n(1), of env] n(2) c False by auto
qed

section \<open>How long it can take\<close>

lemma await_core_attempts:
  "count_of (\<lambda>a. a = ConnectCore) (snd (await_core env n b)) \<le> count_of (\<lambda>a. a = ConnectCore) b + n + 1"
proof (induction n arbitrary: b)
  case 0
  then show ?case by (simp add: count_of_def split: option.split)
next
  case (Suc n)
  show ?case
    using Suc.IH [of "act (SleepMs 1000) (act ConnectCore b)"] by (simp add: count_of_def split: option.split)
qed

section \<open>The level for one session\<close>

text \<open>A level given in the environment is meant for the session only, but the configuration that holds it is
  the one that is saved at the end.\<close>

lemma session_level_is_saved:
  assumes "bo_stdin_tty env" "bo_var env ''RUST_LOG'' = Some ''trace''" "fst (boot env cfg) = Inr (fl, w)"
  shows "c_log_level (w_cfg w) = ''trace'' \<and> c_log_enabled (w_cfg w)"
proof -
  define b0 where "b0 = choose_theme (override_level env \<lparr>bt_cfg = cfg, bt_theme = 0, bt_done = []\<rparr>)"
  define b1 where "b1 = act RegisterDesktop
    (act (ConfigureLog (configure_logger (c_log_enabled (bt_cfg b0)) (c_log_level (bt_cfg b0)))) b0)"
  define session where "session c \<longleftrightarrow> c_log_level c = ''trace'' \<and> c_log_enabled c" for c :: AppConfig
  have "parse_env_level ''trace'' = Some LevelFilter.FTrace" by code_simp
  moreover have "trim ''trace'' \<noteq> []" by code_simp
  ultimately have l: "env_log_level (bo_var env) = Some (LevelFilter.FTrace, ''RUST_LOG'')"
    using assms(2) by (simp add: env_log_level_def)
  have "session (bt_cfg b1)"
    by (simp add: session_def b1_def b0_def choose_theme_def override_level_def boot_save_def l
        split: prod.split bool.split)
  moreover have r: "session (bt_cfg b) \<Longrightarrow> session (bt_cfg (remember_version n st b))" for b n st
    by (simp add: session_def remember_version_def boot_save_def)
  moreover have a: "session (bt_cfg b) \<Longrightarrow> session (bt_cfg (snd (attach env b)))" for b
    by (auto simp: attach_def r split: option.split)
  moreover have s: "session (bt_cfg b) \<Longrightarrow> session (bt_cfg (snd (spawn_fresh env b)))" for b
  proof -
    assume b: "session (bt_cfg b)"
    let ?b = "act (SpawnCore (c_log_level (bt_cfg b))) (if bo_stdin_tty env \<and> bo_autoconnect_tun env then act AskCapabilities b else b)"
    have "bt_cfg (snd (await_core env 30 ?b)) = bt_cfg b" by simp
    then show ?thesis
      unfolding spawn_fresh_def Let_def using b
      by (cases "await_core env 30 ?b") (auto intro: r split: option.split bool.split if_splits)
  qed
  ultimately have rc: "session (bt_cfg (snd (reach_core env b1)))"
  proof -
    assume b: "session (bt_cfg b1)"
    obtain alive b2 where al: "attach env b1 = (alive, b2)" by force
    obtain failed b3 where f: "(if alive then (None, b2) else spawn_fresh env b2) = (failed, b3)" by force
    have "session (bt_cfg b2)" using a [OF b] al by simp
    then have "session (bt_cfg b3)" using s [of b2] f by (cases alive) auto
    moreover have "bt_cfg (snd (reach_core env b1)) = bt_cfg b3"
      unfolding reach_core_def Let_def al using f by (simp add: send_boot_def split: option.split)
    ultimately show ?thesis by simp
  qed
  obtain e b4 where rr: "reach_core env b1 = (e, b4)" by force
  have "w_cfg w = bt_cfg (plan_update_check env b4)"
    using assms(1,3) rr unfolding boot_def Let_def
    by (simp flip: b0_def b1_def split: option.splits) auto
  moreover have "session (bt_cfg b4)" using rc rr by simp
  ultimately have "session (w_cfg w)"
    by (simp add: session_def plan_update_check_def boot_save_def Let_def)
  then show ?thesis by (simp add: session_def)
qed

end
