(* ===== verification/ReadLoop.thy ===== *)
theory ReadLoop
  imports Frame CoreEvents
begin

text \<open>
  The supervised read loop of \<open>src/core_client/dispatch.rs\<close> (\<open>spawn_read_loop\<close>): reading until the
  connection fails, trying five times to reach the core that is still running, else starting a fresh
  core and waiting for it up to thirty times, and giving up.

  The loop is a step relation: what a read, an attempt to connect, the start of a core or the
  receiver of the events does is the choice of the rule.  \<open>rl_sent\<close> are the events the interface gets,
  \<open>rl_writers\<close> counts the connections the client was given to write on.
\<close>

section \<open>The step relation\<close>

datatype Phase =
    Reading
  | Retrying nat
  | Respawning
  | Waiting nat
  | Splitting
  | Recovered
  | GivingUp
  | Stopped

record ReadLoop =
  rl_phase :: Phase
  rl_sent :: "CoreEvent list"
  rl_open :: bool
  rl_writers :: nat

text \<open>\<open>tx.send\<close>: fails once the receiver has been dropped.\<close>

definition tx_send :: "CoreEvent \<Rightarrow> ReadLoop \<Rightarrow> ReadLoop" where
  "tx_send ev s = (if rl_open s then s\<lparr>rl_sent := rl_sent s @ [ev]\<rparr> else s)"

definition core_disconnect :: CoreEvent where
  "core_disconnect = EvWarning ''core-disconnect'' ''Core disconnected. Reconnecting...''"

inductive loop_step :: "ReadLoop \<Rightarrow> ReadLoop \<Rightarrow> bool" where
  receiver_dropped: "loop_step s (s\<lparr>rl_open := False\<rparr>)" if "rl_open s"
| read_ok: "loop_step s (tx_send (dispatch m) s)" if "rl_phase s = Reading" "rl_open s"
| read_unheard: "loop_step s (s\<lparr>rl_phase := Stopped\<rparr>)" if "rl_phase s = Reading" "\<not> rl_open s"
| read_err: "loop_step s (tx_send core_disconnect s\<lparr>rl_phase := Retrying 1\<rparr>)" if "rl_phase s = Reading"
| retry_ok: "loop_step s (s\<lparr>rl_phase := Recovered, rl_writers := rl_writers s + 1\<rparr>)"
    if "rl_phase s = Retrying n"
| retry_err: "loop_step s (s\<lparr>rl_phase := (if n < 5 then Retrying (n + 1) else Respawning)\<rparr>)"
    if "rl_phase s = Retrying n"
| spawn_err: "loop_step s (s\<lparr>rl_phase := GivingUp\<rparr>)" if "rl_phase s = Respawning"
| spawn_ok: "loop_step s (s\<lparr>rl_phase := Waiting 0\<rparr>)" if "rl_phase s = Respawning"
| probe_ok: "loop_step s (s\<lparr>rl_phase := Splitting\<rparr>)" if "rl_phase s = Waiting n" "n < 30"
| probe_err: "loop_step s (s\<lparr>rl_phase := Waiting (n + 1)\<rparr>)" if "rl_phase s = Waiting n" "n < 30"
| probe_end: "loop_step s (s\<lparr>rl_phase := GivingUp\<rparr>)" if "rl_phase s = Waiting 30"
| split_ok: "loop_step s (s\<lparr>rl_phase := Recovered, rl_writers := rl_writers s + 1\<rparr>)"
    if "rl_phase s = Splitting"
| split_err: "loop_step s (s\<lparr>rl_phase := GivingUp\<rparr>)" if "rl_phase s = Splitting"
| resume: "loop_step s (tx_send EvReconnected s\<lparr>rl_phase := Reading\<rparr>)"
    if "rl_phase s = Recovered" "rl_open s"
| resume_unheard: "loop_step s (s\<lparr>rl_phase := Stopped\<rparr>)" if "rl_phase s = Recovered" "\<not> rl_open s"
| give_up: "loop_step s (tx_send EvDisconnected s\<lparr>rl_phase := Stopped\<rparr>)" if "rl_phase s = GivingUp"

inductive_cases stopped_step: "loop_step s t"

definition loop_start :: ReadLoop where
  "loop_start = \<lparr>rl_phase = Reading, rl_sent = [], rl_open = True, rl_writers = 0\<rparr>"

definition loop_reachable :: "ReadLoop \<Rightarrow> bool" where
  "loop_reachable s \<longleftrightarrow> loop_step\<^sup>*\<^sup>* loop_start s"

lemma tx_send_simps [simp]:
  "rl_phase (tx_send ev s) = rl_phase s" "rl_open (tx_send ev s) = rl_open s" "rl_writers (tx_send ev s) = rl_writers s"
  "rl_sent (tx_send ev s) = (if rl_open s then rl_sent s @ [ev] else rl_sent s)"
  by (simp_all add: tx_send_def)

lemma loop_reachable_induct [consumes 1, case_names start step]:
  assumes "loop_reachable s" "P loop_start" "\<And>s t. P s \<Longrightarrow> loop_step s t \<Longrightarrow> P t"
  shows "P s"
  using assms(1) unfolding loop_reachable_def by (induction rule: rtranclp_induct) (auto intro: assms)

section \<open>What is sent\<close>

text \<open>An announced event: the interface was told of the loss right before.\<close>

fun announced :: "CoreEvent option \<Rightarrow> CoreEvent list \<Rightarrow> bool" where
  "announced p [] \<longleftrightarrow> True"
| "announced p (e # es) \<longleftrightarrow>
     (e = EvReconnected \<or> e = EvDisconnected \<longrightarrow> p = Some core_disconnect) \<and> announced (Some e) es"

lemma announced_snoc:
  "announced p (es @ [e]) \<longleftrightarrow> announced p es \<and>
     (e = EvReconnected \<or> e = EvDisconnected \<longrightarrow>
      (if es = [] then p else Some (List.last es)) = Some core_disconnect)"
  by (induction es arbitrary: p) auto

fun recovering :: "Phase \<Rightarrow> bool" where
  "recovering Reading = False"
| "recovering Stopped = False"
| "recovering _ = True"

fun phase_ok :: "Phase \<Rightarrow> bool" where
  "phase_ok (Retrying n) \<longleftrightarrow> 1 \<le> n \<and> n \<le> 5"
| "phase_ok (Waiting n) \<longleftrightarrow> n \<le> 30"
| "phase_ok _ \<longleftrightarrow> True"

definition pending :: "ReadLoop \<Rightarrow> nat" where
  "pending s = (if rl_phase s = Recovered then 1 else 0)"

definition loop_inv :: "ReadLoop \<Rightarrow> bool" where
  "loop_inv s \<longleftrightarrow>
     phase_ok (rl_phase s) \<and>
     announced None (rl_sent s) \<and>
     (rl_open s \<and> recovering (rl_phase s) \<longrightarrow>
        rl_sent s \<noteq> [] \<and> List.last (rl_sent s) = core_disconnect) \<and>
     (rl_phase s \<noteq> Stopped \<longrightarrow> count_list (rl_sent s) EvDisconnected = 0) \<and>
     count_list (butlast (rl_sent s)) EvDisconnected = 0 \<and>
     count_list (rl_sent s) EvReconnected + pending s \<le> rl_writers s \<and>
     (rl_open s \<longrightarrow> count_list (rl_sent s) EvReconnected + pending s = rl_writers s)"

lemma not_sent [simp]: "core_disconnect \<noteq> EvReconnected" "core_disconnect \<noteq> EvDisconnected"
  by (simp_all add: core_disconnect_def)

lemma butlast_count: "count_list xs x = 0 \<Longrightarrow> count_list (butlast xs) x = 0"
  by (metis count_list_0_iff in_set_butlastD)

lemma loop_inv_start: "loop_inv loop_start"
  by (simp add: loop_inv_def loop_start_def pending_def)

lemma loop_inv_step: "loop_step s t \<Longrightarrow> loop_inv s \<Longrightarrow> loop_inv t"
  by (induction rule: loop_step.induct)
    (auto simp: loop_inv_def pending_def announced_snoc read_loop_events_not_sent butlast_count)

lemma loop_inv_reachable: "loop_reachable s \<Longrightarrow> loop_inv s"
  by (induction rule: loop_reachable_induct) (auto intro: loop_inv_start loop_inv_step)

section \<open>Recovery ends\<close>

fun phase_rank :: "Phase \<Rightarrow> nat" where
  "phase_rank (Retrying n) = 42 - n"
| "phase_rank Respawning = 36"
| "phase_rank (Waiting n) = 35 - n"
| "phase_rank Splitting = 4"
| "phase_rank Recovered = 2"
| "phase_rank GivingUp = 2"
| "phase_rank Reading = 0"
| "phase_rank Stopped = 0"

definition loop_rank :: "ReadLoop \<Rightarrow> nat" where
  "loop_rank s = 2 * phase_rank (rl_phase s) + (if rl_open s then 1 else 0)"

definition recovery_step :: "ReadLoop \<Rightarrow> ReadLoop \<Rightarrow> bool" where
  "recovery_step s t \<longleftrightarrow> recovering (rl_phase s) \<and> loop_step s t"

lemma recovery_step_rank:
  assumes "loop_step s t" "recovering (rl_phase s)" "loop_inv s"
  shows "loop_rank t < loop_rank s"
  using assms by (induction rule: loop_step.induct) (auto simp: loop_inv_def loop_rank_def)

lemma recovery_progress: "loop_inv s \<Longrightarrow> recovering (rl_phase s) \<Longrightarrow> \<exists>t. loop_step s t"
proof (cases "rl_phase s")
  case (Waiting n)
  assume "loop_inv s"
  with Waiting have "n \<le> 30" by (simp add: loop_inv_def)
  then show ?thesis using Waiting probe_err [of s n] probe_end [of s] by (cases "n = 30") auto
next
  case Recovered
  then show ?thesis using resume [of s] resume_unheard [of s] by (cases "rl_open s") auto
qed (auto intro: loop_step.intros)

lemma recovery_bounded:
  assumes "(recovery_step ^^ n) s t" "loop_inv s"
  shows "n + loop_rank t \<le> loop_rank s \<and> loop_inv t"
  using assms
proof (induction n arbitrary: t)
  case (Suc n)
  obtain u where u: "(recovery_step ^^ n) s u" "recovery_step u t" using Suc.prems(1) by auto
  from Suc.IH [OF u(1) Suc.prems(2)] have "n + loop_rank u \<le> loop_rank s" "loop_inv u" by simp_all
  with u(2) recovery_step_rank [of u t] loop_inv_step [of u t] show ?case
    by (auto simp: recovery_step_def)
qed simp

lemma loop_rank_bound: "loop_inv s \<Longrightarrow> loop_rank s \<le> 83"
  by (cases "rl_phase s") (auto simp: loop_rank_def loop_inv_def)

section \<open>Unreadable messages\<close>

definition readable :: "TcpMessage \<Rightarrow> bool" where
  "readable m \<longleftrightarrow>
     (case map_of dispatch_arms (tm_msg m) of None \<Rightarrow> False | Some f \<Rightarrow> f (tm_data m) \<noteq> None)"

definition problem :: "TcpMessage \<Rightarrow> string" where
  "problem m =
     (if tm_msg m \<in> fst ` set dispatch_arms then ''Invalid '' else ''Unknown message: '') @ tm_msg m"

lemma dispatch_unreadable: "\<not> readable m \<Longrightarrow> dispatch m = EvError (problem m)"
proof (cases "map_of dispatch_arms (tm_msg m)")
  case None
  then show "\<not> readable m \<Longrightarrow> ?thesis"
    using None by (simp add: problem_def dispatch_def flip: map_of_eq_None_iff)
next
  case (Some f)
  then have "tm_msg m \<in> fst ` set dispatch_arms" by (metis map_of_eq_None_iff option.distinct(1))
  with Some show "\<not> readable m \<Longrightarrow> ?thesis"
    by (simp add: readable_def problem_def dispatch_def)
qed

section \<open>Properties\<close>

text \<open>C24: a message the interface does not know, or whose data it cannot decode, never ends the program
  and changes nothing but the message line, which names the message; the state, the configuration,
  the outputs and the flags of the session stay as they are.\<close>

theorem unreadable_message_only_reported:
  assumes "\<not> readable m"
  shows "handle_core_event env (dispatch m) (fl, w) = (False, fl, msg (''Error: '' @ problem m) w)"
  using assms by (simp add: dispatch_unreadable handle_core_event_def)

definition garbage_message :: TcpMessage where
  "garbage_message = \<lparr>tm_msg = ''application-state'', tm_data = JObj [(''groups'', JNull)], tm_id = None\<rparr>"

theorem unreadable_message_only_reported_witness:
  "handle_core_event quiet_env (dispatch garbage_message)
     (\<lparr>f_first_state = True, f_do_autoconnect = False\<rparr>, sample_world) =
   (False, \<lparr>f_first_state = True, f_do_autoconnect = False\<rparr>,
    msg (''Error: '' @ problem garbage_message) sample_world)"
  by (rule unreadable_message_only_reported)
    (simp add: readable_def garbage_message_def dispatch_arms_def arm_def dec_app_state_def req_def)

text \<open>C20: whatever the core and the system do, what the interface is told of the connection is
  consistent: a reconnection or the final loss is always announced by the loss before it; the final
  loss is the last event, sent at most once and only when the loop has stopped; and as long as the
  interface listens there are exactly as many reconnections, told or about to be told, as connections
  handed to the client.\<close>

theorem read_loop_trace:
  assumes "loop_reachable s"
  shows "announced None (rl_sent s) \<and>
    count_list (butlast (rl_sent s)) EvDisconnected = 0 \<and>
    (EvDisconnected \<in> set (rl_sent s) \<longrightarrow> rl_phase s = Stopped) \<and>
    (rl_open s \<longrightarrow> count_list (rl_sent s) EvReconnected + pending s = rl_writers s)"
  using loop_inv_reachable [OF assms] by (auto simp: loop_inv_def count_list_0_iff)

definition lost :: ReadLoop where
  "lost = \<lparr>rl_phase = Retrying 1, rl_sent = [core_disconnect], rl_open = True, rl_writers = 0\<rparr>"

definition reached :: ReadLoop where
  "reached = \<lparr>rl_phase = Recovered, rl_sent = [core_disconnect], rl_open = True, rl_writers = 1\<rparr>"

definition resumed :: ReadLoop where
  "resumed = \<lparr>rl_phase = Reading, rl_sent = [core_disconnect, EvReconnected], rl_open = True,
     rl_writers = 1\<rparr>"

lemma sample_steps: "loop_step loop_start lost" "loop_step lost reached" "loop_step reached resumed"
  using read_err [of loop_start] retry_ok [of lost 1] resume [of reached]
  by (simp_all add: loop_start_def lost_def reached_def resumed_def tx_send_def)

lemma sample_reachable: "loop_reachable lost" "loop_reachable resumed"
  using sample_steps unfolding loop_reachable_def by (meson rtranclp.intros)+

theorem read_loop_trace_witness:
  "announced None (rl_sent resumed) \<and>
    count_list (butlast (rl_sent resumed)) EvDisconnected = 0 \<and>
    (EvDisconnected \<notin> set (rl_sent resumed)) \<and>
    count_list (rl_sent resumed) EvReconnected + pending resumed = 1"
  using read_loop_trace [OF sample_reachable(2)] by (simp add: resumed_def)



end
