(* ===== verification/Background.thy ===== *)
theory Background
  imports Startup NetInfo ReadLoop
begin

text \<open>
  The tasks that run beside the event loop (\<open>src/main.rs\<close>, \<open>src/core\_events.rs\<close>,
  \<open>src/update\_check.rs\<close>): the reader of the terminal, the ticker, the poll of the public address, the
  check for a release and the read loop of the connection.  They reach the loop over two unbounded
  channels only, one for the events of the core and one for everything else, and \<open>select!\<close> takes from either.
  The tasks are a step relation over one state, a rule for every point at which one of them acts.
  A channel is what was sent on it so far and how much of it was taken.
\<close>

section \<open>The state\<close>

text \<open>A refresh of the public address: it waits until a time, then asks for the two addresses in turn.\<close>

datatype Asking = Sleeping nat | AskingV6

text \<open>Where the event loop is: before it draws, waiting for an event, or over.\<close>

datatype LoopPhase = AtTop | AtSelect | Finished "string option" | Crashed

record Bg =
  bg_clock :: nat
  bg_tick :: nat
  bg_poll :: "nat option"
  bg_polls :: nat
  bg_asking :: "Asking list"
  bg_update :: "(bool \<times> string \<times> string) option"
  bg_input :: "AppEvent list"
  bg_input_taken :: nat
  bg_core :: ReadLoop
  bg_core_taken :: nat
  bg_phase :: LoopPhase
  bg_flags :: Flags
  bg_world :: World
  bg_taken :: "LoopEvent list"

text \<open>\<open>input\_tx.send\<close>.\<close>

definition input_send :: "AppEvent \<Rightarrow> Bg \<Rightarrow> Bg" where
  "input_send ev s = s\<lparr>bg_input := bg_input s @ [ev]\<rparr>"

definition input_send_some :: "AppEvent option \<Rightarrow> Bg \<Rightarrow> Bg" where
  "input_send_some ev s = (case ev of Some e \<Rightarrow> input_send e s | None \<Rightarrow> s)"

text \<open>The refreshes that a handler asked for.\<close>

fun asked_by :: "nat \<Rightarrow> Output list \<Rightarrow> Asking list" where
  "asked_by clock [] = []"
| "asked_by clock (RefreshPublicIp delay # os) = Sleeping (clock + delay) # asked_by clock os"
| "asked_by clock (_ # os) = asked_by clock os"

text \<open>After a handler: it ends the loop, or the loop starts over.\<close>

definition after_event :: "LoopEvent \<Rightarrow> bool \<Rightarrow> Flags \<Rightarrow> World \<Rightarrow> Bg \<Rightarrow> Bg" where
  "after_event ev ends fl w s =
     s\<lparr>bg_phase := (if ends then Finished None else AtTop), bg_flags := fl, bg_world := w,
       bg_asking := bg_asking s @ asked_by (bg_clock s) (drop (length (w_out (bg_world s))) (w_out w)),
       bg_taken := bg_taken s @ [ev]\<rparr>"

section \<open>The steps\<close>

text \<open>\<open>http\<close> and \<open>uenv\<close> are the outside at the time of the step.\<close>

inductive bg_step :: "Env \<Rightarrow> (App \<Rightarrow> string + App) \<Rightarrow> Bg \<Rightarrow> Bg \<Rightarrow> bool" for env draw where
  elapse: "bg_step env draw s (s\<lparr>bg_clock := bg_clock s + ms\<rparr>)"
| read_input: "bg_step env draw s (input_send (EvInput ev) s)"
| tick_due: "bg_step env draw s (input_send Tick (s\<lparr>bg_tick := bg_clock s + 1000\<rparr>))"
    if "bg_tick s \<le> bg_clock s"
| poll_due: "bg_step env draw s
      (s\<lparr>bg_asking := bg_asking s @ [Sleeping (bg_clock s)], bg_poll := Some (bg_clock s + 30000),
         bg_polls := bg_polls s + 1\<rparr>)"
    if "bg_poll s = Some t" "t \<le> bg_clock s"
| ask_v4: "bg_step env draw s
      (input_send_some (map_option PublicIp (fetch_public_ip http)) (s\<lparr>bg_asking := (bg_asking s)[i := AskingV6]\<rparr>))"
    if "i < length (bg_asking s)" "bg_asking s ! i = Sleeping t" "t \<le> bg_clock s"
| ask_v6: "bg_step env draw s
      (input_send_some (map_option PublicIpv6 (fetch_public_ipv6 http))
        (s\<lparr>bg_asking := take i (bg_asking s) @ drop (i + 1) (bg_asking s)\<rparr>))"
    if "i < length (bg_asking s)" "bg_asking s ! i = AskingV6"
| update_done: "bg_step env draw s
      (input_send_some (map_option UpdateAvailable (check_update uenv fetch cached skipped)) (s\<lparr>bg_update := None\<rparr>))"
    if "bg_update s = Some (fetch, cached, skipped)"
| core_side: "bg_step env draw s (s\<lparr>bg_core := r\<rparr>)"
    if "loop_step (bg_core s) r" "rl_open r"
| draw_ok: "bg_step env draw s (s\<lparr>bg_phase := AtSelect, bg_world := (request_details env (bg_world s))\<lparr>w_app := a\<rparr>\<rparr>)"
    if "bg_phase s = AtTop" "draw (w_app (request_details env (bg_world s))) = Inr a"
| draw_failed: "bg_step env draw s (s\<lparr>bg_phase := Finished (Some e), bg_world := request_details env (bg_world s)\<rparr>)"
    if "bg_phase s = AtTop" "draw (w_app (request_details env (bg_world s))) = Inl e"
| take_core: "bg_step env draw s (after_event (FromCore ev) ends fl w (s\<lparr>bg_core_taken := bg_core_taken s + 1\<rparr>))"
    if "bg_phase s = AtSelect" "get_at (rl_sent (bg_core s)) (bg_core_taken s) = Some ev"
      "handle_core_event env ev (bg_flags s, bg_world s) = (ends, fl, w)"
| take_input: "bg_step env draw s
      (after_event (FromInput ev) ends (bg_flags s) w (s\<lparr>bg_input_taken := bg_input_taken s + 1\<rparr>))"
    if "bg_phase s = AtSelect" "get_at (bg_input s) (bg_input_taken s) = Some ev"
      "handle_input env ev (bg_world s) = Some (ends, w)"
| take_panic: "bg_step env draw s
      (s\<lparr>bg_phase := Crashed, bg_input_taken := bg_input_taken s + 1, bg_taken := bg_taken s @ [FromInput ev]\<rparr>)"
    if "bg_phase s = AtSelect" "get_at (bg_input s) (bg_input_taken s) = Some ev"
      "handle_input env ev (bg_world s) = None"

text \<open>What \<open>main\<close> starts, from what the start of the interface left to do.\<close>

definition bg_start :: "Boot \<Rightarrow> Flags \<times> World \<Rightarrow> Bg" where
  "bg_start b fw =
     \<lparr>bg_clock = 0, bg_tick = 1000,
      bg_poll = (if PollPublicIp \<in> set (bt_done b) then Some 0 else None), bg_polls = 0, bg_asking = [],
      bg_update = map_option (\<lambda>fetch. (fetch, c_latest_version (bt_cfg b), c_skipped_version (bt_cfg b)))
        (if CheckUpdates True \<in> set (bt_done b) then Some True
         else if CheckUpdates False \<in> set (bt_done b) then Some False else None),
      bg_input = [], bg_input_taken = 0, bg_core = loop_start, bg_core_taken = 0, bg_phase = AtTop,
      bg_flags = fst fw, bg_world = snd fw, bg_taken = []\<rparr>"

definition bg_reachable :: "Env \<Rightarrow> (App \<Rightarrow> string + App) \<Rightarrow> Bg \<Rightarrow> Bg \<Rightarrow> bool" where
  "bg_reachable env draw s t \<longleftrightarrow> (bg_step env draw)\<^sup>*\<^sup>* s t"

lemma bg_induct [consumes 1, case_names start step]:
  assumes "bg_reachable env draw s0 s" "P s0" "\<And>s t. P s \<Longrightarrow> bg_step env draw s t \<Longrightarrow> P t"
  shows "P s"
  using assms(1) unfolding bg_reachable_def by (induction rule: rtranclp_induct) (auto intro: assms)

lemma reach_start: "bg_reachable env draw s s"
  by (simp add: bg_reachable_def)

lemma reach_step: "bg_reachable env draw s t \<Longrightarrow> bg_step env draw t u \<Longrightarrow> bg_reachable env draw s u"
  unfolding bg_reachable_def by (rule rtranclp.rtrancl_into_rtrancl)

section \<open>The channels\<close>

fun input_of :: "LoopEvent \<Rightarrow> AppEvent list" where
  "input_of (FromInput ev) = [ev]"
| "input_of (FromCore ev) = []"

fun core_of :: "LoopEvent \<Rightarrow> CoreEvent list" where
  "core_of (FromCore ev) = [ev]"
| "core_of (FromInput ev) = []"

text \<open>What the loop has taken of a channel is the beginning of what was sent on it.\<close>

definition channels_kept :: "Bg \<Rightarrow> bool" where
  "channels_kept s \<longleftrightarrow>
     concat (map input_of (bg_taken s)) = take (bg_input_taken s) (bg_input s) \<and> bg_input_taken s \<le> length (bg_input s) \<and>
     concat (map core_of (bg_taken s)) = take (bg_core_taken s) (rl_sent (bg_core s)) \<and>
     bg_core_taken s \<le> length (rl_sent (bg_core s))"

lemma input_send_simps [simp]:
  "bg_input (input_send ev s) = bg_input s @ [ev]" "bg_input_taken (input_send ev s) = bg_input_taken s"
  "bg_core (input_send ev s) = bg_core s" "bg_core_taken (input_send ev s) = bg_core_taken s"
  "bg_phase (input_send ev s) = bg_phase s" "bg_flags (input_send ev s) = bg_flags s"
  "bg_world (input_send ev s) = bg_world s" "bg_taken (input_send ev s) = bg_taken s"
  "bg_clock (input_send ev s) = bg_clock s" "bg_tick (input_send ev s) = bg_tick s"
  "bg_poll (input_send ev s) = bg_poll s" "bg_polls (input_send ev s) = bg_polls s"
  by (simp_all add: input_send_def)

lemma input_send_some_simps [simp]:
  "bg_input (input_send_some ev s) = bg_input s @ (case ev of Some e \<Rightarrow> [e] | None \<Rightarrow> [])"
  "bg_input_taken (input_send_some ev s) = bg_input_taken s"
  "bg_core (input_send_some ev s) = bg_core s" "bg_core_taken (input_send_some ev s) = bg_core_taken s"
  "bg_phase (input_send_some ev s) = bg_phase s" "bg_flags (input_send_some ev s) = bg_flags s"
  "bg_world (input_send_some ev s) = bg_world s" "bg_taken (input_send_some ev s) = bg_taken s"
  "bg_clock (input_send_some ev s) = bg_clock s" "bg_tick (input_send_some ev s) = bg_tick s"
  "bg_poll (input_send_some ev s) = bg_poll s" "bg_polls (input_send_some ev s) = bg_polls s"
  by (simp_all add: input_send_some_def split: option.split)

lemma after_event_simps [simp]:
  "bg_input (after_event ev ends fl w s) = bg_input s" "bg_input_taken (after_event ev ends fl w s) = bg_input_taken s"
  "bg_core (after_event ev ends fl w s) = bg_core s" "bg_core_taken (after_event ev ends fl w s) = bg_core_taken s"
  "bg_phase (after_event ev ends fl w s) = (if ends then Finished None else AtTop)"
  "bg_flags (after_event ev ends fl w s) = fl" "bg_world (after_event ev ends fl w s) = w"
  "bg_taken (after_event ev ends fl w s) = bg_taken s @ [ev]"
  "bg_clock (after_event ev ends fl w s) = bg_clock s" "bg_tick (after_event ev ends fl w s) = bg_tick s"
  "bg_poll (after_event ev ends fl w s) = bg_poll s" "bg_polls (after_event ev ends fl w s) = bg_polls s"
  by (simp_all add: after_event_def)

text \<open>The read loop only adds to what it sent.\<close>

lemma loop_step_sends: "loop_step r t \<Longrightarrow> \<exists>es. rl_sent t = rl_sent r @ es"
  by (induction rule: loop_step.induct) auto

lemma take_get_at: "get_at xs n = Some x \<Longrightarrow> take (n + 1) xs = take n xs @ [x] \<and> n + 1 \<le> length xs"
  by (simp add: get_at_Some_iff take_Suc_conv_app_nth)

lemma channels_step:
  assumes "channels_kept s" and "bg_step env draw s t"
  shows "channels_kept t"
  using assms(2,1)
proof (induction rule: bg_step.induct)
  case (core_side s r)
  then show ?case using loop_step_sends [of "bg_core s" r] by (auto simp: channels_kept_def)
next
  case (take_core s ev ends fl w)
  then show ?case using take_get_at [of "rl_sent (bg_core s)" "bg_core_taken s" ev] by (simp add: channels_kept_def)
next
  case (take_input s ev ends w)
  then show ?case using take_get_at [of "bg_input s" "bg_input_taken s" ev] by (simp add: channels_kept_def)
next
  case (take_panic s ev)
  then show ?case using take_get_at [of "bg_input s" "bg_input_taken s" ev] by (simp add: channels_kept_def)
qed (simp_all add: channels_kept_def)

section \<open>The loop among its tasks\<close>

lemma run_loop_failed:
  assumes "draw (w_app (request_details env w)) = Inl e"
  shows "run_loop env draw evs (fl, w) = Some (Some e, fl, request_details env w)"
  by (subst run_loop.simps) (simp add: assms Let_def)

lemma run_loop_core:
  assumes "draw (w_app (request_details env w)) = Inr a"
    and "handle_core_event env ev (fl, (request_details env w)\<lparr>w_app := a\<rparr>) = (ends, fl2, w2)"
  shows "run_loop env draw (FromCore ev # evs) (fl, w)
    = (if ends then Some (None, fl2, w2) else run_loop env draw evs (fl2, w2))"
  by (subst run_loop.simps) (simp add: assms Let_def split: bool.split)

lemma run_loop_input:
  assumes "draw (w_app (request_details env w)) = Inr a"
  shows "run_loop env draw (FromInput ev # evs) (fl, w)
    = (case handle_input env ev ((request_details env w)\<lparr>w_app := a\<rparr>) of
         None \<Rightarrow> None
       | Some (ends, w2) \<Rightarrow> if ends then Some (None, fl, w2) else run_loop env draw evs (fl, w2))"
  by (subst run_loop.simps) (simp add: assms Let_def split: bool.split option.split)

text \<open>A state of the concurrent program agrees with the sequential loop on the events taken so far: the loop
  has come to the same point, whatever events follow.\<close>

definition drawn_from :: "Env \<Rightarrow> (App \<Rightarrow> string + App) \<Rightarrow> World \<Rightarrow> World \<Rightarrow> bool" where
  "drawn_from env draw w w2 \<longleftrightarrow>
     draw (w_app (request_details env w)) = Inr (w_app w2) \<and> w2 = (request_details env w)\<lparr>w_app := w_app w2\<rparr>"

definition agrees :: "Env \<Rightarrow> (App \<Rightarrow> string + App) \<Rightarrow> Flags \<times> World \<Rightarrow> Bg \<Rightarrow> bool" where
  "agrees env draw fw s \<longleftrightarrow>
     (let came = (\<lambda>r. \<forall>evs. run_loop env draw (bg_taken s @ evs) fw = r evs)
      in case bg_phase s of
           AtTop \<Rightarrow> came (\<lambda>evs. run_loop env draw evs (bg_flags s, bg_world s))
         | AtSelect \<Rightarrow> (\<exists>w. drawn_from env draw w (bg_world s) \<and> came (\<lambda>evs. run_loop env draw evs (bg_flags s, w)))
         | Finished e \<Rightarrow> came (\<lambda>_. Some (e, bg_flags s, bg_world s))
         | Crashed \<Rightarrow> came (\<lambda>_. None))"

lemma agrees_same:
  "agrees env draw fw s \<Longrightarrow> bg_phase t = bg_phase s \<Longrightarrow> bg_flags t = bg_flags s \<Longrightarrow> bg_world t = bg_world s \<Longrightarrow>
   bg_taken t = bg_taken s \<Longrightarrow> agrees env draw fw t"
  by (cases "bg_phase s") (simp_all add: agrees_def del: run_loop.simps)

lemma agrees_step:
  assumes "agrees env draw fw s" and "bg_step env draw s t"
  shows "agrees env draw fw t"
  using assms(2,1)
proof (induction rule: bg_step.induct)
  case (draw_ok s a)
  then show ?case by (auto simp: agrees_def drawn_from_def Let_def)
next
  case (draw_failed s e)
  then show ?case by (simp add: agrees_def Let_def run_loop_failed)
next
  case (take_core s ev ends fl w)
  then obtain w0 where w0: "drawn_from env draw w0 (bg_world s)"
    "\<And>evs. run_loop env draw (bg_taken s @ evs) fw = run_loop env draw evs (bg_flags s, w0)"
    by (auto simp: agrees_def Let_def)
  then have "run_loop env draw (FromCore ev # evs) (bg_flags s, w0)
      = (if ends then Some (None, fl, w) else run_loop env draw evs (fl, w))" for evs
    using take_core(3) run_loop_core [of draw env w0 "w_app (bg_world s)" ev "bg_flags s" ends fl w evs]
    by (metis drawn_from_def)
  then show ?case using w0(2) [of "FromCore ev # _"] by (simp add: agrees_def)
next
  case (take_input s ev ends w)
  then obtain w0 where w0: "drawn_from env draw w0 (bg_world s)"
    "\<And>evs. run_loop env draw (bg_taken s @ evs) fw = run_loop env draw evs (bg_flags s, w0)"
    by (auto simp: agrees_def Let_def)
  then have "run_loop env draw (FromInput ev # evs) (bg_flags s, w0)
      = (if ends then Some (None, bg_flags s, w) else run_loop env draw evs (bg_flags s, w))" for evs
    using take_input(3) run_loop_input [of draw env w0 "w_app (bg_world s)" ev evs "bg_flags s"]
    by (simp add: drawn_from_def)
  then show ?case using w0(2) [of "FromInput ev # _"] by (simp add: agrees_def)
next
  case (take_panic s ev)
  then obtain w0 where w0: "drawn_from env draw w0 (bg_world s)"
    "\<And>evs. run_loop env draw (bg_taken s @ evs) fw = run_loop env draw evs (bg_flags s, w0)"
    by (auto simp: agrees_def Let_def)
  then have "run_loop env draw (FromInput ev # evs) (bg_flags s, w0) = None" for evs
    using take_panic(3) run_loop_input [of draw env w0 "w_app (bg_world s)" ev evs "bg_flags s"]
    by (simp add: drawn_from_def)
  then show ?case using w0(2) [of "FromInput ev # _"] by (simp add: agrees_def)
qed (rule agrees_same, assumption, simp_all)+

lemma reachable_kept:
  assumes "bg_reachable env draw (bg_start b fw) s"
  shows "channels_kept s \<and> agrees env draw fw s"
  using assms
proof (induction rule: bg_induct)
  case start
  show ?case by (simp add: channels_kept_def agrees_def bg_start_def loop_start_def)
next
  case (step s t)
  then show ?case using channels_step agrees_step by blast
qed

text \<open>C4: however the tasks interleave, the program is the sequential event loop on some list of events that
  has those of each channel in the order they were sent, each once: what the loop has taken of a channel is
  the beginning of what was sent on it, and when the loop is over, the whole program from its start ended with
  that status and left that configuration and state; it panics just if the sequential loop does.\<close>

theorem tasks_run_sequentially:
  assumes "boot boot_env cfg = (Inr fw, b)" and "bg_reachable env draw (bg_start b fw) s"
  shows "concat (map input_of (bg_taken s)) = take (bg_input_taken s) (bg_input s)
    \<and> concat (map core_of (bg_taken s)) = take (bg_core_taken s) (rl_sent (bg_core s))
    \<and> (case bg_phase s of
         Finished e \<Rightarrow> run_tui env draw boot_env (bg_taken s) cfg
           = Some (Inr (case e of None \<Rightarrow> 0 | Some _ \<Rightarrow> 1, save_config (bg_world s)))
       | Crashed \<Rightarrow> run_tui env draw boot_env (bg_taken s) cfg = None
       | _ \<Rightarrow> True)"
proof -
  have kept: "channels_kept s" and agrees: "agrees env draw fw s" using reachable_kept [OF assms(2)] by simp_all
  have "run_loop env draw (bg_taken s) fw = Some (e, bg_flags s, bg_world s)" if "bg_phase s = Finished e" for e
    using agrees that by (simp add: agrees_def) (metis append_Nil2)
  moreover have "run_loop env draw (bg_taken s) fw = None" if "bg_phase s = Crashed"
    using agrees that by (simp add: agrees_def) (metis append_Nil2)
  ultimately show ?thesis
    using kept assms(1) by (auto simp: channels_kept_def run_tui_def split: LoopPhase.split)
qed

text \<open>A start that finds a core, and a run in which the clock ticks before drawing fails.\<close>

definition sample_boot :: BootEnv where
  "sample_boot = \<lparr>bo_stdin_tty = True, bo_stdout_tty = True, bo_var = (\<lambda>_. None), bo_query = (\<lambda>_. Some empty_state),
     bo_connect = (\<lambda>_. None), bo_die_sent = True, bo_spawn = (\<lambda>_. None), bo_autoconnect_tun = False,
     bo_send = (\<lambda>_. None), bo_logs = logs_new id empty_fs, bo_systemd_enabled = False, bo_now = 0,
     bo_dev_build = True, bo_version = ''1''\<rparr>"

lemma sample_boot_starts: "\<exists>fw b. boot sample_boot cfg = (Inr fw, b)"
  by (simp add: boot_def reach_core_def attach_def send_boot_def sample_boot_def empty_state_def
      core_protocol_matches_def EXPECTED_CORE_PROTOCOL_VERSION_def Let_def)

definition sample_run :: "Boot \<Rightarrow> Flags \<times> World \<Rightarrow> Bg" where
  "sample_run b fw =
     (let s = (bg_start b fw)\<lparr>bg_clock := 1000\<rparr>; s = input_send Tick (s\<lparr>bg_tick := 2000\<rparr>)
      in s\<lparr>bg_phase := Finished (Some ''no terminal''), bg_world := request_details quiet_env (bg_world s)\<rparr>)"

lemma sample_run_reachable: "bg_reachable quiet_env (\<lambda>_. Inl ''no terminal'') (bg_start b fw) (sample_run b fw)"
proof -
  let ?draw = "\<lambda>_. Inl ''no terminal''" and ?s = "(bg_start b fw)\<lparr>bg_clock := 1000\<rparr>"
  let ?t = "input_send Tick (?s\<lparr>bg_tick := 2000\<rparr>)"
  have "bg_step quiet_env ?draw (bg_start b fw) ?s"
    using elapse [of quiet_env ?draw "bg_start b fw" 1000] by (simp add: bg_start_def)
  moreover have "bg_step quiet_env ?draw ?s ?t"
    using tick_due [of ?s quiet_env ?draw] by (simp add: bg_start_def)
  moreover have "bg_step quiet_env ?draw ?t (sample_run b fw)"
    using draw_failed [of ?t ?draw quiet_env "''no terminal''"] by (simp add: sample_run_def bg_start_def Let_def)
  ultimately show ?thesis by (rule reach_step [OF reach_step [OF reach_step [OF reach_start]]])
qed

theorem tasks_run_sequentially_witness:
  "\<exists>fw b. boot sample_boot default_config = (Inr fw, b) \<and>
     run_tui quiet_env (\<lambda>_. Inl ''no terminal'') sample_boot [] default_config
       = Some (Inr (1, save_config (request_details quiet_env (snd fw))))"
proof -
  obtain fw b where "boot sample_boot default_config = (Inr fw, b)" using sample_boot_starts by blast
  with tasks_run_sequentially [OF this sample_run_reachable] show ?thesis
    by (simp add: sample_run_def bg_start_def Let_def)
qed

section \<open>What the tasks send, and how often\<close>

fun sound_event :: "AppEvent \<Rightarrow> bool" where
  "sound_event (PublicIp t) \<longleftrightarrow> (\<exists>w. t = ip_text (V4 w))"
| "sound_event (PublicIpv6 t) \<longleftrightarrow> (\<exists>w. t = ip_text (V6 w))"
| "sound_event (UpdateAvailable info) \<longleftrightarrow> (\<exists>uenv fetch cached skipped. check_update uenv fetch cached skipped = Some info)"
| "sound_event _ \<longleftrightarrow> True"

definition ticks :: "Bg \<Rightarrow> nat" where
  "ticks s = length (filter (\<lambda>ev. ev = Tick) (bg_input s))"

text \<open>The waking times of the ticker and of the poll bound what they have done so far.\<close>

definition paced :: "Bg \<Rightarrow> bool" where
  "paced s \<longleftrightarrow> list_all sound_event (bg_input s) \<and>
     1000 * ticks s + 1000 \<le> bg_tick s \<and> bg_tick s \<le> bg_clock s + 1000 \<and>
     (case bg_poll s of
        None \<Rightarrow> bg_polls s = 0
      | Some t \<Rightarrow> 30000 * bg_polls s \<le> t \<and> t \<le> bg_clock s + 30000)"

lemma fetch_ip_sound:
  "fetch_ip http url v6 = Some t \<Longrightarrow> \<exists>ip. t = ip_text ip \<and> is_ipv6 ip = v6"
  by (auto simp: fetch_ip_def split: option.splits if_splits)

lemma sound_v4: "fetch_public_ip http = Some t \<Longrightarrow> \<exists>w. t = ip_text (V4 w)"
  unfolding fetch_public_ip_def using fetch_ip_sound by (metis Ip.exhaust Ip.simps(6) is_ipv6_def)

lemma sound_v6: "fetch_public_ipv6 http = Some t \<Longrightarrow> \<exists>w. t = ip_text (V6 w)"
  unfolding fetch_public_ipv6_def using fetch_ip_sound by (metis Ip.exhaust Ip.simps(5) is_ipv6_def)

lemma paced_step:
  assumes "paced s" and "bg_step env draw s t"
  shows "paced t"
  using assms(2,1)
proof (induction rule: bg_step.induct)
  case (ask_v4 i s t http)
  then show ?case using sound_v4 [of http] by (auto simp: paced_def ticks_def split: option.split)
next
  case (ask_v6 i s http)
  then show ?case using sound_v6 [of http] by (auto simp: paced_def ticks_def split: option.split)
next
  case (update_done s fetch cached skipped uenv)
  then show ?case by (auto simp: paced_def ticks_def split: option.split)
qed (auto simp: paced_def ticks_def split: option.splits)



text \<open>The poll was started once and never looks at the setting again: the service is asked also when the
  addresses are no longer shown.\<close>

lemma poll_ignores_setting:
  assumes "bg_reachable env draw (bg_start b fw) s" and "PollPublicIp \<in> set (bt_done b)"
    and "\<not> show_ip (w_app (bg_world s))"
  shows "\<exists>t. bg_reachable env draw (bg_start b fw) t \<and> bg_polls t = bg_polls s + 1 \<and> bg_world t = bg_world s"
proof -
  have "bg_poll s \<noteq> None"
    using assms(1)
  proof (induction rule: bg_induct)
    case start
    show ?case using assms(2) by (simp add: bg_start_def)
  next
    case (step s t)
    then show ?case by (elim bg_step.cases) auto
  qed
  then obtain t where t: "bg_poll s = Some t" by auto
  let ?s = "s\<lparr>bg_clock := bg_clock s + t\<rparr>"
  let ?u = "?s\<lparr>bg_asking := bg_asking ?s @ [Sleeping (bg_clock ?s)], bg_poll := Some (bg_clock ?s + 30000),
      bg_polls := bg_polls ?s + 1\<rparr>"
  have "bg_step env draw ?s ?u" by (rule poll_due [where t = t]) (use t in simp_all)
  then have "bg_reachable env draw (bg_start b fw) ?u" by (rule reach_step [OF reach_step [OF assms(1) elapse]])
  then show ?thesis by (intro exI [of _ ?u]) simp
qed

end
