(* ===== verification/Program.thy ===== *)
theory Program
  imports Cli Background
begin

text \<open>
  \<open>main\<close> of \<open>src/main.rs\<close> as a whole: an argument that is a \<open>wit:\<close> link is followed, any other
  arguments are a command, and without arguments the interface starts on the configuration that is read
  from the disk, runs its loop and saves the configuration when it ends.
\<close>

section \<open>The program\<close>

definition is_link :: "string \<Rightarrow> bool" where
  "is_link cmd \<longleftrightarrow> starts_with ''wit://'' cmd \<or> starts_with ''wit:'' cmd"

definition run_deeplink :: "CliEnv \<Rightarrow> string \<Rightarrow> unit cli" where
  "run_deeplink env link =
     (case parse_deeplink (ce_lc env) link of
        Inl e \<Rightarrow> fail (CoreError (''Invalid deep link: '' @ deeplink_error_text e))
      | Inr a \<Rightarrow> run_deeplink_action env a)"

text \<open>The status of a link is 0 or 1; a panic ends the process with 101.\<close>

definition follow_link :: "CliEnv \<Rightarrow> string \<Rightarrow> Cli \<Rightarrow> int \<times> Cli" where
  "follow_link env link s =
     (case run_deeplink env link s of
        (Inr (), s) \<Rightarrow> (0, s)
      | (Inl e, s) \<Rightarrow>
          if e = Panicked then (101, s) else (1, s\<lparr>cl_out := cl_out s @ [Stderr (''Error: '' @ cli_error_text e)]\<rparr>))"

record MainEnv =
  me_clap :: clap
  me_launch :: LaunchEnv
  me_doctor :: DoctorEnv
  me_cli :: CliEnv
  me_env :: Env
  me_draw :: "App \<Rightarrow> string + App"
  me_boot :: BootEnv
  me_to_toml :: "AppConfig \<Rightarrow> string option"
  me_from_toml :: "string \<Rightarrow> AppConfig option"
  me_access :: Access
  me_load_fault :: SaveFault
  me_exit_fault :: SaveFault
  me_dirs :: DirEnv
  me_pid :: nat

text \<open>The configurations that the start and the loop write, in order.\<close>

fun boot_saves :: "BootAction list \<Rightarrow> AppConfig list" where
  "boot_saves [] = []"
| "boot_saves (BootSave c # as) = c # boot_saves as"
| "boot_saves (_ # as) = boot_saves as"

fun loop_saves :: "Output list \<Rightarrow> AppConfig list" where
  "loop_saves [] = []"
| "loop_saves (SaveConfig c # os) = c # loop_saves os"
| "loop_saves (_ # os) = loop_saves os"

definition session_saves :: "Boot \<Rightarrow> World \<Rightarrow> AppConfig list" where
  "session_saves b w = boot_saves (bt_done b) @ loop_saves (w_out w)"

definition session_disk :: "MainEnv \<Rightarrow> SaveFault list \<Rightarrow> AppConfig list \<Rightarrow> AppConfig \<Rightarrow> disk \<Rightarrow> AppConfig \<times> disk" where
  "session_disk m faults cs cfg d = saves (me_to_toml m) (me_dirs m) (me_pid m) (zip cs faults) cfg d"

text \<open>How the program ends: a link or a command with its status; a start that does not reach the loop; or a
  session, with its status, the state it ended in, whether the configuration could be saved then, and the
  disk.\<close>

datatype MainEnd =
    CommandEnded int Cli
  | NotStarted BootEnd disk
  | SessionEnded int World bool disk

text \<open>\<open>evs\<close> are the events that come up in a session, \<open>faults\<close> what goes wrong with its saves.  \<open>None\<close> is a
  panic, also that of an empty argument list.\<close>

definition run_main ::
  "MainEnv \<Rightarrow> LoopEvent list \<Rightarrow> SaveFault list \<Rightarrow> string list \<Rightarrow> disk \<Rightarrow> Cli \<Rightarrow> MainEnd option" where
  "run_main m evs faults argv d s =
     (case argv of
        [] \<Rightarrow> None
      | _ # args \<Rightarrow>
          if args \<noteq> [] \<and> is_link (hd args)
          then (case follow_link (me_cli m) (hd args) s of (status, s) \<Rightarrow> Some (CommandEnded status s))
          else
            (case cli_run (me_clap m) (me_launch m) (me_doctor m) (me_cli m) args s of
               (Exit status, s) \<Rightarrow> Some (CommandEnded status s)
             | (Tui, s) \<Rightarrow>
                 (case load_config (me_to_toml m) (me_from_toml m) (me_access m) (me_load_fault m) (me_dirs m) (me_pid m) d of
                    (cfg, d) \<Rightarrow>
                      (case boot (me_boot m) cfg of
                         (Inl e, b) \<Rightarrow> Some (NotStarted e (snd (session_disk m faults (boot_saves (bt_done b)) cfg d)))
                       | (Inr fw, b) \<Rightarrow>
                           (case run_loop (me_env m) (me_draw m) evs fw of
                              None \<Rightarrow> None
                            | Some (e, fl, w) \<Rightarrow>
                                (case try_save_config (me_to_toml m) (me_exit_fault m) (me_dirs m) (me_pid m) (w_cfg w)
                                        (snd (session_disk m faults (session_saves b w) cfg d)) of
                                   (ok, d) \<Rightarrow>
                                     Some (SessionEnded (case e of None \<Rightarrow> 0 | Some _ \<Rightarrow> 1) w ok d)))))))"

section \<open>From one session to the next\<close>

lemma saves_fresh:
  "d (tmp_path env pid) = None \<Longrightarrow> snd (saves to_toml env pid work cur d) (tmp_path env pid) = None"
proof (induction work arbitrary: cur d)
  case (Cons w work)
  obtain cfg fault where w: "w = (cfg, fault)" by force
  have "snd (try_save_config to_toml fault env pid cfg d) (tmp_path env pid) = None"
    using Cons.prems failed_write [of "tmp_path env pid" "config_path env" d]
      write_atomic_ok [of d "tmp_path env pid" "config_path env"]
    by (auto simp: try_save_config_def save_config_at_def write_atomic_def split: option.split)
  then show ?case
    using Cons.IH [of "snd (try_save_config to_toml fault env pid cfg d)"] w
    by (cases "try_save_config to_toml fault env pid cfg d") simp
qed simp

lemma load_fresh:
  "d (tmp_path env pid) = None \<Longrightarrow> snd (load_config to_toml from_toml acc fault env pid d) (tmp_path env pid) = None"
  using saves_fresh [of d env pid to_toml "[(default_config, fault)]" default_config]
  by (auto simp: load_config_def save_quietly_def copy_file_def Let_def split: option.split CopyEnd.split prod.splits)

lemma cli_run_tui: "cli_run clap launch doctor env args s = (Tui, t) \<Longrightarrow> args = []"
  by (auto simp: cli_run_def finish_def split: if_splits sum.splits prod.splits option.splits CliCommand.splits)

lemma saves_among: "fst (saves to_toml env pid work cur d) \<in> set (cur # map fst work)"
proof (induction work arbitrary: cur d)
  case (Cons w work)
  obtain cfg fault where w: "w = (cfg, fault)" by force
  obtain ok e where "try_save_config to_toml fault env pid cfg d = (ok, e)" by force
  then show ?case using Cons.IH [of "if ok then cfg else cur" e] w by (auto split: if_splits)
qed simp

text \<open>A session, taken apart.\<close>

lemma session_parts:
  assumes "run_main m evs faults argv d s = Some (SessionEnded status w ok e)"
  obtains cfg d1 b fw where
    "load_config (me_to_toml m) (me_from_toml m) (me_access m) (me_load_fault m) (me_dirs m) (me_pid m) d = (cfg, d1)"
    "boot (me_boot m) cfg = (Inr fw, b)"
    "try_save_config (me_to_toml m) (me_exit_fault m) (me_dirs m) (me_pid m) (w_cfg w)
       (snd (session_disk m faults (session_saves b w) cfg d1)) = (ok, e)"
  using assms
  by (auto simp: run_main_def split: list.splits if_splits prod.splits Outcome.splits sum.splits option.splits)

text \<open>C5: what the user has set is there at the next start.  When a session ends and its last save reports
  success, the program that starts next reads exactly the configuration the session ended with; if that save
  fails, it reads the one this session began with or one that it saved earlier, never the defaults in place of
  a configuration and never a mixture.  The assumptions are those on the TOML library and on the file, as
  before.\<close>

theorem session_is_remembered:
  assumes toml: "\<And>c t. me_to_toml m c = Some t \<Longrightarrow> me_from_toml m t = Some c \<and> utf8_valid t"
    and readable: "\<not> ac_denied (me_access m) (config_path (me_dirs m))"
    and fresh: "d (tmp_path (me_dirs m) (me_pid m)) = None"
    and there: "d (config_path (me_dirs m)) \<noteq> None"
    and ended: "run_main m evs faults argv d s = Some (SessionEnded status w ok e)"
  shows "\<exists>c b fw. c = fst (load_config (me_to_toml m) (me_from_toml m) (me_access m) fault (me_dirs m) pid d)
    \<and> boot (me_boot m) c = (Inr fw, b)
    \<and> fst (load_config (me_to_toml m) (me_from_toml m) (me_access m) fault (me_dirs m) pid e)
        \<in> (if ok then {w_cfg w} else set (c # session_saves b w))"
proof -
  obtain cfg d1 b fw where load: "load_config (me_to_toml m) (me_from_toml m) (me_access m) (me_load_fault m) (me_dirs m) (me_pid m) d = (cfg, d1)"
    and boot: "boot (me_boot m) cfg = (Inr fw, b)"
    and exit: "try_save_config (me_to_toml m) (me_exit_fault m) (me_dirs m) (me_pid m) (w_cfg w)
       (snd (session_disk m faults (session_saves b w) cfg d1)) = (ok, e)"
    by (rule session_parts [OF ended])
  define read where "read = (\<lambda>d. fst (load_config (me_to_toml m) (me_from_toml m) (me_access m) fault (me_dirs m) pid d))"
  define d2 where "d2 = snd (session_disk m faults (session_saves b w) cfg d1)"
  have same: "d1 (config_path (me_dirs m)) = d (config_path (me_dirs m))" "cfg = read d"
    using load there
    by (auto simp: read_def load_config_def copy_file_def Let_def split: option.splits CopyEnd.splits)
  have fresh1: "d1 (tmp_path (me_dirs m) (me_pid m)) = None"
    using load_fresh [of d "me_dirs m" "me_pid m" "me_to_toml m" "me_from_toml m" "me_access m" "me_load_fault m"]
      fresh load by simp
  have fresh2: "d2 (tmp_path (me_dirs m) (me_pid m)) = None"
    unfolding d2_def session_disk_def by (rule saves_fresh) (rule fresh1)
  have "read d1 = cfg" using same load_config_cong unfolding read_def by metis
  then have "read d2 = fst (session_disk m faults (session_saves b w) cfg d1)"
    unfolding read_def d2_def session_disk_def using saves_read toml readable fresh1 by blast
  moreover have "fst (session_disk m faults (session_saves b w) cfg d1) \<in> set (cfg # session_saves b w)"
    unfolding session_disk_def
    using saves_among [of "me_to_toml m" "me_dirs m" "me_pid m" "zip (session_saves b w) faults" cfg d1]
    by (auto dest: set_zip_leftD)
  moreover have "case try_save_config (me_to_toml m) (me_exit_fault m) (me_dirs m) (me_pid m) (w_cfg w) d2 of
      (True, e) \<Rightarrow> load_config (me_to_toml m) (me_from_toml m) (me_access m) fault (me_dirs m) pid e = (w_cfg w, e)
        \<and> e (tmp_path (me_dirs m) (me_pid m)) = None
    | (False, e) \<Rightarrow> e = d2"
    by (rule save_outcomes) (use toml readable fresh2 in blast)+
  ultimately have "read e \<in> (if ok then {w_cfg w} else set (cfg # session_saves b w))"
    using exit by (cases ok) (simp_all add: read_def flip: d2_def)
  with same(2) boot show ?thesis by (auto simp: read_def)
qed

text \<open>A session that finds a core of version 2, and ends when it cannot draw.\<close>

definition seen_config :: AppConfig where
  "seen_config = default_config\<lparr>c_core_version := ''2''\<rparr>"

definition seen_print :: "AppConfig \<Rightarrow> string option" where
  "seen_print c = (if c = default_config then Some ''show'' else if c = seen_config then Some ''seen'' else None)"

definition seen_read :: "string \<Rightarrow> AppConfig option" where
  "seen_read t = (if t = ''show'' then Some default_config else if t = ''seen'' then Some seen_config else None)"

definition sample_main :: "MainEnv \<Rightarrow> MainEnv" where
  "sample_main m = m\<lparr>me_env := quiet_env, me_draw := (\<lambda>_. Inl ''no terminal''), me_boot := sample_boot,
     me_to_toml := seen_print, me_from_toml := seen_read, me_access := sample_access, me_load_fault := no_fault,
     me_exit_fault := no_fault, me_dirs := sample_dirs, me_pid := 7\<rparr>"

lemma seen_toml: "seen_print c = Some t \<Longrightarrow> seen_read t = Some c \<and> utf8_valid t"
  by (auto simp: seen_print_def seen_read_def seen_config_def utf8_valid.simps utf8_head_def split: if_splits)

lemma sample_boot_config:
  assumes "boot sample_boot default_config = (Inr fw, b)"
  shows "w_cfg (snd fw) = seen_config"
proof -
  have "set_theme ''graphite-dark'' 0 = (True, 0)" by code_simp
  moreover have "env_log_level (\<lambda>_. None) = None" by (simp add: env_log_level_def)
  ultimately show ?thesis
    using assms
    by (auto simp: boot_def reach_core_def attach_def send_boot_def sample_boot_def empty_state_def choose_theme_def
        override_level_def remember_version_def boot_save_def plan_update_check_def default_config_def seen_config_def
        core_protocol_matches_def EXPECTED_CORE_PROTOCOL_VERSION_def act_def Let_def)
qed

lemma sample_session:
  "\<exists>w e. run_main (sample_main m) [] [no_fault] [''whoisthat''] config_sample s = Some (SessionEnded 1 w True e)
     \<and> w_cfg w = seen_config"
proof -
  obtain fw b where boot: "boot sample_boot default_config = (Inr fw, b)" using sample_boot_starts by blast
  define w where "w = request_details quiet_env (snd fw)"
  have w: "w_cfg w = seen_config"
    using sample_boot_config [OF boot]
    by (simp add: w_def request_details_def emit_def on_app_def Let_def split: option.split)
  have path: "config_path sample_dirs = ''/c/config.toml''"
    by (simp add: config_path_def sample_dirs_def config_dir_def path_join_def)
  have load: "load_config seen_print seen_read sample_access no_fault sample_dirs 7 config_sample = (default_config, config_sample)"
    by (rule load_written [of _ _ "\<lparr>f_content = ''show'', f_mode = 384, f_synced = True\<rparr>" "''show''"])
      (simp_all add: path config_sample_def seen_read_def sample_access_def utf8_valid.simps utf8_head_def)
  have "run_loop quiet_env (\<lambda>_. Inl ''no terminal'') [] fw = Some (Some ''no terminal'', fst fw, w)"
    using run_loop_failed [of "\<lambda>_. Inl ''no terminal''" quiet_env "snd fw" "''no terminal''" "[]" "fst fw"]
    by (simp add: w_def del: run_loop.simps)
  moreover have "seen_print seen_config = Some ''seen''"
    by (simp add: seen_print_def seen_config_def default_config_def)
  then have "try_save_config seen_print no_fault sample_dirs 7 seen_config d = (x, e) \<Longrightarrow> x" for d x e
    by (simp add: try_save_config_def save_config_at_def write_atomic_def no_fault_def)
  ultimately show ?thesis
    using load boot w
    by (auto simp: run_main_def sample_main_def cli_run_def simp del: run_loop.simps split: prod.split)
qed

theorem session_is_remembered_witness:
  "\<exists>w e c b fw. c = fst (load_config seen_print seen_read sample_access no_fault sample_dirs 8 config_sample)
    \<and> boot sample_boot c = (Inr fw, b) \<and> w_cfg w = seen_config
    \<and> fst (load_config seen_print seen_read sample_access no_fault sample_dirs 8 e)
        \<in> (if True then {w_cfg w} else set (c # session_saves b w))"
proof -
  fix m :: MainEnv and s :: Cli
  let ?m = "sample_main m"
  obtain w e where ended: "run_main ?m [] [no_fault] [''whoisthat''] config_sample s = Some (SessionEnded 1 w True e)"
    and w: "w_cfg w = seen_config"
    using sample_session by blast
  have "\<exists>c b fw. c = fst (load_config (me_to_toml ?m) (me_from_toml ?m) (me_access ?m) no_fault (me_dirs ?m) 8 config_sample)
    \<and> boot (me_boot ?m) c = (Inr fw, b)
    \<and> fst (load_config (me_to_toml ?m) (me_from_toml ?m) (me_access ?m) no_fault (me_dirs ?m) 8 e)
        \<in> (if True then {w_cfg w} else set (c # session_saves b w))"
  proof (rule session_is_remembered [OF _ _ _ _ ended])
    show "me_to_toml ?m c = Some t \<Longrightarrow> me_from_toml ?m t = Some c \<and> utf8_valid t" for c t
      using seen_toml by (simp add: sample_main_def)
  qed (simp_all add: sample_main_def sample_access_def config_sample_def config_path_def tmp_path_def sample_dirs_def
      config_dir_def path_join_def)
  with w show ?thesis by (intro exI [of _ w] exI [of _ e]) (simp add: sample_main_def)
qed

end
