(* ===== verification/DoctorProps.thy ===== *)
theory DoctorProps
  imports DoctorDns
begin

text \<open>
  When \<open>whoisthat doctor\<close> reports a failure, and what the readers of the tools' output recognise.
\<close>

section \<open>Which checks can fail\<close>

text \<open>Everything the program cannot do without.\<close>

definition core_usable :: "DoctorEnv \<Rightarrow> bool" where
  "core_usable env \<longleftrightarrow>
     (let bin = find_core_binary (de_host env); caps = printed (ask env ''getcap'' [bin])
      in file_there env bin \<and> str_contains ''cap_net_admin'' caps \<and> str_contains ''cap_net_raw'' caps \<and>
         str_contains ''cap_setpcap'' caps)"

definition tun_device_usable :: "DoctorEnv \<Rightarrow> bool" where
  "tun_device_usable env \<longleftrightarrow>
     file_there env ''/dev/net/tun'' \<and> (\<exists>m. de_meta env ''/dev/net/tun'' = Inr m \<and> fm_char_device m)"

definition firewall_usable :: "DoctorEnv \<Rightarrow> bool" where
  "firewall_usable env \<longleftrightarrow> ran (ask env ''nft'' [''--version'']) \<or> ran (ask env ''iptables'' [''--version''])"

text \<open>What may be in the way, as far as it can be seen.\<close>

definition socket_blocked :: "DoctorEnv \<Rightarrow> AppConfig \<Rightarrow> bool" where
  "socket_blocked env cfg \<longleftrightarrow>
     (\<exists>sock m. endpoint (de_xdg env) (de_uid env) cfg = Unix sock \<and> file_there env sock \<and>
        de_meta env sock = Inr m \<and> \<not> fm_socket m)"

definition sink_taken :: "DoctorEnv \<Rightarrow> bool" where
  "sink_taken env \<longleftrightarrow>
     (let r = ask env ''ip'' [''-o'', ''addr'', ''show''] in succeeded r \<and> sink_assigned (printed r))"

definition pools_taken :: "DoctorEnv \<Rightarrow> string \<Rightarrow> bool" where
  "pools_taken env tun_name \<longleftrightarrow>
     (let r = ask env ''ip'' [''-o'', ''addr'', ''show'', ''dev'', tun_name]
      in succeeded r \<and> fake_pool_overlap (printed r) \<noteq> None)"

definition hijack_unsafe :: "DoctorEnv \<Rightarrow> bool" where
  "hijack_unsafe env \<longleftrightarrow>
     (\<exists>text ipv6. probe_dns_rules env = HappRules text ipv6 \<and>
        \<not> (has_mark_return (de_lc env) text \<and> has_sink_return (de_lc env) text))"

definition no_failure :: "CheckCategory \<Rightarrow> bool" where
  "no_failure c \<longleftrightarrow> list_all (\<lambda>i. ci_status i \<noteq> Fail) (cc_items c)"

lemma no_failure_category [simp]: "no_failure (category t items) \<longleftrightarrow> list_all (\<lambda>i. ci_status i \<noteq> Fail) items"
  by (simp add: no_failure_def category_def)

named_theorems check_defs

lemma binaries_fail: "no_failure (check_binaries env) \<longleftrightarrow> file_there env (find_core_binary (de_host env))"
  by (simp add: check_binaries_def Let_def split: option.split)

lemma capabilities_fail:
  "no_failure (check_capabilities env) \<longleftrightarrow> core_usable env \<and> tun_device_usable env \<and> firewall_usable env"
  by (auto simp: check_capabilities_def core_caps_item_def tun_device_item_def core_usable_def
      tun_device_usable_def firewall_usable_def Let_def split: sum.splits)

lemma polkit_never_fails: "no_failure (check_polkit env)"
  by (simp add: check_polkit_def Let_def split: option.split)

lemma ipc_fail: "no_failure (check_ipc_and_daemon env cfg) \<longleftrightarrow> \<not> socket_blocked env cfg"
  by (auto simp: check_ipc_and_daemon_def runtime_dir_item_def socket_item_def daemon_item_def socket_blocked_def
      split: option.splits sum.splits Endpoint.splits)

lemma storage_items_never_fail:
  "ci_status (core_config_item env) \<noteq> Fail" "ci_status (encrypted_db_item env) \<noteq> Fail" "ci_status (geo_item env) \<noteq> Fail"
  by (simp_all add: core_config_item_def encrypted_db_item_def geo_item_def Let_def
      split: option.split sum.split prod.split)

lemma storage_never_fails: "no_failure (check_config_and_storage env cfg)"
  by (simp add: check_config_and_storage_def storage_items_never_fail)

lemma log_item_never_fails:
  "ci_status (log_rotation_item env d l p) \<noteq> Fail" "ci_status (recent_errors_item l c) \<noteq> Fail"
  by (simp_all add: log_rotation_item_def recent_errors_item_def Let_def split: sum.split)

lemma logs_never_fail: "no_failure (check_logs env d)"
proof -
  have "list_all (\<lambda>i. ci_status i \<noteq> Fail) (log_items env d l ps)" for l ps
    by (simp add: log_items_def Let_def log_item_never_fails split: sum.split)
  moreover have "list_all (\<lambda>i. ci_status i \<noteq> Fail) (crash_items env)"
    by (simp add: crash_items_def Let_def split: sum.split)
  ultimately show ?thesis by (simp add: check_logs_def)
qed

lemma resolved_never_fails: "ci_status (resolved_item env u m n r) \<noteq> Fail"
  by (simp add: resolved_item_def Let_def)

lemma kill_switch_never_fails: "ci_status (kill_switch_item n k p) \<noteq> Fail"
  by (simp add: kill_switch_item_def split: KillSwitchProbe.split)

lemma dns_fail:
  "no_failure (check_dns_and_routing env cfg) \<longleftrightarrow>
     (let rc = read_core_runtime_config env; tun = effective_tun_name rc cfg; up = tun_is_up env tun
      in \<not> sink_taken env \<and> \<not> (up \<and> pools_taken env tun) \<and> \<not> hijack_unsafe env \<and>
         \<not> (up \<and> cr_split_mode rc = ''exclude'' \<and> \<not> split_route_present env))"
proof -
  have a: "ci_status (sink_item env) \<noteq> Fail \<longleftrightarrow> \<not> sink_taken env"
    by (simp add: sink_item_def sink_taken_def Let_def)
  have b: "ci_status (pools_item env up tun) \<noteq> Fail \<longleftrightarrow> \<not> (up \<and> pools_taken env tun)" for up tun
    by (auto simp: pools_item_def pools_taken_def Let_def split: option.split)
  have c: "ci_status (split_policy_route_item env up m) \<noteq> Fail \<longleftrightarrow>
      \<not> (up \<and> m = ''exclude'' \<and> \<not> split_route_present env)" for up m
    by (simp add: split_policy_route_item_def)
  have d: "list_all (\<lambda>i. ci_status i \<noteq> Fail) (hijack_items env up m (probe_dns_rules env)) \<longleftrightarrow> \<not> hijack_unsafe env"
    for up m
    by (cases "probe_dns_rules env") (auto simp: hijack_items_def happ_items_def hijack_unsafe_def)
  show ?thesis
    unfolding check_dns_and_routing_def Let_def no_failure_category list_all_append d
    using a b c resolved_never_fails kill_switch_never_fails by auto
qed


section \<open>Looking for words in rules\<close>

text \<open>The readers look for pieces of text: a rule for another mark and another table is taken for the one of
  the split tunnel.\<close>

lemma policy_rule_prefix_match:
  "has_mark1_policy_rule ''32765: from all fwmark 0x10 lookup 1001''"
  by code_simp

end
