(* ===== verification/Writer.thy ===== *)
theory Writer
  imports Frame
begin

text \<open>
  The shared writer of \<open>CoreClient\<close> (\<open>src/core\_client/commands.rs\<close>): the handlers of the interface send
  on it, and the read loop replaces its connection after a loss.  A send holds the lock while it writes the
  length and the text of its frame, piece by piece as the system accepts them; the replacement takes the
  lock too.  The steps of all of them are a relation over the connections there have been.
\<close>

section \<open>The steps\<close>

text \<open>A connection with the bytes the system accepted on it and the messages whose sends reported success.  A
  stream socket on which a write has failed accepts no more.\<close>

record Conn =
  cn_bytes :: bytes
  cn_acked :: "TcpMessage list"
  cn_broken :: bool

definition fresh_conn :: Conn where
  "fresh_conn = \<lparr>cn_bytes = [], cn_acked = [], cn_broken = False\<rparr>"

text \<open>\<open>wr\_busy\<close> is the send that holds the lock: its message, what it has to write, and how much it has written.\<close>

record Wr =
  wr_past :: "Conn list"
  wr_now :: Conn
  wr_busy :: "(TcpMessage \<times> bytes \<times> nat) option"

inductive wr_step :: "(json \<Rightarrow> bytes) \<Rightarrow> Wr \<Rightarrow> Wr \<Rightarrow> bool" for to_vec where
  send_locks: "wr_step to_vec s (s\<lparr>wr_busy := Some (m, out, 0)\<rparr>)"
    if "wr_busy s = None" "send_payload (to_vec (enc_message m)) [] = (Inr (), out)"
| send_refused: "wr_step to_vec s s"
    if "wr_busy s = None" "send_payload (to_vec (enc_message m)) [] = (Inl e, out)"
| write_some: "wr_step to_vec s
      (s\<lparr>wr_now := (wr_now s)\<lparr>cn_bytes := cn_bytes (wr_now s) @ take k (drop n out)\<rparr>, wr_busy := Some (m, out, n + k)\<rparr>)"
    if "wr_busy s = Some (m, out, n)" "n + k \<le> length out" "\<not> cn_broken (wr_now s)"
| write_fails: "wr_step to_vec s (s\<lparr>wr_now := (wr_now s)\<lparr>cn_broken := True\<rparr>, wr_busy := None\<rparr>)"
    if "wr_busy s = Some (m, out, n)"
| send_done: "wr_step to_vec s
      (s\<lparr>wr_now := (wr_now s)\<lparr>cn_acked := cn_acked (wr_now s) @ [m]\<rparr>, wr_busy := None\<rparr>)"
    if "wr_busy s = Some (m, out, length out)" "\<not> cn_broken (wr_now s)"
| replace_writer: "wr_step to_vec s (s\<lparr>wr_past := wr_past s @ [wr_now s], wr_now := fresh_conn\<rparr>)"
    if "wr_busy s = None"

inductive_cases wr_stepE: "wr_step to_vec s t"

definition wr_start :: Wr where
  "wr_start = \<lparr>wr_past = [], wr_now = fresh_conn, wr_busy = None\<rparr>"

definition wr_reachable :: "(json \<Rightarrow> bytes) \<Rightarrow> Wr \<Rightarrow> bool" where
  "wr_reachable to_vec s \<longleftrightarrow> (wr_step to_vec)\<^sup>*\<^sup>* wr_start s"

section \<open>What is on a connection\<close>

definition frames_of :: "(json \<Rightarrow> bytes) \<Rightarrow> TcpMessage list \<Rightarrow> bytes" where
  "frames_of to_vec ms = concat (map (\<lambda>m. frame (to_vec (enc_message m))) ms)"

text \<open>Whole frames of the messages that were sent, and after them what came of one send that was cut.\<close>

definition conn_frames :: "(json \<Rightarrow> bytes) \<Rightarrow> Conn \<Rightarrow> bytes \<Rightarrow> bool" where
  "conn_frames to_vec c part \<longleftrightarrow> cn_bytes c = frames_of to_vec (cn_acked c) @ part"

definition sendable :: "(json \<Rightarrow> bytes) \<Rightarrow> TcpMessage \<Rightarrow> bool" where
  "sendable to_vec m \<longleftrightarrow> (\<exists>out. send_payload (to_vec (enc_message m)) [] = (Inr (), out))"

definition cut_frame :: "(json \<Rightarrow> bytes) \<Rightarrow> bytes \<Rightarrow> bool" where
  "cut_frame to_vec part \<longleftrightarrow> part = [] \<or> (\<exists>m n. sendable to_vec m \<and> part = take n (frame (to_vec (enc_message m))))"

definition conn_ok :: "(json \<Rightarrow> bytes) \<Rightarrow> Conn \<Rightarrow> bool" where
  "conn_ok to_vec c \<longleftrightarrow> list_all (sendable to_vec) (cn_acked c) \<and>
     (\<exists>part. conn_frames to_vec c part \<and> cut_frame to_vec part \<and> (cn_broken c \<or> part = []))"

definition wr_ok :: "(json \<Rightarrow> bytes) \<Rightarrow> Wr \<Rightarrow> bool" where
  "wr_ok to_vec s \<longleftrightarrow> list_all (conn_ok to_vec) (wr_past s) \<and>
     (case wr_busy s of
        None \<Rightarrow> conn_ok to_vec (wr_now s)
      | Some (m, out, n) \<Rightarrow>
          sendable to_vec m \<and> out = frame (to_vec (enc_message m)) \<and> list_all (sendable to_vec) (cn_acked (wr_now s)) \<and>
          (if cn_broken (wr_now s) then n = 0 \<and> conn_ok to_vec (wr_now s)
           else conn_frames to_vec (wr_now s) (take n out)))"

lemma frames_of_snoc: "frames_of to_vec (ms @ [m]) = frames_of to_vec ms @ frame (to_vec (enc_message m))"
  by (simp add: frames_of_def)

lemma conn_ok_fresh: "conn_ok to_vec fresh_conn"
  by (simp add: conn_ok_def fresh_conn_def conn_frames_def cut_frame_def frames_of_def)

lemma wr_ok_step:
  assumes "wr_ok to_vec s" and "wr_step to_vec s t"
  shows "wr_ok to_vec t"
  using assms(2,1)
proof (induction rule: wr_step.induct)
  case (send_locks s m out)
  then show ?case
    using send_payload_Ok [of "to_vec (enc_message m)" "[]" out]
    by (auto simp: wr_ok_def sendable_def conn_ok_def conn_frames_def)
next
  case (write_some s m out n k)
  then have "take (n + k) out = take n out @ take k (drop n out)" by (simp add: take_add)
  with write_some show ?case by (auto simp: wr_ok_def conn_frames_def)
next
  case (write_fails s m out n)
  then show ?case
    by (auto simp: wr_ok_def conn_ok_def conn_frames_def cut_frame_def split: if_splits)
next
  case (send_done s m out)
  then show ?case
    by (auto simp: wr_ok_def conn_ok_def conn_frames_def cut_frame_def frames_of_snoc)
next
  case (replace_writer s)
  then show ?case by (simp add: wr_ok_def conn_ok_fresh)
qed simp

lemma wr_reachable_ok:
  assumes "wr_reachable to_vec s"
  shows "wr_ok to_vec s"
  using assms unfolding wr_reachable_def
proof (induction rule: rtranclp_induct)
  case base
  show ?case by (simp add: wr_ok_def wr_start_def conn_ok_fresh)
next
  case (step s t)
  then show ?case using wr_ok_step by blast
qed

section \<open>What the daemon reads\<close>

lemma recv_all_frames_then:
  "list_all (carries to_vec from_slice) ms \<Longrightarrow>
   recv_all from_slice (frames_of to_vec ms @ rest) = (case recv_all from_slice rest of (xs, e) \<Rightarrow> (ms @ xs, e))"
proof (induction ms)
  case (Cons m ms)
  then show ?case
    using recv_carries [of to_vec from_slice m "frames_of to_vec ms @ rest"]
    by (subst recv_all.simps) (simp add: frames_of_def split: prod.split)
qed (simp add: frames_of_def)

lemma recv_all_short:
  assumes "fits p" and "n < length (frame p)"
  shows "recv_all from_slice (take n (frame p)) = ([], UnexpectedEof)"
proof -
  let ?w = "word_of_nat (length p) :: 32 word"
  have "unat ?w = length p" using assms(1) by (simp add: fits_def unat_length)
  moreover from this have "?w \<noteq> 0" using assms(1) by (auto simp: fits_def)
  moreover have "take n (frame p) = to_be_bytes ?w @ take (n - 4) p" if "4 \<le> n"
    using that by (simp add: frame_def length_to_be_bytes)
  moreover have "\<not> length p \<le> n - 4" if "4 \<le> n"
    using that assms by (auto simp: frame_def length_to_be_bytes fits_def)
  ultimately have "fst (recv from_slice (take n (frame p))) = Inl UnexpectedEof"
    using assms
    by (cases "4 \<le> n")
      (simp_all add: recv_def read_frame_def read_exact_def frame_def length_to_be_bytes from_to_be_bytes fits_def
        Let_def del: word_of_nat_eq_0_iff)
  then show ?thesis by (subst recv_all.simps) (auto split: prod.split)
qed

lemma recv_all_cut:
  assumes "cut_frame to_vec part" and "\<And>m. sendable to_vec m \<Longrightarrow> carries to_vec from_slice m"
  shows "\<exists>extra. recv_all from_slice part = (extra, UnexpectedEof) \<and> length extra \<le> 1 \<and> (part = [] \<longrightarrow> extra = [])"
proof (cases "part = []")
  case False
  then obtain m n where m: "sendable to_vec m" and part: "part = take n (frame (to_vec (enc_message m)))"
    using assms(1) by (auto simp: cut_frame_def)
  have carries: "carries to_vec from_slice m" by (rule assms(2) [OF m])
  show ?thesis
  proof (cases "n < length (frame (to_vec (enc_message m)))")
    case True
    with carries part recv_all_short show ?thesis by (auto simp: carries_def)
  next
    case whole: False
    have "recv_all from_slice (concat (map (\<lambda>m. frame (to_vec (enc_message m))) [m])) = ([m], UnexpectedEof)"
      by (rule recv_all_frames) (simp add: carries)
    with whole part False show ?thesis by simp
  qed
qed (simp add: recv_all_eof)

lemma conn_ok_read:
  assumes "conn_ok to_vec c" and "\<And>m. sendable to_vec m \<Longrightarrow> carries to_vec from_slice m"
  shows "\<exists>extra. recv_all from_slice (cn_bytes c) = (cn_acked c @ extra, UnexpectedEof) \<and> length extra \<le> 1
    \<and> (extra = [] \<or> cn_broken c)"
proof -
  obtain part where part: "cn_bytes c = frames_of to_vec (cn_acked c) @ part" "cut_frame to_vec part"
    "cn_broken c \<or> part = []"
    using assms(1) by (auto simp: conn_ok_def conn_frames_def)
  have "list_all (carries to_vec from_slice) (cn_acked c)"
    using assms by (auto simp: conn_ok_def list_all_iff)
  with recv_all_frames_then [OF this, of part] recv_all_cut [OF part(2) assms(2)] part show ?thesis by auto
qed


text \<open>A message is sent in two pieces, the second fails, and the connection is replaced.\<close>

definition sample_text :: "json \<Rightarrow> bytes" where
  "sample_text j = (if j = enc_message sample_message then [1, 2] else [])"

definition sample_cut :: Wr where
  "sample_cut = \<lparr>wr_past = [\<lparr>cn_bytes = [0, 0, 0], cn_acked = [], cn_broken = True\<rparr>], wr_now = fresh_conn, wr_busy = None\<rparr>"

lemma sample_send: "send_payload (sample_text (enc_message sample_message)) [] = (Inr (), [0, 0, 0, 2, 1, 2])"
  by (simp add: sample_text_def send_payload_def MAX_FRAME_SIZE_def to_be_bytes_def)

lemma sample_cut_reachable: "wr_reachable sample_text sample_cut"
proof -
  let ?a = "\<lparr>wr_past = [], wr_now = fresh_conn, wr_busy = Some (sample_message, [0, 0, 0, 2, 1, 2], 0)\<rparr>"
  let ?b = "?a\<lparr>wr_now := fresh_conn\<lparr>cn_bytes := [0, 0, 0]\<rparr>, wr_busy := Some (sample_message, [0, 0, 0, 2, 1, 2], 3)\<rparr>"
  let ?c = "?b\<lparr>wr_now := (wr_now ?b)\<lparr>cn_broken := True\<rparr>, wr_busy := None\<rparr>"
  have "wr_step sample_text wr_start ?a"
    using send_locks [of wr_start sample_text sample_message "[0, 0, 0, 2, 1, 2]"] sample_send
    by (simp add: wr_start_def)
  moreover have "wr_step sample_text ?a ?b"
    using write_some [of ?a sample_message "[0, 0, 0, 2, 1, 2]" 0 3] by (simp add: fresh_conn_def)
  moreover have "wr_step sample_text ?b ?c"
    using write_fails [of ?b sample_message "[0, 0, 0, 2, 1, 2]" 3] by simp
  moreover have "wr_step sample_text ?c sample_cut"
    using replace_writer [of ?c] by (simp add: sample_cut_def fresh_conn_def)
  ultimately show ?thesis
    unfolding wr_reachable_def
    by (rule rtranclp.rtrancl_into_rtrancl [OF rtranclp.rtrancl_into_rtrancl [OF rtranclp.rtrancl_into_rtrancl
          [OF rtranclp.rtrancl_into_rtrancl [OF rtranclp.rtrancl_refl]]]])
qed


end
