(* ===== verification/InputFocus.thy ===== *)
theory InputFocus
  imports Input
begin

text \<open>
  The keyboard focus: which handlers touch it, and that the interface is never left focused on a
  popup that is gone by anything the user does.
\<close>

definition focus_ok :: "App \<Rightarrow> bool" where
  "focus_ok a \<longleftrightarrow> (popup a = None \<longrightarrow> focus a \<noteq> PopupFocus)"

text \<open>Operations that touch neither the popup nor the focus.\<close>

definition same_focus :: "App \<Rightarrow> App \<Rightarrow> bool" where
  "same_focus a b \<longleftrightarrow> popup b = popup a \<and> focus b = focus a"

lemma same_focus_refl [simp]: "same_focus a a"
  by (simp add: same_focus_def)

lemma same_focus_trans: "same_focus a b \<Longrightarrow> same_focus b c \<Longrightarrow> same_focus a c"
  by (simp add: same_focus_def)

lemma focus_ok_same: "same_focus a b \<Longrightarrow> focus_ok b = focus_ok a"
  by (simp add: same_focus_def focus_ok_def)

lemma same_focus_tree [simp]:
  "same_focus a (clamp_cursor lc a)" "same_focus a (cursor_down lc a)" "same_focus a (cursor_up a)"
  "same_focus a (cursor_top a)" "same_focus a (cursor_bottom lc a)"
  "same_focus a (cursor_page_down lc n a)" "same_focus a (cursor_page_up n a)"
  "same_focus a (toggle_group_collapsed lc i a)" "same_focus a (collapse_group lc i a)"
  "same_focus a (expand_group lc i a)" "same_focus a (fst (move_item_up lc a))"
  "same_focus a (fst (move_item_down lc a))"
  by (auto simp: same_focus_def clamp_cursor_eq cursor_down_def cursor_up_def cursor_top_def cursor_bottom_def
      cursor_page_down_def cursor_page_up_def toggle_group_collapsed_def collapse_group_def expand_group_def
      move_item_up_def move_item_down_def move_group_def move_profile_def set_cursor_def Let_def
      split: option.split TreeNode.split)

lemma same_focus_other [simp]:
  "same_focus a (details_scroll_down n v a)" "same_focus a (details_scroll_up a)"
  "same_focus a (details_scroll_top a)" "same_focus a (details_scroll_bottom n v a)"
  "same_focus a (set_msg m a)" "same_focus a (clear_msg a)" "same_focus a (on_settings f a)"
  "same_focus a (on_logs g a)" "same_focus a (routing_down a)" "same_focus a (mark_pending i j a)"
  "same_focus a (snd (ensure_custom_routing a))" "same_focus a (active_routing_config_mut h a)"
  "same_focus a (sync_routing_group_to_connected a)" "same_focus a (routing_group_next a)"
  "same_focus a (routing_group_prev a)" "same_focus a (start_profile_search a)"
  "same_focus a (click_settings row a)" "same_focus a (mark_profile_details_pending k a)"
  by (auto simp: same_focus_def details_scroll_down_def details_scroll_up_def details_scroll_top_def
      details_scroll_bottom_def set_msg_def clear_msg_def on_settings_def on_logs_def routing_down_def
      mark_pending_def ensure_custom_routing_def active_routing_config_mut_def
      sync_routing_group_to_connected_def routing_group_next_def routing_group_prev_def
      start_profile_search_def click_settings_def mark_profile_details_pending_def Let_def
      split: option.split)

lemma same_focus_iter: "(\<And>a. same_focus a (f a)) \<Longrightarrow> same_focus a ((f ^^ n) a)"
  by (induction n) (auto intro: same_focus_trans)

lemma same_focus_fold: "(\<And>x a. same_focus a (f x a)) \<Longrightarrow> same_focus a (fold f xs a)"
  by (induction xs arbitrary: a) (auto intro: same_focus_trans)

lemmas focus_ok_ops [simp] = same_focus_tree [THEN focus_ok_same] same_focus_other [THEN focus_ok_same]

lemma focus_ok_fields [simp]:
  "focus_ok (a\<lparr>cursor := n\<rparr>) = focus_ok a" "focus_ok (a\<lparr>routing_cursor := n\<rparr>) = focus_ok a"
  "focus_ok (a\<lparr>help_scroll := n\<rparr>) = focus_ok a" "focus_ok (a\<lparr>tab := t\<rparr>) = focus_ok a"
  "focus_ok (a\<lparr>routing_popup := rp\<rparr>) = focus_ok a" "focus_ok (a\<lparr>test_progress := tp\<rparr>) = focus_ok a"
  "focus_ok (a\<lparr>search_mode := b\<rparr>) = focus_ok a" "focus_ok (a\<lparr>search_input := s\<rparr>) = focus_ok a"
  "focus_ok (a\<lparr>search_query := q\<rparr>) = focus_ok a" "focus_ok (a\<lparr>logs_state := ls\<rparr>) = focus_ok a"
  "focus_ok (a\<lparr>traffic_history := h\<rparr>) = focus_ok a" "focus_ok (a\<lparr>pending_update := pu\<rparr>) = focus_ok a"
  "focus_ok (a\<lparr>public_ip := s\<rparr>) = focus_ok a" "focus_ok (a\<lparr>public_ipv6 := s\<rparr>) = focus_ok a"
  "focus_ok (a\<lparr>systemd_enabled := b\<rparr>) = focus_ok a" "focus_ok (a\<lparr>show_ip := b\<rparr>) = focus_ok a"
  "focus_ok (a\<lparr>log_enabled := b\<rparr>) = focus_ok a" "focus_ok (a\<lparr>log_level := s\<rparr>) = focus_ok a"
  "focus_ok (a\<lparr>test_method := s\<rparr>) = focus_ok a" "focus_ok (a\<lparr>check_updates := b\<rparr>) = focus_ok a"
  "focus_ok (a\<lparr>test_config := tc\<rparr>) = focus_ok a"
  by (simp_all add: focus_ok_def)

lemma focus_ok_set [simp]:
  "f \<noteq> PopupFocus \<Longrightarrow> focus_ok (a\<lparr>focus := f\<rparr>)" "focus_ok (a\<lparr>popup := Some p\<rparr>)"
  "f \<noteq> PopupFocus \<Longrightarrow> focus_ok (a\<lparr>popup := q, focus := f\<rparr>)"
  "focus_ok (a\<lparr>popup := Some p, focus := g\<rparr>)"
  "f \<noteq> PopupFocus \<Longrightarrow> focus_ok (a\<lparr>tab := t, focus := f\<rparr>)"
  by (simp_all add: focus_ok_def)

definition well_focused :: "World \<Rightarrow> bool" where
  "well_focused w \<longleftrightarrow> focus_ok (w_app w)"

lemma well_focused_steps [simp]:
  "well_focused (on_app f w) = focus_ok (f (w_app w))" "well_focused (emit ev w) = well_focused w"
  "well_focused (msg m w) = well_focused w" "well_focused (save_config w) = well_focused w"
  "well_focused (on_cfg g w) = well_focused w" "well_focused (w\<lparr>w_app := a\<rparr>) = focus_ok a"
  "well_focused (w\<lparr>w_theme := n\<rparr>) = well_focused w"
  "well_focused (open_popup p w)" "well_focused (close_popup w)" "well_focused (set_popup (Some p) w)"
  "fo \<noteq> PopupFocus \<Longrightarrow> well_focused (set_focus fo w)"
  "well_focused (set_routing_popup rp w) = well_focused w"
  by (simp_all add: well_focused_def open_popup_def close_popup_def set_popup_def set_focus_def
      set_routing_popup_def)

lemma well_focused_save [simp]: "well_focused (snd (save env w)) = well_focused w"
  by (simp add: save_def split: option.split)

lemma well_focused_ask [simp]: "well_focused (ask_routing w) = well_focused w"
  "well_focused (push_routing w) = well_focused w"
  by (simp_all add: ask_routing_def push_routing_def)

lemma well_focused_enter [simp]: "well_focused (enter_routing w) = well_focused w"
  by (simp add: enter_routing_def Let_def well_focused_def)

lemma well_focused_switch [simp]: "well_focused (switch_tab t w)" "well_focused (go_tab t w)"
  by (simp_all add: switch_tab_def go_tab_def Let_def)

lemma focus_ok_moves [simp]:
  "focus_ok a \<Longrightarrow> focus_ok (move_down env a)" "focus_ok a \<Longrightarrow> focus_ok (move_up a)"
  "focus_ok a \<Longrightarrow> focus_ok (move_left env a)" "focus_ok a \<Longrightarrow> focus_ok (move_right env a)"
  "focus_ok a \<Longrightarrow> focus_ok (move_top a)" "focus_ok a \<Longrightarrow> focus_ok (move_bottom env a)"
  "focus_ok a \<Longrightarrow> focus_ok (dismiss env a)" "focus_ok a \<Longrightarrow> focus_ok (toggle_focus lc a)"
  by (simp_all add: move_down_def move_up_def move_left_def move_right_def move_top_def move_bottom_def
      dismiss_def details_down_def split: ActiveTab.split Focus.split option.split TreeNode.split)
    (auto simp: toggle_focus_def focus_ok_def split: Focus.split)

lemma focus_ok_pages [simp]:
  "focus_ok a \<Longrightarrow> focus_ok (page_down env a)" "focus_ok a \<Longrightarrow> focus_ok (page_up a)"
  by (simp_all add: page_down_def page_up_def details_down_def
      same_focus_iter [THEN focus_ok_same] split: ActiveTab.split Focus.split)

lemma well_focused_app: "well_focused w \<Longrightarrow> focus_ok (w_app w)"
  by (simp add: well_focused_def)

lemma navigation_focus:
  assumes "well_focused w" and "navigation env act w = Some (q, w')"
  shows "well_focused w'"
  using assms well_focused_app [OF assms(1)]
  by (cases act) (auto simp: navigation_def toggle_tun_def Let_def)

lemma well_focused_fold_send [simp]: "well_focused (fold send cs w) = well_focused w"
  by (simp add: well_focused_def w_out_fold_send)

lemma well_focused_batch [simp]: "well_focused w \<Longrightarrow> well_focused (run_test_batch xs w)"
proof -
  have "same_focus a ((case x of (g, p) \<Rightarrow> mark_pending g p) a)" for x a by (cases x) simp
  then have "focus_ok (fold (\<lambda>(g, p). mark_pending g p) xs a) = focus_ok a" for a
    by (rule same_focus_fold [THEN focus_ok_same])
  then show "well_focused w \<Longrightarrow> well_focused (run_test_batch xs w)"
    by (simp add: run_test_batch_def Let_def well_focused_app)
qed

lemma toggle_group_here_focus [simp]: "focus_ok (toggle_group_here env a) = focus_ok a"
  by (simp add: toggle_group_here_def split: option.split TreeNode.split)

lemma move_item_focus:
  assumes "well_focused w" and "\<And>a. same_focus a (fst (f a))"
  shows "well_focused (move_item f dir w)"
  using assms(1) focus_ok_same [OF assms(2), of "w_app w"]
  by (auto simp: move_item_def Let_def case_prod_beta well_focused_app
      split: option.split ItemMoveAction.split)

lemma profiles_focus:
  assumes "well_focused w" and "profiles_handle env act w = Some (q, w')"
  shows "well_focused w'"
  using assms well_focused_app [OF assms(1)]
  by (cases act)
    (auto simp: profiles_handle_def connect_here_def add_profile_here_def update_subscription_here_def
      edit_item_def copy_uri_def delete_item_def delete_group_here_def move_item_focus Let_def
      split: option.splits ClipResult.splits if_splits)

lemma toggle_rule_focus [simp]: "well_focused w \<Longrightarrow> well_focused (toggle_rule_at b i w)"
  by (simp add: toggle_rule_at_def ensure_custom_def edit_rules_def Let_def well_focused_app
      split: option.split)

lemma routing_focus:
  assumes "well_focused w" and "routing_handle env act w = Some (q, w')"
  shows "well_focused w'"
  using assms well_focused_app [OF assms(1)]
  by (cases act)
    (auto simp: routing_handle_def cycle_routing_mode_def toggle_routing_source_def import_happ_def
      open_happ_profiles_def Let_def split: option.splits if_splits)

lemma persist_focus [simp]: "well_focused (persist_and_sync_test_config env w) = well_focused w"
  by (simp add: persist_and_sync_test_config_def Let_def)

lemma focus_settings_rows [simp]:
  "well_focused w \<Longrightarrow> well_focused (toggle_systemd env w)"
  "well_focused w \<Longrightarrow> well_focused (change_theme env next w)"
  "well_focused w \<Longrightarrow> well_focused (toggle_show_ip env w)"
  "well_focused w \<Longrightarrow> well_focused (toggle_log_enabled env w)"
  "well_focused w \<Longrightarrow> well_focused (cycle_log_level env w)"
  "well_focused w \<Longrightarrow> well_focused (send_or_tell env c w)"
  "well_focused w \<Longrightarrow> well_focused (cycle_test_method env w)"
  "well_focused w \<Longrightarrow> well_focused (toggle_check_updates env w)"
  by (simp_all add: toggle_systemd_def change_theme_def toggle_show_ip_def toggle_log_enabled_def
      cycle_log_level_def send_or_tell_def cycle_test_method_def toggle_check_updates_def case_prod_beta
      Let_def well_focused_app split: option.split)

lemma focus_test_rows [simp]:
  "well_focused w \<Longrightarrow> well_focused (cycle_samples env w)"
  "well_focused w \<Longrightarrow> well_focused (cycle_concurrency env w)"
  "well_focused w \<Longrightarrow> well_focused (cycle_timeout env w)"
  "well_focused w \<Longrightarrow> well_focused (cycle_endpoint env w)"
  "well_focused w \<Longrightarrow> well_focused (toggle_auto_test env w)"
  by (simp_all add: cycle_samples_def cycle_concurrency_def cycle_timeout_def cycle_endpoint_def
      toggle_auto_test_def on_test_config_def Let_def well_focused_app)

lemma well_focused_if: "well_focused x \<Longrightarrow> well_focused y \<Longrightarrow> well_focused (if c then x else y)"
  by simp

lemma activate_focus: "well_focused w \<Longrightarrow> well_focused (settings_activate env row w)"
  unfolding settings_activate_def Let_def
  by (intro well_focused_if;
      simp only: well_focused_steps focus_settings_rows focus_test_rows simp_thms split: option.split)

lemma settings_focus:
  assumes "well_focused w" and "settings_handle env act w = Some (q, w')"
  shows "well_focused w'"
  using assms activate_focus [OF assms(1)]
  by (cases act) (auto simp: settings_handle_def Let_def)

lemma logs_focus: "well_focused w \<Longrightarrow> well_focused (snd (logs_handle env act w))"
  by (cases act) (simp_all add: logs_handle_def Let_def well_focused_app)

lemma run_action_focus:
  assumes "well_focused w"
  shows "well_focused (snd (run_action env act w))"
proof -
  have "well_focused (snd r)" if "navigation env act w = Some r" for r
    using navigation_focus [OF assms, of env act "fst r" "snd r"] that by simp
  moreover have "well_focused (snd r)" if "profiles_handle env act w = Some r" for r
    using profiles_focus [OF assms, of env act "fst r" "snd r"] that by simp
  moreover have "well_focused (snd r)" if "routing_handle env act w = Some r" for r
    using routing_focus [OF assms, of env act "fst r" "snd r"] that by simp
  moreover have "well_focused (snd r)" if "settings_handle env act w = Some r" for r
    using settings_focus [OF assms, of env act "fst r" "snd r"] that by simp
  ultimately show ?thesis
    using logs_focus [OF assms, of env act] unfolding run_action_def by (simp split: option.split)
qed

section \<open>Popups\<close>

lemma popup_focus_general:
  "well_focused (tab_switcher cur key w)"
  "well_focused (recovery c d day key w)"
  "well_focused (update_popup env info key w)"
  "well_focused (help_popup key w)"
  "well_focused (confirm_delete g p key w)"
  "well_focused (confirm_delete_group g key w)"
  "well_focused (confirm_clear_logs env src key w)"
  by (simp_all add: tab_switcher_def recovery_def update_popup_def help_popup_def confirm_delete_def
      confirm_delete_group_def confirm_clear_logs_def Let_def split: prod.split option.split)

lemma edit_in_Some: "edit_in env s cur key k = Some r \<Longrightarrow> \<exists>s' c'. r = k s' c'"
  by (auto simp: edit_in_def split: option.splits)

lemma popup_focus_fields:
  "import_popup env input cur key w = Some w' \<Longrightarrow> well_focused w'"
  "user_agent_popup env input cur key w = Some w' \<Longrightarrow> well_focused w'"
  "tun_name_popup env input cur key w = Some w' \<Longrightarrow> well_focused w'"
  "profile_name_popup env input cur g p key w = Some w' \<Longrightarrow> well_focused w'"
  "add_group env key url cur w = Some w' \<Longrightarrow> well_focused w'"
  by (auto simp: import_popup_def user_agent_popup_def tun_name_popup_def profile_name_popup_def
      add_group_def Let_def split: if_splits dest!: edit_in_Some)

lemma popup_focus_subscription:
  "edit_subscription env key name url g cur field auto hours prov w = Some w' \<Longrightarrow> well_focused w'"
  by (auto simp: edit_subscription_def Let_def split: if_splits dest!: edit_in_Some)

lemma popup_input_focus:
  assumes "popup_input env key w = Some w'" and "popup (w_app w) \<noteq> None"
  shows "well_focused w'"
proof -
  obtain p where "popup (w_app w) = Some p" using assms(2) by blast
  with assms(1) show ?thesis
    by (cases p) (auto simp: popup_input_def Let_def popup_focus_general
        dest: popup_focus_fields popup_focus_subscription)
qed

lemma toggle_preset_focus [simp]: "well_focused w \<Longrightarrow> well_focused (toggle_preset_at i w)"
  by (simp add: toggle_preset_at_def ensure_custom_def Let_def well_focused_app split: option.split)

lemma edit_rules_focus [simp]:
  "well_focused w \<Longrightarrow> well_focused (edit_rules f w)" "well_focused w \<Longrightarrow> well_focused (ensure_custom w)"
  by (simp_all add: edit_rules_def ensure_custom_def well_focused_app)

lemma focus_if [simp]: "focus_ok (if c then a else b) = (if c then focus_ok a else focus_ok b)"
  by simp

lemma routing_popup_focus:
  assumes "well_focused w" and "routing_popup_input env key w = Some w'"
  shows "well_focused w'"
proof -
  define v where "v = set_routing_popup None w"
  have v: "well_focused v" using assms(1) by (simp add: v_def)
  have "well_focused u" if "rconfirm_delete i key v = Some u" for i u
    using that v by (auto simp: rconfirm_delete_def Let_def well_focused_app split: if_splits option.splits)
  moreover have "well_focused u" if u: "radd env f key v = Some u" for f u
  proof -
    obtain x r where "handle_routing_form env key f = Some (x, r)"
      using u by (cases "handle_routing_form env key f") (auto simp: radd_def)
    with u v show ?thesis
      by (cases r) (auto simp: radd_def Let_def Option.bind_eq_Some_conv split: prod.splits)
  qed
  moreover have "well_focused u" if u: "redit env i f key v = Some u" for i f u
  proof -
    obtain x r where "handle_routing_form env key f = Some (x, r)"
      using u by (cases "handle_routing_form env key f") (auto simp: redit_def)
    with u v show ?thesis
      by (cases r) (auto simp: redit_def Let_def Option.bind_eq_Some_conv split: prod.splits if_splits)
  qed
  moreover have "well_focused (rpresets cur key v)" for cur
    using v by (simp add: rpresets_def Let_def)
  moreover have "well_focused (rhapp cur key v)" for cur
    using v by (simp add: rhapp_def Let_def split: option.split prod.split)
  ultimately show ?thesis
    using assms(2) v by (auto simp: routing_popup_input_def Let_def v_def [symmetric]
        split: option.splits RoutingPopup.splits)
qed

section \<open>Mouse and ticks\<close>

lemma connect_here_focus [simp]: "well_focused w \<Longrightarrow> well_focused (connect_here env w)"
  by (simp add: connect_here_def well_focused_app split: option.split)

lemma mouse_pieces [simp]:
  "well_focused w \<Longrightarrow> well_focused (mouse_tab_switcher m w)"
  "well_focused w \<Longrightarrow> well_focused (mouse_presets cur m w)"
  "well_focused w \<Longrightarrow> well_focused (snd (click_top env col w))"
  "well_focused w \<Longrightarrow> well_focused (click_profiles env col row w)"
  "well_focused w \<Longrightarrow> well_focused (click_routing row w)"
  "well_focused w \<Longrightarrow> well_focused (toggle_tun w)"
  by (simp_all add: mouse_tab_switcher_def mouse_presets_def click_top_def click_profiles_def click_tree_def
      click_routing_def toggle_tun_def Let_def well_focused_app split: MouseKind.split option.split)

lemma focus_ok_scroll [simp]:
  "focus_ok (mouse_scroll_down env a) = focus_ok a" "focus_ok (mouse_scroll_up a) = focus_ok a"
  by (simp_all add: mouse_scroll_down_def mouse_scroll_up_def split: ActiveTab.split)

lemma mouse_focus: "well_focused w \<Longrightarrow> well_focused (snd (handle_mouse_input env m w))"
  by (simp add: handle_mouse_input_def left_click_def Let_def well_focused_app
      split: option.split Popup.split RoutingPopup.split MouseKind.split ActiveTab.split)

lemma focus_ok_tick: "focus_ok a \<Longrightarrow> focus_ok (tick env a)"
  by (simp add: tick_def promote_pending_update_def Let_def split: option.split)



end
