(* ===== verification/Draw.thy ===== *)
theory Draw
  imports App AppEvents AppRouting LogFile Decimal
begin

text \<open>
  What the drawing code shares: the styles and themes of \<open>src/ui/theme.rs\<close>, the row helpers of
  \<open>src/ui/app/helpers.rs\<close>, and a frame as the list of the widgets drawn into it, each with its area.
  ratatui's solver, the inside of a bordered block, text widths, case mappings, dates and the clock are
  the record \<open>UiEnv\<close>.
\<close>

section \<open>What drawing relies on\<close>

record UiEnv =
  ui_split :: splitter
  ui_inner :: "Rect \<Rightarrow> Rect"
  ui_width :: "string \<Rightarrow> nat"
  ui_lc :: "string \<Rightarrow> string"
  ui_uc :: "string \<Rightarrow> string"
  ui_now :: int
  ui_time :: "int \<Rightarrow> string"
  ui_expiry :: "int \<Rightarrow> (string \<times> int) option"
  ui_version :: string
  ui_b64 :: "string \<Rightarrow> string option"
  ui_b64_std :: "string \<Rightarrow> string option"
  ui_json :: "string \<Rightarrow> json option"

text \<open>Documented of ratatui: the parts of a split and the inside of a block lie in the area they are taken
  from, and there is one part for each constraint.\<close>

definition toolkit_ok :: "UiEnv \<Rightarrow> bool" where
  "toolkit_ok ui \<longleftrightarrow>
     (\<forall>r. inside (ui_inner ui r) r) \<and>
     (\<forall>d cs r. length (ui_split ui d cs r) = length cs \<and> (\<forall>i<length cs. inside (ui_split ui d cs r ! i) r))"

section \<open>Characters that are not ASCII\<close>

definition g_dot :: string where "g_dot = [CHR 0xE2, CHR 0x97, CHR 0x8F]"
definition g_ring :: string where "g_ring = [CHR 0xE2, CHR 0x97, CHR 0x8B]"
definition g_bar :: string where "g_bar = [CHR 0xE2, CHR 0x94, CHR 0x82]"
definition g_dash :: string where "g_dash = [CHR 0xE2, CHR 0x94, CHR 0x80]"
definition g_mid :: string where "g_mid = [CHR 0xC2, CHR 0xB7]"
definition g_right :: string where "g_right = [CHR 0xE2, CHR 0x86, CHR 0x92]"
definition g_left :: string where "g_left = [CHR 0xE2, CHR 0x86, CHR 0x90]"
definition g_up :: string where "g_up = [CHR 0xE2, CHR 0x86, CHR 0x91]"
definition g_down :: string where "g_down = [CHR 0xE2, CHR 0x86, CHR 0x93]"
definition g_fold :: string where "g_fold = [CHR 0xE2, CHR 0x96, CHR 0xB8]"
definition g_open :: string where "g_open = [CHR 0xE2, CHR 0x96, CHR 0xBE]"
definition g_cycle :: string where "g_cycle = [CHR 0xE2, CHR 0x86, CHR 0xBB]"
definition g_warn :: string where "g_warn = [CHR 0xE2, CHR 0x9A, CHR 0xA0]"
definition g_block :: string where "g_block = [CHR 0xE2, CHR 0x96, CHR 0x88]"
definition g_inf :: string where "g_inf = [CHR 0xE2, CHR 0x88, CHR 0x9E]"
definition g_pm :: string where "g_pm = [CHR 0xC2, CHR 0xB1]"
definition g_pen :: string where "g_pen = [CHR 0xE2, CHR 0x9C, CHR 0x8E]"
definition g_enter :: string where "g_enter = [CHR 0xE2, CHR 0x8F, CHR 0x8E]"
definition g_tri_up :: string where "g_tri_up = [CHR 0xE2, CHR 0x96, CHR 0xB2]"
definition g_tri_down :: string where "g_tri_down = [CHR 0xE2, CHR 0x96, CHR 0xBC]"
definition g_tri_left :: string where "g_tri_left = [CHR 0xE2, CHR 0x97, CHR 0x84]"
definition g_tri_right :: string where "g_tri_right = [CHR 0xE2, CHR 0x96, CHR 0xBA]"
definition g_bolt :: string where "g_bolt = [CHR 0xE2, CHR 0x9A, CHR 0xA1]"

lemmas glyph_defs = g_dot_def g_ring_def g_bar_def g_dash_def g_mid_def g_right_def g_left_def g_up_def g_down_def
  g_fold_def g_open_def g_cycle_def g_warn_def g_block_def g_inf_def g_pm_def g_pen_def g_enter_def
  g_tri_up_def g_tri_down_def g_tri_left_def g_tri_right_def g_bolt_def ellipsis_def em_dash_def

text \<open>\<open>chars().take(n).collect()\<close>, and \<open>{:<n}\<close> and \<open>{:>n}\<close>, which count characters.\<close>

definition take_chars :: "nat \<Rightarrow> string \<Rightarrow> string" where
  "take_chars n s = concat (take n (uchars s))"

definition pad_right :: "nat \<Rightarrow> string \<Rightarrow> string" where
  "pad_right n s = s @ replicate (n - char_count s) (CHR '' '')"

definition pad_left :: "nat \<Rightarrow> string \<Rightarrow> string" where
  "pad_left n s = replicate (n - char_count s) (CHR '' '') @ s"

section \<open>Themes and styles\<close>

datatype Slot = ColBg | ColSurface | ColAccent | ColAccentGlow | ColText | ColDim | ColFaint | ColSuccess
  | ColWarn | ColError | ColDisconnected | ColBorder | ColBorderActive

text \<open>A style names the colours by their place in the current theme.\<close>

record Style =
  sy_fg :: "Slot option"
  sy_bg :: "Slot option"
  sy_bold :: bool

definition unstyled :: Style where
  "unstyled = \<lparr>sy_fg = None, sy_bg = None, sy_bold = False\<rparr>"

definition fg :: "Slot \<Rightarrow> Style" where "fg c = unstyled\<lparr>sy_fg := Some c\<rparr>"
definition on_bg :: "Slot \<Rightarrow> Style" where "on_bg c = unstyled\<lparr>sy_bg := Some c\<rparr>"
definition bold :: "Style \<Rightarrow> Style" where "bold s = s\<lparr>sy_bold := True\<rparr>"

definition s_text :: Style where "s_text = fg ColText"
definition s_dim :: Style where "s_dim = fg ColDim"
definition s_faint :: Style where "s_faint = fg ColFaint"
definition s_accent :: Style where "s_accent = fg ColAccent"
definition s_accent_bold :: Style where "s_accent_bold = fg ColAccentGlow"
definition s_success :: Style where "s_success = fg ColSuccess"
definition s_warn :: Style where "s_warn = fg ColWarn"
definition s_error :: Style where "s_error = fg ColError"
definition s_disconnected :: Style where "s_disconnected = fg ColDisconnected"
definition s_bg :: Style where "s_bg = (on_bg ColBg)\<lparr>sy_fg := Some ColText\<rparr>"
definition s_surface :: Style where "s_surface = (on_bg ColSurface)\<lparr>sy_fg := Some ColText\<rparr>"
definition traffic_down :: Slot where "traffic_down = ColSuccess"
definition traffic_up :: Slot where "traffic_up = ColError"

text \<open>The colours of the themes, in the order of the table.\<close>

type_synonym Rgb = "nat \<times> nat \<times> nat"

definition slots :: "Slot list" where
  "slots = [ColBg, ColSurface, ColAccent, ColAccentGlow, ColText, ColDim, ColFaint,
     ColSuccess, ColWarn, ColError, ColDisconnected, ColBorder, ColBorderActive]"

definition THEME_COLORS :: "(string \<times> Rgb list) list" where
  "THEME_COLORS =
    [(''graphite-dark'',
       [(18, 18, 20), (32, 33, 37), (220, 224, 230), (255, 255, 255), (240, 242, 245), (150, 155, 165), (95, 100, 110),
        (74, 222, 128), (251, 191, 36), (248, 113, 113), (105, 110, 120), (46, 48, 54), (210, 215, 225)]),
     (''graphite-light'',
       [(246, 247, 249), (230, 233, 238), (25, 26, 30), (0, 0, 0), (24, 25, 28), (95, 102, 115), (145, 152, 163),
        (22, 163, 74), (217, 119, 6), (220, 38, 38), (130, 138, 150), (205, 210, 218), (25, 26, 30)]),
     (''tokyo-night'',
       [(26, 27, 38), (36, 40, 59), (122, 162, 247), (125, 207, 255), (192, 202, 245), (154, 165, 206), (86, 95, 137),
        (158, 206, 106), (224, 175, 104), (247, 118, 142), (86, 95, 137), (59, 66, 97), (125, 207, 255)]),
     (''dracula'',
       [(40, 42, 54), (68, 71, 90), (189, 147, 249), (255, 121, 198), (248, 248, 242), (164, 177, 214), (98, 114, 164),
        (80, 250, 123), (241, 250, 140), (255, 85, 85), (98, 114, 164), (68, 71, 90), (189, 147, 249)])]"

definition color_of :: "nat \<Rightarrow> Slot \<Rightarrow> Rgb option" where
  "color_of theme c = map_of (zip slots (snd (THEME_COLORS ! theme))) c"

section \<open>Texts and widgets\<close>

type_synonym Span = "string \<times> Style"
type_synonym Line = "Span list"

text \<open>A text without style, split at its line ends as \<open>Paragraph::new\<close> does.\<close>

definition raw_lines :: "string \<Rightarrow> Line list" where
  "raw_lines s = map (\<lambda>l. [(l, unstyled)]) (str_lines s)"

datatype Align = AlignLeft | AlignCenter | AlignRight

text \<open>A block here always has all four borders.\<close>

record Block =
  bk_title :: string
  bk_bottom :: "(Align \<times> Line) option"
  bk_rounded :: bool
  bk_border :: Style
  bk_style :: Style

record Para =
  pg_lines :: "Line list"
  pg_style :: Style
  pg_align :: Align
  pg_wrap :: bool
  pg_block :: "Block option"

record ItemList =
  li_items :: "(Line list \<times> Style) list"
  li_style :: Style
  li_selected :: "nat option"
  li_offset :: nat
  li_highlight :: Style
  li_padding :: nat

record RowTable =
  tb_header :: "Span list"
  tb_rows :: "Span list list"
  tb_widths :: "Constraint list"
  tb_highlight :: Style
  tb_symbol :: string
  tb_selected :: nat

record Axes =
  ax_x_title :: Span
  ax_x_labels :: "Span list"
  ax_x_max :: nat
  ax_y_title :: Span
  ax_y_labels :: "Span list"
  ax_y_max :: real
  ax_style :: Style

datatype Widget =
    WClear
  | WFill Style
  | WBlock Block
  | WPara Para
  | WList ItemList
  | WTable RowTable
  | WChart Block "(string \<times> Style \<times> (nat \<times> real) list) list" Axes

type_synonym Drawing = "(Rect \<times> Widget) list"

definition framed :: "string \<Rightarrow> Slot \<Rightarrow> Style \<Rightarrow> Block" where
  "framed title border style =
     \<lparr>bk_title = title, bk_bottom = None, bk_rounded = True, bk_border = fg border, bk_style = style\<rparr>"

definition plain_box :: "Style \<Rightarrow> Block" where
  "plain_box border = \<lparr>bk_title = [], bk_bottom = None, bk_rounded = False, bk_border = border, bk_style = unstyled\<rparr>"

definition para :: "Line list \<Rightarrow> Para" where
  "para ls = \<lparr>pg_lines = ls, pg_style = unstyled, pg_align = AlignLeft, pg_wrap = False, pg_block = None\<rparr>"

definition text_para :: "Style \<Rightarrow> Align \<Rightarrow> string \<Rightarrow> Widget" where
  "text_para style al s = WPara ((para (raw_lines s))\<lparr>pg_style := style, pg_align := al\<rparr>)"

definition item_list :: "(Line list \<times> Style) list \<Rightarrow> ItemList" where
  "item_list items = \<lparr>li_items = items, li_style = unstyled, li_selected = None, li_offset = 0,
     li_highlight = unstyled, li_padding = 0\<rparr>"

section \<open>Rows and labels\<close>

definition section_header :: "string \<Rightarrow> Line" where
  "section_header title = [((g_dash @ g_dash @ g_dash @ '' '') @ title @ ('' '' @ g_dash @ g_dash @ g_dash), s_accent)]"

definition kv_row_span :: "string \<Rightarrow> Span \<Rightarrow> Line" where
  "kv_row_span key v = [(pad_left 11 key @ ''  '', s_faint), v]"

definition kv_row :: "string \<Rightarrow> string \<Rightarrow> Line" where
  "kv_row key v = [(pad_left 11 key @ ''  '', s_faint), (v, s_text)]"

definition format_bytes :: "int \<Rightarrow> string" where
  "format_bytes bytes =
     (let n = as_f64 (nat bytes)
      in if bytes = 0 then ''0''
         else if n < 1024 then show_int bytes @ '' B''
         else if n < 1024 ^ 2 then one_decimal n 1024 @ '' KB''
         else if n < 1024 ^ 3 then one_decimal n (1024 ^ 2) @ '' MB''
         else if n < 1024 ^ 4 then one_decimal n (1024 ^ 3) @ '' GB''
         else one_decimal n (1024 ^ 4) @ '' TB'')"

text \<open>\<open>ui\_expiry\<close> is the date of a timestamp and the whole days until it, if chrono can represent it.\<close>

definition format_expiry :: "UiEnv \<Rightarrow> int \<Rightarrow> string" where
  "format_expiry ui ts =
     (case ui_expiry ui ts of
        None \<Rightarrow> em_dash
      | Some (date, days) \<Rightarrow>
          (if days < 0 then date @ '' (expired)''
           else if days = 0 then date @ '' (today)''
           else if days = 1 then date @ '' (tomorrow)''
           else date @ '' ('' @ show_int days @ ''d left)''))"

section \<open>Inside an area\<close>

definition drawn_in :: "Rect \<Rightarrow> Drawing \<Rightarrow> bool" where
  "drawn_in area d \<longleftrightarrow> list_all (\<lambda>x. inside (fst x) area) d"

lemma drawn_in_simps [simp]:
  "drawn_in a []" "drawn_in a ((r, x) # d) \<longleftrightarrow> inside r a \<and> drawn_in a d" "drawn_in a (d @ e) \<longleftrightarrow> drawn_in a d \<and> drawn_in a e"
  by (simp_all add: drawn_in_def)

lemma inside_refl [simp]: "inside r r"
  by (simp add: inside_def)

lemma inside_trans: "inside r s \<Longrightarrow> inside s t \<Longrightarrow> inside r t"
  by (auto simp: inside_def)

lemma drawn_in_mono: "drawn_in a d \<Longrightarrow> inside a b \<Longrightarrow> drawn_in b d"
  by (auto simp: drawn_in_def list_all_iff dest: inside_trans)

lemma toolkit_inner: "toolkit_ok ui \<Longrightarrow> inside r a \<Longrightarrow> inside (ui_inner ui r) a"
  by (meson toolkit_ok_def inside_trans)

lemma toolkit_split:
  "toolkit_ok ui \<Longrightarrow> inside r a \<Longrightarrow> i < length cs \<Longrightarrow> inside (ui_split ui d cs r ! i) a"
  by (meson toolkit_ok_def inside_trans)

text \<open>A toolkit that satisfies the laws: blocks have one cell of border, and every part of a split is empty
  but the first, which is the whole.\<close>

definition simple_inner :: "Rect \<Rightarrow> Rect" where
  "simple_inner r = \<lparr>rx = min (rx r + 1) (rx r + rwidth r), ry = min (ry r + 1) (ry r + rheight r),
     rwidth = rwidth r - 2, rheight = rheight r - 2\<rparr>"

definition simple_split :: splitter where
  "simple_split d cs r = map (\<lambda>i. if i = 0 then r else r\<lparr>rwidth := 0, rheight := 0\<rparr>) [0..<length cs]"

definition simple_ui :: UiEnv where
  "simple_ui = \<lparr>ui_split = simple_split, ui_inner = simple_inner, ui_width = char_count, ui_lc = id, ui_uc = id,
     ui_now = 0, ui_time = show_int, ui_expiry = (\<lambda>_. None), ui_version = ''1.0'', ui_b64 = (\<lambda>_. None),
     ui_b64_std = (\<lambda>_. None), ui_json = (\<lambda>_. None)\<rparr>"

lemma simple_ui_ok: "toolkit_ok simple_ui"
  by (auto simp: toolkit_ok_def simple_ui_def simple_inner_def simple_split_def inside_def)

end
