(* ===== verification/TreeView.thy ===== *)
theory TreeView
  imports Draw AppTree
begin

text \<open>
  \<open>src/ui/app/tree.rs\<close>: the list of groups and profiles, and the list of search results.  The rows are
  collected by the loops of the code, with the position that is compared with the cursor.
\<close>

section \<open>One row\<close>

definition conn_mark :: "i32 \<times> i32 \<Rightarrow> Profile \<Rightarrow> Span" where
  "conn_mark conn p = (if p_group_id p = fst conn \<and> p_id p = snd conn then ((g_dot @ '' ''), s_success) else (''  '', s_dim))"

definition tree_name :: "nat \<Rightarrow> Profile \<Rightarrow> string" where
  "tree_name width p =
     (let name = (if p_name p = [] then if p_address p = [] then ''Unknown'' else p_address p else p_name p);
          avail = width - 18
      in if avail > 3 \<and> char_count name > avail then take_chars (avail - 1) name @ ellipsis else name)"

definition proto_span :: "UiEnv \<Rightarrow> Profile \<Rightarrow> Span" where
  "proto_span ui p = ('' ['' @ ui_uc ui (if p_protocol p = [] then em_dash else p_protocol p) @ '']'', s_faint)"

definition test_span :: "Profile \<Rightarrow> Span" where
  "test_span p =
     (let ms = p_test_result p; label = '' '' @ show_int ms @ ''ms''
      in if ms = - 2 then ('' ...'', s_dim)
         else if ms = - 1 then ('' err'', s_error)
         else if ms = 0 then ([], s_dim)
         else if ms < 500 then (label, s_success)
         else if ms < 1000 then (label, s_warn)
         else (label, s_error))"

definition cipher_mark :: "UiEnv \<Rightarrow> Profile \<Rightarrow> Span" where
  "cipher_mark ui p =
     (if starts_with ''ss://'' (p_uri p)
      then (case parse_ss_method (ui_b64_std ui) (p_uri p) of
              Some m \<Rightarrow> if is_insecure_ss_cipher m then (('' '' @ g_warn), s_error) else ([], s_dim)
            | None \<Rightarrow> ([], s_dim))
      else ([], s_dim))"

text \<open>The last argument is whether the cursor is on the row and the list has the focus.\<close>

definition tree_profile_line :: "UiEnv \<Rightarrow> i32 \<times> i32 \<Rightarrow> nat \<Rightarrow> Profile \<Rightarrow> bool \<Rightarrow> Line" where
  "tree_profile_line ui conn width p sel =
     [(''  '', s_dim), conn_mark conn p, (tree_name width p, if sel then s_text else s_dim), cipher_mark ui p,
      proto_span ui p, test_span p]"

definition match_line :: "UiEnv \<Rightarrow> i32 \<times> i32 \<Rightarrow> nat \<Rightarrow> Profile \<Rightarrow> bool \<Rightarrow> Line" where
  "match_line ui conn width p sel =
     [conn_mark conn p, (tree_name width p, if sel then s_text else s_dim), proto_span ui p, test_span p]"

definition group_line :: "i32 \<times> i32 \<Rightarrow> i32 set \<Rightarrow> GroupWithProfiles \<Rightarrow> bool \<Rightarrow> Line" where
  "group_line conn collapsed g sel =
     (let gr = gw_group g
      in [((if g_id gr \<in> collapsed then g_fold else g_open) @ (if g_subscription_url gr \<noteq> [] then ('' '' @ g_cycle) else []),
           if sel then s_accent_bold else s_accent),
          ('' '' @ g_name gr @ (if g_subscription_format gr = ''json'' then '' [JSON]'' else []) @ '' ('' @
            show_nat (length (gw_profiles g)) @ '')'', s_text)]
         @ (if list_ex (\<lambda>p. p_group_id p = fst conn \<and> p_id p = snd conn) (gw_profiles g)
            then [(('' '' @ g_dot), s_success)] else []))"

section \<open>The loops\<close>

record Rows =
  rw_items :: "Line list"
  rw_cursor :: nat
  rw_pos :: nat

definition no_rows :: Rows where
  "no_rows = \<lparr>rw_items = [], rw_cursor = 0, rw_pos = 0\<rparr>"

definition push_row :: "nat \<Rightarrow> bool \<Rightarrow> (bool \<Rightarrow> Line) \<Rightarrow> Rows \<Rightarrow> Rows" where
  "push_row cur left_focus line acc =
     \<lparr>rw_items = rw_items acc @ [line (rw_pos acc = cur \<and> left_focus)],
      rw_cursor = (if rw_pos acc = cur then length (rw_items acc) else rw_cursor acc),
      rw_pos = rw_pos acc + 1\<rparr>"

definition connected_or_none :: "App \<Rightarrow> i32 \<times> i32" where
  "connected_or_none app = (case connected_id app of Some c \<Rightarrow> c | None \<Rightarrow> (- 1, - 1))"

definition tree_rows :: "UiEnv \<Rightarrow> nat \<Rightarrow> App \<Rightarrow> Rows" where
  "tree_rows ui width app =
     (let conn = connected_or_none app; row = push_row (cursor app) (focus app = LeftPanel)
      in fold (\<lambda>g acc.
           let acc = row (group_line conn (collapsed_groups app) g) acc
           in if gid g \<in> collapsed_groups app then acc
              else fold (\<lambda>p. row (tree_profile_line ui conn width p)) (gw_profiles g) acc)
         (groups app) no_rows)"

definition match_rows :: "UiEnv \<Rightarrow> nat \<Rightarrow> App \<Rightarrow> Rows" where
  "match_rows ui width app =
     (let conn = connected_or_none app; row = push_row (cursor app) (focus app = LeftPanel);
          ql = (case search_query app of Some q \<Rightarrow> ui_lc ui q | None \<Rightarrow> [])
      in fold (\<lambda>g.
           fold (\<lambda>p acc. if profile_matches (ui_lc ui) ql p then row (match_line ui conn width p) acc else acc)
             (gw_profiles g))
         (groups app) no_rows)"

section \<open>Drawing\<close>

definition keep_visible :: "nat \<Rightarrow> nat \<Rightarrow> nat \<Rightarrow> nat" where
  "keep_visible pos visible scroll =
     (if pos < scroll then pos
      else if 0 < visible \<and> scroll + visible \<le> pos then pos - visible + 1 else scroll)"

definition rows_list :: "bool \<Rightarrow> Rows \<Rightarrow> nat \<Rightarrow> Widget" where
  "rows_list left_focus rows scroll =
     WList ((item_list (map (\<lambda>l. ([l], unstyled)) (rw_items rows)))
       \<lparr>li_selected := Some (rw_cursor rows), li_offset := scroll,
        li_highlight := (if left_focus then on_bg ColSurface else unstyled), li_padding := 5\<rparr>)"

definition scroll_to_cursor :: "Rect \<Rightarrow> Rows \<Rightarrow> App \<Rightarrow> App" where
  "scroll_to_cursor area rows app =
     app\<lparr>tree_scroll := keep_visible (rw_cursor rows) (rheight area - 1) (tree_scroll app)\<rparr>"

definition render_search_results :: "UiEnv \<Rightarrow> Rect \<Rightarrow> App \<Rightarrow> App \<times> Drawing" where
  "render_search_results ui area app =
     (let rows = match_rows ui (rwidth area) app
      in if rw_items rows = []
         then (app, [(area, text_para s_dim AlignCenter
                (''No matches for \"'' @ (case search_query app of Some q \<Rightarrow> q | None \<Rightarrow> []) @ ''\"''))])
         else
           (let app = scroll_to_cursor area rows app
            in (app, [(area, rows_list (focus app = LeftPanel) rows (tree_scroll app))])))"

definition render_tree_normal :: "UiEnv \<Rightarrow> Rect \<Rightarrow> App \<Rightarrow> App \<times> Drawing" where
  "render_tree_normal ui area app =
     (let rows = tree_rows ui (rwidth area) app;
          app = scroll_to_cursor area rows app
      in (app, [(area, rows_list (focus app = LeftPanel) rows (tree_scroll app))]))"

definition tree_title :: "App \<Rightarrow> string" where
  "tree_title app =
     (if lg_profiles_mode (layout app) = SinglePanel
      then if search_query app \<noteq> None then '' Search Results [Tab: Details] '' else '' Profiles [Tab: Details] ''
      else if search_query app \<noteq> None then '' Search Results '' else '' Profiles '')"

definition render_tree :: "UiEnv \<Rightarrow> Rect \<Rightarrow> App \<Rightarrow> App \<times> Drawing" where
  "render_tree ui area app =
     (let border = (if focus app = LeftPanel then ColBorderActive else ColBorder);
          inner = ui_inner ui area;
          frame = [(area, WBlock (framed (tree_title app) border s_bg))]
      in if groups app = [] \<and> search_query app = None
         then (app, frame @ [(inner, text_para s_dim AlignCenter
                (''No groups.'' @ [CHR 0x0A] @ ''Press [a] to import profiles.''))])
         else if search_query app \<noteq> None
         then
           (if search_mode app
            then (let chunks = ui_split ui Vertical [CMin 0, CLength 1] inner;
                      (app', d) = render_search_results ui (chunks ! 0) app
                  in (app', frame @ [(chunks ! 1, text_para s_accent AlignLeft (''/'' @ search_input app @ g_block))] @ d))
            else (let (app', d) = render_search_results ui inner app in (app', frame @ d)))
         else (let (app', d) = render_tree_normal ui inner app in (app', frame @ d)))"

section \<open>The rows are the nodes\<close>

definition node_line :: "UiEnv \<Rightarrow> nat \<Rightarrow> App \<Rightarrow> TreeNode \<Rightarrow> bool \<Rightarrow> Line" where
  "node_line ui width app n =
     (let conn = connected_or_none app
      in case n of
           GroupNode gi \<Rightarrow> group_line conn (collapsed_groups app) (groups app ! gi)
         | ProfileNode gi pj \<Rightarrow>
             (let p = gw_profiles (groups app ! gi) ! pj
              in if search_query app = None then tree_profile_line ui conn width p else match_line ui conn width p))"

text \<open>What pushing a list of rows gives, in one step.\<close>

lemma fold_push_row:
  "fold (push_row cur f) ls acc =
     \<lparr>rw_items = rw_items acc @ map (\<lambda>(i, l). l (i = cur \<and> f)) (enumerate (rw_pos acc) ls),
      rw_cursor = (if rw_pos acc \<le> cur \<and> cur < rw_pos acc + length ls
        then length (rw_items acc) + (cur - rw_pos acc) else rw_cursor acc),
      rw_pos = rw_pos acc + length ls\<rparr>"
proof (induction ls arbitrary: acc)
  case (Cons l ls)
  show ?case by (simp add: Cons.IH) (auto simp: push_row_def)
qed simp

lemma fold_filter: "fold (\<lambda>x acc. if p x then f x acc else acc) xs = fold f (filter p xs)"
  by (induction xs) auto

lemma fold_nested: "fold (\<lambda>x. fold f (g x)) xs = fold f (concat (map g xs))"
  by (induction xs) auto

lemma tree_rows_fold:
  "tree_rows ui width app =
     fold (push_row (cursor app) (focus app = LeftPanel))
       (concat (map (\<lambda>g. group_line (connected_or_none app) (collapsed_groups app) g #
            (if gid g \<in> collapsed_groups app then []
             else map (tree_profile_line ui (connected_or_none app) width) (gw_profiles g))) (groups app))) no_rows"
proof -
  have "(\<lambda>g acc. let acc = push_row c f (group_line conn col g) acc
          in if gid g \<in> col then acc else fold (\<lambda>p. push_row c f (tree_profile_line ui conn width p)) (gw_profiles g) acc)
      = (\<lambda>g. fold (push_row c f) (group_line conn col g #
          (if gid g \<in> col then [] else map (tree_profile_line ui conn width) (gw_profiles g))))" for c f conn col
    by (intro ext) (simp add: fold_map comp_def Let_def)
  from this [unfolded Let_def] show ?thesis
    unfolding tree_rows_def Let_def by (simp only: fold_nested)
qed

lemma match_rows_fold:
  assumes "search_query app = Some q"
  shows "match_rows ui width app =
     fold (push_row (cursor app) (focus app = LeftPanel))
       (concat (map (\<lambda>g. map (match_line ui (connected_or_none app) width)
          (filter (profile_matches (ui_lc ui) (ui_lc ui q)) (gw_profiles g))) (groups app))) no_rows"
proof -
  have "fold (\<lambda>p acc. if m p then push_row c f (match_line ui conn width p) acc else acc) ps
      = fold (push_row c f) (map (match_line ui conn width) (filter m ps))" for m c f conn ps
    by (simp add: fold_filter fold_map comp_def)
  then show ?thesis
    unfolding match_rows_def Let_def by (simp add: assms fold_nested)
qed

lemma visible_from_lines:
  "gi + length gs \<le> length all \<Longrightarrow> take (length gs) (drop gi all) = gs \<Longrightarrow>
   map (\<lambda>n. case n of GroupNode i \<Rightarrow> G (all ! i) | ProfileNode i j \<Rightarrow> P (gw_profiles (all ! i) ! j))
     (visible_from col gi gs) =
   concat (map (\<lambda>g. G g # (if gid g \<in> col then [] else map P (gw_profiles g))) gs)"
proof (induction gs arbitrary: gi)
  case (Cons g gs)
  have gi: "gi < length all" using Cons.prems(1) by simp
  have d: "drop gi all = all ! gi # drop (Suc gi) all" using gi by (simp add: Cons_nth_drop_Suc)
  have g: "all ! gi = g" "take (length gs) (drop (Suc gi) all) = gs"
    using Cons.prems(2) unfolding d by simp_all
  have "map (\<lambda>j. P (gw_profiles g ! j)) [0..<length (gw_profiles g)] = map P (gw_profiles g)"
    by (rule nth_equalityI) simp_all
  then show ?case
    using Cons.IH [of "Suc gi"] Cons.prems(1) g by (simp add: comp_def)
qed simp

lemma matches_from_lines:
  "gi + length gs \<le> length all \<Longrightarrow> take (length gs) (drop gi all) = gs \<Longrightarrow>
   map (\<lambda>n. case n of GroupNode i \<Rightarrow> G (all ! i) | ProfileNode i j \<Rightarrow> P (gw_profiles (all ! i) ! j))
     (matches_from m gi gs) =
   concat (map (\<lambda>g. map P (filter m (gw_profiles g))) gs)"
proof (induction gs arbitrary: gi)
  case (Cons g gs)
  have gi: "gi < length all" using Cons.prems(1) by simp
  have d: "drop gi all = all ! gi # drop (Suc gi) all" using gi by (simp add: Cons_nth_drop_Suc)
  have g: "all ! gi = g" "take (length gs) (drop (Suc gi) all) = gs"
    using Cons.prems(2) unfolding d by simp_all
  have "map (\<lambda>j. P (ps ! j)) (filter (\<lambda>i. m (ps ! i)) [0..<length ps]) = map P (filter m ps)" for ps
  proof -
    have "filter m (map ((!) ps) [0..<length ps]) = map ((!) ps) (filter (m \<circ> (!) ps) [0..<length ps])"
      by (rule filter_map)
    then show ?thesis by (simp add: map_nth comp_def)
  qed
  then show ?case
    using Cons.IH [of "Suc gi"] Cons.prems(1) g by (simp add: comp_def)
qed simp

definition view_rows :: "UiEnv \<Rightarrow> nat \<Rightarrow> App \<Rightarrow> Rows" where
  "view_rows ui width app = (if search_query app = None then tree_rows ui width app else match_rows ui width app)"

lemma view_rows_nodes:
  "view_rows ui width app =
     fold (push_row (cursor app) (focus app = LeftPanel))
       (map (node_line ui width app) (visible_nodes (ui_lc ui) app)) no_rows"
proof (cases "search_query app")
  case None
  have "node_line ui width app = (\<lambda>n. case n of
      GroupNode i \<Rightarrow> group_line (connected_or_none app) (collapsed_groups app) (groups app ! i)
    | ProfileNode i j \<Rightarrow> tree_profile_line ui (connected_or_none app) width (gw_profiles (groups app ! i) ! j))"
    by (simp add: fun_eq_iff node_line_def Let_def None split: TreeNode.split)
  then show ?thesis
    using visible_from_lines [of 0 "groups app" "groups app" "group_line (connected_or_none app) (collapsed_groups app)"
        "tree_profile_line ui (connected_or_none app) width" "collapsed_groups app"] None
    by (simp add: view_rows_def visible_nodes_def tree_rows_fold)
next
  case (Some q)
  have "node_line ui width app = (\<lambda>n. case n of
      GroupNode i \<Rightarrow> group_line (connected_or_none app) (collapsed_groups app) (groups app ! i)
    | ProfileNode i j \<Rightarrow> match_line ui (connected_or_none app) width (gw_profiles (groups app ! i) ! j))"
    by (simp add: fun_eq_iff node_line_def Let_def Some split: TreeNode.split)
  then show ?thesis
    using matches_from_lines [of 0 "groups app" "groups app" "group_line (connected_or_none app) (collapsed_groups app)"
        "match_line ui (connected_or_none app) width" "profile_matches (ui_lc ui) (ui_lc ui q)"] Some
    by (simp add: view_rows_def visible_nodes_def match_rows_fold [OF Some])
qed

lemma keep_visible_shows:
  "0 < visible \<Longrightarrow> keep_visible pos visible scroll \<le> pos \<and> pos < keep_visible pos visible scroll + visible"
  by (auto simp: keep_visible_def)

text \<open>C16: What the tree shows is what the keys act on: row by row it is the list of nodes the cursor counts,
  each drawn from the group or profile it stands for, in the tree as well as among search results; the row
  drawn as selected is the cursor's, and after drawing it lies in the part of the list that is scrolled to.\<close>

theorem tree_shows_nodes:
  assumes "cursor app < length (visible_nodes (ui_lc ui) app)" "1 < rheight area"
  shows "let rows = view_rows ui (rwidth area) app; app' = scroll_to_cursor area rows app
    in rw_items rows = map (\<lambda>(i, n). node_line ui (rwidth area) app n (i = cursor app \<and> focus app = LeftPanel))
         (enumerate 0 (visible_nodes (ui_lc ui) app)) \<and>
       rw_cursor rows = cursor app \<and>
       tree_scroll app' \<le> cursor app \<and> cursor app < tree_scroll app' + (rheight area - 1)"
proof -
  let ?ns = "visible_nodes (ui_lc ui) app"
  have r: "view_rows ui (rwidth area) app = \<lparr>rw_items =
        map (\<lambda>(i, l). l (i = cursor app \<and> focus app = LeftPanel)) (enumerate 0 (map (node_line ui (rwidth area) app) ?ns)),
      rw_cursor = cursor app, rw_pos = length ?ns\<rparr>"
    unfolding view_rows_nodes fold_push_row using assms(1) by (simp add: no_rows_def)
  have "map (\<lambda>(i, l). l (i = cursor app \<and> focus app = LeftPanel)) (enumerate 0 (map (node_line ui (rwidth area) app) ?ns))
      = map (\<lambda>(i, n). node_line ui (rwidth area) app n (i = cursor app \<and> focus app = LeftPanel)) (enumerate 0 ?ns)"
    by (simp add: enumerate_map_upt enumerate_eq_zip zip_map2 comp_def split_beta)
  then show ?thesis
    using keep_visible_shows [of "rheight area - 1" "cursor app" "tree_scroll app"] assms(2)
    by (simp add: r scroll_to_cursor_def)
qed

lemma tree_shows_nodes_witness:
  "let app = sample_app\<lparr>cursor := 1\<rparr>; area = \<lparr>rx = 0, ry = 0, rwidth = 40, rheight = 5\<rparr>;
       rows = view_rows simple_ui (rwidth area) app; app' = scroll_to_cursor area rows app
   in rw_items rows = map (\<lambda>(i, n). node_line simple_ui (rwidth area) app n (i = cursor app \<and> focus app = LeftPanel))
        (enumerate 0 (visible_nodes (ui_lc simple_ui) app)) \<and>
      rw_cursor rows = cursor app \<and>
      tree_scroll app' \<le> cursor app \<and> cursor app < tree_scroll app' + (rheight area - 1)"
proof -
  have "cursor (sample_app\<lparr>cursor := 1\<rparr>) < length (visible_nodes (ui_lc simple_ui) (sample_app\<lparr>cursor := 1\<rparr>))"
    by code_simp
  from tree_shows_nodes [OF this, of "\<lparr>rx = 0, ry = 0, rwidth = 40, rheight = 5\<rparr>"]
  show ?thesis unfolding Let_def by simp
qed

end
