(* ===== verification/Details.thy ===== *)
theory Details
  imports Draw AppTree
begin

text \<open>
  \<open>src/ui/app/details.rs\<close>: the panel with the details of the group or profile under the cursor, as two
  columns of rows or one column that scrolls.  Parsing a link fills the cache of the state, so the content
  comes with the state after it.
\<close>

section \<open>Rows\<close>

record DetailsContent =
  dc_title :: string
  dc_hints :: string
  dc_left :: "Line list"
  dc_right :: "Line list"

definition flatten_content :: "DetailsContent \<Rightarrow> Line list" where
  "flatten_content c =
     dc_left c @ (if dc_right c = [] then [] else (if dc_left c = [] then [] else [[]]) @ dc_right c)"

definition fits_two_columns :: "nat \<Rightarrow> DetailsContent \<Rightarrow> bool" where
  "fits_two_columns height c \<longleftrightarrow> length (dc_left c) \<le> height \<and> length (dc_right c) \<le> height"

definition empty_content :: DetailsContent where
  "empty_content = \<lparr>dc_title = '' Details '', dc_hints = ''[a] import'',
     dc_left = [[(''No profile selected.'', s_dim)], [(''Use j/k to navigate, [a] to import.'', s_dim)]],
     dc_right = []\<rparr>"

definition push_section :: "string \<Rightarrow> Line list \<Rightarrow> Line list" where
  "push_section title rows = rows @ (if rows = [] then [] else [[]]) @ [section_header title]"

definition push_kv :: "string \<Rightarrow> string \<Rightarrow> Line list \<Rightarrow> Line list" where
  "push_kv key v rows = rows @ [kv_row key v]"

definition push_kv_opt :: "string \<Rightarrow> string option \<Rightarrow> Line list \<Rightarrow> Line list" where
  "push_kv_opt key v rows = (case v of Some s \<Rightarrow> if s \<noteq> [] then push_kv key s rows else rows | None \<Rightarrow> rows)"

definition push_when :: "bool \<Rightarrow> (Line list \<Rightarrow> Line list) \<Rightarrow> Line list \<Rightarrow> Line list" where
  "push_when c f rows = (if c then f rows else rows)"

definition first_non_empty :: "string list \<Rightarrow> string option" where
  "first_non_empty vs = find (\<lambda>v. v \<noteq> []) vs"

definition detail_value :: "ProfileDetails \<Rightarrow> string \<Rightarrow> string option" where
  "detail_value d key =
     (if key = ''alpn'' then Some (pd_alpn d)
      else if key = ''path'' then Some (pd_path d)
      else if key = ''host'' then Some (pd_host d)
      else if key = ''serviceName'' \<or> key = ''service_name'' then Some (pd_service_name d)
      else if key = ''mode'' then Some (pd_mode d)
      else if key = ''fp'' then Some (pd_fingerprint d)
      else if key = ''pbk'' then Some (pd_public_key d)
      else if key = ''sid'' then Some (pd_short_id d)
      else if key = ''spx'' then Some (pd_spider_x d)
      else if key = ''obfs'' \<or> key = ''obfs-type'' \<or> key = ''obfs_type'' then Some (pd_obfs d)
      else None)"

definition detail_field :: "ProfileDetails option \<Rightarrow> string list \<Rightarrow> string option" where
  "detail_field details keys =
     (case details of
        None \<Rightarrow> None
      | Some d \<Rightarrow> first_non_empty (List.map_filter (detail_value d) keys))"

definition param_or_detail :: "ParsedUri \<Rightarrow> ProfileDetails option \<Rightarrow> string list \<Rightarrow> string option" where
  "param_or_detail u details keys =
     (case param u keys of Some v \<Rightarrow> Some v | None \<Rightarrow> detail_field details keys)"

definition auto_update_label :: "Group \<Rightarrow> string" where
  "auto_update_label g =
     (if g_sub_auto_update_disabled g then ''off''
      else if g_sub_update_interval_override g > 0
      then ''on (manual '' @ format_interval_secs (g_sub_update_interval_override g) @ '')''
      else if g_sub_update_interval g > 0
      then ''on (provider '' @ format_interval_secs (g_sub_update_interval g) @ '')''
      else ''on (no interval)'')"

section \<open>Lines that are too long\<close>

definition line_width :: "UiEnv \<Rightarrow> Line \<Rightarrow> nat" where
  "line_width ui l = sum_list (map (\<lambda>s. ui_width ui (fst s)) l)"

fun fit_spans :: "UiEnv \<Rightarrow> nat \<Rightarrow> nat \<Rightarrow> Line \<Rightarrow> Line" where
  "fit_spans ui width used [] = []"
| "fit_spans ui width used ((s, sty) # l) =
     (if used + ui_width ui s \<le> width then (s, sty) # fit_spans ui width (used + ui_width ui s) l
      else if 0 < width - used then [(take_chars (width - used - 1) s @ ellipsis, sty)] else [])"

definition truncate_line :: "UiEnv \<Rightarrow> nat \<Rightarrow> Line \<Rightarrow> Line" where
  "truncate_line ui width l =
     (if width = 0 then [] else if line_width ui l \<le> width then l else fit_spans ui width 0 l)"

section \<open>A group\<close>

definition routing_state :: "RoutingProfileInfo \<Rightarrow> string" where
  "routing_state p = (if rp_state p = [] then ''ok'' else rp_state p)"

definition routing_style :: "RoutingProfileInfo \<Rightarrow> Style" where
  "routing_style p = (if rp_state p = ''error'' then s_error else s_success)"

definition mode_or_auto :: "string \<Rightarrow> string" where
  "mode_or_auto m = (if m = [] then ''auto'' else m)"

definition routing_profile_of :: "GroupWithProfiles \<Rightarrow> string \<Rightarrow> RoutingProfileInfo option" where
  "routing_profile_of g i = find (\<lambda>p. rp_id p = i) (gw_routing_profiles g)"


definition traffic_label :: "Group \<Rightarrow> string" where
  "traffic_label g =
     format_bytes (i64_add (g_sub_upload g) (g_sub_download g)) @ '' / '' @
     (if g_sub_total g > 0 then format_bytes (g_sub_total g) else g_inf)"

definition subscription_rows :: "UiEnv \<Rightarrow> Group \<Rightarrow> Line list \<Rightarrow> Line list" where
  "subscription_rows ui g rows =
     (let rows = push_section ''Subscription'' rows;
          rows = push_kv ''URL'' (redact_url (g_subscription_url g)) rows;
          rows = push_when (g_sub_last_updated g > 0)
                   (push_kv ''Updated'' (format_relative (ui_now ui) (g_sub_last_updated g))) rows;
          rows = push_kv ''Auto-update'' (auto_update_label g) rows;
          rows = push_when (g_sub_expires g > 0) (push_kv ''Expires'' (format_expiry ui (g_sub_expires g))) rows
      in push_when (g_sub_upload g > 0 \<or> g_sub_download g > 0) (push_kv ''Traffic'' (traffic_label g)) rows)"

definition group_left :: "UiEnv \<Rightarrow> GroupWithProfiles \<Rightarrow> Line list" where
  "group_left ui g =
     (let gr = gw_group g;
          left = push_section ''Group'' [];
          left = push_kv ''Name'' (g_name gr) left;
          left = push_kv ''Format'' (if g_subscription_format gr = ''json'' then ''JSON (provider routing, read-only)''
                   else ''URI / share links'') left;
          left = push_kv ''Profiles'' (show_nat (length (gw_profiles g))) left
      in push_when (g_subscription_url gr \<noteq> []) (subscription_rows ui gr) left)"

definition group_routing_rows :: "GroupWithProfiles \<Rightarrow> Line list \<Rightarrow> Line list" where
  "group_routing_rows g rows =
     (let gr = gw_group g;
          rows = push_section ''Routing'' rows;
          rows = push_kv ''Mode'' (mode_or_auto (g_routing_mode gr)) rows;
          rows = push_kv ''Manual'' (if g_manual_routing_mode gr = ''custom'' then ''group rules'' else ''global rules'') rows;
          rows = (case routing_profile_of g (g_active_routing_profile_id gr) of
                    Some p \<Rightarrow> rows @ [kv_row_span ''Active''
                      (rp_name p @ '' ('' @ routing_state p @ '', '' @ show_nat (rp_rules_count p) @ '' rules)'', routing_style p)]
                  | None \<Rightarrow> push_kv ''Active'' em_dash rows);
          pending = g_pending_active_routing_profile_id gr
      in push_when (pending \<noteq> [] \<and> pending \<noteq> g_active_routing_profile_id gr)
           (push_kv ''Pending'' (case routing_profile_of g pending of Some p \<Rightarrow> rp_name p | None \<Rightarrow> pending)) rows)"

text \<open>The rows that say whether the item is connected, and since when.\<close>

definition state_rows :: "UiEnv \<Rightarrow> App \<Rightarrow> bool \<Rightarrow> Line list \<Rightarrow> Line list" where
  "state_rows ui app conn rows =
     push_when (conn \<and> ps_connected_at (connection_status app) > 0)
       (push_kv ''Since'' (ui_time ui (ps_connected_at (connection_status app))))
       (rows @ [kv_row_span ''State'' (if conn then ((g_dot @ '' Connected''), s_success) else ((g_ring @ '' Disconnected''), s_dim))])"

definition group_right :: "UiEnv \<Rightarrow> App \<Rightarrow> GroupWithProfiles \<Rightarrow> Line list" where
  "group_right ui app g =
     (let gr = gw_group g;
          has_routing = (g_routing_mode gr \<noteq> [] \<or> g_manual_routing_mode gr = ''custom'' \<or>
            g_active_routing_profile_id gr \<noteq> [] \<or> gw_routing_profiles g \<noteq> []);
          right = push_when has_routing (group_routing_rows g) [];
          right = push_section ''Status'' right
      in state_rows ui app (map_option fst (connected_id app) = Some (g_id gr)) right)"

definition group_details_content :: "UiEnv \<Rightarrow> App \<Rightarrow> GroupWithProfiles \<Rightarrow> DetailsContent" where
  "group_details_content ui app g =
     \<lparr>dc_title = ('' Details '' @ em_dash @ '' '') @ clean_label (g_name (gw_group g)) @ '' '',
      dc_hints = (''[u] update '' @ g_mid @ '' [e] edit '' @ g_mid @ '' [X] delete '' @ g_mid @ '' [Tab] tree''),
      dc_left = group_left ui g, dc_right = group_right ui app g\<rparr>"

section \<open>A profile\<close>

definition profile_name :: "Profile \<Rightarrow> string" where
  "profile_name p =
     (if p_name p = [] then if p_address p = [] then ''Unknown'' else p_address p else p_name p)"

definition protocol_label :: "UiEnv \<Rightarrow> ParsedUri \<Rightarrow> Profile \<Rightarrow> string" where
  "protocol_label ui u p =
     (if p_protocol p = [] then if u_protocol u = [] then em_dash else ui_uc ui (u_protocol u)
      else ui_uc ui (p_protocol p))"

definition port_label :: "ParsedUri \<Rightarrow> Profile \<Rightarrow> string" where
  "port_label u p =
     (if u_port u \<noteq> [] then u_port u else if p_port p > 0 then show_int (p_port p) else em_dash)"

text \<open>The first value that is not empty, of the link, of the core's details and of the profile.\<close>

definition fetched_str :: "(ProfileDetails \<Rightarrow> string) \<Rightarrow> ProfileDetails option \<Rightarrow> string" where
  "fetched_str f d = (case d of Some d \<Rightarrow> f d | None \<Rightarrow> [])"

definition or_default :: "string \<Rightarrow> string option \<Rightarrow> string" where
  "or_default other v = (case v of Some s \<Rightarrow> s | None \<Rightarrow> other)"

definition group_rows_of_profile :: "Profile \<Rightarrow> GroupWithProfiles option \<Rightarrow> Line list \<Rightarrow> Line list" where
  "group_rows_of_profile p grp rows =
     (case grp of
        None \<Rightarrow> rows
      | Some g \<Rightarrow>
          (let gr = gw_group g
           in if p_managed p \<or> g_routing_mode gr \<noteq> [] \<or> g_active_routing_profile_id gr \<noteq> []
              then
                (let rows = push_section ''Routing'' rows;
                     rows = push_when (p_managed p) (push_kv ''Provider'' ''JSON (read-only)'') rows;
                     rows = push_kv ''Group mode'' (mode_or_auto (g_routing_mode gr)) rows
                 in case routing_profile_of g (g_active_routing_profile_id gr) of
                      Some r \<Rightarrow> rows @ [kv_row_span ''Active'' (rp_name r @ '' ('' @ routing_state r @ '')'', routing_style r)]
                    | None \<Rightarrow> rows)
              else rows))"

definition endpoint_rows :: "ParsedUri \<Rightarrow> ProfileDetails option \<Rightarrow> Profile \<Rightarrow> Line list \<Rightarrow> Line list" where
  "endpoint_rows u d p rows =
     (let rows = push_section ''Endpoint'' rows;
          rows = push_kv ''Address'' (if p_address p = [] then em_dash else p_address p) rows;
          rows = push_kv ''Port'' (port_label u p) rows;
          rows = push_kv ''SNI'' (or_default em_dash
                   (first_non_empty [u_sni u, fetched_str pd_sni d, u_host u, p_host p])) rows;
          rows = push_kv ''Transport'' (or_default ''tcp'' (first_non_empty [u_transport u, fetched_str pd_transport d])) rows;
          rows = push_kv ''Security'' (or_default ''none'' (first_non_empty [u_security u, fetched_str pd_security d])) rows
      in push_kv ''Flow'' (or_default em_dash (first_non_empty [u_flow u, fetched_str pd_flow d])) rows)"

definition cipher_of :: "UiEnv \<Rightarrow> ParsedUri \<Rightarrow> ProfileDetails option \<Rightarrow> Profile \<Rightarrow> string option" where
  "cipher_of ui u d p =
     (case (if starts_with ''ss://'' (p_uri p) then parse_ss_method (ui_b64_std ui) (p_uri p) else None) of
        Some m \<Rightarrow> Some m
      | None \<Rightarrow>
          (case param u [''scy''] of
             Some m \<Rightarrow> Some m
           | None \<Rightarrow> if fetched_str pd_cipher d = [] then None else Some (fetched_str pd_cipher d)))"

definition cipher_rows :: "UiEnv \<Rightarrow> ParsedUri \<Rightarrow> ProfileDetails option \<Rightarrow> Profile \<Rightarrow> Line list \<Rightarrow> Line list" where
  "cipher_rows ui u d p rows =
     (let shadowsocks = (starts_with ''ss://'' (p_uri p) \<or> eq_ignore_ascii_case (p_protocol p) ''shadowsocks'')
      in case cipher_of ui u d p of
           None \<Rightarrow> rows
         | Some m \<Rightarrow>
             if shadowsocks \<and> is_insecure_ss_cipher m
             then rows @ [kv_row_span ''Cipher'' ((g_warn @ '' '') @ m @ '' (insecure)'', s_warn)]
             else push_kv ''Cipher'' m rows)"

definition PARAM_ROWS :: "(string \<times> string list) list" where
  "PARAM_ROWS =
     [(''ALPN'', [''alpn'']), (''Path'', [''path'']), (''Host'', [''host'']),
      (''Service'', [''serviceName'', ''service_name'']), (''Mode'', [''mode'']), (''Fingerprint'', [''fp'']),
      (''Public key'', [''pbk'']), (''Short ID'', [''sid'']), (''SpiderX'', [''spx'']),
      (''Obfs'', [''obfs'', ''obfs-type'', ''obfs_type'']), (''Header'', [''headerType'']),
      (''Authority'', [''authority'']), (''Encryption'', [''encryption''])]"

definition param_rows :: "ParsedUri \<Rightarrow> ProfileDetails option \<Rightarrow> Line list \<Rightarrow> Line list" where
  "param_rows u d rows = fold (\<lambda>(key, keys). push_kv_opt key (param_or_detail u d keys)) PARAM_ROWS rows"

definition allows_insecure :: "ParsedUri \<Rightarrow> ProfileDetails option \<Rightarrow> bool" where
  "allows_insecure u d \<longleftrightarrow>
     (case param u [''allowInsecure'', ''insecure''] of
        Some v \<Rightarrow> v = ''1'' \<or> eq_ignore_ascii_case v ''true'' | None \<Rightarrow> False) \<or>
     (case d of Some d \<Rightarrow> pd_allow_insecure d | None \<Rightarrow> False)"

definition profile_left ::
  "UiEnv \<Rightarrow> App \<Rightarrow> ParsedUri \<Rightarrow> Profile \<Rightarrow> Line list" where
  "profile_left ui app u p =
     (let d = profile_details_for app p; grp = current_group (ui_lc ui) app;
          left = push_section ''Profile'' [];
          left = push_kv ''Name'' (profile_name p) left;
          left = push_kv ''Protocol'' (protocol_label ui u p) left;
          left = push_kv ''Group'' (case grp of Some g \<Rightarrow> g_name (gw_group g) | None \<Rightarrow> ''?'') left;
          left = (case grp of
                    Some g \<Rightarrow> push_when (g_subscription_url (gw_group g) \<noteq> [])
                      (push_kv ''Sub'' (redact_url (g_subscription_url (gw_group g)))) left
                  | None \<Rightarrow> left);
          left = group_rows_of_profile p grp left;
          left = endpoint_rows u d p left;
          left = cipher_rows ui u d p left;
          left = param_rows u d left
      in if allows_insecure u d then left @ [kv_row_span ''Insecure'' ((g_warn @ '' enabled''), s_warn)] else left)"

definition test_rows :: "UiEnv \<Rightarrow> Profile \<Rightarrow> Line list \<Rightarrow> Line list" where
  "test_rows ui p rows =
     (let rows = push_section ''Diagnostics'' rows;
          rows = (if p_test_result p > 0
            then
              (let rows = push_kv ''Latency'' (show_int (p_test_result p) @ '' ms'') rows;
                   rows = push_when (p_jitter_ms p > 0) (push_kv ''Jitter'' (g_pm @ show_int (p_jitter_ms p) @ '' ms'')) rows
               in push_when (p_loss_pct p > 0) (push_kv ''Loss'' (show_int (p_loss_pct p) @ ''%'')) rows)
            else if p_test_result p = - 2 then push_kv ''Latency'' ''testing...'' rows
            else if p_test_result p = - 1 then push_kv ''Latency'' ''failed'' rows
            else rows)
      in push_when (p_tested_at p > 0) (push_kv ''Last test'' (format_relative (ui_now ui) (p_tested_at p))) rows)"

definition profile_right :: "UiEnv \<Rightarrow> App \<Rightarrow> Profile \<Rightarrow> Line list" where
  "profile_right ui app p =
     (let right = push_section ''Status'' [];
          right = state_rows ui app (connected_id app = Some (p_group_id p, p_id p)) right;
          right = push_kv ''TUN'' (if tun_enabled app then ''on'' else ''off'') right
      in test_rows ui p right)"

definition parse_link :: "UiEnv \<Rightarrow> string \<Rightarrow> ParsedUri" where
  "parse_link ui = parse_uri (ui_b64 ui) (ui_json ui)"

definition profile_details_content :: "UiEnv \<Rightarrow> App \<Rightarrow> Profile \<Rightarrow> DetailsContent \<times> App" where
  "profile_details_content ui app p =
     (case cached_uri_params (parse_link ui) p app of
        (u, app) \<Rightarrow>
          (\<lparr>dc_title = ('' Details '' @ em_dash @ '' '') @ clean_label (profile_name p) @ '' '',
            dc_hints = (''[c] connect '' @ g_mid @ '' [t] test '' @ g_mid @ '' [y] copy '' @ g_mid @ '' [e] rename '' @ g_mid @ '' [x] delete '' @ g_mid @ '' [Tab] tree''),
            dc_left = profile_left ui app u p, dc_right = profile_right ui app p\<rparr>, app))"

section \<open>The panel\<close>

text \<open>\<open>str::trim\_end\<close>.\<close>

definition trim_tail :: "string \<Rightarrow> string" where
  "trim_tail s = concat (rev (dropWhile is_whitespace (rev (uchars s))))"

definition details_content :: "UiEnv \<Rightarrow> App \<Rightarrow> DetailsContent \<times> App" where
  "details_content ui app =
     (case tree_node_at (ui_lc ui) app (cursor app) of
        Some (GroupNode gi) \<Rightarrow>
          (case get_at (groups app) gi of Some g \<Rightarrow> (group_details_content ui app g, app) | None \<Rightarrow> (empty_content, app))
      | Some (ProfileNode _ _) \<Rightarrow>
          (case selected_profile (ui_lc ui) app of
             Some p \<Rightarrow> profile_details_content ui app p | None \<Rightarrow> (empty_content, app))
      | None \<Rightarrow> (empty_content, app))"

definition details_line_count :: "UiEnv \<Rightarrow> App \<Rightarrow> nat" where
  "details_line_count ui app =
     (let content = fst (details_content ui app);
          visible = details_visible app;
          area = (if lg_profiles_mode (layout app) = SinglePanel then lg_tree_area (layout app)
                  else lg_details_area (layout app))
      in if rwidth area - 2 \<ge> 70 \<and> fits_two_columns visible content then visible
         else length (flatten_content content))"

definition row_at :: "UiEnv \<Rightarrow> Rect \<Rightarrow> nat \<Rightarrow> Line \<Rightarrow> Rect \<times> Widget" where
  "row_at ui area y l =
     (\<lparr>rx = rx area + 1, ry = ry area + y, rwidth = rwidth area - 1, rheight = 1\<rparr>,
      WPara (para [truncate_line ui (rwidth area - 1) l]))"

definition render_rows :: "UiEnv \<Rightarrow> Line list \<Rightarrow> Rect \<Rightarrow> Drawing" where
  "render_rows ui rows area =
     (if rwidth area = 0 \<or> rheight area = 0 then []
      else map (\<lambda>(i, l). row_at ui area i l) (enumerate 0 (take (rheight area) rows)))"

definition details_frame :: "App \<Rightarrow> Rect \<Rightarrow> DetailsContent \<Rightarrow> Block" where
  "details_frame app area content =
     (let title = (if lg_profiles_mode (layout app) = SinglePanel then trim_tail (dc_title content) @ '' [Tab] ''
                   else dc_title content)
      in (framed title (if focus app = RightPanel then ColBorderActive else ColBorder) s_bg)
           \<lparr>bk_bottom := (if rwidth area \<ge> 80 \<and> dc_hints content \<noteq> []
              then Some (AlignRight, [(dc_hints content, s_faint)]) else None)\<rparr>)"

definition details_rows :: "UiEnv \<Rightarrow> App \<Rightarrow> DetailsContent \<Rightarrow> Rect \<Rightarrow> Drawing" where
  "details_rows ui app content inner =
     (let visible = rheight inner
      in if rwidth inner = 0 \<or> rheight inner = 0 then []
         else if rwidth inner \<ge> 70 \<and> fits_two_columns visible content
         then
           (let cols = ui_split ui Horizontal [CPercentage 50, CPercentage 50] inner
            in render_rows ui (dc_left content) (cols ! 0) @ render_rows ui (dc_right content) (cols ! 1))
         else
           (let rows = flatten_content content;
                max_scroll = length rows - visible;
                scroll = min (details_scroll app) max_scroll
            in map (\<lambda>(i, l). row_at ui inner i l) (enumerate 0 (take visible (drop scroll rows)))
               @ (if 0 < max_scroll \<and> scroll < max_scroll
                  then [(\<lparr>rx = rx inner, ry = ry inner + rheight inner - 1, rwidth = rwidth inner, rheight = 1\<rparr>,
                         text_para s_faint AlignRight (('' '' @ g_down @ '' '') @ show_nat (max_scroll - scroll) @ '' more ''))]
                  else [])))"

definition render_details :: "UiEnv \<Rightarrow> Rect \<Rightarrow> App \<Rightarrow> App \<times> Drawing" where
  "render_details ui area app =
     (case details_content ui app of
        (content, app') \<Rightarrow>
          (app', (area, WBlock (details_frame app area content)) # details_rows ui app content (ui_inner ui area)))"

section \<open>What the panel keeps to itself\<close>

text \<open>The parts of a profile that the panel reads: everything but the link, of which it reads the parsed form
  and, for Shadowsocks, the method.\<close>

lemma profile_left_uri:
  assumes "starts_with ''ss://'' (p_uri p) = starts_with ''ss://'' uri"
    and "starts_with ''ss://'' uri \<Longrightarrow> parse_ss_method (ui_b64_std ui) (p_uri p) = parse_ss_method (ui_b64_std ui) uri"
  shows "profile_left ui app u (p\<lparr>p_uri := uri\<rparr>) = profile_left ui app u p"
proof -
  have "cipher_rows ui u d (p\<lparr>p_uri := uri\<rparr>) rows = cipher_rows ui u d p rows" for d rows
    using assms by (simp add: cipher_rows_def cipher_of_def)
  moreover have "endpoint_rows u d (p\<lparr>p_uri := uri\<rparr>) rows = endpoint_rows u d p rows" for d rows
    by (simp add: endpoint_rows_def port_label_def)
  moreover have "group_rows_of_profile (p\<lparr>p_uri := uri\<rparr>) g rows = group_rows_of_profile p g rows" for g rows
    by (simp add: group_rows_of_profile_def Let_def split: option.split)
  ultimately show ?thesis
    by (simp add: profile_left_def profile_details_for_def profile_name_def protocol_label_def)
qed

lemma profile_right_uri: "profile_right ui app (p\<lparr>p_uri := uri\<rparr>) = profile_right ui app p"
  by (simp add: profile_right_def test_rows_def Let_def)

text \<open>C14: The details panel never shows the credential of a link: of two profiles whose VLESS, Trojan, SOCKS or
  Hysteria links differ only in the user part (a user id or a password), it shows the same, in every state of
  the interface, and it leaves the same state behind.\<close>

theorem details_hide_credentials:
  assumes "scheme \<in> set uri_schemes" "scheme \<noteq> ''vmess://''" "scheme \<noteq> ''ss://''"
    and "set secret1 \<inter> {CHR 0x23, CHR ''?'', CHR ''/''} = {}" "set secret2 \<inter> {CHR 0x23, CHR ''?'', CHR ''/''} = {}"
  shows "profile_details_content ui app (p\<lparr>p_uri := scheme @ secret1 @ CHR ''@'' # rest\<rparr>) =
    profile_details_content ui app (p\<lparr>p_uri := scheme @ secret2 @ CHR ''@'' # rest\<rparr>)"
proof -
  let ?p1 = "p\<lparr>p_uri := scheme @ secret1 @ CHR ''@'' # rest\<rparr>"
  let ?p2 = "p\<lparr>p_uri := scheme @ secret2 @ CHR ''@'' # rest\<rparr>"
  have eq: "parse_link ui (p_uri ?p1) = parse_link ui (p_uri ?p2)"
    using parse_uri_user [OF assms(1,2,4,5), of "ui_b64 ui" "ui_json ui" rest] by (simp add: parse_link_def)
  have c: "cached_uri_params (parse_link ui) ?p1 app = cached_uri_params (parse_link ui) ?p2 app"
    using eq by (simp add: cached_uri_params_def Let_def split: option.split)
  have "''ss://'' \<in> set uri_schemes" by (simp add: uri_schemes_def)
  then have ss: "\<not> starts_with ''ss://'' (scheme @ s)" for s
    using assms(1,3) by (simp add: starts_with_scheme)
  have "profile_left ui a u ?p1 = profile_left ui a u ?p2" for a u
    using profile_left_uri [of ?p1 "p_uri ?p2" ui a u] ss by simp
  moreover have "profile_right ui a ?p1 = profile_right ui a ?p2" for a
    using profile_right_uri [of ui a "p_uri ?p2" ?p1] by simp
  ultimately show ?thesis
    unfolding profile_details_content_def c by (simp add: profile_name_def split: prod.split)
qed

lemma details_hide_credentials_witness:
  "profile_details_content simple_ui sample_app (default_profile\<lparr>p_uri := ''trojan://'' @ ''pass'' @ ''@host:443''\<rparr>) =
   profile_details_content simple_ui sample_app (default_profile\<lparr>p_uri := ''trojan://'' @ ''word'' @ ''@host:443''\<rparr>)"
proof -
  have "''trojan://'' \<in> set uri_schemes" by (simp add: uri_schemes_def)
  from details_hide_credentials [OF this, of "''pass''" "''word''" simple_ui sample_app "''host:443''" default_profile]
  show ?thesis by simp
qed

section \<open>Inside the area\<close>

lemma enumerate_drawn:
  "(\<And>i l. i < length ls \<Longrightarrow> inside (fst (f i l)) a) \<Longrightarrow> drawn_in a (map (\<lambda>(i, l). f i l) (enumerate 0 ls))"
  by (auto simp: drawn_in_def list_all_iff in_set_enumerate_eq)

lemma row_at_inside: "0 < rwidth r \<Longrightarrow> y < rheight r \<Longrightarrow> inside (fst (row_at ui r y l)) r"
  by (auto simp: row_at_def inside_def)

lemma render_rows_inside: "drawn_in r (render_rows ui rows r)"
  unfolding render_rows_def by (auto intro!: enumerate_drawn row_at_inside)

lemma details_rows_inside:
  assumes "toolkit_ok ui"
  shows "drawn_in inner (details_rows ui app content inner)"
proof -
  let ?cols = "ui_split ui Horizontal [CPercentage 50, CPercentage 50] inner"
  have "drawn_in inner (render_rows ui rows (?cols ! i))" if "i < 2" for rows i
    using drawn_in_mono [OF render_rows_inside toolkit_split [OF assms inside_refl]] that by simp
  moreover have "drawn_in inner (map (\<lambda>(i, l). row_at ui inner i l) (enumerate 0 (take (rheight inner) ls)))"
    if "0 < rwidth inner" for ls
    by (rule enumerate_drawn) (use that in \<open>auto intro: row_at_inside\<close>)
  ultimately show ?thesis
    unfolding details_rows_def Let_def by (auto simp: inside_def)
qed

lemma details_drawn_inside:
  assumes "toolkit_ok ui"
  shows "drawn_in area (snd (render_details ui area app))"
proof -
  have "inside (ui_inner ui area) area" by (rule toolkit_inner [OF assms inside_refl])
  then have "drawn_in area (details_rows ui app content (ui_inner ui area))" for content
    by (rule drawn_in_mono [OF details_rows_inside [OF assms]])
  then show ?thesis by (simp add: render_details_def split: prod.split)
qed

end
