(* ===== verification/PopupView.thy ===== *)
theory PopupView
  imports Draw Keymap
begin

text \<open>
  \<open>src/ui/app/popups.rs\<close>: how each popup is drawn, and the help texts of \<open>src/keymap/mod.rs\<close> that one of
  them shows.
\<close>

section \<open>Help texts\<close>

definition g_both :: string where "g_both = [CHR 0xE2, CHR 0x86, CHR 0x94]"
definition g_en :: string where "g_en = [CHR 0xE2, CHR 0x80, CHR 0x93]"

text \<open>Keys and what they do.\<close>

type_synonym HelpEntry = "string \<times> string"

definition GLOBAL_HELP :: "HelpEntry list" where
  "GLOBAL_HELP =
     [(''[ / ]'', ''Prev / Next tab''),
      ((''1 '' @ g_en @ '' 5''), ''Jump to tab 1..5''),
      (''Tab'', (''Toggle Tree '' @ g_both @ '' Details focus'')),
      (''w'', ''Open Tab Switcher modal''),
      (''v'', ''Toggle TUN mode''),
      (''d'', ''Disconnect active VPN''),
      (''?'', ''This help dialog''),
      (''q'', ''Detach (VPN stays active)''),
      (''Q / C-c'', ''Quit + stop daemon'')]"

definition PROFILES_HELP :: "HelpEntry list" where
  "PROFILES_HELP =
     [((''j/k, '' @ g_down @ ''/'' @ g_up), ''Move cursor''),
      ((''h/l, '' @ g_left @ ''/'' @ g_right), ''Collapse/expand / to Details''),
      (''Tab'', (''Switch focus: Tree '' @ g_both @ '' Details'')),
      (''Ctrl+d/u'', ''Page down / page up''),
      (''g / G'', ''Jump to top / bottom''),
      (''Enter / c'', ''Connect to selected profile''),
      (''Space'', ''Fold / unfold group''),
      (''t / T'', ''Test focused / test all''),
      (''C'', ''Cancel active tests''),
      (''a'', ''Import profile from clipboard/input''),
      (''A / n'', ''Add new group / subscription''),
      (''u / r'', ''Update active subscription''),
      (''e'', ''Edit name / subscription''),
      (''y'', ''Copy profile URI''),
      (''x / X'', ''Delete profile / delete group''),
      ((''J/K, Alt+'' @ g_down @ ''/'' @ g_up), ''Reorder profile / group up/down''),
      (''/'', ''Search & filter profiles'')]"

definition ROUTING_HELP :: "HelpEntry list" where
  "ROUTING_HELP =
     [((''j/k, '' @ g_down @ ''/'' @ g_up), ''Navigate rules''),
      ((''h/l, '' @ g_left @ ''/'' @ g_right), ''Switch subscription group''),
      (''Space'', ''Toggle rule enabled/disabled''),
      (''a'', ''Add manual rule''),
      (''e / Enter'', ''Edit selected rule''),
      (''x / Del'', ''Delete rule''),
      (''p'', ''Routing presets (GeoIP/Ads/AI)''),
      (''H'', ''Happ routing profiles modal''),
      (''m'', ''Cycle mode (auto/manual/sub)''),
      (''g'', ''Toggle global / group-specific rules''),
      (''i'', ''Import Happ link from clipboard'')]"

definition SETTINGS_HELP :: "HelpEntry list" where
  "SETTINGS_HELP =
     [((''j/k, '' @ g_down @ ''/'' @ g_up), ''Navigate setting rows''),
      ((''h/l, '' @ g_left @ ''/'' @ g_right), ''Cycle value (theme, log, etc.)''),
      (''Enter/Space'', ''Toggle, cycle, or edit field'')]"

definition LOGS_HELP :: "HelpEntry list" where
  "LOGS_HELP =
     [((''j/k, '' @ g_down @ ''/'' @ g_up), ''Scroll line by line''),
      (''Ctrl+d/u'', ''Scroll half page down/up''),
      (''g / G'', ''Jump to start / end of logs''),
      (''f'', ''Cycle log level filter''),
      (''s'', ''Switch log source (core/tui)''),
      (''/'', ''Search the log (Esc clears)''),
      (''c'', ''Clear the current log (confirm)'')]"

definition TRAFFIC_HELP :: "HelpEntry list" where
  "TRAFFIC_HELP =
     [(''d'', ''Disconnect active VPN''),
      (''v'', ''Toggle TUN mode''),
      (''[ / ]'', ''Switch tabs'')]"

definition get_tab_help :: "KeyContext \<Rightarrow> string \<times> HelpEntry list" where
  "get_tab_help ctx =
     (case ctx of
        CProfilesTree \<Rightarrow> (''Profiles'', PROFILES_HELP)
      | CProfilesDetails \<Rightarrow> (''Profiles'', PROFILES_HELP)
      | CRouting \<Rightarrow> (''Routing'', ROUTING_HELP)
      | CSettings \<Rightarrow> (''Settings'', SETTINGS_HELP)
      | CLogs \<Rightarrow> (''Logs'', LOGS_HELP)
      | CTraffic \<Rightarrow> (''Traffic'', TRAFFIC_HELP)
      | CGlobal \<Rightarrow> (''Global'', GLOBAL_HELP))"

section \<open>The box\<close>

text \<open>Every popup first clears its rectangle and draws its frame; what follows goes to the inside.\<close>

definition popup_box :: "UiEnv \<Rightarrow> string \<Rightarrow> Slot \<Rightarrow> Rect \<Rightarrow> (Rect \<Rightarrow> Drawing) \<Rightarrow> Drawing" where
  "popup_box ui title border pa content =
     [(pa, WClear), (pa, WBlock (framed title border s_surface))] @ content (ui_inner ui pa)"

text \<open>A row of the given height inside, one column from the left.\<close>

definition inner_row :: "Rect \<Rightarrow> nat \<Rightarrow> nat \<Rightarrow> Rect" where
  "inner_row inner y h = \<lparr>rx = rx inner + 1, ry = y, rwidth = rwidth inner - 2, rheight = h\<rparr>"

definition boxed :: "Style \<Rightarrow> string \<Rightarrow> Widget" where
  "boxed border s = WPara ((para (raw_lines s))\<lparr>pg_style := s_text, pg_block := Some (plain_box border)\<rparr>)"

definition wrapped :: "Style \<Rightarrow> Align \<Rightarrow> Line list \<Rightarrow> Widget" where
  "wrapped style al ls = WPara ((para ls)\<lparr>pg_style := style, pg_align := al, pg_wrap := True\<rparr>)"

section \<open>The popups\<close>

definition TAB_ROWS :: "(string \<times> string \<times> string) list" where
  "TAB_ROWS =
     [(''[1]'', ''Profiles'', ''Active server configs & subscriptions''),
      (''[2]'', ''Routing'', ''Traffic routing rules & domain bypass''),
      (''[3]'', ''Traffic'', ''Real-time speed charts & totals''),
      (''[4]'', ''Logs'', ''Core logs & daemon event output''),
      (''[5]'', ''Settings'', ''TUI preferences & core configuration'')]"

definition tab_row :: "bool \<Rightarrow> bool \<Rightarrow> string \<times> string \<times> string \<Rightarrow> Line" where
  "tab_row is_compact is_selected t =
     (let (num, name, desc) = t;
          (indicator, num_style, name_style, desc_style) =
            (if is_selected then (('' '' @ g_fold @ '' ''), s_accent_bold, s_accent_bold, s_text) else (''   '', s_faint, s_text, s_dim))
      in if is_compact then [(indicator, num_style), (num @ '' '', num_style), (name, name_style)]
         else [(indicator, num_style), (num @ '' '', num_style), (pad_right 9 name @ '' '', name_style), (desc, desc_style)])"

definition render_tab_switcher_popup :: "UiEnv \<Rightarrow> nat \<Rightarrow> Rect \<Rightarrow> Drawing" where
  "render_tab_switcher_popup ui cur area =
     popup_box ui '' Switch View '' ColAccent (responsive_rect 56 9 94 80 area) (\<lambda>inner.
       let is_compact = rwidth inner < 45;
           hint = (if is_compact then ('' [j/k] Nav '' @ g_mid @ '' [1-5] Jump '' @ g_mid @ '' [Enter] Select '')
                   else ('' ['' @ g_up @ ''/'' @ g_down @ ''/j/k] Navigate  '' @ g_mid @ ''  [1-5] Jump  '' @ g_mid @ ''  [Enter] Select ''))
       in [(inner, WPara ((para (map (\<lambda>(i, t). tab_row is_compact (i = cur) t) (enumerate 0 TAB_ROWS)
             @ [[], [(hint, s_faint)]]))\<lparr>pg_style := s_surface\<rparr>))])"

definition render_text_popup :: "UiEnv \<Rightarrow> string \<Rightarrow> string \<Rightarrow> string \<Rightarrow> Rect \<Rightarrow> Drawing" where
  "render_text_popup ui title hint input area =
     popup_box ui title ColAccent (responsive_rect 65 8 92 70 area) (\<lambda>inner.
       let rows = ui_split ui Vertical [CLength 1, CLength 3, CLength 2] inner;
           bottom = (if rwidth inner < 50 then '' Enter import | Esc cancel ''
                     else '' Enter import | Esc cancel | Ctrl+V paste from clipboard '')
       in [(rows ! 0, text_para s_dim AlignLeft hint), (rows ! 1, boxed (fg ColAccent) input),
           (rows ! 2, text_para s_dim AlignCenter bottom)])"

text \<open>Without a name the form has only the address; the rows are placed one below the other from the top of
  the inside.\<close>

definition name_rows :: "nat \<Rightarrow> string \<Rightarrow> Rect \<Rightarrow> nat \<Rightarrow> Drawing" where
  "name_rows field name inner y =
     (let style = (if field = 0 then s_accent else s_dim)
      in [(inner_row inner y 1, text_para style AlignLeft ''Name:''),
          (inner_row inner (y + 1) 3, boxed style (if name = [] then ''My Group'' else name))])"

definition url_rows :: "bool \<Rightarrow> string \<Rightarrow> Rect \<Rightarrow> nat \<Rightarrow> Drawing" where
  "url_rows focused url inner y =
     (let style = (if focused then s_accent else s_dim)
      in [(inner_row inner y 1, text_para style AlignLeft ''Subscription URL:''),
          (inner_row inner (y + 1) 3, boxed style (if url = [] then ''https://...'' else url))])"

definition auto_rows :: "nat \<Rightarrow> bool \<Rightarrow> string \<Rightarrow> int \<Rightarrow> Rect \<Rightarrow> nat \<Rightarrow> Drawing" where
  "auto_rows field auto_update interval_hours provider_interval_secs inner y =
     (let auto_style = (if field = 2 then s_accent else s_dim);
          style = (if field = 3 then s_accent else s_dim);
          provider_hint = (if provider_interval_secs > 0
            then ''blank = provider: '' @ format_interval_secs provider_interval_secs else ''blank = provider: not set'')
      in [(inner_row inner y 1, text_para auto_style AlignLeft
             (''Auto-update: '' @ (if auto_update then (g_dot @ '' on'') else (g_ring @ '' off'')) @ ''   (Space to toggle)'')),
          (inner_row inner (y + 1) 1, text_para style AlignLeft (''Interval, hours ('' @ provider_hint @ '')'')),
          (inner_row inner (y + 2) 3, boxed style (if interval_hours = [] then ''auto'' else interval_hours))])"

definition form_hint :: "bool \<Rightarrow> nat \<Rightarrow> string" where
  "form_hint named field =
     (if \<not> named then '' Enter save | Esc cancel ''
      else if field = 0 \<or> field = 1 then '' Tab to switch field | Ctrl+R reset name | Enter next | Esc cancel ''
      else if field = 2 then '' Tab to switch field | Space toggle | Enter next | Esc cancel ''
      else '' Tab to switch field | Enter save | Esc cancel '')"

definition render_group_form ::
  "UiEnv \<Rightarrow> string \<Rightarrow> string option \<Rightarrow> string \<Rightarrow> nat \<Rightarrow> bool \<Rightarrow> string \<Rightarrow> int \<Rightarrow> Rect \<Rightarrow> Drawing" where
  "render_group_form ui title name url field auto_update interval_hours provider_interval_secs area =
     popup_box ui ('' '' @ title @ '' '') ColAccent
       (responsive_rect 65 (if name \<noteq> None then 20 else 10) 92 90 area) (\<lambda>inner.
       let y = ry inner;
           (names, y) = (case name of Some n \<Rightarrow> (name_rows field n inner y, y + 5) | None \<Rightarrow> ([], y));
           urls = url_rows (field = (if name \<noteq> None then 1 else 0)) url inner y;
           y = y + 5;
           (autos, y) = (if name \<noteq> None
             then (auto_rows field auto_update interval_hours provider_interval_secs inner y, y + 6) else ([], y))
       in names @ urls @ autos @ [(inner_row inner y 2, text_para s_dim AlignCenter (form_hint (name \<noteq> None) field))])"

text \<open>A question and below it the keys that answer it, in the two parts of the inside.\<close>

definition ask_popup :: "UiEnv \<Rightarrow> string \<Rightarrow> Slot \<Rightarrow> Rect \<Rightarrow> Constraint list \<Rightarrow> Widget \<Rightarrow> string \<Rightarrow> Drawing" where
  "ask_popup ui title border pa parts question keys =
     popup_box ui title border pa (\<lambda>inner.
       let chunks = ui_split ui Vertical parts inner
       in [(chunks ! 0, question), (chunks ! 1, text_para s_accent AlignCenter keys)])"

definition render_confirm_popup :: "UiEnv \<Rightarrow> string \<Rightarrow> string \<Rightarrow> Rect \<Rightarrow> Drawing" where
  "render_confirm_popup ui kind name area =
     ask_popup ui '' Confirm Delete '' ColError (responsive_rect 50 7 90 40 area) [CPercentage 50, CPercentage 50]
       (wrapped s_text AlignCenter (raw_lines
         (''Delete '' @ kind @ '' \"'' @ name @ ''\"?'' @ [CHR 0x0A] @ ''This cannot be undone.'')))
       '' Enter confirm | Esc cancel ''"

definition render_clear_logs_popup :: "UiEnv \<Rightarrow> LogSource \<Rightarrow> Rect \<Rightarrow> Drawing" where
  "render_clear_logs_popup ui source area =
     ask_popup ui '' Clear Logs '' ColError (responsive_rect 56 8 90 40 area) [CPercentage 50, CPercentage 50]
       (wrapped s_text AlignCenter (raw_lines (case source of
          LogSource.Core \<Rightarrow> ''Clear core logs?'' @ [CHR 0x0A] @
            ''core.log is truncated; backups and core-crash.log are removed.'' @ [CHR 0x0A] @ ''This cannot be undone.''
        | LogSource.Tui \<Rightarrow> ''Clear TUI log?'' @ [CHR 0x0A] @
            ''tui.log is truncated and tui.log.1 is removed.'' @ [CHR 0x0A] @ ''This cannot be undone.'')))
       '' Enter confirm | Esc cancel ''"

definition update_lines :: "UpdateInfo \<Rightarrow> Line list" where
  "update_lines info =
     [[(''WhoisThat '', s_dim), (''v'' @ ui_current info, s_text), (('' '' @ g_right @ '' ''), s_dim), (''v'' @ ui_latest info, s_accent_bold)],
      [(''Installed via: '', s_dim), (install_label (ui_source info), s_text)], []]
     @ (case ui_command info of
          Some command \<Rightarrow> [[(''Update command:'', s_dim)], [(command, s_text)]]
        | None \<Rightarrow> [[(''Open the release page:'', s_dim)], [(ui_release_url info, s_accent)]])"

definition render_update_popup :: "UiEnv \<Rightarrow> UpdateInfo \<Rightarrow> Rect \<Rightarrow> Drawing" where
  "render_update_popup ui info area =
     ask_popup ui '' Update available '' ColAccent (responsive_rect 64 12 94 70 area) [CMin 5, CLength 2]
       (wrapped s_text AlignLeft (update_lines info))
       (if ui_command info \<noteq> None then '' Enter/u copy command  |  s skip this version  |  Esc later ''
        else '' s skip this version  |  Esc later '')"

definition recovery_text :: "bool \<Rightarrow> bool \<Rightarrow> string \<Rightarrow> string" where
  "recovery_text config db day =
     ''WhoisThat could not read:'' @ [CHR 0x0A]
     @ (if config then ''  - settings (tun name, split tunnel, autoconnect)'' @ [CHR 0x0A] else [])
     @ (if db then ''  - profiles and groups'' @ [CHR 0x0A] else [])
     @ [CHR 0x0A] @ ''The damaged files were kept. WhoisThat can restore them''
     @ (if db \<and> day \<noteq> [] then '' from the backup of '' @ day @ ''.'' else ''.'')"

definition render_recovery_popup :: "UiEnv \<Rightarrow> bool \<Rightarrow> bool \<Rightarrow> string \<Rightarrow> Rect \<Rightarrow> Drawing" where
  "render_recovery_popup ui config db day area =
     ask_popup ui '' Repair WhoisThat '' ColError (responsive_rect 62 10 94 60 area) [CMin 4, CLength 2]
       (wrapped s_text AlignLeft (raw_lines (recovery_text config db day))) '' Enter restore | Esc later ''"

section \<open>Help\<close>

definition tab_context :: "ActiveTab \<Rightarrow> KeyContext" where
  "tab_context t =
     (case t of TabProfiles \<Rightarrow> CProfilesTree | TabRouting \<Rightarrow> CRouting | TabSettings \<Rightarrow> CSettings
      | TabLogs \<Rightarrow> CLogs | TabTraffic \<Rightarrow> CTraffic)"

definition help_rows :: "ActiveTab \<Rightarrow> (string \<times> string \<times> bool) list" where
  "help_rows t =
     (let (tab_name, tab_help) = get_tab_help (tab_context t); row = (\<lambda>(key, desc). (key, desc, False))
      in [(''Global Shortcuts'', [], True)] @ map row GLOBAL_HELP @ [(tab_name, [], True)] @ map row tab_help)"

definition help_line :: "string \<times> string \<times> bool \<Rightarrow> Line" where
  "help_line r =
     (let (key, desc, is_header) = r
      in if is_header then [('' '' @ key @ '' '', s_accent)]
         else [('' '' @ pad_left 15 key @ '' '', s_accent), (desc, s_dim)])"

text \<open>The part of the rows that is shown, and whether there is more below: one row is for the keys of the help
  itself, and one for the mark that there is more.\<close>

definition help_has_more :: "nat \<Rightarrow> nat \<Rightarrow> nat \<Rightarrow> bool" where
  "help_has_more height scroll total_rows \<longleftrightarrow> scroll + (height - 1) < total_rows"

definition help_window :: "nat \<Rightarrow> nat \<Rightarrow> 'a list \<Rightarrow> 'a list" where
  "help_window height scroll rows =
     (let slot_rows = height - 1;
          visible = (if help_has_more height scroll (length rows) then slot_rows - 1 else slot_rows);
          end = min (scroll + visible) (length rows)
      in take (height - 1) (drop scroll (take end rows)))"

definition render_help_popup :: "UiEnv \<Rightarrow> App \<Rightarrow> Rect \<Rightarrow> Drawing" where
  "render_help_popup ui app area =
     popup_box ui '' Keyboard Shortcuts '' ColAccent (responsive_rect 60 24 94 90 area) (\<lambda>inner.
       let rows = help_rows (tab app);
           shown = help_window (rheight inner) (help_scroll app) rows;
           y = ry inner + 1 + length shown
       in [(inner\<lparr>rheight := 1\<rparr>, text_para s_faint AlignCenter ('' j/k scroll '' @ g_mid @ '' any other key close ''))]
          @ map (\<lambda>(i, r). (inner_row inner (ry inner + 1 + i) 1, WPara (para [help_line r]))) (enumerate 0 shown)
          @ (if help_has_more (rheight inner) (help_scroll app) (length rows) \<and> y < ry inner + rheight inner
             then [(inner\<lparr>ry := y, rheight := 1\<rparr>, text_para s_faint AlignCenter ('' '' @ ellipsis))] else []))"

definition render_popup :: "UiEnv \<Rightarrow> App \<Rightarrow> Popup \<Rightarrow> Rect \<Rightarrow> Drawing" where
  "render_popup ui app p area =
     (case p of
        Import input _ \<Rightarrow> render_text_popup ui '' Import Profile URI ''
          ''Paste or type URI (vless:// vmess:// trojan:// ss:// socks://):'' input area
      | EditUserAgent input _ \<Rightarrow> render_text_popup ui '' Edit User-Agent '' ''Enter custom User-Agent:'' input area
      | EditTunName input _ \<Rightarrow> render_text_popup ui '' Edit TUN Name ''
          ''Enter TUN interface name (1-15 chars, letters/digits/underscore/dash):'' input area
      | EditProfileName input _ _ _ \<Rightarrow> render_text_popup ui '' Rename Profile '' ''Enter new profile name:'' input area
      | ConfirmDelete _ _ name \<Rightarrow> render_confirm_popup ui ''profile'' name area
      | ConfirmDeleteGroup _ name \<Rightarrow> render_confirm_popup ui ''group'' name area
      | ConfirmClearLogs source \<Rightarrow> render_clear_logs_popup ui source area
      | EditSubscription name url _ _ field auto_update interval_hours provider \<Rightarrow>
          render_group_form ui ''Edit Group'' (Some name) url field auto_update interval_hours provider area
      | Help \<Rightarrow> render_help_popup ui app area
      | UpdatePopup info \<Rightarrow> render_update_popup ui info area
      | AddGroup url _ \<Rightarrow> render_group_form ui ''Add Group'' None url 0 True [] 0 area
      | TabSwitcher cur \<Rightarrow> render_tab_switcher_popup ui cur area
      | Recovery config db day \<Rightarrow> render_recovery_popup ui config db day area)"


section \<open>Inside the screen\<close>

text \<open>Documented of ratatui: the inside of a block with borders is its area without them.\<close>

definition borders_ok :: "UiEnv \<Rightarrow> bool" where
  "borders_ok ui \<longleftrightarrow> (\<forall>r. 2 \<le> rwidth r \<longrightarrow> 2 \<le> rheight r \<longrightarrow>
     ui_inner ui r = \<lparr>rx = rx r + 1, ry = ry r + 1, rwidth = rwidth r - 2, rheight = rheight r - 2\<rparr>)"

lemma simple_borders_ok: "borders_ok simple_ui"
  by (simp add: borders_ok_def simple_ui_def simple_inner_def)

text \<open>A terminal that the code does not refuse as too small.\<close>

definition roomy :: "Rect \<Rightarrow> bool" where
  "roomy screen \<longleftrightarrow> u16_rect screen \<and> 45 \<le> rwidth screen \<and> 8 \<le> rheight screen"

lemma percent_of:
  assumes "n < 2 ^ 16" "10 \<le> p" "p \<le> 100"
  shows "(n * clamp 10 100 p) div 100 mod 2 ^ 16 = n * p div 100"
proof -
  have "n * p div 100 \<le> n * 100 div 100" using assms(3) by (intro div_le_mono mult_le_mono) auto
  then show ?thesis using assms by (simp add: clamp_def)
qed

lemma fits: "k \<le> a \<Longrightarrow> k * 100 \<le> d \<Longrightarrow> k + 2 \<le> n \<Longrightarrow> (k :: nat) \<le> max (min (min a (d div 100)) (max (n - 2) 1)) 1"
  using div_le_mono [of "k * 100" d 100] by auto

lemma popup_size:
  assumes "roomy screen" "10 \<le> mw" "mw \<le> 100" "10 \<le> mh" "mh \<le> 100"
  shows "k \<le> pw \<Longrightarrow> k * 100 \<le> rwidth screen * mw \<Longrightarrow> k + 2 \<le> rwidth screen \<Longrightarrow>
           k \<le> rwidth (responsive_rect pw ph mw mh screen)"
    and "k \<le> ph \<Longrightarrow> k * 100 \<le> rheight screen * mh \<Longrightarrow> k + 2 \<le> rheight screen \<Longrightarrow>
           k \<le> rheight (responsive_rect pw ph mw mh screen)"
proof -
  have u: "rwidth screen < 2 ^ 16" "rheight screen < 2 ^ 16"
    using assms(1) by (auto simp: roomy_def u16_rect_def)
  show "k \<le> pw \<Longrightarrow> k * 100 \<le> rwidth screen * mw \<Longrightarrow> k + 2 \<le> rwidth screen \<Longrightarrow>
       k \<le> rwidth (responsive_rect pw ph mw mh screen)"
    and "k \<le> ph \<Longrightarrow> k * 100 \<le> rheight screen * mh \<Longrightarrow> k + 2 \<le> rheight screen \<Longrightarrow>
       k \<le> rheight (responsive_rect pw ph mw mh screen)"
    unfolding responsive_rect_def Let_def percent_of [OF u(1) assms(2,3)] percent_of [OF u(2) assms(4,5)]
      Rect.select_convs by (rule fits; assumption)+
qed

text \<open>A popup's frame is on the screen, its inside has the rows that its height leaves, and so is everything that
  is drawn within the inside.\<close>

lemma popup_box_inside:
  assumes ui: "toolkit_ok ui" "borders_ok ui" and screen: "roomy screen"
    and size: "3 \<le> pw" "40 \<le> mw" "mw \<le> 100" "40 \<le> mh" "mh \<le> 100"
    and k: "1 \<le> k" "k + 2 \<le> ph" "(k + 2) * 100 \<le> rheight screen * mh" "k + 4 \<le> rheight screen"
    and content: "\<And>inner. 0 < rwidth inner \<Longrightarrow> k \<le> rheight inner \<Longrightarrow> drawn_in inner (content inner)"
  shows "drawn_in screen (popup_box ui title border (responsive_rect pw ph mw mh screen) content)"
proof -
  let ?p = "responsive_rect pw ph mw mh screen"
  have s: "u16_rect screen" "45 \<le> rwidth screen" "8 \<le> rheight screen" using screen by (auto simp: roomy_def)
  have p: "inside ?p screen" using popup_inside [OF s(1)] s(2,3) by auto
  have "3 * 100 \<le> 45 * (40 :: nat)" by simp
  also have "\<dots> \<le> rwidth screen * mw" using s(2) size(2) by (intro mult_le_mono)
  finally have w: "3 \<le> rwidth ?p" using s(2) size screen by (intro popup_size(1)) auto
  have h: "k + 2 \<le> rheight ?p" using k size screen by (intro popup_size(2)) auto
  have "ui_inner ui ?p = \<lparr>rx = rx ?p + 1, ry = ry ?p + 1, rwidth = rwidth ?p - 2, rheight = rheight ?p - 2\<rparr>"
    using ui(2) w h k(1) by (auto simp: borders_ok_def)
  then have "drawn_in (ui_inner ui ?p) (content (ui_inner ui ?p))" using w h by (intro content) simp_all
  then have "drawn_in screen (content (ui_inner ui ?p))" by (rule drawn_in_mono [OF _ toolkit_inner [OF ui(1) p]])
  then show ?thesis using p by (simp add: popup_box_def)
qed

lemma popup_box_small:
  assumes "toolkit_ok ui" "borders_ok ui" "roomy screen" "3 \<le> pw" "3 \<le> ph" "40 \<le> mw" "mw \<le> 100" "40 \<le> mh" "mh \<le> 100"
    and "\<And>inner. 0 < rwidth inner \<Longrightarrow> 1 \<le> rheight inner \<Longrightarrow> drawn_in inner (content inner)"
  shows "drawn_in screen (popup_box ui title border (responsive_rect pw ph mw mh screen) content)"
proof -
  have "3 * 100 \<le> 8 * (40 :: nat)" by simp
  also have "\<dots> \<le> rheight screen * mh" using assms(3,8) by (intro mult_le_mono) (auto simp: roomy_def)
  finally have "(1 + 2) * 100 \<le> rheight screen * mh" by simp
  with assms show ?thesis by (intro popup_box_inside [where k = 1]) (auto simp: roomy_def)
qed

lemma inner_row_inside:
  "0 < rwidth inner \<Longrightarrow> ry inner \<le> y \<Longrightarrow> y + h \<le> ry inner + rheight inner \<Longrightarrow> inside (inner_row inner y h) inner"
  by (auto simp: inside_def inner_row_def)

lemma split_inside: "toolkit_ok ui \<Longrightarrow> i < length cs \<Longrightarrow> inside (ui_split ui d cs r ! i) r"
  by (rule toolkit_split [OF _ inside_refl])

lemma ask_popup_inside:
  assumes "toolkit_ok ui" "borders_ok ui" "roomy screen" "3 \<le> pw" "3 \<le> ph" "40 \<le> mw" "mw \<le> 100" "40 \<le> mh" "mh \<le> 100"
    and "length parts = 2"
  shows "drawn_in screen (ask_popup ui title border (responsive_rect pw ph mw mh screen) parts question keys)"
  unfolding ask_popup_def
  by (rule popup_box_small [OF assms(1-9)]) (simp add: Let_def split_inside [OF assms(1)] assms(10))

text \<open>The rows that a popup's content takes: the forms place theirs without looking at the height.\<close>

definition popup_rows :: "Popup \<Rightarrow> nat" where
  "popup_rows p = (case p of EditSubscription _ _ _ _ _ _ _ _ \<Rightarrow> 18 | AddGroup _ _ \<Rightarrow> 7 | _ \<Rightarrow> 1)"

lemma group_form_inside:
  assumes "toolkit_ok ui" "borders_ok ui" "roomy screen"
    and "(if name = None then 11 else 23) \<le> rheight screen"
  shows "drawn_in screen (render_group_form ui title name url field auto hours provider screen)"
  unfolding render_group_form_def
  apply (rule popup_box_inside [OF assms(1-3), where k = "if name = None then 7 else 18"])
  using assms(4)
  by (auto simp: name_rows_def url_rows_def auto_rows_def Let_def inner_row_inside split: option.split if_splits)

lemma help_window_length: "length (help_window h s rows) \<le> h - Suc 0"
  by (simp add: help_window_def Let_def)

lemma help_inside:
  assumes "toolkit_ok ui" "borders_ok ui" "roomy screen"
  shows "drawn_in screen (render_help_popup ui app screen)"
proof -
  have rows: "drawn_in inner (map (\<lambda>(i, r). (inner_row inner (Suc (ry inner + i)) (Suc 0), f r)) (enumerate 0 shown))"
    if "0 < rwidth inner" "length shown \<le> rheight inner - 1" for inner shown and f :: "string \<times> string \<times> bool \<Rightarrow> Widget"
    using that by (auto simp: drawn_in_def list_all_iff in_set_enumerate_eq intro!: inner_row_inside)
  show ?thesis
    unfolding render_help_popup_def
    by (rule popup_box_small [OF assms])
      (auto simp: Let_def rows help_window_length inside_def)
qed

theorem popups_stay_inside:
  assumes "toolkit_ok ui" "borders_ok ui" "roomy screen"
    and "popup_rows p = 18 \<Longrightarrow> 23 \<le> rheight screen" "popup_rows p = 7 \<Longrightarrow> 11 \<le> rheight screen"
  shows "drawn_in screen (render_popup ui app p screen)"
proof -
  have texts: "drawn_in screen (render_text_popup ui title hint input screen)" for title hint input
    unfolding render_text_popup_def
    by (rule popup_box_small [OF assms(1-3)]) (simp_all add: Let_def split_inside [OF assms(1)])
  have tabs: "drawn_in screen (render_tab_switcher_popup ui cur screen)" for cur
    unfolding render_tab_switcher_popup_def
    by (rule popup_box_small [OF assms(1-3)]) (simp_all add: Let_def)
  show ?thesis
    using assms(4,5) texts tabs help_inside [OF assms(1-3)]
    by (cases p)
      (simp_all add: render_popup_def popup_rows_def group_form_inside [OF assms(1-3)] render_confirm_popup_def
        render_clear_logs_popup_def render_update_popup_def render_recovery_popup_def ask_popup_inside [OF assms(1-3)])
qed

lemma group_form_last_row:
  "drawn_in screen (render_group_form ui title (Some name) url field auto hours provider screen) \<Longrightarrow>
   inside (inner_row (ui_inner ui (responsive_rect 65 20 92 90 screen))
     (16 + ry (ui_inner ui (responsive_rect 65 20 92 90 screen))) 2) screen"
  by (simp add: render_group_form_def popup_box_def Let_def)

text \<open>On a terminal of eighty columns and ten rows the form of a group leaves the screen.\<close>

lemma group_form_overflows:
  assumes "screen = \<lparr>rx = 0, ry = 0, rwidth = 80, rheight = 10\<rparr>"
  shows "roomy screen" "\<not> drawn_in screen (render_group_form simple_ui title (Some name) url field auto hours provider screen)"
proof -
  show "roomy screen" by (simp add: assms roomy_def u16_rect_def)
  have "ui_inner simple_ui (responsive_rect 65 20 92 90 screen) = \<lparr>rx = 8, ry = 2, rwidth = 63, rheight = 6\<rparr>"
    by (simp add: assms responsive_rect_def clamp_def simple_ui_def simple_inner_def)
  then show "\<not> drawn_in screen (render_group_form simple_ui title (Some name) url field auto hours provider screen)"
    using group_form_last_row [of screen simple_ui title name url field auto hours provider]
    by (auto simp: assms inner_row_def inside_def)
qed

text \<open>Every row of the help can be scrolled to, but the scroll goes on past the last one.\<close>

lemma help_shows_row:
  assumes "2 < h" "i < length rows"
  shows "rows ! i \<in> set (help_window h i rows)"
proof -
  have *: "rows ! i \<in> set (take (h - 1) (drop i (take e rows)))" if "i < e" for e
  proof -
    have "drop i (take e rows) = take e rows ! i # drop (Suc i) (take e rows)"
      using that assms(2) by (intro Cons_nth_drop_Suc [symmetric]) simp
    then show ?thesis using that assms(1) by (cases "h - 1") auto
  qed
  show ?thesis unfolding help_window_def Let_def by (rule *) (use assms in auto)
qed

lemma help_scrolls_away: "length rows \<le> i \<Longrightarrow> help_window h i rows = []"
  by (simp add: help_window_def Let_def)

end
