(* ===== verification/RoutingView.thy ===== *)
theory RoutingView
  imports PopupView Details CliRouting
begin

text \<open>
  The drawing of the routing tab, \<open>src/ui/routing/tab.rs\<close> and \<open>src/ui/routing/popups.rs\<close>, and what it says of
  the rules in force, beside what the command line says (\<open>CliRouting\<close>).
\<close>

section \<open>The rules in force\<close>

text \<open>What the head of the tab is computed from; the page is that of the groups' common rules for index 0.\<close>

record TabView =
  tv_global :: bool
  tv_json :: bool
  tv_mode :: string
  tv_active :: "RoutingProfileInfo option"
  tv_source :: string

definition tab_view :: "GroupWithProfiles option \<Rightarrow> nat \<Rightarrow> string \<Rightarrow> TabView" where
  "tab_view grp group_index source =
     \<lparr>tv_global = (grp = None \<or> group_index = 0),
      tv_json = (case grp of Some g \<Rightarrow> g_subscription_format (gw_group g) = ''json'' | None \<Rightarrow> False),
      tv_mode = (case grp of Some g \<Rightarrow> mode_or_auto (g_routing_mode (gw_group g)) | None \<Rightarrow> ''auto''),
      tv_active = (case grp of
          Some g \<Rightarrow> routing_profile_of g (g_active_routing_profile_id (gw_group g)) | None \<Rightarrow> None),
      tv_source = source\<rparr>"

definition manual_label :: "TabView \<Rightarrow> string" where
  "manual_label v = (if tv_source v = ''custom'' then ''group rules'' else ''Global rules'')"

definition shadowed_notice :: "TabView \<Rightarrow> bool" where
  "shadowed_notice v \<longleftrightarrow> \<not> tv_global v \<and> \<not> tv_json v \<and>
     (if tv_mode v = ''manual'' then False
      else if tv_mode v = ''subscription'' then True
      else if tv_mode v = ''auto'' then (case tv_active v of Some p \<Rightarrow> rp_rules_count p > 0 | None \<Rightarrow> False)
      else False)"

definition inherited_notice :: "TabView \<Rightarrow> bool" where
  "inherited_notice v \<longleftrightarrow> \<not> tv_global v \<and> tv_source v \<noteq> ''custom''"

definition source_desc :: "TabView \<Rightarrow> Span" where
  "source_desc v =
     (if tv_global v then (''Manual (Global rules)'', s_text)
      else if tv_json v then (''Provider JSON baseline + manual rules (manual first)'', s_accent)
      else if tv_mode v = ''manual''
      then (''Manual ('' @ manual_label v @ '')'', if tv_source v = ''custom'' then s_success else s_text)
      else if tv_mode v = ''subscription''
      then (case tv_active v of
          Some p \<Rightarrow> (if rp_state p = ''error''
            then (''Subscription (Happ: '' @ rp_name p @ '', error: fallback to LAN)'', s_error)
            else (''Subscription (Happ: '' @ rp_name p @ '')'', s_success))
        | None \<Rightarrow> ((''Subscription (No active profile '' @ em_dash @ '' fallback to direct/LAN)''), s_disconnected))
      else (case tv_active v of
          Some p \<Rightarrow> (if rp_state p = ''error''
            then (''Auto (Happ: '' @ rp_name p @ '', error: fallback to '' @ manual_label v @ '')'', s_accent)
            else if rp_rules_count p > 0 then (''Auto (Happ: '' @ rp_name p @ '')'', s_success)
            else (''Auto (Manual: '' @ manual_label v @ '')'', s_text))
        | None \<Rightarrow> (''Auto (Manual: '' @ manual_label v @ '')'', s_text)))"

section \<open>The tab\<close>

definition page_line :: "GroupWithProfiles option \<Rightarrow> nat \<Rightarrow> nat \<Rightarrow> TabView \<Rightarrow> Line" where
  "page_line grp group_index total_groups v =
     (let group_str = (if tv_global v then ''Global''
            else ''['' @ show_nat group_index @ ''/'' @ show_nat total_groups @ ''] '' @
              (case grp of Some g \<Rightarrow> g_name (gw_group g) | None \<Rightarrow> ''Unknown''));
          profiles_count = (case grp of Some g \<Rightarrow> length (gw_routing_profiles g) | None \<Rightarrow> 0);
          start = [('' Group: < '', s_faint), (group_str, bold s_accent_bold)]
      in if tv_global v
         then start @ [(('' > ('' @ g_left @ ''/'' @ g_right @ '') '' @ g_bar @ '' Scope: ''), s_faint),
           (if total_groups = 0 then ''shared base (no groups yet)''
            else ''shared base for '' @ show_nat total_groups @ '' group(s)'', s_text)]
         else if tv_json v
         then start @ [(('' > ('' @ g_left @ ''/'' @ g_right @ '') '' @ g_bar @ '' Provider JSON: ''), s_faint), (''read-only'', s_accent),
           ('' (manual rules below still apply)'', s_dim)]
         else start @ [(('' > ('' @ g_left @ ''/'' @ g_right @ '') '' @ g_bar @ '' Mode: ''), s_faint), (''['' @ tv_mode v @ '']'', s_accent),
           (('' (m) '' @ g_bar @ '' Happ Profiles: ''), s_faint), (''[H] '', s_accent_bold),
           (''('' @ show_nat profiles_count @ '' profiles)'', s_dim)])"

definition manual_line :: "TabView \<Rightarrow> Line" where
  "manual_line v =
     [('' Manual: '', s_faint),
      (if tv_global v then ((''Global rules '' @ em_dash @ '' used by every group that inherits them''), s_text)
       else if tv_source v = ''custom'' then (''Custom rules for this group'', s_success)
       else ((''Global rules (inherited) '' @ em_dash @ '' press g to customize''), s_dim)),
      (if tv_global v then ([], unstyled) else (('' '' @ g_bar @ '' g: toggle source''), s_faint))]"

definition header_lines :: "GroupWithProfiles option \<Rightarrow> nat \<Rightarrow> nat \<Rightarrow> TabView \<Rightarrow> Line list" where
  "header_lines grp group_index total_groups v =
     [page_line grp group_index total_groups v, manual_line v, [('' Effective Source: '', s_faint), source_desc v]]
     @ (if tv_json v
        then [[('' Provider JSON routing is immutable; manual rules above it are checked first.'', s_dim)]] else [])
     @ (if inherited_notice v
        then [[(('' '' @ g_warn @ '' These are Global rules. Press g or edit a rule to create group-specific rules.''), s_dim)]] else [])
     @ (if shadowed_notice v
        then [[(('' '' @ g_warn @ '' Notice: Manual rules below are shadowed by active Happ routing for this group''), bold s_accent)]]
        else [])"

definition header_height :: "TabView \<Rightarrow> nat" where
  "header_height v = 3 + of_bool (inherited_notice v) + of_bool (shadowed_notice v) + of_bool (tv_json v)"

definition outbound_style :: "string \<Rightarrow> Style" where
  "outbound_style ob = (if ob = ''direct'' then s_success else if ob = ''block'' then s_error else s_accent)"

definition rule_row :: "bool \<Rightarrow> RoutingRule \<Rightarrow> Span list" where
  "rule_row is_cursor r =
     (let ob = rule_outbound_label r; style = (if is_cursor then s_text else s_dim)
      in [(if r_enabled r then g_dot else g_ring, if r_enabled r then s_success else s_disconnected),
          (rule_type_label r, style), (rule_value r, style), (g_right, s_faint), (ob, outbound_style ob)])"

definition rules_table :: "bool \<Rightarrow> bool \<Rightarrow> nat \<Rightarrow> RoutingConfig \<Rightarrow> RowTable" where
  "rules_table is_compact focused cur config =
     \<lparr>tb_header = [(''On'', s_faint), (''Type'', s_faint), (''Value'', s_faint), ([], unstyled),
        (if is_compact then ''Out'' else ''Outbound'', s_faint)],
      tb_rows = map (\<lambda>(i, r). rule_row (i = cur \<and> focused) r) (enumerate 0 (rc_rules config)),
      tb_widths = (if is_compact then [CLength 3, CLength 8, CMin 8, CLength 1, CLength 7]
        else [CLength 4, CLength 10, CMin 10, CLength 3, CLength 10]),
      tb_highlight = on_bg ColSurface, tb_symbol = ''> '', tb_selected = cur\<rparr>"

definition routing_hint :: "bool \<Rightarrow> nat \<Rightarrow> string" where
  "routing_hint is_json width =
     (if is_json then
        if width < 85 then ('' a:add '' @ g_bar @ '' p:presets '' @ g_bar @ '' g:source '' @ g_bar @ '' e:edit '' @ g_bar @ '' x:del '' @ g_bar @ '' Spc '' @ g_bar @ '' '' @ g_left @ ''/'' @ g_right @ '':page '')
        else ('' a add '' @ g_bar @ '' p presets '' @ g_bar @ '' g source '' @ g_bar @ '' e edit '' @ g_bar @ '' x delete '' @ g_bar @ '' Space '' @ g_bar @ '' '' @ g_left @ ''/'' @ g_right @ '' page '')
      else if width < 85
      then ('' a:add '' @ g_bar @ '' p:presets '' @ g_bar @ '' H:happ '' @ g_bar @ '' m:mode '' @ g_bar @ '' g:source '' @ g_bar @ '' i:clip '' @ g_bar @ '' e:edit '' @ g_bar @ '' x:del '' @ g_bar @ '' Spc '' @ g_bar @ '' '' @ g_left @ ''/'' @ g_right @ '':page '')
      else ('' a add '' @ g_bar @ '' p presets '' @ g_bar @ '' H happ '' @ g_bar @ '' m mode '' @ g_bar @ '' g source '' @ g_bar @ '' i import '' @ g_bar @ '' e edit '' @ g_bar @ '' x delete '' @ g_bar @ '' Space '' @ g_bar @ '' '' @ g_left @ ''/'' @ g_right @ '' page ''))"

definition render_routing_tab ::
  "UiEnv \<Rightarrow> Rect \<Rightarrow> RoutingConfig \<Rightarrow> nat \<Rightarrow> bool \<Rightarrow> GroupWithProfiles option \<Rightarrow> nat \<Rightarrow> nat \<Rightarrow> string \<Rightarrow> Drawing" where
  "render_routing_tab ui area config cur focused grp group_index total_pages source =
     (let v = tab_view grp group_index source;
          inner = ui_inner ui area;
          parts = ui_split ui Vertical [CLength (header_height v), CMin 0, CLength 1] inner
      in [(area, WBlock (framed '' Routing Rules '' (if focused then ColBorderActive else ColBorder) s_bg)),
          (parts ! 0, WPara (para (header_lines grp group_index (total_pages - 1) v))),
          (parts ! 1,
            if rc_rules config = []
            then text_para s_dim AlignCenter (''No rules defined.'' @ [CHR 0x0A] @ ''Press [a] to add a rule.'')
            else WTable (rules_table (rwidth area < 75) focused cur config)),
          (parts ! 2, text_para s_faint AlignCenter (routing_hint (tv_json v) (rwidth area)))])"

section \<open>The Happ profiles\<close>

text \<open>\<open>trim\_end\_matches\<close> with a string: every copy of it at the end is dropped.\<close>

function drop_copies :: "string \<Rightarrow> string \<Rightarrow> string" where
  "drop_copies pat s =
     (if pat \<noteq> [] \<and> starts_with pat s then drop_copies pat (drop (length pat) s) else s)"
  by auto

termination
  by (relation "measure (\<lambda>(pat, s). length s)") (auto simp: starts_with_def intro!: diff_less)

declare drop_copies.simps [simp del]

definition trim_end_matches :: "string \<Rightarrow> string \<Rightarrow> string" where
  "trim_end_matches pat s = rev (drop_copies (rev pat) (rev s))"

definition truncate_dns_label :: "string \<Rightarrow> string" where
  "truncate_dns_label label = (if char_count label \<le> 28 then label else take_chars 27 label @ ellipsis)"

definition happ_dns_line :: "RoutingProfileInfo \<Rightarrow> Line" where
  "happ_dns_line p =
     (let parts = (if rp_remote_dns p \<noteq> [] then [truncate_dns_label (rp_remote_dns p)] else [])
            @ (if rp_domestic_dns p \<noteq> [] then [truncate_dns_label (rp_domestic_dns p)] else [])
            @ (if rp_fake_dns_enabled p then [''FakeDNS: on''] else [])
      in [(''      DNS: '', s_faint), (if parts = [] then em_dash else join (('' '' @ g_bar @ '' '')) parts, s_dim)])"

definition active_badge :: "bool \<Rightarrow> Span" where
  "active_badge act = (if act then (('' ['' @ g_dot @ '' Active] ''), bold s_success) else (('' ['' @ g_ring @ '' Inactive] ''), s_dim))"

definition state_badge :: "string \<Rightarrow> Span" where
  "state_badge s =
     (if s = ''ready'' \<or> s = [] then ('' [ready] '', s_success)
      else if s = ''updating'' then ('' [updating...] '', s_accent)
      else if s = ''error'' then ('' [error] '', bold s_error)
      else ('' ['' @ s @ ''] '', s_dim))"

definition error_snippet :: "string \<Rightarrow> string" where
  "error_snippet e = (if char_count e > 35 then ''err: '' @ take_chars 34 e @ ellipsis else ''err: '' @ e)"

text \<open>Without an error the separator after the last item goes.\<close>

definition happ_details :: "UiEnv \<Rightarrow> RoutingProfileInfo \<Rightarrow> Line" where
  "happ_details ui p =
     (let details =
            [(''      '', s_faint), (''rules: '' @ show_nat (rp_rules_count p) @ ('' '' @ g_bar @ '' ''), s_dim),
             (''strategy: '' @ (if rp_domain_strategy p = [] then ''AsIs'' else rp_domain_strategy p) @ ('' '' @ g_bar @ '' ''), s_dim)]
            @ (if rp_last_updated p > 0
               then [(''updated: '' @ format_relative (ui_now ui) (rp_last_updated p) @ ('' '' @ g_bar @ '' ''), s_dim)] else [])
            @ (if rp_geo_updated_at p > 0
               then [(''geo: '' @ format_relative (ui_now ui) (rp_geo_updated_at p) @ ('' '' @ g_bar @ '' ''), s_dim)] else [])
      in if rp_last_error p \<noteq> [] then details @ [(error_snippet (rp_last_error p), s_error)]
         else butlast details @ [(trim_end_matches (('' '' @ g_bar @ '' '')) (fst (List.last details)), s_dim)])"

definition happ_is_active :: "string \<Rightarrow> RoutingProfileInfo \<Rightarrow> bool" where
  "happ_is_active active_id p \<longleftrightarrow> rp_id p = active_id \<or> active_id = [] \<and> rp_active p"

definition happ_item :: "UiEnv \<Rightarrow> string \<Rightarrow> bool \<Rightarrow> bool \<Rightarrow> RoutingProfileInfo \<Rightarrow> Line list \<times> Style" where
  "happ_item ui active_id has_dns is_selected p =
     ([[(if is_selected then (g_fold @ '' '') else ''  '', s_accent), active_badge (happ_is_active active_id p),
        state_badge (rp_state p),
        (if rp_name p = [] then ''(unnamed)'' else rp_name p, if is_selected then bold s_accent_bold else s_text)],
       happ_details ui p] @ (if has_dns then [happ_dns_line p] else []),
      on_bg (if is_selected then ColSurface else ColBg))"

text \<open>The first item shown of a list whose items have all the same height.\<close>

definition scroll_item :: "nat \<Rightarrow> nat \<Rightarrow> nat \<Rightarrow> nat" where
  "scroll_item height item_height cur =
     (let visible = height div item_height in if 0 < visible \<and> visible \<le> cur then cur - visible + 1 else 0)"

definition cursor_list :: "nat \<Rightarrow> nat \<Rightarrow> nat \<Rightarrow> (Line list \<times> Style) list \<Rightarrow> Widget" where
  "cursor_list height item_height cur items =
     WList ((item_list items)\<lparr>li_selected := Some cur, li_offset := scroll_item height item_height cur\<rparr>)"

text \<open>The box for the error of the selected profile, by an estimate of the lines it takes.\<close>

definition error_box_height :: "Rect \<Rightarrow> string \<Rightarrow> nat" where
  "error_box_height inner err =
     (let content_width = max (rwidth inner - 4) 1;
          estimated = sum_list (map (\<lambda>l. max (char_count l div content_width) 1) (str_lines err))
      in clamp 3 (clamp 3 10 (rheight inner - 6)) ((estimated + 2) mod 2 ^ 16))"

definition happ_hint :: "string \<Rightarrow> Line" where
  "happ_hint mode =
     [('' [Enter] '', s_accent_bold), ((''Activate  '' @ g_bar @ '' ''), s_text), (''[o] '', s_accent_bold), ((''Off  '' @ g_bar @ '' ''), s_text),
      (''[d/x] '', s_accent_bold), ((''Delete  '' @ g_bar @ '' ''), s_text), (''[m] '', s_accent_bold),
      (''Mode ('' @ mode @ ('')  '' @ g_bar @ '' ''), s_text), (''[Esc] '', s_accent_bold), (''Close'', s_text)]"

definition hint_para :: "Line \<Rightarrow> Widget" where
  "hint_para l = WPara ((para [l])\<lparr>pg_align := AlignCenter\<rparr>)"

definition happ_list :: "UiEnv \<Rightarrow> nat \<Rightarrow> string \<Rightarrow> RoutingProfileInfo list \<Rightarrow> nat \<Rightarrow> Widget" where
  "happ_list ui cur active_id profiles height =
     (if profiles = []
      then text_para s_dim AlignCenter (''No Happ routing profiles for this group.'' @ [CHR 0x0A, CHR 0x0A] @
        ''Press [i] in Routing tab to import from clipboard,'' @ [CHR 0x0A] @ ''or fetch via subscription.'')
      else let has_dns = list_ex (\<lambda>p. rp_remote_dns p \<noteq> [] \<or> rp_domestic_dns p \<noteq> [] \<or> rp_fake_dns_enabled p) profiles
        in cursor_list height (if has_dns then 3 else 2) cur
             (map (\<lambda>(i, p). happ_item ui active_id has_dns (i = cur) p) (enumerate 0 profiles)))"

definition error_widget :: "string \<Rightarrow> Widget" where
  "error_widget err = WPara ((para (raw_lines err))\<lparr>pg_style := s_error, pg_wrap := True,
     pg_block := Some (framed (('' '' @ g_warn @ '' Error Details '')) ColError s_surface)\<rparr>)"

definition render_happ_profiles_popup :: "UiEnv \<Rightarrow> nat \<Rightarrow> GroupWithProfiles option \<Rightarrow> Rect \<Rightarrow> Drawing" where
  "render_happ_profiles_popup ui cur grp area =
     (let group_name = (case grp of Some g \<Rightarrow> g_name (gw_group g) | None \<Rightarrow> ''No group'');
          mode = (case grp of Some g \<Rightarrow> mode_or_auto (g_routing_mode (gw_group g)) | None \<Rightarrow> ''auto'');
          profiles = (case grp of Some g \<Rightarrow> gw_routing_profiles g | None \<Rightarrow> []);
          active_id = (case grp of Some g \<Rightarrow> g_active_routing_profile_id (gw_group g) | None \<Rightarrow> []);
          selected_error = (case get_at profiles cur of
              Some p \<Rightarrow> if rp_last_error p \<noteq> [] then Some (rp_last_error p) else None
            | None \<Rightarrow> None)
      in popup_box ui ((('' '' @ g_bolt @ '' Happ Routing Profiles '' @ em_dash @ '' Group: '')) @ group_name @ '' [mode: '' @ mode @ ''] '') ColAccent
           (responsive_rect 96 26 96 92 area) (\<lambda>inner.
           case selected_error of
             Some err \<Rightarrow>
               (let chunks = ui_split ui Vertical [CMin 4, CLength (error_box_height inner err), CLength 1] inner
                in [(chunks ! 0, happ_list ui cur active_id profiles (rheight (chunks ! 0))),
                    (chunks ! 1, error_widget err), (chunks ! 2, hint_para (happ_hint mode))])
           | None \<Rightarrow>
               (let chunks = ui_split ui Vertical [CMin 0, CLength 1] inner
                in [(chunks ! 0, happ_list ui cur active_id profiles (rheight (chunks ! 0))),
                    (chunks ! 1, hint_para (happ_hint mode))])))"

section \<open>The presets\<close>

definition preset_spans :: "PresetRule list \<Rightarrow> Line" where
  "preset_spans rs =
     concat (map (\<lambda>(i, r). (if 0 < i then [(('' '' @ g_bar @ '' ''), s_faint)] else []) @
       [(pr_value r, s_dim), (('' '' @ g_right @ '' ''), s_faint), (pr_outbound r, outbound_style (pr_outbound r))]) (enumerate (0 :: nat) rs))"

definition preset_item :: "RoutingConfig \<Rightarrow> bool \<Rightarrow> RoutingPreset \<Rightarrow> Line list \<times> Style" where
  "preset_item config is_selected p =
     ([[(if is_selected then (g_fold @ '' '') else ''  '', s_accent), active_badge (is_applied p config),
        (ps_title p @ '' '', if is_selected then bold s_accent_bold else s_text)],
       [(''      '', s_faint), (ps_desc p, s_dim), ('' ('', s_faint)] @ preset_spans (ps_rules p) @ [('')'', s_faint)]],
      on_bg (if is_selected then ColSurface else ColBg))"

definition presets_hint :: Line where
  "presets_hint =
     [('' [Enter/Space] '', s_accent_bold), ((''Toggle  '' @ g_bar @ '' ''), s_text), ((''[j/k / '' @ g_up @ ''/'' @ g_down @ ''] ''), s_accent_bold),
      ((''Navigate  '' @ g_bar @ '' ''), s_text), (''[Esc] '', s_accent_bold), (''Close '', s_text)]"

definition render_presets_popup :: "UiEnv \<Rightarrow> nat \<Rightarrow> RoutingConfig \<Rightarrow> Rect \<Rightarrow> Drawing" where
  "render_presets_popup ui cur config area =
     popup_box ui (('' '' @ g_bolt @ '' Routing Presets (GeoIP / GeoSite) '')) ColAccent (responsive_rect 84 22 95 90 area) (\<lambda>inner.
       let chunks = ui_split ui Vertical [CMin 0, CLength 1] inner
       in [(chunks ! 0, cursor_list (rheight (chunks ! 0)) 2 cur
              (map (\<lambda>(i, p). preset_item config (i = cur) p) (enumerate 0 ROUTING_PRESETS))),
           (chunks ! 1, hint_para presets_hint)])"

section \<open>The form of a rule\<close>

definition TYPE_LABELS :: "string list" where
  "TYPE_LABELS = [''domain'', ''ip'', ''protocol'', ''port'', ''geoip'', ''geosite'']"

definition form_value_label :: "nat \<Rightarrow> string" where
  "form_value_label t = (if t < 6 then [''Domain (e.g. example.com)'', ''IP (e.g. 10.0.0.0/8)'', ''Protocol (e.g. http, tls)'',
     ''Port (e.g. 443, 8000-9000)'', ''GeoIP (e.g. geoip:ru)'', ''GeoSite (e.g. geosite:youtube)''] ! t else [])"

definition value_example :: "nat \<Rightarrow> string" where
  "value_example t = (if t < 6 then [''example.com'', ''10.0.0.0/8'', ''http'', ''443'', ''geoip:ru'', ''geosite:youtube''] ! t
     else [])"

definition choice_line :: "bool \<Rightarrow> string \<Rightarrow> string \<Rightarrow> Line" where
  "choice_line chosen label v =
     (let arrow = (if chosen then s_accent else s_faint); style = (if chosen then s_accent else s_dim)
      in [(label, style), ((g_tri_left @ '' ''), arrow), (v, style), (('' '' @ g_tri_right), arrow)])"

definition rule_hint :: "nat \<Rightarrow> string" where
  "rule_hint field =
     (if field = 0 then ('' '' @ g_left @ '' / '' @ g_right @ '' change type  '' @ g_bar @ ''  Tab next field  '' @ g_bar @ ''  Esc cancel '')
      else if field = 1 then ('' type to edit  '' @ g_bar @ ''  '' @ g_left @ '' / '' @ g_right @ '' move cursor  '' @ g_bar @ ''  Tab next  '' @ g_bar @ ''  Esc cancel '')
      else if field = 2 then ('' '' @ g_left @ '' / '' @ g_right @ '' change outbound  '' @ g_bar @ ''  Enter save  '' @ g_bar @ ''  Esc cancel '')
      else [])"

text \<open>\<open>None\<close> is the panic of an index past the labels.\<close>

definition render_rule_form ::
  "UiEnv \<Rightarrow> string \<Rightarrow> nat \<Rightarrow> string \<Rightarrow> nat \<Rightarrow> nat \<Rightarrow> Rect \<Rightarrow> Drawing option" where
  "render_rule_form ui title match_type v outbound field area =
     (case (get_at TYPE_LABELS match_type, get_at OUTBOUND_LABELS outbound) of
        (Some t, Some ob) \<Rightarrow> Some (popup_box ui ('' '' @ title @ '' '') ColAccent (responsive_rect 65 14 92 90 area) (\<lambda>inner.
          let f1 = (if field = 1 then s_accent else s_dim); y = ry inner
          in [(inner_row inner y 1, WPara (para [choice_line (field = 0) ''Type: '' t])),
              (inner_row inner (y + 2) 1, text_para f1 AlignLeft (form_value_label match_type)),
              (inner_row inner (y + 3) 3, boxed f1 (if v = [] then value_example match_type else v)),
              (inner_row inner (y + 7) 1, WPara (para [choice_line (field = 2) ''Outbound: '' ob])),
              (inner_row inner (y + 9) 2, text_para s_dim AlignCenter (rule_hint field))]))
      | _ \<Rightarrow> None)"

definition render_routing_confirm :: "UiEnv \<Rightarrow> Rect \<Rightarrow> Drawing" where
  "render_routing_confirm ui area =
     ask_popup ui '' Delete Rule '' ColError (responsive_rect 48 7 90 40 area) [CPercentage 50, CPercentage 50]
       (wrapped s_text AlignCenter (raw_lines (''Delete this rule?'' @ [CHR 0x0A] @ ''This cannot be undone.'')))
       '' Enter confirm | Esc cancel ''"

definition render_routing_popup ::
  "UiEnv \<Rightarrow> RoutingPopup \<Rightarrow> Rect \<Rightarrow> RoutingConfig \<Rightarrow> GroupWithProfiles option \<Rightarrow> Drawing option" where
  "render_routing_popup ui p area config grp =
     (case p of
        RAdd t v ob _ field \<Rightarrow> render_rule_form ui ''Add Rule'' t v ob field area
      | REdit _ t v ob _ field \<Rightarrow> render_rule_form ui ''Edit Rule'' t v ob field area
      | RConfirmDelete _ \<Rightarrow> Some (render_routing_confirm ui area)
      | RPresets cur \<Rightarrow> Some (render_presets_popup ui cur config area)
      | RHappProfiles cur \<Rightarrow> Some (render_happ_profiles_popup ui cur grp area))"

section \<open>The notice and the command line\<close>

definition failed_profile :: "GroupWithProfiles \<Rightarrow> bool" where
  "failed_profile x \<longleftrightarrow>
     g_subscription_format (gw_group x) \<noteq> ''json'' \<and> mode_or_auto (g_routing_mode (gw_group x)) = ''auto'' \<and>
     (case routing_profile_of x (g_active_routing_profile_id (gw_group x)) of
        Some p \<Rightarrow> rp_state p = ''error'' \<and> rp_rules_count p > 0 | None \<Rightarrow> False)"

text \<open>C31: The routing tab warns that the manual rules of a group do not count exactly when the command line says
  so, and in one case more: in automatic mode, when the active profile has rules but could not be loaded, both
  fall back to the manual rules, and the tab, whose next line says so, warns all the same.\<close>

theorem shadowed_notice_iff:
  assumes "find (\<lambda>x. g_id (gw_group x) = i) gs = Some x" "i \<noteq> 0" "0 < page"
    and "g_routing_mode (gw_group x) \<in> {[], ''auto'', ''manual'', ''subscription''}"
  shows "shadowed_notice (tab_view (Some x) page source) =
    (manual_shadowed (effective_routing gs i) \<or> failed_profile x)"
proof -
  let ?a = "routing_profile_of x (g_active_routing_profile_id (gw_group x))"
  have e: "manual_shadowed (effective_routing gs i) =
    (g_subscription_format (gw_group x) \<noteq> ''json'' \<and> (group_mode (gw_group x) = ''subscription'' \<or>
      group_mode (gw_group x) = ''auto'' \<and> usable_profile ?a \<noteq> None))"
    using assms(1,2) by (auto simp: effective_routing_def manual_shadowed_def Let_def routing_profile_of_def)
  have m: "group_mode (gw_group x) = mode_or_auto (g_routing_mode (gw_group x))"
    using assms(4) by (auto simp: group_mode_def mode_or_auto_def)
  show ?thesis
    unfolding e m using assms(3,4)
    by (auto simp: shadowed_notice_def tab_view_def failed_profile_def mode_or_auto_def usable_profile_def
        split: option.split)
qed

lemma shadowed_notice_iff_witness:
  "let x = \<lparr>gw_group = default_group\<lparr>g_id := 7, g_routing_mode := ''subscription''\<rparr>, gw_profiles = [], gw_routing_profiles = []\<rparr>
   in shadowed_notice (tab_view (Some x) 1 ''global'') = (manual_shadowed (effective_routing [x] 7) \<or> failed_profile x)"
  unfolding Let_def by (rule shadowed_notice_iff) simp_all

section \<open>Inside the screen\<close>

lemma routing_tab_inside:
  "toolkit_ok ui \<Longrightarrow> drawn_in area (render_routing_tab ui area config cur focused grp i n source)"
  by (simp add: render_routing_tab_def Let_def toolkit_inner toolkit_split)

lemma rule_form_inside:
  assumes "toolkit_ok ui" "borders_ok ui" "roomy screen" "15 \<le> rheight screen"
    and "render_rule_form ui title t v ob field screen = Some d"
  shows "drawn_in screen d"
proof -
  obtain content where d: "d = popup_box ui ('' '' @ title @ '' '') ColAccent (responsive_rect 65 14 92 90 screen) content"
    and c: "\<And>inner. 0 < rwidth inner \<Longrightarrow> 11 \<le> rheight inner \<Longrightarrow> drawn_in inner (content inner)"
    using assms(5) by (auto simp: render_rule_form_def Let_def inner_row_inside split: option.splits)
  show ?thesis unfolding d by (rule popup_box_inside [OF assms(1-3), where k = 11]) (use assms(4) c in auto)
qed

lemma rule_form_drawn:
  "(render_rule_form ui title t v ob field screen \<noteq> None) = (t < 6 \<and> ob < 3)"
  by (auto simp: render_rule_form_def get_at_def TYPE_LABELS_def OUTBOUND_LABELS_def)

definition routing_popup_rows :: "RoutingPopup \<Rightarrow> nat" where
  "routing_popup_rows p = (case p of RAdd _ _ _ _ _ \<Rightarrow> 11 | REdit _ _ _ _ _ _ \<Rightarrow> 11 | _ \<Rightarrow> 1)"

lemma routing_popups_stay_inside:
  assumes "toolkit_ok ui" "borders_ok ui" "roomy screen"
    and "routing_popup_rows p = 11 \<Longrightarrow> 15 \<le> rheight screen"
    and "render_routing_popup ui p screen config grp = Some d"
  shows "drawn_in screen d"
proof -
  have "drawn_in screen (render_presets_popup ui cur config screen)" for cur
    unfolding render_presets_popup_def
    by (rule popup_box_small [OF assms(1-3)]) (simp_all add: Let_def split_inside [OF assms(1)])
  moreover have "drawn_in screen (render_happ_profiles_popup ui cur grp screen)" for cur
    unfolding render_happ_profiles_popup_def Let_def
    by (rule popup_box_small [OF assms(1-3)]) (simp_all add: split_inside [OF assms(1)] split: option.split)
  moreover have "drawn_in screen (render_routing_confirm ui screen)"
    by (simp add: render_routing_confirm_def ask_popup_inside [OF assms(1-3)])
  ultimately show ?thesis
    using assms(4,5) rule_form_inside [OF assms(1-3)]
    by (cases p) (auto simp: render_routing_popup_def routing_popup_rows_def)
qed

end
