(* ===== verification/PanelViews.thy ===== *)
theory PanelViews
  imports PopupView
begin

text \<open>
  The drawing of the traffic, settings and log tabs: the second halves of \<open>src/ui/traffic.rs\<close>,
  \<open>src/ui/settings.rs\<close> and \<open>src/ui/logs.rs\<close>.
\<close>

definition panel :: "string \<Rightarrow> bool \<Rightarrow> Block" where
  "panel title focused = framed title (if focused then ColBorderActive else ColBorder) s_bg"

section \<open>Traffic\<close>

text \<open>\<open>as i64\<close> drops the fraction and saturates; \<open>rd\<close> rounds to the nearest \<open>f64\<close>.\<close>

definition to_i64 :: "real \<Rightarrow> int" where
  "to_i64 r = max (- (2 ^ 63)) (min (2 ^ 63 - 1) (if 0 \<le> r then \<lfloor>r\<rfloor> else \<lceil>r\<rceil>))"

definition max_y_bound :: "(real \<Rightarrow> real) \<Rightarrow> TrafficHistory \<Rightarrow> real" where
  "max_y_bound rd h =
     (let max_val = fold max (map (\<lambda>p. max (t_proxy_down p) (t_proxy_up p)) (h_history h)) 0
      in max (rd (max_val * rd (115 / 100))) (10 * 1024))"

definition rate :: "int \<Rightarrow> string" where "rate n = format_bytes n @ ''/s''"

definition back_value :: "(TrafficPoint \<Rightarrow> real) \<Rightarrow> TrafficHistory \<Rightarrow> int" where
  "back_value f h = (if h_history h = [] then 0 else to_i64 (f (List.last (h_history h))))"

definition traffic_mark :: "bool \<Rightarrow> string \<times> Style" where
  "traffic_mark conn = (if conn then (g_dot, s_success) else (g_ring, s_disconnected))"

definition both_totals :: "TrafficHistory \<Rightarrow> string" where
  "both_totals h = g_down @ format_bytes (sint (h_total_proxy_down h)) @ ('' '' @ g_up) @ format_bytes (sint (h_total_proxy_up h))"

definition one_line_stats :: "TrafficHistory \<Rightarrow> bool \<Rightarrow> Line" where
  "one_line_stats h conn =
     (let (icon, style) = traffic_mark conn
      in [((g_tri_down @ '' ''), bold (fg traffic_down)), (rate (back_value t_proxy_down h) @ '' '', fg traffic_down),
          ((g_tri_up @ '' ''), bold (fg traffic_up)), (rate (back_value t_proxy_up h) @ '' '', fg traffic_up),
          ((g_bar @ '' '') @ icon @ '' '', style), (both_totals h, s_dim)])"

definition three_line_stats :: "TrafficHistory \<Rightarrow> bool \<Rightarrow> Line list" where
  "three_line_stats h conn =
     (let (icon, style) = traffic_mark conn; down = bold (fg traffic_down); up = bold (fg traffic_up)
      in [[((g_tri_down @ '' RX: ''), down), (rate (back_value t_proxy_down h) @ '' '', down),
           (''(Peak: '' @ rate (to_i64 (h_peak_down h)) @ '')'', s_dim)],
          [((g_tri_up @ '' TX: ''), up), (rate (back_value t_proxy_up h) @ '' '', up),
           (''(Peak: '' @ rate (to_i64 (h_peak_up h)) @ '')'', s_dim)],
          [(icon @ '' '', style), (''Total: '', s_dim), (both_totals h, s_text)]])"

definition stat_card :: "string \<Rightarrow> Line list \<Rightarrow> Widget" where
  "stat_card title ls = WPara ((para ls)\<lparr>pg_block := Some (panel title False)\<rparr>)"

definition rate_card :: "string \<Rightarrow> string \<Rightarrow> Slot \<Rightarrow> int \<Rightarrow> int \<Rightarrow> Widget" where
  "rate_card title mark col now_rate peak =
     stat_card title [[(mark, bold (fg col)), (rate now_rate, bold (fg col))], [(''Peak: '', s_dim), (rate peak, s_text)]]"

definition totals_card :: "TrafficHistory \<Rightarrow> bool \<Rightarrow> string option \<Rightarrow> Widget" where
  "totals_card h conn prof =
     (let (icon, style) = traffic_mark conn;
          label = (if conn then (case prof of Some n \<Rightarrow> n | None \<Rightarrow> ''Connected'') else ''Disconnected'')
      in stat_card '' Session Totals ''
           [[((g_down @ '' Total: ''), s_dim), (format_bytes (sint (h_total_proxy_down h)), s_text),
             ((''  '' @ g_up @ '' Total: ''), s_dim), (format_bytes (sint (h_total_proxy_up h)), s_text)],
            [(icon @ '' '', style), (label, s_text)]])"

definition render_stat_cards ::
  "UiEnv \<Rightarrow> Rect \<Rightarrow> TrafficHistory \<Rightarrow> bool \<Rightarrow> string option \<Rightarrow> bool \<Rightarrow> Drawing" where
  "render_stat_cards ui area h conn prof is_compact =
     (if is_compact then
        (let inner = ui_inner ui area; frame = [(area, WBlock (panel '' Traffic Stats '' False))]
         in if rheight inner \<le> 1 then frame @ [(inner, WPara (para [one_line_stats h conn]))]
            else frame @ zip (ui_split ui Vertical [CLength 1, CLength 1, CLength 1] inner)
                   (map (\<lambda>l. WPara (para [l])) (three_line_stats h conn)))
      else zip (ui_split ui Horizontal [CPercentage 33, CPercentage 33, CPercentage 34] area)
        [rate_card '' Download (RX) '' (g_tri_down @ '' '') traffic_down (back_value t_proxy_down h) (to_i64 (h_peak_down h)),
         rate_card '' Upload (TX) '' (g_tri_up @ '' '') traffic_up (back_value t_proxy_up h) (to_i64 (h_peak_up h)),
         totals_card h conn prof])"

definition traffic_chart :: "(real \<Rightarrow> real) \<Rightarrow> TrafficHistory \<Rightarrow> Widget" where
  "traffic_chart rd h =
     (let (down, up) = chart_points h; max_y = max_y_bound rd h
      in WChart (panel '' Traffic History (60s) '' False)
           [(''Download (Proxy)'', fg traffic_down, down), (''Upload (Proxy)'', fg traffic_up, up)]
           \<lparr>ax_x_title = (''Time'', s_dim), ax_x_labels = [(''-60s'', s_dim), (''-30s'', s_dim), (''now'', s_dim)],
            ax_x_max = 59, ax_y_title = (''Rate'', s_dim),
            ax_y_labels = [(''0'', s_dim), (rate (to_i64 (rd (max_y / 2))), s_dim), (rate (to_i64 max_y), s_dim)],
            ax_y_max = max_y, ax_style = fg ColBorder\<rparr>)"

definition traffic_footer :: "TrafficHistory \<Rightarrow> bool \<Rightarrow> string \<Rightarrow> Widget" where
  "traffic_footer h is_tun tun =
     WPara ((para [[('' Direct Bypass: '', s_dim), (g_down @ rate (back_value t_direct_down h) @ '' '', s_text),
       (g_up @ rate (back_value t_direct_up h), s_text), ((''  '' @ g_bar @ ''  Total Direct: ''), s_faint),
       (g_down @ format_bytes (sint (h_total_direct_down h)) @ '' '', s_dim),
       (g_up @ format_bytes (sint (h_total_direct_up h)), s_dim), ((''  '' @ g_bar @ ''  ''), s_faint),
       (if is_tun then (''TUN: active ('' @ tun @ '')'', s_success) else (''TUN: disabled'', s_dim))]])
       \<lparr>pg_block := Some (panel [] False)\<rparr>)"

definition render_traffic_tab ::
  "(real \<Rightarrow> real) \<Rightarrow> UiEnv \<Rightarrow> Rect \<Rightarrow> TrafficHistory \<Rightarrow> bool \<Rightarrow> string option \<Rightarrow> bool \<Rightarrow> string \<Rightarrow> Drawing" where
  "render_traffic_tab rd ui area h conn prof is_tun tun =
     (let show_footer = (18 \<le> rheight area);
          is_compact = (rwidth area < 85);
          cards_h = (if is_compact then if rheight area < 18 then 3 else 5 else 4);
          chunks = (if show_footer then ui_split ui Vertical [CLength cards_h, CMin 6, CLength 3] area
                    else ui_split ui Vertical [CLength cards_h, CMin 6] area)
      in render_stat_cards ui (chunks ! 0) h conn prof is_compact
         @ [(chunks ! 1, traffic_chart rd h)]
         @ (if show_footer \<and> 2 < length chunks then [(chunks ! 2, traffic_footer h is_tun tun)] else []))"

text \<open>Every point of the window is on the chart, with rounding as \<open>f64\<close> has it: monotone, and exact on the
  values that are already rounded.\<close>

lemma fold_max_ge: "(m :: real) \<le> fold max xs m"
  by (induction xs arbitrary: m) (auto intro: order_trans [OF max.cobounded2])

lemma fold_max_le: "(x :: real) \<in> set xs \<Longrightarrow> x \<le> fold max xs m"
  by (induction xs arbitrary: m) (auto intro: order_trans [OF max.cobounded1 fold_max_ge])

lemma chart_holds_points:
  assumes "mono rd" "\<And>p. p \<in> set (h_history h) \<Longrightarrow> rd (t_proxy_down p) = t_proxy_down p \<and> rd (t_proxy_up p) = t_proxy_up p"
    and "rd 0 = 0" "rd 1 = 1" "full_window h" "h_max_history h = DEFAULT_HISTORY_LEN"
    and "(x, y) \<in> set (fst (chart_points h)) \<union> set (snd (chart_points h))"
  shows "x \<le> 59 \<and> y \<le> max_y_bound rd h"
proof -
  let ?vals = "map (\<lambda>p. max (t_proxy_down p) (t_proxy_up p)) (h_history h)"
  let ?m = "fold max ?vals 0"
  have x: "x < 60" using assms(5-7)
    by (auto simp: chart_points_def Let_def full_window_def DEFAULT_HISTORY_LEN_def dest!: set_zip_leftD)
  obtain p where p: "p \<in> set (h_history h)" "y = t_proxy_down p \<or> y = t_proxy_up p"
    using assms(7) by (auto simp: chart_points_def Let_def dest!: set_zip_rightD)
  have "max (t_proxy_down p) (t_proxy_up p) \<le> ?m" using p(1) by (intro fold_max_le) auto
  then have y: "y \<le> ?m" using p(2) by auto
  have m: "0 \<le> ?m" by (rule fold_max_ge)
  have r: "1 \<le> rd (115 / 100)" using monoD [OF assms(1), of 1 "115 / 100"] assms(4) by simp
  have "y = rd y" using assms(2) [OF p(1)] p(2) by auto
  also have "\<dots> \<le> rd (?m * rd (115 / 100))"
    using y mult_left_mono [OF r m] by (intro monoD [OF assms(1)]) simp
  finally show ?thesis using x by (simp add: max_y_bound_def Let_def)
qed

section \<open>Settings\<close>

record SettingsValues =
  sv_autoconnect :: bool
  sv_autostart_mode :: string
  sv_systemd_enabled :: bool
  sv_theme :: string
  sv_show_ip :: bool
  sv_log_enabled :: bool
  sv_log_level :: string
  sv_test_method :: string
  sv_test_samples :: string
  sv_test_concurrency :: string
  sv_test_timeout :: string
  sv_test_endpoint :: string
  sv_auto_test_on_subscribe :: bool
  sv_tun_name :: string
  sv_kill_switch_enabled :: bool
  sv_kill_switch_armed :: bool
  sv_split_tunnel :: string
  sv_hwid :: "HwidData option"
  sv_check_updates :: bool

definition on_off :: "bool \<Rightarrow> string" where "on_off b = (if b then (g_dot @ '' on'') else (g_ring @ '' off''))"

definition item_values :: "SettingsValues \<Rightarrow> string list" where
  "item_values v =
     [on_off (sv_autoconnect v), sv_autostart_mode v, on_off (sv_systemd_enabled v), sv_theme v, on_off (sv_show_ip v),
      on_off (sv_log_enabled v), sv_log_level v, sv_tun_name v,
      (if sv_kill_switch_enabled v then if sv_kill_switch_armed v then (g_dot @ '' on'') else (g_tri_up @ '' on (not armed)'') else (g_ring @ '' off'')),
      split_tunnel_label (sv_split_tunnel v), sv_test_method v, sv_test_samples v, sv_test_concurrency v,
      sv_test_timeout v, sv_test_endpoint v, on_off (sv_auto_test_on_subscribe v),
      on_off (case sv_hwid v of Some h \<Rightarrow> hw_enabled h | None \<Rightarrow> False),
      (case sv_hwid v of Some h \<Rightarrow> hw_hwid h | None \<Rightarrow> []), g_enter,
      (case sv_hwid v of Some h \<Rightarrow> hw_user_agent h | None \<Rightarrow> []), on_off (sv_check_updates v)]"

definition value_style :: "SettingsKind \<Rightarrow> string \<Rightarrow> Style" where
  "value_style k v =
     (case k of SToggle \<Rightarrow> if starts_with g_dot v then s_success else s_disconnected
      | SCycle \<Rightarrow> s_accent | SEditable \<Rightarrow> s_text | SAction \<Rightarrow> s_accent | SDisplay \<Rightarrow> s_dim)"

definition item_line :: "bool \<Rightarrow> nat \<Rightarrow> string \<Rightarrow> SettingsKind \<Rightarrow> string \<Rightarrow> Line" where
  "item_line is_selected width label kind v =
     [(if is_selected then ''> '' else ''  '', if is_selected then s_accent_bold else s_faint),
      (pad_right (if width < 50 then 16 else 22) label, if is_selected then s_text else s_dim),
      (v, value_style kind v), (if kind = SEditable then (''  '' @ g_pen) else [], s_faint)]"

definition header_line :: "string \<Rightarrow> Line" where
  "header_line title = [('' '' @ title @ '' '', s_accent)]"

text \<open>The rows from one on, with the number of the next value.\<close>

fun settings_rows :: "(nat \<Rightarrow> bool) \<Rightarrow> nat \<Rightarrow> string list \<Rightarrow> nat \<Rightarrow> nat \<Rightarrow> SettingsRow list \<Rightarrow> Line list" where
  "settings_rows sel width vals flat v [] = []"
| "settings_rows sel width vals flat v (Header title # rows) =
     header_line title # settings_rows sel width vals (Suc flat) v rows"
| "settings_rows sel width vals flat v (Item label kind # rows) =
     item_line (sel flat) width label kind (vals ! v) # settings_rows sel width vals (Suc flat) (Suc v) rows"

definition settings_scroll :: "nat \<Rightarrow> SettingsState \<Rightarrow> nat" where
  "settings_scroll height s =
     (let visible = height - 1; selected = flat_index s
      in if st_item_cursor s = 0 then 0
         else if selected < st_scroll s then selected
         else if 0 < visible \<and> st_scroll s + visible \<le> selected then selected - visible + 1
         else st_scroll s)"

text \<open>ratatui may move the offset of the list it draws: \<open>offset\<close> is the offset it leaves.\<close>

definition render_settings ::
  "UiEnv \<Rightarrow> (ItemList \<Rightarrow> Rect \<Rightarrow> nat) \<Rightarrow> Rect \<Rightarrow> SettingsValues \<Rightarrow> bool \<Rightarrow> SettingsState \<Rightarrow> SettingsState \<times> Drawing" where
  "render_settings ui offset area values focused s =
     (let inner = ui_inner ui area;
          parts = ui_split ui Vertical [CMin 0, CLength 1] inner;
          content = parts ! 0;
          selected = flat_index s;
          lines = settings_rows (\<lambda>i. i = selected \<and> focused) (rwidth content) (item_values values) 0 0 settings_layout;
          items = (item_list (map (\<lambda>l. ([l], unstyled)) lines))
            \<lparr>li_selected := Some selected, li_offset := settings_scroll (rheight content) s,
             li_highlight := (if focused then on_bg ColSurface else unstyled), li_padding := 3\<rparr>;
          help = (if rwidth area < 60 then ('' j/k:nav '' @ g_bar @ '' Enter/h/l:change'')
                  else ('' j/k navigate  '' @ g_bar @ ''  Enter/Space/h/l toggle / cycle / edit''))
      in (s\<lparr>st_scroll := offset items content, st_selected := Some selected\<rparr>,
          [(area, WBlock (panel '' Settings '' focused)), (content, WList items),
           (parts ! 1, text_para s_faint AlignCenter help)]))"

text \<open>Every row of an item has its own value: the one at the item's place among the items.\<close>

lemma settings_rows_nth:
  "i < length rows \<Longrightarrow> settings_rows sel w vals flat v rows ! i =
     (case rows ! i of Header t \<Rightarrow> header_line t
      | Item l k \<Rightarrow> item_line (sel (flat + i)) w l k (vals ! (v + length (filter is_item (take i rows)))))"
proof (induction rows arbitrary: i flat v)
  case (Cons r rows)
  show ?case
  proof (cases i)
    case 0
    then show ?thesis by (cases r) simp_all
  next
    case (Suc j)
    then show ?thesis using Cons.IH [of j "Suc flat"] Cons.prems
      by (cases r) (simp_all split: SettingsRow.split)
  qed
qed simp

lemma nth_item_row_count: "nth_item_row rs n = Some i \<Longrightarrow> length (filter is_item (take i rs)) = n"
  by (induction rs n arbitrary: i rule: nth_item_row.induct) (auto split: if_splits nat.splits)

lemma settings_cursor_row:
  assumes "settings_ok s"
  shows "\<exists>label kind. settings_layout ! flat_index s = Item label kind \<and>
    filter is_item settings_layout ! st_item_cursor s = Item label kind \<and>
    settings_rows (\<lambda>i. i = flat_index s \<and> focused) w (item_values v) 0 0 settings_layout ! flat_index s =
      item_line focused w label kind (item_values v ! st_item_cursor s)"
proof -
  have f: "flat_index s < length settings_layout" "is_item (settings_layout ! flat_index s)"
    "settings_layout ! flat_index s = filter is_item settings_layout ! st_item_cursor s"
    using flat_index_correct [OF assms] by auto
  obtain label kind where r: "settings_layout ! flat_index s = Item label kind"
    using f(2) by (cases "settings_layout ! flat_index s") simp_all
  have "st_item_cursor s < length (filter is_item settings_layout)"
    using assms by (simp only: settings_ok_def item_count_def)
  from nth_item_row_filter [OF this] have "nth_item_row settings_layout (st_item_cursor s) = Some (flat_index s)"
    by (auto simp: flat_index_def)
  from nth_item_row_count [OF this] show ?thesis
    using settings_rows_nth [OF f(1)] r f(3) by simp
qed

section \<open>Logs\<close>

definition line_style :: "string \<Rightarrow> Style" where
  "line_style l =
     (case line_level l of Some Error \<Rightarrow> s_error | Some Warn \<Rightarrow> s_warn | Some Info \<Rightarrow> s_success
      | Some Debug \<Rightarrow> s_dim | Some Trace \<Rightarrow> s_dim | None \<Rightarrow> s_faint)"

definition logs_title :: "LogsState \<Rightarrow> string" where
  "logs_title s =
     (let labels = ''['' @ source_label (l_source s) @ ''] ['' @ filter_label (l_filter s) @ ''] ''
      in if l_search_active s then '' Logs [/'' @ l_search_input s @ (g_block @ ''] '')
         else (case l_search_query s of
             Some q \<Rightarrow> '' Logs '' @ labels @ ''[/'' @ take_chars 20 q @ (if char_count q > 20 then ellipsis else []) @ ''] ''
           | None \<Rightarrow> '' Logs '' @ labels))"

definition no_logs_text :: "LogsState \<Rightarrow> string" where
  "no_logs_text s =
     (case l_search_query s of
        Some q \<Rightarrow> ''No logs matching /'' @ q @ '' at '' @ filter_label (l_filter s) @ '' level.''
      | None \<Rightarrow> ''No logs at '' @ filter_label (l_filter s) @ '' level.'')"

text \<open>The lines on the screen, after the state's part of the drawing (\<open>Logs.render\_logs\<close>).\<close>

definition shown_logs :: "(string \<Rightarrow> string) \<Rightarrow> nat \<Rightarrow> LogsState \<Rightarrow> string list" where
  "shown_logs lc height s = take height (drop (l_scroll s) (filtered_lines lc s))"

definition draw_logs :: "UiEnv \<Rightarrow> Rect \<Rightarrow> bool \<Rightarrow> LogsState \<Rightarrow> LogsState \<times> Drawing" where
  "draw_logs ui area focused s =
     (let frame = [(area, WBlock (panel (logs_title s) focused))];
          inner = ui_inner ui area;
          s = Logs.render_logs (ui_lc ui) (rheight inner) s
      in (s, frame @
          (if filtered_lines (ui_lc ui) s = []
           then [(ui_split ui Vertical [CPercentage 45, CMin 1, CPercentage 55] inner ! 1,
                  text_para s_dim AlignCenter (no_logs_text s))]
           else [(inner, WList ((item_list (map (\<lambda>l. ([[(l, line_style l)]], unstyled))
                  (shown_logs (ui_lc ui) (rheight inner) s)))\<lparr>li_style := s_bg\<rparr>))])))"

lemma shown_logs_pass:
  "l \<in> set (shown_logs lc h s) \<Longrightarrow> line_passes_filter lc l (l_filter s) (l_search_query s)"
  unfolding shown_logs_def by (drule in_set_takeD, drule in_set_dropD) (simp add: filtered_lines_def)

lemma shown_logs_end:
  assumes "filtered_lines lc s \<noteq> []" "0 < h" "l_scroll s = length (filtered_lines lc s) - h"
  shows "List.last (shown_logs lc h s) = List.last (filtered_lines lc s)"
  using assms by (simp add: shown_logs_def)

section \<open>Inside the area\<close>

lemma zip_split_inside:
  assumes "toolkit_ok ui" "inside r area"
  shows "drawn_in area (zip (ui_split ui d cs r) ws)"
  using assms toolkit_split [OF assms]
  by (auto simp: drawn_in_def list_all_iff toolkit_ok_def in_set_zip)

lemma traffic_inside:
  assumes "toolkit_ok ui"
  shows "drawn_in area (render_traffic_tab rd ui area h conn prof is_tun tun)"
proof -
  have cards: "drawn_in area (render_stat_cards ui r h conn prof c)" if "inside r area" for r c
    using that assms by (simp add: render_stat_cards_def Let_def zip_split_inside toolkit_inner)
  show ?thesis
    unfolding render_traffic_tab_def Let_def
    by (auto intro!: cards toolkit_split [OF assms inside_refl])
qed

lemma settings_inside:
  "toolkit_ok ui \<Longrightarrow> drawn_in area (snd (render_settings ui offset area values focused s))"
  by (simp add: render_settings_def Let_def toolkit_inner toolkit_split)

lemma logs_inside: "toolkit_ok ui \<Longrightarrow> drawn_in area (snd (draw_logs ui area focused s))"
  by (simp add: draw_logs_def Let_def toolkit_inner toolkit_split)

end
