(* ===== verification/Render.thy ===== *)
theory Render
  imports TreeView RoutingView PanelViews World
begin

text \<open>
  \<open>src/ui/app/render.rs\<close>: a whole frame, from the tab views, the popups and the two bars.
\<close>

section \<open>The bars\<close>

text \<open>What drawing takes from outside beside the toolkit: the rounding of \<open>f64\<close>, the offset a list is left with
  by ratatui, and the index of the theme.\<close>

record FrameEnv =
  fe_ui :: UiEnv
  fe_round :: "real \<Rightarrow> real"
  fe_offset :: "ItemList \<Rightarrow> Rect \<Rightarrow> nat"
  fe_theme :: nat

definition tab_title :: "ActiveTab \<Rightarrow> string \<times> string" where
  "tab_title t =
     (case t of TabProfiles \<Rightarrow> (''Profiles'', ''1'') | TabRouting \<Rightarrow> (''Routing'', ''2'')
      | TabTraffic \<Rightarrow> (''Traffic'', ''3'') | TabLogs \<Rightarrow> (''Logs'', ''4'') | TabSettings \<Rightarrow> (''Settings'', ''5''))"

definition header_actions :: "bool \<Rightarrow> ActiveTab \<Rightarrow> Line" where
  "header_actions is_compact t =
     (if is_compact
      then [('' [[]/[]] '', s_accent_bold), (snd (tab_title t) @ ''/5 '', s_accent), ((g_bar @ '' ''), s_faint),
        (''[?] '', s_accent_bold), ((g_bar @ '' ''), s_faint), (''[q] '', s_accent_bold)]
      else [('' [[]/[]] '', s_accent_bold), ((''Tabs '' @ g_open @ '' ''), bold s_accent), (''('' @ fst (tab_title t) @ '') '', s_dim),
        ((g_bar @ '' ''), s_faint), (''[?] '', s_accent_bold), (''Help '', s_text), ((g_bar @ '' ''), s_faint),
        (''[Q/q] '', s_accent_bold), (''Quit/Detach '', s_text)])"

definition status_span :: "App \<Rightarrow> string \<Rightarrow> Span" where
  "status_span app pre =
     (if is_connected app then (pre @ (g_dot @ '' Connected ''), s_success) else (pre @ (g_ring @ '' Disconnected ''), s_disconnected))"

definition proxy_rates :: "App \<Rightarrow> string \<Rightarrow> Line" where
  "proxy_rates app post =
     [(g_up @ format_bytes (ts_proxy_up (traffic_stats app)), s_success),
      (('' '' @ g_down) @ format_bytes (ts_proxy_down (traffic_stats app)) @ post, s_success)]"

definition tiny_bar :: "bool \<Rightarrow> App \<Rightarrow> Line" where
  "tiny_bar is_compact app =
     [status_span app [], ((g_bar @ '' ''), s_faint)] @ proxy_rates app '' ''
     @ (if \<not> is_compact \<and> show_ip app \<and> public_ip app \<noteq> []
        then [((g_bar @ '' ''), s_faint), (public_ip app @ '' '', s_dim)] else [])
     @ [((g_bar @ '' ''), s_faint), (snd (tab_title (tab app)) @ ''/5 '', s_accent_bold), ((g_bar @ '' [?] '' @ g_bar @ '' [q]''), s_dim)]"

definition short_bar :: "bool \<Rightarrow> App \<Rightarrow> Line" where
  "short_bar is_compact app =
     [('' WhoisThat '', bold s_accent_bold), ((g_bar @ '' ''), s_faint), status_span app [], ((g_bar @ '' ''), s_faint)]
     @ proxy_rates app []
     @ (if \<not> is_compact \<and> show_ip app \<and> public_ip app \<noteq> []
        then [(('' '' @ g_bar @ '' ''), s_faint), (public_ip app, s_dim)] else [])"

definition status_line :: "bool \<Rightarrow> App \<Rightarrow> Line" where
  "status_line is_compact app =
     [('' WhoisThat '', bold s_accent_bold), ((g_bar @ '' ''), s_faint), status_span app '' '']
     @ (if show_ip app
        then let ip4 = (if public_ip app = [] then ''...'' else public_ip app)
          in [((g_bar @ '' ''), s_faint),
              (if is_compact \<or> public_ipv6 app = [] then ip4 else ip4 @ '' '' @ public_ipv6 app, s_dim)]
        else [])"

definition stats_line :: "App \<Rightarrow> Line" where
  "stats_line app =
     [('' P:'', s_faint)] @ proxy_rates app [] @
     [(''  D:'', s_faint), (g_up @ format_bytes (ts_direct_up (traffic_stats app)), s_dim),
      (('' '' @ g_down) @ format_bytes (ts_direct_down (traffic_stats app)), s_dim)]"

definition render_top_bar :: "UiEnv \<Rightarrow> App \<Rightarrow> Rect \<Rightarrow> Drawing" where
  "render_top_bar ui app area =
     (let is_compact = (lg_width_tier (layout app) = Compact)
      in if lg_height_tier (layout app) = Tiny
         then [(area, WPara ((para [tiny_bar is_compact app])\<lparr>pg_style := s_bg\<rparr>))]
         else
           let frame = [(area, WBlock ((framed [] ColBorder s_bg)
                 \<lparr>bk_bottom := Some (AlignRight, header_actions is_compact (tab app))\<rparr>))];
               inner = ui_inner ui area
           in if lg_height_tier (layout app) = Short then frame @ [(inner, WPara (para [short_bar is_compact app]))]
              else let rows = ui_split ui Vertical [CLength 1, CLength 1] inner
                in frame @ [(rows ! 0, WPara (para [status_line is_compact app])),
                            (rows ! 1, WPara (para [stats_line app]))])"

definition xray_label :: "App \<Rightarrow> string" where
  "xray_label app =
     (case xray_status app of
        None \<Rightarrow> ('' '' @ g_mid @ '' xray-core'')
      | Some x \<Rightarrow>
          if xs_status x = ''downloading'' then ('' '' @ g_mid @ '' xray dl ('') @ show_int (xs_progress x) @ ''%)''
          else if xs_version x \<noteq> [] then ('' '' @ g_mid @ '' xray '') @ xs_version x
          else if xs_target_version x \<noteq> [] then ('' '' @ g_mid @ '' xray '') @ xs_target_version x
          else ('' '' @ g_mid @ '' xray-core''))"

definition version_label :: "UiEnv \<Rightarrow> bool \<Rightarrow> App \<Rightarrow> string" where
  "version_label ui is_compact app =
     (if is_compact then '' v'' @ ui_version ui else '' WhoisThat v'' @ ui_version ui)
     @ (if core_version app = [] then ('' '' @ g_mid @ '' core '' @ ellipsis) else ('' '' @ g_mid @ '' core v'') @ core_version app)
     @ (if is_compact then [] else xray_label app)"

definition two_digits :: "int \<Rightarrow> string" where
  "two_digits n = (if n < 10 then ''0'' @ show_int n else show_int n)"

definition uptime_label :: "int \<Rightarrow> int \<Rightarrow> string" where
  "uptime_label now_secs since =
     (let elapsed = max (now_secs - since) 0
      in '' ['' @ two_digits (elapsed div 3600) @ '':'' @ two_digits (elapsed mod 3600 div 60) @ '':'' @
           two_digits (elapsed mod 60) @ '']'')"

text \<open>The message, if it fits: its length is counted in bytes, and what is kept of it in characters.\<close>

definition message_span :: "nat \<Rightarrow> string \<Rightarrow> Span" where
  "message_span max_right s =
     (if s = [] then ([], unstyled)
      else if length s \<le> max_right then (s, s_dim)
      else if 2 < max_right then (take_chars (max_right - 2) s @ ellipsis, s_dim)
      else ([], unstyled))"

definition bottom_line :: "UiEnv \<Rightarrow> bool \<Rightarrow> nat \<Rightarrow> App \<Rightarrow> Line" where
  "bottom_line ui is_compact inner_w app =
     (let left = version_label ui is_compact app;
          tun = (if tun_enabled app then ('' [TUN]'', s_success) else ([], s_dim));
          since = ps_connected_at (connection_status app);
          uptime = (if 0 < since then (uptime_label (ui_now ui) since, s_success) else ([], s_dim));
          gap = (if is_compact then 1 else 3);
          max_right = inner_w - (ui_width ui left + ui_width ui (fst tun) + ui_width ui (fst uptime) + gap + gap)
      in [(left, s_faint), tun, uptime, (replicate gap (CHR '' ''), unstyled),
          message_span max_right (case last_msg app of Some m \<Rightarrow> m | None \<Rightarrow> [])])"

definition render_bottom_bar :: "UiEnv \<Rightarrow> App \<Rightarrow> Rect \<Rightarrow> Drawing" where
  "render_bottom_bar ui app area =
     (let is_tiny = (rheight area < 3);
          inner = (if is_tiny then area else ui_inner ui area)
      in (if is_tiny then [] else [(area, WBlock (framed [] ColBorder s_bg))])
         @ [(inner, WPara (para [bottom_line ui (lg_width_tier (layout app) = Compact) (rwidth inner) app]))])"

section \<open>The tabs\<close>

definition endpoint_short :: "string \<Rightarrow> string" where
  "endpoint_short e =
     (if e = ''https://cp.cloudflare.com/generate_204'' then ''cloudflare''
      else if e = ''https://www.gstatic.com/generate_204'' then ''gstatic''
      else if e = ''https://www.bing.com/'' then ''bing'' else e)"

definition settings_values :: "nat \<Rightarrow> App \<Rightarrow> SettingsValues" where
  "settings_values theme app =
     (let t = test_config app
      in \<lparr>sv_autoconnect = autoconnect_enabled app, sv_autostart_mode = autostart_mode app,
          sv_systemd_enabled = systemd_enabled app, sv_theme = snd (current_theme theme), sv_show_ip = show_ip app,
          sv_log_enabled = log_enabled app, sv_log_level = log_level app, sv_test_method = test_method app,
          sv_test_samples = show_int (tc_samples_per_test t), sv_test_concurrency = show_int (tc_concurrency t),
          sv_test_timeout = show_int (tc_timeout_seconds t) @ ''s'',
          sv_test_endpoint = endpoint_short (tc_test_endpoint t),
          sv_auto_test_on_subscribe = tc_auto_test_on_subscribe t, sv_tun_name = tun_name app,
          sv_kill_switch_enabled = kill_switch_enabled app, sv_kill_switch_armed = kill_switch_armed app,
          sv_split_tunnel = split_tunnel app, sv_hwid = hwid_info app, sv_check_updates = check_updates app\<rparr>)"

definition render_profiles_view :: "UiEnv \<Rightarrow> App \<Rightarrow> App \<times> Drawing" where
  "render_profiles_view ui app =
     (if lg_profiles_mode (layout app) = SinglePanel
      then if focus app = RightPanel then render_details ui (lg_tree_area (layout app)) app
           else render_tree ui (lg_tree_area (layout app)) app
      else let (app, tree) = render_tree ui (lg_tree_area (layout app)) app;
               (app, details) = render_details ui (lg_details_area (layout app)) app
        in (app, tree @ details))"

definition render_main :: "FrameEnv \<Rightarrow> App \<Rightarrow> Rect \<Rightarrow> App \<times> Drawing" where
  "render_main fe app area =
     (let ui = fe_ui fe; focused = (focus app = LeftPanel)
      in case tab app of
           TabProfiles \<Rightarrow> render_profiles_view ui app
         | TabLogs \<Rightarrow> (let (s, d) = draw_logs ui area focused (logs_state app) in (app\<lparr>logs_state := s\<rparr>, d))
         | TabSettings \<Rightarrow>
             (let (s, d) = render_settings ui (fe_offset fe) area (settings_values (fe_theme fe) app) focused (settings_state app)
              in (app\<lparr>settings_state := s\<rparr>, d))
         | TabRouting \<Rightarrow>
             (app, render_routing_tab ui area (active_routing_config app) (routing_cursor app) focused
                (routing_selected_group app) (routing_group_index app) (length (groups app) + 1) (routing_source app))
         | TabTraffic \<Rightarrow>
             (app, render_traffic_tab (fe_round fe) ui area (traffic_history app) (is_connected app)
                (connected_profile_name app) (tun_enabled app) (tun_name app)))"

section \<open>The frame\<close>

definition too_small_text :: "Rect \<Rightarrow> string" where
  "too_small_text area =
     ''Terminal too small ('' @ show_nat (rwidth area) @ ''x'' @ show_nat (rheight area) @ '')'' @ [CHR 0x0A]
     @ ''Minimum size: 45x8'' @ [CHR 0x0A] @ ''Please resize window or press [q] to exit.''"

text \<open>\<open>None\<close> is a panic, of which a popup with an index past its labels would be one.\<close>

definition render :: "FrameEnv \<Rightarrow> Rect \<Rightarrow> App \<Rightarrow> (App \<times> Drawing) option" where
  "render fe area app =
     (let ui = fe_ui fe;
          app = app\<lparr>last_area := area, layout := compute (ui_split ui) area\<rparr>;
          back = [(area, WFill s_bg)]
      in if lg_is_too_small (layout app) then Some (app, back @ [(area, text_para s_dim AlignCenter (too_small_text area))])
         else
           let top = render_top_bar ui app (lg_top_bar (layout app));
               (app, main) = render_main fe app (lg_main_area (layout app));
               bottom = render_bottom_bar ui app (lg_bottom_bar (layout app));
               pop = (case popup app of Some p \<Rightarrow> render_popup ui app p area | None \<Rightarrow> []);
               d = back @ top @ main @ bottom @ pop
           in (case routing_popup app of
                 None \<Rightarrow> Some (app, d)
               | Some p \<Rightarrow> map_option (\<lambda>rd. (app, d @ rd))
                   (render_routing_popup ui p area (active_routing_config app) (routing_selected_group app))))"

section \<open>What a frame keeps\<close>

text \<open>Drawing may move what is scrolled to and note what it parsed and measured; the rest of the state it keeps.\<close>

definition same_but_view :: "App \<Rightarrow> App \<Rightarrow> bool" where
  "same_but_view app app' \<longleftrightarrow>
     app'\<lparr>tree_scroll := tree_scroll app, uri_cache := uri_cache app, logs_state := logs_state app,
       settings_state := settings_state app\<rparr> = app"

lemma same_refl [simp]: "same_but_view app app"
  by (simp add: same_but_view_def)

lemma same_trans: "same_but_view a b \<Longrightarrow> same_but_view b c \<Longrightarrow> same_but_view a c"
  by (cases a; cases b; cases c) (simp add: same_but_view_def)

lemma same_fields:
  assumes "same_but_view a b"
  shows "layout b = layout a" "popup b = popup a" "routing_popup b = routing_popup a"
  using arg_cong [OF assms [unfolded same_but_view_def], of layout] arg_cong [OF assms [unfolded same_but_view_def], of popup]
    arg_cong [OF assms [unfolded same_but_view_def], of routing_popup] by simp_all

lemma same_updates:
  "same_but_view app (app\<lparr>tree_scroll := n\<rparr>)" "same_but_view app (app\<lparr>uri_cache := c\<rparr>)"
  "same_but_view app (app\<lparr>logs_state := l\<rparr>)" "same_but_view app (app\<lparr>settings_state := t\<rparr>)"
  by (simp_all add: same_but_view_def)

lemma same_tree: "same_but_view app (fst (render_tree ui area app))"
  by (simp add: render_tree_def render_search_results_def render_tree_normal_def scroll_to_cursor_def Let_def
      same_updates split: prod.split)

lemma same_details: "same_but_view app (fst (render_details ui area app))"
proof -
  have "same_but_view app (snd (cached_uri_params f p app))" for f p
    by (auto simp: cached_uri_params_def Let_def same_updates split: option.split prod.split)
  then have "same_but_view app (snd (details_content ui app))"
    by (auto simp: details_content_def profile_details_content_def split: option.split prod.split TreeNode.split)
      (metis snd_conv)+
  then show ?thesis by (simp add: render_details_def case_prod_beta)
qed

lemma tree_inside: "toolkit_ok ui \<Longrightarrow> drawn_in area (snd (render_tree ui area app))"
proof -
  assume ui: "toolkit_ok ui"
  have results: "inside r area \<Longrightarrow> drawn_in area (snd (render_search_results ui r app))" for r app
    by (simp add: render_search_results_def Let_def)
  have normal: "inside r area \<Longrightarrow> drawn_in area (snd (render_tree_normal ui r app))" for r app
    by (simp add: render_tree_normal_def Let_def)
  show ?thesis
    using toolkit_inner [OF ui inside_refl] toolkit_split [OF ui toolkit_inner [OF ui inside_refl]]
    by (simp add: render_tree_def Let_def case_prod_beta results normal)
qed

section \<open>Views\<close>

text \<open>What the frame relies on of the views it is put together from: a view draws inside the area it is given and
  keeps the state.\<close>

locale panel_view =
  fixes draw :: "UiEnv \<Rightarrow> Rect \<Rightarrow> App \<Rightarrow> App \<times> Drawing"
  assumes draws_inside: "toolkit_ok ui \<Longrightarrow> drawn_in area (snd (draw ui area app))"
    and keeps_state: "same_but_view app (fst (draw ui area app))"
begin

lemma draws_in_part: "toolkit_ok ui \<Longrightarrow> inside r area \<Longrightarrow> drawn_in area (snd (draw ui r app))"
  by (rule drawn_in_mono [OF draws_inside])

lemma keeps_layout: "layout (fst (draw ui area app)) = layout app"
  by (rule same_fields(1) [OF keeps_state])

lemma keeps_before: "same_but_view app app' \<Longrightarrow> same_but_view app (fst (draw ui area app'))"
  by (rule same_trans [OF _ keeps_state])

end

interpretation tree_view: panel_view render_tree
  by unfold_locales (auto intro: tree_inside same_tree)

interpretation details_view: panel_view render_details
  by unfold_locales (auto intro: details_drawn_inside same_details)

interpretation logs_view: panel_view
  "\<lambda>ui area app. let (s, d) = draw_logs ui area (focus app = LeftPanel) (logs_state app) in (app\<lparr>logs_state := s\<rparr>, d)"
  by unfold_locales (simp_all add: case_prod_beta logs_inside same_updates)

interpretation settings_view: panel_view
  "\<lambda>ui area app. let (s, d) = render_settings ui offset area (settings_values theme app) (focus app = LeftPanel)
     (settings_state app) in (app\<lparr>settings_state := s\<rparr>, d)" for offset theme
  by unfold_locales (simp_all add: case_prod_beta settings_inside same_updates)

interpretation routing_view: panel_view
  "\<lambda>ui area app. (app, render_routing_tab ui area (active_routing_config app) (routing_cursor app) (focus app = LeftPanel)
     (routing_selected_group app) (routing_group_index app) (length (groups app) + 1) (routing_source app))"
  by unfold_locales (simp_all add: routing_tab_inside)

interpretation traffic_view: panel_view
  "\<lambda>ui area app. (app, render_traffic_tab rd ui area (traffic_history app) (is_connected app)
     (connected_profile_name app) (tun_enabled app) (tun_name app))" for rd
  by unfold_locales (simp_all add: traffic_inside)

lemmas view_keeps_state = tree_view.keeps_state details_view.keeps_state logs_view.keeps_state settings_view.keeps_state
  routing_view.keeps_state traffic_view.keeps_state

lemma same_profiles: "same_but_view app (fst (render_profiles_view ui app))"
  by (simp add: render_profiles_view_def case_prod_beta view_keeps_state details_view.keeps_before)

lemma same_main: "same_but_view app (fst (render_main fe app area))"
  using view_keeps_state same_profiles by (cases "tab app") (simp_all add: render_main_def Let_def)

section \<open>Inside the screen\<close>

lemma compute_inside:
  assumes "toolkit_ok ui"
  shows "inside (lg_top_bar (compute (ui_split ui) area)) area"
    and "inside (lg_main_area (compute (ui_split ui) area)) area"
    and "inside (lg_bottom_bar (compute (ui_split ui) area)) area"
    and "inside (lg_tree_area (compute (ui_split ui) area)) area"
    and "lg_profiles_mode (compute (ui_split ui) area) \<noteq> SinglePanel \<Longrightarrow>
      inside (lg_details_area (compute (ui_split ui) area)) area"
proof -
  have m: "inside (ui_split ui Vertical [CLength a, CMin 0, CLength b] area ! 1) area" for a b
    by (rule toolkit_split [OF assms inside_refl]) simp
  have p: "inside (fst (snd (profiles_layout (ui_split ui) w r))) area \<and>
      (fst (profiles_layout (ui_split ui) w r) \<noteq> SinglePanel \<longrightarrow>
        inside (snd (snd (profiles_layout (ui_split ui) w r))) area)" if "inside r area" for w r
    using that toolkit_split [OF assms that]
    by (cases w) (simp_all add: profiles_layout_def Let_def)
  show "inside (lg_top_bar (compute (ui_split ui) area)) area"
    and "inside (lg_main_area (compute (ui_split ui) area)) area"
    and "inside (lg_bottom_bar (compute (ui_split ui) area)) area"
    and "inside (lg_tree_area (compute (ui_split ui) area)) area"
    and "lg_profiles_mode (compute (ui_split ui) area) \<noteq> SinglePanel \<Longrightarrow>
      inside (lg_details_area (compute (ui_split ui) area)) area"
    using p [OF m] by (simp_all add: compute_def Let_def case_prod_beta toolkit_split [OF assms inside_refl])
qed

lemma main_inside:
  assumes "toolkit_ok ui" "fe_ui fe = ui" "layout app = compute (ui_split ui) area"
  shows "drawn_in area (snd (render_main fe app (lg_main_area (layout app))))"
proof -
  note parts = compute_inside [OF assms(1), of area, folded assms(3)]
  have view: "drawn_in area (snd (render_profiles_view ui app))"
    using tree_view.draws_in_part [OF assms(1) parts(4)] details_view.draws_in_part [OF assms(1) parts(4)]
      details_view.draws_in_part [OF assms(1) parts(5)]
    by (simp add: render_profiles_view_def case_prod_beta tree_view.keeps_layout)
  show ?thesis
    using view logs_view.draws_in_part [OF assms(1) parts(2), of app]
      settings_view.draws_in_part [OF assms(1) parts(2), of "fe_offset fe" "fe_theme fe" app]
      routing_view.draws_in_part [OF assms(1) parts(2), of app]
      traffic_view.draws_in_part [OF assms(1) parts(2), of app "fe_round fe"]
    by (cases "tab app") (simp_all add: render_main_def assms(2) Let_def)
qed

lemma top_bar_inside: "toolkit_ok ui \<Longrightarrow> drawn_in area (render_top_bar ui app area)"
  by (simp add: render_top_bar_def Let_def toolkit_inner toolkit_split)

lemma bottom_bar_inside: "toolkit_ok ui \<Longrightarrow> drawn_in area (render_bottom_bar ui app area)"
  by (simp add: render_bottom_bar_def Let_def toolkit_inner)

text \<open>The height that the popup on the screen needs: eight rows, but for the forms, which do not scroll.\<close>

definition rows_needed :: "App \<Rightarrow> nat" where
  "rows_needed app =
     max (case popup app of Some p \<Rightarrow> if popup_rows p = 18 then 23 else if popup_rows p = 7 then 11 else 8 | None \<Rightarrow> 8)
       (case routing_popup app of Some p \<Rightarrow> if routing_popup_rows p = 11 then 15 else 8 | None \<Rightarrow> 8)"

definition forms_valid :: "App \<Rightarrow> bool" where
  "forms_valid app \<longleftrightarrow>
     (case routing_popup app of
        Some (RAdd t _ ob _ _) \<Rightarrow> t < 6 \<and> ob < 3 | Some (REdit _ t _ ob _ _) \<Rightarrow> t < 6 \<and> ob < 3 | _ \<Rightarrow> True)"

lemma routing_popup_drawn:
  "forms_valid app \<Longrightarrow> routing_popup app = Some p \<Longrightarrow> \<exists>d. render_routing_popup ui p area config grp = Some d"
  using rule_form_drawn by (cases p) (auto simp: forms_valid_def render_routing_popup_def)

lemma frame_drawn:
  assumes "forms_valid app"
  shows "\<exists>app' d. render fe area app = Some (app', d) \<and>
    same_but_view (app\<lparr>last_area := area, layout := compute (ui_split (fe_ui fe)) area\<rparr>) app'"
proof -
  let ?app = "app\<lparr>last_area := area, layout := compute (ui_split (fe_ui fe)) area\<rparr>"
  let ?m = "render_main fe ?app (lg_main_area (layout ?app))"
  have same: "same_but_view ?app (fst ?m)" by (rule same_main)
  from same_fields(3) [OF this] have "routing_popup (fst ?m) = routing_popup app" by simp
  moreover from this have "forms_valid (fst ?m)" using assms by (simp add: forms_valid_def)
  ultimately show ?thesis
    using same routing_popup_drawn [of "fst ?m"]
    by (cases "routing_popup app") (auto simp: render_def Let_def case_prod_beta)
qed


definition sample_frame :: FrameEnv where
  "sample_frame = \<lparr>fe_ui = simple_ui, fe_round = id, fe_offset = (\<lambda>_ _. 0), fe_theme = 0\<rparr>"


end
