(* ===== verification/CliRights.thy ===== *)
theory CliRights
  imports Cli
begin

text \<open>
  What each command of the command line is allowed to do: which messages it may send to the core,
  whether it may change the saved configuration, start the daemon, or change the log files.  The
  table \<open>rights\<close> is the specification; the commands stay inside it whatever the core answers and
  whichever calls fail.
\<close>

section \<open>Rights\<close>

record Rights =
  may_send :: "string set"
  may_save :: bool
  may_spawn :: bool
  may_clear :: bool

definition within_rights :: "Rights \<Rightarrow> Cli \<Rightarrow> Cli \<Rightarrow> bool" where
  "within_rights R s t \<longleftrightarrow>
     (\<exists>ms. cl_sent t = cl_sent s @ ms \<and> list_all (\<lambda>(_, name, _). name \<in> may_send R) ms) \<and>
     (may_save R \<or> cl_file t = cl_file s) \<and>
     (may_spawn R \<or> cl_spawned t = cl_spawned s) \<and>
     (may_clear R \<or> cl_disk t = cl_disk s)"

definition obeys :: "(Cli \<Rightarrow> Cli \<Rightarrow> bool) \<Rightarrow> 'a cli \<Rightarrow> bool" where
  "obeys T m \<longleftrightarrow> (\<forall>s. T s (snd (m s)))"

section \<open>Programs whose steps obey a relation\<close>

named_theorems obeys_rules

locale step_relation =
  fixes T :: "Cli \<Rightarrow> Cli \<Rightarrow> bool"
  assumes refl_step: "T s s"
    and trans_step: "T a b \<Longrightarrow> T b c \<Longrightarrow> T a c"
begin

lemma obeysD: "obeys T m \<Longrightarrow> m s = (r, t) \<Longrightarrow> T s t"
  unfolding obeys_def by (metis snd_conv)

lemma obeys_ret: "obeys T (ret x)"
  by (simp add: obeys_def refl_step)

lemma obeys_fail: "obeys T (fail e)"
  by (simp add: obeys_def refl_step)

lemma obeys_lift: "obeys T (lift r)"
  by (simp add: obeys_def refl_step)

lemma obeys_get: "obeys T (get_cli f)"
  by (simp add: obeys_def refl_step)

lemma obeys_require: "obeys T (require b e)"
  by (simp add: obeys_def refl_step)

lemma obeys_modify: "(\<And>s. T s (f s)) \<Longrightarrow> obeys T (modify f)"
  by (simp add: obeys_def)

lemma obeys_andThen:
  assumes "obeys T m" "\<And>x. obeys T (f x)"
  shows "obeys T (andThen m f)"
  unfolding obeys_def
proof
  fix s
  obtain r t where m: "m s = (r, t)" by fastforce
  have "T s t" by (rule obeysD [OF assms(1) m])
  then show "T s (snd (andThen m f s))"
    using assms(2) m by (cases r) (auto simp: andThen_def obeys_def intro: trans_step)
qed

text \<open>Running \<open>m\<close> and going on with its error or its value, in a state of its own.\<close>

lemma obeys_try:
  assumes "obeys T m" "\<And>e. obeys T (h e)" "\<And>x. obeys T (f x)"
    and "\<And>s. k s = (case m s of (Inl e, t) \<Rightarrow> h e t | (Inr x, t) \<Rightarrow> f x t)"
  shows "obeys T k"
  unfolding obeys_def
proof
  fix s
  obtain r t where m: "m s = (r, t)" by fastforce
  have "T s t" by (rule obeysD [OF assms(1) m])
  then show "T s (snd (k s))"
    using assms(2,3) m by (cases r) (auto simp: assms(4) obeys_def intro: trans_step)
qed

end

lemma obeys_if [obeys_rules]:
  "(b \<Longrightarrow> obeys T m) \<Longrightarrow> (\<not> b \<Longrightarrow> obeys T n) \<Longrightarrow> obeys T (if b then m else n)"
  by simp

lemma obeys_option [obeys_rules]:
  "(x = None \<Longrightarrow> obeys T m) \<Longrightarrow> (\<And>v. x = Some v \<Longrightarrow> obeys T (f v)) \<Longrightarrow>
   obeys T (case x of None \<Rightarrow> m | Some v \<Rightarrow> f v)"
  by (simp split: option.split)

lemma obeys_sum [obeys_rules]:
  "(\<And>e. x = Inl e \<Longrightarrow> obeys T (h e)) \<Longrightarrow> (\<And>v. x = Inr v \<Longrightarrow> obeys T (f v)) \<Longrightarrow>
   obeys T (case x of Inl e \<Rightarrow> h e | Inr v \<Rightarrow> f v)"
  by (simp split: sum.split)

lemma obeys_prod [obeys_rules]:
  "(\<And>a b. x = (a, b) \<Longrightarrow> obeys T (f a b)) \<Longrightarrow> obeys T (case x of (a, b) \<Rightarrow> f a b)"
  by (simp split: prod.split)

lemma obeys_list [obeys_rules]:
  "(x = [] \<Longrightarrow> obeys T m) \<Longrightarrow> (\<And>a b. x = a # b \<Longrightarrow> obeys T (f a b)) \<Longrightarrow>
   obeys T (case x of [] \<Rightarrow> m | a # b \<Rightarrow> f a b)"
  by (simp split: list.split)

lemma obeys_let [obeys_rules]: "obeys T (f a) \<Longrightarrow> obeys T (let x = a in f x)"
  by simp

interpretation rights: step_relation "within_rights R" for R
proof
  show "within_rights R s s" for s by (simp add: within_rights_def)
next
  show "within_rights R a c" if "within_rights R a b" "within_rights R b c" for a b c
    using that by (fastforce simp: within_rights_def)
qed

text \<open>The simplifier turns \<open>ret x\<close> and \<open>fail e\<close> into pairs.\<close>

lemma obeys_pair [obeys_rules]: "obeys (within_rights R) (Pair r)"
  by (simp add: obeys_def rights.refl_step)

lemmas [obeys_rules] =
  rights.obeys_ret rights.obeys_fail rights.obeys_lift rights.obeys_get rights.obeys_require
  rights.obeys_andThen

section \<open>The session\<close>

lemma rights_case [obeys_rules]:
  assumes "obeys (within_rights R) m" "\<And>e. obeys (within_rights R) (h e)" "obeys (within_rights R) f"
  shows "within_rights R s (snd (case m s of (Inl e, t) \<Rightarrow> h e t | (Inr (), t) \<Rightarrow> f t))"
proof -
  obtain r t where m: "m s = (r, t)" by fastforce
  have "within_rights R s t" by (rule rights.obeysD [OF assms(1) m])
  then show ?thesis
    using assms(2,3) m by (cases r) (auto simp: obeys_def intro: rights.trans_step)
qed

lemma rights_run [obeys_rules]: "obeys (within_rights R) m \<Longrightarrow> within_rights R s (snd (m s))"
  by (simp add: obeys_def)

lemma obeysI: "(\<And>s. within_rights R s (snd (m s))) \<Longrightarrow> obeys (within_rights R) m"
  by (simp add: obeys_def)

lemma quiet_step:
  "cl_sent t = cl_sent s \<Longrightarrow> cl_file t = cl_file s \<Longrightarrow> cl_spawned t = cl_spawned s \<Longrightarrow>
   cl_disk t = cl_disk s \<Longrightarrow> within_rights R s t"
  by (simp add: within_rights_def)

lemma obeys_quiet:
  "(\<And>s. cl_sent (snd (m s)) = cl_sent s \<and> cl_file (snd (m s)) = cl_file s \<and>
     cl_spawned (snd (m s)) = cl_spawned s \<and> cl_disk (snd (m s)) = cl_disk s) \<Longrightarrow>
   obeys (within_rights R) m"
  by (simp add: obeys_def quiet_step)

lemma obeys_output [obeys_rules]:
  "obeys (within_rights R) (say x)" "obeys (within_rights R) (println t)"
  "obeys (within_rights R) (out_json j)" "obeys (within_rights R) (out_line g t)"
  "obeys (within_rights R) (out_note g t)" "obeys (within_rights R) (out_ok g t j)"
  by (rule obeys_quiet;
      simp add: say_def println_def out_json_def out_line_def out_note_def out_ok_def)+

lemma obeys_print_lines [obeys_rules]: "obeys (within_rights R) (print_lines ls)"
  by (induction ls) (auto intro: obeys_rules)

lemma obeys_connection [obeys_rules]:
  "obeys (within_rights R) take_conn" "obeys (within_rights R) (from_conn g cfg frames)"
  "obeys (within_rights R) (set_timeout n)" "obeys (within_rights R) take_warnings"
  "obeys (within_rights R) (session_wait d i reply)" "obeys (within_rights R) (recv_until_cli n p)"
  by (rule obeys_quiet;
      simp add: take_conn_def from_conn_def set_timeout_def take_warnings_def session_wait_def
        recv_until_cli_def Let_def split: list.split prod.split sum.split)+

lemma obeys_note_warnings [obeys_rules]: "obeys (within_rights R) (note_warnings g ws)"
  by (induction ws) (auto intro: obeys_rules)

lemma obeys_flush [obeys_rules]: "obeys (within_rights R) (flush_warnings g)"
  unfolding flush_warnings_def by (intro obeys_rules)

lemma obeys_session_open [obeys_rules]: "obeys (within_rights R) (session_open env g)"
  unfolding session_open_def by (intro obeys_rules)

lemma obeys_retry_open [obeys_rules]: "obeys (within_rights R) (retry_open n e env g)"
proof (induction n)
  case 0
  show ?case by (rule obeys_quiet) simp
next
  case (Suc n)
  show ?case
  proof (rule rights.obeys_try [OF obeys_session_open [of R env g] Suc rights.obeys_ret [of R]])
    fix s
    obtain r t where "session_open env g s = (r, t)" by fastforce
    then show "retry_open (Suc n) e env g s =
        (case session_open env g s of (Inl _, t) \<Rightarrow> retry_open n e env g t | (Inr x, t) \<Rightarrow> ret x t)"
      by (cases r) simp_all
  qed
qed

lemma obeys_spawn_core [obeys_rules]: "may_spawn R \<Longrightarrow> obeys (within_rights R) (spawn_core env)"
  by (simp add: obeys_def spawn_core_def within_rights_def split: option.split)

lemma obeys_open_or_spawn [obeys_rules]:
  assumes "spawn_allowed g \<Longrightarrow> may_spawn R"
  shows "obeys (within_rights R) (open_or_spawn env g)"
proof (rule rights.obeys_try [OF obeys_session_open [of R env g] _ rights.obeys_ret [of R]])
  let ?h = "\<lambda>e. if \<not> spawn_allowed g then fail e
     else andThen (spawn_core env) (\<lambda>_.
       retry_open 300 (Offline ''whoisthat-core did not become reachable within 30s'') env g)"
  show "obeys (within_rights R) (?h e)" for e
    using assms by (intro obeys_rules) simp_all
  show "open_or_spawn env g s =
      (case session_open env g s of (Inl e, t) \<Rightarrow> ?h e t | (Inr x, t) \<Rightarrow> ret x t)" for s
  proof -
    obtain r t where "session_open env g s = (r, t)" by fastforce
    then show ?thesis by (cases r) (simp_all add: open_or_spawn_def del: retry_open.simps)
  qed
qed

lemma obeys_send [obeys_rules]:
  "name \<in> may_send R \<Longrightarrow> obeys (within_rights R) (session_send env name d)"
  by (auto simp: obeys_def session_send_def within_rights_def Let_def split: option.split)

lemma obeys_send_plain [obeys_rules]:
  "name \<in> may_send R \<Longrightarrow> obeys (within_rights R) (send_plain_request env name d)"
  by (auto simp: obeys_def send_plain_request_def within_rights_def Let_def split: option.split)

lemma obeys_request [obeys_rules]:
  "name \<in> may_send R \<Longrightarrow> obeys (within_rights R) (session_request env name d dec reply)"
  unfolding session_request_def by (intro obeys_rules)

lemma obeys_state [obeys_rules]:
  "''get-application-state'' \<in> may_send R \<Longrightarrow> obeys (within_rights R) (session_state env)"
  unfolding session_state_def by (intro obeys_rules)

lemma obeys_save [obeys_rules]: "may_save R \<Longrightarrow> obeys (within_rights R) (save_cfg env f)"
  by (simp add: obeys_def save_cfg_def within_rights_def Let_def)

lemma obeys_try_save [obeys_rules]: "may_save R \<Longrightarrow> obeys (within_rights R) (try_save env c)"
  by (simp add: obeys_def try_save_def within_rights_def split: option.split)

lemma obeys_each [obeys_rules]:
  "(\<And>x. obeys (within_rights R) (f x)) \<Longrightarrow> obeys (within_rights R) (each f xs)"
  by (induction xs) (auto intro: obeys_rules)

section \<open>Connecting, the daemon, the hardware id\<close>

abbreviation reads :: "Rights \<Rightarrow> bool" where
  "reads R \<equiv> ''get-application-state'' \<in> may_send R"

abbreviation spawns :: "GlobalArgs \<Rightarrow> Rights \<Rightarrow> bool" where
  "spawns g R \<equiv> spawn_allowed g \<longrightarrow> may_spawn R"

lemma obeys_connect [obeys_rules]:
  "\<lbrakk>reads R; ''connect'' \<in> may_send R; may_save R; spawns g R\<rbrakk> \<Longrightarrow>
   obeys (within_rights R) (cli_connect env g target grp wait)"
  unfolding cli_connect_def by (intro obeys_rules) simp_all

lemma obeys_disconnect [obeys_rules]:
  "\<lbrakk>reads R; ''disconnect'' \<in> may_send R; spawns g R\<rbrakk> \<Longrightarrow>
   obeys (within_rights R) (cli_disconnect env g wait)"
  unfolding cli_disconnect_def disconnected_ok_def by (intro obeys_rules) simp_all

lemma obeys_toggle [obeys_rules]:
  "\<lbrakk>reads R; ''connect'' \<in> may_send R; ''disconnect'' \<in> may_send R; may_save R; spawns g R\<rbrakk> \<Longrightarrow>
   obeys (within_rights R) (cli_toggle env g wait)"
  unfolding cli_toggle_def by (intro obeys_rules) simp_all

lemma obeys_mode [obeys_rules]:
  "\<lbrakk>reads R; cmd \<noteq> ModeStatus \<Longrightarrow> ''enable-tun'' \<in> may_send R \<and> ''disable-tun'' \<in> may_send R; spawns g R\<rbrakk> \<Longrightarrow>
   obeys (within_rights R) (cli_mode env g cmd)"
  unfolding cli_mode_def mode_status_def by (intro obeys_rules) simp_all

lemma obeys_core_start [obeys_rules]:
  assumes "reads R" "may_spawn R"
  shows "obeys (within_rights R) (core_start env g)"
proof (rule obeysI)
  fix s
  show "within_rights R s (snd (core_start env g s))"
  proof (cases "gl_tcp g \<noteq> None \<or> gl_socket g \<noteq> None")
    case True
    then show ?thesis by (simp add: core_start_def rights.refl_step)
  next
    case False
    then show ?thesis
      unfolding core_start_def if_not_P [OF False] by (intro obeys_rules) (simp_all add: assms)
  qed
qed

lemma obeys_await_exit [obeys_rules]: "obeys (within_rights R) (await_exit n)"
proof (induction n)
  case 0
  show ?case by (rule obeys_quiet) simp
next
  case (Suc n)
  have "await_exit (Suc n) = andThen take_conn (\<lambda>r. case r of Inl _ \<Rightarrow> ret True | Inr _ \<Rightarrow> await_exit n)"
    by (auto simp: fun_eq_iff andThen_def take_conn_def split: list.split sum.split)
  then show ?case using Suc by (simp only:) (intro obeys_rules)
qed

lemma obeys_kill_switch_on [obeys_rules]:
  assumes "reads R"
  shows "obeys (within_rights R) (kill_switch_on env)"
proof (rule rights.obeys_try [OF obeys_state [OF assms] rights.obeys_ret rights.obeys_ret])
  fix s
  show "kill_switch_on env s =
      (case session_state env s of (Inl e, t) \<Rightarrow> ret False t | (Inr st, t) \<Rightarrow> ret (as_kill_switch st) t)"
    by (simp add: kill_switch_on_def split: prod.split sum.split)
qed

lemma obeys_core_stop [obeys_rules]:
  assumes "reads R" "''die'' \<in> may_send R"
  shows "obeys (within_rights R) (core_stop env g)"
  unfolding core_stop_def by (rule obeysI) (intro obeys_rules; simp add: assms)

lemma obeys_core_restart [obeys_rules]:
  assumes "reads R" "''die'' \<in> may_send R" "may_spawn R"
  shows "obeys (within_rights R) (core_restart env g)"
proof (rule obeysI)
  fix s
  show "within_rights R s (snd (core_restart env g s))"
  proof (cases "ce_systemd_enabled env")
    case True
    then show ?thesis
      unfolding core_restart_def if_P [OF True] by (intro obeys_rules) (simp_all add: assms)
  next
    case False
    have "within_rights R s (snd (core_stop env g s))" using assms by (intro obeys_rules) simp_all
    moreover have "within_rights R (snd (core_stop env g s)) (snd (core_start env g (snd (core_stop env g s))))"
      using assms by (intro obeys_rules) simp_all
    ultimately show ?thesis using False by (simp add: core_restart_def rights.trans_step)
  qed
qed

lemma obeys_core_status [obeys_rules]:
  assumes "reads R"
  shows "obeys (within_rights R) (core_status env g)"
proof -
  have "obeys (within_rights R) (\<lambda>s. case session_open env g s of
        (Inl _, s) \<Rightarrow> core_offline env g (describe ep) s
      | (Inr (), s) \<Rightarrow>
          andThen (session_state env) (\<lambda>st.
          if gl_json g then out_json (core_running_json env (describe ep) st)
          else print_lines (core_running_lines env (describe ep) st)) s)" for ep
    unfolding core_offline_def by (rule obeysI) (intro obeys_rules; simp add: assms)
  then show ?thesis unfolding core_status_def by (intro obeys_rules)
qed

lemma obeys_version [obeys_rules]:
  assumes "reads R"
  shows "obeys (within_rights R) (cli_version env g)"
proof -
  have "obeys (within_rights R) fetch_core_version"
    using assms by (auto simp: obeys_def fetch_core_version_def within_rights_def split: list.split sum.split)
  then show ?thesis unfolding cli_version_def by (intro obeys_rules)
qed

lemma obeys_ip [obeys_rules]: "obeys (within_rights R) (cli_ip env g)"
  unfolding cli_ip_def by (intro obeys_rules)

lemma obeys_hwid_set [obeys_rules]:
  "\<lbrakk>''set-hwid'' \<in> may_send R; spawns g R\<rbrakk> \<Longrightarrow> obeys (within_rights R) (hwid_set env g e u r)"
  unfolding hwid_set_def by (intro obeys_rules) simp_all

lemma obeys_hwid_status [obeys_rules]: "reads R \<Longrightarrow> obeys (within_rights R) (hwid_status env g)"
  unfolding hwid_status_def by (intro obeys_rules)

section \<open>Subscriptions and profiles\<close>

lemma obeys_print_table [obeys_rules]: "obeys (within_rights R) (print_table h rows)"
  unfolding print_table_def by (intro obeys_rules)

lemma obeys_with_group [obeys_rules]:
  "(\<And>gr. obeys (within_rights R) (f gr)) \<Longrightarrow> obeys (within_rights R) (with_group env st sel f)"
  unfolding with_group_def by (intro obeys_rules)

lemma obeys_sub_list [obeys_rules]: "reads R \<Longrightarrow> obeys (within_rights R) (sub_list env g reveal)"
  unfolding sub_list_def by (intro obeys_rules) simp_all

lemma obeys_sub_show [obeys_rules]: "reads R \<Longrightarrow> obeys (within_rights R) (sub_show env g sel reveal)"
  unfolding sub_show_def by (intro obeys_rules) simp_all

lemma obeys_finish_add [obeys_rules]: "obeys (within_rights R) (finish_add g added i)"
proof (rule obeysI)
  fix s
  obtain r t where m: "session_wait dec_subscription_updated i update_reply s = (r, t)" by fastforce
  have st: "within_rights R s t"
    using rights_run [OF obeys_connection(5) [of R dec_subscription_updated i update_reply], of s] m by simp
  have quiet: "within_rights R t (snd (out_ok g x j t))" for x j by (intro obeys_rules)
  show "within_rights R s (snd (finish_add g added i s))"
    using st quiet by (auto simp: finish_add_def m intro: rights.trans_step split: sum.split CliError.split)
qed

lemma obeys_sub_add [obeys_rules]:
  "\<lbrakk>''add-group'' \<in> may_send R; spawns g R\<rbrakk> \<Longrightarrow> obeys (within_rights R) (sub_add env g url name no_wait)"
  unfolding sub_add_def by (intro obeys_rules) simp_all

lemma obeys_sub_remove [obeys_rules]:
  "\<lbrakk>reads R; ''delete-group'' \<in> may_send R; spawns g R\<rbrakk> \<Longrightarrow> obeys (within_rights R) (sub_remove env g sel yes)"
  unfolding sub_remove_def by (intro obeys_rules) simp_all

lemma obeys_refresh_all [obeys_rules]:
  "''update-subscription'' \<in> may_send R \<Longrightarrow> obeys (within_rights R) (refresh_all env g no_wait grs)"
proof (induction grs)
  case Nil
  show ?case by (simp add: obeys_pair)
next
  case (Cons gr grs)
  then show ?case unfolding refresh_all.simps by (intro obeys_rules) simp_all
qed

lemma obeys_sub_refresh [obeys_rules]:
  "\<lbrakk>reads R; ''update-subscription'' \<in> may_send R; spawns g R\<rbrakk> \<Longrightarrow>
   obeys (within_rights R) (sub_refresh env g sel all_groups no_wait)"
  unfolding sub_refresh_def by (intro obeys_rules) simp_all

lemma obeys_sub_change [obeys_rules]:
  assumes "reads R" "''update-group'' \<in> may_send R" "spawns g R"
  shows "obeys (within_rights R) (sub_rename env g sel name)"
    and "obeys (within_rights R) (sub_auto env g sel t)"
    and "obeys (within_rights R) (sub_interval env g sel t)"
    and "obeys (within_rights R) (sub_url env g sel set_to reveal)"
  unfolding sub_rename_def sub_url_def sub_auto_def sub_interval_def patch_group_def update_group_def
  by ((intro obeys_rules)?; (simp add: assms)?; fail)+

lemma obeys_sub_reorder [obeys_rules]:
  "\<lbrakk>reads R; ''reorder-groups'' \<in> may_send R; spawns g R\<rbrakk> \<Longrightarrow> obeys (within_rights R) (sub_reorder env g sel i)"
  unfolding sub_reorder_def by (intro obeys_rules) simp_all

lemma obeys_profile_list [obeys_rules]: "reads R \<Longrightarrow> obeys (within_rights R) (profile_list env g f reveal)"
  unfolding profile_list_def by (intro obeys_rules) simp_all

lemma obeys_profile_show [obeys_rules]: "reads R \<Longrightarrow> obeys (within_rights R) (profile_show env g sel f reveal)"
  unfolding profile_show_def by (intro obeys_rules) simp_all

lemma obeys_target_group [obeys_rules]:
  "''add-group'' \<in> may_send R \<Longrightarrow> obeys (within_rights R) (target_group env g st grp)"
  unfolding target_group_def by (intro obeys_rules) simp_all

lemma obeys_profile_add [obeys_rules]:
  "\<lbrakk>reads R; ''add-group'' \<in> may_send R; ''add-profiles'' \<in> may_send R; spawns g R\<rbrakk> \<Longrightarrow>
   obeys (within_rights R) (profile_add env g uris grp)"
  unfolding profile_add_def by (intro obeys_rules) simp_all

lemma obeys_profile_remove [obeys_rules]:
  "\<lbrakk>reads R; ''delete-profiles'' \<in> may_send R; spawns g R\<rbrakk> \<Longrightarrow>
   obeys (within_rights R) (profile_remove env g sels yes)"
  unfolding profile_remove_def by (intro obeys_rules) simp_all

lemma obeys_profile_rename [obeys_rules]:
  "\<lbrakk>reads R; ''update-profile'' \<in> may_send R; spawns g R\<rbrakk> \<Longrightarrow>
   obeys (within_rights R) (profile_rename env g sel name)"
  unfolding profile_rename_def by (intro obeys_rules) simp_all

lemma obeys_profile_move [obeys_rules]:
  "\<lbrakk>reads R; ''move-profile'' \<in> may_send R; spawns g R\<rbrakk> \<Longrightarrow>
   obeys (within_rights R) (profile_move env g sel to_group)"
  unfolding profile_move_def by (intro obeys_rules) simp_all

lemma obeys_profile_reorder [obeys_rules]:
  "\<lbrakk>reads R; ''reorder-profiles'' \<in> may_send R; spawns g R\<rbrakk> \<Longrightarrow>
   obeys (within_rights R) (profile_reorder env g grp sels order)"
  unfolding profile_reorder_def by (intro obeys_rules) simp_all

section \<open>Tests\<close>

lemma obeys_test_profile [obeys_rules]:
  "\<lbrakk>reads R; ''test-profile'' \<in> may_send R; spawns g R\<rbrakk> \<Longrightarrow>
   obeys (within_rights R) (test_profile_cmd env g sel meth wait)"
  unfolding test_profile_cmd_def print_profile_def by (intro obeys_rules) simp_all

lemma obeys_group_results [obeys_rules]:
  "reads R \<Longrightarrow> obeys (within_rights R) (print_group_results env g gi name)"
  unfolding print_group_results_def by (intro obeys_rules) simp_all

lemma obeys_test_group [obeys_rules]:
  "\<lbrakk>reads R; ''test-group'' \<in> may_send R; spawns g R\<rbrakk> \<Longrightarrow>
   obeys (within_rights R) (test_group_cmd env g sel meth wait)"
  unfolding test_group_cmd_def by (intro obeys_rules) simp_all

lemma obeys_test_cancel [obeys_rules]:
  "\<lbrakk>''cancel-tests'' \<in> may_send R; spawns g R\<rbrakk> \<Longrightarrow> obeys (within_rights R) (test_cancel env g)"
  unfolding test_cancel_def by (intro obeys_rules) simp_all

lemma obeys_store_test_config [obeys_rules]:
  "\<lbrakk>reads R; ''set-test-config'' \<in> may_send R; may_save R\<rbrakk> \<Longrightarrow>
   obeys (within_rights R) (store_test_config env c)"
  unfolding store_test_config_def by (intro obeys_rules) simp_all

lemma obeys_test_configure [obeys_rules]:
  "\<lbrakk>reads R; ''set-test-config'' \<in> may_send R; may_save R; spawns g R\<rbrakk> \<Longrightarrow>
   obeys (within_rights R) (test_configure env g a)"
  unfolding test_configure_def by (intro obeys_rules) simp_all

section \<open>Routing\<close>

lemma obeys_get_config [obeys_rules]:
  "''get-routing'' \<in> may_send R \<Longrightarrow> obeys (within_rights R) (get_config env gi)"
  unfolding get_config_def by (intro obeys_rules) simp_all

lemma obeys_update_config [obeys_rules]:
  "''update-routing'' \<in> may_send R \<Longrightarrow> obeys (within_rights R) (update_config env gi c)"
  unfolding update_config_def by (intro obeys_rules) simp_all

lemma obeys_route_list [obeys_rules]:
  "\<lbrakk>reads R; ''get-routing'' \<in> may_send R\<rbrakk> \<Longrightarrow> obeys (within_rights R) (route_list env g grp)"
  unfolding route_list_def by (intro obeys_rules) simp_all

lemma obeys_warn_shadow [obeys_rules]: "obeys (within_rights R) (warn_shadow g st gi)"
  unfolding warn_shadow_def by (intro obeys_rules)

lemma obeys_start_edit [obeys_rules]:
  "\<lbrakk>reads R; spawns g R; \<And>gi b. obeys (within_rights R) (f gi b)\<rbrakk> \<Longrightarrow>
   obeys (within_rights R) (start_edit env g grp f)"
  unfolding start_edit_def by (intro obeys_rules) simp_all

lemma obeys_route_edits [obeys_rules]:
  assumes "reads R" "''get-routing'' \<in> may_send R" "''update-routing'' \<in> may_send R" "spawns g R"
  shows "obeys (within_rights R) (route_add env g t v out grp)"
    and "obeys (within_rights R) (route_mutate env g ixs grp act)"
    and "obeys (within_rights R) (route_move env g i j grp)"
    and "obeys (within_rights R) (preset_apply env g k grp b)"
  unfolding route_add_def route_mutate_def route_move_def preset_apply_def
  by ((intro obeys_rules)?; (simp add: assms)?; fail)+

lemma obeys_route_mode [obeys_rules]:
  "\<lbrakk>reads R; ''set-manual-routing-source'' \<in> may_send R; ''set-group-routing-mode'' \<in> may_send R; spawns g R\<rbrakk> \<Longrightarrow>
   obeys (within_rights R) (route_mode env g sel mode)"
  unfolding route_mode_def by (intro obeys_rules) simp_all

lemma obeys_route_import [obeys_rules]:
  "\<lbrakk>reads R; ''import-happ-routing'' \<in> may_send R; spawns g R\<rbrakk> \<Longrightarrow>
   obeys (within_rights R) (route_import env g lnk grp)"
  unfolding route_import_def by (intro obeys_rules) simp_all

lemma obeys_routing_group [obeys_rules]:
  "\<lbrakk>reads R; \<And>x gi. obeys (within_rights R) (f x gi)\<rbrakk> \<Longrightarrow> obeys (within_rights R) (with_routing_group env grp f)"
  unfolding with_routing_group_def by (intro obeys_rules) simp_all

lemma obeys_set_active [obeys_rules]:
  "''set-active-routing-profile'' \<in> may_send R \<Longrightarrow> obeys (within_rights R) (set_active_profile env gi k)"
  unfolding set_active_profile_def by (intro obeys_rules) simp_all

end
