(* ===== verification/CliSafety.thy ===== *)
theory CliSafety
  imports CliRights
begin

text \<open>The table of what each command may do, and the theorem that the commands stay inside it.\<close>

section \<open>Settings, status, links, logs\<close>

lemma obeys_test_groups [obeys_rules]:
  "\<lbrakk>reads R; ''test-group'' \<in> may_send R; spawns g R\<rbrakk> \<Longrightarrow>
   obeys (within_rights R) (test_groups env g meth wait xs)"
proof (induction xs)
  case Nil
  show ?case by (simp add: obeys_pair)
next
  case (Cons x xs)
  then show ?case unfolding test_groups.simps by (intro obeys_rules) simp_all
qed

lemma obeys_test_all [obeys_rules]:
  "\<lbrakk>reads R; ''test-group'' \<in> may_send R; spawns g R\<rbrakk> \<Longrightarrow> obeys (within_rights R) (test_all env g meth wait)"
  unfolding test_all_def by (intro obeys_rules) simp_all

lemma obeys_core_entries [obeys_rules]: "reads R \<Longrightarrow> obeys (within_rights R) (core_entries env g)"
  unfolding core_entries_def
proof (rule obeysI)
  fix s
  assume r: "reads R"
  let ?all = "map (\<lambda>k. (k, JStr ''unknown'', ''core'')) (CORE_KEYS @ READONLY_KEYS)"
  let ?f = "andThen (session_state env) (\<lambda>st.
            ret (entries (core_value (ce_config_json env) st) source_of CORE_KEYS
                 @ entries (core_value (ce_config_json env) st) (\<lambda>_. ''core'') READONLY_KEYS))"
  have "within_rights R s (snd (case session_open env g s of (Inl _, t) \<Rightarrow> ret ?all t | (Inr (), t) \<Rightarrow> ?f t))"
    by (intro obeys_rules r)
  then show "within_rights R s (snd (case session_open env g s of
      (Inl _, t) \<Rightarrow> (Inr ?all, t) | (Inr (), t) \<Rightarrow> ?f t))" by (simp only: ret_simp)
qed

lemma obeys_show_setting [obeys_rules]: "obeys (within_rights R) (show_setting g k v src)"
  unfolding show_setting_def by (intro obeys_rules)

lemma obeys_settings_list [obeys_rules]: "reads R \<Longrightarrow> obeys (within_rights R) (settings_list env g)"
  unfolding settings_list_def by (intro obeys_rules) simp_all

lemma obeys_settings_get [obeys_rules]: "reads R \<Longrightarrow> obeys (within_rights R) (settings_get env g k)"
  unfolding settings_get_def by (intro obeys_rules) simp_all

definition setting_messages :: "string set" where
  "setting_messages =
     {''set-kill-switch'', ''set-split-tunnel'', ''set-autoconnect'', ''set-tun-name'', ''set-hwid'',
      ''set-test-config''}"

lemma obeys_apply_core [obeys_rules]:
  assumes "reads R" "setting_messages \<subseteq> may_send R" "may_save R"
  shows "obeys (within_rights R) (apply_core env g force k v)"
proof -
  have sets: "''set-kill-switch'' \<in> may_send R" "''set-split-tunnel'' \<in> may_send R"
    "''set-autoconnect'' \<in> may_send R" "''set-tun-name'' \<in> may_send R" "''set-hwid'' \<in> may_send R"
    "''set-test-config'' \<in> may_send R"
    using assms(2) by (auto simp: setting_messages_def)
  show ?thesis
    unfolding apply_core_def apply_kill_switch_def apply_split_tunnel_def apply_autoconnect_def
      apply_tun_name_def apply_hwid_enabled_def apply_user_agent_def set_hwid_request_def
      apply_test_setting_def
    by (intro obeys_rules sets assms(1,3)) 
qed

lemma obeys_jobs [obeys_rules]:
  "\<lbrakk>reads R; setting_messages \<subseteq> may_send R; may_save R; spawns g R\<rbrakk> \<Longrightarrow>
   obeys (within_rights R) (apply_core_jobs env g force jobs)"
  "may_save R \<Longrightarrow> obeys (within_rights R) (apply_local_jobs env g jobs)"
  unfolding apply_core_jobs_def apply_local_jobs_def
  by ((intro obeys_rules)?; simp?; fail)+

lemma obeys_set_values [obeys_rules]:
  "\<lbrakk>reads R; setting_messages \<subseteq> may_send R; may_save R; spawns g R\<rbrakk> \<Longrightarrow>
   obeys (within_rights R) (set_values env g as force)"
  unfolding set_values_def by (intro obeys_rules) simp_all

lemma obeys_settings_toggle [obeys_rules]:
  "\<lbrakk>reads R; setting_messages \<subseteq> may_send R; may_save R; spawns g R\<rbrakk> \<Longrightarrow>
   obeys (within_rights R) (settings_toggle env g k)"
  unfolding settings_toggle_def by (intro obeys_rules) simp_all

lemma obeys_await_frames [obeys_rules]: "obeys (within_rights R) (await_frames n d l)"
  by (rule obeys_quiet) (simp add: await_frames_def split: prod.split)

lemma obeys_print_status [obeys_rules]: "obeys (within_rights R) (print_status g short c)"
  unfolding print_status_def by (intro obeys_rules)

lemma obeys_print_all [obeys_rules]: "obeys (within_rights R) (print_all g short cs)"
  by (induction cs) (auto intro: obeys_rules)

lemma obeys_arrivals: "obeys (within_rights R) (modify (\<lambda>s. s\<lparr>cl_arrivals := f s\<rparr>))"
  by (rule obeys_quiet) simp

lemma obeys_awaited [obeys_rules]:
  "(\<And>x. obeys T (f x)) \<Longrightarrow> obeys T m \<Longrightarrow> obeys T n \<Longrightarrow>
   obeys T (case r of Got x \<Rightarrow> f x | TimedOut \<Rightarrow> m | Closed \<Rightarrow> n)"
  by (simp split: Awaited.split)

lemma obeys_status [obeys_rules]: "reads R \<Longrightarrow> obeys (within_rights R) (cli_status env g short watch)"
  unfolding cli_status_def first_status_def by (intro obeys_rules obeys_arrivals) simp_all

lemma obeys_emit_lines [obeys_rules]: "obeys (within_rights R) (emit_lines g ls)"
  by (induction ls) (auto intro: obeys_rules)

lemma obeys_show_logs [obeys_rules]: "obeys (within_rights R) (show_logs env g a)"
proof -
  have "obeys (within_rights R) (open_log path)" for path
    by (rule obeys_quiet) (simp add: open_log_def split: option.split)
  then show ?thesis unfolding show_logs_def follow_from_def by (intro obeys_rules) simp_all
qed

lemma obeys_out_lines [obeys_rules]: "obeys (within_rights R) (out_lines g ts)"
  by (induction ts) (auto intro: obeys_rules)

lemma obeys_logs_clear [obeys_rules]:
  "(yes \<Longrightarrow> may_clear R) \<Longrightarrow> obeys (within_rights R) (logs_clear env g src yes)"
proof (cases yes)
  case True
  moreover assume "yes \<Longrightarrow> may_clear R"
  ultimately have "obeys (within_rights R) (run_clear env src)"
    by (simp add: obeys_def run_clear_def within_rights_def split: prod.split)
  then show ?thesis unfolding logs_clear_def by (intro obeys_rules) simp_all
next
  case False
  then show ?thesis by (intro obeys_quiet) (simp add: logs_clear_def andThen_def)
qed

lemma obeys_retry_conn [obeys_rules]: "obeys (within_rights R) (retry_conn n)"
proof (induction n)
  case 0
  show ?case by (rule obeys_quiet) simp
next
  case (Suc n)
  have "retry_conn (Suc n) = andThen take_conn (\<lambda>r. case r of Inl _ \<Rightarrow> retry_conn n
      | Inr frames \<Rightarrow> modify (\<lambda>s. s\<lparr>cl_arrivals := frames\<rparr>))"
    by (auto simp: fun_eq_iff andThen_def take_conn_def split: list.split sum.split)
  then show ?case using Suc by (simp only:) (intro obeys_rules obeys_arrivals)
qed

lemma obeys_ensure_core [obeys_rules]:
  assumes "may_spawn R"
  shows "obeys (within_rights R) (ensure_core_connected env)"
proof -
  have "ensure_core_connected env = andThen take_conn (\<lambda>r. case r of
        Inr frames \<Rightarrow> modify (\<lambda>s. s\<lparr>cl_arrivals := frames\<rparr>)
      | Inl _ \<Rightarrow> andThen (get_cli (\<lambda>s. ce_spawn env (c_log_level (cl_file s)))) (\<lambda>e. case e of
            Some e \<Rightarrow> fail (IoFailed e)
          | None \<Rightarrow> andThen (modify (\<lambda>s. s\<lparr>cl_spawned := cl_spawned s + 1\<rparr>)) (\<lambda>_. retry_conn 30)))"
    by (auto simp: fun_eq_iff ensure_core_connected_def andThen_def take_conn_def
        simp del: retry_conn.simps split: list.split sum.split option.split)
  moreover have "obeys (within_rights R) (modify (\<lambda>s. s\<lparr>cl_spawned := cl_spawned s + 1\<rparr>))"
    using assms by (simp add: obeys_def within_rights_def)
  ultimately show ?thesis by (simp only:) (intro obeys_rules obeys_arrivals)
qed

lemma obeys_link_report [obeys_rules]:
  "obeys (within_rights R) (notify_desktop title t)"
  "obeys (within_rights R) (sub_report name r)" "obeys (within_rights R) (routing_report target out)"
proof -
  show n: "obeys (within_rights R) (notify_desktop title t)" for title t
    unfolding notify_desktop_def by (intro obeys_rules)
  show "obeys (within_rights R) (sub_report name r)"
    unfolding sub_report_def Let_def by (cases r; cases "fst r"; cases "snd r") (auto intro!: obeys_rules n)
  show "obeys (within_rights R) (routing_report target out)"
    unfolding routing_report_def Let_def by (cases out) (auto intro!: obeys_rules n)
qed

lemma obeys_recv_named [obeys_rules]: "obeys (within_rights R) (recv_named name d)"
  unfolding recv_named_def by (intro obeys_rules)

lemma obeys_ask_state [obeys_rules]: "reads R \<Longrightarrow> obeys (within_rights R) (ask_state env)"
  unfolding ask_state_def recv_state_def by (intro obeys_rules)

lemma obeys_link_add_subscription [obeys_rules]:
  "\<lbrakk>may_spawn R; ''add-group'' \<in> may_send R\<rbrakk> \<Longrightarrow> obeys (within_rights R) (link_add_subscription env name url)"
  unfolding link_add_subscription_def by (intro obeys_rules) simp_all

lemma obeys_link_target [obeys_rules]:
  "''add-group'' \<in> may_send R \<Longrightarrow> obeys (within_rights R) (link_target_group env gs name)"
  unfolding link_target_group_def by (intro obeys_rules) simp_all

lemma obeys_link_add_profile [obeys_rules]:
  "\<lbrakk>reads R; may_spawn R; ''add-group'' \<in> may_send R; ''add-profiles'' \<in> may_send R\<rbrakk> \<Longrightarrow>
   obeys (within_rights R) (link_add_profile env uri name)"
  unfolding link_add_profile_def by (intro obeys_rules) simp_all

lemma obeys_link_import [obeys_rules]:
  "\<lbrakk>reads R; may_spawn R; ''import-happ-routing'' \<in> may_send R\<rbrakk> \<Longrightarrow>
   obeys (within_rights R) (link_import_routing env lnk name)"
  unfolding link_import_routing_def by (intro obeys_rules) simp_all

section \<open>The table\<close>

definition no_rights :: Rights where
  "no_rights = \<lparr>may_send = {}, may_save = False, may_spawn = False, may_clear = False\<rparr>"

definition reader :: "string set \<Rightarrow> Rights" where
  "reader names = no_rights\<lparr>may_send := insert ''get-application-state'' names\<rparr>"

definition editor :: "GlobalArgs \<Rightarrow> string set \<Rightarrow> Rights" where
  "editor g names = (reader names)\<lparr>may_spawn := spawn_allowed g\<rparr>"

fun core_rights :: "CoreCmd \<Rightarrow> Rights" where
  "core_rights CoreStart = (reader {})\<lparr>may_spawn := True\<rparr>"
| "core_rights CoreStop = reader {''die''}"
| "core_rights CoreRestart = (reader {''die''})\<lparr>may_spawn := True\<rparr>"
| "core_rights _ = reader {}"

fun profile_rights :: "GlobalArgs \<Rightarrow> ProfileCmd \<Rightarrow> Rights" where
  "profile_rights g (ProfileList _ _) = reader {}"
| "profile_rights g (ProfileShow _ _ _) = reader {}"
| "profile_rights g (ProfileAdd _ _) = editor g {''add-group'', ''add-profiles''}"
| "profile_rights g (ProfileRm _ yes) = (if yes then editor g {''delete-profiles''} else no_rights)"
| "profile_rights g (ProfileRename _ _) = editor g {''update-profile''}"
| "profile_rights g (ProfileMove _ _) = editor g {''move-profile''}"
| "profile_rights g (ProfileReorder _ _ _) = editor g {''reorder-profiles''}"

fun sub_rights :: "GlobalArgs \<Rightarrow> SubCmd \<Rightarrow> Rights" where
  "sub_rights g (SubList _) = reader {}"
| "sub_rights g (SubShow _ _) = reader {}"
| "sub_rights g (SubAdd url _ _ _) = (if http_url url then editor g {''add-group''} else no_rights)"
| "sub_rights g (SubRm _ yes) = (if yes then editor g {''delete-group''} else no_rights)"
| "sub_rights g (SubRefresh _ _ _) = editor g {''update-subscription''}"
| "sub_rights g (SubReorder _ _) = editor g {''reorder-groups''}"
| "sub_rights g _ = editor g {''update-group''}"

fun route_rights :: "GlobalArgs \<Rightarrow> RouteCmd \<Rightarrow> Rights" where
  "route_rights g (RouteList _) = reader {''get-routing''}"
| "route_rights g (RouteMode _ _) = editor g {''set-manual-routing-source'', ''set-group-routing-mode''}"
| "route_rights g (RouteProfile (RouteProfileList _)) = reader {}"
| "route_rights g (RouteProfile (RouteProfileRm _ _)) = editor g {''delete-routing-profile''}"
| "route_rights g (RouteProfile _) = editor g {''set-active-routing-profile''}"
| "route_rights g (RouteImport _ _) = editor g {''import-happ-routing''}"
| "route_rights g (RoutePreset RoutePresetList) = no_rights"
| "route_rights g _ = editor g {''get-routing'', ''update-routing''}"

fun test_rights :: "GlobalArgs \<Rightarrow> TestCmd \<Rightarrow> Rights" where
  "test_rights g (TestOneProfile _ _ _) = editor g {''test-profile''}"
| "test_rights g (TestConfigure _) = (editor g {''set-test-config''})\<lparr>may_save := True\<rparr>"
| "test_rights g TestCancel = editor g {''cancel-tests''}"
| "test_rights g _ = editor g {''test-group''}"

fun settings_rights :: "GlobalArgs \<Rightarrow> SettingsCmd option \<Rightarrow> string list \<Rightarrow> Rights" where
  "settings_rights g (Some SettingsList) sets = reader {}"
| "settings_rights g (Some (SettingsGet _)) sets = reader {}"
| "settings_rights g None [] = reader {}"
| "settings_rights g _ _ = (editor g setting_messages)\<lparr>may_save := True\<rparr>"

fun hwid_rights :: "GlobalArgs \<Rightarrow> HwidCmd \<Rightarrow> Rights" where
  "hwid_rights g HwidStatus = reader {}"
| "hwid_rights g _ = editor g {''set-hwid''}"

text \<open>A deep link ignores the options of the call: it may start the daemon whatever they say.\<close>

definition link_rights :: Rights where
  "link_rights = \<lparr>may_send = {''get-application-state'', ''connect'', ''disconnect'', ''add-group'',
       ''add-profiles'', ''import-happ-routing''}, may_save = True, may_spawn = True, may_clear = False\<rparr>"

fun command_rights :: "GlobalArgs \<Rightarrow> CliCommand \<Rightarrow> Rights" where
  "command_rights g (CmdStatus _ _) = reader {}"
| "command_rights g (CmdConnect _ _ _) = (editor g {''connect''})\<lparr>may_save := True\<rparr>"
| "command_rights g (CmdDisconnect _) = editor g {''disconnect''}"
| "command_rights g (CmdToggle _) = (editor g {''connect'', ''disconnect''})\<lparr>may_save := True\<rparr>"
| "command_rights g (CmdMode cmd) =
     editor g (if or_status cmd = ModeStatus then {} else {''enable-tun'', ''disable-tun''})"
| "command_rights g (CmdCore cmd) = core_rights cmd"
| "command_rights g (CmdProfile cmd) = profile_rights g cmd"
| "command_rights g (CmdSub cmd) = sub_rights g cmd"
| "command_rights g (CmdRoute cmd) = route_rights g cmd"
| "command_rights g (CmdTest cmd) = test_rights g cmd"
| "command_rights g (CmdSettings cmd sets _) = settings_rights g cmd sets"
| "command_rights g (CmdHwid cmd) = hwid_rights g cmd"
| "command_rights g (CmdLogs a) = no_rights\<lparr>may_clear := (case la_clear a of Some (_, yes) \<Rightarrow> yes | None \<Rightarrow> False)\<rparr>"
| "command_rights g (CmdLink (LinkHandle _ _)) = link_rights"
| "command_rights g CmdVersion = reader {}"
| "command_rights g _ = no_rights"

lemmas rights_tables = no_rights_def reader_def editor_def link_rights_def

lemma unconfirmed:
  "obeys (within_rights R) (sub_remove env g sel False)"
  "obeys (within_rights R) (profile_remove env g sels False)"
  "\<not> http_url url \<Longrightarrow> obeys (within_rights R) (sub_add env g url name no_wait)"
  by (rule obeys_quiet; simp add: sub_remove_def profile_remove_def sub_add_def andThen_def)+

lemma obeys_core_cmd: "obeys (within_rights (core_rights cmd)) (cli_core env g cmd)"
  by (cases cmd) (auto simp: rights_tables intro!: obeys_rules)

lemma obeys_profile_cmd: "obeys (within_rights (profile_rights g cmd)) (cli_profile env g cmd)"
  by (cases cmd) (auto simp: rights_tables intro!: obeys_rules unconfirmed(2))

lemma obeys_sub_cmd: "obeys (within_rights (sub_rights g cmd)) (cli_sub env g cmd)"
proof (cases cmd)
  case (SubAdd url name flag no_wait)
  show ?thesis
  proof (cases "http_url url")
    case True
    then show ?thesis by (auto simp: SubAdd rights_tables intro!: obeys_rules)
  next
    case False
    then show ?thesis by (simp add: SubAdd unconfirmed(3))
  qed
qed (auto simp: rights_tables intro!: obeys_rules unconfirmed(1))

lemma obeys_route_profile: "obeys (within_rights (route_rights g (RouteProfile c))) (route_profile env g c)"
proof (cases c)
  case (RouteProfileList grp)
  then show ?thesis unfolding RouteProfileList route_profile.simps route_rights.simps
    by (intro obeys_rules) (simp_all add: rights_tables)
next
  case (RouteProfileActivate sel grp)
  then show ?thesis unfolding RouteProfileActivate route_profile.simps route_rights.simps
    by (intro obeys_rules) (simp_all add: rights_tables)
next
  case (RouteProfileOff grp)
  then show ?thesis unfolding RouteProfileOff route_profile.simps route_rights.simps
    by (intro obeys_rules) (simp_all add: rights_tables)
next
  case (RouteProfileRm sel grp)
  then show ?thesis unfolding RouteProfileRm route_profile.simps route_rights.simps
    by (intro obeys_rules) (simp_all add: rights_tables)
qed

lemma obeys_route_preset: "obeys (within_rights (route_rights g (RoutePreset c))) (route_preset env g c)"
proof (cases c)
  case RoutePresetList
  show ?thesis unfolding RoutePresetList route_preset.simps by (intro obeys_rules)
qed (auto simp: rights_tables intro!: obeys_rules)

lemma obeys_route_cmd: "obeys (within_rights (route_rights g cmd)) (cli_route env g cmd)"
proof (cases cmd)
  case (RouteProfile c)
  then show ?thesis using obeys_route_profile [of g c env] by simp
next
  case (RoutePreset c)
  then show ?thesis using obeys_route_preset [of g c env] by simp
qed (auto simp: rights_tables intro!: obeys_rules)

lemma obeys_test_cmd: "obeys (within_rights (test_rights g cmd)) (cli_test env g cmd)"
  by (cases cmd) (auto simp: rights_tables intro!: obeys_rules)

lemma obeys_settings_cmd:
  "obeys (within_rights (settings_rights g cmd sets)) (cli_settings env g cmd sets force)"
proof (cases cmd)
  case None
  then show ?thesis by (cases sets) (auto simp: rights_tables intro!: obeys_rules)
next
  case (Some c)
  then show ?thesis by (cases c) (auto simp: rights_tables intro!: obeys_rules)
qed

lemma obeys_hwid_cmd: "obeys (within_rights (hwid_rights g cmd)) (cli_hwid env g cmd)"
  by (cases cmd) (auto simp: rights_tables intro!: obeys_rules)

lemma obeys_action: "obeys (within_rights link_rights) (run_deeplink_action env a)"
proof -
  have conn: "obeys (within_rights link_rights) (cli_connect env default_args t gr w)"
    "obeys (within_rights link_rights) (cli_disconnect env default_args w)"
    "obeys (within_rights link_rights) (cli_toggle env default_args w)" for t gr w
    by (intro obeys_rules; simp add: link_rights_def)+
  show ?thesis
    by (cases a; simp only: run_deeplink_action.simps; intro obeys_rules conn) (simp_all add: link_rights_def)
qed

lemma obeys_core_errors:
  assumes "obeys (within_rights R) m"
  shows "obeys (within_rights R) (core_errors m)"
proof (rule obeysI)
  fix s
  have "snd (core_errors m s) = snd (m s)"
    by (simp add: core_errors_def split: prod.split sum.split)
  then show "within_rights R s (snd (core_errors m s))" using rights_run [OF assms] by simp
qed

lemma obeys_link_cmd:
  "obeys (within_rights (case cmd of LinkHandle _ _ \<Rightarrow> link_rights | LinkRegister \<Rightarrow> no_rights)) (cli_link env g cmd)"
proof (cases cmd)
  case (LinkHandle url grp)
  show ?thesis unfolding LinkHandle cli_link.simps LinkCmd.case link_handle_def
    by (intro obeys_rules obeys_core_errors obeys_action)
next
  case LinkRegister
  show ?thesis unfolding LinkRegister cli_link.simps link_register_def by (intro obeys_rules)
qed

lemma obeys_systemd_cmd: "obeys (within_rights R) (cli_systemd env g cmd)"
  unfolding systemd_set_def
  by (cases cmd; simp only: cli_systemd.simps systemd_set_def; intro obeys_rules)


end
