(* ===== verification/CliProps.thy ===== *)
theory CliProps
  imports Cli "HOL-Library.Multiset"
begin

text \<open>What the commands of the command line compute: reordering, removing rules, presets, the routing in
  effect, the settings, and reaching the daemon.\<close>

section \<open>Reordering\<close>

lemma mset_insert_at: "mset (insert_at i x xs) = add_mset x (mset xs)"
proof -
  have "mset xs = mset (take i xs @ drop i xs)" by simp
  then show ?thesis unfolding insert_at_def mset_append by simp
qed

lemma mset_remove_at:
  assumes "i < length xs"
  shows "add_mset (xs ! i) (mset (remove_at i xs)) = mset xs"
proof -
  have "xs = take i xs @ xs ! i # drop (Suc i) xs" using assms by (rule id_take_nth_drop)
  then have "mset xs = mset (take i xs @ xs ! i # drop (Suc i) xs)" by simp
  then show ?thesis by (simp add: remove_at_def)
qed

lemma length_remove_at: "i < length xs \<Longrightarrow> length (remove_at i xs) = length xs - 1"
  by (simp add: remove_at_def)

lemma nth_insert_at: "i \<le> length xs \<Longrightarrow> insert_at i x xs ! i = x"
  by (simp add: insert_at_def nth_append)

lemma moved_facts:
  assumes "1 \<le> i" "i \<le> length xs" "1 \<le> j" "j \<le> length xs"
  shows "mset (moved_rule i j xs) = mset xs \<and> moved_rule i j xs ! (j - 1) = xs ! (i - 1)"
proof -
  have i: "i - 1 < length xs" using assms by simp
  have j: "j - 1 \<le> length (remove_at (i - 1) xs)" using assms length_remove_at [OF i] by simp
  show ?thesis
    unfolding moved_rule_def using mset_remove_at [OF i] nth_insert_at [OF j] by (simp add: mset_insert_at)
qed

lemma reordered_facts:
  assumes "k < length ids"
  shows "mset (reordered_ids ids k n) = mset ids \<and>
    reordered_ids ids k n ! min (n - 1) (length ids - 1) = ids ! k"
  using mset_remove_at [OF assms] length_remove_at [OF assms]
  by (auto simp: reordered_ids_def Let_def mset_insert_at intro: nth_insert_at)

text \<open>Moving a routing rule and moving a subscription never lose, double or invent an entry: the new
  order holds the same entries, and the one that was moved stands where it was asked for (an index past
  the end means the last place for a subscription).\<close>

theorem moving_permutes:
  assumes "1 \<le> i" "i \<le> length rules" "1 \<le> j" "j \<le> length rules" "k < length ids"
  shows "mset (moved_rule i j rules) = mset rules \<and> moved_rule i j rules ! (j - 1) = rules ! (i - 1) \<and>
    mset (reordered_ids ids k n) = mset ids \<and>
    reordered_ids ids k n ! min (n - 1) (length ids - 1) = ids ! k"
  using moved_facts [OF assms(1-4)] reordered_facts [OF assms(5)] by simp

theorem moving_permutes_witness:
  "moved_rule 1 3 ''abc'' = ''bca'' \<and> reordered_ids [10, 20, 30] 0 9 = [20, 30, 10] \<and>
   mset (moved_rule 1 3 ''abc'') = mset ''abc''"
  using moving_permutes [of 1 "''abc''" 3 0 "[10, 20, 30]" 9]
  by (simp add: moved_rule_def reordered_ids_def insert_at_def remove_at_def)

section \<open>Removing rules by number\<close>

lemma nths_all: "(\<And>j. j < length xs \<Longrightarrow> j \<in> A) \<Longrightarrow> nths xs A = xs"
  by (rule nths_all) simp

lemma nths_same:
  assumes "\<And>j. j < length xs \<Longrightarrow> j \<in> A \<longleftrightarrow> j \<in> B"
  shows "nths xs A = nths xs B"
proof -
  have "filter (\<lambda>p. snd p \<in> A) (zip xs [0..<length xs]) = filter (\<lambda>p. snd p \<in> B) (zip xs [0..<length xs])"
    by (rule filter_cong [OF refl]) (use assms in \<open>auto dest: set_zip_rightD\<close>)
  then show ?thesis by (simp add: nths_def)
qed

lemma remove_descending:
  assumes "sorted_wrt (>) ds" "\<And>d. d \<in> set ds \<Longrightarrow> 1 \<le> d \<and> d \<le> length xs"
  shows "fold (\<lambda>i ys. remove_at (i - 1) ys) ds xs = nths xs {j. Suc j \<notin> set ds}"
  using assms
proof (induction ds arbitrary: xs)
  case Nil
  show ?case by (simp add: CliProps.nths_all)
next
  case (Cons d ds)
  have d: "1 \<le> d" "d \<le> length xs" using Cons.prems(2) by simp_all
  have below: "x < d" if "x \<in> set ds" for x using Cons.prems(1) that by simp
  let ?a = "take (d - 1) xs" and ?b = "drop d xs"
  have xs: "xs = ?a @ xs ! (d - 1) # ?b"
    using id_take_nth_drop [of "d - 1" xs] d by simp
  have rm: "remove_at (d - 1) xs = ?a @ ?b" using d by (simp add: remove_at_def)
  have la: "length ?a = d - 1" using d by simp
  have IH: "fold (\<lambda>i ys. remove_at (i - 1) ys) ds (?a @ ?b) = nths (?a @ ?b) {j. Suc j \<notin> set ds}"
  proof (rule Cons.IH)
    show "sorted_wrt (>) ds" using Cons.prems(1) by simp
    show "1 \<le> x \<and> x \<le> length (?a @ ?b)" if "x \<in> set ds" for x
      using below [OF that] Cons.prems(2) [of x] that d by simp
  qed
  have keep: "nths ?b {j. j + length ?a \<in> {j. Suc j \<notin> set ds}} = ?b"
    by (rule CliProps.nths_all) (use below la d in fastforce)
  have keep2: "nths (xs ! (d - 1) # ?b) {j. j + length ?a \<in> {j. Suc j \<notin> set (d # ds)}} = ?b"
  proof -
    have "nths ?b {j. Suc j + length ?a \<in> {j. Suc j \<notin> set (d # ds)}} = ?b"
      by (rule CliProps.nths_all) (use below la d in fastforce)
    then show ?thesis using la d by (simp add: nths_Cons)
  qed
  have same: "nths ?a {j. Suc j \<notin> set ds} = nths ?a {j. Suc j \<notin> set (d # ds)}"
    by (rule nths_same) (use la d in auto)
  show ?case
    apply (subst (2) xs)
    using IH keep keep2 same rm by (simp add: nths_append)
qed

lemma strictly_sorted: "sorted (xs :: nat list) \<Longrightarrow> distinct_adj xs \<Longrightarrow> sorted_wrt (<) xs"
proof (induction xs)
  case (Cons x xs)
  show ?case
  proof (cases xs)
    case (Cons y ys)
    then have "x < y" "\<forall>z \<in> set ys. y \<le> z" using Cons.prems by (auto simp: order_less_le)
    then show ?thesis using Cons.IH Cons.prems Cons by auto
  qed simp
qed simp

lemma descending_indexes: "sorted_wrt (>) (rev (remdups_adj (sort (ixs :: nat list))))"
  by (simp add: sorted_wrt_rev strictly_sorted)

lemma remove_indexes_nths:
  assumes "bad_index (length xs) ixs = None"
  shows "remove_indexes ixs xs = nths xs {j. Suc j \<notin> set ixs}"
proof -
  have "1 \<le> d \<and> d \<le> length xs" if "d \<in> set ixs" for d
    using assms that by (auto simp: bad_index_def find_None_iff)
  then show ?thesis
    using remove_descending [OF descending_indexes, of ixs xs] by (simp add: remove_indexes_def)
qed

text \<open>C36: \<open>route rm\<close> removes exactly the rules whose numbers are given and keeps the others in their order:
  the numbers are those of the list as it is shown, in any order and with repetitions, although the
  rules are taken out one after the other.\<close>

theorem route_rm_removes_listed:
  assumes "bad_index (length rules) ixs = None"
  shows "act_on RemoveRules ixs rules = nths rules {j. Suc j \<notin> set ixs}"
  using remove_indexes_nths [OF assms] by (simp add: act_on_def)

theorem route_rm_removes_listed_witness:
  "map r_ip (act_on RemoveRules [3, 1, 3] (map (\<lambda>c. default_rule\<lparr>r_ip := [c]\<rparr>) ''abcd'')) = [''b'', ''d'']"
proof -
  have b: "bad_index (length (map (\<lambda>c. default_rule\<lparr>r_ip := [c]\<rparr>) ''abcd'')) [3, 1, 3] = None" by code_simp
  show ?thesis unfolding route_rm_removes_listed [OF b] by (simp add: nths_Cons)
qed

section \<open>Presets\<close>

lemma add_missing_agrees:
  assumes "list_all form_rule rules" "list_all r_enabled rules"
    and "pr_match_type pr \<in> {''geoip'', ''ip'', ''geosite'', ''domain'', ''protocol'', ''port''}"
    and "pr_value pr \<noteq> []"
  shows "add_missing (to_routing_rule pr) rules =
    (if find (matches_rule pr) rules \<noteq> None
     then update_first (matches_rule pr) (\<lambda>r. r\<lparr>r_enabled := True\<rparr>) rules
     else rules @ [to_routing_rule pr])"
proof -
  have "same_rule x (to_routing_rule pr) = matches_rule pr x" if "x \<in> set rules" for x
  proof -
    have f: "form_rule x" using assms(1) that by (simp add: list_all_iff)
    have one: "r_ip x = [] \<and> r_protocol x = [] \<and> r_port x = [] \<or> r_domain x = [] \<and> r_protocol x = [] \<and> r_port x = []
        \<or> r_domain x = [] \<and> r_ip x = [] \<and> r_port x = [] \<or> r_domain x = [] \<and> r_ip x = [] \<and> r_protocol x = []"
      using f by (simp add: form_rule_def)
    consider "pr_match_type pr = ''geoip''" | "pr_match_type pr = ''ip''" | "pr_match_type pr = ''geosite''"
      | "pr_match_type pr = ''domain''" | "pr_match_type pr = ''protocol''" | "pr_match_type pr = ''port''"
      using assms(3) by blast
    then show ?thesis using one assms(4)
      by cases (auto simp: same_rule_def to_routing_rule_def matches_rule_def default_rule_def Let_def)
  qed
  then have ex: "list_ex (\<lambda>x. same_rule x (to_routing_rule pr)) rules \<longleftrightarrow> find (matches_rule pr) rules \<noteq> None"
    by (auto simp: list_ex_iff find_None_iff)
  have "update_first (matches_rule pr) (\<lambda>r. r\<lparr>r_enabled := True\<rparr>) rules = rules"
    using assms(2) by (induction rules) auto
  then show ?thesis by (simp add: add_missing_def ex)
qed

definition known_preset_rule :: "PresetRule \<Rightarrow> bool" where
  "known_preset_rule pr \<longleftrightarrow> pr_value pr \<noteq> [] \<and> pr_outbound pr \<in> set OUTBOUND_LABELS \<and>
     pr_match_type pr \<in> {''geoip'', ''ip'', ''geosite'', ''domain'', ''protocol'', ''port''}"

lemma presets_known: "list_all (\<lambda>p. list_all known_preset_rule (ps_rules p)) ROUTING_PRESETS"
  by code_simp

lemma preset_rule_form: "known_preset_rule pr \<Longrightarrow> form_rule (to_routing_rule pr)"
  by (simp add: known_preset_rule_def form_rule_def to_routing_rule_def default_rule_def Let_def)

lemma apply_rules_agree:
  assumes "list_all form_rule rules" "list_all r_enabled rules" "list_all known_preset_rule prs"
  shows "fold (\<lambda>pr. add_missing (to_routing_rule pr)) prs rules = apply_rules prs rules"
  using assms
proof (induction prs arbitrary: rules)
  case (Cons pr prs)
  have pr: "known_preset_rule pr" using Cons.prems by simp
  then have step: "add_missing (to_routing_rule pr) rules =
    (if find (matches_rule pr) rules \<noteq> None
     then update_first (matches_rule pr) (\<lambda>r. r\<lparr>r_enabled := True\<rparr>) rules
     else rules @ [to_routing_rule pr])"
    using add_missing_agrees [OF Cons.prems(1,2), of pr] by (simp add: known_preset_rule_def)
  have "list_all form_rule (add_missing (to_routing_rule pr) rules)"
    "list_all r_enabled (add_missing (to_routing_rule pr) rules)"
    using Cons.prems(1,2) preset_rule_form [OF pr] by (auto simp: add_missing_def to_routing_rule_enabled)
  then show ?case using Cons.IH Cons.prems(3) by (simp add: step)
qed simp


definition torrent_config :: "bool \<Rightarrow> RoutingConfig" where
  "torrent_config b =
     \<lparr>rc_domain_strategy = [], rc_rules = [default_rule\<lparr>r_type := ''field'', r_protocol := ''bittorrent'',
        r_outbound_tag := ''block'', r_enabled := b\<rparr>], rc_dns = None\<rparr>"

definition torrent_preset :: RoutingPreset where
  "torrent_preset = ROUTING_PRESETS ! 7"


text \<open>With a rule of the preset that is switched off the two differ: the command line reports the preset
  as applied and leaves it off, where the interface switches the rule on.\<close>

lemma cli_preset_leaves_disabled:
  "with_preset True torrent_preset (rc_rules (torrent_config False)) = rc_rules (torrent_config False)"
  "\<not> is_applied torrent_preset
       (torrent_config False\<lparr>rc_rules := with_preset True torrent_preset (rc_rules (torrent_config False))\<rparr>)"
  "is_applied torrent_preset (apply_preset (torrent_config False) torrent_preset)"
  by code_simp+

section \<open>The routing in effect\<close>

lemma usable_active: "usable_profile a = Some p \<Longrightarrow> a = Some p \<and> rp_rules_count p > 0"
  by (auto simp: usable_profile_def split: option.splits if_splits)

lemma usable_none: "usable_profile None = None"
  by (simp add: usable_profile_def)


section \<open>Reaching the daemon\<close>

lemma session_open_next:
  assumes "cli_endpoint env g (cl_file s) = Inr ep"
  shows "cl_conns s = Inl e # rest \<Longrightarrow> \<exists>x. session_open env g s = (Inl x, s\<lparr>cl_conns := rest\<rparr>)"
    and "cl_conns s = Inr frames # rest \<Longrightarrow>
      fst (session_open env g s) = Inr () \<and> cl_conns (snd (session_open env g s)) = rest \<and>
      cl_arrivals (snd (session_open env g s)) = frames"
  using assms by (simp_all add: session_open_def andThen_def take_conn_def from_conn_def)

lemma retry_reaches:
  assumes "cli_endpoint env g (cl_file s) = Inr ep"
    and "cl_conns s = map Inl es @ Inr frames # rest" "length es < n"
  shows "fst (retry_open n e env g s) = Inr () \<and> cl_conns (snd (retry_open n e env g s)) = rest \<and>
    cl_arrivals (snd (retry_open n e env g s)) = frames"
  using assms
proof (induction n arbitrary: s es)
  case (Suc n)
  show ?case
  proof (cases es)
    case Nil
    obtain r t where o: "session_open env g s = (r, t)" by fastforce
    then have "r = Inr ()" "cl_conns t = rest" "cl_arrivals t = frames"
      using session_open_next(2) [OF Suc.prems(1), of frames rest] Suc.prems(2) Nil by simp_all
    then show ?thesis using o by simp
  next
    case (Cons x xs)
    then obtain y where "session_open env g s = (Inl y, s\<lparr>cl_conns := map Inl xs @ Inr frames # rest\<rparr>)"
      using session_open_next(1) [OF Suc.prems(1)] Suc.prems(2) by fastforce
    then show ?thesis using Suc.IH [of "s\<lparr>cl_conns := map Inl xs @ Inr frames # rest\<rparr>" xs] Suc.prems Cons
      by simp
  qed
qed simp


definition sample_env :: CliEnv where
  "sample_env =
     \<lparr>ce_lc = id, ce_xdg = None, ce_uid = 1000, ce_pid = 1, ce_nanos = id, ce_write = (\<lambda>_. None),
      ce_spawn = (\<lambda>_. None), ce_save = (\<lambda>_. None), ce_stdin = Inr [], ce_config_json = None,
      ce_systemd_enabled = False, ce_systemctl_restart = None, ce_register_desktop = None,
      ce_setup_systemd = None, ce_teardown_systemd = None, ce_linger = False, ce_unit_path = [],
      ce_core_binary = ''whoisthat-core'', ce_has_caps = True, ce_tui_version = [], ce_http = (\<lambda>_. None),
      ce_date = (\<lambda>_. None), ce_now = 0,
      ce_parse_time = (\<lambda>_ _. None), ce_dirs = sample_dirs, ce_follow = []\<rparr>"

definition sample_cli :: "(string + arrivals) list \<Rightarrow> Cli" where
  "sample_cli conns =
     \<lparr>cl_conns = conns, cl_arrivals = [], cl_sent = [], cl_timeout = 0, cl_warnings = [],
      cl_cfg = default_config, cl_file = default_config, cl_out = [], cl_seq = 0, cl_spawned = 0,
      cl_disk = \<lparr>dk_files = [], dk_fail = (\<lambda>_ _. None)\<rparr>\<rparr>"


section \<open>Settings\<close>

lemma validated_port:
  assumes "validate_int v 1 65535 k = None"
  shows "\<exists>p. parse_unsigned 16 v = Some p \<and> 1 \<le> p"
proof -
  obtain n where n: "parse_i64 v = Some n" "1 \<le> n" "n \<le> 65535"
    using assms by (auto simp: validate_int_def split: option.splits if_splits)
  then obtain b r where v: "v = b # r" by (auto simp: parse_i64_def split: list.splits)
  obtain m where m: "parse_nat (if b = CHR ''+'' \<or> b = CHR ''-'' then r else v) = Some m"
    and nm: "n = (if b = CHR ''-'' then - int m else int m)"
    using n(1) by (auto simp: parse_i64_def v Let_def split: option.splits if_splits)
  have "b \<noteq> CHR ''-''" "n = int m" using n(2) nm by (auto split: if_splits)
  then show ?thesis using m n v by (auto simp: parse_unsigned_def)
qed

lemma validated_bool_applies:
  assumes "is_bool_key k" "k \<in> set LOCAL_KEYS" "validate lc k v = None"
  shows "\<exists>b. parse_bool lc v = Inr b"
  using assms(1,3) by (auto simp: validate_def bool_error_def split: sum.splits)

lemma local_bools: "list_all (\<lambda>k. (\<exists>b. parse_bool lc v = Inr b) \<longrightarrow> (\<exists>c'. apply_local lc k v c = Inr c'))
    [''show-ip'', ''log-enabled'', ''check-updates'', ''core.use-tcp'']"
  by (auto simp: apply_local_def map_ok_def)

lemma local_free: "list_all (\<lambda>k. \<exists>c'. apply_local lc k v c = Inr c') [''terminal'', ''core.host'', ''core.socket'']"
  by (simp add: apply_local_def)

lemma local_theme: "validate lc ''theme'' v = None \<Longrightarrow> \<exists>c'. apply_local lc ''theme'' v c = Inr c'"
  by (simp add: validate_def apply_local_def is_bool_key_def BOOL_KEYS_def split: if_splits)

lemma local_level: "validate lc ''log-level'' v = None \<Longrightarrow> \<exists>c'. apply_local lc ''log-level'' v c = Inr c'"
  by (simp add: validate_def apply_local_def is_bool_key_def BOOL_KEYS_def one_of_def split: if_splits)

lemma local_method: "validate lc ''test-method'' v = None \<Longrightarrow> \<exists>c'. apply_local lc ''test-method'' v c = Inr c'"
  by (simp add: validate_def apply_local_def is_bool_key_def BOOL_KEYS_def one_of_def split: if_splits)

lemma local_port:
  assumes "validate lc ''core.port'' v = None"
  shows "\<exists>c'. apply_local lc ''core.port'' v c = Inr c'"
proof -
  have "validate_int v 1 65535 ''core.port'' = None"
    using assms by (simp add: validate_def is_bool_key_def BOOL_KEYS_def)
  then obtain p where "parse_unsigned 16 v = Some p" using validated_port by blast
  then show ?thesis by (simp add: apply_local_def)
qed

lemma local_cases:
  "set LOCAL_KEYS = set [''show-ip'', ''log-enabled'', ''check-updates'', ''core.use-tcp''] \<union>
     set [''terminal'', ''core.host'', ''core.socket''] \<union> {''theme'', ''log-level'', ''test-method'', ''core.port''}"
  by code_simp

lemma validated_local_applies:
  assumes "validate lc k v = None" "k \<in> set LOCAL_KEYS"
  shows "\<exists>c'. apply_local lc k v c = Inr c'"
proof -
  have bools: "list_all is_bool_key [''show-ip'', ''log-enabled'', ''check-updates'', ''core.use-tcp'']"
    by code_simp
  consider "k \<in> set [''show-ip'', ''log-enabled'', ''check-updates'', ''core.use-tcp'']"
    | "k \<in> set [''terminal'', ''core.host'', ''core.socket'']"
    | "k \<in> {''theme'', ''log-level'', ''test-method'', ''core.port''}"
    using assms(2) unfolding local_cases by blast
  then show ?thesis
  proof cases
    case 1
    then have "is_bool_key k" using bools unfolding list_all_iff by blast
    then have "\<exists>b. parse_bool lc v = Inr b" using validated_bool_applies assms by blast
    then show ?thesis using local_bools [of lc v c] 1 unfolding list_all_iff by blast
  next
    case 2
    then show ?thesis using local_free [of lc v c] unfolding list_all_iff by blast
  next
    case 3
    then show ?thesis using assms(1) local_theme local_level local_method local_port by blast
  qed
qed

lemma canonical_known:
  assumes "canonical_key key = Inr k"
  shows "is_core_key k \<or> k \<in> set READONLY_KEYS \<or> k \<in> set LOCAL_KEYS"
proof -
  define t where "t = (if trim key = ''killswitch'' \<or> trim key = ''kill_switch'' then ''kill-switch'' else trim key)"
  show ?thesis
  proof (cases "is_core_key t \<or> t \<in> set READONLY_KEYS \<or> t \<in> set LOCAL_KEYS")
    case True
    then have "k = t" using assms by (simp only: canonical_key_def Let_def t_def [symmetric] if_True sum.inject)
    then show ?thesis using True by simp
  next
    case False
    then show ?thesis using assms by (simp only: canonical_key_def Let_def t_def [symmetric] if_False sum.distinct)
  qed
qed

lemma parsed_assignment:
  assumes "parse_assignment lc a = Inr kv"
  shows "validate lc (fst kv) (snd kv) = None \<and> (is_core_key (fst kv) \<or> fst kv \<in> set LOCAL_KEYS)"
proof -
  obtain key v where a: "split_once (CHR ''='') a = Some (key, v)"
    using assms by (auto simp: parse_assignment_def split: option.splits)
  obtain k where k: "canonical_key key = Inr k"
    using assms a by (cases "canonical_key key") (simp_all add: parse_assignment_def)
  have "k \<notin> set READONLY_KEYS" "validate lc k v = None" "kv = (k, v)"
    using assms by (auto simp: parse_assignment_def a k split: if_splits option.splits)
  then show ?thesis using canonical_known [OF k] by simp
qed

lemma parsed_assignments:
  assumes "parse_assignments lc as = Inr kvs" "(k, v) \<in> set kvs"
  shows "validate lc k v = None \<and> (is_core_key k \<or> k \<in> set LOCAL_KEYS)"
  using assms
proof (induction as arbitrary: kvs)
  case (Cons a as)
  obtain kv where kv: "parse_assignment lc a = Inr kv"
    using Cons.prems(1) by (auto split: sum.splits)
  obtain rest where rest: "parse_assignments lc as = Inr rest" "kvs = kv # rest"
    using Cons.prems(1) kv by (auto simp: map_ok_def split: sum.splits)
  have "validate lc (fst kv) (snd kv) = None \<and> (is_core_key (fst kv) \<or> fst kv \<in> set LOCAL_KEYS)"
    by (rule parsed_assignment [OF kv])
  then show ?case using Cons.IH [OF rest(1)] Cons.prems(2) rest(2) by (cases kv) auto
qed simp

lemma locals_apply:
  "(\<And>k v. (k, v) \<in> set kvs \<Longrightarrow> validate lc k v = None \<and> k \<in> set LOCAL_KEYS) \<Longrightarrow>
   \<exists>c'. apply_locals lc kvs c = Inr c'"
proof (induction kvs arbitrary: c)
  case (Cons kv kvs)
  obtain c' where "apply_local lc (fst kv) (snd kv) c = Inr c'"
    using Cons.prems [of "fst kv" "snd kv"] validated_local_applies by fastforce
  moreover have "\<exists>c''. apply_locals lc kvs c' = Inr c''" by (rule Cons.IH) (use Cons.prems in \<open>meson list.set_intros(2)\<close>)
  ultimately show ?case by (cases kv) simp
qed simp

text \<open>C38: \<open>settings set\<close> checks every assignment before it does anything: if one of them is not accepted the
  command fails with nothing sent, nothing saved and no daemon started; and if all are accepted, the
  local ones can be carried out on any configuration, so that a configuration is never half changed.\<close>

theorem settings_checked_first:
  "case parse_assignments (ce_lc env) as of
     Inl e \<Rightarrow> \<exists>x. set_values env g as force s = (Inl x, s)
   | Inr kvs \<Rightarrow> \<exists>c'. apply_locals (ce_lc env) (filter (\<lambda>kv. \<not> is_core_key (fst kv)) kvs) (cl_file s) = Inr c'"
proof (cases "parse_assignments (ce_lc env) as")
  case (Inl e)
  then show ?thesis by (auto simp: set_values_def andThen_def)
next
  case (Inr kvs)
  show ?thesis unfolding Inr sum.case
    by (rule locals_apply) (use parsed_assignments [OF Inr] in auto)
qed

definition stored_value :: "(string \<Rightarrow> string) \<Rightarrow> string \<Rightarrow> string \<Rightarrow> json" where
  "stored_value lc k v =
     (if is_bool_key k then JBool (parse_bool lc v = Inr True)
      else if k = ''core.port'' then JInt (case parse_unsigned 16 v of Some p \<Rightarrow> int p | None \<Rightarrow> 0)
      else if k = ''terminal'' then JStr (trim v) else JStr v)"

definition sets_only :: "string \<Rightarrow> json \<Rightarrow> AppConfig \<Rightarrow> AppConfig \<Rightarrow> bool" where
  "sets_only k j c c' \<longleftrightarrow>
     list_all (\<lambda>q. local_value c' q = (if q = k then Some j else local_value c q)) LOCAL_KEYS"

lemma sets_only_text:
  "sets_only ''theme'' (JStr v) c (c\<lparr>c_theme := v\<rparr>)" "sets_only ''log-level'' (JStr v) c (c\<lparr>c_log_level := v\<rparr>)"
  "sets_only ''terminal'' (JStr v) c (c\<lparr>c_terminal := v\<rparr>)"
  "sets_only ''test-method'' (JStr v) c (c\<lparr>c_test_method := v\<rparr>)"
  "sets_only ''core.host'' (JStr v) c (c\<lparr>c_core_host := v\<rparr>)"
  "sets_only ''core.socket'' (JStr v) c (c\<lparr>c_ipc_socket_path := v\<rparr>)"
  "sets_only ''core.port'' (JInt (int p)) c (c\<lparr>c_core_tcp_port := p\<rparr>)"
  by (simp_all add: sets_only_def LOCAL_KEYS_def local_value_def)

lemma sets_only_bool:
  "sets_only ''show-ip'' (JBool b) c (c\<lparr>c_show_ip := b\<rparr>)"
  "sets_only ''log-enabled'' (JBool b) c (c\<lparr>c_log_enabled := b\<rparr>)"
  "sets_only ''check-updates'' (JBool b) c (c\<lparr>c_check_updates := b\<rparr>)"
  "sets_only ''core.use-tcp'' (JBool b) c (c\<lparr>c_use_tcp := b\<rparr>)"
  by (simp_all add: sets_only_def LOCAL_KEYS_def local_value_def)

lemma stored_simps:
  "stored_value lc ''theme'' v = JStr v" "stored_value lc ''log-level'' v = JStr v"
  "stored_value lc ''terminal'' v = JStr (trim v)" "stored_value lc ''test-method'' v = JStr v"
  "stored_value lc ''core.host'' v = JStr v" "stored_value lc ''core.socket'' v = JStr v"
  "stored_value lc ''core.port'' v = JInt (case parse_unsigned 16 v of Some p \<Rightarrow> int p | None \<Rightarrow> 0)"
  "stored_value lc ''show-ip'' v = JBool (parse_bool lc v = Inr True)"
  "stored_value lc ''log-enabled'' v = JBool (parse_bool lc v = Inr True)"
  "stored_value lc ''check-updates'' v = JBool (parse_bool lc v = Inr True)"
  "stored_value lc ''core.use-tcp'' v = JBool (parse_bool lc v = Inr True)"
  by (simp_all add: stored_value_def is_bool_key_def BOOL_KEYS_def)

lemma map_ok_bool: "map_ok f (parse_bool lc v) = Inr c' \<Longrightarrow> c' = f (parse_bool lc v = Inr True)"
  by (auto simp: map_ok_def split: sum.splits)

lemma apply_local_sets:
  assumes "apply_local lc k v c = Inr c'"
  shows "sets_only k (stored_value lc k v) c c'"
proof -
  consider "k = ''theme''"
    | "k = ''show-ip''"
    | "k = ''log-enabled''"
    | "k = ''log-level''"
    | "k = ''terminal''"
    | "k = ''test-method''"
    | "k = ''check-updates''"
    | "k = ''core.host''"
    | "k = ''core.port''"
    | "k = ''core.use-tcp''"
    | "k = ''core.socket''"
    | "apply_local lc k v c = Inl (Usage (''unknown local setting '' @ quoted k))"
    unfolding apply_local_def by argo
  then show ?thesis
  proof cases
    case 1
    show ?thesis by (use assms in \<open>auto simp: 1 apply_local_def stored_simps sets_only_text split: if_splits option.splits\<close>)
  next
    case 2
    show ?thesis by (use assms map_ok_bool in \<open>fastforce simp: 2 apply_local_def stored_simps sets_only_bool\<close>)
  next
    case 3
    show ?thesis by (use assms map_ok_bool in \<open>fastforce simp: 3 apply_local_def stored_simps sets_only_bool\<close>)
  next
    case 4
    show ?thesis by (use assms in \<open>auto simp: 4 apply_local_def stored_simps sets_only_text split: if_splits option.splits\<close>)
  next
    case 5
    show ?thesis by (use assms in \<open>auto simp: 5 apply_local_def stored_simps sets_only_text split: if_splits option.splits\<close>)
  next
    case 6
    show ?thesis by (use assms in \<open>auto simp: 6 apply_local_def stored_simps sets_only_text split: if_splits option.splits\<close>)
  next
    case 7
    show ?thesis by (use assms map_ok_bool in \<open>fastforce simp: 7 apply_local_def stored_simps sets_only_bool\<close>)
  next
    case 8
    show ?thesis by (use assms in \<open>auto simp: 8 apply_local_def stored_simps sets_only_text split: if_splits option.splits\<close>)
  next
    case 9
    show ?thesis by (use assms in \<open>auto simp: 9 apply_local_def stored_simps sets_only_text split: if_splits option.splits\<close>)
  next
    case 10
    show ?thesis by (use assms map_ok_bool in \<open>fastforce simp: 10 apply_local_def stored_simps sets_only_bool\<close>)
  next
    case 11
    show ?thesis by (use assms in \<open>auto simp: 11 apply_local_def stored_simps sets_only_text split: if_splits option.splits\<close>)
  next
    case 12
    then show ?thesis using assms by simp
  qed
qed

text \<open>A local setting reads back as it was set: after \<open>settings set KEY=VALUE\<close> the key has the value that
  was given (a switch as a truth value, the port as a number, the terminal without blanks around it),
  and every other local setting keeps its own.\<close>

theorem setting_reads_back:
  assumes "apply_local lc k v c = Inr c'"
  shows "list_all (\<lambda>q. local_value c' q = (if q = k then Some (stored_value lc k v) else local_value c q)) LOCAL_KEYS"
  using apply_local_sets [OF assms] by (simp add: sets_only_def)

theorem setting_reads_back_witness:
  "map_ok (\<lambda>c. (local_value c ''core.port'', local_value c ''core.host''))
     (apply_local id ''core.port'' ''4900'' default_config) = Inr (Some (JInt 4900), Some (JStr ''127.0.0.1''))"
proof -
  let ?c = "default_config\<lparr>c_core_tcp_port := 4900\<rparr>"
  have p: "parse_unsigned 16 ''4900'' = Some 4900"
    by (simp add: parse_unsigned_def parse_nat_def is_digit_def digits_value_def)
  have a: "apply_local id ''core.port'' ''4900'' default_config = Inr ?c"
    by (simp add: apply_local_def p)
  have "list_all (\<lambda>q. local_value ?c q = (if q = ''core.port'' then Some (stored_value id ''core.port'' ''4900'')
      else local_value default_config q)) LOCAL_KEYS" by (rule setting_reads_back [OF a])
  then have "local_value ?c ''core.port'' = Some (JInt 4900) \<and>
      local_value ?c ''core.host'' = local_value default_config ''core.host''"
    by (simp add: LOCAL_KEYS_def stored_simps p)
  then show ?thesis unfolding a map_ok_def sum.case by (simp add: local_value_def default_config_def)
qed

end
